(* ===== verification/Go_Prelude.thy ===== *)
theory Go_Prelude
  imports Main "HOL-Library.Word" "HOL-Library.Char_ord" "HOL-Library.List_Lexorder"
    "HOL-Library.Multiset" "HOL-Library.Sublist" "HOL-Library.AList"
begin

text \<open>
  Shared vocabulary of the development.

  Go values are read as follows.  A Go \<open>string\<close> is a list of bytes (\<^typ>\<open>string\<close>), ordered
  bytewise as Go orders strings.  A Go map is an association list with distinct keys
  (\<open>wf_map\<close>); the order of the list is the order in which one \<open>range\<close> statement happens to
  visit the map, which Go leaves unspecified, so a result that must not depend on it is proved
  invariant under permutations of the list.  A \<open>uint32\<close> is a \<open>32 word\<close> and a \<open>uint64\<close> a
  \<open>64 word\<close>.  A \<open>time.Time\<close> is a number of nanoseconds.  A pointer that may be \<open>nil\<close> is an
  option.  A call that may fail returns a value of \<open>go_error + 'a\<close>.
  The theory also holds the loop that keeps the best element seen so far, which all policy
  matchers share, with its contract stated once in a locale.
\<close>

named_theorems go_maps \<open>lookups after the statements that change a map\<close>

type_synonym u32 = "32 word"
type_synonym u64 = "64 word"
type_synonym gotime = int
type_synonym ('k, 'v) gomap = "('k \<times> 'v) list"
type_synonym tags = "(string, string) gomap"

section \<open>Go maps\<close>

definition wf_map :: "('k, 'v) gomap \<Rightarrow> bool" where
  "wf_map m \<longleftrightarrow> distinct (map fst m)"

text \<open>The statement \<open>m[k] = v\<close>.\<close>

abbreviation gput :: "'k \<Rightarrow> 'v \<Rightarrow> ('k, 'v) gomap \<Rightarrow> ('k, 'v) gomap" where
  "gput \<equiv> AList.update"

text \<open>The statement \<open>delete(m, k)\<close>.\<close>

abbreviation gdel :: "'k \<Rightarrow> ('k, 'v) gomap \<Rightarrow> ('k, 'v) gomap" where
  "gdel \<equiv> AList.delete"

text \<open>The expression \<open>m[k]\<close> on a map of strings: the zero value when the key is absent.\<close>

definition gstr :: "('k, string) gomap \<Rightarrow> 'k \<Rightarrow> string" where
  "gstr m k = (case map_of m k of None \<Rightarrow> '''' | Some v \<Rightarrow> v)"

lemma wf_map_Nil [simp]: "wf_map []"
  by (simp add: wf_map_def)

lemma wf_map_gput [simp]: "wf_map m \<Longrightarrow> wf_map (gput k v m)"
  by (simp add: wf_map_def distinct_update)

lemma wf_map_gdel [simp]: "wf_map m \<Longrightarrow> wf_map (gdel k m)"
  by (simp add: wf_map_def distinct_delete)

lemma map_of_gput [go_maps]: "map_of (gput k v m) k' = (if k' = k then Some v else map_of m k')"
  by (simp add: update_conv')

lemma map_of_gdel [go_maps]: "map_of (gdel k m) k' = (if k' = k then None else map_of m k')"
  by (simp add: delete_conv')

lemma map_of_mset_eq:
  assumes "wf_map m" and "mset m = mset m'"
  shows "map_of m = map_of m'"
proof -
  have "mset (map fst m) = mset (map fst m')"
    using assms(2) by (metis mset_map)
  then have "wf_map m'"
    using assms(1) unfolding wf_map_def by (metis mset_eq_imp_distinct_iff)
  moreover have "set m = set m'"
    using assms(2) by (metis set_mset_mset)
  ultimately show ?thesis
    using assms(1) by (simp add: wf_map_def map_of_inject_set)
qed

lemma wf_map_mset_eq: "wf_map m \<Longrightarrow> mset m = mset m' \<Longrightarrow> wf_map m'"
  unfolding wf_map_def by (metis mset_eq_imp_distinct_iff mset_map)

section \<open>Errors\<close>

text \<open>
  The errors of the program.  \<open>ErrString\<close> is an error made by \<open>errors.New\<close>, \<open>errors.Errorf\<close>
  or \<open>fmt.Errorf\<close>; \<open>ErrWrap\<close> is \<open>errors.Wrap\<close>; the next two constructors are the error types
  the code recognises by a type assertion: \<open>validators.ValidationError\<close> and
  \<open>manager.MeshNotFoundError\<close>.  \<open>ErrPanic\<close> stands for a run-time panic, which no caller in the
  modelled code recovers from.
\<close>

record violation =
  Field :: string
  Message :: string

datatype go_error =
    ErrString string
  | ErrWrap go_error string
  | ErrValidation "violation list"
  | ErrMeshNotFound string
  | ErrPanic string

section \<open>Sequencing calls that may fail\<close>

definition bindE :: "'err + 'x \<Rightarrow> ('x \<Rightarrow> 'err + 'y) \<Rightarrow> 'err + 'y" where
  "bindE call next_step = (case call of Inr v \<Rightarrow> next_step v | Inl err \<Rightarrow> Inl err)"

lemma bindE_simps [simp]:
  "bindE (Inl e) f = Inl e"
  "bindE (Inr x) f = f x"
  by (simp_all add: bindE_def)

lemma bindE_Inr: "bindE m f = Inr y \<longleftrightarrow> (\<exists>x. m = Inr x \<and> f x = Inr y)"
  by (cases m) auto

lemma bindE_Inl: "bindE m f = Inl e \<longleftrightarrow> m = Inl e \<or> (\<exists>x. m = Inr x \<and> f x = Inl e)"
  by (cases m) auto

lemma bindE_cong [fundef_cong]:
  "m = m' \<Longrightarrow> (\<And>x. m' = Inr x \<Longrightarrow> f x = f' x) \<Longrightarrow> bindE m f = bindE m' f'"
  by (cases m') auto

text \<open>
  A call whose error is replaced before it is returned; a panic passes through.  \<open>errors.Wrap\<close>
  is such a replacement.
\<close>

definition map_error :: "(go_error \<Rightarrow> go_error) \<Rightarrow> go_error + 'a \<Rightarrow> go_error + 'a" where
  "map_error f m =
     (case m of
        Inl e \<Rightarrow> (case e of ErrPanic p \<Rightarrow> Inl (ErrPanic p) | _ \<Rightarrow> Inl (f e))
      | Inr x \<Rightarrow> Inr x)"

lemma map_error_Inr [simp]: "map_error f m = Inr x \<longleftrightarrow> m = Inr x"
  by (cases m) (auto simp: map_error_def split: go_error.splits)

lemma map_error_of_Inr [simp]: "map_error f (Inr x) = Inr x"
  by (simp add: map_error_def)

definition wrap_err :: "(go_error + 'a) \<Rightarrow> string \<Rightarrow> go_error + 'a" where
  "wrap_err m msg = map_error (\<lambda>e. ErrWrap e msg) m"

lemma wrap_err_Inr [simp]: "wrap_err m msg = Inr x \<longleftrightarrow> m = Inr x"
  by (simp add: wrap_err_def)

lemma wrap_err_of_Inr [simp]: "wrap_err (Inr x) msg = Inr x"
  by (simp add: wrap_err_def)

text \<open>A loop that calls a fallible function on every element and stops at the first error.\<close>

fun mapE :: "('a \<Rightarrow> 'e + 'b) \<Rightarrow> 'a list \<Rightarrow> 'e + 'b list" where
  "mapE f [] = Inr []"
| "mapE f (x # xs) = bindE (f x) (\<lambda>y. bindE (mapE f xs) (\<lambda>ys. Inr (y # ys)))"

lemma mapE_Inr_length: "mapE f xs = Inr ys \<Longrightarrow> length ys = length xs"
  by (induction xs arbitrary: ys) (auto simp: bindE_Inr)

lemma mapE_Inr_iff: "mapE f xs = Inr ys \<longleftrightarrow> list_all2 (\<lambda>x y. f x = Inr y) xs ys"
  by (induction xs arbitrary: ys) (auto simp: bindE_Inr list_all2_Cons1)

section \<open>Keeping the best element\<close>

text \<open>
  The matchers of \<open>pkg/core/policy\<close> walk over candidates and replace the current choice when
  the next candidate is strictly better.  \<open>keep_best\<close> is that loop.
\<close>

fun keep_best :: "('a \<Rightarrow> 'a \<Rightarrow> bool) \<Rightarrow> 'a option \<Rightarrow> 'a list \<Rightarrow> 'a option" where
  "keep_best better acc [] = acc"
| "keep_best better acc (x # xs) =
     keep_best better
       (case acc of None \<Rightarrow> Some x | Some b \<Rightarrow> if better x b then Some x else Some b) xs"

lemma keep_best_append: "keep_best b acc (xs @ ys) = keep_best b (keep_best b acc xs) ys"
  by (induction xs arbitrary: acc) auto

lemma keep_best_None_iff [simp]: "keep_best b acc xs = None \<longleftrightarrow> acc = None \<and> xs = []"
  by (induction xs arbitrary: acc) (auto split: option.splits)

lemma keep_best_in:
  "keep_best b acc xs = Some y \<Longrightarrow> y \<in> set xs \<or> acc = Some y"
proof (induction xs arbitrary: acc)
  case Nil
  then show ?case by simp
next
  case (Cons x xs)
  then show ?case by (fastforce split: option.splits if_splits)
qed

lemma keep_best_map:
  assumes "\<And>x y. better' (f x) (f y) = better x y"
  shows "keep_best better' (map_option f acc) (map f xs) = map_option f (keep_best better acc xs)"
proof (induction xs arbitrary: acc)
  case Nil
  then show ?case by simp
next
  case (Cons x xs)
  have "(case map_option f acc of None \<Rightarrow> Some (f x)
          | Some b \<Rightarrow> if better' (f x) b then Some (f x) else Some b) =
        map_option f (case acc of None \<Rightarrow> Some x | Some b \<Rightarrow> if better x b then Some x else Some b)"
    using assms by (cases acc) auto
  then show ?case using Cons by simp
qed

text \<open>
  The contract the loop needs of the comparison: \<open>better\<close> is a strict weak order.  Then the
  element kept is beaten by none, and it is the first of the equally good ones.
\<close>

locale ranking =
  fixes better :: "'a \<Rightarrow> 'a \<Rightarrow> bool"
  assumes better_asym: "better x y \<Longrightarrow> \<not> better y x"
    and better_negtrans: "\<not> better x y \<Longrightarrow> \<not> better y z \<Longrightarrow> \<not> better x z"
begin

lemma better_irrefl [simp]: "\<not> better x x"
  using better_asym by blast

lemma better_trans: "better x y \<Longrightarrow> better y z \<Longrightarrow> better x z"
  using better_asym better_negtrans by blast

lemma kept_improves:
  "keep_best better (Some a) xs = Some y \<Longrightarrow> y = a \<or> better y a"
proof (induction xs arbitrary: a)
  case Nil
  then show ?case by simp
next
  case (Cons x xs)
  then show ?case
    using better_trans by (auto split: if_splits)
qed

lemma kept_is_best:
  "keep_best better acc xs = Some y \<Longrightarrow> x \<in> set xs \<Longrightarrow> \<not> better x y"
proof (induction xs arbitrary: acc)
  case Nil
  then show ?case by simp
next
  case (Cons z xs)
  let ?acc = "case acc of None \<Rightarrow> Some z | Some b \<Rightarrow> if better z b then Some z else Some b"
  have step: "keep_best better ?acc xs = Some y" using Cons.prems by simp
  show ?case
  proof (cases "x \<in> set xs")
    case True
    then show ?thesis using Cons.IH step by blast
  next
    case False
    then have "x = z" using Cons.prems by simp
    obtain w where w: "?acc = Some w" by (cases acc; cases "better z (the acc)") auto
    then have "\<not> better z w"
      by (cases acc) (auto split: if_splits dest: better_asym)
    moreover have "\<not> better w y"
      using step w kept_improves better_asym better_irrefl by metis
    ultimately show ?thesis using \<open>x = z\<close> better_negtrans by blast
  qed
qed

lemma kept_is_first:
  "keep_best better None xs = Some y \<Longrightarrow>
     \<exists>as bs. xs = as @ y # bs \<and> (\<forall>a \<in> set as. better y a)"
proof (induction xs arbitrary: y rule: rev_induct)
  case Nil
  then show ?case by simp
next
  case (snoc x xs)
  show ?case
  proof (cases "keep_best better None xs")
    case None
    then have "xs @ [x] = [] @ y # []" using snoc.prems by (simp add: keep_best_append)
    then show ?thesis by fastforce
  next
    case (Some b)
    show ?thesis
    proof (cases "better x b")
      case True
      then have "y = x" using snoc.prems Some by (simp add: keep_best_append)
      moreover have "better x a" if "a \<in> set xs" for a
        using that True Some kept_is_best better_negtrans by blast
      ultimately show ?thesis by blast
    next
      case False
      then have "y = b" using snoc.prems Some by (simp add: keep_best_append)
      then show ?thesis using snoc.IH [OF Some] by (metis append.assoc append_Cons)
    qed
  qed
qed

end

end
