(* ===== verification/Go_Strings.thy ===== *)
theory Go_Strings
  imports Go_Prelude
begin

text \<open>
  The parts of Go's standard library (Go 1.12) that the modelled code calls on strings:
  \<open>strconv\<close> (decimal printing, \<open>ParseUint\<close>, \<open>Atoi\<close>, \<open>Quote\<close>), \<open>strings\<close> (\<open>Join\<close>, \<open>Split\<close>,
  \<open>SplitN\<close>, \<open>LastIndex\<close>) and \<open>net\<close> (\<open>SplitHostPort\<close>, \<open>ParseIP\<close>, \<open>IP.Equal\<close>,
  \<open>IP.IsUnspecified\<close>).  Bytes at or above 0x80 are passed through by \<open>Quote\<close>: the
  Unicode tables behind that function are not modelled, and no result other than the text of a
  message depends on them.
\<close>

section \<open>Decimal numbers\<close>

definition is_digit :: "char \<Rightarrow> bool" where
  "is_digit c \<longleftrightarrow> 48 \<le> (of_char c :: nat) \<and> (of_char c :: nat) \<le> 57"

definition digit_val :: "char \<Rightarrow> nat" where
  "digit_val c = of_char c - 48"

definition digit_char :: "nat \<Rightarrow> char" where
  "digit_char d = char_of (48 + d)"

fun format_nat :: "nat \<Rightarrow> string" where
  "format_nat n =
     (if n < 10 then [digit_char n] else format_nat (n div 10) @ [digit_char (n mod 10)])"

declare format_nat.simps [simp del]

definition format_int :: "int \<Rightarrow> string" where
  "format_int i = (if i < 0 then CHR ''-'' # format_nat (nat (- i)) else format_nat (nat i))"

datatype num_error = ErrSyntax | ErrRange

text \<open>The loop of \<open>strconv.ParseUint\<close> in base 10: the accumulator never passes \<open>maxVal\<close>.\<close>

fun parse_uint_loop :: "nat \<Rightarrow> nat \<Rightarrow> string \<Rightarrow> num_error + nat" where
  "parse_uint_loop maxVal n [] = Inr n"
| "parse_uint_loop maxVal n (c # cs) =
     (if \<not> is_digit c then Inl ErrSyntax
      else let n' = n * 10 + digit_val c
           in if maxVal < n' then Inl ErrRange else parse_uint_loop maxVal n' cs)"

definition parse_uint :: "nat \<Rightarrow> string \<Rightarrow> num_error + nat" where
  "parse_uint bits s =
     (if s = [] then Inl ErrSyntax else parse_uint_loop (2 ^ bits - 1) 0 s)"

text \<open>\<open>strconv.Atoi\<close> on a 64-bit platform.\<close>

definition atoi :: "string \<Rightarrow> num_error + int" where
  "atoi s =
     (case s of
        [] \<Rightarrow> Inl ErrSyntax
      | c # cs \<Rightarrow>
          (let neg = (c = CHR ''-'');
               ds = (if c = CHR ''-'' \<or> c = CHR ''+'' then cs else s)
           in if ds = [] then Inl ErrSyntax
              else bindE (parse_uint_loop (if neg then 2 ^ 63 else 2 ^ 63 - 1) 0 ds)
                     (\<lambda>n. Inr (if neg then - int n else int n))))"

lemma is_digit_digit_char [simp]: "d < 10 \<Longrightarrow> is_digit (digit_char d)"
  by (simp add: is_digit_def digit_char_def of_char_of)

lemma digit_val_digit_char [simp]: "d < 10 \<Longrightarrow> digit_val (digit_char d) = d"
  by (simp add: digit_val_def digit_char_def of_char_of)

lemma punctuation_not_digit [simp]:
  "\<not> is_digit (CHR '':'')" "\<not> is_digit (CHR ''['')" "\<not> is_digit (CHR '']'')"
  "\<not> is_digit (CHR ''-'')" "\<not> is_digit (CHR ''.'')"
  by (simp_all add: is_digit_def)

lemma format_nat_not_Nil [simp]: "format_nat n \<noteq> []"
  by (subst format_nat.simps) simp

lemma format_nat_digits: "c \<in> set (format_nat n) \<Longrightarrow> is_digit c"
proof (induction n rule: format_nat.induct)
  case (1 n)
  then show ?case
    by (subst (asm) format_nat.simps) (auto split: if_splits)
qed

lemma parse_uint_loop_append:
  "parse_uint_loop m n (s @ t) = bindE (parse_uint_loop m n s) (\<lambda>k. parse_uint_loop m k t)"
  by (induction m n s rule: parse_uint_loop.induct) (auto simp: Let_def)

lemma parse_uint_loop_format_nat:
  "n \<le> m \<Longrightarrow> parse_uint_loop m 0 (format_nat n) = Inr n"
proof (induction n rule: format_nat.induct)
  case (1 n)
  show ?case
  proof (cases "n < 10")
    case True
    then show ?thesis using 1 by (subst format_nat.simps) (simp add: Let_def)
  next
    case False
    then have "parse_uint_loop m 0 (format_nat (n div 10)) = Inr (n div 10)"
      using 1 by simp
    then show ?thesis using False 1
      by (subst format_nat.simps) (simp add: parse_uint_loop_append Let_def)
  qed
qed

lemma parse_uint_format_nat [simp]:
  "n < 2 ^ bits \<Longrightarrow> parse_uint bits (format_nat n) = Inr n"
  by (simp add: parse_uint_def parse_uint_loop_format_nat)

lemma parse_uint_loop_bound: "parse_uint_loop m n s = Inr k \<Longrightarrow> n \<le> m \<Longrightarrow> k \<le> m"
  by (induction m n s rule: parse_uint_loop.induct) (auto simp: Let_def split: if_splits)

lemma parse_uint_bound: "parse_uint bits s = Inr k \<Longrightarrow> k < 2 ^ bits"
  using parse_uint_loop_bound [of "2 ^ bits - 1" 0 s k]
  by (auto simp: parse_uint_def less_eq_Suc_le le_diff_conv2 split: if_splits)

section \<open>Quoting\<close>

definition hex_char :: "nat \<Rightarrow> char" where
  "hex_char n = (if n < 10 then char_of (48 + n) else char_of (87 + n))"

definition quote_byte :: "char \<Rightarrow> string" where
  "quote_byte c =
     (let n = (of_char c :: nat) in
      if n = 34 \<or> n = 92 then [CHR 92, c]
      else if n = 7 then [CHR 92, CHR ''a'']
      else if n = 8 then [CHR 92, CHR ''b'']
      else if n = 12 then [CHR 92, CHR ''f'']
      else if n = 10 then [CHR 92, CHR ''n'']
      else if n = 13 then [CHR 92, CHR ''r'']
      else if n = 9 then [CHR 92, CHR ''t'']
      else if n = 11 then [CHR 92, CHR ''v'']
      else if n < 32 then [CHR 92, CHR ''x'', hex_char (n div 16), hex_char (n mod 16)]
      else if n = 127 then CHR 92 # ''u007f''
      else [c])"

definition quote :: "string \<Rightarrow> string" where
  "quote s = [CHR 34] @ concat (map quote_byte s) @ [CHR 34]"

section \<open>Searching and splitting\<close>

fun index_byte :: "char \<Rightarrow> string \<Rightarrow> nat option" where
  "index_byte c [] = None"
| "index_byte c (x # xs) = (if x = c then Some 0 else map_option Suc (index_byte c xs))"

fun last_index_byte :: "char \<Rightarrow> string \<Rightarrow> nat option" where
  "last_index_byte c [] = None"
| "last_index_byte c (x # xs) =
     (case last_index_byte c xs of
        Some i \<Rightarrow> Some (Suc i)
      | None \<Rightarrow> if x = c then Some 0 else None)"

fun strings_join :: "string \<Rightarrow> string list \<Rightarrow> string" where
  "strings_join sep [] = []"
| "strings_join sep [x] = x"
| "strings_join sep (x # y # ys) = x @ sep @ strings_join sep (y # ys)"

text \<open>\<open>strings.Split\<close> with a one-byte separator.\<close>

fun strings_split :: "char \<Rightarrow> string \<Rightarrow> string list" where
  "strings_split c [] = [[]]"
| "strings_split c (x # xs) =
     (if x = c then [] # strings_split c xs
      else (case strings_split c xs of
              [] \<Rightarrow> [[x]]
            | p # ps \<Rightarrow> (x # p) # ps))"

text \<open>\<open>strings.SplitN(s, c, 2)\<close> with a one-byte separator.\<close>

definition strings_split2 :: "char \<Rightarrow> string \<Rightarrow> string list" where
  "strings_split2 c s =
     (case index_byte c s of None \<Rightarrow> [s] | Some i \<Rightarrow> [take i s, drop (Suc i) s])"

definition to_lower_byte :: "char \<Rightarrow> char" where
  "to_lower_byte c =
     (let n = (of_char c :: nat) in if 65 \<le> n \<and> n \<le> 90 then char_of (n + 32) else c)"

definition to_lower :: "string \<Rightarrow> string" where
  "to_lower s = map to_lower_byte s"

lemma index_byte_None_iff: "index_byte c s = None \<longleftrightarrow> c \<notin> set s"
  by (induction s) auto

lemma index_byte_notin [simp]: "c \<notin> set s \<Longrightarrow> index_byte c s = None"
  by (simp add: index_byte_None_iff)

lemma index_byte_append_notin:
  "c \<notin> set s \<Longrightarrow> index_byte c (s @ c # t) = Some (length s)"
  by (induction s) auto

lemma index_byte_Some:
  "index_byte c s = Some i \<Longrightarrow> s = take i s @ c # drop (Suc i) s \<and> c \<notin> set (take i s)"
proof (induction s arbitrary: i)
  case Nil
  then show ?case by simp
next
  case (Cons x xs)
  then show ?case by (cases "x = c") auto
qed

lemma last_index_byte_None_iff: "last_index_byte c s = None \<longleftrightarrow> c \<notin> set s"
  by (induction s) (auto split: option.splits)

lemma last_index_byte_notin [simp]: "c \<notin> set s \<Longrightarrow> last_index_byte c s = None"
  by (simp add: last_index_byte_None_iff)

lemma last_index_byte_append_notin:
  "c \<notin> set t \<Longrightarrow> last_index_byte c (s @ c # t) = Some (length s)"
  by (induction s) auto

lemma last_index_byte_length: "last_index_byte c s = Some i \<Longrightarrow> i < length s"
  by (induction s arbitrary: i) (auto split: option.splits if_splits)

lemma strings_split_not_Nil [simp]: "strings_split c s \<noteq> []"
  by (cases s) (auto split: list.splits)

lemma strings_split_notin: "c \<notin> set s \<Longrightarrow> strings_split c s = [s]"
  by (induction s) auto

lemma strings_split_append:
  "c \<notin> set s \<Longrightarrow> strings_split c (s @ c # t) = s # strings_split c t"
  by (induction s) auto

lemma strings_join_empty: "strings_join '''' xs = concat xs"
  by (induction xs rule: induct_list012) simp_all

lemma strings_split_parts:
  "strings_split c s = p # ps \<Longrightarrow>
     s = p @ concat (map ((#) c) ps) \<and> c \<notin> set p \<and> (\<forall>q \<in> set ps. c \<notin> set q)"
proof (induction s arbitrary: p ps)
  case Nil
  then show ?case by simp
next
  case (Cons x xs)
  show ?case
  proof (cases "x = c")
    case True
    then have "strings_split c xs = ps" "p = []" using Cons.prems by simp_all
    then show ?thesis using Cons.IH True strings_split_not_Nil [of c xs] by (cases ps) fastforce+
  next
    case False
    then obtain q where "strings_split c xs = q # ps" "p = x # q"
      using Cons.prems by (auto split: list.splits)
    then show ?thesis using Cons.IH False by simp
  qed
qed

lemma strings_split_concat:
  "c \<notin> set p \<Longrightarrow> \<forall>q \<in> set ps. c \<notin> set q \<Longrightarrow> strings_split c (p @ concat (map ((#) c) ps)) = p # ps"
  by (induction ps arbitrary: p) (simp_all add: strings_split_notin strings_split_append)

lemma to_lower_byte_cases:
  "to_lower_byte c = c \<or> 97 \<le> (of_char (to_lower_byte c) :: nat) \<and> (of_char (to_lower_byte c) :: nat) \<le> 122"
  by (auto simp: to_lower_byte_def Let_def of_char_of)

lemma to_lower_byte_fixed:
  "(of_char d :: nat) < 65 \<Longrightarrow> to_lower_byte c = d \<longleftrightarrow> c = d"
  using to_lower_byte_cases [of c] by (auto simp: to_lower_byte_def Let_def)

lemma to_lower_byte_idem [simp]: "to_lower_byte (to_lower_byte c) = to_lower_byte c"
proof -
  have "(of_char (to_lower_byte c) :: nat) \<notin> {65..90}"
    by (auto simp: to_lower_byte_def Let_def of_char_of)
  then show ?thesis by (auto simp: to_lower_byte_def Let_def)
qed

lemma to_lower_idem [simp]: "to_lower (to_lower s) = to_lower s"
  by (simp add: to_lower_def)

lemma in_set_to_lower: "(of_char d :: nat) < 65 \<Longrightarrow> d \<in> set (to_lower s) \<longleftrightarrow> d \<in> set s"
  by (auto simp: to_lower_def image_iff to_lower_byte_fixed dest: sym) (metis to_lower_byte_fixed)+

lemma atoi_digits:
  assumes "d \<noteq> []" and "list_all is_digit d"
  shows "atoi d = bindE (parse_uint_loop (2 ^ 63 - 1) 0 d) (\<lambda>n. Inr (int n))"
proof (cases d)
  case Nil
  then show ?thesis using assms by simp
next
  case (Cons c cs)
  moreover have "\<not> is_digit (CHR ''-'')" "\<not> is_digit (CHR ''+'')" by (simp_all add: is_digit_def)
  ultimately show ?thesis using assms by (auto simp: atoi_def Let_def simp del: punctuation_not_digit)
qed

lemma list_all_digits_format_nat [simp]: "list_all is_digit (format_nat n)"
  by (simp add: list_all_iff format_nat_digits)

lemma atoi_format_nat: "n < 2 ^ 63 \<Longrightarrow> atoi (format_nat n) = Inr (int n)"
  using parse_uint_loop_format_nat [of n "2 ^ 63 - 1"] by (simp add: atoi_digits)

lemma atoi_digits_bound:
  assumes "d \<noteq> []" "list_all is_digit d" "atoi d = Inr i"
  shows "0 \<le> i \<and> i < 2 ^ 63"
proof -
  obtain n where "parse_uint_loop (2 ^ 63 - 1) 0 d = Inr n" "i = int n"
    using assms by (auto simp: atoi_digits bindE_Inr)
  moreover from this have "n \<le> 2 ^ 63 - 1" using parse_uint_loop_bound [of "2 ^ 63 - 1" 0 d n] by simp
  ultimately show ?thesis by simp
qed

section \<open>Host and port\<close>

definition addr_error :: "string \<Rightarrow> string \<Rightarrow> go_error" where
  "addr_error addr why =
     ErrString (if addr = [] then why else ''address '' @ addr @ '': '' @ why)"

text \<open>\<open>net.SplitHostPort\<close>.\<close>

definition split_host_port :: "string \<Rightarrow> go_error + (string \<times> string)" where
  "split_host_port hostport =
     (case last_index_byte (CHR '':'') hostport of
        None \<Rightarrow> Inl (addr_error hostport ''missing port in address'')
      | Some i \<Rightarrow>
          bindE
            (if hd hostport = CHR ''['' then
               (case index_byte (CHR '']'') hostport of
                  None \<Rightarrow> Inl (addr_error hostport ''missing ']' in address'')
                | Some end \<Rightarrow>
                    if end + 1 = length hostport
                      then Inl (addr_error hostport ''missing port in address'')
                    else if end + 1 = i then Inr (drop 1 (take end hostport), 1, end + 1)
                    else if hostport ! (end + 1) = CHR '':''
                      then Inl (addr_error hostport ''too many colons in address'')
                    else Inl (addr_error hostport ''missing port in address''))
             else if CHR '':'' \<in> set (take i hostport)
               then Inl (addr_error hostport ''too many colons in address'')
             else Inr (take i hostport, 0, 0))
            (\<lambda>(host, j, k).
               if CHR ''['' \<in> set (drop j hostport)
                 then Inl (addr_error hostport ''unexpected '[' in address'')
               else if CHR '']'' \<in> set (drop k hostport)
                 then Inl (addr_error hostport ''unexpected ']' in address'')
               else Inr (host, drop (i + 1) hostport)))"

lemma split_host_port_plain:
  assumes "CHR '':'' \<notin> set host" "CHR ''['' \<notin> set host" "CHR '']'' \<notin> set host"
    and "CHR '':'' \<notin> set port" "CHR ''['' \<notin> set port" "CHR '']'' \<notin> set port"
  shows "split_host_port (host @ CHR '':'' # port) = Inr (host, port)"
proof -
  have "hd (host @ CHR '':'' # port) \<noteq> CHR ''[''"
    using assms(2) by (cases host) auto
  then show ?thesis
    using assms by (simp add: split_host_port_def last_index_byte_append_notin)
qed

section \<open>IP addresses\<close>

text \<open>
  \<open>net.IP\<close> as the list of its bytes; \<open>nil\<close> is the empty list.  Every address the code makes
  comes from \<open>net.ParseIP\<close> or \<open>net.IPv4\<close>, which return 16 bytes.
\<close>

type_synonym ip = "8 word list"

definition v4_in_v6_prefix :: ip where
  "v4_in_v6_prefix = replicate 10 0 @ [255, 255]"

definition ipv4 :: "8 word \<Rightarrow> 8 word \<Rightarrow> 8 word \<Rightarrow> 8 word \<Rightarrow> ip" where
  "ipv4 a b c d = v4_in_v6_prefix @ [a, b, c, d]"

fun dtoi_loop :: "int \<Rightarrow> string \<Rightarrow> (int \<times> string) option" where
  "dtoi_loop n [] = Some (n, [])"
| "dtoi_loop n (c # cs) =
     (if is_digit c then
        (let n' = n * 10 + int (digit_val c) in if 0xFFFFFF \<le> n' then None else dtoi_loop n' cs)
      else Some (n, c # cs))"

definition dtoi :: "string \<Rightarrow> (int \<times> string) option" where
  "dtoi s = (if s = [] \<or> \<not> is_digit (hd s) then None else dtoi_loop 0 s)"

definition hex_val :: "char \<Rightarrow> nat option" where
  "hex_val c =
     (let n = (of_char c :: nat) in
      if 48 \<le> n \<and> n \<le> 57 then Some (n - 48)
      else if 97 \<le> n \<and> n \<le> 102 then Some (n - 87)
      else if 65 \<le> n \<and> n \<le> 70 then Some (n - 55)
      else None)"

fun xtoi_loop :: "int \<Rightarrow> string \<Rightarrow> (int \<times> string) option" where
  "xtoi_loop n [] = Some (n, [])"
| "xtoi_loop n (c # cs) =
     (case hex_val c of
        Some v \<Rightarrow> (let n' = n * 16 + int v in if 0xFFFFFF \<le> n' then None else xtoi_loop n' cs)
      | None \<Rightarrow> Some (n, c # cs))"

definition xtoi :: "string \<Rightarrow> (int \<times> string) option" where
  "xtoi s = (if s = [] \<or> hex_val (hd s) = None then None else xtoi_loop 0 s)"

text \<open>The loop of \<open>net.parseIPv4\<close>; \<open>k\<close> bytes are still to come.\<close>

fun parse_ipv4_loop :: "nat \<Rightarrow> bool \<Rightarrow> string \<Rightarrow> ip option" where
  "parse_ipv4_loop 0 first s = (if s = [] then Some [] else None)"
| "parse_ipv4_loop (Suc k) first s =
     (if s = [] then None
      else if \<not> first \<and> hd s \<noteq> CHR ''.'' then None
      else (case dtoi (if first then s else tl s) of
              None \<Rightarrow> None
            | Some (n, rest) \<Rightarrow>
                if 255 < n then None
                else map_option ((#) (of_int n)) (parse_ipv4_loop k False rest)))"

definition parse_ipv4 :: "string \<Rightarrow> ip option" where
  "parse_ipv4 s = map_option ((@) v4_in_v6_prefix) (parse_ipv4_loop 4 True s)"

text \<open>
  The loop of \<open>net.parseIPv6\<close>; \<open>k\<close> groups of two bytes are still to come, \<open>acc\<close> holds the bytes
  read so far and \<open>ell\<close> the position of the ellipsis.
\<close>

fun parse_ipv6_loop ::
  "nat \<Rightarrow> ip \<Rightarrow> nat option \<Rightarrow> string \<Rightarrow> (ip \<times> nat option \<times> string) option" where
  "parse_ipv6_loop 0 acc ell s = Some (acc, ell, s)"
| "parse_ipv6_loop (Suc k) acc ell s =
     (case xtoi s of
        None \<Rightarrow> None
      | Some (n, rest) \<Rightarrow>
          if 0xFFFF < n then None
          else if rest \<noteq> [] \<and> hd rest = CHR ''.'' then
            (if ell = None \<and> length acc \<noteq> 12 then None
             else if 16 < length acc + 4 then None
             else (case parse_ipv4 s of
                     None \<Rightarrow> None
                   | Some ip4 \<Rightarrow> Some (acc @ drop 12 ip4, ell, [])))
          else
            (let acc' = acc @ [of_int (n div 256), of_int (n mod 256)] in
             if rest = [] then Some (acc', ell, [])
             else if hd rest \<noteq> CHR '':'' \<or> length rest = 1 then None
             else
               (let s' = tl rest in
                if hd s' = CHR '':'' then
                  (if ell \<noteq> None then None
                   else if tl s' = [] then Some (acc', Some (length acc'), [])
                   else parse_ipv6_loop k acc' (Some (length acc')) (tl s'))
                else parse_ipv6_loop k acc' ell s')))"

definition expand_ellipsis :: "ip \<Rightarrow> nat option \<Rightarrow> ip option" where
  "expand_ellipsis acc ell =
     (if length acc < 16
      then (case ell of
              None \<Rightarrow> None
            | Some e \<Rightarrow> Some (take e acc @ replicate (16 - length acc) 0 @ drop e acc))
      else if ell \<noteq> None then None
      else Some acc)"

definition parse_ipv6 :: "string \<Rightarrow> ip option" where
  "parse_ipv6 s =
     (let leading = (2 \<le> length s \<and> s ! 0 = CHR '':'' \<and> s ! 1 = CHR '':'');
          s' = (if leading then drop 2 s else s)
      in if leading \<and> s' = [] then Some (replicate 16 0)
         else (case parse_ipv6_loop 8 [] (if leading then Some 0 else None) s' of
                 None \<Rightarrow> None
               | Some (acc, ell, rest) \<Rightarrow>
                   if rest \<noteq> [] then None else expand_ellipsis acc ell))"

text \<open>\<open>net.ParseIP\<close>: the first \<open>.\<close> or \<open>:\<close> decides between the two notations.\<close>

fun ip_notation :: "string \<Rightarrow> char option" where
  "ip_notation [] = None"
| "ip_notation (c # cs) = (if c = CHR ''.'' \<or> c = CHR '':'' then Some c else ip_notation cs)"

definition parse_ip :: "string \<Rightarrow> ip" where
  "parse_ip s =
     (case ip_notation s of
        None \<Rightarrow> []
      | Some c \<Rightarrow>
          (case (if c = CHR ''.'' then parse_ipv4 s else parse_ipv6 s) of
             None \<Rightarrow> []
           | Some i \<Rightarrow> i))"

definition ip_equal :: "ip \<Rightarrow> ip \<Rightarrow> bool" where
  "ip_equal a b \<longleftrightarrow> length a = length b \<and> a = b"

definition ip_is_unspecified :: "ip \<Rightarrow> bool" where
  "ip_is_unspecified a \<longleftrightarrow> ip_equal a (ipv4 0 0 0 0) \<or> ip_equal a (replicate 16 0)"

lemma dtoi_loop_split:
  "dtoi_loop n s = Some (m, rest) \<Longrightarrow> \<exists>ds. s = ds @ rest \<and> (\<forall>c \<in> set ds. is_digit c)"
proof (induction n s rule: dtoi_loop.induct)
  case (1 n)
  then show ?case by simp
next
  case (2 n c cs)
  show ?case
  proof (cases "is_digit c")
    case True
    with 2 obtain ds where "cs = ds @ rest" "\<forall>c \<in> set ds. is_digit c"
      by (auto simp: Let_def split: if_splits)
    with True have "c # cs = (c # ds) @ rest \<and> (\<forall>x \<in> set (c # ds). is_digit x)" by simp
    then show ?thesis by blast
  next
    case False
    with 2 have "c # cs = [] @ rest" by simp
    then show ?thesis by (metis empty_iff list.set(1))
  qed
qed

lemma dtoi_chars:
  assumes "dtoi s = Some (m, rest)" and "c \<in> set s"
  shows "is_digit c \<or> c \<in> set rest"
  using assms dtoi_loop_split [of 0 s m rest] by (auto simp: dtoi_def split: if_splits)

lemma parse_ipv4_loop_chars:
  "parse_ipv4_loop k first s = Some bs \<Longrightarrow> c \<in> set s \<Longrightarrow> is_digit c \<or> c = CHR ''.''"
proof (induction k first s arbitrary: bs c rule: parse_ipv4_loop.induct)
  case (1 first s)
  then show ?case by (simp split: if_splits)
next
  case (2 k first s)
  then obtain n rest bs' where
    d: "dtoi (if first then s else tl s) = Some (n, rest)" and "\<not> 255 < n"
    and r: "parse_ipv4_loop k False rest = Some bs'" and ne: "s \<noteq> []"
    and hd: "first \<or> hd s = CHR ''.''"
    by (auto split: if_splits option.splits)
  have IH: "is_digit x \<or> x = CHR ''.''" if "x \<in> set rest" for x
    using "2.IH" [OF ne _ d refl \<open>\<not> 255 < n\<close> r that] hd by blast
  show ?case
  proof (cases "c \<in> set (if first then s else tl s)")
    case True
    then show ?thesis using dtoi_chars [OF d] IH by blast
  next
    case False
    then have "c = CHR ''.''"
      using "2.prems" hd ne by (cases s) (auto split: if_splits)
    then show ?thesis by simp
  qed
qed

text \<open>A dotted address holds nothing but digits and dots, so it needs no brackets.\<close>

lemma parse_ipv4_plain:
  assumes "parse_ipv4 s = Some a"
  shows "CHR '':'' \<notin> set s" "CHR ''['' \<notin> set s" "CHR '']'' \<notin> set s"
  using assms by (auto simp: parse_ipv4_def dest: parse_ipv4_loop_chars)

lemma format_nat_plain:
  "CHR '':'' \<notin> set (format_nat n)" "CHR ''['' \<notin> set (format_nat n)"
  "CHR '']'' \<notin> set (format_nat n)" "CHR ''-'' \<notin> set (format_nat n)"
  by (auto dest: format_nat_digits)

lemma ip_notation_SomeD:
  "ip_notation t = Some c \<Longrightarrow> c \<in> set t \<and> (c = CHR ''.'' \<or> c = CHR '':'')"
  by (induction t) (auto split: if_splits)

lemma parse_ip_no_colon:
  assumes "parse_ip s \<noteq> []" and "CHR '':'' \<notin> set s"
  shows "\<exists>a. parse_ipv4 s = Some a"
proof -
  obtain c where c: "ip_notation s = Some c"
    using assms(1) by (auto simp: parse_ip_def split: option.splits)
  then have "c = CHR ''.''" using ip_notation_SomeD assms(2) by blast
  then show ?thesis using assms(1) c by (auto simp: parse_ip_def split: option.splits)
qed

end
