(* ===== verification/Tag_Selectors.thy ===== *)
theory Tag_Selectors
  imports Go_Strings
begin

text \<open>
  Tags and tag selectors: \<open>TagSelector\<close>, \<open>TagSelectorRank\<close>, \<open>SingleValueTagSet\<close> and
  \<open>MultiValueTagSet\<close> of \<open>api/mesh/v1alpha1/dataplane_helpers.go\<close>, and \<open>TagSelectorSet\<close> of
  \<open>pkg/core/xds/types.go\<close>.  The lemmas show what a selector matches, that neither matching nor
  ranking depends on the order in which Go visits a map, and that ranks are linearly ordered by
  \<open>CompareTo\<close>, which the policy matchers rely on.
\<close>

section \<open>Reserved tags\<close>

definition ServiceTag :: string where "ServiceTag = ''service''"
definition ServiceUnknown :: string where "ServiceUnknown = ''unknown''"
definition ProtocolTag :: string where "ProtocolTag = ''protocol''"
definition MatchAllTag :: string where "MatchAllTag = ''*''"

lemmas tag_constants = ServiceTag_def ServiceUnknown_def ProtocolTag_def MatchAllTag_def

section \<open>Selectors\<close>

definition tag_matches :: "tags \<Rightarrow> string \<times> string \<Rightarrow> bool" where
  "tag_matches tgs kv =
     (case map_of tgs (fst kv) of
        None \<Rightarrow> False
      | Some inboundVal \<Rightarrow> \<not> (snd kv \<noteq> inboundVal \<and> snd kv \<noteq> MatchAllTag))"

definition Matches :: "tags \<Rightarrow> tags \<Rightarrow> bool" where
  "Matches s tgs = (if length s = 0 then True else list_all (tag_matches tgs) s)"

datatype TagSelectorRank = TagSelectorRank (ExactMatches: int) (WildcardMatches: int)

definition zero_rank :: TagSelectorRank where
  "zero_rank = TagSelectorRank 0 0"

fun count_value :: "string \<times> string \<Rightarrow> TagSelectorRank \<Rightarrow> TagSelectorRank" where
  "count_value (_, value) (TagSelectorRank e w) =
     (if value = MatchAllTag then TagSelectorRank e (w + 1) else TagSelectorRank (e + 1) w)"

definition Rank :: "tags \<Rightarrow> TagSelectorRank" where
  "Rank s = fold count_value s zero_rank"

definition Equal :: "tags \<Rightarrow> tags \<Rightarrow> bool" where
  "Equal s other \<longleftrightarrow>
     length s = 0 \<and> length other = 0 \<or>
     length s = length other \<and> list_all (\<lambda>(k, v). map_of other k = Some v) s"

definition MatchAll :: tags where "MatchAll = []"

definition MatchService :: "string \<Rightarrow> tags" where
  "MatchService service = [(ServiceTag, service)]"

definition MatchAnyService :: tags where
  "MatchAnyService = MatchService MatchAllTag"

definition MatchTags :: "tags \<Rightarrow> tags" where
  "MatchTags tgs = tgs"

section \<open>Ranks\<close>

fun CombinedWith :: "TagSelectorRank \<Rightarrow> TagSelectorRank \<Rightarrow> TagSelectorRank" where
  "CombinedWith (TagSelectorRank e w) (TagSelectorRank e' w') = TagSelectorRank (e + e') (w + w')"

fun CompareTo :: "TagSelectorRank \<Rightarrow> TagSelectorRank \<Rightarrow> int" where
  "CompareTo (TagSelectorRank e w) (TagSelectorRank e' w') =
     (let thisTotal = e + w; otherTotal = e' + w'
      in if thisTotal = otherTotal then e - e' else thisTotal - otherTotal)"

text \<open>\<open>CompareTo\<close> makes the ranks a linear order.\<close>

instantiation TagSelectorRank :: linorder
begin

definition less_eq_TagSelectorRank :: "TagSelectorRank \<Rightarrow> TagSelectorRank \<Rightarrow> bool" where
  "less_eq_TagSelectorRank r r' \<longleftrightarrow> CompareTo r r' \<le> 0"

definition less_TagSelectorRank :: "TagSelectorRank \<Rightarrow> TagSelectorRank \<Rightarrow> bool" where
  "less_TagSelectorRank r r' \<longleftrightarrow> CompareTo r r' < 0"

instance
proof
  fix x y z :: TagSelectorRank
  show "(x < y) = (x \<le> y \<and> \<not> y \<le> x)"
    by (cases x; cases y) (auto simp: less_eq_TagSelectorRank_def less_TagSelectorRank_def Let_def)
  show "x \<le> x"
    by (cases x) (simp add: less_eq_TagSelectorRank_def)
  show "x \<le> y \<Longrightarrow> y \<le> z \<Longrightarrow> x \<le> z"
    by (cases x; cases y; cases z) (auto simp: less_eq_TagSelectorRank_def Let_def split: if_splits)
  show "x \<le> y \<Longrightarrow> y \<le> x \<Longrightarrow> x = y"
    by (cases x; cases y) (auto simp: less_eq_TagSelectorRank_def Let_def split: if_splits)
  show "x \<le> y \<or> y \<le> x"
    by (cases x; cases y) (auto simp: less_eq_TagSelectorRank_def Let_def)
qed

end

lemma CompareTo_order:
  "CompareTo r r' > 0 \<longleftrightarrow> r' < r"
  "CompareTo r r' = 0 \<longleftrightarrow> r = r'"
  "CompareTo r r' < 0 \<longleftrightarrow> r < r'"
  by (cases r; cases r'; auto simp: less_TagSelectorRank_def Let_def)+

lemma CombinedWith_mono: "r \<le> r' \<Longrightarrow> CombinedWith r q \<le> CombinedWith r' q"
  by (cases r; cases r'; cases q) (auto simp: less_eq_TagSelectorRank_def Let_def split: if_splits)

lemma fold_count_value:
  "fold count_value s (TagSelectorRank e w) =
     TagSelectorRank (e + int (length (filter (\<lambda>kv. snd kv \<noteq> MatchAllTag) s)))
       (w + int (length (filter (\<lambda>kv. snd kv = MatchAllTag) s)))"
  by (induction s arbitrary: e w) auto

lemma Rank_counts:
  "Rank s = TagSelectorRank (int (length (filter (\<lambda>kv. snd kv \<noteq> MatchAllTag) s)))
              (int (length (filter (\<lambda>kv. snd kv = MatchAllTag) s)))"
  by (simp add: Rank_def zero_rank_def fold_count_value)

lemma Rank_total: "ExactMatches (Rank s) + WildcardMatches (Rank s) = int (length s)"
proof -
  have "length (filter (\<lambda>kv. snd kv = MatchAllTag) s)
      + length (filter (\<lambda>kv. snd kv \<noteq> MatchAllTag) s) = length s"
    by (rule sum_length_filter_compl)
  then show ?thesis by (simp add: Rank_counts)
qed

lemma zero_rank_least: "zero_rank \<le> Rank s"
  by (auto simp: Rank_counts zero_rank_def less_eq_TagSelectorRank_def Let_def)

lemma Rank_positive: "zero_rank < Rank s \<longleftrightarrow> s \<noteq> []"
proof -
  have "Rank s = zero_rank \<longleftrightarrow> s = []"
    using Rank_total [of s] by (cases s) (auto simp: zero_rank_def Rank_def)
  then show ?thesis using zero_rank_least [of s] by (auto simp: less_le)
qed

section \<open>What a selector matches\<close>

lemma Matches_list_all: "Matches s tgs = list_all (tag_matches tgs) s"
  by (simp add: Matches_def)

lemma Matches_iff:
  assumes "wf_map s"
  shows "Matches s tgs \<longleftrightarrow>
    (\<forall>k v. map_of s k = Some v \<longrightarrow> (\<exists>w. map_of tgs k = Some w \<and> (v = w \<or> v = MatchAllTag)))"
  using assms
  by (fastforce simp: Matches_list_all tag_matches_def list_all_iff wf_map_def
      split: option.splits dest: map_of_SomeD)

lemma Matches_empty [simp]: "Matches [] tgs"
  by (simp add: Matches_def)

lemma Matches_MatchService:
  "Matches (MatchService service) tgs \<longleftrightarrow>
     (\<exists>w. map_of tgs ServiceTag = Some w \<and> (service = w \<or> service = MatchAllTag))"
  by (auto simp: MatchService_def Matches_def tag_matches_def split: option.splits)

lemma Matches_cong: "map_of tgs = map_of tgs' \<Longrightarrow> Matches s tgs = Matches s tgs'"
  by (simp add: Matches_list_all list_all_iff tag_matches_def)

lemma Matches_perm:
  "mset s = mset s' \<Longrightarrow> wf_map tgs \<Longrightarrow> mset tgs = mset tgs' \<Longrightarrow> Matches s tgs = Matches s' tgs'"
  using Matches_cong [OF map_of_mset_eq, of tgs tgs'] mset_eq_setD [of s s']
  by (simp add: Matches_list_all list_all_iff)

lemma Rank_perm: "mset s = mset s' \<Longrightarrow> Rank s = Rank s'"
  unfolding Rank_counts by (metis mset_filter size_mset)

lemma Matches_extends:
  assumes "set s \<subseteq> set s'" and "Matches s' tgs"
  shows "Matches s tgs"
  using assms by (auto simp: Matches_list_all list_all_iff)

lemma longer_ranks_higher:
  assumes "length s < length s'"
  shows "Rank s < Rank s'"
proof -
  have "CompareTo (TagSelectorRank e w) (TagSelectorRank e' w') < 0"
    if "e + w < e' + w'" for e w e' w'
    using that by (simp add: Let_def)
  then show ?thesis
    using assms Rank_total [of s] Rank_total [of s']
    by (cases "Rank s"; cases "Rank s'") (simp add: less_TagSelectorRank_def)
qed

section \<open>Tag sets\<close>

text \<open>\<open>SingleValueTagSet.Keys\<close>.\<close>

definition single_Keys :: "tags \<Rightarrow> string list" where
  "single_Keys t = sort (map fst t)"

type_synonym MultiValueTagSet = "(string, (string, bool) gomap) gomap"

definition multi_Keys :: "MultiValueTagSet \<Rightarrow> string list" where
  "multi_Keys t = sort (map fst t)"

definition multi_Values :: "MultiValueTagSet \<Rightarrow> string \<Rightarrow> string list" where
  "multi_Values t key =
     (case map_of t key of None \<Rightarrow> [] | Some vs \<Rightarrow> sort (map fst vs))"

definition multi_String :: "MultiValueTagSet \<Rightarrow> string" where
  "multi_String t =
     strings_join '' ''
       (sort (map (\<lambda>(tag, _). tag @ ''='' @ strings_join '','' (multi_Values t tag)) t))"

text \<open>The body of the loops of \<open>Dataplane.Tags\<close>: record one value of one tag.\<close>

definition add_tag :: "string \<times> string \<Rightarrow> MultiValueTagSet \<Rightarrow> MultiValueTagSet" where
  "add_tag kv t =
     (let t' = (case map_of t (fst kv) of None \<Rightarrow> gput (fst kv) [] t | Some _ \<Rightarrow> t);
          vs = (case map_of t' (fst kv) of None \<Rightarrow> [] | Some vs \<Rightarrow> vs)
      in gput (fst kv) (gput (snd kv) True vs) t')"

definition add_tags :: "tags \<Rightarrow> MultiValueTagSet \<Rightarrow> MultiValueTagSet" where
  "add_tags kvs t = fold add_tag kvs t"

definition multi_has :: "MultiValueTagSet \<Rightarrow> string \<Rightarrow> string \<Rightarrow> bool" where
  "multi_has t k v \<longleftrightarrow> (\<exists>vs. map_of t k = Some vs \<and> v \<in> fst ` set vs)"

lemma multi_has_Nil [simp]: "\<not> multi_has [] k v"
  by (simp add: multi_has_def)

lemma multi_has_add_tag: "multi_has (add_tag kv t) k v \<longleftrightarrow> multi_has t k v \<or> (k, v) = kv"
  by (cases kv)
    (auto simp: multi_has_def add_tag_def Let_def map_of_gput dom_update
      split: option.splits if_splits)

lemma multi_has_add_tags: "multi_has (add_tags kvs t) k v \<longleftrightarrow> multi_has t k v \<or> (k, v) \<in> set kvs"
  by (induction kvs arbitrary: t) (auto simp: add_tags_def multi_has_add_tag)

lemma set_multi_Values: "v \<in> set (multi_Values t k) \<longleftrightarrow> multi_has t k v"
  by (cases "map_of t k") (auto simp: multi_Values_def multi_has_def)

section \<open>Sets of selectors\<close>

text \<open>\<open>TagSelectorSet.Add\<close> of \<open>pkg/core/xds/types.go\<close>.\<close>

fun selector_in :: "tags \<Rightarrow> tags list \<Rightarrow> bool" where
  "selector_in new [] = False"
| "selector_in new (old # s) = (if Equal new old then True else selector_in new s)"

definition TagSelectorSet_Add :: "tags list \<Rightarrow> tags \<Rightarrow> tags list" where
  "TagSelectorSet_Add s new = (if selector_in new s then s else s @ [new])"

lemma selector_in_iff: "selector_in new s \<longleftrightarrow> (\<exists>old \<in> set s. Equal new old)"
  by (induction s) auto

lemma Equal_map_of:
  assumes "wf_map s" and "wf_map s'"
  shows "Equal s s' \<longleftrightarrow> map_of s = map_of s'"
proof
  assume eq: "Equal s s'"
  then have len: "length s = length s'" and sub: "set s \<subseteq> set s'"
    by (auto simp: Equal_def list_all_iff dest: map_of_SomeD)
  have "card (set s) = card (set s')"
    using len assms by (metis distinct_card distinct_map wf_map_def)
  then have "set s = set s'"
    using sub by (simp add: card_subset_eq)
  then show "map_of s = map_of s'"
    using assms by (simp add: wf_map_def map_of_inject_set)
next
  assume m: "map_of s = map_of s'"
  then have "set s = set s'"
    using assms by (simp add: wf_map_def map_of_inject_set)
  then have "length s = length s'"
    using assms by (metis distinct_card distinct_map wf_map_def)
  moreover have "\<forall>(k, v) \<in> set s. map_of s' k = Some v"
    using assms(1) m by (auto simp: wf_map_def dest: map_of_is_SomeI)
  ultimately show "Equal s s'" by (auto simp: Equal_def list_all_iff)
qed

lemma Equal_refl: "wf_map s \<Longrightarrow> Equal s s"
  by (simp add: Equal_map_of)

end
