(* ===== verification/Resource_Model.thy ===== *)
theory Resource_Model
  imports Tag_Selectors
begin

text \<open>
  Resources and their metadata: \<open>pkg/core/resources/model/resource.go\<close>, the metadata of the
  in-memory store (\<open>memoryMeta\<close> of \<open>pkg/plugins/resources/memory/store.go\<close>) and the text of
  errors.  Any other implementation of the \<open>ResourceMeta\<close> interface (of the Kubernetes or the
  Postgres store, or \<open>pseudoMeta\<close> of \<open>pkg/xds/topology/router.go\<close>) is a \<open>ForeignMeta\<close>, given by
  what its getters return.
\<close>

section \<open>Text of errors\<close>

text \<open>\<open>ValidationError.Error\<close> of \<open>pkg/core/validators/types.go\<close>.\<close>

fun validation_error_loop :: "string \<Rightarrow> violation list \<Rightarrow> string" where
  "validation_error_loop msg [] = msg"
| "validation_error_loop msg (v # vs) =
     validation_error_loop
       (if msg \<noteq> '''' then msg @ ''; '' @ Field v @ '': '' @ Message v
        else msg @ Field v @ '': '' @ Message v) vs"

definition ValidationError_Error :: "violation list \<Rightarrow> string" where
  "ValidationError_Error vs = validation_error_loop '''' vs"

text \<open>\<open>MeshNotFoundError.Error\<close> of \<open>pkg/core/resources/manager/manager.go\<close>.\<close>

definition MeshNotFoundError_Error :: "string \<Rightarrow> string" where
  "MeshNotFoundError_Error m = ''mesh of name '' @ m @ '' is not found''"

text \<open>The method \<open>Error()\<close> of the \<open>error\<close> interface.\<close>

fun error_text :: "go_error \<Rightarrow> string" where
  "error_text (ErrString s) = s"
| "error_text (ErrWrap e msg) = msg @ '': '' @ error_text e"
| "error_text (ErrValidation vs) = ValidationError_Error vs"
| "error_text (ErrMeshNotFound m) = MeshNotFoundError_Error m"
| "error_text (ErrPanic s) = s"

text \<open>The \<open>*strconv.NumError\<close> of a failed number conversion.\<close>

definition num_error_of :: "string \<Rightarrow> string \<Rightarrow> num_error \<Rightarrow> go_error" where
  "num_error_of func s e =
     ErrString (''strconv.'' @ func @ '': parsing '' @ quote s @ '': '' @
       (case e of ErrSyntax \<Rightarrow> ''invalid syntax'' | ErrRange \<Rightarrow> ''value out of range''))"

section \<open>Metadata\<close>

definition DefaultMesh :: string where "DefaultMesh = ''default''"

record ResourceKey =
  key_Mesh :: string
  key_Name :: string

record memoryMeta =
  mm_Name :: string
  mm_Mesh :: string
  mm_Version :: u64
  mm_CreationTime :: gotime
  mm_ModificationTime :: gotime

record foreign_meta =
  fm_Name :: string
  fm_Mesh :: string
  fm_Version :: string
  fm_CreationTime :: gotime
  fm_ModificationTime :: gotime

datatype ResourceMeta = MemoryMeta memoryMeta | ForeignMeta foreign_meta

definition memoryVersion_String :: "u64 \<Rightarrow> string" where
  "memoryVersion_String v = format_nat (unat v)"

fun meta_GetName :: "ResourceMeta \<Rightarrow> string" where
  "meta_GetName (MemoryMeta m) = mm_Name m"
| "meta_GetName (ForeignMeta m) = fm_Name m"

fun meta_GetMesh :: "ResourceMeta \<Rightarrow> string" where
  "meta_GetMesh (MemoryMeta m) = mm_Mesh m"
| "meta_GetMesh (ForeignMeta m) = fm_Mesh m"

fun meta_GetVersion :: "ResourceMeta \<Rightarrow> string" where
  "meta_GetVersion (MemoryMeta m) = memoryVersion_String (mm_Version m)"
| "meta_GetVersion (ForeignMeta m) = fm_Version m"

fun meta_GetCreationTime :: "ResourceMeta \<Rightarrow> gotime" where
  "meta_GetCreationTime (MemoryMeta m) = mm_CreationTime m"
| "meta_GetCreationTime (ForeignMeta m) = fm_CreationTime m"

fun meta_GetModificationTime :: "ResourceMeta \<Rightarrow> gotime" where
  "meta_GetModificationTime (MemoryMeta m) = mm_ModificationTime m"
| "meta_GetModificationTime (ForeignMeta m) = fm_ModificationTime m"

definition MetaToResourceKey :: "ResourceMeta option \<Rightarrow> ResourceKey" where
  "MetaToResourceKey meta =
     (case meta of
        None \<Rightarrow> \<lparr>key_Mesh = '''', key_Name = ''''\<rparr>
      | Some m \<Rightarrow> \<lparr>key_Mesh = meta_GetMesh m, key_Name = meta_GetName m\<rparr>)"

text \<open>A resource: its metadata (\<open>nil\<close> until a store fills it in) and its specification.\<close>

record 'spec Resource =
  Meta :: "ResourceMeta option"
  Spec :: 'spec

text \<open>The name of a resource in a list a store returned; such a resource has metadata.\<close>

definition res_name :: "'spec Resource \<Rightarrow> string" where
  "res_name r = (case Meta r of None \<Rightarrow> '''' | Some m \<Rightarrow> meta_GetName m)"

definition res_mesh :: "'spec Resource \<Rightarrow> string" where
  "res_mesh r = (case Meta r of None \<Rightarrow> '''' | Some m \<Rightarrow> meta_GetMesh m)"

definition res_creation_time :: "'spec Resource \<Rightarrow> gotime" where
  "res_creation_time r = (case Meta r of None \<Rightarrow> 0 | Some m \<Rightarrow> meta_GetCreationTime m)"

lemma format_nat_inject [simp]: "format_nat m = format_nat n \<longleftrightarrow> m = n"
  by (metis max.cobounded1 max.cobounded2 parse_uint_loop_format_nat sum.inject(2))

lemma memoryVersion_String_inject [simp]:
  "memoryVersion_String v = memoryVersion_String w \<longleftrightarrow> v = w"
  by (simp add: memoryVersion_String_def word_unat_eq_iff)

end
