(* ===== verification/Dataplane_Model.thy ===== *)
theory Dataplane_Model
  imports Resource_Model
begin

text \<open>
  The \<open>Dataplane\<close> resource: \<open>api/mesh/v1alpha1/dataplane_helpers.go\<close> (the text format of
  inbound and outbound interfaces, the interfaces of a dataplane, its tags) and
  \<open>pkg/core/resources/apis/mesh/dataplane_helpers.go\<close> (protocols, used interfaces, IP address).
  The records keep the fields of the protobuf messages that the code reads; a message pointer
  that may be \<open>nil\<close> is an option.
\<close>

section \<open>Data\<close>

record InboundInterface =
  ii_DataplaneIP :: string
  ii_DataplanePort :: u32
  ii_WorkloadPort :: u32

record OutboundInterface =
  oi_DataplaneIP :: string
  oi_DataplanePort :: u32

record Inbound =
  in_Interface :: string
  in_Port :: u32
  in_ServicePort :: u32
  in_Address :: string
  in_Tags :: tags

record Outbound =
  out_Interface :: string
  out_Address :: string
  out_Port :: u32
  out_Service :: string

record Gateway =
  gw_Tags :: tags

record Networking =
  net_Address :: string
  net_Gateway :: "Gateway option"
  net_Inbound :: "Inbound list"
  net_Outbound :: "Outbound list"
  net_TransparentProxying :: "u32 option"

record Prometheus =
  prom_Port :: u32
  prom_Path :: string

record Metrics =
  met_Prometheus :: "Prometheus option"

record Dataplane =
  dp_Networking :: "Networking option"
  dp_Metrics :: "Metrics option"

type_synonym DataplaneResource = "Dataplane Resource"

text \<open>The getters of the generated code, which accept a \<open>nil\<close> receiver.\<close>

definition dp_GetInbound :: "Dataplane \<Rightarrow> Inbound list" where
  "dp_GetInbound d = (case dp_Networking d of None \<Rightarrow> [] | Some n \<Rightarrow> net_Inbound n)"

definition dp_GetOutbound :: "Dataplane \<Rightarrow> Outbound list" where
  "dp_GetOutbound d = (case dp_Networking d of None \<Rightarrow> [] | Some n \<Rightarrow> net_Outbound n)"

definition dp_GetGateway :: "Dataplane \<Rightarrow> Gateway option" where
  "dp_GetGateway d = (case dp_Networking d of None \<Rightarrow> None | Some n \<Rightarrow> net_Gateway n)"

section \<open>Services with ports\<close>

definition HasPort :: "string \<Rightarrow> bool" where
  "HasPort v = (case split_host_port v of Inl _ \<Rightarrow> False | Inr _ \<Rightarrow> True)"

definition HostAndPort :: "string \<Rightarrow> go_error + (string \<times> u32)" where
  "HostAndPort v =
     bindE (split_host_port v)
       (\<lambda>(host, port).
          case parse_uint 32 port of
            Inl e \<Rightarrow> Inl (num_error_of ''ParseUint'' port e)
          | Inr num \<Rightarrow> Inr (host, of_nat num))"

section \<open>Text format of interfaces\<close>

definition InboundInterface_String :: "InboundInterface \<Rightarrow> string" where
  "InboundInterface_String i =
     ii_DataplaneIP i @ '':'' @ format_nat (unat (ii_DataplanePort i)) @ '':'' @
     format_nat (unat (ii_WorkloadPort i))"

definition OutboundInterface_String :: "OutboundInterface \<Rightarrow> string" where
  "OutboundInterface_String i =
     oi_DataplaneIP i @ '':'' @ format_nat (unat (oi_DataplanePort i))"

definition ParsePort :: "string \<Rightarrow> go_error + u32" where
  "ParsePort txt =
     (case parse_uint 32 txt of
        Inl e \<Rightarrow> Inl (ErrWrap (num_error_of ''ParseUint'' txt e)
                        (quote txt @ '' is not a valid port number''))
      | Inr port \<Rightarrow>
          if port < 1 \<or> 65535 < port
          then Inl (ErrString (''port number must be in the range [1, 65535] but got '' @
                 format_nat port))
          else Inr (of_nat port))"

definition ParseIP :: "string \<Rightarrow> go_error + string" where
  "ParseIP txt =
     (if parse_ip txt = [] then Inl (ErrString (quote txt @ '' is not a valid IP address''))
      else Inr txt)"

definition inboundInterfaceBNF :: string where
  "inboundInterfaceBNF = ''( IPv4 | '[' IPv6 ']' ) ':' DATAPLANE_PORT ':' WORKLOAD_PORT''"

definition outboundInterfaceBNF :: string where
  "outboundInterfaceBNF = ''[ IPv4 | '[' IPv6 ']' ] ':' DATAPLANE_PORT''"

definition invalid_format :: "string \<Rightarrow> string \<Rightarrow> go_error" where
  "invalid_format bnf txt =
     ErrString (''invalid format: expected '' @ quote bnf @ '', got '' @ quote txt)"

definition ParseInboundInterface :: "string \<Rightarrow> go_error + InboundInterface" where
  "ParseInboundInterface txt =
     (case last_index_byte (CHR '':'') txt of
        None \<Rightarrow> Inl (invalid_format inboundInterfaceBNF txt)
      | Some wpInd \<Rightarrow>
          (case last_index_byte (CHR '':'') (take wpInd txt) of
             None \<Rightarrow> Inl (invalid_format inboundInterfaceBNF txt)
           | Some dpInd \<Rightarrow>
               (case split_host_port (take wpInd txt) of
                  Inl _ \<Rightarrow> Inl (invalid_format inboundInterfaceBNF txt)
                | Inr (host, port) \<Rightarrow>
                    bindE (wrap_err (ParseIP host) (''invalid DATAPLANE_IP in '' @ quote txt))
                      (\<lambda>dataplaneIP.
                    bindE (wrap_err (ParsePort port) (''invalid DATAPLANE_PORT in '' @ quote txt))
                      (\<lambda>dataplanePort.
                    bindE (wrap_err (ParsePort (drop (wpInd + 1) txt))
                             (''invalid WORKLOAD_PORT in '' @ quote txt))
                      (\<lambda>workloadPort.
                    Inr \<lparr>ii_DataplaneIP = dataplaneIP, ii_DataplanePort = dataplanePort,
                         ii_WorkloadPort = workloadPort\<rparr>))))))"

definition ParseOutboundInterface :: "string \<Rightarrow> go_error + OutboundInterface" where
  "ParseOutboundInterface txt =
     (case last_index_byte (CHR '':'') txt of
        None \<Rightarrow> Inl (invalid_format outboundInterfaceBNF txt)
      | Some wpInd \<Rightarrow>
          bindE
            (if wpInd = 0 then Inr (''127.0.0.1'', drop (wpInd + 1) txt)
             else (case split_host_port txt of
                     Inl _ \<Rightarrow> Inl (invalid_format outboundInterfaceBNF txt)
                   | Inr (dataplaneIP, port) \<Rightarrow>
                       bindE (wrap_err (ParseIP dataplaneIP)
                                (''invalid DATAPLANE_IP in '' @ quote txt))
                         (\<lambda>dataplaneIP. Inr (dataplaneIP, port))))
            (\<lambda>(dataplaneIP, port).
               bindE (wrap_err (ParsePort port) (''invalid DATAPLANE_PORT in '' @ quote txt))
                 (\<lambda>dataplanePort.
                    Inr \<lparr>oi_DataplaneIP = dataplaneIP, oi_DataplanePort = dataplanePort\<rparr>)))"

section \<open>Interfaces of a dataplane\<close>

definition outbound_iface :: "Outbound \<Rightarrow> go_error + OutboundInterface" where
  "outbound_iface outbound =
     (if out_Interface outbound \<noteq> '''' then ParseOutboundInterface (out_Interface outbound)
      else Inr \<lparr>oi_DataplaneIP =
                 (if out_Address outbound \<noteq> '''' then out_Address outbound else ''127.0.0.1''),
               oi_DataplanePort = out_Port outbound\<rparr>)"

definition GetOutboundInterfaces :: "Networking option \<Rightarrow> go_error + OutboundInterface list" where
  "GetOutboundInterfaces n =
     (case n of None \<Rightarrow> Inr [] | Some n \<Rightarrow> mapE outbound_iface (net_Outbound n))"

definition GetInboundInterfaceByIdx :: "Networking \<Rightarrow> nat \<Rightarrow> go_error + InboundInterface" where
  "GetInboundInterfaceByIdx n idx =
     (if length (net_Inbound n) \<le> idx
      then Inl (ErrString (''there is no inbound for index '' @ format_nat idx @
             ''. Dataplane has '' @ format_nat (length (net_Inbound n)) @ '' inbounds''))
      else
        (let inbound = net_Inbound n ! idx in
         if in_Interface inbound \<noteq> '''' then ParseInboundInterface (in_Interface inbound)
         else Inr \<lparr>ii_DataplaneIP =
                     (if in_Address inbound \<noteq> '''' then in_Address inbound else net_Address n),
                   ii_DataplanePort = in_Port inbound,
                   ii_WorkloadPort =
                     (if in_ServicePort inbound \<noteq> 0 then in_ServicePort inbound
                      else in_Port inbound)\<rparr>))"

definition GetInboundInterfaces :: "Networking option \<Rightarrow> go_error + InboundInterface list" where
  "GetInboundInterfaces n =
     (case n of
        None \<Rightarrow> Inr []
      | Some n \<Rightarrow> mapE (GetInboundInterfaceByIdx n) [0 ..< length (net_Inbound n)])"

fun inbound_of_service :: "nat \<Rightarrow> string \<Rightarrow> Inbound list \<Rightarrow> nat option" where
  "inbound_of_service i service [] = None"
| "inbound_of_service i service (inbound # rest) =
     (if gstr (in_Tags inbound) ServiceTag \<noteq> service then inbound_of_service (Suc i) service rest
      else Some i)"

definition GetInboundInterface :: "Networking \<Rightarrow> string \<Rightarrow> go_error + InboundInterface" where
  "GetInboundInterface n service =
     (case inbound_of_service 0 service (net_Inbound n) of
        None \<Rightarrow> Inl (ErrString
                      (''Dataplane has no Inbound Interface for service '' @ quote service))
      | Some i \<Rightarrow> GetInboundInterfaceByIdx n i)"

section \<open>Matching and tags\<close>

definition inbound_MatchTags :: "Inbound \<Rightarrow> tags \<Rightarrow> bool" where
  "inbound_MatchTags d selector = Matches selector (in_Tags d)"

definition gateway_MatchTags :: "Gateway \<Rightarrow> tags \<Rightarrow> bool" where
  "gateway_MatchTags d selector = Matches selector (gw_Tags d)"

definition outbound_MatchTags :: "Outbound \<Rightarrow> tags \<Rightarrow> bool" where
  "outbound_MatchTags d selector =
     (let service = gstr selector ServiceTag in service = MatchAllTag \<or> service = out_Service d)"

definition dataplane_MatchTags :: "Dataplane \<Rightarrow> tags \<Rightarrow> bool" where
  "dataplane_MatchTags d selector =
     (if list_ex (\<lambda>inbound. inbound_MatchTags inbound selector) (dp_GetInbound d) then True
      else (case dp_GetGateway d of
              None \<Rightarrow> False
            | Some gateway \<Rightarrow> gateway_MatchTags gateway selector))"

definition dataplane_Matches :: "Dataplane option \<Rightarrow> tags \<Rightarrow> bool" where
  "dataplane_Matches d selector =
     (case d of None \<Rightarrow> False | Some d \<Rightarrow> dataplane_MatchTags d selector)"

definition inbound_GetService :: "Inbound option \<Rightarrow> string" where
  "inbound_GetService d = (case d of None \<Rightarrow> '''' | Some d \<Rightarrow> gstr (in_Tags d) ServiceTag)"

definition inbound_GetProtocol :: "Inbound option \<Rightarrow> string" where
  "inbound_GetProtocol d = (case d of None \<Rightarrow> '''' | Some d \<Rightarrow> gstr (in_Tags d) ProtocolTag)"

definition gateway_GetTags :: "Gateway option \<Rightarrow> tags" where
  "gateway_GetTags g = (case g of None \<Rightarrow> [] | Some g \<Rightarrow> gw_Tags g)"

definition dataplane_Tags :: "Dataplane \<Rightarrow> MultiValueTagSet" where
  "dataplane_Tags d =
     add_tags (gateway_GetTags (dp_GetGateway d))
       (fold (\<lambda>inbound. add_tags (in_Tags inbound)) (dp_GetInbound d) [])"

definition GetIdentifyingService :: "Dataplane \<Rightarrow> string" where
  "GetIdentifyingService d =
     (case multi_Values (dataplane_Tags d) ServiceTag of
        [] \<Rightarrow> ServiceUnknown
      | service # _ \<Rightarrow> service)"

section \<open>Protocols and used interfaces\<close>

definition ProtocolUnknown :: string where "ProtocolUnknown = ''<unknown>''"
definition ProtocolTCP :: string where "ProtocolTCP = ''tcp''"
definition ProtocolHTTP :: string where "ProtocolHTTP = ''http''"
definition PassThroughService :: string where "PassThroughService = ''pass_through''"

lemmas protocol_constants = ProtocolUnknown_def ProtocolTCP_def ProtocolHTTP_def

definition ParseProtocol :: "string \<Rightarrow> string" where
  "ParseProtocol tag =
     (let t = to_lower tag in
      if t = ProtocolHTTP then ProtocolHTTP
      else if t = ProtocolTCP then ProtocolTCP
      else ProtocolUnknown)"

definition SupportedProtocols :: "string list" where
  "SupportedProtocols = [ProtocolHTTP, ProtocolTCP]"

definition ipv4loopback :: ip where
  "ipv4loopback = ipv4 127 0 0 1"

definition overlap :: "ip \<Rightarrow> ip \<Rightarrow> bool" where
  "overlap address1 address2 =
     (if ip_is_unspecified address1 \<or> ip_is_unspecified address2 then True
      else ip_equal address1 address2)"

definition UsesInboundInterface :: "DataplaneResource option \<Rightarrow> ip \<Rightarrow> u32 \<Rightarrow> bool" where
  "UsesInboundInterface d address port =
     (case d of
        None \<Rightarrow> False
      | Some d \<Rightarrow>
          (case GetInboundInterfaces (dp_Networking (Spec d)) of
             Inl _ \<Rightarrow> False
           | Inr ifaces \<Rightarrow>
               list_ex (\<lambda>iface.
                 (port = ii_DataplanePort iface \<and>
                    overlap address (parse_ip (ii_DataplaneIP iface))) \<or>
                 (port = ii_WorkloadPort iface \<and> overlap address ipv4loopback)) ifaces))"

definition UsesOutboundInterface :: "DataplaneResource option \<Rightarrow> ip \<Rightarrow> u32 \<Rightarrow> bool" where
  "UsesOutboundInterface d address port =
     (case d of
        None \<Rightarrow> False
      | Some d \<Rightarrow>
          (case GetOutboundInterfaces (dp_Networking (Spec d)) of
             Inl _ \<Rightarrow> False
           | Inr ofaces \<Rightarrow>
               list_ex (\<lambda>oface.
                 port = oi_DataplanePort oface \<and>
                 overlap address (parse_ip (oi_DataplaneIP oface))) ofaces))"

definition UsesInterface :: "DataplaneResource option \<Rightarrow> ip \<Rightarrow> u32 \<Rightarrow> bool" where
  "UsesInterface d address port =
     (UsesInboundInterface d address port \<or> UsesOutboundInterface d address port)"

text \<open>\<open>GetIP\<close>; a dataplane with no networking section makes the Go code dereference \<open>nil\<close>.\<close>

definition GetIP :: "DataplaneResource option \<Rightarrow> go_error + string" where
  "GetIP d =
     (case d of
        None \<Rightarrow> Inr ''''
      | Some d \<Rightarrow>
          (case dp_Networking (Spec d) of
             None \<Rightarrow> Inl (ErrPanic ''nil pointer dereference'')
           | Some n \<Rightarrow>
               if net_Address n \<noteq> '''' then Inr (net_Address n)
               else if length (net_Inbound n) = 0 then Inr ''''
               else (case GetInboundInterfaceByIdx n 0 of
                       Inl _ \<Rightarrow> Inr ''''
                     | Inr iface \<Rightarrow> Inr (ii_DataplaneIP iface))))"

section \<open>Properties\<close>

definition valid_port :: "u32 \<Rightarrow> bool" where
  "valid_port p \<longleftrightarrow> 1 \<le> p \<and> p \<le> 65535"

lemma valid_port_unat: "valid_port p \<longleftrightarrow> 1 \<le> unat p \<and> unat p \<le> 65535"
  by (simp add: valid_port_def word_le_nat_alt)

lemma ParsePort_valid: "ParsePort txt = Inr p \<Longrightarrow> valid_port p"
proof -
  assume "ParsePort txt = Inr p"
  then obtain n where n: "\<not> (n < 1 \<or> 65535 < n)" "p = of_nat n"
    by (auto simp: ParsePort_def split: sum.splits if_splits)
  then have "unat p = n" by (simp add: unat_of_nat not_less)
  with n show ?thesis by (simp add: valid_port_unat)
qed

lemma ParsePort_format_nat:
  assumes "valid_port p"
  shows "ParsePort (format_nat (unat p)) = Inr p"
proof -
  have "unat p < 2 ^ 32" using unsigned_less [of p] by simp
  then show ?thesis using assms by (simp add: ParsePort_def valid_port_unat)
qed

lemma ParseIP_Inr: "ParseIP txt = Inr s \<longleftrightarrow> s = txt \<and> parse_ip txt \<noteq> []"
  by (auto simp: ParseIP_def)

lemma ParseInboundInterface_valid:
  "ParseInboundInterface txt = Inr i \<Longrightarrow>
     parse_ip (ii_DataplaneIP i) \<noteq> [] \<and> valid_port (ii_DataplanePort i) \<and>
     valid_port (ii_WorkloadPort i)"
  by (auto simp: ParseInboundInterface_def bindE_Inr ParseIP_Inr
      split: option.splits sum.splits) (blast intro: ParsePort_valid)+

lemma ParseOutboundInterface_valid:
  "ParseOutboundInterface txt = Inr i \<Longrightarrow>
     parse_ip (oi_DataplaneIP i) \<noteq> [] \<and> valid_port (oi_DataplanePort i)"
proof -
  have "parse_ip ''127.0.0.1'' \<noteq> []" by code_simp
  then show "ParseOutboundInterface txt = Inr i \<Longrightarrow> ?thesis"
    by (auto simp: ParseOutboundInterface_def bindE_Inr ParseIP_Inr intro: ParsePort_valid
        split: option.splits sum.splits if_splits)
qed

lemma parse_ipv6_first: "parse_ipv6 s = Some a \<Longrightarrow> s \<noteq> [] \<and> hd s \<noteq> CHR ''[''"
proof -
  have x: "xtoi (CHR ''['' # t) = None" for t
    by (simp add: xtoi_def hex_val_def)
  have n: "xtoi [] = None" by (simp add: xtoi_def)
  assume p: "parse_ipv6 s = Some a"
  show ?thesis
  proof (cases s)
    case Nil
    with p show ?thesis by (simp add: parse_ipv6_def n eval_nat_numeral)
  next
    case (Cons c t)
    with p x show ?thesis by (auto simp: parse_ipv6_def eval_nat_numeral)
  qed
qed

lemma parse_ip_colon:
  assumes "parse_ip s \<noteq> []" and "CHR '':'' \<in> set s"
  shows "s \<noteq> [] \<and> hd s \<noteq> CHR ''[''"
proof -
  obtain c a where c: "(if c = CHR ''.'' then parse_ipv4 s else parse_ipv6 s) = Some a"
    using assms(1) by (auto simp: parse_ip_def split: option.splits)
  then have "parse_ipv6 s = Some a"
    using assms(2) parse_ipv4_plain(1) [of s a] by (auto split: if_splits)
  then show ?thesis by (rule parse_ipv6_first)
qed

lemma split_host_port_colon:
  assumes "hd s \<noteq> CHR ''[''" and "s \<noteq> []" and "CHR '':'' \<in> set s" and "CHR '':'' \<notin> set t"
  shows "\<exists>e. split_host_port (s @ CHR '':'' # t) = Inl e"
  using assms by (auto simp: split_host_port_def last_index_byte_append_notin)

text \<open>
  C34. An inbound interface with an IPv4 address is read back from its own text; with an IPv6
  address the text (which \<open>InboundInterface.String\<close> writes without brackets) is rejected by
  \<open>ParseInboundInterface\<close>.
\<close>

theorem inbound_interface_roundtrip:
  assumes ip: "parse_ip (ii_DataplaneIP i) \<noteq> []"
    and p: "valid_port (ii_DataplanePort i)" and w: "valid_port (ii_WorkloadPort i)"
  shows "ParseInboundInterface (InboundInterface_String i) =
    (if CHR '':'' \<in> set (ii_DataplaneIP i)
     then Inl (invalid_format inboundInterfaceBNF (InboundInterface_String i))
     else Inr i)"
proof -
  let ?ip = "ii_DataplaneIP i"
  let ?p = "format_nat (unat (ii_DataplanePort i))"
  let ?w = "format_nat (unat (ii_WorkloadPort i))"
  have str: "InboundInterface_String i = (?ip @ CHR '':'' # ?p) @ CHR '':'' # ?w"
    by (simp add: InboundInterface_String_def)
  have wp: "last_index_byte (CHR '':'') (InboundInterface_String i)
      = Some (length (?ip @ CHR '':'' # ?p))"
    unfolding str by (rule last_index_byte_append_notin) (rule format_nat_plain)
  have dp: "last_index_byte (CHR '':'') (?ip @ CHR '':'' # ?p) = Some (length ?ip)"
    by (rule last_index_byte_append_notin) (rule format_nat_plain)
  have takes: "take (length (?ip @ CHR '':'' # ?p)) (InboundInterface_String i)
      = ?ip @ CHR '':'' # ?p"
    and drops: "drop (length (?ip @ CHR '':'' # ?p) + 1) (InboundInterface_String i) = ?w"
    unfolding str by simp_all
  note unf = ParseInboundInterface_def wp option.case takes dp drops
  show ?thesis
  proof (cases "CHR '':'' \<in> set ?ip")
    case True
    then obtain e where "split_host_port (?ip @ CHR '':'' # ?p) = Inl e"
      using split_host_port_colon parse_ip_colon [OF ip] format_nat_plain(1) by metis
    then show ?thesis using True by (simp only: unf sum.case if_True)
  next
    case False
    obtain a where "parse_ipv4 ?ip = Some a" using parse_ip_no_colon [OF ip False] by blast
    then have "split_host_port (?ip @ CHR '':'' # ?p) = Inr (?ip, ?p)"
      by (intro split_host_port_plain parse_ipv4_plain format_nat_plain)
    moreover have "ParseIP ?ip = Inr ?ip" using ip by (simp add: ParseIP_Inr)
    ultimately show ?thesis
      using False ParsePort_format_nat [OF p] ParsePort_format_nat [OF w]
      by (simp only: unf sum.case prod.case if_False bindE_simps wrap_err_of_Inr) simp
  qed
qed

definition inbound_example :: InboundInterface where
  "inbound_example = \<lparr>ii_DataplaneIP = ''192.168.0.100'', ii_DataplanePort = 9090,
     ii_WorkloadPort = 8080\<rparr>"

theorem inbound_interface_roundtrip_witness:
  "ParseInboundInterface (InboundInterface_String inbound_example) = Inr inbound_example"
proof -
  have "parse_ip (ii_DataplaneIP inbound_example) \<noteq> []"
    by code_simp
  moreover have "valid_port (ii_DataplanePort inbound_example)"
    and "valid_port (ii_WorkloadPort inbound_example)"
    and "CHR '':'' \<notin> set (ii_DataplaneIP inbound_example)"
    by (simp_all add: inbound_example_def valid_port_def)
  ultimately show ?thesis
    using inbound_interface_roundtrip [of inbound_example] by simp
qed

section \<open>Tags of a dataplane\<close>

definition dataplane_tag_pairs :: "Dataplane \<Rightarrow> (string \<times> string) set" where
  "dataplane_tag_pairs d =
     (\<Union>inbound \<in> set (dp_GetInbound d). set (in_Tags inbound)) \<union>
     set (gateway_GetTags (dp_GetGateway d))"

lemma multi_has_dataplane_Tags:
  "multi_has (dataplane_Tags d) k v \<longleftrightarrow> (k, v) \<in> dataplane_tag_pairs d"
proof -
  have "multi_has (fold (\<lambda>inbound. add_tags (in_Tags inbound)) is t) k v \<longleftrightarrow>
      multi_has t k v \<or> (\<exists>i \<in> set is. (k, v) \<in> set (in_Tags i))" for "is" :: "Inbound list" and t
    by (induction "is" arbitrary: t) (auto simp: multi_has_add_tags)
  then show ?thesis
    by (simp add: dataplane_Tags_def multi_has_add_tags dataplane_tag_pairs_def multi_has_Nil)
qed

lemma dataplane_MatchTags_iff:
  "dataplane_MatchTags d s \<longleftrightarrow>
     (\<exists>inbound \<in> set (dp_GetInbound d). Matches s (in_Tags inbound)) \<or>
     (\<exists>g. dp_GetGateway d = Some g \<and> Matches s (gw_Tags g))"
  by (auto simp: dataplane_MatchTags_def inbound_MatchTags_def gateway_MatchTags_def list_ex_iff
      split: option.splits)

lemma hd_sort_Min: "xs \<noteq> [] \<Longrightarrow> hd (sort xs) = Min (set xs)"
proof -
  assume "xs \<noteq> []"
  then have ne: "sort xs \<noteq> []" by (metis length_sort length_0_conv)
  then obtain y ys where y: "sort xs = y # ys" by (cases "sort xs") auto
  have "sorted (sort xs)" by simp
  then have "\<forall>z \<in> set (sort xs). y \<le> z" unfolding y by simp
  moreover have "y \<in> set (sort xs)" unfolding y by simp
  ultimately have "Min (set xs) = y" by (intro Min_eqI) auto
  then show ?thesis unfolding y by simp
qed

text \<open>
  The identifying service of a dataplane is the least value of the \<open>service\<close> tag among its
  inbound interfaces and its gateway, or \<open>unknown\<close> when none of them carries the tag; it does not
  depend on the order in which Go visits the tag maps.
\<close>

theorem identifying_service_is_least:
  "GetIdentifyingService d =
     (let services = {v. (ServiceTag, v) \<in> dataplane_tag_pairs d}
      in if services = {} then ServiceUnknown else Min services)"
proof -
  let ?vs = "multi_Values (dataplane_Tags d) ServiceTag"
  have set: "set ?vs = {v. (ServiceTag, v) \<in> dataplane_tag_pairs d}"
    by (auto simp: set_multi_Values multi_has_dataplane_Tags)
  show ?thesis
  proof (cases ?vs)
    case Nil
    then show ?thesis using set by (auto simp: GetIdentifyingService_def Let_def)
  next
    case (Cons v vs)
    have "sorted ?vs" by (simp add: multi_Values_def split: option.split)
    then have "sort ?vs = ?vs" by (rule sort_key_id_if_sorted [of "\<lambda>x. x", simplified])
    then have "v = Min (set ?vs)" using hd_sort_Min [of ?vs] Cons by simp
    then show ?thesis using set Cons by (auto simp: GetIdentifyingService_def Let_def)
  qed
qed

text \<open>A dataplane of a service \<open>web\<close> that calls \<open>backend\<close>, used in examples.\<close>

definition example_dataplane :: Dataplane where
  "example_dataplane =
     \<lparr>dp_Networking = Some
        \<lparr>net_Address = ''192.168.0.1'', net_Gateway = None,
         net_Inbound = [\<lparr>in_Interface = '''', in_Port = 8080, in_ServicePort = 80,
                         in_Address = '''', in_Tags = [(''service'', ''web''), (''version'', ''v1'')]\<rparr>],
         net_Outbound = [\<lparr>out_Interface = '''', out_Address = '''', out_Port = 3000,
                          out_Service = ''backend''\<rparr>],
         net_TransparentProxying = None\<rparr>,
      dp_Metrics = None\<rparr>"

end
