(* ===== verification/Validation_Core.thy ===== *)
theory Validation_Core
  imports Dataplane_Model Complex_Main
begin

text \<open>
  Validation errors and the validators every policy shares: \<open>pkg/core/validators/types.go\<close> and
  \<open>pkg/core/resources/apis/mesh/validators.go\<close>.  A \<open>ValidationError\<close> is the list of its
  violations; the methods that append to the receiver take it as their last argument.  A
  \<open>PathBuilder\<close> is a list of path elements; Go's \<open>append\<close> may share the backing array of two
  builders, which is not observable here because every builder is rendered by \<open>String\<close> before
  the next one is derived from the same prefix.  The lemmas reduce every validator to the
  condition under which it reports nothing.
\<close>

section \<open>Violations and paths\<close>

type_synonym ValidationError = "violation list"
type_synonym PathBuilder = "string list"

definition HasViolations :: "ValidationError \<Rightarrow> bool" where
  "HasViolations v \<longleftrightarrow> length v > 0"

definition OrNil :: "ValidationError \<Rightarrow> go_error option" where
  "OrNil v = (if HasViolations v then Some (ErrValidation v) else None)"

definition AddViolation :: "string \<Rightarrow> string \<Rightarrow> ValidationError \<Rightarrow> ValidationError" where
  "AddViolation field message v = v @ [\<lparr>Field = field, Message = message\<rparr>]"

definition path_String :: "PathBuilder \<Rightarrow> string" where
  "path_String p = strings_join '''' p"

definition AddViolationAt :: "PathBuilder \<Rightarrow> string \<Rightarrow> ValidationError \<Rightarrow> ValidationError" where
  "AddViolationAt path message v = AddViolation (path_String path) message v"

definition AddError :: "string \<Rightarrow> ValidationError \<Rightarrow> ValidationError \<Rightarrow> ValidationError" where
  "AddError rootField validationErr v =
     (let rootPrefix = (if rootField \<noteq> '''' then rootField @ ''.'' else '''')
      in v @ map (\<lambda>violation.
               \<lparr>Field = (if Field violation = '''' then rootField
                         else rootPrefix @ Field violation),
                Message = Message violation\<rparr>) validationErr)"

definition Add :: "ValidationError \<Rightarrow> ValidationError \<Rightarrow> ValidationError" where
  "Add err v = AddError '''' err v"

definition AddErrorAt :: "PathBuilder \<Rightarrow> ValidationError \<Rightarrow> ValidationError \<Rightarrow> ValidationError" where
  "AddErrorAt path validationErr v = AddError (path_String path) validationErr v"

definition Transform ::
  "(violation \<Rightarrow> violation) option \<Rightarrow> ValidationError option \<Rightarrow> ValidationError option" where
  "Transform transformFunc v =
     (case v of
        None \<Rightarrow> None
      | Some vs \<Rightarrow>
          (case transformFunc of
             None \<Rightarrow> Some vs
           | Some f \<Rightarrow> if length vs = 0 then Some vs else Some (map f vs)))"

definition IsValidationError :: "go_error option \<Rightarrow> bool" where
  "IsValidationError err = (case err of Some (ErrValidation _) \<Rightarrow> True | _ \<Rightarrow> False)"

definition RootedAt :: "string \<Rightarrow> PathBuilder" where
  "RootedAt name = [name]"

definition path_Field :: "string \<Rightarrow> PathBuilder \<Rightarrow> PathBuilder" where
  "path_Field name p = p @ [''.'' @ name]"

definition path_Index :: "nat \<Rightarrow> PathBuilder \<Rightarrow> PathBuilder" where
  "path_Index index p = p @ [''['' @ format_nat index @ '']'']"

definition path_Key :: "string \<Rightarrow> PathBuilder \<Rightarrow> PathBuilder" where
  "path_Key key p = p @ [''['' @ quote key @ '']'']"

section \<open>Selectors\<close>

type_synonym SelectorValidatorFunc = "PathBuilder \<Rightarrow> tags \<Rightarrow> ValidationError"
type_synonym TagKeyValidatorFunc = "PathBuilder \<Rightarrow> string \<Rightarrow> ValidationError"
type_synonym TagValueValidatorFunc = "PathBuilder \<Rightarrow> string \<Rightarrow> string \<Rightarrow> ValidationError"

record ValidateSelectorOpts =
  RequireAtLeastOneTag :: bool
  RequireService :: bool
  ExtraSelectorValidators :: "SelectorValidatorFunc list"
  ExtraTagKeyValidators :: "TagKeyValidatorFunc list"
  ExtraTagValueValidators :: "TagValueValidatorFunc list"

record ValidateSelectorsOpts =
  SelectorOpts :: ValidateSelectorOpts
  RequireAtLeastOneSelector :: bool

text \<open>The zero value of \<open>ValidateSelectorOpts\<close>.\<close>

definition no_opts :: ValidateSelectorOpts where
  "no_opts = \<lparr>RequireAtLeastOneTag = False, RequireService = False, ExtraSelectorValidators = [],
     ExtraTagKeyValidators = [], ExtraTagValueValidators = []\<rparr>"

text \<open>The character class \<open>[a-zA-Z0-9\.\-_:]\<close>.\<close>

definition is_tag_char :: "char \<Rightarrow> bool" where
  "is_tag_char c =
     (let n = (of_char c :: nat) in
      97 \<le> n \<and> n \<le> 122 \<or> 65 \<le> n \<and> n \<le> 90 \<or> 48 \<le> n \<and> n \<le> 57 \<or>
      c = CHR ''.'' \<or> c = CHR ''-'' \<or> c = CHR ''_'' \<or> c = CHR '':'')"

definition tagNameCharacterSet :: "string \<Rightarrow> bool" where
  "tagNameCharacterSet s = list_all is_tag_char s"

definition tagValueCharacterSet :: "string \<Rightarrow> bool" where
  "tagValueCharacterSet s = list_all is_tag_char s"

definition selectorCharacterSet :: "string \<Rightarrow> bool" where
  "selectorCharacterSet s = (list_all is_tag_char s \<or> s = ''*'')"

text \<open>\<open>Keys\<close>: the keys of a tag map in order.\<close>

definition Keys :: "tags \<Rightarrow> string list" where
  "Keys tgs = sort (map fst tgs)"

text \<open>The body of the loop of \<open>ValidateSelector\<close> for one key.\<close>

definition validate_selector_key ::
  "PathBuilder \<Rightarrow> tags \<Rightarrow> ValidateSelectorOpts \<Rightarrow> string \<Rightarrow> ValidationError \<Rightarrow> ValidationError" where
  "validate_selector_key path selector opts key err =
     (let value = gstr selector key;
          err = (if key = '''' then AddViolationAt path ''tag name must be non-empty'' err else err);
          err = (if \<not> tagNameCharacterSet key
                 then AddViolationAt (path_Key key path)
                   ''tag name must consist of alphanumeric characters, dots, dashes and underscores''
                   err
                 else err);
          err = fold (\<lambda>validate. Add (validate path key)) (ExtraTagKeyValidators opts) err;
          err = (if value = ''''
                 then AddViolationAt (path_Key key path) ''tag value must be non-empty'' err
                 else err);
          err = (if \<not> selectorCharacterSet value
                 then AddViolationAt (path_Key key path)
                   (''tag value must consist of alphanumeric characters, dots, dashes and underscores or be '' @ quote ''*'')
                   err
                 else err)
      in fold (\<lambda>validate. Add (validate path key value)) (ExtraTagValueValidators opts) err)"

definition ValidateSelector ::
  "PathBuilder \<Rightarrow> tags \<Rightarrow> ValidateSelectorOpts \<Rightarrow> ValidationError" where
  "ValidateSelector path selector opts =
     (let err = (if RequireAtLeastOneTag opts \<and> length selector = 0
                 then AddViolationAt path ''must have at least one tag'' [] else []);
          err = fold (\<lambda>validate. Add (validate path selector)) (ExtraSelectorValidators opts) err;
          err = fold (validate_selector_key path selector opts) (Keys selector) err
      in if RequireService opts \<and> map_of selector ServiceTag = None
         then AddViolationAt path (''mandatory tag '' @ quote ServiceTag @ '' is missing'') err
         else err)"

text \<open>A \<open>Selector\<close> message is its \<open>match\<close> map; the loop carries the index of the selector.\<close>

fun validate_selectors_loop ::
  "PathBuilder \<Rightarrow> ValidateSelectorsOpts \<Rightarrow> nat \<Rightarrow> tags list \<Rightarrow> ValidationError \<Rightarrow> ValidationError" where
  "validate_selectors_loop path opts i [] err = err"
| "validate_selectors_loop path opts i (selector # rest) err =
     validate_selectors_loop path opts (Suc i) rest
       (Add (ValidateSelector (path_Field ''match'' (path_Index i path)) selector
              (SelectorOpts opts)) err)"

definition ValidateSelectors ::
  "PathBuilder \<Rightarrow> tags list \<Rightarrow> ValidateSelectorsOpts \<Rightarrow> ValidationError" where
  "ValidateSelectors path sources opts =
     validate_selectors_loop path opts 0 sources
       (if RequireAtLeastOneSelector opts \<and> length sources = 0
        then AddViolationAt path ''must have at least one element'' [] else [])"

definition only_service_selector :: SelectorValidatorFunc where
  "only_service_selector path selector =
     (if length selector \<noteq> 1 \<or> map_of selector ServiceTag = None
      then AddViolationAt path (''must consist of exactly one tag '' @ quote ServiceTag) []
      else [])"

definition only_service_key :: TagKeyValidatorFunc where
  "only_service_key path key =
     (if key \<noteq> ServiceTag
      then AddViolationAt (path_Key key path) (''tag '' @ quote key @ '' is not allowed'') []
      else [])"

definition OnlyServiceTagAllowed :: ValidateSelectorsOpts where
  "OnlyServiceTagAllowed =
     \<lparr>SelectorOpts = no_opts\<lparr>RequireService := True,
        ExtraSelectorValidators := [only_service_selector],
        ExtraTagKeyValidators := [only_service_key]\<rparr>,
      RequireAtLeastOneSelector = True\<rparr>"

definition ProtocolValidator :: "string list \<Rightarrow> SelectorValidatorFunc" where
  "ProtocolValidator protocols path selector =
     (case map_of selector ProtocolTag of
        None \<Rightarrow> AddViolationAt path ''protocol must be specified'' []
      | Some v \<Rightarrow>
          if v \<in> set protocols then []
          else AddViolationAt (path_Key ProtocolTag path)
                 (''must be one of the ['' @ strings_join '', '' protocols @ '']'') [])"

section \<open>Durations, thresholds and hints\<close>

text \<open>
  \<open>google.protobuf.Duration\<close>.  \<open>ptypes.Duration\<close> of the protobuf library, which turns it into
  nanoseconds or fails, is a parameter of the validator.
\<close>

record PbDuration =
  Seconds :: int
  Nanos :: int

definition ValidateDuration ::
  "(PbDuration \<Rightarrow> int option) \<Rightarrow> PathBuilder \<Rightarrow> PbDuration option \<Rightarrow> ValidationError" where
  "ValidateDuration ptypes_Duration path duration =
     (case duration of
        None \<Rightarrow> AddViolationAt path ''must have a positive value'' []
      | Some dur \<Rightarrow>
          (case ptypes_Duration dur of
             None \<Rightarrow> AddViolationAt path ''must have a valid value'' []
           | Some d \<Rightarrow>
               if d = 0 then AddViolationAt path ''must have a positive value'' [] else []))"

definition ValidateThreshold :: "PathBuilder \<Rightarrow> u32 \<Rightarrow> ValidationError" where
  "ValidateThreshold path threshold =
     (if threshold = 0 then AddViolationAt path ''must have a positive value'' [] else [])"

definition AllowedValuesHint :: "string list \<Rightarrow> string" where
  "AllowedValuesHint values =
     (let options = (if length values = 0 then ''(none)'' else strings_join '', '' values)
      in ''Allowed values: '' @ options)"

section \<open>When nothing is reported\<close>

lemma OrNil_None [simp]: "OrNil v = None \<longleftrightarrow> v = []"
  by (simp add: OrNil_def HasViolations_def)

lemma AddViolation_ne [simp]: "AddViolation f m v \<noteq> []" "AddViolationAt p m v \<noteq> []"
  by (simp_all add: AddViolation_def AddViolationAt_def)

lemma AddError_Nil [simp]: "AddError r e v = [] \<longleftrightarrow> e = [] \<and> v = []"
  by (auto simp: AddError_def Let_def)

lemma Add_Nil [simp]: "Add e v = [] \<longleftrightarrow> e = [] \<and> v = []"
  by (simp add: Add_def)

lemma AddErrorAt_Nil [simp]: "AddErrorAt p e v = [] \<longleftrightarrow> e = [] \<and> v = []"
  by (simp add: AddErrorAt_def)

lemma Add_append: "Add e v = v @ e"
proof -
  have "\<lparr>Field = (if Field x = [] then [] else [] @ Field x), Message = Message x\<rparr> = x"
    for x :: violation
    by (cases x) simp
  then have "map (\<lambda>x. \<lparr>Field = (if Field x = [] then [] else [] @ Field x), Message = Message x\<rparr>) e = e"
    by (intro map_idI)
  then show ?thesis by (simp only: Add_def AddError_def Let_def simp_thms if_False)
qed

lemma fold_Add_Nil [simp]:
  "fold (\<lambda>f. Add (g f)) fs v = [] \<longleftrightarrow> v = [] \<and> (\<forall>f \<in> set fs. g f = [])"
  by (induction fs arbitrary: v) auto

text \<open>What one key of a selector must satisfy for \<open>ValidateSelector\<close> to accept it.\<close>

definition key_ok :: "PathBuilder \<Rightarrow> tags \<Rightarrow> ValidateSelectorOpts \<Rightarrow> string \<Rightarrow> bool" where
  "key_ok path selector opts key \<longleftrightarrow>
     key \<noteq> '''' \<and> tagNameCharacterSet key \<and>
     (\<forall>f \<in> set (ExtraTagKeyValidators opts). f path key = []) \<and>
     gstr selector key \<noteq> '''' \<and> selectorCharacterSet (gstr selector key) \<and>
     (\<forall>f \<in> set (ExtraTagValueValidators opts). f path key (gstr selector key) = [])"

lemma validate_selector_key_Nil:
  "validate_selector_key path selector opts key err = [] \<longleftrightarrow>
     err = [] \<and> key_ok path selector opts key"
  by (auto simp: validate_selector_key_def key_ok_def Let_def)

lemma fold_validate_selector_key_Nil:
  "fold (validate_selector_key path selector opts) ks err = [] \<longleftrightarrow>
     err = [] \<and> (\<forall>k \<in> set ks. key_ok path selector opts k)"
  by (induction ks arbitrary: err) (auto simp: validate_selector_key_Nil)

lemma ValidateSelector_Nil:
  "ValidateSelector path selector opts = [] \<longleftrightarrow>
     (RequireAtLeastOneTag opts \<longrightarrow> selector \<noteq> []) \<and>
     (\<forall>f \<in> set (ExtraSelectorValidators opts). f path selector = []) \<and>
     (\<forall>key \<in> fst ` set selector. key_ok path selector opts key) \<and>
     (RequireService opts \<longrightarrow> ServiceTag \<in> fst ` set selector)"
  by (auto simp: ValidateSelector_def Let_def fold_validate_selector_key_Nil Keys_def
      map_of_eq_None_iff)

lemma validate_selectors_loop_Nil:
  "validate_selectors_loop path opts i ss err = [] \<longleftrightarrow>
     err = [] \<and> (\<forall>j < length ss.
       ValidateSelector (path_Field ''match'' (path_Index (i + j) path)) (ss ! j)
         (SelectorOpts opts) = [])"
proof (induction ss arbitrary: i err)
  case Nil
  then show ?case by simp
next
  case (Cons s ss)
  have all_less_Suc: "(\<forall>j < Suc n. P j) \<longleftrightarrow> P 0 \<and> (\<forall>j < n. P (Suc j))" for n and P :: "nat \<Rightarrow> bool"
    by (metis less_Suc_eq_0_disj)
  show ?case by (auto simp: Cons all_less_Suc)
qed

lemma ValidateSelectors_Nil:
  "ValidateSelectors path ss opts = [] \<longleftrightarrow>
     (RequireAtLeastOneSelector opts \<longrightarrow> ss \<noteq> []) \<and>
     (\<forall>j < length ss.
       ValidateSelector (path_Field ''match'' (path_Index j path)) (ss ! j) (SelectorOpts opts) = [])"
  by (auto simp: ValidateSelectors_def validate_selectors_loop_Nil)

lemma ValidateSelectors_member:
  assumes "ValidateSelectors path ss opts = []" and "s \<in> set ss"
  shows "\<exists>p. ValidateSelector p s (SelectorOpts opts) = []"
  using assms by (metis ValidateSelectors_Nil in_set_conv_nth)

lemma only_service_selector_Nil:
  "only_service_selector p s = [] \<longleftrightarrow> (\<exists>v. s = [(ServiceTag, v)])"
proof -
  have "length s = 1 \<and> map_of s ServiceTag \<noteq> None \<longleftrightarrow> (\<exists>v. s = [(ServiceTag, v)])"
    by (cases s; cases "tl s") (auto split: if_splits)
  then show ?thesis by (auto simp: only_service_selector_def)
qed

text \<open>A selector accepted by \<open>OnlyServiceTagAllowed\<close> is one \<open>service\<close> tag with a usable value.\<close>

lemma OnlyServiceTagAllowed_Nil:
  "ValidateSelector p s (SelectorOpts OnlyServiceTagAllowed) = [] \<longleftrightarrow>
     (\<exists>v. s = [(ServiceTag, v)] \<and> v \<noteq> '''' \<and> selectorCharacterSet v)"
proof -
  have name: "tagNameCharacterSet ServiceTag"
    by (simp add: tagNameCharacterSet_def ServiceTag_def is_tag_char_def)
  show ?thesis
    by (auto simp: ValidateSelector_Nil OnlyServiceTagAllowed_def no_opts_def
        only_service_selector_Nil key_ok_def only_service_key_def gstr_def name)
      (simp add: ServiceTag_def)
qed

lemma ProtocolValidator_Nil:
  "ProtocolValidator ps p s = [] \<longleftrightarrow> (\<exists>v. map_of s ProtocolTag = Some v \<and> v \<in> set ps)"
  by (auto simp: ProtocolValidator_def split: option.splits)

lemma ValidateThreshold_Nil [simp]: "ValidateThreshold p t = [] \<longleftrightarrow> t \<noteq> 0"
  by (simp add: ValidateThreshold_def)

lemma ValidateDuration_Nil:
  "ValidateDuration pd p d = [] \<longleftrightarrow> (\<exists>x ns. d = Some x \<and> pd x = Some ns \<and> ns \<noteq> 0)"
  by (auto simp: ValidateDuration_def split: option.splits)

end
