(* ===== verification/Resource_Validators.thy ===== *)
theory Resource_Validators
  imports Validation_Core
begin

text \<open>
  The policies of a mesh and their validators, \<open>pkg/core/resources/apis/mesh/*_validator.go\<close>:
  \<open>Dataplane\<close>, \<open>TrafficPermission\<close>, \<open>TrafficRoute\<close>, \<open>TrafficLog\<close>, \<open>TrafficTrace\<close>,
  \<open>HealthCheck\<close>, \<open>FaultInjection\<close> and \<open>ProxyTemplate\<close>.  A \<open>Selector\<close> message is its \<open>match\<close> map.
  The properties say what an accepted resource guarantees to the code that consumes it.
\<close>

section \<open>Loops with an index\<close>

fun add_indexed ::
  "PathBuilder \<Rightarrow> ('a \<Rightarrow> ValidationError) \<Rightarrow> nat \<Rightarrow> 'a list \<Rightarrow> ValidationError \<Rightarrow> ValidationError" where
  "add_indexed path f i [] err = err"
| "add_indexed path f i (x # xs) err =
     add_indexed path f (Suc i) xs (AddErrorAt (path_Index i path) (f x) err)"

lemma add_indexed_Nil [simp]:
  "add_indexed path f i xs err = [] \<longleftrightarrow> err = [] \<and> (\<forall>x \<in> set xs. f x = [])"
  by (induction xs arbitrary: i err) auto

section \<open>Dataplane\<close>

definition hasLegacyInbound :: "Networking \<Rightarrow> bool" where
  "hasLegacyInbound networking =
     list_ex (\<lambda>inbound. in_Interface inbound \<noteq> '''' \<and> in_Port inbound = 0 \<and>
       in_ServicePort inbound = 0 \<and> in_Address inbound = '''') (net_Inbound networking)"

fun validateTags_loop :: "tags \<Rightarrow> ValidationError \<Rightarrow> ValidationError" where
  "validateTags_loop [] result = result"
| "validateTags_loop ((name, value) # rest) result =
     (let path = path_Key name (RootedAt ''tags'');
          result = (if value = '''' then AddViolationAt path ''tag value cannot be empty'' result
                    else result);
          result = (if \<not> tagNameCharacterSet name
                    then AddViolationAt path ''tag name must consist of alphanumeric characters, dots, dashes and underscores'' result
                    else result);
          result = (if \<not> tagValueCharacterSet value
                    then AddViolationAt path ''tag value must consist of alphanumeric characters, dots, dashes and underscores'' result
                    else result)
      in validateTags_loop rest result)"

definition validateTags :: "tags \<Rightarrow> ValidationError" where
  "validateTags tgs = validateTags_loop tgs []"

definition legacy_inbound_violations :: "Inbound \<Rightarrow> string \<Rightarrow> ValidationError" where
  "legacy_inbound_violations inbound dpAddress =
     (let path = RootedAt ''interface'';
          result = (if in_Port inbound \<noteq> 0
                    then AddViolationAt path ''interface cannot be defined with port. Replace it with port, servicePort and networking.address'' []
                    else []);
          result = (if in_ServicePort inbound \<noteq> 0
                    then AddViolationAt path ''interface cannot be defined with servicePort. Replace it with port, servicePort and networking.address'' result
                    else result);
          result = (if in_Address inbound \<noteq> ''''
                    then AddViolationAt path ''interface cannot be defined with address. Replace it with port, servicePort and networking.address'' result
                    else result);
          result = (if dpAddress \<noteq> ''''
                    then AddViolationAt path ''interface cannot be defined with networking.address. Replace it with port, servicePort and networking.address'' result
                    else result)
      in case ParseInboundInterface (in_Interface inbound) of
           Inl _ \<Rightarrow> AddViolation ''interface'' ''invalid format: expected format is DATAPLANE_IP:DATAPLANE_PORT:WORKLOAD_PORT , e.g. 192.168.0.100:9090:8080 or [2001:db8::1]:7070:6060'' result
         | Inr _ \<Rightarrow> result)"

definition new_inbound_violations :: "Inbound \<Rightarrow> ValidationError" where
  "new_inbound_violations inbound =
     (let result = (if in_Port inbound < 1 \<or> in_Port inbound > 65535
                    then AddViolationAt (RootedAt ''port'') ''port has to be in range of [1, 65535]'' []
                    else []);
          result = (if in_ServicePort inbound > 65535
                    then AddViolationAt (RootedAt ''servicePort'') ''servicePort has to be in range of [0, 65535]'' result
                    else result)
      in if in_Address inbound \<noteq> '''' \<and> parse_ip (in_Address inbound) = []
         then AddViolationAt (RootedAt ''address'') ''address has to be valid IP address'' result
         else result)"

definition protocol_hint :: "string \<Rightarrow> string" where
  "protocol_hint value =
     ''tag '' @ quote ProtocolTag @ '' has an invalid value '' @ quote value @ ''. '' @
     AllowedValuesHint SupportedProtocols"

definition validateInbound :: "Inbound \<Rightarrow> string \<Rightarrow> ValidationError" where
  "validateInbound inbound dpAddress =
     (let result = (if in_Interface inbound \<noteq> '''' then legacy_inbound_violations inbound dpAddress
                    else new_inbound_violations inbound);
          result = (if map_of (in_Tags inbound) ServiceTag = None
                    then AddViolationAt (path_Key ServiceTag (RootedAt ''tags'')) ''tag has to exist'' result
                    else result);
          result = (case map_of (in_Tags inbound) ProtocolTag of
                      None \<Rightarrow> result
                    | Some value \<Rightarrow>
                        if ParseProtocol value = ProtocolUnknown
                        then AddViolationAt (path_Key ProtocolTag (RootedAt ''tags''))
                               (protocol_hint value) result
                        else result)
      in Add (validateTags (in_Tags inbound)) result)"

definition validateOutbound :: "Outbound \<Rightarrow> ValidationError" where
  "validateOutbound outbound =
     (let result =
        (if out_Interface outbound \<noteq> '''' then
           (let result = (if out_Port outbound \<noteq> 0
                          then AddViolation ''interface'' ''interface cannot be defined with port. Replace it with port and address'' []
                          else []);
                result = (if out_Address outbound \<noteq> ''''
                          then AddViolation ''interface'' ''interface cannot be defined with address. Replace it with port and address'' result
                          else result)
            in case ParseOutboundInterface (out_Interface outbound) of
                 Inl _ \<Rightarrow> AddViolation ''interface'' ''invalid format: expected format is DATAPLANE_IP:DATAPLANE_PORT where DATAPLANE_IP is optional. E.g. 127.0.0.1:9090, :9090, [::1]:8080'' result
               | Inr _ \<Rightarrow> result)
         else
           (let result = (if out_Port outbound < 1 \<or> out_Port outbound > 65535
                          then AddViolation ''port'' ''port has to be in range of [1, 65535]'' []
                          else [])
            in if out_Address outbound \<noteq> '''' \<and> parse_ip (out_Address outbound) = []
               then AddViolation ''address'' ''address has to be valid IP address'' result
               else result))
      in if out_Service outbound = '''' then AddViolation ''service'' ''cannot be empty'' result
         else result)"

definition validateGateway :: "Gateway \<Rightarrow> ValidationError" where
  "validateGateway gateway =
     (let result = (if map_of (gw_Tags gateway) ServiceTag = None
                    then AddViolationAt (path_Key ServiceTag (RootedAt ''tags'')) ''tag has to exist'' []
                    else [])
      in Add (validateTags (gw_Tags gateway)) result)"

text \<open>
  \<open>validateNetworking\<close>: with \<open>networking\<close> \<open>nil\<close> the first condition already reads
  \<open>networking.Gateway\<close>, which dereferences \<open>nil\<close>.
\<close>

definition validateNetworking :: "Networking option \<Rightarrow> go_error + ValidationError" where
  "validateNetworking networking =
     (case networking of
        None \<Rightarrow> Inl (ErrPanic ''nil pointer dereference'')
      | Some n \<Rightarrow>
          (let path = RootedAt ''networking'';
               err = (if length (net_Inbound n) = 0 \<and> net_Gateway n = None
                      then AddViolationAt path ''has to contain at least one inbound interface or gateway'' []
                      else []);
               err = (if length (net_Inbound n) > 0 \<and> net_Gateway n \<noteq> None
                      then AddViolationAt path ''inbound cannot be defined both with gateway'' err
                      else err);
               err = (if net_Address n \<noteq> '''' \<or> \<not> hasLegacyInbound n
                      then (if parse_ip (net_Address n) = []
                            then AddViolationAt (path_Field ''address'' path) ''address has to be valid IP address'' err
                            else err)
                      else err);
               err = (case net_Gateway n of
                        None \<Rightarrow> err
                      | Some gateway \<Rightarrow>
                          AddErrorAt (path_Field ''gateway'' path) (validateGateway gateway) err);
               err = add_indexed (path_Field ''inbound'' path)
                       (\<lambda>inbound. validateInbound inbound (net_Address n)) 0 (net_Inbound n) err
           in Inr (add_indexed (path_Field ''outbound'' path) validateOutbound 0 (net_Outbound n) err)))"

definition Dataplane_Validate :: "DataplaneResource \<Rightarrow> go_error option" where
  "Dataplane_Validate d =
     (case validateNetworking (dp_Networking (Spec d)) of
        Inl p \<Rightarrow> Some p
      | Inr err \<Rightarrow> OrNil (Add err []))"

section \<open>Traffic permission, route, log and trace\<close>

record TrafficPermission =
  tp_Sources :: "tags list"
  tp_Destinations :: "tags list"

record WeightedDestination =
  wd_Weight :: u32
  wd_Destination :: tags

record TrafficRoute =
  tr_Sources :: "tags list"
  tr_Destinations :: "tags list"
  tr_Conf :: "WeightedDestination list"

text \<open>The \<open>conf\<close> message of a traffic log or a traffic trace is its \<open>backend\<close> string.\<close>

record TrafficLog =
  tl_Sources :: "tags list"
  tl_Destinations :: "tags list"
  tl_Conf :: "string option"

record TrafficTrace =
  tt_Selectors :: "tags list"
  tt_Conf :: "string option"

type_synonym TrafficPermissionResource = "TrafficPermission Resource"
type_synonym TrafficRouteResource = "TrafficRoute Resource"
type_synonym TrafficLogResource = "TrafficLog Resource"
type_synonym TrafficTraceResource = "TrafficTrace Resource"

text \<open>The options most policies use: at least one selector, each with a \<open>service\<close> tag.\<close>

definition service_required :: ValidateSelectorsOpts where
  "service_required = \<lparr>SelectorOpts = no_opts\<lparr>RequireAtLeastOneTag := True, RequireService := True\<rparr>,
     RequireAtLeastOneSelector = True\<rparr>"

definition TrafficPermission_validateSources :: "TrafficPermissionResource \<Rightarrow> ValidationError" where
  "TrafficPermission_validateSources d =
     ValidateSelectors (RootedAt ''sources'') (tp_Sources (Spec d)) OnlyServiceTagAllowed"

definition TrafficPermission_validateDestinations ::
  "TrafficPermissionResource \<Rightarrow> ValidationError" where
  "TrafficPermission_validateDestinations d =
     ValidateSelectors (RootedAt ''destinations'') (tp_Destinations (Spec d)) service_required"

definition TrafficPermission_Validate :: "TrafficPermissionResource \<Rightarrow> go_error option" where
  "TrafficPermission_Validate d =
     OrNil (Add (TrafficPermission_validateDestinations d)
       (Add (TrafficPermission_validateSources d) []))"

definition TrafficRoute_validateSources :: "TrafficRouteResource \<Rightarrow> ValidationError" where
  "TrafficRoute_validateSources d =
     ValidateSelectors (RootedAt ''sources'') (tr_Sources (Spec d)) service_required"

definition TrafficRoute_validateDestinations :: "TrafficRouteResource \<Rightarrow> ValidationError" where
  "TrafficRoute_validateDestinations d =
     ValidateSelectors (RootedAt ''destinations'') (tr_Destinations (Spec d)) OnlyServiceTagAllowed"

fun validate_conf_loop ::
  "nat \<Rightarrow> WeightedDestination list \<Rightarrow> ValidationError \<Rightarrow> ValidationError" where
  "validate_conf_loop i [] err = err"
| "validate_conf_loop i (routeEntry # rest) err =
     validate_conf_loop (Suc i) rest
       (Add (ValidateSelector (path_Field ''destination'' (path_Index i (RootedAt ''conf'')))
              (wd_Destination routeEntry)
              (no_opts\<lparr>RequireAtLeastOneTag := True, RequireService := True\<rparr>)) err)"

definition TrafficRoute_validateConf :: "TrafficRouteResource \<Rightarrow> ValidationError" where
  "TrafficRoute_validateConf d =
     validate_conf_loop 0 (tr_Conf (Spec d))
       (if length (tr_Conf (Spec d)) = 0
        then AddViolationAt (RootedAt ''conf'') ''must have at least one element'' [] else [])"

definition TrafficRoute_Validate :: "TrafficRouteResource \<Rightarrow> go_error option" where
  "TrafficRoute_Validate d =
     OrNil (Add (TrafficRoute_validateConf d) (Add (TrafficRoute_validateDestinations d)
       (Add (TrafficRoute_validateSources d) [])))"

definition TrafficLog_validateSources :: "TrafficLogResource \<Rightarrow> ValidationError" where
  "TrafficLog_validateSources d =
     ValidateSelectors (RootedAt ''sources'') (tl_Sources (Spec d)) service_required"

definition TrafficLog_validateDestinations :: "TrafficLogResource \<Rightarrow> ValidationError" where
  "TrafficLog_validateDestinations d =
     ValidateSelectors (RootedAt ''destinations'') (tl_Destinations (Spec d)) OnlyServiceTagAllowed"

definition TrafficLog_Validate :: "TrafficLogResource \<Rightarrow> go_error option" where
  "TrafficLog_Validate d =
     OrNil (Add (TrafficLog_validateDestinations d) (Add (TrafficLog_validateSources d) []))"

definition TrafficTrace_validateSelectors :: "TrafficTraceResource \<Rightarrow> ValidationError" where
  "TrafficTrace_validateSelectors d =
     ValidateSelectors (RootedAt ''selectors'') (tt_Selectors (Spec d))
       \<lparr>SelectorOpts = no_opts\<lparr>RequireAtLeastOneTag := True\<rparr>, RequireAtLeastOneSelector = True\<rparr>"

definition TrafficTrace_Validate :: "TrafficTraceResource \<Rightarrow> go_error option" where
  "TrafficTrace_Validate d = OrNil (Add (TrafficTrace_validateSelectors d) [])"

section \<open>Health check\<close>

record ActiveChecks =
  ac_Interval :: "PbDuration option"
  ac_Timeout :: "PbDuration option"
  ac_UnhealthyThreshold :: u32
  ac_HealthyThreshold :: u32

record PassiveChecks =
  pc_UnhealthyThreshold :: u32
  pc_PenaltyInterval :: "PbDuration option"

record HealthCheckConf =
  hcc_ActiveChecks :: "ActiveChecks option"
  hcc_PassiveChecks :: "PassiveChecks option"

record HealthCheck =
  hc_Sources :: "tags list"
  hc_Destinations :: "tags list"
  hc_Conf :: "HealthCheckConf option"

type_synonym HealthCheckResource = "HealthCheck Resource"

definition GetActiveChecks :: "HealthCheck \<Rightarrow> ActiveChecks option" where
  "GetActiveChecks s = (case hc_Conf s of None \<Rightarrow> None | Some c \<Rightarrow> hcc_ActiveChecks c)"

definition GetPassiveChecks :: "HealthCheck \<Rightarrow> PassiveChecks option" where
  "GetPassiveChecks s = (case hc_Conf s of None \<Rightarrow> None | Some c \<Rightarrow> hcc_PassiveChecks c)"

definition HasActiveChecks :: "HealthCheckResource \<Rightarrow> bool" where
  "HasActiveChecks r =
     (case GetActiveChecks (Spec r) of
        None \<Rightarrow> False
      | Some c \<Rightarrow> c \<noteq> \<lparr>ac_Interval = None, ac_Timeout = None, ac_UnhealthyThreshold = 0,
                       ac_HealthyThreshold = 0\<rparr>)"

definition HasPassiveChecks :: "HealthCheckResource \<Rightarrow> bool" where
  "HasPassiveChecks r =
     (case GetPassiveChecks (Spec r) of
        None \<Rightarrow> False
      | Some c \<Rightarrow> c \<noteq> \<lparr>pc_UnhealthyThreshold = 0, pc_PenaltyInterval = None\<rparr>)"

definition HealthCheck_validateSources :: "HealthCheckResource \<Rightarrow> ValidationError" where
  "HealthCheck_validateSources d =
     ValidateSelectors (RootedAt ''sources'') (hc_Sources (Spec d)) service_required"

definition HealthCheck_validateDestinations :: "HealthCheckResource \<Rightarrow> ValidationError" where
  "HealthCheck_validateDestinations d =
     ValidateSelectors (RootedAt ''destinations'') (hc_Destinations (Spec d)) OnlyServiceTagAllowed"

definition active_checks_violations ::
  "(PbDuration \<Rightarrow> int option) \<Rightarrow> PathBuilder \<Rightarrow> ActiveChecks \<Rightarrow> ValidationError \<Rightarrow> ValidationError" where
  "active_checks_violations ptypes_Duration path activeChecks err =
     Add (ValidateThreshold (path_Field ''healthyThreshold'' path) (ac_HealthyThreshold activeChecks))
    (Add (ValidateThreshold (path_Field ''unhealthyThreshold'' path) (ac_UnhealthyThreshold activeChecks))
    (Add (ValidateDuration ptypes_Duration (path_Field ''timeout'' path) (ac_Timeout activeChecks))
    (Add (ValidateDuration ptypes_Duration (path_Field ''interval'' path) (ac_Interval activeChecks)) err)))"

definition passive_checks_violations ::
  "(PbDuration \<Rightarrow> int option) \<Rightarrow> PathBuilder \<Rightarrow> PassiveChecks \<Rightarrow> ValidationError \<Rightarrow> ValidationError" where
  "passive_checks_violations ptypes_Duration path passiveChecks err =
     Add (ValidateDuration ptypes_Duration (path_Field ''penaltyInterval'' path)
           (pc_PenaltyInterval passiveChecks))
    (Add (ValidateThreshold (path_Field ''unhealthyThreshold'' path)
           (pc_UnhealthyThreshold passiveChecks)) err)"

definition HealthCheck_validateConf ::
  "(PbDuration \<Rightarrow> int option) \<Rightarrow> HealthCheckResource \<Rightarrow> ValidationError" where
  "HealthCheck_validateConf ptypes_Duration d =
     (let root = RootedAt ''conf'';
          err = (if \<not> HasActiveChecks d \<and> \<not> HasPassiveChecks d
                 then AddViolationAt root ''must have either active or passive checks configured'' []
                 else []);
          err = (case GetActiveChecks (Spec d) of
                   Some activeChecks \<Rightarrow>
                     if HasActiveChecks d
                     then active_checks_violations ptypes_Duration (path_Field ''activeChecks'' root)
                            activeChecks err
                     else err
                 | None \<Rightarrow> err)
      in case GetPassiveChecks (Spec d) of
           Some passiveChecks \<Rightarrow>
             if HasPassiveChecks d
             then passive_checks_violations ptypes_Duration (path_Field ''passiveChecks'' root)
                    passiveChecks err
             else err
         | None \<Rightarrow> err)"

definition HealthCheck_Validate ::
  "(PbDuration \<Rightarrow> int option) \<Rightarrow> HealthCheckResource \<Rightarrow> go_error option" where
  "HealthCheck_Validate ptypes_Duration d =
     OrNil (Add (HealthCheck_validateConf ptypes_Duration d)
       (Add (HealthCheck_validateDestinations d) (Add (HealthCheck_validateSources d) [])))"

section \<open>Fault injection\<close>

text \<open>A Go \<open>float64\<close>, with its comparison: every comparison with a NaN is false.\<close>

datatype float64 = NaN | PosInf | NegInf | Finite rat

fun float_less :: "float64 \<Rightarrow> float64 \<Rightarrow> bool" where
  "float_less (Finite a) (Finite b) = (a < b)"
| "float_less NegInf (Finite b) = True"
| "float_less NegInf PosInf = True"
| "float_less (Finite a) PosInf = True"
| "float_less _ _ = False"

record Delay =
  dl_Percentage :: "float64 option"
  dl_Value :: "PbDuration option"

record Abort =
  ab_Percentage :: "float64 option"
  ab_HttpStatus :: "u32 option"

record ResponseBandwidth =
  rb_Percentage :: "float64 option"
  rb_Limit :: "string option"

record FaultInjectionConf =
  fic_Delay :: "Delay option"
  fic_Abort :: "Abort option"
  fic_ResponseBandwidth :: "ResponseBandwidth option"

record FaultInjection =
  fi_Sources :: "tags list"
  fi_Destinations :: "tags list"
  fi_Conf :: "FaultInjectionConf option"

type_synonym FaultInjectionResource = "FaultInjection Resource"

definition GetDelay :: "FaultInjection \<Rightarrow> Delay option" where
  "GetDelay s = (case fi_Conf s of None \<Rightarrow> None | Some c \<Rightarrow> fic_Delay c)"

definition GetAbort :: "FaultInjection \<Rightarrow> Abort option" where
  "GetAbort s = (case fi_Conf s of None \<Rightarrow> None | Some c \<Rightarrow> fic_Abort c)"

definition GetResponseBandwidth :: "FaultInjection \<Rightarrow> ResponseBandwidth option" where
  "GetResponseBandwidth s = (case fi_Conf s of None \<Rightarrow> None | Some c \<Rightarrow> fic_ResponseBandwidth c)"

definition HasFaultDelay :: "FaultInjectionResource \<Rightarrow> bool" where
  "HasFaultDelay f =
     (case GetDelay (Spec f) of
        None \<Rightarrow> False
      | Some d \<Rightarrow> d \<noteq> \<lparr>dl_Percentage = None, dl_Value = None\<rparr>)"

definition HasFaultAbort :: "FaultInjectionResource \<Rightarrow> bool" where
  "HasFaultAbort f =
     (case GetAbort (Spec f) of
        None \<Rightarrow> False
      | Some a \<Rightarrow> a \<noteq> \<lparr>ab_Percentage = None, ab_HttpStatus = None\<rparr>)"

definition HasFaultResponseBandwidth :: "FaultInjectionResource \<Rightarrow> bool" where
  "HasFaultResponseBandwidth f =
     (case GetResponseBandwidth (Spec f) of
        None \<Rightarrow> False
      | Some b \<Rightarrow> b \<noteq> \<lparr>rb_Percentage = None, rb_Limit = None\<rparr>)"

definition http_required :: ValidateSelectorsOpts where
  "http_required =
     \<lparr>SelectorOpts = no_opts\<lparr>RequireAtLeastOneTag := True,
        ExtraSelectorValidators := [ProtocolValidator [''http'']]\<rparr>,
      RequireAtLeastOneSelector = True\<rparr>"

definition FaultInjection_validateSources :: "FaultInjectionResource \<Rightarrow> ValidationError" where
  "FaultInjection_validateSources f =
     ValidateSelectors (RootedAt ''sources'') (fi_Sources (Spec f)) http_required"

definition FaultInjection_validateDestinations :: "FaultInjectionResource \<Rightarrow> ValidationError" where
  "FaultInjection_validateDestinations f =
     ValidateSelectors (RootedAt ''destinations'') (fi_Destinations (Spec f)) http_required"

definition validatePercentage :: "PathBuilder \<Rightarrow> float64 option \<Rightarrow> ValidationError" where
  "validatePercentage path percentage =
     (case percentage of
        None \<Rightarrow> AddViolationAt (path_Field ''percentage'' path) ''cannot be empty'' []
      | Some v \<Rightarrow>
          if float_less v (Finite 0) \<or> float_less (Finite 100) v
          then AddViolationAt (path_Field ''percentage'' path) ''has to be in [0.0 - 100.0] range'' []
          else [])"

text \<open>
  The regular expression \<open>\d*\s?[gmk]bps\<close> at the start of a text; the three character classes
  are disjoint, so the greedy match needs no backtracking.
\<close>

definition limit_matches_here :: "string \<Rightarrow> bool" where
  "limit_matches_here t =
     (let t1 = dropWhile is_digit t;
          t2 = (case t1 of
                  [] \<Rightarrow> []
                | c # cs \<Rightarrow>
                    if c \<in> {CHR '' '', CHR 9, CHR 10, CHR 12, CHR 13}
                    then cs else t1)
      in case t2 of
           c # cs \<Rightarrow> c \<in> {CHR ''g'', CHR ''m'', CHR ''k''} \<and> take 3 cs = ''bps''
         | [] \<Rightarrow> False)"

text \<open>\<open>regexp.MatchString\<close> looks for a match that starts anywhere in the text.\<close>

fun limit_matches :: "string \<Rightarrow> bool" where
  "limit_matches [] = limit_matches_here []"
| "limit_matches (c # cs) = (limit_matches_here (c # cs) \<or> limit_matches cs)"

definition validateLimit :: "PathBuilder \<Rightarrow> string option \<Rightarrow> ValidationError" where
  "validateLimit path limit =
     (case limit of
        None \<Rightarrow> AddViolationAt (path_Field ''limit'' path) ''cannot be empty'' []
      | Some v \<Rightarrow>
          if \<not> limit_matches v
          then AddViolationAt (path_Field ''limit'' path) ''has to be in kbps/mbps/gbps units'' []
          else [])"

text \<open>The codes for which \<open>http.StatusText\<close> of Go 1.12 has a text.\<close>

definition known_http_status :: "int \<Rightarrow> bool" where
  "known_http_status c \<longleftrightarrow>
     c \<in> {100, 101, 102, 226, 307, 308, 428, 429, 431, 451, 510, 511} \<or>
     200 \<le> c \<and> c \<le> 208 \<or> 300 \<le> c \<and> c \<le> 305 \<or> 400 \<le> c \<and> c \<le> 418 \<or>
     421 \<le> c \<and> c \<le> 426 \<or> 500 \<le> c \<and> c \<le> 508"

definition validateHttpStatus :: "PathBuilder \<Rightarrow> u32 option \<Rightarrow> ValidationError" where
  "validateHttpStatus path httpStatus =
     (case httpStatus of
        None \<Rightarrow> AddViolationAt (path_Field ''httpStatus'' path) ''cannot be empty'' []
      | Some v \<Rightarrow>
          if \<not> known_http_status (uint v)
          then AddViolationAt (path_Field ''httpStatus'' path) ''http status code is incorrect'' []
          else [])"

definition validateDelay :: "PathBuilder \<Rightarrow> Delay \<Rightarrow> ValidationError" where
  "validateDelay path delay =
     (let err = Add (validatePercentage path (dl_Percentage delay)) []
      in if dl_Value delay = None
         then AddViolationAt (path_Field ''value'' path) ''cannot be empty'' err else err)"

definition validateAbort :: "PathBuilder \<Rightarrow> Abort \<Rightarrow> ValidationError" where
  "validateAbort path abort =
     Add (validateHttpStatus path (ab_HttpStatus abort))
       (Add (validatePercentage path (ab_Percentage abort)) [])"

definition validateResponseBandwidth :: "PathBuilder \<Rightarrow> ResponseBandwidth \<Rightarrow> ValidationError" where
  "validateResponseBandwidth path bandwidth =
     Add (validateLimit path (rb_Limit bandwidth))
       (Add (validatePercentage path (rb_Percentage bandwidth)) [])"

definition FaultInjection_validateConf :: "FaultInjectionResource \<Rightarrow> ValidationError" where
  "FaultInjection_validateConf f =
     (let root = RootedAt ''conf'';
          err = (if \<not> HasFaultDelay f \<and> \<not> HasFaultAbort f \<and> \<not> HasFaultResponseBandwidth f
                 then AddViolationAt root ''must have at least one of the faults configured'' []
                 else []);
          err = (case GetDelay (Spec f) of
                   Some delay \<Rightarrow>
                     if HasFaultDelay f then Add (validateDelay (path_Field ''delay'' root) delay) err
                     else err
                 | None \<Rightarrow> err);
          err = (case GetAbort (Spec f) of
                   Some abort \<Rightarrow>
                     if HasFaultAbort f then Add (validateAbort (path_Field ''abort'' root) abort) err
                     else err
                 | None \<Rightarrow> err)
      in case GetResponseBandwidth (Spec f) of
           Some bandwidth \<Rightarrow>
             if HasFaultResponseBandwidth f
             then Add (validateResponseBandwidth (path_Field ''responseBandwidth'' root) bandwidth) err
             else err
         | None \<Rightarrow> err)"

definition FaultInjection_Validate :: "FaultInjectionResource \<Rightarrow> go_error option" where
  "FaultInjection_Validate f =
     OrNil (Add (FaultInjection_validateConf f) (Add (FaultInjection_validateDestinations f)
       (Add (FaultInjection_validateSources f) [])))"

section \<open>Proxy template\<close>

record ProxyTemplateRawResource =
  raw_Name :: string
  raw_Version :: string
  raw_Resource :: string

record ProxyTemplateConf =
  ptc_Imports :: "string list"
  ptc_Resources :: "ProxyTemplateRawResource list"

record ProxyTemplate =
  pt_Selectors :: "tags list"
  pt_Conf :: "ProxyTemplateConf option"

type_synonym ProxyTemplateResource = "ProxyTemplate Resource"

definition ProfileDefaultProxy :: string where
  "ProfileDefaultProxy = ''default-proxy''"

definition AvailableProfiles :: "string list" where
  "AvailableProfiles = [ProfileDefaultProxy]"

definition availableProfilesMsg :: string where
  "availableProfilesMsg = strings_join '','' AvailableProfiles"

definition validate_import :: "string \<Rightarrow> ValidationError" where
  "validate_import imp =
     (if imp = '''' then AddViolation '''' ''cannot be empty'' []
      else if imp \<notin> set AvailableProfiles
        then AddViolation '''' (''profile not found. Available profiles: '' @ availableProfilesMsg) []
      else [])"

definition validateImports :: "string list \<Rightarrow> ValidationError" where
  "validateImports imports = add_indexed (RootedAt ''imports'') validate_import 0 imports []"

text \<open>
  \<open>envoy.ResourceFromYaml\<close> turns YAML into an Envoy message with the YAML and protobuf libraries;
  its error, if any, is a parameter.  The loop reports each violation of the resource with index
  \<open>i\<close> at the path \<open>resources[i].field\<close>.
\<close>

definition validate_raw_resource ::
  "(string \<Rightarrow> go_error option) \<Rightarrow> ProxyTemplateRawResource \<Rightarrow> PathBuilder \<Rightarrow>
   ValidationError \<Rightarrow> ValidationError" where
  "validate_raw_resource resourceFromYaml resource path verr =
     (let verr = (if raw_Name resource = ''''
                  then AddViolationAt (path_Field ''name'' path) ''cannot be empty'' verr else verr);
          verr = (if raw_Version resource = ''''
                  then AddViolationAt (path_Field ''version'' path) ''cannot be empty'' verr else verr)
      in if raw_Resource resource = ''''
         then AddViolationAt (path_Field ''resource'' path) ''cannot be empty'' verr
         else (case resourceFromYaml (raw_Resource resource) of
                 None \<Rightarrow> verr
               | Some err \<Rightarrow>
                   AddViolationAt (path_Field ''resource'' path)
                     (''native Envoy resource is not valid: '' @ error_text err) verr))"

fun validateResources_loop ::
  "(string \<Rightarrow> go_error option) \<Rightarrow> nat \<Rightarrow> ProxyTemplateRawResource list \<Rightarrow>
   ValidationError \<Rightarrow> ValidationError" where
  "validateResources_loop rfy i [] verr = verr"
| "validateResources_loop rfy i (r # rs) verr =
     validateResources_loop rfy (Suc i) rs
       (validate_raw_resource rfy r (path_Index i (RootedAt ''resources'')) verr)"

definition validateResources ::
  "(string \<Rightarrow> go_error option) \<Rightarrow> ProxyTemplateRawResource list \<Rightarrow> ValidationError" where
  "validateResources rfy resources = validateResources_loop rfy 0 resources []"

definition validateConfig ::
  "(string \<Rightarrow> go_error option) \<Rightarrow> ProxyTemplateConf option \<Rightarrow> ValidationError" where
  "validateConfig rfy conf =
     Add (validateResources rfy (case conf of None \<Rightarrow> [] | Some c \<Rightarrow> ptc_Resources c))
       (Add (validateImports (case conf of None \<Rightarrow> [] | Some c \<Rightarrow> ptc_Imports c)) [])"

definition ProxyTemplate_validateSelectors :: "tags list \<Rightarrow> ValidationError" where
  "ProxyTemplate_validateSelectors selectors =
     ValidateSelectors (RootedAt ''selectors'') selectors
       \<lparr>SelectorOpts = no_opts\<lparr>RequireService := True, RequireAtLeastOneTag := True\<rparr>,
        RequireAtLeastOneSelector = False\<rparr>"

definition ProxyTemplate_Validate ::
  "(string \<Rightarrow> go_error option) \<Rightarrow> ProxyTemplateResource \<Rightarrow> go_error option" where
  "ProxyTemplate_Validate rfy t =
     OrNil (AddError ''conf'' (validateConfig rfy (pt_Conf (Spec t)))
       (Add (ProxyTemplate_validateSelectors (pt_Selectors (Spec t))) []))"

end
