(* ===== verification/Policy_Matching.thy ===== *)
theory Policy_Matching
  imports Dataplane_Model
begin

text \<open>
  The policy matchers of \<open>pkg/core/policy\<close>: \<open>SelectConnectionPolicies\<close> and
  \<open>SelectInboundConnectionPolicies\<close> of \<open>connection_matcher.go\<close>, \<open>SelectDataplanePolicy\<close> of
  \<open>dataplane_matcher.go\<close>.  A policy is given by what the methods of its Go interface return.  The
  loops are translated with their state; each is then shown to be the loop \<open>keep_best\<close> over the
  offers a policy makes (a rank for each of its matching selectors), so the contract of
  \<open>ranking\<close> says which policy is chosen: the one with the most specific selector, among those the
  one created last, among those the one with the least name.
\<close>

section \<open>Policies\<close>

record 'p policy =
  pol_Resource :: 'p
  pol_Name :: string
  pol_CreationTime :: gotime

record 'p ConnectionPolicy = "'p policy" +
  cp_Sources :: "tags list"
  cp_Destinations :: "tags list"

record 'p DataplanePolicy = "'p policy" +
  dpp_Selectors :: "tags list"

text \<open>\<open>sort.Stable\<close> with the \<open>Less\<close> of \<open>ConnectionPolicyByName\<close> and \<open>DataplanePolicyByName\<close>.\<close>

definition sort_ByName :: "('p, 'z) policy_scheme list \<Rightarrow> ('p, 'z) policy_scheme list" where
  "sort_ByName ps = sort_key pol_Name ps"

section \<open>Iterators over destination services\<close>

text \<open>
  A \<open>ServiceIteratorFunc\<close> closes over an index; \<open>Next\<close> returns a service with a flag, and the
  new index.
\<close>

definition ToOutboundServicesOf :: "Dataplane \<Rightarrow> nat \<Rightarrow> (string \<times> bool) \<times> nat" where
  "ToOutboundServicesOf dataplane idx =
     (let outbound = dp_GetOutbound dataplane in
      if length outbound < idx then (('''', False), idx)
      else if length outbound = idx then ((PassThroughService, True), idx + 1)
      else ((out_Service (outbound ! idx), True), idx + 1))"

definition ToServices :: "string list \<Rightarrow> nat \<Rightarrow> (string \<times> bool) \<times> nat" where
  "ToServices services idx =
     (if length services \<le> idx then (('''', False), idx) else ((services ! idx, True), idx + 1))"

definition ToServicesOf :: "(string, tags list) gomap \<Rightarrow> nat \<Rightarrow> (string \<times> bool) \<times> nat" where
  "ToServicesOf destinations = ToServices (map fst destinations)"

text \<open>
  The services a loop \<open>for service, ok := it.Next(); ok; service, ok = it.Next()\<close> visits, in at
  most \<open>fuel\<close> rounds; \<open>None\<close> when the iterator has not ended by then.
\<close>

fun drain :: "nat \<Rightarrow> (nat \<Rightarrow> (string \<times> bool) \<times> nat) \<Rightarrow> nat \<Rightarrow> string list option" where
  "drain 0 next idx = None"
| "drain (Suc fuel) next idx =
     (case next idx of
        ((service, ok), idx') \<Rightarrow>
          if ok then map_option ((#) service) (drain fuel next idx') else Some [])"

section \<open>Policies of outbound connections\<close>

record 'p candidateBySource =
  cbs_policy :: "'p ConnectionPolicy"
  cbs_bestSourceRank :: TagSelectorRank

record 'p candidateByDestination = "'p candidateBySource" +
  cbd_bestAggregateRank :: TagSelectorRank

definition source_step :: "Dataplane \<Rightarrow> tags \<Rightarrow> bool \<times> TagSelectorRank \<Rightarrow> bool \<times> TagSelectorRank" where
  "source_step dataplane source = (\<lambda>(matches, bestSourceRank).
     if dataplane_Matches (Some dataplane) source
     then (let sourceRank = Rank source in
           (True,
            if \<not> matches \<or> CompareTo sourceRank bestSourceRank > 0 then sourceRank
            else bestSourceRank))
     else (matches, bestSourceRank))"

definition candidate_by_source :: "Dataplane \<Rightarrow> 'p ConnectionPolicy \<Rightarrow> 'p candidateBySource list" where
  "candidate_by_source dataplane policy =
     (case fold (source_step dataplane) (cp_Sources policy) (False, zero_rank) of
        (matches, bestSourceRank) \<Rightarrow>
          if matches then [\<lparr>cbs_policy = policy, cbs_bestSourceRank = bestSourceRank\<rparr>] else [])"

definition destination_step ::
  "string \<Rightarrow> 'p candidateBySource \<Rightarrow> tags \<Rightarrow> (string, 'p candidateByDestination) gomap \<Rightarrow>
   (string, 'p candidateByDestination) gomap" where
  "destination_step service candidate destination candidatesByDestination =
     (if Matches destination [(ServiceTag, service)]
      then (let aggregateRank = CombinedWith (Rank destination) (cbs_bestSourceRank candidate);
                replace =
                  (case map_of candidatesByDestination service of
                     None \<Rightarrow> True
                   | Some best \<Rightarrow>
                       CompareTo aggregateRank (cbd_bestAggregateRank best) > 0 \<or>
                       (CompareTo aggregateRank (cbd_bestAggregateRank best) = 0 \<and>
                        pol_CreationTime (cbs_policy candidate)
                          > pol_CreationTime (cbs_policy best)))
            in if replace
               then gput service
                      \<lparr>cbs_policy = cbs_policy candidate,
                       cbs_bestSourceRank = cbs_bestSourceRank candidate,
                       cbd_bestAggregateRank = aggregateRank\<rparr> candidatesByDestination
               else candidatesByDestination)
      else candidatesByDestination)"

definition service_step ::
  "'p candidateBySource list \<Rightarrow> string \<Rightarrow> (string, 'p candidateByDestination) gomap \<Rightarrow>
   (string, 'p candidateByDestination) gomap" where
  "service_step candidatesBySource service candidatesByDestination =
     (case map_of candidatesByDestination service of
        Some _ \<Rightarrow> candidatesByDestination
      | None \<Rightarrow>
          fold (\<lambda>candidate. fold (destination_step service candidate)
                  (cp_Destinations (cbs_policy candidate)))
            candidatesBySource candidatesByDestination)"

definition SelectConnectionPolicies ::
  "Dataplane \<Rightarrow> string list \<Rightarrow> 'p ConnectionPolicy list \<Rightarrow> (string, 'p ConnectionPolicy) gomap" where
  "SelectConnectionPolicies dataplane destinations policies =
     (let policies = sort_ByName policies;
          candidatesBySource = concat (map (candidate_by_source dataplane) policies);
          candidatesByDestination = fold (service_step candidatesBySource) destinations []
      in map (\<lambda>(service, candidate). (service, cbs_policy candidate)) candidatesByDestination)"

text \<open>The services of the outbound interfaces, followed by the implicit pass-through service.\<close>

definition outbound_services :: "Dataplane \<Rightarrow> string list" where
  "outbound_services dataplane = map out_Service (dp_GetOutbound dataplane) @ [PassThroughService]"

text \<open>
  The loop ends after one round more than the number of outbound interfaces and the pass-through
  service (lemma \<open>drain_ToOutboundServicesOf\<close>), so this fuel is enough.
\<close>

definition SelectOutboundConnectionPolicies ::
  "Dataplane \<Rightarrow> 'p ConnectionPolicy list \<Rightarrow> (string, 'p ConnectionPolicy) gomap" where
  "SelectOutboundConnectionPolicies dataplane policies =
     (case drain (length (dp_GetOutbound dataplane) + 2) (ToOutboundServicesOf dataplane) 0 of
        None \<Rightarrow> []
      | Some services \<Rightarrow> SelectConnectionPolicies dataplane services policies)"

section \<open>Policies of inbound interfaces\<close>

text \<open>
  The call \<open>bestPolicy.GetMeta()\<close> on the \<open>nil\<close> interface value panics; the loop reaches it when
  the first matching selector has the rank of the empty selector.
\<close>

definition same_rank_created_later ::
  "('p, 'z) policy_scheme option \<Rightarrow> TagSelectorRank \<Rightarrow> ('p, 'z) policy_scheme \<Rightarrow> TagSelectorRank \<Rightarrow>
   go_error + bool" where
  "same_rank_created_later bestPolicy bestRank policy rank =
     (if CompareTo rank bestRank = 0
      then (case bestPolicy of
              None \<Rightarrow> Inl (ErrPanic ''nil pointer dereference'')
            | Some best \<Rightarrow> Inr (pol_CreationTime policy > pol_CreationTime best))
      else Inr False)"

definition rank_step ::
  "('p, 'z) policy_scheme \<Rightarrow> TagSelectorRank \<Rightarrow> ('p, 'z) policy_scheme option \<times> TagSelectorRank \<Rightarrow>
   go_error + ('p, 'z) policy_scheme option \<times> TagSelectorRank" where
  "rank_step policy rank = (\<lambda>(bestPolicy, bestRank).
     bindE (if CompareTo rank bestRank > 0 then Inr True
            else same_rank_created_later bestPolicy bestRank policy rank)
       (\<lambda>better. Inr (if better then (Some policy, rank) else (bestPolicy, bestRank))))"

text \<open>A loop whose body may panic.\<close>

fun foldE :: "('a \<Rightarrow> 's \<Rightarrow> 'e + 's) \<Rightarrow> 'a list \<Rightarrow> 's \<Rightarrow> 'e + 's" where
  "foldE f [] s = Inr s"
| "foldE f (x # xs) s = bindE (f x s) (foldE f xs)"

definition inbound_policy_step ::
  "Inbound \<Rightarrow> 'p ConnectionPolicy \<Rightarrow> 'p ConnectionPolicy option \<times> TagSelectorRank \<Rightarrow>
   go_error + 'p ConnectionPolicy option \<times> TagSelectorRank" where
  "inbound_policy_step inbound policy =
     foldE (\<lambda>selector best.
         if inbound_MatchTags inbound selector then rank_step policy (Rank selector) best
         else Inr best)
       (cp_Destinations policy)"

definition best_inbound_policy ::
  "'p ConnectionPolicy list \<Rightarrow> Inbound \<Rightarrow> go_error + 'p ConnectionPolicy option" where
  "best_inbound_policy policies inbound =
     bindE (foldE (inbound_policy_step inbound) policies (None, zero_rank)) (\<lambda>(bestPolicy, _). Inr bestPolicy)"

definition SelectInboundConnectionPolicies ::
  "Dataplane \<Rightarrow> 'p ConnectionPolicy list \<Rightarrow>
   go_error + (InboundInterface, 'p ConnectionPolicy) gomap" where
  "SelectInboundConnectionPolicies dataplane policies =
     (let policies = sort_ByName policies in
      bindE (GetInboundInterfaces (dp_Networking dataplane)) (\<lambda>ifaces.
        foldE (\<lambda>(iface, inbound) policiesMap.
            bindE (best_inbound_policy policies inbound) (\<lambda>bestPolicy.
              Inr (case bestPolicy of
                     None \<Rightarrow> policiesMap
                   | Some best \<Rightarrow> gput iface best policiesMap)))
          (zip ifaces (dp_GetInbound dataplane)) []))"

section \<open>Policies of a dataplane\<close>

definition match_everything_step ::
  "('p, 'z) policy_scheme \<Rightarrow> ('p, 'z) policy_scheme option \<times> TagSelectorRank \<Rightarrow>
   go_error + ('p, 'z) policy_scheme option \<times> TagSelectorRank" where
  "match_everything_step policy = (\<lambda>(bestPolicy, bestRank).
     bindE (if bestPolicy = None then Inr True
            else same_rank_created_later bestPolicy bestRank policy zero_rank)
       (\<lambda>better. Inr (if better then (Some policy, bestRank) else (bestPolicy, bestRank))))"

definition dataplane_policy_step ::
  "Dataplane \<Rightarrow> 'p DataplanePolicy \<Rightarrow> 'p DataplanePolicy option \<times> TagSelectorRank \<Rightarrow>
   go_error + 'p DataplanePolicy option \<times> TagSelectorRank" where
  "dataplane_policy_step dataplane policy best =
     (if length (dpp_Selectors policy) = 0 then match_everything_step policy best
      else foldE (\<lambda>selector best.
             if length selector = 0 then match_everything_step policy best
             else if dataplane_Matches (Some dataplane) selector
               then rank_step policy (Rank selector) best
             else Inr best)
           (dpp_Selectors policy) best)"

definition SelectDataplanePolicy ::
  "Dataplane \<Rightarrow> 'p DataplanePolicy list \<Rightarrow> go_error + 'p DataplanePolicy option" where
  "SelectDataplanePolicy dataplane policies =
     bindE (foldE (dataplane_policy_step dataplane) (sort_ByName policies) (None, zero_rank)) (\<lambda>(bestPolicy, _). Inr bestPolicy)"

section \<open>Which policy is chosen\<close>

text \<open>An offer is a policy together with the rank of one of its matching selectors.\<close>

type_synonym ('p, 'z) offer = "TagSelectorRank \<times> ('p, 'z) policy_scheme"

definition better_offer :: "('p, 'z) offer \<Rightarrow> ('p, 'z) offer \<Rightarrow> bool" where
  "better_offer x y \<longleftrightarrow>
     fst y < fst x \<or> fst x = fst y \<and> pol_CreationTime (snd y) < pol_CreationTime (snd x)"

interpretation offer: ranking better_offer
  by unfold_locales (auto simp: better_offer_def not_less)

definition outranks :: "('p, 'z) offer \<Rightarrow> ('p, 'z) offer \<Rightarrow> bool" where
  "outranks x y \<longleftrightarrow>
     better_offer x y \<or>
     fst x = fst y \<and> pol_CreationTime (snd x) = pol_CreationTime (snd y) \<and>
     pol_Name (snd x) < pol_Name (snd y)"

text \<open>
  The specification of every matcher: \<open>ranks p\<close> is the set of ranks with which \<open>p\<close> matches, and
  the policy chosen from \<open>ps\<close> matches and outranks every other policy that matches.
\<close>

definition chosen ::
  "(('p, 'z) policy_scheme \<Rightarrow> TagSelectorRank set) \<Rightarrow> ('p, 'z) policy_scheme list \<Rightarrow>
   ('p, 'z) policy_scheme \<Rightarrow> bool" where
  "chosen ranks ps p \<longleftrightarrow>
     p \<in> set ps \<and> ranks p \<noteq> {} \<and>
     (\<forall>q \<in> set ps. q \<noteq> p \<and> ranks q \<noteq> {} \<longrightarrow> outranks (Max (ranks p), p) (Max (ranks q), q))"

lemma outranks_asym: "outranks x y \<Longrightarrow> \<not> outranks y x"
  by (auto simp: outranks_def better_offer_def)

lemma chosen_unique:
  assumes "chosen ranks ps p" and "chosen ranks ps q"
  shows "p = q"
proof (rule ccontr)
  assume "p \<noteq> q"
  then have "outranks (Max (ranks p), p) (Max (ranks q), q)"
    and "outranks (Max (ranks q), q) (Max (ranks p), p)"
    using assms unfolding chosen_def by auto
  then show False using outranks_asym by metis
qed

lemma chosen_set_cong: "set ps = set ps' \<Longrightarrow> chosen ranks ps p = chosen ranks ps' p"
  by (simp add: chosen_def)

lemma Max_eq_cofinal:
  fixes A B :: "'a::linorder set"
  assumes "finite A" and "B \<subseteq> A" and "\<And>r. r \<in> A \<Longrightarrow> \<exists>r' \<in> B. r \<le> r'" and "A \<noteq> {}"
  shows "Max A = Max B"
proof -
  obtain r' where r': "r' \<in> B" "Max A \<le> r'" using assms Max_in by blast
  then have "r' = Max A" using assms(1,2) by (meson Max_ge order_antisym subsetD)
  then show ?thesis
    using r' assms(1,2) by (intro Max_eqI [symmetric]) (auto intro: finite_subset Max_ge)
qed

lemma chosen_rank_cong:
  assumes "\<And>p. finite (ranks p)"
    and "\<And>p. ranks' p \<subseteq> ranks p"
    and "\<And>p r. r \<in> ranks p \<Longrightarrow> \<exists>r' \<in> ranks' p. r \<le> r'"
  shows "chosen ranks ps p = chosen ranks' ps p"
proof -
  have ne: "ranks' q = {} \<longleftrightarrow> ranks q = {}" for q
    using assms(2,3) by blast
  have Max: "ranks q \<noteq> {} \<Longrightarrow> Max (ranks' q) = Max (ranks q)" for q
    using Max_eq_cofinal assms by metis
  show ?thesis
    unfolding chosen_def ne by (intro conj_cong ball_cong refl imp_cong) (simp_all add: Max)
qed

lemma kept_is_chosen:
  assumes offers: "\<And>r q. (r, q) \<in> set offers \<longleftrightarrow> q \<in> set ps \<and> r \<in> ranks q"
    and fin: "\<And>q. finite (ranks q)"
    and names: "distinct (map pol_Name ps)"
    and sorted: "sorted (map (pol_Name \<circ> snd) offers)"
    and kept: "keep_best better_offer None offers = Some (r, p)"
  shows "chosen ranks ps p"
proof -
  have in_offers: "(r, p) \<in> set offers"
    using kept keep_best_in by fastforce
  then have p: "p \<in> set ps" "r \<in> ranks p" using offers by auto
  have best: "\<not> better_offer (r', q) (r, p)" if "q \<in> set ps" "r' \<in> ranks q" for r' q
    using offer.kept_is_best [OF kept] offers that by blast
  have "r' \<le> r" if "r' \<in> ranks p" for r'
    using best [OF p(1) that] by (auto simp: better_offer_def not_less)
  then have Max_p: "Max (ranks p) = r"
    using p(2) fin by (metis Max_eqI)
  obtain as bs where split: "offers = as @ (r, p) # bs"
    and before: "\<forall>a \<in> set as. better_offer (r, p) a"
    using offer.kept_is_first [OF kept] by blast
  have "outranks (r, p) (Max (ranks q), q)" if q: "q \<in> set ps" "q \<noteq> p" "ranks q \<noteq> {}" for q
  proof (cases "better_offer (r, p) (Max (ranks q), q)")
    case True
    then show ?thesis by (simp add: outranks_def)
  next
    case False
    have Max_q: "Max (ranks q) \<in> ranks q" using fin q(3) by simp
    then have "\<not> better_offer (Max (ranks q), q) (r, p)" using best q(1) by blast
    with False have tie: "Max (ranks q) = r" "pol_CreationTime q = pol_CreationTime p"
      by (auto simp: better_offer_def not_less)
    have "(Max (ranks q), q) \<in> set bs"
      using offers Max_q q split before False by fastforce
    then have "pol_Name p \<le> pol_Name q"
      using sorted split by (fastforce simp: sorted_append)
    moreover have "pol_Name p \<noteq> pol_Name q"
      using names p(1) q(1,2) by (metis distinct_map inj_on_eq_iff)
    ultimately show ?thesis using tie by (auto simp: outranks_def)
  qed
  then show ?thesis using p Max_p unfolding chosen_def by blast
qed

text \<open>The shared argument: the loop over sorted offers computes the specification.\<close>

lemma keep_best_chosen:
  assumes offers: "\<And>r q. (r, q) \<in> set offers \<longleftrightarrow> q \<in> set ps \<and> r \<in> ranks q"
    and fin: "\<And>q. finite (ranks q)"
    and names: "distinct (map pol_Name ps)"
    and sorted: "sorted (map (pol_Name \<circ> snd) offers)"
  shows "map_option snd (keep_best better_offer None offers) = Some p \<longleftrightarrow> chosen ranks ps p"
proof (cases "keep_best better_offer None offers")
  case None
  then have "offers = []" by simp
  then show ?thesis using offers by (auto simp: chosen_def)
next
  case (Some y)
  then have "chosen ranks ps (snd y)"
    using kept_is_chosen [OF offers fin names sorted, of "fst y"] by simp
  then show ?thesis using Some chosen_unique by (metis option.inject option.map(2))
qed

lemma keep_best_no_offers:
  assumes "\<And>r q. (r, q) \<in> set offers \<longleftrightarrow> q \<in> set ps \<and> r \<in> ranks q"
  shows "keep_best better_offer None offers = None \<longleftrightarrow> (\<forall>q \<in> set ps. ranks q = {})"
  using assms by (cases offers) (force+)

text \<open>Offers made policy by policy, in the order of the sorted list.\<close>

definition offers_by :: "(('p, 'z) policy_scheme \<Rightarrow> TagSelectorRank list) \<Rightarrow>
    ('p, 'z) policy_scheme list \<Rightarrow> ('p, 'z) offer list" where
  "offers_by ranks ps = concat (map (\<lambda>p. map (\<lambda>r. (r, p)) (ranks p)) ps)"

lemma set_offers_by: "(r, q) \<in> set (offers_by ranks ps) \<longleftrightarrow> q \<in> set ps \<and> r \<in> set (ranks q)"
  by (auto simp: offers_by_def)

lemma sorted_offers_by:
  "sorted (map pol_Name ps) \<Longrightarrow> sorted (map (pol_Name \<circ> snd) (offers_by ranks ps))"
proof (induction ps)
  case Nil
  then show ?case by (simp add: offers_by_def)
next
  case (Cons p ps)
  have "sorted (map (pol_Name \<circ> snd) (map (\<lambda>r. (r, p)) (ranks p)))"
    by (simp add: comp_def sorted_wrt_map sorted_wrt_iff_nth_less)
  moreover have "sorted (map (pol_Name \<circ> snd) (offers_by ranks ps))"
    using Cons by (simp add: comp_def)
  ultimately show ?case
    using Cons.prems by (auto simp: offers_by_def sorted_append comp_def)
qed

lemma sort_ByName_props:
  "set (sort_ByName ps) = set ps"
  "sorted (map pol_Name (sort_ByName ps))"
  "distinct (map pol_Name ps) \<Longrightarrow> distinct (map pol_Name (sort_ByName ps))"
  unfolding sort_ByName_def
  by simp_all (metis distinct_map distinct_sort set_sort)

lemma keep_best_offers_by:
  assumes "distinct (map pol_Name ps)"
  shows "map_option snd (keep_best better_offer None (offers_by ranks (sort_ByName ps))) = Some p
    \<longleftrightarrow> chosen (set \<circ> ranks) ps p"
proof -
  have "map_option snd (keep_best better_offer None (offers_by ranks (sort_ByName ps))) = Some p
      \<longleftrightarrow> chosen (set \<circ> ranks) (sort_ByName ps) p"
    using assms
    by (intro keep_best_chosen) (simp_all add: set_offers_by sort_ByName_props sorted_offers_by)
  then show ?thesis using chosen_set_cong [OF sort_ByName_props(1)] by metis
qed

section \<open>The outbound matcher\<close>

lemma drain_ToServices:
  "idx \<le> length services \<Longrightarrow> fuel > length services - idx \<Longrightarrow>
     drain fuel (ToServices services) idx = Some (drop idx services)"
proof (induction fuel arbitrary: idx)
  case 0
  then show ?case by simp
next
  case (Suc fuel)
  show ?case
  proof (cases "idx < length services")
    case True
    then have "drop idx services = services ! idx # drop (Suc idx) services"
      by (simp add: Cons_nth_drop_Suc)
    then show ?thesis using True Suc by (simp add: ToServices_def)
  next
    case False
    then show ?thesis using Suc.prems by (simp add: ToServices_def)
  qed
qed

lemma drain_ToServicesOf:
  "drain (length destinations + 1) (ToServicesOf destinations) 0 = Some (map fst destinations)"
  unfolding ToServicesOf_def
  using drain_ToServices [of 0 "map fst destinations" "length destinations + 1"] by simp

text \<open>\<open>ToOutboundServicesOf\<close> walks over the outbound services and the pass-through service.\<close>

lemma ToOutboundServicesOf_ToServices:
  "ToOutboundServicesOf d idx = ToServices (outbound_services d) idx"
  by (auto simp: ToOutboundServicesOf_def ToServices_def outbound_services_def nth_append Let_def)

lemma drain_ToOutboundServicesOf:
  "drain (length (dp_GetOutbound d) + 2) (ToOutboundServicesOf d) 0 = Some (outbound_services d)"
proof -
  have "drain (length (dp_GetOutbound d) + 2) (ToServices (outbound_services d)) 0
      = Some (drop 0 (outbound_services d))"
    by (rule drain_ToServices) (simp_all add: outbound_services_def)
  moreover have "ToOutboundServicesOf d = ToServices (outbound_services d)"
    by (rule ext) (rule ToOutboundServicesOf_ToServices)
  ultimately show ?thesis by simp
qed

lemma SelectOutbound_services:
  "SelectOutboundConnectionPolicies d policies = SelectConnectionPolicies d (outbound_services d) policies"
  by (simp only: SelectOutboundConnectionPolicies_def drain_ToOutboundServicesOf option.case)

definition matching_sources :: "Dataplane \<Rightarrow> 'p ConnectionPolicy \<Rightarrow> tags list" where
  "matching_sources d p = filter (dataplane_Matches (Some d)) (cp_Sources p)"

definition matching_destinations :: "string \<Rightarrow> 'p ConnectionPolicy \<Rightarrow> tags list" where
  "matching_destinations service p =
     filter (\<lambda>s. Matches s [(ServiceTag, service)]) (cp_Destinations p)"

text \<open>The ranks with which a policy matches connections from \<open>d\<close> to \<open>service\<close>.\<close>

definition connection_ranks :: "Dataplane \<Rightarrow> string \<Rightarrow> 'p ConnectionPolicy \<Rightarrow> TagSelectorRank set" where
  "connection_ranks d service p =
     {CombinedWith (Rank t) (Rank s) | s t.
        s \<in> set (matching_sources d p) \<and> t \<in> set (matching_destinations service p)}"

lemma source_loop_found:
  "fold (source_step d) ss (True, r) =
     (True, Max (insert r (Rank ` set (filter (dataplane_Matches (Some d)) ss))))"
proof (induction ss arbitrary: r)
  case Nil
  then show ?case by simp
next
  case (Cons s ss)
  let ?R = "Rank ` set (filter (dataplane_Matches (Some d)) ss)"
  have "Max (insert (if r < Rank s then Rank s else r) ?R) = Max (insert r (insert (Rank s) ?R))"
    by (rule Max_eq_cofinal [symmetric]) (auto intro: less_imp_le)
  moreover have "source_step d s (True, r) =
      (True, if dataplane_Matches (Some d) s then (if r < Rank s then Rank s else r) else r)"
    by (simp add: source_step_def CompareTo_order Let_def)
  ultimately show ?case by (simp add: Cons)
qed

lemma source_loop:
  "fold (source_step d) ss (False, r) =
     (let ms = filter (dataplane_Matches (Some d)) ss
      in if ms = [] then (False, r) else (True, Max (Rank ` set ms)))"
proof (induction ss arbitrary: r)
  case Nil
  then show ?case by simp
next
  case (Cons s ss)
  have "source_step d s (False, r) = (if dataplane_Matches (Some d) s then (True, Rank s) else (False, r))"
    by (simp add: source_step_def Let_def)
  then show ?case by (simp add: Cons source_loop_found Let_def)
qed

lemma candidate_by_source_eq:
  "candidate_by_source d p =
     (if matching_sources d p = [] then []
      else [\<lparr>cbs_policy = p, cbs_bestSourceRank = Max (Rank ` set (matching_sources d p))\<rparr>])"
  by (simp add: candidate_by_source_def source_loop matching_sources_def Let_def)

text \<open>The entry of one service in the map of candidates, seen as an offer.\<close>

definition entry_offer ::
  "string \<Rightarrow> (string, 'p candidateByDestination) gomap \<Rightarrow> (TagSelectorRank \<times> 'p ConnectionPolicy) option" where
  "entry_offer service m =
     map_option (\<lambda>c. (cbd_bestAggregateRank c, cbs_policy c)) (map_of m service)"

definition destination_offers ::
  "string \<Rightarrow> 'p candidateBySource \<Rightarrow> tags list \<Rightarrow> (TagSelectorRank \<times> 'p ConnectionPolicy) list" where
  "destination_offers service c ds =
     map (\<lambda>t. (CombinedWith (Rank t) (cbs_bestSourceRank c), cbs_policy c))
       (filter (\<lambda>t. Matches t [(ServiceTag, service)]) ds)"

lemma destination_step_entry:
  "entry_offer service (destination_step service c t m) =
     keep_best better_offer (entry_offer service m) (destination_offers service c [t])"
  by (auto simp: destination_step_def entry_offer_def destination_offers_def map_of_gput Let_def
      CompareTo_order better_offer_def split: option.splits)

lemma destination_step_other:
  "s \<noteq> service \<Longrightarrow> entry_offer s (destination_step service c t m) = entry_offer s m"
  by (auto simp: destination_step_def entry_offer_def map_of_gput Let_def)

lemma destination_loop_entry:
  "entry_offer service (fold (destination_step service c) ds m) =
     keep_best better_offer (entry_offer service m) (destination_offers service c ds)"
proof (induction ds arbitrary: m)
  case Nil
  then show ?case by (simp add: destination_offers_def)
next
  case (Cons t ds)
  have "destination_offers service c (t # ds)
      = destination_offers service c [t] @ destination_offers service c ds"
    by (simp add: destination_offers_def)
  then show ?case by (simp only: fold.simps comp_apply Cons destination_step_entry keep_best_append)
qed

definition candidate_offers ::
  "string \<Rightarrow> 'p candidateBySource list \<Rightarrow> (TagSelectorRank \<times> 'p ConnectionPolicy) list" where
  "candidate_offers service cs =
     concat (map (\<lambda>c. destination_offers service c (cp_Destinations (cbs_policy c))) cs)"

lemma candidate_loop_entry:
  "entry_offer service (fold (\<lambda>c. fold (destination_step service c) (cp_Destinations (cbs_policy c))) cs m) =
     keep_best better_offer (entry_offer service m) (candidate_offers service cs)"
  by (induction cs arbitrary: m)
    (simp_all add: candidate_offers_def destination_loop_entry keep_best_append)

lemma destination_loop_other:
  "s \<noteq> service \<Longrightarrow> entry_offer s (fold (destination_step service c) ds m) = entry_offer s m"
  by (induction ds arbitrary: m) (simp_all add: destination_step_other)

lemma candidate_loop_other:
  "s \<noteq> service \<Longrightarrow>
     entry_offer s (fold (\<lambda>c. fold (destination_step service c) (cp_Destinations (cbs_policy c))) cs m) =
     entry_offer s m"
  by (induction cs arbitrary: m) (simp_all add: destination_loop_other)

lemma entry_offer_None: "entry_offer s m = None \<longleftrightarrow> map_of m s = None"
  by (simp add: entry_offer_def)

lemma service_loop_entry:
  "entry_offer s (fold (service_step cs) services m) =
     (if entry_offer s m \<noteq> None \<or> s \<notin> set services then entry_offer s m
      else keep_best better_offer None (candidate_offers s cs))"
proof (induction services arbitrary: m)
  case Nil
  then show ?case by simp
next
  case (Cons service services)
  have step: "entry_offer s (service_step cs service m) =
      (if s = service \<and> entry_offer s m = None
       then keep_best better_offer None (candidate_offers s cs) else entry_offer s m)"
  proof (cases "map_of m service")
    case None
    then have "entry_offer service m = None" by (simp add: entry_offer_def)
    with None show ?thesis
      by (auto simp: service_step_def candidate_loop_other candidate_loop_entry)
  next
    case (Some c)
    then show ?thesis by (auto simp: service_step_def entry_offer_def)
  qed
  show ?case unfolding fold.simps comp_apply Cons step by auto
qed

definition connection_offers :: "Dataplane \<Rightarrow> string \<Rightarrow> 'p ConnectionPolicy \<Rightarrow> TagSelectorRank list" where
  "connection_offers d service p =
     (if matching_sources d p = [] then []
      else map (\<lambda>t. CombinedWith (Rank t) (Max (Rank ` set (matching_sources d p))))
             (matching_destinations service p))"

lemma candidate_offers_by:
  "candidate_offers service (concat (map (candidate_by_source d) ps)) =
     offers_by (connection_offers d service) ps"
  by (induction ps)
    (simp_all add: candidate_offers_def offers_by_def candidate_by_source_eq connection_offers_def
      destination_offers_def matching_destinations_def comp_def)

lemma CombinedWith_commute: "CombinedWith r q = CombinedWith q r"
  by (cases r; cases q) simp

lemma connection_ranks_image:
  "connection_ranks d service p =
     (\<lambda>(s, t). CombinedWith (Rank t) (Rank s)) `
       (set (matching_sources d p) \<times> set (matching_destinations service p))"
  by (auto simp: connection_ranks_def)

lemma finite_connection_ranks [simp]: "finite (connection_ranks d service p)"
  by (simp add: connection_ranks_image)

lemma connection_ranks_empty:
  "connection_ranks d service p = {} \<longleftrightarrow>
     matching_sources d p = [] \<or> matching_destinations service p = []"
  by (simp add: connection_ranks_image)

lemma connection_offers_chosen:
  "chosen (set \<circ> connection_offers d service) ps p = chosen (connection_ranks d service) ps p"
proof (rule chosen_rank_cong [symmetric])
  let ?R = "\<lambda>q. Rank ` set (matching_sources d q)"
  show "(set \<circ> connection_offers d service) q \<subseteq> connection_ranks d service q" for q
  proof (cases "matching_sources d q = []")
    case True
    then show ?thesis by (simp add: connection_offers_def)
  next
    case False
    then have "Max (?R q) \<in> ?R q" by simp
    then obtain s where "s \<in> set (matching_sources d q)" "Max (?R q) = Rank s" by blast
    then show ?thesis by (auto simp: connection_offers_def connection_ranks_def)
  qed
  fix q r
  assume "r \<in> connection_ranks d service q"
  then obtain s t where r: "r = CombinedWith (Rank t) (Rank s)"
    and s: "s \<in> set (matching_sources d q)" and t: "t \<in> set (matching_destinations service q)"
    by (auto simp: connection_ranks_def)
  have "Rank s \<le> Max (?R q)" using s by simp
  then have "r \<le> CombinedWith (Rank t) (Max (?R q))"
    unfolding r by (metis CombinedWith_mono CombinedWith_commute)
  then show "\<exists>r' \<in> (set \<circ> connection_offers d service) q. r \<le> r'"
    using s t by (auto simp: connection_offers_def)
qed simp

lemma Select_entry:
  "map_of (SelectConnectionPolicies d services ps) s =
     (if s \<in> set services
      then map_option snd (keep_best better_offer None
             (offers_by (connection_offers d s) (sort_ByName ps)))
      else None)"
proof -
  let ?m = "fold (service_step (concat (map (candidate_by_source d) (sort_ByName ps)))) services []"
  have "map_of (SelectConnectionPolicies d services ps) s = map_option cbs_policy (map_of ?m s)"
    by (simp add: SelectConnectionPolicies_def map_of_map)
  also have "\<dots> = map_option snd (entry_offer s ?m)"
    by (simp add: entry_offer_def option.map_comp comp_def)
  also have "entry_offer s ?m = (if s \<in> set services
      then keep_best better_offer None (offers_by (connection_offers d s) (sort_ByName ps)) else None)"
    unfolding service_loop_entry candidate_offers_by by (simp add: entry_offer_def)
  finally show ?thesis by simp
qed

lemma chosen_exists:
  assumes "distinct (map pol_Name ps)"
  shows "(\<exists>p. chosen (set \<circ> ranks) ps p) \<longleftrightarrow> (\<exists>q \<in> set ps. ranks q \<noteq> [])"
proof -
  have "(\<exists>p. chosen (set \<circ> ranks) ps p) \<longleftrightarrow>
      keep_best better_offer None (offers_by ranks (sort_ByName ps)) \<noteq> None"
    using keep_best_offers_by [OF assms, of ranks] by fastforce
  also have "\<dots> \<longleftrightarrow> \<not> (\<forall>q \<in> set (sort_ByName ps). (set \<circ> ranks) q = {})"
    by (subst keep_best_no_offers [of _ "sort_ByName ps" "set \<circ> ranks"]) (simp_all add: set_offers_by)
  finally show ?thesis by (simp add: sort_ByName_props)
qed

lemma Select_chosen:
  assumes "distinct (map pol_Name ps)"
  shows "map_of (SelectConnectionPolicies d services ps) s = Some p \<longleftrightarrow>
    s \<in> set services \<and> chosen (connection_ranks d s) ps p"
  unfolding Select_entry connection_offers_chosen [symmetric] keep_best_offers_by [OF assms, symmetric]
  by simp

lemma Select_exists:
  assumes "distinct (map pol_Name ps)"
  shows "map_of (SelectConnectionPolicies d services ps) s \<noteq> None \<longleftrightarrow>
    s \<in> set services \<and> (\<exists>q \<in> set ps. connection_ranks d s q \<noteq> {})"
proof -
  have "(connection_offers d s q \<noteq> []) = (connection_ranks d s q \<noteq> {})" for q :: "'a ConnectionPolicy"
    by (simp add: connection_offers_def connection_ranks_empty)
  then show ?thesis
    using chosen_exists [OF assms, of "connection_offers d s"] Select_chosen [OF assms, of d services s]
    by (simp add: connection_offers_chosen)
qed

text \<open>
  C6. \<open>SelectConnectionPolicies\<close> gives a destination service exactly the policy that matches the
  connection and outranks every other matching policy: the highest rank of a source selector
  combined with a destination selector wins, then the latest creation time, then the least name.
  A service gets a policy as soon as one matches, and only if it was asked for.
\<close>

theorem connection_policy_is_best:
  fixes ps :: "'p ConnectionPolicy list"
  assumes "distinct (map pol_Name ps)"
  shows "(map_of (SelectConnectionPolicies d services ps) s = Some p \<longleftrightarrow>
            s \<in> set services \<and> chosen (connection_ranks d s) ps p) \<and>
         (map_of (SelectConnectionPolicies d services ps) s \<noteq> None \<longleftrightarrow>
            s \<in> set services \<and> (\<exists>q \<in> set ps. connection_ranks d s q \<noteq> {}))"
  using Select_chosen [OF assms] Select_exists [OF assms] by blast

definition example_policy :: "string \<Rightarrow> gotime \<Rightarrow> tags \<Rightarrow> tags \<Rightarrow> nat ConnectionPolicy" where
  "example_policy name time source destination =
     \<lparr>pol_Resource = 0, pol_Name = name, pol_CreationTime = time,
      cp_Sources = [source], cp_Destinations = [destination]\<rparr>"

definition example_policies :: "nat ConnectionPolicy list" where
  "example_policies =
     [example_policy ''any'' 5 [(''service'', ''*'')] [(''service'', ''*'')],
      example_policy ''web'' 3 [(''service'', ''web'')] [(''service'', ''backend'')]]"

theorem connection_policy_is_best_witness:
  "distinct (map pol_Name example_policies) \<and>
   chosen (connection_ranks example_dataplane ''backend'') example_policies (example_policies ! 1)"
proof -
  have names: "distinct (map pol_Name example_policies)" by code_simp
  have "map_of (SelectConnectionPolicies example_dataplane [''backend''] example_policies) ''backend''
      = Some (example_policies ! 1)"
    by code_simp
  then show ?thesis
    using connection_policy_is_best [OF names, of example_dataplane "[''backend'']" "''backend''"
        "example_policies ! 1"] names by blast
qed

text \<open>
  The policies chosen do not depend on the order in which the store lists them.
\<close>

theorem connection_policy_order_independent:
  fixes ps :: "'p ConnectionPolicy list"
  assumes "mset ps = mset ps'" and "distinct (map pol_Name ps)"
  shows "map_of (SelectConnectionPolicies d services ps) = map_of (SelectConnectionPolicies d services ps')"
proof (rule ext)
  fix s
  have names: "distinct (map pol_Name ps')"
    using assms by (metis mset_eq_imp_distinct_iff mset_map)
  have "set ps = set ps'" using assms(1) by (metis set_mset_mset)
  then have "map_of (SelectConnectionPolicies d services ps) s = Some p \<longleftrightarrow>
      map_of (SelectConnectionPolicies d services ps') s = Some p" for p
    unfolding Select_chosen [OF assms(2)] Select_chosen [OF names] using chosen_set_cong by blast
  then show "map_of (SelectConnectionPolicies d services ps) s = map_of (SelectConnectionPolicies d services ps') s"
    by (metis not_Some_eq)
qed

theorem connection_policy_order_independent_witness:
  "map_of (SelectConnectionPolicies example_dataplane [''backend''] example_policies) =
   map_of (SelectConnectionPolicies example_dataplane [''backend''] (rev example_policies))"
proof (rule connection_policy_order_independent)
  show "mset example_policies = mset (rev example_policies)" by simp
  show "distinct (map pol_Name example_policies)" by code_simp
qed

section \<open>The loops that remember the best policy\<close>

text \<open>The variables \<open>bestPolicy\<close> and \<open>bestRank\<close> for the best offer so far.\<close>

fun loop_state :: "('p, 'z) offer option \<Rightarrow> ('p, 'z) policy_scheme option \<times> TagSelectorRank" where
  "loop_state None = (None, zero_rank)"
| "loop_state (Some (r, p)) = (Some p, r)"

definition ranked :: "('p, 'z) offer option \<Rightarrow> bool" where
  "ranked x \<longleftrightarrow> (\<forall>r p. x = Some (r, p) \<longrightarrow> zero_rank \<le> r)"

lemma ranked_None [simp]: "ranked None"
  by (simp add: ranked_def)

lemma ranked_keep_best:
  "ranked x \<Longrightarrow> (\<And>r p. (r, p) \<in> set xs \<Longrightarrow> zero_rank \<le> r) \<Longrightarrow> ranked (keep_best better_offer x xs)"
  unfolding ranked_def using keep_best_in by fastforce

lemma rank_step_keep_best:
  "zero_rank < r \<Longrightarrow>
     rank_step p r (loop_state x) = Inr (loop_state (keep_best better_offer x [(r, p)]))"
  by (cases x)
    (auto simp: rank_step_def same_rank_created_later_def CompareTo_order better_offer_def)

lemma match_everything_keep_best:
  "ranked x \<Longrightarrow>
     match_everything_step p (loop_state x) =
       Inr (loop_state (keep_best better_offer x [(zero_rank, p)]))"
  by (cases x)
    (auto simp: match_everything_step_def same_rank_created_later_def CompareTo_order
      better_offer_def ranked_def leD)

lemma foldE_keep_best:
  assumes "\<And>y x. y \<in> set ys \<Longrightarrow> ranked x \<Longrightarrow>
      f y (loop_state x) = Inr (loop_state (keep_best better_offer x (g y)))"
    and "\<And>y r p. y \<in> set ys \<Longrightarrow> (r, p) \<in> set (g y) \<Longrightarrow> zero_rank \<le> r"
    and "ranked x"
  shows "foldE f ys (loop_state x) =
    Inr (loop_state (keep_best better_offer x (concat (map g ys))))"
  using assms
proof (induction ys arbitrary: x)
  case Nil
  then show ?case by simp
next
  case (Cons y ys)
  have "ranked (keep_best better_offer x (g y))"
    using Cons.prems(2) [of y] Cons.prems(3) by (intro ranked_keep_best) simp_all
  then have "foldE f ys (loop_state (keep_best better_offer x (g y))) =
      Inr (loop_state (keep_best better_offer (keep_best better_offer x (g y)) (concat (map g ys))))"
    using Cons.prems by (intro Cons.IH) (simp, meson list.set_intros(2), simp)
  then show ?case using Cons.prems by (simp add: keep_best_append)
qed

lemma fst_loop_state: "fst (loop_state x) = map_option snd x"
  by (cases x) auto

section \<open>The inbound matcher\<close>

definition inbound_offers :: "Inbound \<Rightarrow> 'p ConnectionPolicy \<Rightarrow> TagSelectorRank list" where
  "inbound_offers inbound p = map Rank (filter (inbound_MatchTags inbound) (cp_Destinations p))"

definition inbound_ranks :: "Inbound \<Rightarrow> 'p ConnectionPolicy \<Rightarrow> TagSelectorRank set" where
  "inbound_ranks inbound p =
     {Rank s | s. s \<in> set (cp_Destinations p) \<and> Matches s (in_Tags inbound)}"

lemma inbound_ranks_offers: "inbound_ranks inbound = set \<circ> inbound_offers inbound"
  by (rule ext) (auto simp: inbound_ranks_def inbound_offers_def inbound_MatchTags_def)

definition no_empty_destination :: "'p ConnectionPolicy list \<Rightarrow> bool" where
  "no_empty_destination ps \<longleftrightarrow> (\<forall>p \<in> set ps. [] \<notin> set (cp_Destinations p))"

lemma inbound_policy_step_keep_best:
  fixes p :: "'p ConnectionPolicy"
  assumes "[] \<notin> set (cp_Destinations p)" and "ranked x"
  shows "inbound_policy_step inbound p (loop_state x) =
    Inr (loop_state (keep_best better_offer x (map (\<lambda>r. (r, p)) (inbound_offers inbound p))))"
proof -
  let ?g = "\<lambda>s. if inbound_MatchTags inbound s then [(Rank s, p)] else []"
  have eq: "concat (map ?g ss) = map (\<lambda>r. (r, p)) (map Rank (filter (inbound_MatchTags inbound) ss))" for ss
    by (induction ss) auto
  have "zero_rank < Rank s" if "s \<in> set (cp_Destinations p)" for s
    using that assms(1) by (auto simp: Rank_positive)
  then have "rank_step p (Rank s) (loop_state y) = Inr (loop_state (keep_best better_offer y [(Rank s, p)]))"
    if "s \<in> set (cp_Destinations p)" for s and y :: "(TagSelectorRank \<times> 'p ConnectionPolicy) option"
    using that rank_step_keep_best by blast
  then show ?thesis
    unfolding inbound_policy_step_def inbound_offers_def eq [symmetric] using assms(2)
    by (intro foldE_keep_best) (simp_all del: keep_best.simps(2) add: zero_rank_least split: if_splits)
qed

lemma best_inbound_policy_keep_best:
  fixes ps :: "'p ConnectionPolicy list"
  assumes "no_empty_destination ps"
  shows "best_inbound_policy ps inbound =
    Inr (map_option snd (keep_best better_offer None (offers_by (inbound_offers inbound) ps)))"
proof -
  have "foldE (inbound_policy_step inbound) ps (loop_state None) =
      Inr (loop_state (keep_best better_offer None (offers_by (inbound_offers inbound) ps)))"
    unfolding offers_by_def using assms
    by (intro foldE_keep_best)
      (auto simp: inbound_policy_step_keep_best no_empty_destination_def inbound_offers_def zero_rank_least)
  then show ?thesis
    by (simp add: best_inbound_policy_def case_prod_unfold fst_loop_state)
qed

text \<open>What \<open>SelectInboundConnectionPolicies\<close> records for the interfaces of a dataplane.\<close>

definition inbound_entries ::
  "'p ConnectionPolicy list \<Rightarrow> (InboundInterface \<times> Inbound) list \<Rightarrow>
   (InboundInterface, 'p ConnectionPolicy) gomap \<Rightarrow> (InboundInterface, 'p ConnectionPolicy) gomap" where
  "inbound_entries ps =
     fold (\<lambda>(iface, inbound) m.
       case keep_best better_offer None (offers_by (inbound_offers inbound) ps) of
         None \<Rightarrow> m
       | Some (r, p) \<Rightarrow> gput iface p m)"

lemma inbound_loop:
  fixes ps :: "'p ConnectionPolicy list"
  assumes "no_empty_destination ps"
  shows "foldE (\<lambda>(iface, inbound) policiesMap.
            bindE (best_inbound_policy ps inbound) (\<lambda>bestPolicy.
              Inr (case bestPolicy of
                     None \<Rightarrow> policiesMap
                   | Some best \<Rightarrow> gput iface best policiesMap))) xs m = Inr (inbound_entries ps xs m)"
  by (induction xs arbitrary: m)
    (auto simp: inbound_entries_def best_inbound_policy_keep_best [OF assms] split: option.split)

lemma inbound_entries_other:
  "iface \<notin> fst ` set xs \<Longrightarrow> map_of (inbound_entries ps xs m) iface = map_of m iface"
  by (induction xs arbitrary: m) (auto simp: inbound_entries_def map_of_gput split: option.split)

lemma inbound_entries_at:
  assumes "distinct (map fst xs)" and "(iface, inbound) \<in> set xs" and "iface \<notin> fst ` set m"
  shows "map_of (inbound_entries ps xs m) iface =
    map_option snd (keep_best better_offer None (offers_by (inbound_offers inbound) ps))"
  using assms
proof (induction xs arbitrary: m)
  case Nil
  then show ?case by simp
next
  case (Cons x xs)
  obtain i b where x: "x = (i, b)" by fastforce
  let ?best = "keep_best better_offer None (offers_by (inbound_offers b) ps)"
  have step: "inbound_entries ps (x # xs) m =
      inbound_entries ps xs (case ?best of None \<Rightarrow> m | Some (r, p) \<Rightarrow> gput i p m)"
    by (simp add: inbound_entries_def x)
  show ?case
  proof (cases "iface = i")
    case True
    then have b: "inbound = b" and "iface \<notin> fst ` set xs"
      using Cons.prems(1,2) x by (auto simp: rev_image_eqI)
    then have "map_of (inbound_entries ps (x # xs) m) iface =
        map_of (case ?best of None \<Rightarrow> m | Some (r, p) \<Rightarrow> gput i p m) iface"
      unfolding step by (intro inbound_entries_other)
    moreover have "map_of m iface = None" using Cons.prems(3) by (simp add: map_of_eq_None_iff)
    ultimately show ?thesis using True b by (auto simp: map_of_gput split: option.split)
  next
    case False
    then show ?thesis
      unfolding step using Cons.prems x
      by (intro Cons.IH) (auto simp: dom_update split: option.split)
  qed
qed

lemma SelectInbound_chosen:
  fixes ps :: "'p ConnectionPolicy list"
  assumes names: "distinct (map pol_Name ps)" and no_empty: "no_empty_destination ps"
    and ifaces: "GetInboundInterfaces (dp_Networking d) = Inr ifaces" and distinct: "distinct ifaces"
  shows "\<exists>m. SelectInboundConnectionPolicies d ps = Inr m \<and>
    (\<forall>i < length ifaces. \<forall>p.
       map_of m (ifaces ! i) = Some p \<longleftrightarrow> chosen (inbound_ranks (dp_GetInbound d ! i)) ps p)"
proof -
  let ?xs = "zip ifaces (dp_GetInbound d)"
  let ?m = "inbound_entries (sort_ByName ps) ?xs []"
  have "no_empty_destination (sort_ByName ps)"
    using no_empty by (simp add: no_empty_destination_def sort_ByName_props)
  then have sel: "SelectInboundConnectionPolicies d ps = Inr ?m"
    by (simp add: SelectInboundConnectionPolicies_def ifaces inbound_loop)
  have len: "length (dp_GetInbound d) = length ifaces"
    using ifaces
    by (auto simp: GetInboundInterfaces_def dp_GetInbound_def dest: mapE_Inr_length split: option.splits)
  have "map_of ?m (ifaces ! i) = Some p \<longleftrightarrow> chosen (inbound_ranks (dp_GetInbound d ! i)) ps p"
    if "i < length ifaces" for i p
  proof -
    have "(ifaces ! i, dp_GetInbound d ! i) \<in> set ?xs"
      using that len by (auto simp: set_zip)
    then have "map_of ?m (ifaces ! i) = map_option snd
        (keep_best better_offer None (offers_by (inbound_offers (dp_GetInbound d ! i)) (sort_ByName ps)))"
      using distinct len by (intro inbound_entries_at) simp_all
    then show ?thesis
      unfolding inbound_ranks_offers keep_best_offers_by [OF names, symmetric] by simp
  qed
  with sel show ?thesis by blast
qed


definition example_inbound_policies :: "nat ConnectionPolicy list" where
  "example_inbound_policies =
     [example_policy ''any'' 5 [(''service'', ''*'')] [(''service'', ''*'')],
      example_policy ''v1'' 3 [(''service'', ''*'')] [(''service'', ''web''), (''version'', ''v1'')]]"


text \<open>
  C35. An empty destination selector matches every inbound interface with the rank of the zero
  value, so when it is the first one tried, the comparison of creation times is made against a
  \<open>nil\<close> policy and the matcher panics.
\<close>

theorem inbound_policy_empty_selector_panics:
  assumes "cp_Destinations p = [] # ts" and "dp_GetInbound d \<noteq> []"
    and "GetInboundInterfaces (dp_Networking d) = Inr ifaces"
  shows "SelectInboundConnectionPolicies d [p] = Inl (ErrPanic ''nil pointer dereference'')"
proof -
  have "rank_step p (Rank []) (None, zero_rank) = Inl (ErrPanic ''nil pointer dereference'')"
    by (simp add: rank_step_def same_rank_created_later_def Rank_def CompareTo_order)
  then have best: "best_inbound_policy [p] inbound = Inl (ErrPanic ''nil pointer dereference'')" for inbound
    by (simp add: best_inbound_policy_def inbound_policy_step_def assms(1) inbound_MatchTags_def)
  have "length ifaces = length (dp_GetInbound d)"
    using assms(3)
    by (auto simp: GetInboundInterfaces_def dp_GetInbound_def dest: mapE_Inr_length split: option.splits)
  then obtain i rest b bs where "ifaces = i # rest" "dp_GetInbound d = b # bs"
    using assms(2) by (cases ifaces; cases "dp_GetInbound d") auto
  then show ?thesis
    by (simp add: SelectInboundConnectionPolicies_def assms(3) sort_ByName_def best)
qed

theorem inbound_policy_empty_selector_panics_witness:
  "SelectInboundConnectionPolicies example_dataplane [example_policy ''all'' 1 [] []] =
     Inl (ErrPanic ''nil pointer dereference'')"
  by (rule inbound_policy_empty_selector_panics)
    (simp_all add: example_policy_def example_dataplane_def dp_GetInbound_def
      GetInboundInterfaces_def GetInboundInterfaceByIdx_def)

section \<open>The dataplane policy matcher\<close>

text \<open>
  The ranks with which a policy matches a dataplane: a policy without selectors and an empty
  selector match everything, with the lowest rank.
\<close>

definition dataplane_offers :: "Dataplane \<Rightarrow> 'p DataplanePolicy \<Rightarrow> TagSelectorRank list" where
  "dataplane_offers d p =
     (if dpp_Selectors p = [] then [zero_rank]
      else map Rank (filter (\<lambda>s. s = [] \<or> dataplane_MatchTags d s) (dpp_Selectors p)))"

definition dataplane_ranks :: "Dataplane \<Rightarrow> 'p DataplanePolicy \<Rightarrow> TagSelectorRank set" where
  "dataplane_ranks d p =
     {r. dpp_Selectors p = [] \<and> r = zero_rank} \<union>
     {Rank s | s. s \<in> set (dpp_Selectors p) \<and> (s = [] \<or> dataplane_MatchTags d s)}"

lemma dataplane_ranks_offers: "dataplane_ranks d = set \<circ> dataplane_offers d"
  by (rule ext) (auto simp: dataplane_ranks_def dataplane_offers_def)

lemma dataplane_policy_step_keep_best:
  fixes p :: "'p DataplanePolicy"
  assumes "ranked x"
  shows "dataplane_policy_step d p (loop_state x) =
    Inr (loop_state (keep_best better_offer x (map (\<lambda>r. (r, p)) (dataplane_offers d p))))"
proof (cases "dpp_Selectors p = []")
  case True
  then show ?thesis
    using match_everything_keep_best [OF assms, of p]
    by (simp add: dataplane_policy_step_def dataplane_offers_def)
next
  case False
  let ?g = "\<lambda>s. if s = [] \<or> dataplane_MatchTags d s then [(Rank s, p)] else []"
  let ?f = "\<lambda>selector best.
     if length selector = 0 then match_everything_step p best
     else if dataplane_Matches (Some d) selector then rank_step p (Rank selector) best
     else Inr best"
  have eq: "concat (map ?g ss) =
      map (\<lambda>r. (r, p)) (map Rank (filter (\<lambda>s. s = [] \<or> dataplane_MatchTags d s) ss))" for ss
    by (induction ss) auto
  have zero: "Rank [] = zero_rank" by (simp add: Rank_def)
  have step: "?f s (loop_state y) = Inr (loop_state (keep_best better_offer y (?g s)))"
    if "ranked y" for s and y :: "(TagSelectorRank \<times> 'p DataplanePolicy) option"
  proof (cases "s = []")
    case True
    then show ?thesis using match_everything_keep_best [OF that, of p] zero by simp
  next
    case False
    then show ?thesis
      using rank_step_keep_best [of "Rank s" p y] by (simp add: dataplane_Matches_def Rank_positive)
  qed
  have "foldE ?f (dpp_Selectors p) (loop_state x) =
      Inr (loop_state (keep_best better_offer x (concat (map ?g (dpp_Selectors p)))))"
    using step assms by (intro foldE_keep_best) (auto simp: zero_rank_least split: if_splits)
  then show ?thesis
    using False by (simp only: dataplane_policy_step_def dataplane_offers_def eq length_0_conv if_False)
qed

lemma SelectDataplanePolicy_keep_best:
  fixes ps :: "'p DataplanePolicy list"
  shows "SelectDataplanePolicy d ps =
    Inr (map_option snd (keep_best better_offer None (offers_by (dataplane_offers d) (sort_ByName ps))))"
proof -
  have "foldE (dataplane_policy_step d) (sort_ByName ps) (loop_state None) =
      Inr (loop_state (keep_best better_offer None (offers_by (dataplane_offers d) (sort_ByName ps))))"
    unfolding offers_by_def
    by (intro foldE_keep_best)
      (auto simp: dataplane_policy_step_keep_best dataplane_offers_def zero_rank_least split: if_splits)
  then show ?thesis by (simp add: SelectDataplanePolicy_def case_prod_unfold fst_loop_state)
qed

lemma SelectDataplane_chosen:
  fixes ps :: "'p DataplanePolicy list"
  assumes names: "distinct (map pol_Name ps)"
  shows "\<exists>best. SelectDataplanePolicy d ps = Inr best \<and>
    (best = None \<longleftrightarrow> (\<forall>q \<in> set ps. dataplane_ranks d q = {})) \<and>
    (\<forall>p. best = Some p \<longleftrightarrow> chosen (dataplane_ranks d) ps p)"
proof (intro exI conjI allI)
  let ?best = "map_option snd (keep_best better_offer None (offers_by (dataplane_offers d) (sort_ByName ps)))"
  show "SelectDataplanePolicy d ps = Inr ?best"
    by (rule SelectDataplanePolicy_keep_best)
  show chosen: "?best = Some p \<longleftrightarrow> chosen (dataplane_ranks d) ps p" for p
    using keep_best_offers_by [OF names, of "dataplane_offers d" p] by (simp add: dataplane_ranks_offers)
  show "?best = None \<longleftrightarrow> (\<forall>q \<in> set ps. dataplane_ranks d q = {})"
    using chosen_exists [OF names, of "dataplane_offers d"] chosen
    by (simp only: dataplane_ranks_offers comp_apply set_empty) (metis option.exhaust option.distinct(1))
qed


definition example_dataplane_policy :: "string \<Rightarrow> gotime \<Rightarrow> tags list \<Rightarrow> nat DataplanePolicy" where
  "example_dataplane_policy name time selectors =
     \<lparr>pol_Resource = 0, pol_Name = name, pol_CreationTime = time, dpp_Selectors = selectors\<rparr>"

definition example_dataplane_policies :: "nat DataplanePolicy list" where
  "example_dataplane_policies =
     [example_dataplane_policy ''all'' 9 [],
      example_dataplane_policy ''web'' 2 [[(''service'', ''web'')]]]"


end
