(* ===== verification/Validated_Resources.thy ===== *)
theory Validated_Resources
  imports Resource_Validators Policy_Matching
begin

text \<open>
  What validation guarantees to the code that consumes resources.  A dataplane that passes
  \<open>Dataplane_Validate\<close> has interfaces that resolve; the connection policies that pass their
  \<open>Validate\<close> satisfy the contract \<open>validated_connection_policy\<close>, under which the inbound matcher
  cannot panic.  The theory also holds the views of the resources as policies, the methods
  \<open>Sources\<close>, \<open>Destinations\<close> and \<open>Selectors\<close> of \<open>pkg/core/resources/apis/mesh\<close>.
\<close>

section \<open>Dataplanes\<close>

lemma validateTags_loop_Nil:
  "validateTags_loop ts err = [] \<longleftrightarrow>
     err = [] \<and> (\<forall>(k, v) \<in> set ts. v \<noteq> '''' \<and> tagNameCharacterSet k \<and> tagValueCharacterSet v)"
  by (induction ts err rule: validateTags_loop.induct) (auto simp: Let_def)

lemma validateTags_Nil:
  "validateTags ts = [] \<longleftrightarrow>
     (\<forall>(k, v) \<in> set ts. v \<noteq> '''' \<and> tagNameCharacterSet k \<and> tagValueCharacterSet v)"
  by (simp add: validateTags_def validateTags_loop_Nil)

lemma legacy_inbound_violations_Nil:
  "legacy_inbound_violations i a = [] \<longleftrightarrow>
     in_Port i = 0 \<and> in_ServicePort i = 0 \<and> in_Address i = '''' \<and> a = '''' \<and>
     (\<exists>x. ParseInboundInterface (in_Interface i) = Inr x)"
  by (cases "ParseInboundInterface (in_Interface i)") (auto simp: legacy_inbound_violations_def Let_def)

lemma new_inbound_violations_Nil:
  "new_inbound_violations i = [] \<longleftrightarrow>
     valid_port (in_Port i) \<and> in_ServicePort i \<le> 65535 \<and>
     (in_Address i \<noteq> '''' \<longrightarrow> parse_ip (in_Address i) \<noteq> [])"
proof -
  have "in_Port i < 1 \<longleftrightarrow> \<not> 1 \<le> in_Port i" by (simp only: not_le)
  then show ?thesis
    by (auto simp: new_inbound_violations_def valid_port_def Let_def not_less simp del: word_less_1)
qed

lemma validateInbound_Nil:
  "validateInbound i a = [] \<Longrightarrow>
     (if in_Interface i \<noteq> '''' then legacy_inbound_violations i a = [] else new_inbound_violations i = []) \<and>
     (\<exists>v. map_of (in_Tags i) ServiceTag = Some v \<and> v \<noteq> '''') \<and> validateTags (in_Tags i) = []"
  by (auto simp: validateInbound_def Let_def validateTags_Nil dest: map_of_SomeD split: if_splits option.splits)

lemma not_less_1_word: "\<not> x < (1 :: u32) \<longleftrightarrow> 1 \<le> x"
  by (simp only: not_less)

lemma validateOutbound_Nil:
  "validateOutbound b = [] \<Longrightarrow> \<exists>x. outbound_iface b = Inr x \<and> parse_ip (oi_DataplaneIP x) \<noteq> [] \<and> valid_port (oi_DataplanePort x)"
proof (cases "out_Interface b = ''''")
  case True
  have "parse_ip ''127.0.0.1'' \<noteq> []" by code_simp
  then show "validateOutbound b = [] \<Longrightarrow> ?thesis"
    using True by (auto simp: validateOutbound_def outbound_iface_def Let_def valid_port_def not_less not_less_1_word
        simp del: word_less_1 split: if_splits)
next
  case False
  assume "validateOutbound b = []"
  then obtain x where "ParseOutboundInterface (out_Interface b) = Inr x"
    using False by (auto simp: validateOutbound_def Let_def split: if_splits sum.splits)
  then show ?thesis using False ParseOutboundInterface_valid [of "out_Interface b" x] by (simp add: outbound_iface_def)
qed

lemma validateNetworking_Nil:
  "validateNetworking net = Inr [] \<Longrightarrow>
     \<exists>n. net = Some n \<and> (net_Inbound n \<noteq> [] \<or> net_Gateway n \<noteq> None) \<and>
       (net_Address n \<noteq> '''' \<or> \<not> hasLegacyInbound n \<longrightarrow> parse_ip (net_Address n) \<noteq> []) \<and>
       (\<forall>i \<in> set (net_Inbound n). validateInbound i (net_Address n) = []) \<and>
       (\<forall>b \<in> set (net_Outbound n). validateOutbound b = [])"
  by (cases net) (auto simp: validateNetworking_def Let_def split: if_splits option.splits)

text \<open>What a resolved inbound interface of a validated dataplane satisfies.\<close>

definition inbound_interface_ok :: "Networking \<Rightarrow> InboundInterface \<Rightarrow> bool" where
  "inbound_interface_ok n i \<longleftrightarrow>
     valid_port (ii_DataplanePort i) \<and> valid_port (ii_WorkloadPort i) \<and>
     (parse_ip (ii_DataplaneIP i) \<noteq> [] \<or>
      ii_DataplaneIP i = '''' \<and> net_Address n = '''' \<and> hasLegacyInbound n)"

lemma validated_inbound_resolves:
  assumes v: "validateInbound (net_Inbound n ! k) (net_Address n) = []" and k: "k < length (net_Inbound n)"
    and addr: "net_Address n \<noteq> '''' \<or> \<not> hasLegacyInbound n \<longrightarrow> parse_ip (net_Address n) \<noteq> []"
  shows "\<exists>i. GetInboundInterfaceByIdx n k = Inr i \<and> inbound_interface_ok n i"
proof (cases "in_Interface (net_Inbound n ! k) = ''''")
  case True
  then have nv: "new_inbound_violations (net_Inbound n ! k) = []" using validateInbound_Nil [OF v] by simp
  then show ?thesis
    using True k addr
    by (auto simp: GetInboundInterfaceByIdx_def Let_def inbound_interface_ok_def new_inbound_violations_Nil
        valid_port_def word_le_nat_alt Suc_le_eq unat_gt_0)
next
  case False
  then obtain i where "ParseInboundInterface (in_Interface (net_Inbound n ! k)) = Inr i"
    using validateInbound_Nil [OF v] by (auto simp: legacy_inbound_violations_Nil)
  then show ?thesis
    using False k ParseInboundInterface_valid
    by (auto simp: GetInboundInterfaceByIdx_def Let_def inbound_interface_ok_def)
qed

lemma mapE_total:
  "\<forall>x \<in> set xs. \<exists>y. f x = Inr y \<and> P y \<Longrightarrow> \<exists>ys. mapE f xs = Inr ys \<and> (\<forall>y \<in> set ys. P y)"
  by (induction xs) auto

lemma validated_networking:
  assumes "Dataplane_Validate d = None"
  shows "\<exists>n. dp_Networking (Spec d) = Some n \<and>
    (\<exists>is. GetInboundInterfaces (Some n) = Inr is \<and> (\<forall>i \<in> set is. inbound_interface_ok n i)) \<and>
    (\<forall>k < length (net_Inbound n). \<exists>i. GetInboundInterfaceByIdx n k = Inr i \<and> inbound_interface_ok n i) \<and>
    (\<forall>i \<in> set (net_Inbound n). validateInbound i (net_Address n) = []) \<and>
    (\<forall>b \<in> set (net_Outbound n). validateOutbound b = [])"
proof -
  have "validateNetworking (dp_Networking (Spec d)) = Inr []"
    using assms by (auto simp: Dataplane_Validate_def split: sum.splits)
  then obtain n where n: "dp_Networking (Spec d) = Some n"
    and addr: "net_Address n \<noteq> '''' \<or> \<not> hasLegacyInbound n \<longrightarrow> parse_ip (net_Address n) \<noteq> []"
    and ins: "\<forall>i \<in> set (net_Inbound n). validateInbound i (net_Address n) = []"
    and outs: "\<forall>b \<in> set (net_Outbound n). validateOutbound b = []"
    using validateNetworking_Nil by blast
  have idx: "\<forall>k < length (net_Inbound n). \<exists>i. GetInboundInterfaceByIdx n k = Inr i \<and> inbound_interface_ok n i"
    using validated_inbound_resolves [OF _ _ addr] ins by simp
  then have "\<exists>is. GetInboundInterfaces (Some n) = Inr is \<and> (\<forall>i \<in> set is. inbound_interface_ok n i)"
    by (auto simp: GetInboundInterfaces_def intro!: mapE_total)
  then show ?thesis using n idx ins outs by blast
qed

text \<open>
  C31. Every interface of a dataplane that passes validation resolves: ports are in range and
  addresses are IP addresses, with one exception that the validator lets through: when a legacy
  inbound is mixed with a new one, the latter may have no address at all.
\<close>

theorem validated_dataplane_interfaces:
  assumes "Dataplane_Validate d = None"
  shows "\<exists>n ins outs. dp_Networking (Spec d) = Some n \<and>
    GetInboundInterfaces (Some n) = Inr ins \<and> (\<forall>i \<in> set ins. inbound_interface_ok n i) \<and>
    GetOutboundInterfaces (Some n) = Inr outs \<and>
    (\<forall>b \<in> set outs. parse_ip (oi_DataplaneIP b) \<noteq> [] \<and> valid_port (oi_DataplanePort b)) \<and>
    (\<forall>i \<in> set (net_Inbound n). \<exists>v. map_of (in_Tags i) ServiceTag = Some v \<and> v \<noteq> '''')"
proof -
  obtain n where n: "dp_Networking (Spec d) = Some n"
    and ifaces: "\<exists>is. GetInboundInterfaces (Some n) = Inr is \<and> (\<forall>i \<in> set is. inbound_interface_ok n i)"
    and ins: "\<forall>i \<in> set (net_Inbound n). validateInbound i (net_Address n) = []"
    and outs: "\<forall>b \<in> set (net_Outbound n). validateOutbound b = []"
    using validated_networking [OF assms] by blast
  note ifaces
  moreover have "\<exists>os. GetOutboundInterfaces (Some n) = Inr os \<and>
      (\<forall>b \<in> set os. parse_ip (oi_DataplaneIP b) \<noteq> [] \<and> valid_port (oi_DataplanePort b))"
    using validateOutbound_Nil outs by (auto simp: GetOutboundInterfaces_def intro!: mapE_total)
  moreover have "\<forall>i \<in> set (net_Inbound n). \<exists>v. map_of (in_Tags i) ServiceTag = Some v \<and> v \<noteq> ''''"
    using ins validateInbound_Nil by blast
  ultimately show ?thesis using n by blast
qed

text \<open>A dataplane with one inbound, and one with a gateway, both accepted.\<close>

definition example_dataplane_resource :: DataplaneResource where
  "example_dataplane_resource = \<lparr>Meta = None, Spec = example_dataplane\<rparr>"

lemma example_dataplane_valid: "Dataplane_Validate example_dataplane_resource = None"
  by code_simp

theorem validated_dataplane_interfaces_witness:
  "\<exists>ins outs. GetInboundInterfaces (dp_Networking example_dataplane) = Inr ins \<and> length ins = 1 \<and>
     GetOutboundInterfaces (dp_Networking example_dataplane) = Inr outs \<and> length outs = 1 \<and>
     parse_ip (oi_DataplaneIP (outs ! 0)) \<noteq> []"
proof -
  obtain n ins outs where n: "dp_Networking (Spec example_dataplane_resource) = Some n"
    and ins: "GetInboundInterfaces (Some n) = Inr ins" and outs: "GetOutboundInterfaces (Some n) = Inr outs"
    and ips: "\<forall>b \<in> set outs. parse_ip (oi_DataplaneIP b) \<noteq> []"
    using validated_dataplane_interfaces [OF example_dataplane_valid] by blast
  have "length ins = 1" "length outs = 1"
    using mapE_Inr_length [OF ins [unfolded GetInboundInterfaces_def option.case]]
      mapE_Inr_length [OF outs [unfolded GetOutboundInterfaces_def option.case]] n
    by (auto simp: example_dataplane_resource_def example_dataplane_def)
  then show ?thesis using n ins outs ips by (simp add: example_dataplane_resource_def)
qed

text \<open>
  The exception is real: the validator checks the address of the dataplane only when no inbound
  is in the legacy format, and the address of a new inbound only when it has one.
\<close>

definition mixed_dataplane :: DataplaneResource where
  "mixed_dataplane =
     \<lparr>Meta = None,
      Spec = \<lparr>dp_Networking = Some
        \<lparr>net_Address = '''', net_Gateway = None,
         net_Inbound =
           [\<lparr>in_Interface = ''192.168.0.1:80:90'', in_Port = 0, in_ServicePort = 0, in_Address = '''',
             in_Tags = [(''service'', ''web'')]\<rparr>,
            \<lparr>in_Interface = '''', in_Port = 1, in_ServicePort = 2, in_Address = '''',
             in_Tags = [(''service'', ''admin'')]\<rparr>],
         net_Outbound = [], net_TransparentProxying = None\<rparr>, dp_Metrics = None\<rparr>\<rparr>"

text \<open>
  A dataplane with a legacy inbound and a new one, and no address, is accepted although the
  second inbound interface then has no IP address.
\<close>

theorem validator_accepts_missing_address:
  "Dataplane_Validate mixed_dataplane = None \<and>
   map_sum id (map ii_DataplaneIP) (GetInboundInterfaces (dp_Networking (Spec mixed_dataplane)))
     = Inr [''192.168.0.1'', '''']"
proof -
  have ports: "ParsePort ''80'' = Inr 80" "ParsePort ''90'' = Inr 90"
    by (simp_all add: ParsePort_def parse_uint_def is_digit_def digit_val_def)
  have hp: "split_host_port ''192.168.0.1:80'' = Inr (''192.168.0.1'', ''80'')" by code_simp
  have "parse_ip ''192.168.0.1'' \<noteq> []" by code_simp
  then have iface: "ParseInboundInterface ''192.168.0.1:80:90'' =
      Inr \<lparr>ii_DataplaneIP = ''192.168.0.1'', ii_DataplanePort = 80, ii_WorkloadPort = 90\<rparr>"
    by (simp add: ParseInboundInterface_def ports hp ParseIP_def)
  have tgs: "validateTags [(''service'', x)] = []" if "x = ''web'' \<or> x = ''admin''" for x
    using that by (elim disjE; hypsubst; code_simp)
  have "validateNetworking (dp_Networking (Spec mixed_dataplane)) = Inr []"
    by (simp add: mixed_dataplane_def validateNetworking_def hasLegacyInbound_def validateInbound_def
        legacy_inbound_violations_def new_inbound_violations_def iface tgs ServiceTag_def ProtocolTag_def Let_def)
  then show ?thesis
    by (simp add: Dataplane_Validate_def GetInboundInterfaces_def GetInboundInterfaceByIdx_def
        mixed_dataplane_def iface Let_def)
qed

section \<open>Resources as policies\<close>

definition policy_of :: "'s Resource \<Rightarrow> tags list \<Rightarrow> tags list \<Rightarrow> 's Resource ConnectionPolicy" where
  "policy_of r srcs dests =
     \<lparr>pol_Resource = r, pol_Name = res_name r, pol_CreationTime = res_creation_time r,
      cp_Sources = srcs, cp_Destinations = dests\<rparr>"

lemma policy_of_simps [simp]:
  "pol_Resource (policy_of r srcs dests) = r" "pol_Name (policy_of r srcs dests) = res_name r"
  "pol_CreationTime (policy_of r srcs dests) = res_creation_time r"
  "cp_Sources (policy_of r srcs dests) = srcs" "cp_Destinations (policy_of r srcs dests) = dests"
  by (simp_all add: policy_of_def)

definition TrafficPermission_policy :: "TrafficPermissionResource \<Rightarrow> TrafficPermissionResource ConnectionPolicy" where
  "TrafficPermission_policy r = policy_of r (tp_Sources (Spec r)) (tp_Destinations (Spec r))"

definition TrafficRoute_policy :: "TrafficRouteResource \<Rightarrow> TrafficRouteResource ConnectionPolicy" where
  "TrafficRoute_policy r = policy_of r (tr_Sources (Spec r)) (tr_Destinations (Spec r))"

definition TrafficLog_policy :: "TrafficLogResource \<Rightarrow> TrafficLogResource ConnectionPolicy" where
  "TrafficLog_policy r = policy_of r (tl_Sources (Spec r)) (tl_Destinations (Spec r))"

definition HealthCheck_policy :: "HealthCheckResource \<Rightarrow> HealthCheckResource ConnectionPolicy" where
  "HealthCheck_policy r = policy_of r (hc_Sources (Spec r)) (hc_Destinations (Spec r))"

definition FaultInjection_policy :: "FaultInjectionResource \<Rightarrow> FaultInjectionResource ConnectionPolicy" where
  "FaultInjection_policy r = policy_of r (fi_Sources (Spec r)) (fi_Destinations (Spec r))"

definition TrafficTrace_policy :: "TrafficTraceResource \<Rightarrow> TrafficTraceResource DataplanePolicy" where
  "TrafficTrace_policy r =
     \<lparr>pol_Resource = r, pol_Name = res_name r, pol_CreationTime = res_creation_time r,
      dpp_Selectors = tt_Selectors (Spec r)\<rparr>"

definition ProxyTemplate_policy :: "ProxyTemplateResource \<Rightarrow> ProxyTemplateResource DataplanePolicy" where
  "ProxyTemplate_policy r =
     \<lparr>pol_Resource = r, pol_Name = res_name r, pol_CreationTime = res_creation_time r,
      dpp_Selectors = pt_Selectors (Spec r)\<rparr>"

section \<open>The contract of validated connection policies\<close>

text \<open>
  What the matchers may rely on: a resource that passed its \<open>Validate\<close> method has sources and
  destinations, and none of its selectors is empty.
\<close>

locale validated_connection_policy =
  fixes validate :: "'s Resource \<Rightarrow> go_error option"
    and view :: "'s Resource \<Rightarrow> 's Resource ConnectionPolicy"
  assumes has_selectors: "validate r = None \<Longrightarrow> cp_Sources (view r) \<noteq> [] \<and> cp_Destinations (view r) \<noteq> []"
    and no_empty_selector: "validate r = None \<Longrightarrow> [] \<notin> set (cp_Sources (view r)) \<union> set (cp_Destinations (view r))"
    and view_name: "pol_Name (view r) = res_name r"
    and view_resource: "pol_Resource (view r) = r"
begin

lemma no_empty_destination_views:
  "\<forall>r \<in> set rs. validate r = None \<Longrightarrow> no_empty_destination (map view rs)"
  using no_empty_selector by (fastforce simp: no_empty_destination_def)

lemma select_inbound_chosen:
  assumes "\<forall>r \<in> set rs. validate r = None" and "distinct (map res_name rs)"
    and "GetInboundInterfaces (dp_Networking d) = Inr ifaces" and "distinct ifaces"
  shows "\<exists>m. SelectInboundConnectionPolicies d (map view rs) = Inr m \<and>
    (\<forall>i < length ifaces. \<forall>p.
       map_of m (ifaces ! i) = Some p \<longleftrightarrow> chosen (inbound_ranks (dp_GetInbound d ! i)) (map view rs) p)"
proof (rule SelectInbound_chosen)
  show "distinct (map pol_Name (map view rs))" using assms(2) by (simp add: comp_def view_name)
  show "no_empty_destination (map view rs)" using assms(1) by (rule no_empty_destination_views)
qed (use assms in simp_all)

end

text \<open>
  The routes, logs and health checks further promise that every destination is one \<open>service\<close> tag;
  such a policy applies to a destination service when it names the service or is a wildcard.
\<close>

locale service_destination_policy = validated_connection_policy +
  assumes service_destination: "validate r = None \<Longrightarrow> s \<in> set (cp_Destinations (view r)) \<Longrightarrow>
    \<exists>v. s = [(ServiceTag, v)] \<and> v \<noteq> ''''"
begin

lemma applies_to_service:
  assumes "validate r = None"
  shows "connection_ranks d service (view r) \<noteq> {} \<longleftrightarrow>
    (\<exists>s \<in> set (cp_Sources (view r)). dataplane_Matches (Some d) s) \<and>
    (MatchService service \<in> set (cp_Destinations (view r)) \<or> MatchAnyService \<in> set (cp_Destinations (view r)))"
proof -
  have "Matches t [(ServiceTag, service)] \<longleftrightarrow> t = MatchService service \<or> t = MatchAnyService"
    if "t \<in> set (cp_Destinations (view r))" for t
  proof -
    obtain v where "t = [(ServiceTag, v)]" using service_destination [OF assms \<open>t \<in> _\<close>] by blast
    then show ?thesis by (auto simp: Matches_def tag_matches_def MatchService_def MatchAnyService_def)
  qed
  then have "(\<exists>t \<in> set (cp_Destinations (view r)). Matches t [(ServiceTag, service)]) \<longleftrightarrow>
      MatchService service \<in> set (cp_Destinations (view r)) \<or> MatchAnyService \<in> set (cp_Destinations (view r))"
    by blast
  then show ?thesis
    by (auto simp: connection_ranks_def matching_sources_def matching_destinations_def)
qed

end

text \<open>Selectors accepted with the options of the policies: at least one, and none is empty.\<close>

lemma accepted_selectors:
  assumes "ValidateSelectors p ss opts = []" and "RequireAtLeastOneSelector opts"
    and "RequireAtLeastOneTag (SelectorOpts opts) \<or> RequireService (SelectorOpts opts)"
  shows "ss \<noteq> [] \<and> [] \<notin> set ss"
proof
  show "ss \<noteq> []" using assms by (simp add: ValidateSelectors_Nil)
  show "[] \<notin> set ss"
    using ValidateSelectors_member [OF assms(1)] assms(3) by (fastforce simp: ValidateSelector_Nil)
qed

lemma accepted_service_required:
  "ValidateSelectors p ss service_required = [] \<Longrightarrow> ss \<noteq> [] \<and> [] \<notin> set ss"
  by (erule accepted_selectors) (simp_all add: service_required_def no_opts_def)

lemma accepted_only_service:
  "ValidateSelectors p ss OnlyServiceTagAllowed = [] \<Longrightarrow> ss \<noteq> [] \<and> [] \<notin> set ss"
  by (erule accepted_selectors) (simp_all add: OnlyServiceTagAllowed_def no_opts_def)

lemma accepted_http_required:
  "ValidateSelectors p ss http_required = [] \<Longrightarrow> ss \<noteq> [] \<and> [] \<notin> set ss"
  by (erule accepted_selectors) (simp_all add: http_required_def no_opts_def)

lemma only_service_destination:
  "ValidateSelectors p ss OnlyServiceTagAllowed = [] \<Longrightarrow> s \<in> set ss \<Longrightarrow> \<exists>v. s = [(ServiceTag, v)] \<and> v \<noteq> ''''"
  using ValidateSelectors_member [of p ss OnlyServiceTagAllowed s] OnlyServiceTagAllowed_Nil by blast

lemmas accepted = accepted_service_required accepted_only_service accepted_http_required

interpretation permission: validated_connection_policy TrafficPermission_Validate TrafficPermission_policy
  by unfold_locales
    (auto simp: TrafficPermission_Validate_def TrafficPermission_validateSources_def
      TrafficPermission_validateDestinations_def TrafficPermission_policy_def dest: accepted)

interpretation fault: validated_connection_policy FaultInjection_Validate FaultInjection_policy
  by unfold_locales
    (auto simp: FaultInjection_Validate_def FaultInjection_validateSources_def
      FaultInjection_validateDestinations_def FaultInjection_policy_def dest: accepted)

interpretation route: service_destination_policy TrafficRoute_Validate TrafficRoute_policy
  by unfold_locales
    (auto simp: TrafficRoute_Validate_def TrafficRoute_validateSources_def
      TrafficRoute_validateDestinations_def TrafficRoute_policy_def dest: accepted only_service_destination)

interpretation log: service_destination_policy TrafficLog_Validate TrafficLog_policy
  by unfold_locales
    (auto simp: TrafficLog_Validate_def TrafficLog_validateSources_def
      TrafficLog_validateDestinations_def TrafficLog_policy_def dest: accepted only_service_destination)

interpretation check: service_destination_policy "HealthCheck_Validate ptypes_Duration" HealthCheck_policy
  for ptypes_Duration
  by unfold_locales
    (auto simp: HealthCheck_Validate_def HealthCheck_validateSources_def
      HealthCheck_validateDestinations_def HealthCheck_policy_def dest: accepted only_service_destination)

text \<open>
  A valid traffic route, traffic log or health check applies to connections from a dataplane
  to a service exactly when one of its sources matches the dataplane and one of its destinations
  is the service or the wildcard.
\<close>

theorem validated_policy_scope:
  "(TrafficRoute_Validate r = None \<longrightarrow>
      (connection_ranks d service (TrafficRoute_policy r) \<noteq> {} \<longleftrightarrow>
         (\<exists>s \<in> set (tr_Sources (Spec r)). dataplane_Matches (Some d) s) \<and>
         (MatchService service \<in> set (tr_Destinations (Spec r)) \<or>
          MatchAnyService \<in> set (tr_Destinations (Spec r))))) \<and>
   (TrafficLog_Validate l = None \<longrightarrow>
      (connection_ranks d service (TrafficLog_policy l) \<noteq> {} \<longleftrightarrow>
         (\<exists>s \<in> set (tl_Sources (Spec l)). dataplane_Matches (Some d) s) \<and>
         (MatchService service \<in> set (tl_Destinations (Spec l)) \<or>
          MatchAnyService \<in> set (tl_Destinations (Spec l))))) \<and>
   (HealthCheck_Validate ptypes_Duration h = None \<longrightarrow>
      (connection_ranks d service (HealthCheck_policy h) \<noteq> {} \<longleftrightarrow>
         (\<exists>s \<in> set (hc_Sources (Spec h)). dataplane_Matches (Some d) s) \<and>
         (MatchService service \<in> set (hc_Destinations (Spec h)) \<or>
          MatchAnyService \<in> set (hc_Destinations (Spec h)))))"
  using route.applies_to_service [of r d service] log.applies_to_service [of l d service]
    check.applies_to_service [of ptypes_Duration h d service]
  by (simp add: TrafficRoute_policy_def TrafficLog_policy_def HealthCheck_policy_def)

definition example_route :: TrafficRouteResource where
  "example_route = \<lparr>Meta = None, Spec = \<lparr>tr_Sources = [[(''service'', ''web'')]],
     tr_Destinations = [[(''service'', ''*'')]],
     tr_Conf = [\<lparr>wd_Weight = 1, wd_Destination = [(''service'', ''backend'')]\<rparr>]\<rparr>\<rparr>"

definition example_log :: TrafficLogResource where
  "example_log = \<lparr>Meta = None, Spec = \<lparr>tl_Sources = [[(''service'', ''*'')]],
     tl_Destinations = [[(''service'', ''backend'')]], tl_Conf = None\<rparr>\<rparr>"

definition example_health_check :: HealthCheckResource where
  "example_health_check = \<lparr>Meta = None, Spec = \<lparr>hc_Sources = [[(''service'', ''api'')]],
     hc_Destinations = [[(''service'', ''backend'')]],
     hc_Conf = Some \<lparr>hcc_ActiveChecks = None, hcc_PassiveChecks = Some
       \<lparr>pc_UnhealthyThreshold = 3, pc_PenaltyInterval = Some \<lparr>Seconds = 5, Nanos = 0\<rparr>\<rparr>\<rparr>\<rparr>\<rparr>"

lemma example_policies_valid:
  "TrafficRoute_Validate example_route = None" "TrafficLog_Validate example_log = None"
  "HealthCheck_Validate (\<lambda>d. Some (Seconds d)) example_health_check = None"
  by code_simp+

theorem validated_policy_scope_witness:
  "connection_ranks example_dataplane ''backend'' (TrafficRoute_policy example_route) \<noteq> {} \<and>
   connection_ranks example_dataplane ''backend'' (TrafficLog_policy example_log) \<noteq> {} \<and>
   connection_ranks example_dataplane ''backend'' (HealthCheck_policy example_health_check) = {}"
proof -
  have "\<exists>s \<in> set (tr_Sources (Spec example_route)). dataplane_Matches (Some example_dataplane) s"
    "MatchAnyService \<in> set (tr_Destinations (Spec example_route))"
    "\<exists>s \<in> set (tl_Sources (Spec example_log)). dataplane_Matches (Some example_dataplane) s"
    "MatchService ''backend'' \<in> set (tl_Destinations (Spec example_log))"
    "\<not> (\<exists>s \<in> set (hc_Sources (Spec example_health_check)). dataplane_Matches (Some example_dataplane) s)"
    by code_simp+
  then show ?thesis
    using validated_policy_scope [of example_route example_dataplane "''backend''" example_log
        "\<lambda>d. Some (Seconds d)" example_health_check] example_policies_valid
    by blast
qed

end
