(* ===== verification/Access_Log_Format.thy ===== *)
theory Access_Log_Format
  imports Resource_Model
begin

text \<open>
  Access log format strings: \<open>pkg/envoy/accesslog\<close>, the part that parses a format string into
  fragments (\<open>format_parser.go\<close>), renders fragments back (the \<open>String\<close> methods) and replaces the
  Kuma placeholders (\<open>Interpolate\<close>).  Regular expressions are translated to the recognisers they
  denote.  The main result is that the canonical text of a parsed format parses to the same
  fragments.
\<close>

section \<open>Commands\<close>

definition CMD_REQ :: string where "CMD_REQ = ''REQ''"
definition CMD_RESP :: string where "CMD_RESP = ''RESP''"
definition CMD_TRAILER :: string where "CMD_TRAILER = ''TRAILER''"
definition CMD_DYNAMIC_METADATA :: string where "CMD_DYNAMIC_METADATA = ''DYNAMIC_METADATA''"
definition CMD_FILTER_STATE :: string where "CMD_FILTER_STATE = ''FILTER_STATE''"
definition CMD_START_TIME :: string where "CMD_START_TIME = ''START_TIME''"
definition CMD_BYTES_RECEIVED :: string where "CMD_BYTES_RECEIVED = ''BYTES_RECEIVED''"
definition CMD_BYTES_SENT :: string where "CMD_BYTES_SENT = ''BYTES_SENT''"
definition CMD_PROTOCOL :: string where "CMD_PROTOCOL = ''PROTOCOL''"
definition CMD_RESPONSE_CODE :: string where "CMD_RESPONSE_CODE = ''RESPONSE_CODE''"
definition CMD_RESPONSE_CODE_DETAILS :: string where "CMD_RESPONSE_CODE_DETAILS = ''RESPONSE_CODE_DETAILS''"
definition CMD_REQUEST_DURATION :: string where "CMD_REQUEST_DURATION = ''REQUEST_DURATION''"
definition CMD_RESPONSE_DURATION :: string where "CMD_RESPONSE_DURATION = ''RESPONSE_DURATION''"
definition CMD_RESPONSE_TX_DURATION :: string where "CMD_RESPONSE_TX_DURATION = ''RESPONSE_TX_DURATION''"
definition CMD_DURATION :: string where "CMD_DURATION = ''DURATION''"
definition CMD_RESPONSE_FLAGS :: string where "CMD_RESPONSE_FLAGS = ''RESPONSE_FLAGS''"
definition CMD_UPSTREAM_HOST :: string where "CMD_UPSTREAM_HOST = ''UPSTREAM_HOST''"
definition CMD_UPSTREAM_CLUSTER :: string where "CMD_UPSTREAM_CLUSTER = ''UPSTREAM_CLUSTER''"
definition CMD_UPSTREAM_LOCAL_ADDRESS :: string where "CMD_UPSTREAM_LOCAL_ADDRESS = ''UPSTREAM_LOCAL_ADDRESS''"
definition CMD_DOWNSTREAM_LOCAL_ADDRESS :: string where "CMD_DOWNSTREAM_LOCAL_ADDRESS = ''DOWNSTREAM_LOCAL_ADDRESS''"
definition CMD_DOWNSTREAM_LOCAL_ADDRESS_WITHOUT_PORT :: string where "CMD_DOWNSTREAM_LOCAL_ADDRESS_WITHOUT_PORT = ''DOWNSTREAM_LOCAL_ADDRESS_WITHOUT_PORT''"
definition CMD_DOWNSTREAM_REMOTE_ADDRESS :: string where "CMD_DOWNSTREAM_REMOTE_ADDRESS = ''DOWNSTREAM_REMOTE_ADDRESS''"
definition CMD_DOWNSTREAM_REMOTE_ADDRESS_WITHOUT_PORT :: string where "CMD_DOWNSTREAM_REMOTE_ADDRESS_WITHOUT_PORT = ''DOWNSTREAM_REMOTE_ADDRESS_WITHOUT_PORT''"
definition CMD_DOWNSTREAM_DIRECT_REMOTE_ADDRESS :: string where "CMD_DOWNSTREAM_DIRECT_REMOTE_ADDRESS = ''DOWNSTREAM_DIRECT_REMOTE_ADDRESS''"
definition CMD_DOWNSTREAM_DIRECT_REMOTE_ADDRESS_WITHOUT_PORT :: string where "CMD_DOWNSTREAM_DIRECT_REMOTE_ADDRESS_WITHOUT_PORT = ''DOWNSTREAM_DIRECT_REMOTE_ADDRESS_WITHOUT_PORT''"
definition CMD_REQUESTED_SERVER_NAME :: string where "CMD_REQUESTED_SERVER_NAME = ''REQUESTED_SERVER_NAME''"
definition CMD_ROUTE_NAME :: string where "CMD_ROUTE_NAME = ''ROUTE_NAME''"
definition CMD_DOWNSTREAM_PEER_URI_SAN :: string where "CMD_DOWNSTREAM_PEER_URI_SAN = ''DOWNSTREAM_PEER_URI_SAN''"
definition CMD_DOWNSTREAM_LOCAL_URI_SAN :: string where "CMD_DOWNSTREAM_LOCAL_URI_SAN = ''DOWNSTREAM_LOCAL_URI_SAN''"
definition CMD_DOWNSTREAM_PEER_SUBJECT :: string where "CMD_DOWNSTREAM_PEER_SUBJECT = ''DOWNSTREAM_PEER_SUBJECT''"
definition CMD_DOWNSTREAM_LOCAL_SUBJECT :: string where "CMD_DOWNSTREAM_LOCAL_SUBJECT = ''DOWNSTREAM_LOCAL_SUBJECT''"
definition CMD_DOWNSTREAM_TLS_SESSION_ID :: string where "CMD_DOWNSTREAM_TLS_SESSION_ID = ''DOWNSTREAM_TLS_SESSION_ID''"
definition CMD_DOWNSTREAM_TLS_CIPHER :: string where "CMD_DOWNSTREAM_TLS_CIPHER = ''DOWNSTREAM_TLS_CIPHER''"
definition CMD_DOWNSTREAM_TLS_VERSION :: string where "CMD_DOWNSTREAM_TLS_VERSION = ''DOWNSTREAM_TLS_VERSION''"
definition CMD_UPSTREAM_TRANSPORT_FAILURE_REASON :: string where "CMD_UPSTREAM_TRANSPORT_FAILURE_REASON = ''UPSTREAM_TRANSPORT_FAILURE_REASON''"
definition CMD_DOWNSTREAM_PEER_FINGERPRINT_256 :: string where "CMD_DOWNSTREAM_PEER_FINGERPRINT_256 = ''DOWNSTREAM_PEER_FINGERPRINT_256''"
definition CMD_DOWNSTREAM_PEER_SERIAL :: string where "CMD_DOWNSTREAM_PEER_SERIAL = ''DOWNSTREAM_PEER_SERIAL''"
definition CMD_DOWNSTREAM_PEER_ISSUER :: string where "CMD_DOWNSTREAM_PEER_ISSUER = ''DOWNSTREAM_PEER_ISSUER''"
definition CMD_DOWNSTREAM_PEER_CERT :: string where "CMD_DOWNSTREAM_PEER_CERT = ''DOWNSTREAM_PEER_CERT''"
definition CMD_DOWNSTREAM_PEER_CERT_V_START :: string where "CMD_DOWNSTREAM_PEER_CERT_V_START = ''DOWNSTREAM_PEER_CERT_V_START''"
definition CMD_DOWNSTREAM_PEER_CERT_V_END :: string where "CMD_DOWNSTREAM_PEER_CERT_V_END = ''DOWNSTREAM_PEER_CERT_V_END''"
definition CMD_HOSTNAME :: string where "CMD_HOSTNAME = ''HOSTNAME''"
definition CMD_KUMA_SOURCE_ADDRESS :: string where "CMD_KUMA_SOURCE_ADDRESS = ''KUMA_SOURCE_ADDRESS''"
definition CMD_KUMA_SOURCE_ADDRESS_WITHOUT_PORT :: string where "CMD_KUMA_SOURCE_ADDRESS_WITHOUT_PORT = ''KUMA_SOURCE_ADDRESS_WITHOUT_PORT''"
definition CMD_KUMA_SOURCE_SERVICE :: string where "CMD_KUMA_SOURCE_SERVICE = ''KUMA_SOURCE_SERVICE''"
definition CMD_KUMA_DESTINATION_SERVICE :: string where "CMD_KUMA_DESTINATION_SERVICE = ''KUMA_DESTINATION_SERVICE''"
definition CMD_KUMA_MESH :: string where "CMD_KUMA_MESH = ''KUMA_MESH''"

lemmas command_names =
  CMD_REQ_def
  CMD_RESP_def
  CMD_TRAILER_def
  CMD_DYNAMIC_METADATA_def
  CMD_FILTER_STATE_def
  CMD_START_TIME_def
  CMD_BYTES_RECEIVED_def
  CMD_BYTES_SENT_def
  CMD_PROTOCOL_def
  CMD_RESPONSE_CODE_def
  CMD_RESPONSE_CODE_DETAILS_def
  CMD_REQUEST_DURATION_def
  CMD_RESPONSE_DURATION_def
  CMD_RESPONSE_TX_DURATION_def
  CMD_DURATION_def
  CMD_RESPONSE_FLAGS_def
  CMD_UPSTREAM_HOST_def
  CMD_UPSTREAM_CLUSTER_def
  CMD_UPSTREAM_LOCAL_ADDRESS_def
  CMD_DOWNSTREAM_LOCAL_ADDRESS_def
  CMD_DOWNSTREAM_LOCAL_ADDRESS_WITHOUT_PORT_def
  CMD_DOWNSTREAM_REMOTE_ADDRESS_def
  CMD_DOWNSTREAM_REMOTE_ADDRESS_WITHOUT_PORT_def
  CMD_DOWNSTREAM_DIRECT_REMOTE_ADDRESS_def
  CMD_DOWNSTREAM_DIRECT_REMOTE_ADDRESS_WITHOUT_PORT_def
  CMD_REQUESTED_SERVER_NAME_def
  CMD_ROUTE_NAME_def
  CMD_DOWNSTREAM_PEER_URI_SAN_def
  CMD_DOWNSTREAM_LOCAL_URI_SAN_def
  CMD_DOWNSTREAM_PEER_SUBJECT_def
  CMD_DOWNSTREAM_LOCAL_SUBJECT_def
  CMD_DOWNSTREAM_TLS_SESSION_ID_def
  CMD_DOWNSTREAM_TLS_CIPHER_def
  CMD_DOWNSTREAM_TLS_VERSION_def
  CMD_UPSTREAM_TRANSPORT_FAILURE_REASON_def
  CMD_DOWNSTREAM_PEER_FINGERPRINT_256_def
  CMD_DOWNSTREAM_PEER_SERIAL_def
  CMD_DOWNSTREAM_PEER_ISSUER_def
  CMD_DOWNSTREAM_PEER_CERT_def
  CMD_DOWNSTREAM_PEER_CERT_V_START_def
  CMD_DOWNSTREAM_PEER_CERT_V_END_def
  CMD_HOSTNAME_def
  CMD_KUMA_SOURCE_ADDRESS_def
  CMD_KUMA_SOURCE_ADDRESS_WITHOUT_PORT_def
  CMD_KUMA_SOURCE_SERVICE_def
  CMD_KUMA_DESTINATION_SERVICE_def
  CMD_KUMA_MESH_def

text \<open>\<open>CommandOperatorDescriptor.String\<close>: the cases of its \<open>switch\<close>.\<close>

definition command_descriptors :: "(string \<times> string) list" where
  "command_descriptors =
     [(CMD_REQ, ''%REQ(X?Y):Z%''),
      (CMD_RESP, ''%RESP(X?Y):Z%''),
      (CMD_TRAILER, ''%TRAILER(X?Y):Z%''),
      (CMD_DYNAMIC_METADATA, ''%DYNAMIC_METADATA(NAMESPACE:KEY*):Z%''),
      (CMD_FILTER_STATE, ''%FILTER_STATE(KEY):Z%''),
      (CMD_START_TIME, ''%START_TIME%''),
      (CMD_BYTES_RECEIVED, ''%BYTES_RECEIVED%''),
      (CMD_BYTES_SENT, ''%BYTES_SENT%''),
      (CMD_PROTOCOL, ''%PROTOCOL%''),
      (CMD_RESPONSE_CODE, ''%RESPONSE_CODE%''),
      (CMD_RESPONSE_CODE_DETAILS, ''%RESPONSE_CODE_DETAILS%''),
      (CMD_REQUEST_DURATION, ''%REQUEST_DURATION%''),
      (CMD_RESPONSE_DURATION, ''%RESPONSE_DURATION%''),
      (CMD_RESPONSE_TX_DURATION, ''%RESPONSE_TX_DURATION%''),
      (CMD_DURATION, ''%DURATION%''),
      (CMD_RESPONSE_FLAGS, ''%RESPONSE_FLAGS%''),
      (CMD_UPSTREAM_HOST, ''%UPSTREAM_HOST%''),
      (CMD_UPSTREAM_CLUSTER, ''%UPSTREAM_CLUSTER%''),
      (CMD_UPSTREAM_LOCAL_ADDRESS, ''%UPSTREAM_LOCAL_ADDRESS%''),
      (CMD_DOWNSTREAM_LOCAL_ADDRESS, ''%DOWNSTREAM_LOCAL_ADDRESS%''),
      (CMD_DOWNSTREAM_LOCAL_ADDRESS_WITHOUT_PORT, ''%DOWNSTREAM_LOCAL_ADDRESS_WITHOUT_PORT%''),
      (CMD_DOWNSTREAM_REMOTE_ADDRESS, ''%DOWNSTREAM_REMOTE_ADDRESS%''),
      (CMD_DOWNSTREAM_REMOTE_ADDRESS_WITHOUT_PORT, ''%DOWNSTREAM_REMOTE_ADDRESS_WITHOUT_PORT%''),
      (CMD_DOWNSTREAM_DIRECT_REMOTE_ADDRESS, ''%DOWNSTREAM_DIRECT_REMOTE_ADDRESS%''),
      (CMD_DOWNSTREAM_DIRECT_REMOTE_ADDRESS_WITHOUT_PORT, ''%DOWNSTREAM_DIRECT_REMOTE_ADDRESS_WITHOUT_PORT%''),
      (CMD_REQUESTED_SERVER_NAME, ''%REQUESTED_SERVER_NAME%''),
      (CMD_ROUTE_NAME, ''%ROUTE_NAME%''),
      (CMD_DOWNSTREAM_PEER_URI_SAN, ''%DOWNSTREAM_PEER_URI_SAN%''),
      (CMD_DOWNSTREAM_LOCAL_URI_SAN, ''%DOWNSTREAM_LOCAL_URI_SAN%''),
      (CMD_DOWNSTREAM_PEER_SUBJECT, ''%DOWNSTREAM_PEER_SUBJECT%''),
      (CMD_DOWNSTREAM_LOCAL_SUBJECT, ''%DOWNSTREAM_LOCAL_SUBJECT%''),
      (CMD_DOWNSTREAM_TLS_SESSION_ID, ''%DOWNSTREAM_TLS_SESSION_ID%''),
      (CMD_DOWNSTREAM_TLS_CIPHER, ''%DOWNSTREAM_TLS_CIPHER%''),
      (CMD_DOWNSTREAM_TLS_VERSION, ''%DOWNSTREAM_TLS_VERSION%''),
      (CMD_UPSTREAM_TRANSPORT_FAILURE_REASON, ''%UPSTREAM_TRANSPORT_FAILURE_REASON%''),
      (CMD_DOWNSTREAM_PEER_FINGERPRINT_256, ''%DOWNSTREAM_PEER_FINGERPRINT_256%''),
      (CMD_DOWNSTREAM_PEER_SERIAL, ''%DOWNSTREAM_PEER_SERIAL%''),
      (CMD_DOWNSTREAM_PEER_ISSUER, ''%DOWNSTREAM_PEER_ISSUER%''),
      (CMD_DOWNSTREAM_PEER_CERT, ''%DOWNSTREAM_PEER_CERT%''),
      (CMD_DOWNSTREAM_PEER_CERT_V_START, ''%DOWNSTREAM_PEER_CERT_V_START%''),
      (CMD_DOWNSTREAM_PEER_CERT_V_END, ''%DOWNSTREAM_PEER_CERT_V_END%''),
      (CMD_HOSTNAME, ''%HOSTNAME%''),
      (CMD_KUMA_SOURCE_ADDRESS, ''%KUMA_SOURCE_ADDRESS%''),
      (CMD_KUMA_SOURCE_ADDRESS_WITHOUT_PORT, ''%KUMA_SOURCE_ADDRESS_WITHOUT_PORT%''),
      (CMD_KUMA_SOURCE_SERVICE, ''%KUMA_SOURCE_SERVICE%''),
      (CMD_KUMA_DESTINATION_SERVICE, ''%KUMA_DESTINATION_SERVICE%''),
      (CMD_KUMA_MESH, ''%KUMA_MESH%'')]"

definition CommandOperatorDescriptor_String :: "string \<Rightarrow> string" where
  "CommandOperatorDescriptor_String c =
     (case map_of command_descriptors c of Some s \<Rightarrow> s | None \<Rightarrow> ''%'' @ c @ ''%'')"

definition IsPlaceholder :: "string \<Rightarrow> bool" where
  "IsPlaceholder c = (take 5 c = ''KUMA_'')"

section \<open>Fragments\<close>

record HeaderFormatter =
  hf_Header :: string
  hf_AltHeader :: string
  hf_MaxLength :: int

datatype AccessLogFragment =
    TextSpan string
  | Placeholder string
  | FieldOperator string
  | StartTimeOperator string
  | RequestHeaderOperator HeaderFormatter
  | ResponseHeaderOperator HeaderFormatter
  | ResponseTrailerOperator HeaderFormatter
  | DynamicMetadataOperator string "string list" int
  | FilterStateOperator string int

type_synonym AccessLogFormat = "AccessLogFragment list"

text \<open>The optional suffix \<open>:Z\<close> that three of the \<open>String\<close> methods append.\<close>

definition max_length_suffix :: "int \<Rightarrow> string list" where
  "max_length_suffix maxLength = (if maxLength \<noteq> 0 then ['':'', format_int maxLength] else [])"

definition HeaderFormatter_String :: "HeaderFormatter \<Rightarrow> string" where
  "HeaderFormatter_String f =
     strings_join ''''
       ([''('']
        @ (if hf_Header f \<noteq> '''' \<or> hf_AltHeader f \<noteq> ''''
           then hf_Header f # (if hf_AltHeader f \<noteq> '''' then [''?'', hf_AltHeader f] else [])
           else [])
        @ ['')'']
        @ max_length_suffix (hf_MaxLength f))"

definition DynamicMetadataOperator_String :: "string \<Rightarrow> string list \<Rightarrow> int \<Rightarrow> string" where
  "DynamicMetadataOperator_String namespace path maxLength =
     strings_join ''''
       ([''%DYNAMIC_METADATA('', namespace]
        @ (if length path > 0 then concat (map (\<lambda>segment. ['':'', segment]) path) else [])
        @ ['')''] @ max_length_suffix maxLength @ [''%''])"

definition FilterStateOperator_String :: "string \<Rightarrow> int \<Rightarrow> string" where
  "FilterStateOperator_String key maxLength =
     strings_join '''' ([''%FILTER_STATE('', key, '')''] @ max_length_suffix maxLength @ [''%''])"

definition StartTimeOperator_String :: "string \<Rightarrow> string" where
  "StartTimeOperator_String f =
     (if f = '''' then CommandOperatorDescriptor_String CMD_START_TIME
      else ''%START_TIME('' @ f @ '')%'')"

fun fragment_String :: "AccessLogFragment \<Rightarrow> string" where
  "fragment_String (TextSpan f) = f"
| "fragment_String (Placeholder f) = CommandOperatorDescriptor_String f"
| "fragment_String (FieldOperator f) = CommandOperatorDescriptor_String f"
| "fragment_String (StartTimeOperator f) = StartTimeOperator_String f"
| "fragment_String (RequestHeaderOperator f) = ''%REQ'' @ HeaderFormatter_String f @ ''%''"
| "fragment_String (ResponseHeaderOperator f) = ''%RESP'' @ HeaderFormatter_String f @ ''%''"
| "fragment_String (ResponseTrailerOperator f) = ''%TRAILER'' @ HeaderFormatter_String f @ ''%''"
| "fragment_String (DynamicMetadataOperator namespace path maxLength) =
     DynamicMetadataOperator_String namespace path maxLength"
| "fragment_String (FilterStateOperator key maxLength) = FilterStateOperator_String key maxLength"

definition AccessLogFormat_String :: "AccessLogFormat \<Rightarrow> string" where
  "AccessLogFormat_String f = strings_join '''' (map fragment_String f)"

section \<open>Interpolation\<close>

definition variables_Get :: "(string, string) gomap \<Rightarrow> string \<Rightarrow> string" where
  "variables_Get m variable = gstr m variable"

definition Placeholder_Interpolate :: "(string, string) gomap \<Rightarrow> string \<Rightarrow> AccessLogFragment" where
  "Placeholder_Interpolate variables f = (let value = variables_Get variables f in TextSpan value)"

text \<open>Only \<open>Placeholder\<close> implements \<open>AccessLogFragmentInterpolator\<close>.\<close>

fun interpolate_fragment :: "(string, string) gomap \<Rightarrow> AccessLogFragment \<Rightarrow> AccessLogFragment" where
  "interpolate_fragment variables (Placeholder f) = Placeholder_Interpolate variables f"
| "interpolate_fragment variables fragment = fragment"

definition Interpolate :: "(string, string) gomap \<Rightarrow> AccessLogFormat \<Rightarrow> AccessLogFormat" where
  "Interpolate variables f =
     (let newFragments = map (interpolate_fragment variables) f;
          interpolated = list_ex (\<lambda>fragment. interpolate_fragment variables fragment \<noteq> fragment) f
      in if interpolated then newFragments else f)"

section \<open>Regular expressions\<close>

text \<open>The character class \<open>[A-Z_0-9]\<close>.\<close>

definition is_command_char :: "char \<Rightarrow> bool" where
  "is_command_char c =
     (let n = (of_char c :: nat) in 65 \<le> n \<and> n \<le> 90 \<or> n = 95 \<or> 48 \<le> n \<and> n \<le> 57)"

definition match_args :: "string \<Rightarrow> string \<times> string" where
  "match_args t =
     (case t of
        c # u \<Rightarrow>
          if c = CHR ''('' then
            (case index_byte (CHR '')'') u of
               Some i \<Rightarrow> (take i u, drop (Suc i) u)
             | None \<Rightarrow> ('''', t))
          else ('''', t)
      | [] \<Rightarrow> ('''', t))"

definition match_limit :: "string \<Rightarrow> string \<times> string" where
  "match_limit t =
     (case t of
        c # u \<Rightarrow>
          if c = CHR '':'' \<and> takeWhile is_digit u \<noteq> [] then (takeWhile is_digit u, dropWhile is_digit u)
          else ('''', t)
      | [] \<Rightarrow> ('''', t))"

text \<open>
  \<open>commandWithArgsRE.FindStringSubmatch\<close>: the token, the command, the arguments and the limit.
  What may follow each part of the expression is not a character of that part, so the greedy
  match is the only one.
\<close>

definition match_command :: "string \<Rightarrow> (string \<times> string \<times> string \<times> string) option" where
  "match_command tail =
     (case tail of
        [] \<Rightarrow> None
      | c # t \<Rightarrow>
          if c \<noteq> CHR ''%'' \<or> takeWhile is_command_char t = [] then None
          else
            (let command = takeWhile is_command_char t;
                 (args, t2) = match_args (dropWhile is_command_char t);
                 (limit, t3) = match_limit t2
             in case t3 of
                  [] \<Rightarrow> None
                | c' # rest \<Rightarrow>
                    if c' = CHR ''%''
                    then Some (take (length tail - length rest) tail, command, args, limit)
                    else None))"

text \<open>\<open>newlineRE.MatchString\<close>.\<close>

definition newlineRE_matches :: "string \<Rightarrow> bool" where
  "newlineRE_matches s = list_ex (\<lambda>c. c \<in> {CHR 0x00, CHR 13, CHR 10}) s"

text \<open>\<open>startTimeNewlineRE.MatchString\<close>: \<open>%[-_0^#]*[1-9]*n\<close> anywhere in the text.\<close>

definition start_time_newline_here :: "string \<Rightarrow> bool" where
  "start_time_newline_here s =
     (case s of
        [] \<Rightarrow> False
      | c # t \<Rightarrow>
          c = CHR ''%'' \<and>
          (let t1 = dropWhile (\<lambda>c. c \<in> {CHR ''-'', CHR ''_'', CHR ''0'', CHR ''^'', CHR ''#''}) t;
               t2 = dropWhile (\<lambda>c. is_digit c \<and> c \<noteq> CHR ''0'') t1
           in case t2 of [] \<Rightarrow> False | c' # _ \<Rightarrow> c' = CHR ''n''))"

fun startTimeNewlineRE_matches :: "string \<Rightarrow> bool" where
  "startTimeNewlineRE_matches [] = False"
| "startTimeNewlineRE_matches (c # cs) =
     (start_time_newline_here (c # cs) \<or> startTimeNewlineRE_matches cs)"

section \<open>Parser\<close>

text \<open>The text of a token between its percent signs.\<close>

definition token_body :: "string \<Rightarrow> string" where
  "token_body token = drop 1 (take (length token - 1) token)"

definition hasNoArguments :: "string \<Rightarrow> string \<Rightarrow> string \<Rightarrow> string \<Rightarrow> bool" where
  "hasNoArguments token command args limit \<longleftrightarrow>
     args = '''' \<and>
     ((limit = '''' \<and> token_body token = command) \<or>
      (limit \<noteq> '''' \<and> drop 1 (take (length token - 1 - (length limit + 1)) token) = command))"

definition parseOperator ::
  "string \<Rightarrow> string \<Rightarrow> string \<Rightarrow> char option \<Rightarrow> go_error + string \<times> string list \<times> int" where
  "parseOperator token args limit separator =
     bindE (if limit \<noteq> ''''
            then (case atoi limit of
                    Inl _ \<Rightarrow> Inl (ErrString (''length must be an integer, instead got '' @ quote limit @
                                '' in '' @ quote token))
                  | Inr n \<Rightarrow> Inr n)
            else Inr 0)
       (\<lambda>maxLen.
          case separator of
            Some sep \<Rightarrow>
              (let allArgs = strings_split sep args in Inr (hd allArgs, tl allArgs, maxLen))
          | None \<Rightarrow> Inr (args, [], maxLen))"

definition parseHeaderOperator ::
  "string \<Rightarrow> string \<Rightarrow> string \<Rightarrow> string \<Rightarrow> go_error + HeaderFormatter" where
  "parseHeaderOperator token command args limit =
     (if hasNoArguments token command args limit
      then Inl (ErrString (''command '' @ quote (CommandOperatorDescriptor_String command) @
             '' requires a header and optional alternative header names as its arguments, instead got '' @
             quote token))
      else bindE (parseOperator token args limit (Some (CHR ''?'')))
        (\<lambda>(header, altHeaders, maxLen).
           if length altHeaders > 1
           then Inl (ErrString (''more than 1 alternative header specified in '' @ quote token))
           else
             (let altHeader = (if length altHeaders > 0 then hd altHeaders else '''') in
              if newlineRE_matches header \<or> newlineRE_matches altHeader
              then Inl (ErrString (''header name contains a newline in '' @ quote token))
              else Inr \<lparr>hf_Header = to_lower header, hf_AltHeader = to_lower altHeader,
                        hf_MaxLength = maxLen\<rparr>)))"

definition parseDynamicMetadataOperator ::
  "string \<Rightarrow> string \<Rightarrow> string \<Rightarrow> string \<Rightarrow> go_error + string \<times> string list \<times> int" where
  "parseDynamicMetadataOperator token command args limit =
     bindE (parseOperator token args limit (Some (CHR '':'')))
       (\<lambda>(namespace, path, maxLen).
          if hasNoArguments token command args limit
          then Inl (ErrString (''command '' @ quote (CommandOperatorDescriptor_String command) @
                 '' requires a filter namespace and optional path as its arguments, instead got '' @
                 quote token))
          else Inr (namespace, path, maxLen))"

definition parseFilterStateOperator ::
  "string \<Rightarrow> string \<Rightarrow> string \<Rightarrow> string \<Rightarrow> go_error + string \<times> int" where
  "parseFilterStateOperator token command args limit =
     bindE (parseOperator token args limit None)
       (\<lambda>(key, _, maxLen).
          if hasNoArguments token command args limit \<or> key = ''''
          then Inl (ErrString (''command '' @ quote (CommandOperatorDescriptor_String command) @
                 '' requires a key as its argument, instead got '' @ quote token))
          else Inr (key, maxLen))"

definition parseStartTimeOperator :: "string \<Rightarrow> string \<Rightarrow> go_error + string" where
  "parseStartTimeOperator token args =
     (if startTimeNewlineRE_matches args
      then Inl (ErrString (''start time format string contains a newline in '' @ quote token))
      else Inr args)"

definition parseFieldOperator :: "string \<Rightarrow> string \<Rightarrow> go_error + string" where
  "parseFieldOperator token command =
     (if token_body token \<noteq> command
      then Inl (ErrString (''command '' @ quote (CommandOperatorDescriptor_String command) @
             CHR '' '' # ''doesn'' @ [CHR 39] @ ''t support arguments or max length constraint, instead got '' @
             quote token))
      else Inr command)"

definition parseCommandOperator ::
  "string \<Rightarrow> string \<Rightarrow> string \<Rightarrow> string \<Rightarrow> go_error + AccessLogFragment" where
  "parseCommandOperator token command args limit =
     (if command = CMD_REQ then
        bindE (parseHeaderOperator token command args limit) (\<lambda>h. Inr (RequestHeaderOperator h))
      else if command = CMD_RESP then
        bindE (parseHeaderOperator token command args limit) (\<lambda>h. Inr (ResponseHeaderOperator h))
      else if command = CMD_TRAILER then
        bindE (parseHeaderOperator token command args limit) (\<lambda>h. Inr (ResponseTrailerOperator h))
      else if command = CMD_DYNAMIC_METADATA then
        bindE (parseDynamicMetadataOperator token command args limit)
          (\<lambda>(namespace, path, maxLen). Inr (DynamicMetadataOperator namespace path maxLen))
      else if command = CMD_FILTER_STATE then
        bindE (parseFilterStateOperator token command args limit)
          (\<lambda>(key, maxLen). Inr (FilterStateOperator key maxLen))
      else if command = CMD_START_TIME then
        bindE (parseStartTimeOperator token args) (\<lambda>format. Inr (StartTimeOperator format))
      else
        bindE (parseFieldOperator token command)
          (\<lambda>field. Inr (if IsPlaceholder field then Placeholder field else FieldOperator field)))"

definition flush_text :: "string \<Rightarrow> nat option \<Rightarrow> nat \<Rightarrow> AccessLogFragment list" where
  "flush_text format textLiteralStart pos =
     (case textLiteralStart of None \<Rightarrow> [] | Some start \<Rightarrow> [TextSpan (drop start (take pos format))])"

lemma match_args_length: "length (snd (match_args t)) \<le> length t"
  by (auto simp: match_args_def split: list.split option.split)

lemma match_limit_length: "length (snd (match_limit t)) \<le> length t"
  by (auto simp: match_limit_def intro: le_SucI length_dropWhile_le split: list.split)

lemma match_command_token: "match_command tail = Some (token, x) \<Longrightarrow> 1 \<le> length token"
proof -
  assume m: "match_command tail = Some (token, x)"
  then obtain c t where tail: "tail = c # t" by (cases tail) (auto simp: match_command_def)
  let ?t1 = "dropWhile is_command_char t"
  let ?t2 = "snd (match_args ?t1)"
  obtain rest where rest: "snd (match_limit ?t2) = CHR ''%'' # rest"
    and token: "token = take (length tail - length rest) tail"
    using m tail
    by (auto simp: match_command_def Let_def case_prod_unfold split: if_splits list.splits)
  have "Suc (length rest) \<le> length ?t2" using match_limit_length [of ?t2] rest by simp
  also have "\<dots> \<le> length ?t1" by (rule match_args_length)
  also have "\<dots> \<le> length t" by (rule length_dropWhile_le)
  finally show ?thesis using tail token by simp
qed

text \<open>The loop of \<open>formatParser.Parse\<close>; \<open>None\<close> is the value \<open>-1\<close> of \<open>textLiteralStart\<close>.\<close>

function parse_loop ::
  "string \<Rightarrow> nat \<Rightarrow> nat option \<Rightarrow> AccessLogFragment list \<Rightarrow> go_error + AccessLogFragment list" where
  "parse_loop format pos textLiteralStart fragments =
     (if pos < length format then
        if format ! pos = CHR ''%'' then
          (let fragments = fragments @ flush_text format textLiteralStart pos;
               tail = drop pos format
           in case match_command tail of
                None \<Rightarrow>
                  Inl (ErrString (''expected a command operator to start at position '' @
                    format_nat (pos + 1) @ '', instead got: '' @ quote tail))
              | Some (token, command, args, limit) \<Rightarrow>
                  bindE (parseCommandOperator token command args limit)
                    (\<lambda>operator. parse_loop format (pos + length token) None (fragments @ [operator])))
        else
          parse_loop format (pos + 1)
            (case textLiteralStart of None \<Rightarrow> Some pos | Some start \<Rightarrow> Some start) fragments
      else Inr (fragments @ flush_text format textLiteralStart (length format)))"
  by pat_completeness auto
termination
  by (relation "measure (\<lambda>(format, pos, _). length format - pos)")
    (auto dest: match_command_token)

declare parse_loop.simps [simp del]

definition ParseFormat :: "string \<Rightarrow> go_error + AccessLogFormat" where
  "ParseFormat format = wrap_err (parse_loop format 0 None []) ''format string is not valid''"

definition ValidateFormat :: "string \<Rightarrow> go_error option" where
  "ValidateFormat format = (case ParseFormat format of Inl e \<Rightarrow> Some e | Inr _ \<Rightarrow> None)"

section \<open>Commands as they are printed and matched\<close>

definition print_command :: "string \<Rightarrow> string option \<Rightarrow> string option \<Rightarrow> string" where
  "print_command command args limit =
     ''%'' @ command @
     (case args of None \<Rightarrow> [] | Some a \<Rightarrow> ''('' @ a @ '')'') @
     (case limit of None \<Rightarrow> [] | Some d \<Rightarrow> '':'' @ d) @ ''%''"

definition well_formed_command :: "string \<Rightarrow> string option \<Rightarrow> string option \<Rightarrow> bool" where
  "well_formed_command command args limit \<longleftrightarrow>
     command \<noteq> [] \<and> list_all is_command_char command \<and>
     (\<forall>a. args = Some a \<longrightarrow> CHR '')'' \<notin> set a) \<and>
     (\<forall>d. limit = Some d \<longrightarrow> d \<noteq> [] \<and> list_all is_digit d)"

definition or_empty :: "string option \<Rightarrow> string" where
  "or_empty x = (case x of None \<Rightarrow> '''' | Some s \<Rightarrow> s)"

lemma takeWhile_then:
  "list_all P xs \<Longrightarrow> \<not> P y \<Longrightarrow> takeWhile P (xs @ y # ys) = xs \<and> dropWhile P (xs @ y # ys) = y # ys"
  by (induction xs) auto

lemma not_command_char [simp]:
  "\<not> is_command_char (CHR ''%'')" "\<not> is_command_char (CHR ''('')" "\<not> is_command_char (CHR '':'')"
  by (simp_all add: is_command_char_def)

lemma not_digit_percent [simp]: "\<not> is_digit (CHR ''%'')"
  by (simp add: is_digit_def)

lemma match_args_print:
  assumes "\<And>a. args = Some a \<Longrightarrow> CHR '')'' \<notin> set a" and "rest \<noteq> []" "hd rest \<noteq> CHR ''(''"
  shows "match_args ((case args of None \<Rightarrow> [] | Some a \<Rightarrow> ''('' @ a @ '')'') @ rest) = (or_empty args, rest)"
  using assms by (cases args; cases rest) (auto simp: match_args_def or_empty_def index_byte_append_notin)

lemma match_limit_print:
  assumes "\<And>d. limit = Some d \<Longrightarrow> d \<noteq> [] \<and> list_all is_digit d"
  shows "match_limit ((case limit of None \<Rightarrow> [] | Some d \<Rightarrow> '':'' @ d) @ CHR ''%'' # rest) =
    (or_empty limit, CHR ''%'' # rest)"
proof (cases limit)
  case None
  then show ?thesis by (simp add: match_limit_def or_empty_def)
next
  case (Some d)
  then show ?thesis
    using assms takeWhile_then [of is_digit d "CHR ''%''" rest] by (simp add: match_limit_def or_empty_def)
qed

lemma match_print_command:
  assumes "well_formed_command command args limit"
  shows "match_command (print_command command args limit @ rest) =
    Some (print_command command args limit, command, or_empty args, or_empty limit)"
proof -
  let ?l = "(case limit of None \<Rightarrow> [] | Some d \<Rightarrow> '':'' @ d) @ CHR ''%'' # rest"
  let ?a = "(case args of None \<Rightarrow> [] | Some a \<Rightarrow> ''('' @ a @ '')'') @ ?l"
  have eq: "print_command command args limit @ rest = CHR ''%'' # command @ ?a"
    by (simp add: print_command_def)
  obtain y ys where a: "?a = y # ys" "\<not> is_command_char y"
    by (cases args; cases limit) auto
  have cmd: "takeWhile is_command_char (command @ ?a) = command"
    "dropWhile is_command_char (command @ ?a) = ?a"
    using takeWhile_then [of is_command_char command y ys] a assms
    by (auto simp: well_formed_command_def)
  have l: "?l \<noteq> []" "hd ?l \<noteq> CHR ''(''" by (cases limit; simp)+
  have ma: "match_args ?a = (or_empty args, ?l)"
    using assms l by (intro match_args_print) (auto simp: well_formed_command_def)
  have ml: "match_limit ?l = (or_empty limit, CHR ''%'' # rest)"
    using assms by (intro match_limit_print) (auto simp: well_formed_command_def)
  have "take (length (print_command command args limit @ rest) - length rest)
      (print_command command args limit @ rest) = print_command command args limit"
    by simp
  then show ?thesis
    unfolding eq using cmd assms ma ml
    by (simp add: match_command_def well_formed_command_def)
qed

lemma match_args_inv:
  assumes "match_args t = (args, rest)"
  shows "\<exists>a. t = (case a of None \<Rightarrow> [] | Some a \<Rightarrow> ''('' @ a @ '')'') @ rest \<and> args = or_empty a \<and>
    (\<forall>x. a = Some x \<longrightarrow> CHR '')'' \<notin> set x)"
proof (cases "t \<noteq> [] \<and> hd t = CHR ''('' \<and> index_byte (CHR '')'') (tl t) \<noteq> None")
  case True
  then obtain u i where t: "t = CHR ''('' # u" and i: "index_byte (CHR '')'') u = Some i"
    by (cases t) auto
  then have "args = take i u" "rest = drop (Suc i) u" using assms by (auto simp: match_args_def)
  moreover note index_byte_Some [OF i]
  ultimately show ?thesis
    using t by (intro exI [of _ "Some args"]) (auto simp: or_empty_def)
next
  case False
  then have "args = [] \<and> rest = t"
    using assms by (cases t) (auto simp: match_args_def split: if_splits)
  then show ?thesis by (intro exI [of _ None]) (simp add: or_empty_def)
qed

lemma match_limit_inv:
  assumes "match_limit t = (limit, rest)"
  shows "\<exists>d. t = (case d of None \<Rightarrow> [] | Some d \<Rightarrow> '':'' @ d) @ rest \<and> limit = or_empty d \<and>
    (\<forall>x. d = Some x \<longrightarrow> x \<noteq> [] \<and> list_all is_digit x)"
proof (cases "t \<noteq> [] \<and> hd t = CHR '':'' \<and> takeWhile is_digit (tl t) \<noteq> []")
  case True
  then obtain u where t: "t = CHR '':'' # u" and ne: "takeWhile is_digit u \<noteq> []"
    by (cases t) auto
  then have "limit = takeWhile is_digit u" "rest = dropWhile is_digit u"
    using assms by (auto simp: match_limit_def)
  moreover have "list_all is_digit (takeWhile is_digit u)"
    by (auto simp: list_all_iff dest: set_takeWhileD)
  ultimately show ?thesis
    using t ne by (intro exI [of _ "Some limit"]) (simp add: or_empty_def)
next
  case False
  then have "limit = [] \<and> rest = t"
    using assms by (cases t) (auto simp: match_limit_def split: if_splits)
  then show ?thesis by (intro exI [of _ None]) (simp add: or_empty_def)
qed

lemma match_command_inv:
  assumes "match_command tail = Some (token, command, args, limit)"
  shows "\<exists>a d rest. tail = token @ rest \<and> token = print_command command a d \<and>
    well_formed_command command a d \<and> args = or_empty a \<and> limit = or_empty d"
proof -
  obtain t where tail: "tail = CHR ''%'' # t" and cmd: "command = takeWhile is_command_char t" "command \<noteq> []"
    using assms by (cases tail) (auto simp: match_command_def Let_def case_prod_unfold split: if_splits list.splits)
  let ?t1 = "dropWhile is_command_char t"
  obtain args' t2 where args': "match_args ?t1 = (args', t2)" by fastforce
  obtain limit' t3 where limit': "match_limit t2 = (limit', t3)" by fastforce
  have "args = args'" "limit = limit'"
    using assms tail args' limit'
    by (auto simp: match_command_def Let_def split: if_splits list.splits)
  with args' limit' have args: "match_args ?t1 = (args, t2)" and limit: "match_limit t2 = (limit, t3)"
    by simp_all
  obtain rest where t3: "t3 = CHR ''%'' # rest" and token: "token = take (length tail - length rest) tail"
    using assms tail args limit cmd
    by (auto simp: match_command_def Let_def split: if_splits list.splits)
  obtain a where a: "?t1 = (case a of None \<Rightarrow> [] | Some a \<Rightarrow> ''('' @ a @ '')'') @ t2" "args = or_empty a"
      "\<forall>x. a = Some x \<longrightarrow> CHR '')'' \<notin> set x"
    using match_args_inv [OF args] by blast
  obtain d where d: "t2 = (case d of None \<Rightarrow> [] | Some d \<Rightarrow> '':'' @ d) @ t3" "limit = or_empty d"
      "\<forall>x. d = Some x \<longrightarrow> x \<noteq> [] \<and> list_all is_digit x"
    using match_limit_inv [OF limit] by blast
  have "t = command @ ?t1" using cmd(1) by simp
  then have split: "tail = print_command command a d @ rest"
    using tail a(1) d(1) t3 by (simp add: print_command_def)
  then have "token = print_command command a d" using token by simp
  moreover have "well_formed_command command a d"
    using cmd a(3) d(3) by (auto simp: well_formed_command_def list_all_iff dest: set_takeWhileD)
  ultimately show ?thesis using split a(2) d(2) by blast
qed

section \<open>Operators parse back from their text\<close>

lemma token_body_print:
  "token_body (print_command c a d) =
     c @ (case a of None \<Rightarrow> [] | Some a \<Rightarrow> ''('' @ a @ '')'') @ (case d of None \<Rightarrow> [] | Some d \<Rightarrow> '':'' @ d)"
  by (simp add: token_body_def print_command_def)

lemma or_empty_eq [simp]: "or_empty None = ''''" "or_empty (Some s) = s"
  by (simp_all add: or_empty_def)

lemma hasNoArguments_print:
  assumes "well_formed_command c a d"
  shows "hasNoArguments (print_command c a d) c (or_empty a) (or_empty d) \<longleftrightarrow> a = None"
proof (cases d)
  case None
  then show ?thesis by (cases a) (auto simp: hasNoArguments_def token_body_print)
next
  case (Some l)
  then have l: "l \<noteq> []" using assms by (simp add: well_formed_command_def)
  let ?x = "(case a of None \<Rightarrow> [] | Some a \<Rightarrow> ''('' @ a @ '')'')"
  have "print_command c a d = (''%'' @ c @ ?x) @ '':'' @ l @ ''%''"
    using Some by (simp add: print_command_def)
  then have "drop 1 (take (length (print_command c a d) - 1 - (length l + 1)) (print_command c a d)) = c @ ?x"
    by simp
  then show ?thesis using Some l by (cases a) (simp_all add: hasNoArguments_def)
qed

text \<open>The limit that is printed for a maximal length.\<close>

definition limit_of :: "int \<Rightarrow> string option" where
  "limit_of maxLen = (if maxLen = 0 then None else Some (format_nat (nat maxLen)))"

lemma max_length_suffix_print:
  "0 \<le> m \<Longrightarrow> concat (max_length_suffix m) = (case limit_of m of None \<Rightarrow> [] | Some d \<Rightarrow> '':'' @ d)"
  by (simp add: max_length_suffix_def limit_of_def format_int_def)

lemma limit_of_digits: "limit_of m = Some d \<Longrightarrow> d \<noteq> [] \<and> list_all is_digit d"
  by (auto simp: limit_of_def split: if_splits)

definition split_args :: "char option \<Rightarrow> string \<Rightarrow> string \<times> string list" where
  "split_args sep args =
     (case sep of Some c \<Rightarrow> (hd (strings_split c args), tl (strings_split c args)) | None \<Rightarrow> (args, []))"

lemma parseOperator_Inr:
  assumes "\<forall>x. d = Some x \<longrightarrow> x \<noteq> [] \<and> list_all is_digit x"
    and "parseOperator token args (or_empty d) sep = Inr (f, os, m)"
  shows "0 \<le> m \<and> m < 2 ^ 63 \<and> split_args sep args = (f, os)"
proof (cases d)
  case None
  then show ?thesis
    using assms(2) by (cases sep) (auto simp: parseOperator_def split_args_def Let_def)
next
  case (Some x)
  then have x: "x \<noteq> []" "list_all is_digit x" using assms(1) by auto
  with Some assms(2) have "atoi x = Inr m \<and> split_args sep args = (f, os)"
    by (cases sep) (auto simp: parseOperator_def split_args_def Let_def bindE_Inr split: sum.splits)
  then show ?thesis using atoi_digits_bound [OF x] by blast
qed

lemma parseOperator_limit_of:
  assumes "0 \<le> m" "m < 2 ^ 63"
  shows "parseOperator token args (or_empty (limit_of m)) sep =
    (case split_args sep args of (f, os) \<Rightarrow> Inr (f, os, m))"
proof -
  have "nat m < 2 ^ 63" using assms by (simp add: nat_less_iff)
  then have "atoi (format_nat (nat m)) = Inr m" using assms(1) atoi_format_nat [of "nat m"] by simp
  then show ?thesis
    by (cases sep) (simp_all add: parseOperator_def limit_of_def split_args_def Let_def)
qed

definition reparses :: "AccessLogFragment \<Rightarrow> bool" where
  "reparses op \<longleftrightarrow>
     (\<exists>c a d. fragment_String op = print_command c a d \<and> well_formed_command c a d \<and>
        parseCommandOperator (print_command c a d) c (or_empty a) (or_empty d) = Inr op)"

lemma reparsesI:
  "fragment_String op = print_command c a d \<Longrightarrow> well_formed_command c a d \<Longrightarrow>
     parseCommandOperator (print_command c a d) c (or_empty a) (or_empty d) = Inr op \<Longrightarrow> reparses op"
  unfolding reparses_def by blast

definition header_args :: "HeaderFormatter \<Rightarrow> string" where
  "header_args h = hf_Header h @ (if hf_AltHeader h \<noteq> '''' then ''?'' @ hf_AltHeader h else '''')"

lemma HeaderFormatter_String_print:
  assumes "0 \<le> hf_MaxLength h"
  shows "''%'' @ c @ HeaderFormatter_String h @ ''%'' =
    print_command c (Some (header_args h)) (limit_of (hf_MaxLength h))"
  using max_length_suffix_print [OF assms]
  by (auto simp: HeaderFormatter_String_def print_command_def header_args_def strings_join_empty)

text \<open>What \<open>parseHeaderOperator\<close> guarantees of the formatter it returns.\<close>

definition header_ok :: "HeaderFormatter \<Rightarrow> bool" where
  "header_ok h \<longleftrightarrow>
     0 \<le> hf_MaxLength h \<and> hf_MaxLength h < 2 ^ 63 \<and>
     (\<forall>s \<in> {hf_Header h, hf_AltHeader h}.
        to_lower s = s \<and> \<not> newlineRE_matches s \<and> CHR ''?'' \<notin> set s \<and> CHR '')'' \<notin> set s)"

lemma newlineRE_to_lower: "newlineRE_matches (to_lower s) \<longleftrightarrow> newlineRE_matches s"
  by (simp add: newlineRE_matches_def list_ex_iff to_lower_def to_lower_byte_fixed)

lemma parseHeaderOperator_ok:
  assumes "well_formed_command c a d"
    and "parseHeaderOperator (print_command c a d) c (or_empty a) (or_empty d) = Inr h"
  shows "header_ok h"
proof -
  let ?token = "print_command c a d"
  obtain header alts m where op: "parseOperator ?token (or_empty a) (or_empty d) (Some (CHR ''?'')) = Inr (header, alts, m)"
    and alts: "length alts \<le> 1"
    and h: "h = \<lparr>hf_Header = to_lower header,
        hf_AltHeader = to_lower (if length alts > 0 then hd alts else ''''), hf_MaxLength = m\<rparr>"
    and nl: "\<not> newlineRE_matches header" "\<not> newlineRE_matches (if length alts > 0 then hd alts else '''')"
    using assms(2) by (auto simp: parseHeaderOperator_def bindE_Inr Let_def split: if_splits)
  have m: "0 \<le> m" "m < 2 ^ 63" and "split_args (Some (CHR ''?'')) (or_empty a) = (header, alts)"
    using parseOperator_Inr [OF _ op] assms(1) by (auto simp: well_formed_command_def)
  then have "strings_split (CHR ''?'') (or_empty a) = header # alts"
    by (cases "strings_split (CHR ''?'') (or_empty a)") (simp_all add: split_args_def)
  note parts = strings_split_parts [OF this]
  have "CHR '')'' \<notin> set (or_empty a)"
    using assms(1) by (cases a) (auto simp: well_formed_command_def)
  then have "CHR '')'' \<notin> set header" "\<forall>q \<in> set alts. CHR '')'' \<notin> set q"
    using parts by (auto split: if_splits)
  with parts m nl alts show ?thesis
    by (cases alts) (auto simp: header_ok_def h in_set_to_lower newlineRE_to_lower)
qed

lemma header_ok_reparses:
  assumes "header_ok h" and "well_formed_command c None None"
  shows "well_formed_command c (Some (header_args h)) (limit_of (hf_MaxLength h)) \<and>
    parseHeaderOperator (print_command c (Some (header_args h)) (limit_of (hf_MaxLength h))) c
      (header_args h) (or_empty (limit_of (hf_MaxLength h))) = Inr h"
proof -
  let ?d = "limit_of (hf_MaxLength h)"
  let ?token = "print_command c (Some (header_args h)) ?d"
  have wf: "well_formed_command c (Some (header_args h)) ?d"
    using assms limit_of_digits by (auto simp: well_formed_command_def header_ok_def header_args_def)
  have no: "\<not> hasNoArguments ?token c (header_args h) (or_empty ?d)"
    using hasNoArguments_print [OF wf] by simp
  have "strings_split (CHR ''?'') (header_args h) =
      hf_Header h # (if hf_AltHeader h \<noteq> '''' then [hf_AltHeader h] else [])"
    using assms(1) strings_split_append [of "CHR ''?''" "hf_Header h" "hf_AltHeader h"]
    by (auto simp: header_args_def header_ok_def strings_split_notin)
  then have "parseOperator ?token (header_args h) (or_empty ?d) (Some (CHR ''?'')) =
      Inr (hf_Header h, (if hf_AltHeader h \<noteq> '''' then [hf_AltHeader h] else []), hf_MaxLength h)"
    using assms(1) by (simp add: parseOperator_limit_of header_ok_def split_args_def)
  with no wf assms(1) show ?thesis
    by (auto simp: parseHeaderOperator_def header_ok_def)
qed

lemma special_commands [simp]:
  "well_formed_command CMD_REQ None None" "well_formed_command CMD_RESP None None"
  "well_formed_command CMD_TRAILER None None" "well_formed_command CMD_START_TIME None None"
  by (simp_all add: well_formed_command_def command_names is_command_char_def)

lemma command_descriptors_plain:
  "\<forall>(c, s) \<in> set command_descriptors.
     c \<in> {CMD_REQ, CMD_RESP, CMD_TRAILER, CMD_DYNAMIC_METADATA, CMD_FILTER_STATE} \<or>
     s = print_command c None None"
  by (simp add: command_descriptors_def command_names print_command_def)

lemma CommandOperatorDescriptor_String_plain:
  assumes "c \<notin> {CMD_REQ, CMD_RESP, CMD_TRAILER, CMD_DYNAMIC_METADATA, CMD_FILTER_STATE}"
  shows "CommandOperatorDescriptor_String c = print_command c None None"
proof (cases "map_of command_descriptors c")
  case None
  then show ?thesis by (simp add: CommandOperatorDescriptor_String_def print_command_def)
next
  case (Some s)
  then have "(c, s) \<in> set command_descriptors" by (rule map_of_SomeD)
  then have "s = print_command c None None" using command_descriptors_plain assms by blast
  then show ?thesis using Some by (simp add: CommandOperatorDescriptor_String_def)
qed

lemma header_fragments_reparse:
  assumes "header_ok h"
  shows "reparses (RequestHeaderOperator h)" "reparses (ResponseHeaderOperator h)"
    "reparses (ResponseTrailerOperator h)"
proof -
  have m: "0 \<le> hf_MaxLength h" using assms by (simp add: header_ok_def)
  note str = HeaderFormatter_String_print [OF m]
  note again = header_ok_reparses [OF assms]
  show "reparses (RequestHeaderOperator h)"
    using str [of CMD_REQ] again [OF special_commands(1)]
    by (intro reparsesI [of _ CMD_REQ "Some (header_args h)" "limit_of (hf_MaxLength h)"])
      (simp_all add: parseCommandOperator_def command_names)
  show "reparses (ResponseHeaderOperator h)"
    using str [of CMD_RESP] again [OF special_commands(2)]
    by (intro reparsesI [of _ CMD_RESP "Some (header_args h)" "limit_of (hf_MaxLength h)"])
      (simp_all add: parseCommandOperator_def command_names)
  show "reparses (ResponseTrailerOperator h)"
    using str [of CMD_TRAILER] again [OF special_commands(3)]
    by (intro reparsesI [of _ CMD_TRAILER "Some (header_args h)" "limit_of (hf_MaxLength h)"])
      (simp_all add: parseCommandOperator_def command_names)
qed

lemma dynamic_metadata_reparses:
  assumes wf: "well_formed_command CMD_DYNAMIC_METADATA a d"
    and p: "parseDynamicMetadataOperator (print_command CMD_DYNAMIC_METADATA a d) CMD_DYNAMIC_METADATA
      (or_empty a) (or_empty d) = Inr (ns, path, m)"
  shows "reparses (DynamicMetadataOperator ns path m)"
proof -
  let ?c = "CMD_DYNAMIC_METADATA"
  obtain args where a: "a = Some args"
    using p hasNoArguments_print [OF wf] by (cases a) (auto simp: parseDynamicMetadataOperator_def bindE_Inr)
  have op: "parseOperator (print_command ?c a d) args (or_empty d) (Some (CHR '':'')) = Inr (ns, path, m)"
    using p a by (auto simp: parseDynamicMetadataOperator_def bindE_Inr split: if_splits)
  have m: "0 \<le> m" "m < 2 ^ 63" and split: "split_args (Some (CHR '':'')) args = (ns, path)"
    using parseOperator_Inr [OF _ op] wf by (auto simp: well_formed_command_def)
  from split have "strings_split (CHR '':'') args = ns # path"
    by (cases "strings_split (CHR '':'') args") (simp_all add: split_args_def)
  then have args: "args = ns @ concat (map ((#) (CHR '':'')) path)" using strings_split_parts by blast
  have wf': "well_formed_command ?c (Some args) (limit_of m)"
    using wf a limit_of_digits by (auto simp: well_formed_command_def)
  have "concat (concat (map (\<lambda>segment. ['':'', segment]) path)) = concat (map ((#) (CHR '':'')) path)"
    by (induction path) auto
  then have str: "DynamicMetadataOperator_String ns path m = print_command ?c (Some args) (limit_of m)"
    using max_length_suffix_print [OF m(1)] args
    by (auto simp: DynamicMetadataOperator_String_def print_command_def strings_join_empty command_names)
  have "parseDynamicMetadataOperator (print_command ?c (Some args) (limit_of m)) ?c args (or_empty (limit_of m))
      = Inr (ns, path, m)"
    using hasNoArguments_print [OF wf'] split m
    by (simp add: parseDynamicMetadataOperator_def parseOperator_limit_of)
  then show ?thesis
    using str wf'
    by (intro reparsesI [of _ ?c "Some args" "limit_of m"])
      (simp_all add: parseCommandOperator_def command_names)
qed

lemma filter_state_reparses:
  assumes wf: "well_formed_command CMD_FILTER_STATE a d"
    and p: "parseFilterStateOperator (print_command CMD_FILTER_STATE a d) CMD_FILTER_STATE
      (or_empty a) (or_empty d) = Inr (key, m)"
  shows "reparses (FilterStateOperator key m)"
proof -
  let ?c = "CMD_FILTER_STATE"
  obtain os where op: "parseOperator (print_command ?c a d) (or_empty a) (or_empty d) None = Inr (key, os, m)"
    and key: "key \<noteq> ''''" and no: "\<not> hasNoArguments (print_command ?c a d) ?c (or_empty a) (or_empty d)"
    using p by (auto simp: parseFilterStateOperator_def bindE_Inr split: if_splits)
  have m: "0 \<le> m" "m < 2 ^ 63" and "split_args None (or_empty a) = (key, os)"
    using parseOperator_Inr [OF _ op] wf by (auto simp: well_formed_command_def)
  then have a: "a = Some key"
    using no hasNoArguments_print [OF wf] by (cases a) (auto simp: split_args_def)
  have wf': "well_formed_command ?c (Some key) (limit_of m)"
    using wf a limit_of_digits by (auto simp: well_formed_command_def)
  have str: "FilterStateOperator_String key m = print_command ?c (Some key) (limit_of m)"
    using max_length_suffix_print [OF m(1)]
    by (auto simp: FilterStateOperator_String_def print_command_def strings_join_empty command_names)
  have "parseFilterStateOperator (print_command ?c (Some key) (limit_of m)) ?c key (or_empty (limit_of m))
      = Inr (key, m)"
    using hasNoArguments_print [OF wf'] key m
    by (simp add: parseFilterStateOperator_def parseOperator_limit_of split_args_def)
  then show ?thesis
    using str wf'
    by (intro reparsesI [of _ ?c "Some key" "limit_of m"])
      (simp_all add: parseCommandOperator_def command_names)
qed

lemma start_time_reparses:
  assumes wf: "well_formed_command CMD_START_TIME a d"
    and p: "parseStartTimeOperator (print_command CMD_START_TIME a d) (or_empty a) = Inr f"
  shows "reparses (StartTimeOperator f)"
proof (cases "f = ''''")
  case True
  have "CommandOperatorDescriptor_String CMD_START_TIME = print_command CMD_START_TIME None None"
    by (rule CommandOperatorDescriptor_String_plain) (simp add: command_names)
  then show ?thesis
    using True
    by (intro reparsesI [of _ CMD_START_TIME None None])
      (simp_all add: StartTimeOperator_String_def parseCommandOperator_def parseStartTimeOperator_def command_names
        well_formed_command_def is_command_char_def)
next
  case False
  then have f: "a = Some f" "\<not> startTimeNewlineRE_matches f"
    using p by (cases a; auto simp: parseStartTimeOperator_def split: if_splits)+
  then have "well_formed_command CMD_START_TIME (Some f) None"
    using wf by (simp add: well_formed_command_def)
  then show ?thesis
    using False f
    by (intro reparsesI [of _ CMD_START_TIME "Some f" None])
      (simp_all add: StartTimeOperator_String_def print_command_def parseCommandOperator_def
        parseStartTimeOperator_def command_names)
qed

lemma field_reparses:
  assumes wf: "well_formed_command c a d"
    and c: "c \<notin> {CMD_REQ, CMD_RESP, CMD_TRAILER, CMD_DYNAMIC_METADATA, CMD_FILTER_STATE, CMD_START_TIME}"
    and p: "parseFieldOperator (print_command c a d) c = Inr f"
  shows "reparses (if IsPlaceholder f then Placeholder f else FieldOperator f)"
proof -
  have f: "f = c" using p by (simp add: parseFieldOperator_def split: if_splits)
  have plain: "a = None" "d = None"
    using p by (cases a; cases d; simp add: parseFieldOperator_def token_body_print split: if_splits)+
  have "parseCommandOperator (print_command c None None) c '''' '''' =
      Inr (if IsPlaceholder c then Placeholder c else FieldOperator c)"
    using c p plain f by (simp add: parseCommandOperator_def)
  then show ?thesis
    using wf c plain f CommandOperatorDescriptor_String_plain [of c]
    by (intro reparsesI [of _ c None None]) simp_all
qed

lemma parsed_operator_reparses:
  assumes wf: "well_formed_command c a d"
    and p: "parseCommandOperator (print_command c a d) c (or_empty a) (or_empty d) = Inr op"
  shows "reparses op"
proof -
  consider (req) "c = CMD_REQ" | (resp) "c = CMD_RESP" | (trailer) "c = CMD_TRAILER"
    | (dyn) "c = CMD_DYNAMIC_METADATA" | (filter) "c = CMD_FILTER_STATE" | (start) "c = CMD_START_TIME"
    | (field) "c \<notin> {CMD_REQ, CMD_RESP, CMD_TRAILER, CMD_DYNAMIC_METADATA, CMD_FILTER_STATE, CMD_START_TIME}"
    by blast
  then show ?thesis
  proof cases
    case req
    then obtain h where "parseHeaderOperator (print_command c a d) c (or_empty a) (or_empty d) = Inr h"
      and "op = RequestHeaderOperator h"
      using p by (auto simp: parseCommandOperator_def bindE_Inr)
    then show ?thesis using parseHeaderOperator_ok [OF wf] header_fragments_reparse(1) by blast
  next
    case resp
    then obtain h where "parseHeaderOperator (print_command c a d) c (or_empty a) (or_empty d) = Inr h"
      and "op = ResponseHeaderOperator h"
      using p by (auto simp: parseCommandOperator_def bindE_Inr command_names)
    then show ?thesis using parseHeaderOperator_ok [OF wf] header_fragments_reparse(2) by blast
  next
    case trailer
    then obtain h where "parseHeaderOperator (print_command c a d) c (or_empty a) (or_empty d) = Inr h"
      and "op = ResponseTrailerOperator h"
      using p by (auto simp: parseCommandOperator_def bindE_Inr command_names)
    then show ?thesis using parseHeaderOperator_ok [OF wf] header_fragments_reparse(3) by blast
  next
    case dyn
    then show ?thesis
      using p wf dynamic_metadata_reparses
      by (auto simp: parseCommandOperator_def bindE_Inr command_names)
  next
    case filter
    then show ?thesis
      using p wf filter_state_reparses
      by (auto simp: parseCommandOperator_def bindE_Inr command_names)
  next
    case start
    then show ?thesis
      using p wf start_time_reparses
      by (auto simp: parseCommandOperator_def bindE_Inr command_names)
  next
    case field
    then show ?thesis
      using p field_reparses [OF wf field] by (auto simp: parseCommandOperator_def bindE_Inr)
  qed
qed

section \<open>Formats parse back from their text\<close>

fun is_text :: "AccessLogFragment \<Rightarrow> bool" where
  "is_text (TextSpan _) = True"
| "is_text _ = False"

definition fragment_ok :: "AccessLogFragment \<Rightarrow> bool" where
  "fragment_ok f = (case f of TextSpan t \<Rightarrow> t \<noteq> [] \<and> CHR ''%'' \<notin> set t | _ \<Rightarrow> reparses f)"

text \<open>The shape of the fragments a parser can return.\<close>

definition canonical_format :: "AccessLogFormat \<Rightarrow> bool" where
  "canonical_format fs \<longleftrightarrow>
     list_all fragment_ok fs \<and> successively (\<lambda>f g. \<not> (is_text f \<and> is_text g)) fs"

lemma parsed_operator_not_text: "parseCommandOperator t c x y = Inr op \<Longrightarrow> \<not> is_text op"
  by (auto simp: parseCommandOperator_def bindE_Inr split: if_splits)

lemma reparses_not_text: "reparses op \<Longrightarrow> \<not> is_text op"
  by (auto simp: reparses_def dest: parsed_operator_not_text)

lemma fragment_ok_operator: "\<not> is_text f \<Longrightarrow> fragment_ok f = reparses f"
  by (cases f) (simp_all add: fragment_ok_def)

lemma canonical_snoc:
  "canonical_format (fs @ [f]) \<longleftrightarrow>
     canonical_format fs \<and> fragment_ok f \<and> (fs = [] \<or> \<not> (is_text (last fs) \<and> is_text f))"
  by (auto simp: canonical_format_def successively_append_iff)

lemma parse_text_step:
  "pos < length format \<Longrightarrow> format ! pos \<noteq> CHR ''%'' \<Longrightarrow>
     parse_loop format pos start frags =
     parse_loop format (pos + 1) (case start of None \<Rightarrow> Some pos | Some s \<Rightarrow> Some s) frags"
  by (subst parse_loop.simps) simp

lemma parse_text:
  "CHR ''%'' \<notin> set t \<Longrightarrow>
     parse_loop (pre @ t @ rest) (length pre) (Some s) frags =
     parse_loop (pre @ t @ rest) (length pre + length t) (Some s) frags"
proof (induction t arbitrary: pre)
  case Nil
  then show ?case by simp
next
  case (Cons x t)
  then have "x \<noteq> CHR ''%''" by auto
  then have "parse_loop (pre @ (x # t) @ rest) (length pre) (Some s) frags =
      parse_loop ((pre @ [x]) @ t @ rest) (length (pre @ [x])) (Some s) frags"
    by (subst parse_text_step) (simp_all add: nth_append)
  also have "\<dots> = parse_loop ((pre @ [x]) @ t @ rest) (length (pre @ [x]) + length t) (Some s) frags"
    using Cons.prems Cons.IH [of "pre @ [x]"] by simp
  finally show ?case by simp
qed

lemma parse_text_start:
  assumes "t \<noteq> []" and "CHR ''%'' \<notin> set t"
  shows "parse_loop (pre @ t @ rest) (length pre) None frags =
    parse_loop (pre @ t @ rest) (length pre + length t) (Some (length pre)) frags"
proof -
  obtain x u where t: "t = x # u" using assms(1) by (cases t) auto
  have "parse_loop (pre @ t @ rest) (length pre) None frags =
      parse_loop (pre @ t @ rest) (length pre + 1) (Some (length pre)) frags"
    using assms t by (subst parse_text_step) (auto simp: nth_append)
  also have "\<dots> = parse_loop ((pre @ [x]) @ u @ rest) (length (pre @ [x])) (Some (length pre)) frags"
    by (simp add: t)
  also have "\<dots> = parse_loop ((pre @ [x]) @ u @ rest) (length (pre @ [x]) + length u) (Some (length pre)) frags"
    using assms(2) t by (intro parse_text) simp
  finally show ?thesis by (simp add: t)
qed

lemma parse_operator_step:
  assumes "pos < length format" "format ! pos = CHR ''%''"
    and "match_command (drop pos format) = Some (token, c, args, limit)"
    and "parseCommandOperator token c args limit = Inr op"
  shows "parse_loop format pos start frags =
    parse_loop format (pos + length token) None (frags @ flush_text format start pos @ [op])"
  using assms by (subst parse_loop.simps) (simp add: Let_def)

lemma parse_operator:
  assumes "reparses op"
  shows "parse_loop (pre @ fragment_String op @ rest) (length pre) start frags =
    parse_loop (pre @ fragment_String op @ rest) (length pre + length (fragment_String op)) None
      (frags @ flush_text pre start (length pre) @ [op])"
proof -
  obtain c a d where str: "fragment_String op = print_command c a d" and wf: "well_formed_command c a d"
    and p: "parseCommandOperator (print_command c a d) c (or_empty a) (or_empty d) = Inr op"
    using assms by (auto simp: reparses_def)
  obtain u where u: "print_command c a d = CHR ''%'' # u" by (simp add: print_command_def)
  have at: "(pre @ fragment_String op @ rest) ! length pre = CHR ''%''"
    and lt: "length pre < length (pre @ fragment_String op @ rest)"
    by (simp_all add: str u nth_append)
  have tail: "drop (length pre) (pre @ fragment_String op @ rest) = print_command c a d @ rest"
    by (simp add: str)
  have flush: "flush_text (pre @ x) start (length pre) = flush_text pre start (length pre)" for x
    by (simp add: flush_text_def split: option.split)
  have "match_command (drop (length pre) (pre @ fragment_String op @ rest)) =
      Some (fragment_String op, c, or_empty a, or_empty d)"
    unfolding tail by (simp only: match_print_command [OF wf] str)
  from parse_operator_step [OF lt at this, of op start frags] p show ?thesis
    by (simp add: flush str)
qed

lemma parse_canonical:
  "canonical_format fs \<Longrightarrow> start \<noteq> None \<longrightarrow> fs = [] \<or> \<not> is_text (hd fs) \<Longrightarrow>
     parse_loop (pre @ concat (map fragment_String fs)) (length pre) start frags =
       Inr (frags @ flush_text pre start (length pre) @ fs)"
proof (induction fs arbitrary: pre start frags)
  case Nil
  then show ?case by (simp add: parse_loop.simps)
next
  case (Cons f fs)
  let ?rest = "concat (map fragment_String fs)"
  have fs: "canonical_format fs" and ok: "fragment_ok f"
    and adj: "fs = [] \<or> \<not> (is_text f \<and> is_text (hd fs))"
    using Cons.prems(1) by (auto simp: canonical_format_def successively_Cons)
  show ?case
  proof (cases "is_text f")
    case True
    then obtain t where f: "f = TextSpan t" by (cases f) auto
    then have t: "t \<noteq> []" "CHR ''%'' \<notin> set t" using ok by (auto simp: fragment_ok_def)
    have "start = None" using Cons.prems(2) True by auto
    then have "parse_loop (pre @ concat (map fragment_String (f # fs))) (length pre) start frags =
        parse_loop ((pre @ t) @ ?rest) (length (pre @ t)) (Some (length pre)) frags"
      using parse_text_start [OF t, of pre ?rest frags] f by simp
    also have "\<dots> = Inr (frags @ flush_text (pre @ t) (Some (length pre)) (length (pre @ t)) @ fs)"
      using adj True by (intro Cons.IH [OF fs]) auto
    finally show ?thesis using f \<open>start = None\<close> by (simp add: flush_text_def)
  next
    case False
    then have r: "reparses f" using ok by (simp add: fragment_ok_operator)
    have "parse_loop (pre @ concat (map fragment_String (f # fs))) (length pre) start frags =
        parse_loop ((pre @ fragment_String f) @ ?rest) (length (pre @ fragment_String f)) None
          (frags @ flush_text pre start (length pre) @ [f])"
      using parse_operator [OF r, of pre ?rest start frags] by simp
    also have "\<dots> = Inr ((frags @ flush_text pre start (length pre) @ [f]) @
        flush_text (pre @ fragment_String f) None (length (pre @ fragment_String f)) @ fs)"
      by (intro Cons.IH [OF fs]) simp
    finally show ?thesis by (simp add: flush_text_def)
  qed
qed

lemma parse_loop_canonical:
  assumes "parse_loop format pos start frags = Inr fs"
    and "canonical_format frags" and "frags = [] \<or> \<not> is_text (last frags)" and "pos \<le> length format"
    and "\<forall>s. start = Some s \<longrightarrow> s < pos \<and> CHR ''%'' \<notin> set (drop s (take pos format))"
  shows "canonical_format fs"
  using assms
proof (induction format pos start frags rule: parse_loop.induct)
  case (1 format pos start frags)
  have flushed: "canonical_format (frags @ flush_text format start pos)"
    using "1.prems"
    by (auto simp: flush_text_def canonical_snoc fragment_ok_def split: option.split)
  show ?case
  proof (cases "pos < length format")
    case False
    then show ?thesis using "1.prems" flushed by (simp add: parse_loop.simps)
  next
    case lt: True
    show ?thesis
    proof (cases "format ! pos = CHR ''%''")
      case True
      then obtain token c args limit op where
          m: "match_command (drop pos format) = Some (token, c, args, limit)"
        and p: "parseCommandOperator token c args limit = Inr op"
        using "1.prems"(1) lt
        by (subst (asm) parse_loop.simps)
          (auto simp: Let_def bindE_Inr split: option.splits)
      obtain a d rest where tok: "drop pos format = token @ rest" "token = print_command c a d"
          "well_formed_command c a d" "args = or_empty a" "limit = or_empty d"
        using match_command_inv [OF m] by blast
      have "reparses op" using parsed_operator_reparses tok p by blast
      then have "canonical_format ((frags @ flush_text format start pos) @ [op])"
        using flushed reparses_not_text unfolding canonical_snoc [of "frags @ flush_text format start pos"]
        by (simp add: fragment_ok_operator)
      moreover have "pos + length token \<le> length format"
        using tok(1) lt by (metis length_append length_drop le_add1 le_diff_conv2 less_imp_le add.commute)
      moreover have "parse_loop format (pos + length token) None (frags @ flush_text format start pos @ [op]) = Inr fs"
        using "1.prems"(1) parse_operator_step [OF lt True m p] by simp
      ultimately show ?thesis
        using "1.IH"(1) [OF lt True refl refl m refl refl refl p] \<open>reparses op\<close> reparses_not_text by simp
    next
      case False
      let ?start = "case start of None \<Rightarrow> Some pos | Some s \<Rightarrow> Some s"
      have "take (pos + 1) format = take pos format @ [format ! pos]"
        using lt by (simp add: take_Suc_conv_app_nth)
      then have "\<forall>s. ?start = Some s \<longrightarrow> s < pos + 1 \<and> CHR ''%'' \<notin> set (drop s (take (pos + 1) format))"
        using "1.prems"(4,5) False lt by (auto split: option.splits)
      then show ?thesis
        using "1.IH"(2) [OF lt False] "1.prems" lt parse_text_step [OF lt False] by simp
    qed
  qed
qed

text \<open>
  C18. The canonical text of a parsed access log format is accepted by the parser and parses to the
  same format, whatever the original text was.
\<close>

theorem access_log_format_roundtrip:
  assumes "ParseFormat s = Inr f"
  shows "ParseFormat (AccessLogFormat_String f) = Inr f"
proof -
  have "parse_loop s 0 None [] = Inr f" using assms by (simp add: ParseFormat_def)
  then have "canonical_format f"
    by (rule parse_loop_canonical) (simp_all add: canonical_format_def)
  then have "parse_loop (concat (map fragment_String f)) 0 None [] = Inr f"
    using parse_canonical [of f None "[]" "[]"] by (simp add: flush_text_def)
  then show ?thesis
    by (simp add: ParseFormat_def AccessLogFormat_String_def strings_join_empty)
qed

definition example_format :: string where
  "example_format = ''id=%REQ(ID):07%''"

definition example_fragments :: AccessLogFormat where
  "example_fragments =
     [TextSpan ''id='', RequestHeaderOperator \<lparr>hf_Header = ''id'', hf_AltHeader = '''', hf_MaxLength = 7\<rparr>]"

lemma example_format_parses: "ParseFormat example_format = Inr example_fragments"
proof -
  have "char_of (105 :: nat) = CHR ''i''" "char_of (100 :: nat) = CHR ''d''" by code_simp+
  then show ?thesis
    by (simp add: ParseFormat_def example_format_def example_fragments_def parse_loop.simps flush_text_def
      match_command_def match_args_def match_limit_def is_command_char_def is_digit_def
      parseCommandOperator_def parseHeaderOperator_def hasNoArguments_def token_body_def parseOperator_def
      atoi_def digit_val_def newlineRE_matches_def to_lower_def to_lower_byte_def command_names)
qed

theorem access_log_format_roundtrip_witness:
  "ParseFormat example_format = Inr example_fragments \<and>
   ParseFormat (AccessLogFormat_String example_fragments) = Inr example_fragments"
  using example_format_parses access_log_format_roundtrip by blast

end
