(* ===== verification/Access_Log_Entry.thy ===== *)
theory Access_Log_Entry
  imports Access_Log_Format Validation_Core "HOL-Library.Signed_Division"
begin

text \<open>
  Access log entries: the part of \<open>pkg/envoy/accesslog\<close> that formats an HTTP or TCP log entry
  according to a parsed format (\<open>FormatHttpLogEntry\<close>, \<open>FormatTcpLogEntry\<close>) and that tells Envoy
  which headers and filter state objects to send (\<open>ConfigureHttpLog\<close>, \<open>ConfigureTcpLog\<close>).  The
  records keep the fields of the Envoy messages the code reads, with an option for a message
  pointer that may be \<open>nil\<close>.  What the protobuf library and the code generated for the Envoy
  messages do is a parameter (\<open>envoy_lib\<close>).  The main result is that the two halves agree: the
  headers a format makes Envoy send are the headers its output depends on.
\<close>

section \<open>Log entries\<close>

datatype EnvoyAddress = SocketAddress string u32 | Pipe string

datatype SubjectAltName = SanUri string | SanDns string

datatype TLSVersion = VERSION_UNSPECIFIED | TLSv1 | TLSv1_1 | TLSv1_2 | TLSv1_3 | OtherTLSVersion int

datatype HTTPVersion = PROTOCOL_UNSPECIFIED | HTTP10 | HTTP11 | HTTP2 | HTTP3 | OtherHTTPVersion int

datatype RequestMethod = METHOD_UNSPECIFIED | OtherMethod int

datatype UnauthorizedReason = REASON_UNSPECIFIED | EXTERNAL_SERVICE

record CertificateProperties =
  cert_SubjectAltName :: "SubjectAltName option list"
  cert_Subject :: string

record TLSProperties =
  tls_Version :: TLSVersion
  tls_CipherSuite :: "u32 option"
  tls_SniHostname :: string
  tls_Local :: "CertificateProperties option"
  tls_Peer :: "CertificateProperties option"
  tls_SessionId :: string

record ResponseFlags =
  rf_FailedLocalHealthcheck :: bool
  rf_NoHealthyUpstream :: bool
  rf_UpstreamRequestTimeout :: bool
  rf_LocalReset :: bool
  rf_UpstreamRemoteReset :: bool
  rf_UpstreamConnectionFailure :: bool
  rf_UpstreamConnectionTermination :: bool
  rf_UpstreamOverflow :: bool
  rf_NoRouteFound :: bool
  rf_DelayInjected :: bool
  rf_FaultInjected :: bool
  rf_RateLimited :: bool
  rf_UnauthorizedDetails :: "UnauthorizedReason option"
  rf_RateLimitServiceError :: bool
  rf_DownstreamConnectionTermination :: bool
  rf_UpstreamRetryLimitExceeded :: bool
  rf_StreamIdleTimeout :: bool
  rf_InvalidEnvoyRequestHeaders :: bool
  rf_DownstreamProtocolError :: bool

record PbTimestamp =
  ts_Seconds :: int
  ts_Nanos :: int

record AccessLogCommon =
  alc_DownstreamRemoteAddress :: "EnvoyAddress option"
  alc_DownstreamLocalAddress :: "EnvoyAddress option"
  alc_DownstreamDirectRemoteAddress :: "EnvoyAddress option"
  alc_TlsProperties :: "TLSProperties option"
  alc_StartTime :: "PbTimestamp option"
  alc_TimeToLastRxByte :: "PbDuration option"
  alc_TimeToFirstUpstreamRxByte :: "PbDuration option"
  alc_TimeToLastDownstreamTxByte :: "PbDuration option"
  alc_UpstreamRemoteAddress :: "EnvoyAddress option"
  alc_UpstreamLocalAddress :: "EnvoyAddress option"
  alc_UpstreamCluster :: string
  alc_ResponseFlags :: "ResponseFlags option"
  alc_UpstreamTransportFailureReason :: string
  alc_RouteName :: string

record HTTPRequestProperties =
  req_Method :: RequestMethod
  req_Scheme :: string
  req_Authority :: string
  req_Path :: string
  req_UserAgent :: string
  req_Referer :: string
  req_ForwardedFor :: string
  req_RequestId :: string
  req_OriginalPath :: string
  req_BodyBytes :: u64
  req_Headers :: "(string, string) gomap"

record HTTPResponseProperties =
  resp_Code :: "u32 option"
  resp_BodyBytes :: u64
  resp_Headers :: "(string, string) gomap"
  resp_Trailers :: "(string, string) gomap"
  resp_CodeDetails :: string

record HTTPAccessLogEntry =
  http_Common :: "AccessLogCommon option"
  http_ProtocolVersion :: HTTPVersion
  http_Request :: "HTTPRequestProperties option"
  http_Response :: "HTTPResponseProperties option"

record ConnectionProperties =
  conn_ReceivedBytes :: u64
  conn_SentBytes :: u64

record TCPAccessLogEntry =
  tcp_Common :: "AccessLogCommon option"
  tcp_Connection :: "ConnectionProperties option"

text \<open>
  \<open>ptypes.Duration\<close> (in nanoseconds), \<open>ptypes.Timestamp\<close> (in nanoseconds since 1970, UTC) and the
  \<open>String\<close> methods of three enumerations.
\<close>

record envoy_lib =
  lib_Duration :: "PbDuration \<Rightarrow> go_error + int"
  lib_Timestamp :: "PbTimestamp \<Rightarrow> go_error + gotime"
  lib_RequestMethod_String :: "RequestMethod \<Rightarrow> string"
  lib_HTTPVersion_String :: "HTTPVersion \<Rightarrow> string"
  lib_TLSVersion_String :: "TLSVersion \<Rightarrow> string"

text \<open>A field of a message behind a pointer: the zero value when the pointer is \<open>nil\<close>.\<close>

definition get_field :: "('m \<Rightarrow> 'f) \<Rightarrow> 'f \<Rightarrow> 'm option \<Rightarrow> 'f" where
  "get_field f zero m = (case m of None \<Rightarrow> zero | Some x \<Rightarrow> f x)"

section \<open>Response flags\<close>

definition ResponseFlagDownstreamConnectionTermination :: string where "ResponseFlagDownstreamConnectionTermination = ''DC''"
definition ResponseFlagFailedLocalHealthCheck :: string where "ResponseFlagFailedLocalHealthCheck = ''LH''"
definition ResponseFlagNoHealthyUpstream :: string where "ResponseFlagNoHealthyUpstream = ''UH''"
definition ResponseFlagUpstreamRequestTimeout :: string where "ResponseFlagUpstreamRequestTimeout = ''UT''"
definition ResponseFlagLocalReset :: string where "ResponseFlagLocalReset = ''LR''"
definition ResponseFlagUpstreamRemoteReset :: string where "ResponseFlagUpstreamRemoteReset = ''UR''"
definition ResponseFlagUpstreamConnectionFailure :: string where "ResponseFlagUpstreamConnectionFailure = ''UF''"
definition ResponseFlagUpstreamConnectionTermination :: string where "ResponseFlagUpstreamConnectionTermination = ''UC''"
definition ResponseFlagUpstreamOverflow :: string where "ResponseFlagUpstreamOverflow = ''UO''"
definition ResponseFlagUpstreamRetryLimitExceeded :: string where "ResponseFlagUpstreamRetryLimitExceeded = ''URX''"
definition ResponseFlagNoRouteFound :: string where "ResponseFlagNoRouteFound = ''NR''"
definition ResponseFlagDelayInjected :: string where "ResponseFlagDelayInjected = ''DI''"
definition ResponseFlagFaultInjected :: string where "ResponseFlagFaultInjected = ''FI''"
definition ResponseFlagRateLimited :: string where "ResponseFlagRateLimited = ''RL''"
definition ResponseFlagUnauthorizedExternalService :: string where "ResponseFlagUnauthorizedExternalService = ''UAEX''"
definition ResponseFlagRatelimitServiceError :: string where "ResponseFlagRatelimitServiceError = ''RLSE''"
definition ResponseFlagStreamIdleTimeout :: string where "ResponseFlagStreamIdleTimeout = ''SI''"
definition ResponseFlagInvalidEnvoyRequestHeaders :: string where "ResponseFlagInvalidEnvoyRequestHeaders = ''IH''"
definition ResponseFlagDownstreamProtocolError :: string where "ResponseFlagDownstreamProtocolError = ''DPE''"

definition formatResponseFlags :: "ResponseFlags option \<Rightarrow> string" where
  "formatResponseFlags flags =
     (case flags of
        None \<Rightarrow> ''''
      | Some flags \<Rightarrow>
          strings_join '',''
            ((if rf_FailedLocalHealthcheck flags then [ResponseFlagFailedLocalHealthCheck] else [])
             @ (if rf_NoHealthyUpstream flags then [ResponseFlagNoHealthyUpstream] else [])
             @ (if rf_UpstreamRequestTimeout flags then [ResponseFlagUpstreamRequestTimeout] else [])
             @ (if rf_LocalReset flags then [ResponseFlagLocalReset] else [])
             @ (if rf_UpstreamRemoteReset flags then [ResponseFlagUpstreamRemoteReset] else [])
             @ (if rf_UpstreamConnectionFailure flags then [ResponseFlagUpstreamConnectionFailure] else [])
             @ (if rf_UpstreamConnectionTermination flags then [ResponseFlagUpstreamConnectionTermination] else [])
             @ (if rf_UpstreamOverflow flags then [ResponseFlagUpstreamOverflow] else [])
             @ (if rf_NoRouteFound flags then [ResponseFlagNoRouteFound] else [])
             @ (if rf_DelayInjected flags then [ResponseFlagDelayInjected] else [])
             @ (if rf_FaultInjected flags then [ResponseFlagFaultInjected] else [])
             @ (if rf_RateLimited flags then [ResponseFlagRateLimited] else [])
             @ (if rf_UnauthorizedDetails flags = Some EXTERNAL_SERVICE then [ResponseFlagUnauthorizedExternalService] else [])
             @ (if rf_RateLimitServiceError flags then [ResponseFlagRatelimitServiceError] else [])
             @ (if rf_DownstreamConnectionTermination flags then [ResponseFlagDownstreamConnectionTermination] else [])
             @ (if rf_UpstreamRetryLimitExceeded flags then [ResponseFlagUpstreamRetryLimitExceeded] else [])
             @ (if rf_StreamIdleTimeout flags then [ResponseFlagStreamIdleTimeout] else [])
             @ (if rf_InvalidEnvoyRequestHeaders flags then [ResponseFlagInvalidEnvoyRequestHeaders] else [])
             @ (if rf_DownstreamProtocolError flags then [ResponseFlagDownstreamProtocolError] else [])))"

section \<open>TLS cipher suites\<close>

definition tls_cipher_suite_names :: "(16 word \<times> string) list" where
  "tls_cipher_suite_names =
     [(5, ''RSA-RC4-128-SHA''),
      (10, ''RSA-3DES-EDE-CBC-SHA''),
      (47, ''RSA-AES-128-CBC-SHA''),
      (53, ''RSA-AES-256-CBC-SHA''),
      (60, ''RSA-AES-128-CBC-SHA256''),
      (156, ''RSA-AES-128-GCM-SHA256''),
      (157, ''RSA-AES-256-GCM-SHA384''),
      (49159, ''ECDHE-ECDSA-RC4-128-SHA''),
      (49161, ''ECDHE-ECDSA-AES-128-CBC-SHA''),
      (49162, ''ECDHE-ECDSA-AES-256-CBC-SHA''),
      (49169, ''ECDHE-RSA-RC4-128-SHA''),
      (49170, ''ECDHE-RSA-3DES-EDE-CBC-SHA''),
      (49171, ''ECDHE-RSA-AES-128-CBC-SHA''),
      (49172, ''ECDHE-RSA-AES-256-CBC-SHA''),
      (49187, ''ECDHE-ECDSA-AES-128-CBC-SHA256''),
      (49191, ''ECDHE-RSA-AES-128-CBC-SHA256''),
      (49199, ''ECDHE-RSA-AES-128-GCM-SHA256''),
      (49195, ''ECDHE-ECDSA-AES-128-GCM-SHA256''),
      (49200, ''ECDHE-RSA-AES-256-GCM-SHA384''),
      (49196, ''ECDHE-ECDSA-AES-256-GCM-SHA384''),
      (52392, ''ECDHE-RSA-CHACHA20-POLY1305''),
      (52393, ''ECDHE-ECDSA-CHACHA20-POLY1305''),
      (4865, ''AES-128-GCM-SHA256''),
      (4866, ''AES-256-GCM-SHA384''),
      (4867, ''CHACHA20-POLY1305-SHA256''),
      (22016, ''FALLBACK-SCSV'')]"

text \<open>The digits that \<open>%#x\<close> prints after the prefix.\<close>

fun format_hex :: "nat \<Rightarrow> string" where
  "format_hex n = (if n < 16 then [hex_char n] else format_hex (n div 16) @ [hex_char (n mod 16)])"

declare format_hex.simps [simp del]

definition TlsCipherSuite_String :: "16 word \<Rightarrow> string" where
  "TlsCipherSuite_String s =
     (case map_of tls_cipher_suite_names s of
        Some name \<Rightarrow> name
      | None \<Rightarrow> ''0x'' @ format_hex (unat s))"

section \<open>Fields\<close>

definition formatUint :: "u64 \<Rightarrow> string" where
  "formatUint value = format_nat (unat value)"

definition formatInt :: "int \<Rightarrow> string" where
  "formatInt value = format_int value"

text \<open>The value an \<open>int64\<close> holds after an operation whose exact result is \<open>i\<close>.\<close>

definition wrap_int64 :: "int \<Rightarrow> int" where
  "wrap_int64 i = (i + 2 ^ 63) mod 2 ^ 64 - 2 ^ 63"

definition Millisecond :: int where
  "Millisecond = 1000000"

definition formatDuration :: "envoy_lib \<Rightarrow> PbDuration option \<Rightarrow> go_error + string" where
  "formatDuration lib dur =
     (case dur of
        None \<Rightarrow> Inr ''''
      | Some dur \<Rightarrow>
          bindE (lib_Duration lib dur) (\<lambda>durNanos. Inr (formatInt (durNanos sdiv Millisecond))))"

definition formatDurationDelta ::
  "envoy_lib \<Rightarrow> PbDuration option \<Rightarrow> PbDuration option \<Rightarrow> go_error + string" where
  "formatDurationDelta lib outer inner =
     (case (outer, inner) of
        (Some outer, Some inner) \<Rightarrow>
          bindE (lib_Duration lib outer) (\<lambda>outerNanos.
          bindE (lib_Duration lib inner) (\<lambda>innerNanos.
            Inr (formatInt (wrap_int64 (outerNanos - innerNanos) sdiv Millisecond))))
      | _ \<Rightarrow> Inr '''')"

definition formatHttpVersion :: "envoy_lib \<Rightarrow> HTTPVersion \<Rightarrow> string" where
  "formatHttpVersion lib value =
     (case value of
        PROTOCOL_UNSPECIFIED \<Rightarrow> ''''
      | HTTP10 \<Rightarrow> ''HTTP/1.0''
      | HTTP11 \<Rightarrow> ''HTTP/1.1''
      | HTTP2 \<Rightarrow> ''HTTP/2''
      | HTTP3 \<Rightarrow> ''HTTP/3''
      | _ \<Rightarrow> lib_HTTPVersion_String lib value)"

text \<open>\<open>net.JoinHostPort\<close>.\<close>

definition join_host_port :: "string \<Rightarrow> string \<Rightarrow> string" where
  "join_host_port host port =
     (if CHR '':'' \<in> set host then ''['' @ host @ '']:'' @ port else host @ '':'' @ port)"

definition formatAddress :: "EnvoyAddress option \<Rightarrow> bool \<Rightarrow> string" where
  "formatAddress address includePort =
     (case address of
        Some (SocketAddress addr port) \<Rightarrow>
          if includePort then join_host_port addr (format_nat (unat port)) else addr
      | Some (Pipe path) \<Rightarrow> path
      | None \<Rightarrow> '''')"

definition formatUriSans :: "SubjectAltName option list \<Rightarrow> string" where
  "formatUriSans sans =
     strings_join '',''
       (concat (map (\<lambda>san. case san of Some (SanUri uri) \<Rightarrow> [uri] | _ \<Rightarrow> []) sans))"

definition formatTlsCipherSuite :: "u32 option \<Rightarrow> string" where
  "formatTlsCipherSuite value =
     (case value of
        None \<Rightarrow> ''''
      | Some v \<Rightarrow> if v = 0xFFFF then '''' else TlsCipherSuite_String (ucast v))"

definition formatTlsVersion :: "envoy_lib \<Rightarrow> TLSVersion \<Rightarrow> string" where
  "formatTlsVersion lib value =
     (case value of
        VERSION_UNSPECIFIED \<Rightarrow> ''''
      | TLSv1 \<Rightarrow> ''TLSv1''
      | TLSv1_1 \<Rightarrow> ''TLSv1.1''
      | TLSv1_2 \<Rightarrow> ''TLSv1.2''
      | TLSv1_3 \<Rightarrow> ''TLSv1.3''
      | _ \<Rightarrow> lib_TLSVersion_String lib value)"

definition tls_field :: "(TLSProperties \<Rightarrow> 'f) \<Rightarrow> 'f \<Rightarrow> AccessLogCommon option \<Rightarrow> 'f" where
  "tls_field f zero entry = get_field f zero (get_field alc_TlsProperties None entry)"

definition formatAccessLogCommon ::
  "envoy_lib \<Rightarrow> string \<Rightarrow> AccessLogCommon option \<Rightarrow> go_error + string" where
  "formatAccessLogCommon lib f entry =
     (if f = CMD_UPSTREAM_TRANSPORT_FAILURE_REASON
        then Inr (get_field alc_UpstreamTransportFailureReason '''' entry)
      else if f = CMD_DURATION
        then formatDuration lib (get_field alc_TimeToLastDownstreamTxByte None entry)
      else if f = CMD_RESPONSE_FLAGS
        then Inr (formatResponseFlags (get_field alc_ResponseFlags None entry))
      else if f = CMD_UPSTREAM_HOST
        then Inr (formatAddress (get_field alc_UpstreamRemoteAddress None entry) True)
      else if f = CMD_UPSTREAM_CLUSTER then Inr (get_field alc_UpstreamCluster '''' entry)
      else if f = CMD_UPSTREAM_LOCAL_ADDRESS
        then Inr (formatAddress (get_field alc_UpstreamLocalAddress None entry) True)
      else if f = CMD_DOWNSTREAM_LOCAL_ADDRESS
        then Inr (formatAddress (get_field alc_DownstreamLocalAddress None entry) True)
      else if f = CMD_DOWNSTREAM_LOCAL_ADDRESS_WITHOUT_PORT
        then Inr (formatAddress (get_field alc_DownstreamLocalAddress None entry) False)
      else if f = CMD_DOWNSTREAM_REMOTE_ADDRESS
        then Inr (formatAddress (get_field alc_DownstreamRemoteAddress None entry) True)
      else if f = CMD_DOWNSTREAM_REMOTE_ADDRESS_WITHOUT_PORT
        then Inr (formatAddress (get_field alc_DownstreamRemoteAddress None entry) False)
      else if f = CMD_DOWNSTREAM_DIRECT_REMOTE_ADDRESS
        then Inr (formatAddress (get_field alc_DownstreamDirectRemoteAddress None entry) True)
      else if f = CMD_DOWNSTREAM_DIRECT_REMOTE_ADDRESS_WITHOUT_PORT
        then Inr (formatAddress (get_field alc_DownstreamDirectRemoteAddress None entry) False)
      else if f = CMD_REQUESTED_SERVER_NAME then Inr (tls_field tls_SniHostname '''' entry)
      else if f = CMD_ROUTE_NAME then Inr (get_field alc_RouteName '''' entry)
      else if f = CMD_DOWNSTREAM_PEER_URI_SAN
        then Inr (formatUriSans (get_field cert_SubjectAltName [] (tls_field tls_Peer None entry)))
      else if f = CMD_DOWNSTREAM_LOCAL_URI_SAN
        then Inr (formatUriSans (get_field cert_SubjectAltName [] (tls_field tls_Local None entry)))
      else if f = CMD_DOWNSTREAM_PEER_SUBJECT
        then Inr (get_field cert_Subject '''' (tls_field tls_Peer None entry))
      else if f = CMD_DOWNSTREAM_LOCAL_SUBJECT
        then Inr (get_field cert_Subject '''' (tls_field tls_Local None entry))
      else if f = CMD_DOWNSTREAM_TLS_SESSION_ID then Inr (tls_field tls_SessionId '''' entry)
      else if f = CMD_DOWNSTREAM_TLS_CIPHER
        then Inr (formatTlsCipherSuite (tls_field tls_CipherSuite None entry))
      else if f = CMD_DOWNSTREAM_TLS_VERSION
        then Inr (formatTlsVersion lib (tls_field tls_Version VERSION_UNSPECIFIED entry))
      else Inr (''UNSUPPORTED_COMMAND('' @ CommandOperatorDescriptor_String f @ '')''))"

definition FieldOperator_FormatHttpLogEntry ::
  "envoy_lib \<Rightarrow> string \<Rightarrow> HTTPAccessLogEntry \<Rightarrow> go_error + string" where
  "FieldOperator_FormatHttpLogEntry lib f entry =
     (let common = http_Common entry in
      if f = CMD_BYTES_RECEIVED then Inr (formatUint (get_field req_BodyBytes 0 (http_Request entry)))
      else if f = CMD_BYTES_SENT then Inr (formatUint (get_field resp_BodyBytes 0 (http_Response entry)))
      else if f = CMD_PROTOCOL then Inr (formatHttpVersion lib (http_ProtocolVersion entry))
      else if f = CMD_RESPONSE_CODE
        then Inr (formatUint (ucast (get_field id 0 (get_field resp_Code None (http_Response entry)))))
      else if f = CMD_RESPONSE_CODE_DETAILS then Inr (get_field resp_CodeDetails '''' (http_Response entry))
      else if f = CMD_REQUEST_DURATION
        then formatDuration lib (get_field alc_TimeToLastRxByte None common)
      else if f = CMD_RESPONSE_DURATION
        then formatDuration lib (get_field alc_TimeToFirstUpstreamRxByte None common)
      else if f = CMD_RESPONSE_TX_DURATION
        then formatDurationDelta lib (get_field alc_TimeToLastDownstreamTxByte None common)
               (get_field alc_TimeToFirstUpstreamRxByte None common)
      else formatAccessLogCommon lib f common)"

definition FieldOperator_FormatTcpLogEntry ::
  "envoy_lib \<Rightarrow> string \<Rightarrow> TCPAccessLogEntry \<Rightarrow> go_error + string" where
  "FieldOperator_FormatTcpLogEntry lib f entry =
     (if f = CMD_BYTES_RECEIVED
        then Inr (formatUint (get_field conn_ReceivedBytes 0 (tcp_Connection entry)))
      else if f = CMD_BYTES_SENT
        then Inr (formatUint (get_field conn_SentBytes 0 (tcp_Connection entry)))
      else if f = CMD_PROTOCOL then Inr ''''
      else if f = CMD_RESPONSE_CODE then Inr ''0''
      else if f = CMD_RESPONSE_CODE_DETAILS then Inr ''''
      else if f = CMD_REQUEST_DURATION then Inr ''''
      else if f = CMD_RESPONSE_DURATION then Inr ''''
      else if f = CMD_RESPONSE_TX_DURATION then Inr ''''
      else formatAccessLogCommon lib f (tcp_Common entry))"

section \<open>Start time\<close>

text \<open>
  \<open>Time.Format\<close> with the layout \<open>2006-01-02T15:04:05.000Z\<close>: the date of a day counted from
  1970-01-01 in the proleptic Gregorian calendar, then the time of the day in milliseconds.
\<close>

definition civil_date :: "int \<Rightarrow> int \<times> int \<times> int" where
  "civil_date days =
     (let z = days + 719468;
          era = z div 146097;
          doe = z mod 146097;
          yoe = (doe - doe div 1460 + doe div 36524 - doe div 146096) div 365;
          doy = doe - (365 * yoe + yoe div 4 - yoe div 100);
          mp = (5 * doy + 2) div 153;
          day = doy - (153 * mp + 2) div 5 + 1;
          month = (if mp < 10 then mp + 3 else mp - 9)
      in (yoe + era * 400 + (if month \<le> 2 then 1 else 0), month, day))"

definition pad_int :: "nat \<Rightarrow> int \<Rightarrow> string" where
  "pad_int width i =
     (let s = format_nat (nat i) in replicate (width - length s) (CHR ''0'') @ s)"

definition format_start_time :: "gotime \<Rightarrow> string" where
  "format_start_time t =
     (let day = 86400000000000;
          (y, m, d) = civil_date (t div day);
          ms = (t mod day) div 1000000
      in pad_int 4 y @ ''-'' @ pad_int 2 m @ ''-'' @ pad_int 2 d @ ''T'' @
         pad_int 2 (ms div 3600000) @ '':'' @ pad_int 2 (ms div 60000 mod 60) @ '':'' @
         pad_int 2 (ms div 1000 mod 60) @ ''.'' @ pad_int 3 (ms mod 1000) @ ''Z'')"

definition StartTimeOperator_format ::
  "envoy_lib \<Rightarrow> AccessLogCommon option \<Rightarrow> go_error + string" where
  "StartTimeOperator_format lib entry =
     (case get_field alc_StartTime None entry of
        None \<Rightarrow> Inr ''''
      | Some ts \<Rightarrow> bindE (lib_Timestamp lib ts) (\<lambda>startTime. Inr (format_start_time startTime)))"

section \<open>Headers\<close>

definition HeaderMap_Get :: "(string, string) gomap \<Rightarrow> string \<Rightarrow> string \<times> bool" where
  "HeaderMap_Get m name = (case map_of m name of None \<Rightarrow> ('''', False) | Some v \<Rightarrow> (v, True))"

definition optionalString :: "string \<Rightarrow> string \<times> bool" where
  "optionalString value = (value, value \<noteq> '''')"

definition formatHttpMethod :: "envoy_lib \<Rightarrow> RequestMethod \<Rightarrow> string \<times> bool" where
  "formatHttpMethod lib method =
     (case method of
        METHOD_UNSPECIFIED \<Rightarrow> ('''', False)
      | _ \<Rightarrow> (lib_RequestMethod_String lib method, True))"

definition isAlwaysCapturedRequestHeader :: "string \<Rightarrow> bool" where
  "isAlwaysCapturedRequestHeader header \<longleftrightarrow>
     header \<in> {'':method'', '':scheme'', '':authority'', '':path'', ''user-agent'', ''referer'',
       ''x-forwarded-for'', ''x-request-id'', ''x-envoy-original-path''}"

definition isNotCapturedByDefaultRequestHeader :: "string \<Rightarrow> bool" where
  "isNotCapturedByDefaultRequestHeader header = (\<not> isAlwaysCapturedRequestHeader header)"

definition RequestHeaders_Get ::
  "envoy_lib \<Rightarrow> HTTPRequestProperties option \<Rightarrow> string \<Rightarrow> string \<times> bool" where
  "RequestHeaders_Get lib h name =
     (if name = '':method'' then formatHttpMethod lib (get_field req_Method METHOD_UNSPECIFIED h)
      else if name = '':scheme'' then optionalString (get_field req_Scheme '''' h)
      else if name = '':authority'' then optionalString (get_field req_Authority '''' h)
      else if name = '':path'' then optionalString (get_field req_Path '''' h)
      else if name = ''user-agent'' then optionalString (get_field req_UserAgent '''' h)
      else if name = ''referer'' then optionalString (get_field req_Referer '''' h)
      else if name = ''x-forwarded-for'' then optionalString (get_field req_ForwardedFor '''' h)
      else if name = ''x-request-id'' then optionalString (get_field req_RequestId '''' h)
      else if name = ''x-envoy-original-path'' then optionalString (get_field req_OriginalPath '''' h)
      else HeaderMap_Get (get_field req_Headers [] h) name)"

definition HeaderFormatter_Format :: "HeaderFormatter \<Rightarrow> (string \<Rightarrow> string \<times> bool) \<Rightarrow> string" where
  "HeaderFormatter_Format f get =
     (let (value, exists) = (if hf_Header f \<noteq> '''' then get (hf_Header f) else ('''', False));
          value = (if \<not> exists \<and> hf_AltHeader f \<noteq> '''' then fst (get (hf_AltHeader f)) else value)
      in if hf_MaxLength f > 0 \<and> int (length value) > hf_MaxLength f
         then take (nat (hf_MaxLength f)) value
         else value)"

definition GetOperandHeaders :: "HeaderFormatter \<Rightarrow> string list" where
  "GetOperandHeaders f =
     (if hf_Header f \<noteq> '''' then [hf_Header f] else []) @
     (if hf_AltHeader f \<noteq> '''' then [hf_AltHeader f] else [])"

section \<open>Formatting an entry\<close>

fun fragment_FormatHttpLogEntry ::
  "envoy_lib \<Rightarrow> HTTPAccessLogEntry \<Rightarrow> AccessLogFragment \<Rightarrow> go_error + string" where
  "fragment_FormatHttpLogEntry lib entry (TextSpan f) = Inr f"
| "fragment_FormatHttpLogEntry lib entry (Placeholder f) = Inr (CommandOperatorDescriptor_String f)"
| "fragment_FormatHttpLogEntry lib entry (FieldOperator f) = FieldOperator_FormatHttpLogEntry lib f entry"
| "fragment_FormatHttpLogEntry lib entry (StartTimeOperator f) = StartTimeOperator_format lib (http_Common entry)"
| "fragment_FormatHttpLogEntry lib entry (RequestHeaderOperator f) =
     Inr (HeaderFormatter_Format f (RequestHeaders_Get lib (http_Request entry)))"
| "fragment_FormatHttpLogEntry lib entry (ResponseHeaderOperator f) =
     Inr (HeaderFormatter_Format f (HeaderMap_Get (get_field resp_Headers [] (http_Response entry))))"
| "fragment_FormatHttpLogEntry lib entry (ResponseTrailerOperator f) =
     Inr (HeaderFormatter_Format f (HeaderMap_Get (get_field resp_Trailers [] (http_Response entry))))"
| "fragment_FormatHttpLogEntry lib entry (DynamicMetadataOperator _ _ _) =
     Inr ''UNSUPPORTED_COMMAND(%DYNAMIC_METADATA(NAMESPACE:KEY*):Z%)''"
| "fragment_FormatHttpLogEntry lib entry (FilterStateOperator _ _) =
     Inr ''UNSUPPORTED_COMMAND(%FILTER_STATE(KEY):Z%)''"

fun fragment_FormatTcpLogEntry ::
  "envoy_lib \<Rightarrow> TCPAccessLogEntry \<Rightarrow> AccessLogFragment \<Rightarrow> go_error + string" where
  "fragment_FormatTcpLogEntry lib entry (TextSpan f) = Inr f"
| "fragment_FormatTcpLogEntry lib entry (Placeholder f) = Inr (CommandOperatorDescriptor_String f)"
| "fragment_FormatTcpLogEntry lib entry (FieldOperator f) = FieldOperator_FormatTcpLogEntry lib f entry"
| "fragment_FormatTcpLogEntry lib entry (StartTimeOperator f) = StartTimeOperator_format lib (tcp_Common entry)"
| "fragment_FormatTcpLogEntry lib entry (RequestHeaderOperator f) = Inr ''''"
| "fragment_FormatTcpLogEntry lib entry (ResponseHeaderOperator f) = Inr ''''"
| "fragment_FormatTcpLogEntry lib entry (ResponseTrailerOperator f) = Inr ''''"
| "fragment_FormatTcpLogEntry lib entry (DynamicMetadataOperator _ _ _) =
     Inr ''UNSUPPORTED_COMMAND(%DYNAMIC_METADATA(NAMESPACE:KEY*):Z%)''"
| "fragment_FormatTcpLogEntry lib entry (FilterStateOperator _ _) =
     Inr ''UNSUPPORTED_COMMAND(%FILTER_STATE(KEY):Z%)''"

definition unspecifiedValue :: string where
  "unspecifiedValue = ''-''"

definition or_unspecified :: "string \<Rightarrow> string" where
  "or_unspecified value = (if value = '''' then unspecifiedValue else value)"

definition FormatHttpLogEntry ::
  "envoy_lib \<Rightarrow> AccessLogFormat \<Rightarrow> HTTPAccessLogEntry \<Rightarrow> go_error + string" where
  "FormatHttpLogEntry lib f entry =
     bindE (mapE (fragment_FormatHttpLogEntry lib entry) f)
       (\<lambda>values. Inr (strings_join '''' (map or_unspecified values)))"

definition FormatTcpLogEntry ::
  "envoy_lib \<Rightarrow> AccessLogFormat \<Rightarrow> TCPAccessLogEntry \<Rightarrow> go_error + string" where
  "FormatTcpLogEntry lib f entry =
     bindE (mapE (fragment_FormatTcpLogEntry lib entry) f)
       (\<lambda>values. Inr (strings_join '''' (map or_unspecified values)))"

section \<open>Configuring Envoy\<close>

text \<open>\<open>CommonGrpcAccessLogConfig\<close>: the gRPC service is the name of its Envoy cluster.\<close>

record CommonGrpcAccessLogConfig =
  cg_LogName :: string
  cg_GrpcService :: "string option"
  cg_FilterStateObjectsToLog :: "string list"

record TcpGrpcAccessLogConfig =
  cfg_CommonConfig :: "CommonGrpcAccessLogConfig option"

record HttpGrpcAccessLogConfig = TcpGrpcAccessLogConfig +
  cfg_RequestHeaders :: "string list"
  cfg_ResponseHeaders :: "string list"
  cfg_ResponseTrailers :: "string list"

fun Contains :: "string list \<Rightarrow> string \<Rightarrow> bool" where
  "Contains [] given = False"
| "Contains (value # s) given = (if value = given then True else Contains s given)"

definition AppendToSet :: "string list \<Rightarrow> string list \<Rightarrow> string list" where
  "AppendToSet s dest = fold (\<lambda>value dest. if \<not> Contains dest value then dest @ [value] else dest) s dest"

definition filter_state_appendToSet :: "string \<Rightarrow> string list \<Rightarrow> string list" where
  "filter_state_appendToSet key dest = (if key = '''' then dest else AppendToSet [key] dest)"

text \<open>A \<open>nil\<close> slice and an empty one are the same list.\<close>

definition FilterStateOperator_Configure ::
  "string \<Rightarrow> 'z TcpGrpcAccessLogConfig_scheme \<Rightarrow> 'z TcpGrpcAccessLogConfig_scheme" where
  "FilterStateOperator_Configure key config =
     (let objects = filter_state_appendToSet key
            (get_field cg_FilterStateObjectsToLog [] (cfg_CommonConfig config))
      in if objects \<noteq> []
         then (let common = (case cfg_CommonConfig config of
                               None \<Rightarrow> \<lparr>cg_LogName = '''', cg_GrpcService = None, cg_FilterStateObjectsToLog = []\<rparr>
                             | Some common \<Rightarrow> common)
               in config\<lparr>cfg_CommonConfig := Some (common\<lparr>cg_FilterStateObjectsToLog := objects\<rparr>)\<rparr>)
         else config)"

fun fragment_ConfigureHttpLog ::
  "AccessLogFragment \<Rightarrow> HttpGrpcAccessLogConfig \<Rightarrow> HttpGrpcAccessLogConfig" where
  "fragment_ConfigureHttpLog (RequestHeaderOperator f) config =
     config\<lparr>cfg_RequestHeaders :=
       AppendToSet (filter isNotCapturedByDefaultRequestHeader (GetOperandHeaders f))
         (cfg_RequestHeaders config)\<rparr>"
| "fragment_ConfigureHttpLog (ResponseHeaderOperator f) config =
     config\<lparr>cfg_ResponseHeaders := AppendToSet (GetOperandHeaders f) (cfg_ResponseHeaders config)\<rparr>"
| "fragment_ConfigureHttpLog (ResponseTrailerOperator f) config =
     config\<lparr>cfg_ResponseTrailers := AppendToSet (GetOperandHeaders f) (cfg_ResponseTrailers config)\<rparr>"
| "fragment_ConfigureHttpLog (FilterStateOperator key _) config = FilterStateOperator_Configure key config"
| "fragment_ConfigureHttpLog _ config = config"

fun fragment_ConfigureTcpLog ::
  "AccessLogFragment \<Rightarrow> TcpGrpcAccessLogConfig \<Rightarrow> TcpGrpcAccessLogConfig" where
  "fragment_ConfigureTcpLog (FilterStateOperator key _) config = FilterStateOperator_Configure key config"
| "fragment_ConfigureTcpLog _ config = config"

definition ConfigureHttpLog :: "AccessLogFormat \<Rightarrow> HttpGrpcAccessLogConfig \<Rightarrow> HttpGrpcAccessLogConfig" where
  "ConfigureHttpLog f config = fold fragment_ConfigureHttpLog f config"

definition ConfigureTcpLog :: "AccessLogFormat \<Rightarrow> TcpGrpcAccessLogConfig \<Rightarrow> TcpGrpcAccessLogConfig" where
  "ConfigureTcpLog f config = fold fragment_ConfigureTcpLog f config"

section \<open>Sets of names\<close>

lemma Contains_iff: "Contains s given \<longleftrightarrow> given \<in> set s"
  by (induction s) auto

lemma AppendToSet_props:
  "set (AppendToSet s dest) = set dest \<union> set s"
  "distinct dest \<Longrightarrow> distinct (AppendToSet s dest)"
  "prefix dest (AppendToSet s dest)"
proof -
  show "set (AppendToSet s dest) = set dest \<union> set s"
    by (induction s arbitrary: dest) (auto simp: AppendToSet_def Contains_iff)
  show "distinct dest \<Longrightarrow> distinct (AppendToSet s dest)"
    by (induction s arbitrary: dest) (auto simp: AppendToSet_def Contains_iff)
  show "prefix dest (AppendToSet s dest)"
  proof (induction s arbitrary: dest)
    case Nil
    then show ?case by (simp add: AppendToSet_def)
  next
    case (Cons v s)
    have "prefix dest (if \<not> Contains dest v then dest @ [v] else dest)" by simp
    also have "prefix \<dots> (AppendToSet (v # s) dest)"
      using Cons [of "if \<not> Contains dest v then dest @ [v] else dest"] by (simp add: AppendToSet_def)
    finally show ?case .
  qed
qed

section \<open>What a format makes Envoy send\<close>

fun request_headers_of :: "AccessLogFragment \<Rightarrow> string set" where
  "request_headers_of (RequestHeaderOperator f) =
     {h \<in> set (GetOperandHeaders f). \<not> isAlwaysCapturedRequestHeader h}"
| "request_headers_of _ = {}"

fun response_headers_of :: "AccessLogFragment \<Rightarrow> string set" where
  "response_headers_of (ResponseHeaderOperator f) = set (GetOperandHeaders f)"
| "response_headers_of _ = {}"

fun response_trailers_of :: "AccessLogFragment \<Rightarrow> string set" where
  "response_trailers_of (ResponseTrailerOperator f) = set (GetOperandHeaders f)"
| "response_trailers_of _ = {}"

lemma filter_state_keeps_headers [simp]:
  fixes config :: HttpGrpcAccessLogConfig
  shows "cfg_RequestHeaders (FilterStateOperator_Configure key config) = cfg_RequestHeaders config"
    "cfg_ResponseHeaders (FilterStateOperator_Configure key config) = cfg_ResponseHeaders config"
    "cfg_ResponseTrailers (FilterStateOperator_Configure key config) = cfg_ResponseTrailers config"
  by (simp_all add: FilterStateOperator_Configure_def Let_def)

lemma fragment_configure_sets:
  "set (cfg_RequestHeaders (fragment_ConfigureHttpLog x c)) = set (cfg_RequestHeaders c) \<union> request_headers_of x"
  "set (cfg_ResponseHeaders (fragment_ConfigureHttpLog x c)) = set (cfg_ResponseHeaders c) \<union> response_headers_of x"
  "set (cfg_ResponseTrailers (fragment_ConfigureHttpLog x c)) = set (cfg_ResponseTrailers c) \<union> response_trailers_of x"
  by (cases x; auto simp: AppendToSet_props isNotCapturedByDefaultRequestHeader_def)+

lemma fragment_configure_distinct:
  "distinct (cfg_RequestHeaders c) \<Longrightarrow> distinct (cfg_RequestHeaders (fragment_ConfigureHttpLog x c))"
  "distinct (cfg_ResponseHeaders c) \<Longrightarrow> distinct (cfg_ResponseHeaders (fragment_ConfigureHttpLog x c))"
  "distinct (cfg_ResponseTrailers c) \<Longrightarrow> distinct (cfg_ResponseTrailers (fragment_ConfigureHttpLog x c))"
  by (cases x; simp add: AppendToSet_props)+

lemma ConfigureHttpLog_sets:
  "set (cfg_RequestHeaders (ConfigureHttpLog f c)) = set (cfg_RequestHeaders c) \<union> (\<Union>x \<in> set f. request_headers_of x)"
  "set (cfg_ResponseHeaders (ConfigureHttpLog f c)) = set (cfg_ResponseHeaders c) \<union> (\<Union>x \<in> set f. response_headers_of x)"
  "set (cfg_ResponseTrailers (ConfigureHttpLog f c)) = set (cfg_ResponseTrailers c) \<union> (\<Union>x \<in> set f. response_trailers_of x)"
  by (induction f arbitrary: c) (auto simp: ConfigureHttpLog_def fragment_configure_sets)

text \<open>
  \<open>ConfigureHttpLog\<close> adds to the configuration exactly the operand headers of the format,
  without the request headers Envoy sends anyway, keeps what was configured before, and never
  lists a header twice.
\<close>

theorem configure_http_log_exact:
  "set (cfg_RequestHeaders (ConfigureHttpLog f c)) =
     set (cfg_RequestHeaders c) \<union> (\<Union>x \<in> set f. request_headers_of x) \<and>
   set (cfg_ResponseHeaders (ConfigureHttpLog f c)) =
     set (cfg_ResponseHeaders c) \<union> (\<Union>x \<in> set f. response_headers_of x) \<and>
   set (cfg_ResponseTrailers (ConfigureHttpLog f c)) =
     set (cfg_ResponseTrailers c) \<union> (\<Union>x \<in> set f. response_trailers_of x) \<and>
   (distinct (cfg_RequestHeaders c) \<longrightarrow> distinct (cfg_RequestHeaders (ConfigureHttpLog f c))) \<and>
   (distinct (cfg_ResponseHeaders c) \<longrightarrow> distinct (cfg_ResponseHeaders (ConfigureHttpLog f c))) \<and>
   (distinct (cfg_ResponseTrailers c) \<longrightarrow> distinct (cfg_ResponseTrailers (ConfigureHttpLog f c)))"
proof -
  have "distinct (cfg_RequestHeaders c) \<longrightarrow> distinct (cfg_RequestHeaders (ConfigureHttpLog f c))"
    and "distinct (cfg_ResponseHeaders c) \<longrightarrow> distinct (cfg_ResponseHeaders (ConfigureHttpLog f c))"
    and "distinct (cfg_ResponseTrailers c) \<longrightarrow> distinct (cfg_ResponseTrailers (ConfigureHttpLog f c))"
    by (induction f arbitrary: c) (auto simp: ConfigureHttpLog_def fragment_configure_distinct)
  then show ?thesis using ConfigureHttpLog_sets [of f c] by blast
qed

definition empty_http_config :: HttpGrpcAccessLogConfig where
  "empty_http_config = \<lparr>cfg_CommonConfig = None, cfg_RequestHeaders = [], cfg_ResponseHeaders = [],
     cfg_ResponseTrailers = []\<rparr>"

theorem configure_http_log_exact_witness:
  "distinct (cfg_RequestHeaders empty_http_config) \<and>
   distinct (cfg_RequestHeaders (ConfigureHttpLog example_fragments empty_http_config))"
  using configure_http_log_exact [of example_fragments empty_http_config]
  by (simp add: empty_http_config_def)

section \<open>The headers sent are the headers used\<close>

text \<open>An entry as Envoy sends it: with the configured headers only.\<close>

definition only_names :: "string list \<Rightarrow> (string, string) gomap \<Rightarrow> (string, string) gomap" where
  "only_names names m = filter (\<lambda>(k, v). k \<in> set names) m"

definition sent_entry :: "HttpGrpcAccessLogConfig \<Rightarrow> HTTPAccessLogEntry \<Rightarrow> HTTPAccessLogEntry" where
  "sent_entry c e =
     e\<lparr>http_Request :=
         map_option (\<lambda>r. r\<lparr>req_Headers := only_names (cfg_RequestHeaders c) (req_Headers r)\<rparr>) (http_Request e),
       http_Response :=
         map_option (\<lambda>r. r\<lparr>resp_Headers := only_names (cfg_ResponseHeaders c) (resp_Headers r),
                          resp_Trailers := only_names (cfg_ResponseTrailers c) (resp_Trailers r)\<rparr>)
           (http_Response e)\<rparr>"

lemma HeaderMap_Get_only: "name \<in> set names \<Longrightarrow> HeaderMap_Get (only_names names m) name = HeaderMap_Get m name"
proof -
  assume "name \<in> set names"
  then have "map_of (only_names names m) name = map_of m name"
    by (induction m) (auto simp: only_names_def)
  then show ?thesis by (simp add: HeaderMap_Get_def)
qed

lemma HeaderFormatter_Format_cong:
  assumes "\<And>h. h \<in> set (GetOperandHeaders f) \<Longrightarrow> get h = get' h"
  shows "HeaderFormatter_Format f get = HeaderFormatter_Format f get'"
proof -
  have "hf_Header f \<noteq> '''' \<Longrightarrow> get (hf_Header f) = get' (hf_Header f)"
    and "hf_AltHeader f \<noteq> '''' \<Longrightarrow> get (hf_AltHeader f) = get' (hf_AltHeader f)"
    using assms by (auto simp: GetOperandHeaders_def)
  then show ?thesis
    by (cases "hf_Header f = ''''"; cases "hf_AltHeader f = ''''") (simp_all add: HeaderFormatter_Format_def split: prod.split)
qed

lemma RequestHeaders_Get_sent:
  assumes "isAlwaysCapturedRequestHeader h \<or> h \<in> set (cfg_RequestHeaders c)"
  shows "RequestHeaders_Get lib (http_Request (sent_entry c e)) h = RequestHeaders_Get lib (http_Request e) h"
  using assms
  by (cases "http_Request e")
    (auto simp: RequestHeaders_Get_def isAlwaysCapturedRequestHeader_def sent_entry_def get_field_def
      HeaderMap_Get_only)

lemma response_get_sent:
  "h \<in> set (cfg_ResponseHeaders c) \<Longrightarrow>
     HeaderMap_Get (get_field resp_Headers [] (http_Response (sent_entry c e))) h =
     HeaderMap_Get (get_field resp_Headers [] (http_Response e)) h"
  "h \<in> set (cfg_ResponseTrailers c) \<Longrightarrow>
     HeaderMap_Get (get_field resp_Trailers [] (http_Response (sent_entry c e))) h =
     HeaderMap_Get (get_field resp_Trailers [] (http_Response e)) h"
  by (cases "http_Response e"; simp add: sent_entry_def get_field_def HeaderMap_Get_only)+

lemma sent_entry_fields [simp]:
  "http_Common (sent_entry c e) = http_Common e"
  "http_ProtocolVersion (sent_entry c e) = http_ProtocolVersion e"
  "get_field req_BodyBytes 0 (http_Request (sent_entry c e)) = get_field req_BodyBytes 0 (http_Request e)"
  "get_field resp_BodyBytes 0 (http_Response (sent_entry c e)) = get_field resp_BodyBytes 0 (http_Response e)"
  "get_field resp_Code None (http_Response (sent_entry c e)) = get_field resp_Code None (http_Response e)"
  "get_field resp_CodeDetails '''' (http_Response (sent_entry c e)) = get_field resp_CodeDetails '''' (http_Response e)"
  by (cases "http_Request e"; cases "http_Response e"; simp add: sent_entry_def get_field_def)+

lemma fragment_format_sent:
  assumes "request_headers_of x \<subseteq> set (cfg_RequestHeaders c)"
    and "response_headers_of x \<subseteq> set (cfg_ResponseHeaders c)"
    and "response_trailers_of x \<subseteq> set (cfg_ResponseTrailers c)"
  shows "fragment_FormatHttpLogEntry lib (sent_entry c e) x = fragment_FormatHttpLogEntry lib e x"
proof (cases x)
  case (FieldOperator f)
  then show ?thesis by (simp add: FieldOperator_FormatHttpLogEntry_def Let_def)
next
  case (RequestHeaderOperator f)
  then show ?thesis
    using assms(1) by (auto intro!: HeaderFormatter_Format_cong RequestHeaders_Get_sent)
next
  case (ResponseHeaderOperator f)
  then show ?thesis
    using assms(2) by (auto intro!: HeaderFormatter_Format_cong response_get_sent)
next
  case (ResponseTrailerOperator f)
  then show ?thesis
    using assms(3) by (auto intro!: HeaderFormatter_Format_cong response_get_sent)
qed simp_all

lemma mapE_cong: "(\<And>x. x \<in> set xs \<Longrightarrow> f x = g x) \<Longrightarrow> mapE f xs = mapE g xs"
  by (induction xs) (auto intro!: bindE_cong)

text \<open>
  C19. An entry that carries only the headers and trailers \<open>ConfigureHttpLog\<close> asks for is formatted
  exactly as the full entry: the configuration requests every header the format reads.
\<close>

theorem configured_headers_suffice:
  "FormatHttpLogEntry lib f (sent_entry (ConfigureHttpLog f c) e) = FormatHttpLogEntry lib f e"
proof -
  let ?c = "ConfigureHttpLog f c"
  have "fragment_FormatHttpLogEntry lib (sent_entry ?c e) x = fragment_FormatHttpLogEntry lib e x"
    if "x \<in> set f" for x
    using that ConfigureHttpLog_sets [of f c] by (intro fragment_format_sent) blast+
  then show ?thesis
    unfolding FormatHttpLogEntry_def by (subst mapE_cong) simp_all
qed

section \<open>Interpolation\<close>

fun is_placeholder :: "AccessLogFragment \<Rightarrow> bool" where
  "is_placeholder (Placeholder _) = True"
| "is_placeholder _ = False"

lemma Interpolate_map: "Interpolate variables f = map (interpolate_fragment variables) f"
proof (cases "list_ex (\<lambda>x. interpolate_fragment variables x \<noteq> x) f")
  case False
  then have "map (interpolate_fragment variables) f = f"
    by (intro map_idI) (auto simp: list_ex_iff)
  then show ?thesis by (simp add: Interpolate_def Let_def)
qed (simp add: Interpolate_def Let_def)

text \<open>
  After \<open>Interpolate\<close> no placeholder is left, every other fragment is unchanged, and an entry
  is logged with the value of each variable in the place of its placeholder; a variable that is
  missing or empty is logged as a dash.
\<close>

theorem interpolation_resolves_placeholders:
  "list_all (\<lambda>x. \<not> is_placeholder x) (Interpolate variables f) \<and>
   length (Interpolate variables f) = length f \<and>
   FormatHttpLogEntry lib (Interpolate variables f) e =
     bindE (mapE (\<lambda>x. case x of Placeholder v \<Rightarrow> Inr (gstr variables v)
                      | _ \<Rightarrow> fragment_FormatHttpLogEntry lib e x) f)
       (\<lambda>values. Inr (concat (map (\<lambda>v. if v = '''' then ''-'' else v) values)))"
proof -
  have "\<not> is_placeholder (interpolate_fragment variables x)" for x
    by (cases x) (simp_all add: Placeholder_Interpolate_def Let_def)
  then have "list_all (\<lambda>x. \<not> is_placeholder x) (Interpolate variables f)"
    by (simp add: Interpolate_map list_all_iff)
  moreover have "fragment_FormatHttpLogEntry lib e (interpolate_fragment variables x) =
      (case x of Placeholder v \<Rightarrow> Inr (gstr variables v) | _ \<Rightarrow> fragment_FormatHttpLogEntry lib e x)" for x
    by (cases x) (simp_all add: Placeholder_Interpolate_def variables_Get_def Let_def)
  moreover have "mapE g (map h f) = mapE (\<lambda>x. g (h x)) f"
    for g :: "AccessLogFragment \<Rightarrow> go_error + string" and h
    by (induction f) simp_all
  ultimately show ?thesis
    unfolding FormatHttpLogEntry_def or_unspecified_def [abs_def] unspecifiedValue_def strings_join_empty
    by (simp add: Interpolate_map)
qed

end
