(* ===== verification/Mesh_Model.thy ===== *)
theory Mesh_Model
  imports Resource_Validators Access_Log_Entry
begin

text \<open>
  The \<open>Mesh\<close> resource of \<open>pkg/core/resources/apis/mesh\<close>: its backends (\<open>mesh_helpers.go\<close>), its
  defaults (\<open>mesh_defaulter.go\<close>), its validation (\<open>mesh_validator.go\<close>), the validation of names
  (\<open>meta_validator.go\<close>) and \<open>DataplaneResource.GetPrometheusEndpoint\<close>.  \<open>url.ParseRequestURI\<close>
  followed by \<open>URL.Port\<close> is a parameter (\<open>None\<close> for an error, otherwise the port), as are
  \<open>proto.Merge\<close> of the protobuf library and the opaque configuration of a certificate authority.
\<close>

section \<open>Data\<close>

record CertificateAuthorityBackend =
  cab_Name :: string
  cab_Type :: string
  cab_Config :: string

record Mtls =
  mtls_EnabledBackend :: string
  mtls_Backends :: "CertificateAuthorityBackend list"

datatype LoggingType = LoggingFile string | LoggingTcp string

record LoggingBackend =
  lb_Name :: string
  lb_Format :: string
  lb_Type :: "LoggingType option"

record Logging =
  log_DefaultBackend :: string
  log_Backends :: "LoggingBackend list"

record Zipkin =
  zk_Url :: string
  zk_TraceId128bit :: bool
  zk_ApiVersion :: string

record TracingBackend =
  tb_Name :: string
  tb_Sampling :: "float64 option"
  tb_Zipkin :: "Zipkin option"

record Tracing =
  trc_DefaultBackend :: string
  trc_Backends :: "TracingBackend list"

record Mesh =
  mesh_Mtls :: "Mtls option"
  mesh_Tracing :: "Tracing option"
  mesh_Logging :: "Logging option"
  mesh_Metrics :: "Metrics option"

type_synonym MeshResource = "Mesh Resource"

section \<open>Helpers\<close>

definition metrics_GetPrometheus :: "Metrics option \<Rightarrow> Prometheus option" where
  "metrics_GetPrometheus m = get_field met_Prometheus None m"

definition HasPrometheusMetricsEnabled :: "MeshResource option \<Rightarrow> bool" where
  "HasPrometheusMetricsEnabled m =
     (case m of None \<Rightarrow> False | Some m \<Rightarrow> metrics_GetPrometheus (mesh_Metrics (Spec m)) \<noteq> None)"

definition MTLSEnabled :: "MeshResource option \<Rightarrow> bool" where
  "MTLSEnabled m =
     (case m of None \<Rightarrow> False | Some m \<Rightarrow> get_field mtls_EnabledBackend '''' (mesh_Mtls (Spec m)) \<noteq> '''')"

text \<open>The loop \<open>backends[backend.Name] = backend\<close>: a later backend replaces an earlier one.\<close>

definition backends_by_name :: "('b \<Rightarrow> string) \<Rightarrow> 'b list \<Rightarrow> (string, 'b) gomap" where
  "backends_by_name name bs = fold (\<lambda>b m. gput (name b) b m) bs []"

definition GetTracingBackend :: "MeshResource \<Rightarrow> string \<Rightarrow> TracingBackend option" where
  "GetTracingBackend m name =
     (let tracing = mesh_Tracing (Spec m);
          backends = backends_by_name tb_Name (get_field trc_Backends [] tracing)
      in if name = '''' then map_of backends (get_field trc_DefaultBackend '''' tracing)
         else map_of backends name)"

definition GetLoggingBackends :: "MeshResource \<Rightarrow> string" where
  "GetLoggingBackends m =
     strings_join '', '' (map lb_Name (get_field log_Backends [] (mesh_Logging (Spec m))))"

definition GetTracingBackends :: "MeshResource \<Rightarrow> string" where
  "GetTracingBackends m =
     strings_join '', '' (map tb_Name (get_field trc_Backends [] (mesh_Tracing (Spec m))))"

definition GetCertificateAuthorityBackend ::
  "MeshResource \<Rightarrow> string \<Rightarrow> CertificateAuthorityBackend option" where
  "GetCertificateAuthorityBackend m name =
     find (\<lambda>backend. cab_Name backend = name) (get_field mtls_Backends [] (mesh_Mtls (Spec m)))"

definition GetEnabledCertificateAuthorityBackend ::
  "MeshResource \<Rightarrow> CertificateAuthorityBackend option" where
  "GetEnabledCertificateAuthorityBackend m =
     GetCertificateAuthorityBackend m (get_field mtls_EnabledBackend '''' (mesh_Mtls (Spec m)))"

text \<open>\<open>MeshResource.Default\<close>.\<close>

definition default_prometheus :: "Prometheus \<Rightarrow> Prometheus" where
  "default_prometheus p =
     (let p = (if prom_Port p = 0 then p\<lparr>prom_Port := 5670\<rparr> else p)
      in if prom_Path p = '''' then p\<lparr>prom_Path := ''/metrics''\<rparr> else p)"

definition Mesh_Default :: "MeshResource \<Rightarrow> MeshResource" where
  "Mesh_Default mesh =
     (let spec = Spec mesh in
      case mesh_Metrics spec of
        None \<Rightarrow> mesh
      | Some metrics \<Rightarrow>
          (case met_Prometheus metrics of
             None \<Rightarrow> mesh
           | Some p \<Rightarrow>
               mesh\<lparr>Spec := spec\<lparr>mesh_Metrics :=
                 Some (metrics\<lparr>met_Prometheus := Some (default_prometheus p)\<rparr>)\<rparr>\<rparr>))"

text \<open>
  \<open>DataplaneResource.GetPrometheusEndpoint\<close>; \<open>proto_Merge dst src\<close> is the message \<open>dst\<close> after the
  merge.
\<close>

definition GetPrometheusEndpoint ::
  "(Prometheus \<Rightarrow> Prometheus option \<Rightarrow> Prometheus) \<Rightarrow> DataplaneResource option \<Rightarrow>
   MeshResource option \<Rightarrow> Prometheus option" where
  "GetPrometheusEndpoint proto_Merge d mesh =
     (case (d, mesh) of
        (Some d', Some mesh') \<Rightarrow>
          if res_name mesh' \<noteq> res_mesh d' \<or> \<not> HasPrometheusMetricsEnabled mesh then None
          else
            (let result = \<lparr>prom_Port = 0, prom_Path = ''''\<rparr>;
                 result = proto_Merge result (metrics_GetPrometheus (mesh_Metrics (Spec mesh')))
             in Some (proto_Merge result (metrics_GetPrometheus (dp_Metrics (Spec d')))))
      | _ \<Rightarrow> None)"

section \<open>Validation\<close>

text \<open>The message of a repeated name.\<close>

definition name_used_message :: "string \<Rightarrow> string" where
  "name_used_message name = quote name @ '' name is already used for another backend''"

text \<open>
  The loops over backends: report the violations of each backend, and a name that an earlier
  backend has; \<open>usedNames\<close> is carried along.
\<close>

fun validate_backends ::
  "('b \<Rightarrow> string) \<Rightarrow> ('b \<Rightarrow> ValidationError) \<Rightarrow> nat \<Rightarrow> 'b list \<Rightarrow> string list \<times> ValidationError \<Rightarrow>
   string list \<times> ValidationError" where
  "validate_backends name validate i [] (usedNames, verr) = (usedNames, verr)"
| "validate_backends name validate i (backend # rest) (usedNames, verr) =
     (let verr = AddError (path_String (path_Index i (RootedAt ''backends''))) (validate backend) verr;
          verr = (if name backend \<in> set usedNames
                  then AddViolationAt (path_Field ''name'' (path_Index i (RootedAt ''backends'')))
                         (name_used_message (name backend)) verr
                  else verr)
      in validate_backends name validate (Suc i) rest (name backend # usedNames, verr))"

definition validateMtls :: "Mtls option \<Rightarrow> ValidationError" where
  "validateMtls mtls =
     (case mtls of
        None \<Rightarrow> []
      | Some mtls \<Rightarrow>
          (let (usedNames, verr) = validate_backends cab_Name (\<lambda>_. []) 0 (mtls_Backends mtls) ([], [])
           in if mtls_EnabledBackend mtls \<noteq> '''' \<and> mtls_EnabledBackend mtls \<notin> set usedNames
              then AddViolation ''enabledBackend'' ''has to be set to one of the backends in the mesh'' verr
              else verr))"

definition validateLoggingTcp :: "string \<Rightarrow> ValidationError" where
  "validateLoggingTcp address =
     (if address = '''' then AddViolation ''address'' ''cannot be empty'' []
      else (case split_host_port address of
              Inl _ \<Rightarrow> AddViolation ''address'' ''has to be in format of HOST:PORT'' []
            | Inr (host, port) \<Rightarrow>
                if host = '''' \<or> port = ''''
                then AddViolation ''address'' ''has to be in format of HOST:PORT'' []
                else []))"

definition validateLoggingFile :: "string \<Rightarrow> ValidationError" where
  "validateLoggingFile path = (if path = '''' then AddViolation ''path'' ''cannot be empty'' [] else [])"

definition validateLoggingBackend :: "LoggingBackend \<Rightarrow> ValidationError" where
  "validateLoggingBackend backend =
     (let verr = (if lb_Name backend = '''' then AddViolation ''name'' ''cannot be empty'' [] else []);
          verr = (case ValidateFormat (lb_Format backend) of
                    None \<Rightarrow> verr
                  | Some err \<Rightarrow> AddViolation ''format'' (error_text err) verr)
      in case lb_Type backend of
           Some (LoggingFile path) \<Rightarrow> AddError ''file'' (validateLoggingFile path) verr
         | Some (LoggingTcp address) \<Rightarrow> AddError ''tcp'' (validateLoggingTcp address) verr
         | None \<Rightarrow> verr)"

definition validateLogging :: "Logging option \<Rightarrow> ValidationError" where
  "validateLogging logging =
     (case logging of
        None \<Rightarrow> []
      | Some logging \<Rightarrow>
          (let (usedNames, verr) =
                 validate_backends lb_Name validateLoggingBackend 0 (log_Backends logging) ([], [])
           in if log_DefaultBackend logging \<noteq> '''' \<and> log_DefaultBackend logging \<notin> set usedNames
              then AddViolation ''defaultBackend'' ''has to be set to one of the logging backend in mesh'' verr
              else verr))"

definition validateZipkin :: "(string \<Rightarrow> string option) \<Rightarrow> Zipkin \<Rightarrow> ValidationError" where
  "validateZipkin parse_request_uri zipkin =
     (let verr =
        (if zk_Url zipkin = '''' then AddViolation ''url'' ''cannot be empty'' []
         else (case parse_request_uri (zk_Url zipkin) of
                 None \<Rightarrow> AddViolation ''url'' ''invalid URL'' []
               | Some port \<Rightarrow>
                   if port = '''' then AddViolation ''url'' ''port has to be explicitly specified'' []
                   else []))
      in if zk_ApiVersion zipkin \<noteq> '''' \<and> zk_ApiVersion zipkin \<noteq> ''httpJsonV1'' \<and>
            zk_ApiVersion zipkin \<noteq> ''httpJson'' \<and> zk_ApiVersion zipkin \<noteq> ''httpProto''
         then AddViolation ''apiVersion''
                (''has invalid value. '' @ AllowedValuesHint [''httpJsonV1'', ''httpJson'', ''httpProto''])
                verr
         else verr)"

text \<open>\<open>Sampling.GetValue()\<close> is 0 when the wrapper is \<open>nil\<close>.\<close>

definition validateTracingBackend :: "(string \<Rightarrow> string option) \<Rightarrow> TracingBackend \<Rightarrow> ValidationError" where
  "validateTracingBackend parse_request_uri backend =
     (let verr = (if tb_Name backend = '''' then AddViolation ''name'' ''cannot be empty'' [] else []);
          sampling = (case tb_Sampling backend of None \<Rightarrow> Finite 0 | Some v \<Rightarrow> v);
          verr = (if float_less sampling (Finite 0) \<or> float_less (Finite 100) sampling
                  then AddViolation ''sampling'' ''has to be in [0.0 - 100.0] range'' verr else verr)
      in case tb_Zipkin backend of
           None \<Rightarrow> verr
         | Some zipkin \<Rightarrow> AddError ''zipkin'' (validateZipkin parse_request_uri zipkin) verr)"

definition validateTracing :: "(string \<Rightarrow> string option) \<Rightarrow> Tracing option \<Rightarrow> ValidationError" where
  "validateTracing parse_request_uri tracing =
     (case tracing of
        None \<Rightarrow> []
      | Some tracing \<Rightarrow>
          (let (usedNames, verr) =
                 validate_backends tb_Name (validateTracingBackend parse_request_uri) 0
                   (trc_Backends tracing) ([], [])
           in if trc_DefaultBackend tracing \<noteq> '''' \<and> trc_DefaultBackend tracing \<notin> set usedNames
              then AddViolation ''defaultBackend'' ''has to be set to one of the tracing backend in mesh'' verr
              else verr))"

definition Mesh_Validate :: "(string \<Rightarrow> string option) \<Rightarrow> MeshResource \<Rightarrow> go_error option" where
  "Mesh_Validate parse_request_uri m =
     OrNil (AddError ''tracing'' (validateTracing parse_request_uri (mesh_Tracing (Spec m)))
       (AddError ''logging'' (validateLogging (mesh_Logging (Spec m)))
         (AddError ''mtls'' (validateMtls (mesh_Mtls (Spec m))) [])))"

text \<open>The character class \<open>[0-9a-z-_]\<close>.\<close>

definition nameMeshRegexp :: "string \<Rightarrow> bool" where
  "nameMeshRegexp s =
     list_all (\<lambda>c. let n = (of_char c :: nat) in
       48 \<le> n \<and> n \<le> 57 \<or> 97 \<le> n \<and> n \<le> 122 \<or> c = CHR ''-'' \<or> c = CHR ''_'') s"

definition invalid_characters_message :: string where
  "invalid_characters_message =
     ''invalid characters. Valid characters are numbers, lowercase latin letters and '' @
     [CHR 39] @ ''-'' @ [CHR 39] @ '', '' @ [CHR 39] @ ''_'' @ [CHR 39] @ '' symbols.''"

definition ValidateMeta :: "string \<Rightarrow> string \<Rightarrow> ValidationError" where
  "ValidateMeta name mesh =
     (let err = (if \<not> nameMeshRegexp name then AddViolation ''name'' invalid_characters_message [] else [])
      in if \<not> nameMeshRegexp mesh then AddViolation ''mesh'' invalid_characters_message err else err)"

section \<open>What a validated mesh guarantees\<close>

lemma validate_backends_names:
  "fst (validate_backends name v i bs (used, verr)) = rev (map name bs) @ used"
  by (induction bs arbitrary: i used verr) (simp_all add: Let_def)

lemma validate_backends_Nil:
  "snd (validate_backends name v i bs (used, verr)) = [] \<longleftrightarrow>
     verr = [] \<and> (\<forall>b \<in> set bs. v b = []) \<and> distinct (map name bs) \<and> set (map name bs) \<inter> set used = {}"
  by (induction bs arbitrary: i used verr) (auto simp: Let_def)

lemma map_of_backends_by_name:
  "map_of (fold (\<lambda>b m. gput (name b) b m) bs m) n =
     (case find (\<lambda>b. name b = n) (rev bs) of Some b \<Rightarrow> Some b | None \<Rightarrow> map_of m n)"
proof (induction bs arbitrary: m rule: rev_induct)
  case Nil
  then show ?case by simp
next
  case (snoc b bs)
  then show ?case by (simp add: map_of_gput)
qed

lemma find_in_set:
  "n \<in> name ` set bs \<Longrightarrow> \<exists>b \<in> set bs. find (\<lambda>b. name b = n) bs = Some b \<and> name b = n"
  by (induction bs) auto

lemma backends_by_name_distinct:
  assumes "distinct (map name bs)" and "b \<in> set bs"
  shows "map_of (backends_by_name name bs) (name b) = Some b"
proof -
  have "name b \<in> name ` set (rev bs)" using assms(2) by simp
  from find_in_set [OF this] obtain b' where
    b': "find (\<lambda>x. name x = name b) (rev bs) = Some b'" "b' \<in> set bs" "name b' = name b"
    by auto
  then have "b' = b" using assms by (metis distinct_map inj_on_eq_iff)
  then show ?thesis using b' by (simp add: backends_by_name_def map_of_backends_by_name)
qed

lemma validateMtls_Nil:
  "validateMtls (Some mtls) = [] \<longleftrightarrow>
     distinct (map cab_Name (mtls_Backends mtls)) \<and>
     (mtls_EnabledBackend mtls \<noteq> '''' \<longrightarrow> mtls_EnabledBackend mtls \<in> cab_Name ` set (mtls_Backends mtls))"
  using validate_backends_names [of cab_Name "\<lambda>_. []" 0 "mtls_Backends mtls" "[]" "[]"]
    validate_backends_Nil [of cab_Name "\<lambda>_. []" 0 "mtls_Backends mtls" "[]" "[]"]
  by (auto simp: validateMtls_def case_prod_unfold Let_def)

lemma validateLogging_Nil:
  "validateLogging (Some logging) = [] \<longleftrightarrow>
     (\<forall>b \<in> set (log_Backends logging). validateLoggingBackend b = []) \<and>
     distinct (map lb_Name (log_Backends logging)) \<and>
     (log_DefaultBackend logging \<noteq> '''' \<longrightarrow> log_DefaultBackend logging \<in> lb_Name ` set (log_Backends logging))"
  using validate_backends_names [of lb_Name validateLoggingBackend 0 "log_Backends logging" "[]" "[]"]
    validate_backends_Nil [of lb_Name validateLoggingBackend 0 "log_Backends logging" "[]" "[]"]
  by (auto simp: validateLogging_def case_prod_unfold Let_def)

lemma validateTracing_Nil:
  "validateTracing p (Some tracing) = [] \<longleftrightarrow>
     (\<forall>b \<in> set (trc_Backends tracing). validateTracingBackend p b = []) \<and>
     distinct (map tb_Name (trc_Backends tracing)) \<and>
     (trc_DefaultBackend tracing \<noteq> '''' \<longrightarrow> trc_DefaultBackend tracing \<in> tb_Name ` set (trc_Backends tracing))"
  using validate_backends_names [of tb_Name "validateTracingBackend p" 0 "trc_Backends tracing" "[]" "[]"]
    validate_backends_Nil [of tb_Name "validateTracingBackend p" 0 "trc_Backends tracing" "[]" "[]"]
  by (auto simp: validateTracing_def case_prod_unfold Let_def)

lemma Mesh_Validate_None:
  "Mesh_Validate p m = None \<longleftrightarrow>
     validateMtls (mesh_Mtls (Spec m)) = [] \<and> validateLogging (mesh_Logging (Spec m)) = [] \<and>
     validateTracing p (mesh_Tracing (Spec m)) = []"
  by (auto simp: Mesh_Validate_def)

lemma validateLoggingBackend_format: "validateLoggingBackend b = [] \<Longrightarrow> ValidateFormat (lb_Format b) = None"
proof (cases "ValidateFormat (lb_Format b)")
  case (Some e)
  then have "validateLoggingBackend b \<noteq> []"
    by (cases "lb_Type b") (auto simp: validateLoggingBackend_def Let_def split: LoggingType.split)
  then show "validateLoggingBackend b = [] \<Longrightarrow> ?thesis" by simp
qed simp

lemma ValidateFormat_None: "ValidateFormat s = None \<longleftrightarrow> (\<exists>f. ParseFormat s = Inr f)"
  by (cases "ParseFormat s") (auto simp: ValidateFormat_def)

lemma validateTracingBackend_name: "validateTracingBackend p b = [] \<Longrightarrow> tb_Name b \<noteq> ''''"
  by (auto simp: validateTracingBackend_def Let_def split: if_splits option.splits)


definition example_mesh :: MeshResource where
  "example_mesh =
     \<lparr>Meta = None,
      Spec = \<lparr>mesh_Mtls = Some \<lparr>mtls_EnabledBackend = ''ca-1'',
                mtls_Backends = [\<lparr>cab_Name = ''ca-1'', cab_Type = ''builtin'', cab_Config = ''''\<rparr>]\<rparr>,
              mesh_Tracing = None,
              mesh_Logging = Some \<lparr>log_DefaultBackend = '''',
                log_Backends = [\<lparr>lb_Name = ''file'', lb_Format = example_format,
                                 lb_Type = Some (LoggingFile ''/tmp/access.log'')\<rparr>]\<rparr>,
              mesh_Metrics = None\<rparr>\<rparr>"


text \<open>The defaults complete a Prometheus endpoint and are stable.\<close>

lemma Mesh_Default_idem: "Mesh_Default (Mesh_Default m) = Mesh_Default m"
  by (auto simp: Mesh_Default_def default_prometheus_def Let_def split: option.splits)

lemma Mesh_Default_valid: "Mesh_Validate p (Mesh_Default m) = Mesh_Validate p m"
  by (auto simp: Mesh_Default_def Mesh_Validate_def Let_def split: option.splits)

end
