(* ===== verification/Dataplane_Insight.thy ===== *)
theory Dataplane_Insight
  imports Resource_Model
begin

text \<open>
  The status of dataplanes: the messages of \<open>dataplane_insight.proto\<close> and the operations of
  \<open>api/mesh/v1alpha1/dataplane_insight_helpers.go\<close>.  The lemmas show that \<open>UpdateSubscription\<close>
  is an upsert keyed by the id and that \<open>GetLatestSubscription\<close> finds the latest connection.
\<close>

section \<open>Messages\<close>

text \<open>
  \<open>google.protobuf.Timestamp\<close>.  \<open>ptypes.Timestamp\<close> of the protobuf library, which turns a
  timestamp (or \<open>nil\<close>) into a time or fails, is a parameter of the operations that use it.
\<close>

record PbTimestamp =
  ts_Seconds :: int
  ts_Nanos :: int

record DiscoveryServiceStats =
  ResponsesSent :: u64
  ResponsesAcknowledged :: u64
  ResponsesRejected :: u64

record DiscoverySubscriptionStatus =
  st_LastUpdateTime :: "PbTimestamp option"
  st_Total :: "DiscoveryServiceStats option"
  st_Cds :: "DiscoveryServiceStats option"
  st_Eds :: "DiscoveryServiceStats option"
  st_Lds :: "DiscoveryServiceStats option"
  st_Rds :: "DiscoveryServiceStats option"

record DiscoverySubscription =
  sub_Id :: string
  sub_ControlPlaneInstanceId :: string
  sub_ConnectTime :: "PbTimestamp option"
  sub_DisconnectTime :: "PbTimestamp option"
  sub_Status :: "DiscoverySubscriptionStatus option"

record DataplaneInsight =
  di_Subscriptions :: "DiscoverySubscription list"

type_synonym DataplaneInsightResource = "DataplaneInsight Resource"

definition no_stats :: DiscoveryServiceStats where
  "no_stats = \<lparr>ResponsesSent = 0, ResponsesAcknowledged = 0, ResponsesRejected = 0\<rparr>"

section \<open>Operations\<close>

definition NewSubscriptionStatus :: DiscoverySubscriptionStatus where
  "NewSubscriptionStatus =
     \<lparr>st_LastUpdateTime = None, st_Total = Some no_stats, st_Cds = Some no_stats,
      st_Eds = Some no_stats, st_Lds = Some no_stats, st_Rds = Some no_stats\<rparr>"

definition GetSubscriptions :: "DataplaneInsight option \<Rightarrow> DiscoverySubscription list" where
  "GetSubscriptions ds = (case ds of None \<Rightarrow> [] | Some d \<Rightarrow> di_Subscriptions d)"

fun is_online_loop :: "DiscoverySubscription list \<Rightarrow> bool" where
  "is_online_loop [] = False"
| "is_online_loop (s # rest) =
     (if sub_ConnectTime s \<noteq> None \<and> sub_DisconnectTime s = None then True else is_online_loop rest)"

definition IsOnline :: "DataplaneInsight option \<Rightarrow> bool" where
  "IsOnline ds = is_online_loop (GetSubscriptions ds)"

fun get_subscription_loop ::
  "nat \<Rightarrow> DiscoverySubscription list \<Rightarrow> string \<Rightarrow> (nat \<times> DiscoverySubscription) option" where
  "get_subscription_loop i [] sid = None"
| "get_subscription_loop i (s # rest) sid =
     (if sub_Id s = sid then Some (i, s) else get_subscription_loop (Suc i) rest sid)"

text \<open>\<open>GetSubscription\<close>: \<open>None\<close> stands for the pair \<open>-1, nil\<close>.\<close>

definition GetSubscription ::
  "DataplaneInsight option \<Rightarrow> string \<Rightarrow> (nat \<times> DiscoverySubscription) option" where
  "GetSubscription ds sid = get_subscription_loop 0 (GetSubscriptions ds) sid"

definition UpdateSubscription ::
  "DiscoverySubscription \<Rightarrow> DataplaneInsight option \<Rightarrow> DataplaneInsight option" where
  "UpdateSubscription s ds =
     (case ds of
        None \<Rightarrow> None
      | Some d \<Rightarrow>
          Some (case GetSubscription ds (sub_Id s) of
                  Some (i, old) \<Rightarrow> d\<lparr>di_Subscriptions := (di_Subscriptions d)[i := s]\<rparr>
                | None \<Rightarrow> d\<lparr>di_Subscriptions := di_Subscriptions d @ [s]\<rparr>))"

fun latest_loop ::
  "(PbTimestamp option \<Rightarrow> gotime option) \<Rightarrow> nat \<Rightarrow> DiscoverySubscription list \<Rightarrow>
   nat \<times> gotime option \<Rightarrow> nat \<times> gotime option" where
  "latest_loop ptypes_Timestamp i [] (idx, latest) = (idx, latest)"
| "latest_loop ptypes_Timestamp i (s # rest) (idx, latest) =
     latest_loop ptypes_Timestamp (Suc i) rest
       (case ptypes_Timestamp (sub_ConnectTime s) of
          None \<Rightarrow> (idx, latest)
        | Some t \<Rightarrow>
            if latest = None \<or> the latest < t then (i, Some t) else (idx, latest))"

definition GetLatestSubscription ::
  "(PbTimestamp option \<Rightarrow> gotime option) \<Rightarrow> DataplaneInsight option \<Rightarrow>
   DiscoverySubscription option \<times> gotime option" where
  "GetLatestSubscription ptypes_Timestamp ds =
     (if length (GetSubscriptions ds) = 0 then (None, None)
      else (case latest_loop ptypes_Timestamp 0 (GetSubscriptions ds) (0, None) of
              (idx, latest) \<Rightarrow> (Some (GetSubscriptions ds ! idx), latest)))"

text \<open>\<open>Sum\<close>: the addition of \<open>uint64\<close> wraps.\<close>

definition Sum :: "(DiscoverySubscription \<Rightarrow> u64) \<Rightarrow> DataplaneInsight option \<Rightarrow> u64" where
  "Sum v ds = fold (\<lambda>s result. result + v s) (GetSubscriptions ds) 0"

text \<open>The type URLs of the Envoy cache.\<close>

definition ClusterType :: string where "ClusterType = ''type.googleapis.com/envoy.api.v2.Cluster''"
definition EndpointType :: string where
  "EndpointType = ''type.googleapis.com/envoy.api.v2.ClusterLoadAssignment''"
definition ListenerType :: string where "ListenerType = ''type.googleapis.com/envoy.api.v2.Listener''"
definition RouteType :: string where
  "RouteType = ''type.googleapis.com/envoy.api.v2.RouteConfiguration''"

text \<open>
  \<open>StatsOf\<close> returns a pointer into the status (allocating the field when it is \<open>nil\<close>), or to a
  fresh value for another type; its callers increment a counter through it.  The model applies
  the update \<open>f\<close> to the value pointed at and returns the status afterwards.
\<close>

definition or_new :: "DiscoveryServiceStats option \<Rightarrow> DiscoveryServiceStats" where
  "or_new x = (case x of None \<Rightarrow> no_stats | Some v \<Rightarrow> v)"

definition StatsOf ::
  "string \<Rightarrow> (DiscoveryServiceStats \<Rightarrow> DiscoveryServiceStats) \<Rightarrow>
   DiscoverySubscriptionStatus \<Rightarrow> DiscoverySubscriptionStatus" where
  "StatsOf typeUrl f s =
     (if typeUrl = ClusterType then s\<lparr>st_Cds := Some (f (or_new (st_Cds s)))\<rparr>
      else if typeUrl = EndpointType then s\<lparr>st_Eds := Some (f (or_new (st_Eds s)))\<rparr>
      else if typeUrl = ListenerType then s\<lparr>st_Lds := Some (f (or_new (st_Lds s)))\<rparr>
      else if typeUrl = RouteType then s\<lparr>st_Rds := Some (f (or_new (st_Rds s)))\<rparr>
      else s)"

section \<open>Lemmas\<close>

lemma IsOnline_iff:
  "IsOnline ds \<longleftrightarrow> (\<exists>s \<in> set (GetSubscriptions ds). sub_ConnectTime s \<noteq> None \<and> sub_DisconnectTime s = None)"
proof -
  have "is_online_loop ss \<longleftrightarrow> (\<exists>s \<in> set ss. sub_ConnectTime s \<noteq> None \<and> sub_DisconnectTime s = None)" for ss
    by (induction ss) auto
  then show ?thesis by (simp add: IsOnline_def)
qed

lemma get_subscription_loop_ge: "get_subscription_loop i ss sid = Some (k, s) \<Longrightarrow> i \<le> k"
  by (induction ss arbitrary: i) (auto split: if_splits dest: Suc_leD)

lemma get_subscription_loop_iff:
  "get_subscription_loop i ss sid = Some (i + k, s) \<longleftrightarrow>
     k < length ss \<and> ss ! k = s \<and> sub_Id s = sid \<and> (\<forall>j < k. sub_Id (ss ! j) \<noteq> sid)"
proof (induction ss arbitrary: i k)
  case Nil
  then show ?case by simp
next
  case (Cons a ss)
  show ?case
  proof (cases k)
    case 0
    then show ?thesis by (auto dest: get_subscription_loop_ge)
  next
    case (Suc m)
    then show ?thesis using Cons [of "Suc i" m] by (auto simp: All_less_Suc2)
  qed
qed

lemma get_subscription_loop_None:
  "get_subscription_loop i ss sid = None \<longleftrightarrow> sid \<notin> sub_Id ` set ss"
  by (induction ss arbitrary: i) auto

lemma GetSubscription_Some:
  "GetSubscription ds sid = Some (k, s) \<longleftrightarrow>
     k < length (GetSubscriptions ds) \<and> GetSubscriptions ds ! k = s \<and> sub_Id s = sid \<and>
     (\<forall>j < k. sub_Id (GetSubscriptions ds ! j) \<noteq> sid)"
  using get_subscription_loop_iff [of 0] by (simp add: GetSubscription_def)

lemma GetSubscription_None:
  "GetSubscription ds sid = None \<longleftrightarrow> sid \<notin> sub_Id ` set (GetSubscriptions ds)"
  by (simp add: GetSubscription_def get_subscription_loop_None)

text \<open>The ids of an updated insight: the new one is appended when it was not there.\<close>

lemma UpdateSubscription_ids:
  "map sub_Id (GetSubscriptions (UpdateSubscription s (Some d))) =
     (if sub_Id s \<in> set (map sub_Id (di_Subscriptions d)) then map sub_Id (di_Subscriptions d)
      else map sub_Id (di_Subscriptions d) @ [sub_Id s])"
proof (cases "GetSubscription (Some d) (sub_Id s)")
  case None
  moreover have "sub_Id s \<notin> set (map sub_Id (di_Subscriptions d))"
    using None by (simp add: GetSubscription_None GetSubscriptions_def)
  ultimately show ?thesis by (simp add: UpdateSubscription_def GetSubscriptions_def)
next
  case (Some x)
  obtain k old where x: "x = (k, old)" by (cases x)
  then have k: "k < length (di_Subscriptions d)" "di_Subscriptions d ! k = old" "sub_Id old = sub_Id s"
    using Some by (simp_all add: GetSubscription_Some GetSubscriptions_def)
  then have "map sub_Id ((di_Subscriptions d)[k := s]) = map sub_Id (di_Subscriptions d)"
    by (metis list_update_id map_update)
  moreover have "sub_Id s \<in> set (map sub_Id (di_Subscriptions d))"
    using k by (metis length_map nth_map nth_mem)
  ultimately show ?thesis using Some x by (simp add: UpdateSubscription_def GetSubscriptions_def)
qed

lemma UpdateSubscription_other:
  assumes "sid \<noteq> sub_Id s"
  shows "map_option snd (GetSubscription (UpdateSubscription s (Some d)) sid) =
    map_option snd (GetSubscription (Some d) sid)"
proof -
  have upd: "map_option snd (get_subscription_loop i (ss[k := s]) sid) = map_option snd (get_subscription_loop i ss sid)"
    if "k < length ss" "sub_Id (ss ! k) \<noteq> sid" for ss k i
    using that assms by (induction ss arbitrary: k i) (auto split: nat.split)
  have app: "map_option snd (get_subscription_loop i (ss @ [s]) sid) = map_option snd (get_subscription_loop i ss sid)" for ss i
    using assms by (induction ss arbitrary: i) auto
  show ?thesis
  proof (cases "GetSubscription (Some d) (sub_Id s)")
    case None
    then show ?thesis by (simp add: UpdateSubscription_def GetSubscription_def GetSubscriptions_def app)
  next
    case (Some x)
    obtain k old where x: "x = (k, old)" by (cases x)
    then have "k < length (di_Subscriptions d)" "sub_Id (di_Subscriptions d ! k) = sub_Id s"
      using Some by (auto simp: GetSubscription_Some GetSubscriptions_def)
    then have "map_option snd (get_subscription_loop 0 ((di_Subscriptions d)[k := s]) sid) =
        map_option snd (get_subscription_loop 0 (di_Subscriptions d) sid)"
      using assms by (intro upd) auto
    then show ?thesis
      using Some x by (simp add: UpdateSubscription_def GetSubscription_def GetSubscriptions_def)
  qed
qed

lemma UpdateSubscription_same:
  "map_option snd (GetSubscription (UpdateSubscription s (Some d)) (sub_Id s)) = Some s"
proof (cases "GetSubscription (Some d) (sub_Id s)")
  case None
  have "map_option snd (get_subscription_loop i (ss @ [s]) (sub_Id s)) = Some s"
    if "sub_Id s \<notin> sub_Id ` set ss" for ss i
    using that by (induction ss arbitrary: i) auto
  moreover have "sub_Id s \<notin> sub_Id ` set (di_Subscriptions d)"
    using None by (simp add: GetSubscription_None GetSubscriptions_def)
  moreover have "UpdateSubscription s (Some d) = Some (d\<lparr>di_Subscriptions := di_Subscriptions d @ [s]\<rparr>)"
    using None by (simp add: UpdateSubscription_def)
  ultimately show ?thesis by (simp add: GetSubscription_def GetSubscriptions_def)
next
  case (Some x)
  obtain k old where x: "x = (k, old)" by (cases x)
  then have k: "k < length (di_Subscriptions d)" "\<forall>j < k. sub_Id (di_Subscriptions d ! j) \<noteq> sub_Id s"
    using Some by (simp_all add: GetSubscription_Some GetSubscriptions_def)
  have "GetSubscription (UpdateSubscription s (Some d)) (sub_Id s) = Some (k, s)"
    unfolding GetSubscription_Some using Some x k by (simp add: UpdateSubscription_def GetSubscriptions_def)
  then show ?thesis by simp
qed

text \<open>
  \<open>UpdateSubscription\<close> is an upsert keyed by the subscription id: afterwards the id holds the
  new subscription, every other id holds what it held before, no id becomes duplicated, and the
  order of the ids already present is kept.
\<close>

theorem update_subscription_upserts:
  "map_option snd (GetSubscription (UpdateSubscription s (Some d)) sid) =
     (if sid = sub_Id s then Some s else map_option snd (GetSubscription (Some d) sid)) \<and>
   (\<exists>new. map sub_Id (GetSubscriptions (UpdateSubscription s (Some d))) = map sub_Id (di_Subscriptions d) @ new \<and>
      (distinct (map sub_Id (di_Subscriptions d)) \<longrightarrow> distinct (map sub_Id (di_Subscriptions d) @ new)))"
proof
  show "map_option snd (GetSubscription (UpdateSubscription s (Some d)) sid) =
     (if sid = sub_Id s then Some s else map_option snd (GetSubscription (Some d) sid))"
    by (simp add: UpdateSubscription_same UpdateSubscription_other)
  show "\<exists>new. map sub_Id (GetSubscriptions (UpdateSubscription s (Some d))) = map sub_Id (di_Subscriptions d) @ new \<and>
      (distinct (map sub_Id (di_Subscriptions d)) \<longrightarrow> distinct (map sub_Id (di_Subscriptions d) @ new))"
    by (rule exI [of _ "if sub_Id s \<in> set (map sub_Id (di_Subscriptions d)) then [] else [sub_Id s]"])
      (simp add: UpdateSubscription_ids)
qed

definition example_subscription :: "string \<Rightarrow> int \<Rightarrow> DiscoverySubscription" where
  "example_subscription sid t =
     \<lparr>sub_Id = sid, sub_ControlPlaneInstanceId = ''cp'', sub_ConnectTime = Some \<lparr>ts_Seconds = t, ts_Nanos = 0\<rparr>,
      sub_DisconnectTime = None, sub_Status = Some NewSubscriptionStatus\<rparr>"

definition example_insight :: DataplaneInsight where
  "example_insight = \<lparr>di_Subscriptions = [example_subscription ''a'' 3, example_subscription ''b'' 7]\<rparr>"

theorem update_subscription_upserts_witness:
  "distinct (map sub_Id (GetSubscriptions (UpdateSubscription (example_subscription ''c'' 9) (Some example_insight))))"
proof -
  have "distinct (map sub_Id (di_Subscriptions example_insight))" by code_simp
  then show ?thesis
    using update_subscription_upserts [of "example_subscription ''c'' 9" example_insight "''c''"] by metis
qed

text \<open>The candidates of \<open>GetLatestSubscription\<close>: the subscriptions with a valid time.\<close>

definition later :: "nat \<times> gotime \<Rightarrow> nat \<times> gotime \<Rightarrow> bool" where
  "later x y \<longleftrightarrow> snd y < snd x"

interpretation connect: ranking later
  by unfold_locales (auto simp: later_def)

fun connect_times ::
  "(PbTimestamp option \<Rightarrow> gotime option) \<Rightarrow> nat \<Rightarrow> DiscoverySubscription list \<Rightarrow> (nat \<times> gotime) list" where
  "connect_times pt i [] = []"
| "connect_times pt i (s # rest) =
     (case pt (sub_ConnectTime s) of None \<Rightarrow> [] | Some t \<Rightarrow> [(i, t)]) @ connect_times pt (Suc i) rest"

lemma latest_loop_found:
  "latest_loop pt i ss (idx, Some l) =
     apsnd Some (the (keep_best later (Some (idx, l)) (connect_times pt i ss)))"
  by (induction ss arbitrary: i idx l) (auto simp: later_def split: option.split)

lemma latest_loop_keep_best:
  "latest_loop pt i ss (idx, None) =
     (case keep_best later None (connect_times pt i ss) of None \<Rightarrow> (idx, None) | Some (j, t) \<Rightarrow> (j, Some t))"
proof (induction ss arbitrary: i)
  case Nil
  then show ?case by simp
next
  case (Cons s ss)
  then show ?case by (auto simp: latest_loop_found split: option.split)
qed

lemma set_connect_times:
  "(k, t) \<in> set (connect_times pt i ss) \<longleftrightarrow>
     i \<le> k \<and> k - i < length ss \<and> pt (sub_ConnectTime (ss ! (k - i))) = Some t"
proof (induction ss arbitrary: i)
  case Nil
  then show ?case by simp
next
  case (Cons s ss)
  show ?case
  proof (cases "i < k")
    case True
    then obtain m where "k = Suc (i + m)" by (metis less_imp_Suc_add)
    then show ?thesis using Cons [of "Suc i"] by (auto split: option.split)
  next
    case False
    then show ?thesis by (auto simp: Cons split: option.split)
  qed
qed

lemma sorted_connect_times: "sorted_wrt (\<lambda>x y. fst x < fst y) (connect_times pt i ss)"
  by (induction ss arbitrary: i) (auto simp: set_connect_times split: option.split)

text \<open>
  \<open>GetLatestSubscription\<close> returns the first of the subscriptions with the latest connect
  time, and that time; when no connect time is valid it returns the first subscription and no
  time, and nothing when there are no subscriptions.
\<close>

theorem latest_subscription_is_latest:
  "(GetSubscriptions ds = [] \<longrightarrow> GetLatestSubscription pt ds = (None, None)) \<and>
   (GetSubscriptions ds \<noteq> [] \<longrightarrow>
     (\<exists>i < length (GetSubscriptions ds). \<exists>latest.
        GetLatestSubscription pt ds = (Some (GetSubscriptions ds ! i), latest) \<and>
        (case latest of
           None \<Rightarrow> i = 0 \<and> (\<forall>s \<in> set (GetSubscriptions ds). pt (sub_ConnectTime s) = None)
         | Some t \<Rightarrow> pt (sub_ConnectTime (GetSubscriptions ds ! i)) = Some t \<and>
             (\<forall>j < length (GetSubscriptions ds). \<forall>u. pt (sub_ConnectTime (GetSubscriptions ds ! j)) = Some u \<longrightarrow>
                u < t \<or> u = t \<and> i \<le> j))))"
proof (intro conjI impI)
  let ?ss = "GetSubscriptions ds"
  let ?c = "connect_times pt 0 ?ss"
  show "GetLatestSubscription pt ds = (None, None)" if "?ss = []"
    using that by (simp add: GetLatestSubscription_def)
  assume ne: "?ss \<noteq> []"
  show "\<exists>i < length ?ss. \<exists>latest. GetLatestSubscription pt ds = (Some (?ss ! i), latest) \<and>
    (case latest of
       None \<Rightarrow> i = 0 \<and> (\<forall>s \<in> set ?ss. pt (sub_ConnectTime s) = None)
     | Some t \<Rightarrow> pt (sub_ConnectTime (?ss ! i)) = Some t \<and>
         (\<forall>j < length ?ss. \<forall>u. pt (sub_ConnectTime (?ss ! j)) = Some u \<longrightarrow> u < t \<or> u = t \<and> i \<le> j))"
  proof (cases "keep_best later None ?c")
    case None
    then have "?c = []" by simp
    then have "\<forall>s \<in> set ?ss. pt (sub_ConnectTime s) = None"
      using set_connect_times [of _ _ pt 0 ?ss] by (metis diff_zero empty_iff empty_set in_set_conv_nth not_None_eq zero_le)
    then show ?thesis
      using None ne by (intro exI [of _ 0]) (simp add: GetLatestSubscription_def latest_loop_keep_best)
  next
    case (Some x)
    obtain i t where x: "x = (i, t)" by (cases x)
    obtain as bs where c: "?c = as @ (i, t) # bs" and first: "\<forall>a \<in> set as. later (i, t) a"
      using connect.kept_is_first [OF Some] x by blast
    have i: "i < length ?ss" "pt (sub_ConnectTime (?ss ! i)) = Some t"
      using set_connect_times [of i t pt 0 ?ss] c by simp_all
    have "u < t \<or> u = t \<and> i \<le> j" if "j < length ?ss" "pt (sub_ConnectTime (?ss ! j)) = Some u" for j u
    proof -
      have "(j, u) \<in> set ?c" using that by (simp add: set_connect_times)
      then consider "(j, u) \<in> set as" | "(j, u) = (i, t)" | "(j, u) \<in> set bs" by (auto simp: c)
      then show ?thesis
      proof cases
        case 1
        then show ?thesis using first by (auto simp: later_def)
      next
        case 3
        have "i < j" using 3 sorted_connect_times [of pt 0 ?ss] by (auto simp: c sorted_wrt_append)
        moreover have "\<not> later (j, u) (i, t)" using connect.kept_is_best [OF Some \<open>(j, u) \<in> set ?c\<close>] x by simp
        ultimately show ?thesis by (auto simp: later_def)
      qed simp
    qed
    then show ?thesis
      using i Some x ne by (intro exI [of _ i]) (simp add: GetLatestSubscription_def latest_loop_keep_best)
  qed
qed

theorem latest_subscription_is_latest_witness:
  "snd (GetLatestSubscription (map_option ts_Seconds) (Some example_insight)) = Some 7 \<and>
   (\<exists>i latest. GetLatestSubscription (map_option ts_Seconds) (Some example_insight) =
      (Some (GetSubscriptions (Some example_insight) ! i), latest))"
proof
  show "snd (GetLatestSubscription (map_option ts_Seconds) (Some example_insight)) = Some 7" by code_simp
  have "GetSubscriptions (Some example_insight) \<noteq> []" by code_simp
  then show "\<exists>i latest. GetLatestSubscription (map_option ts_Seconds) (Some example_insight) =
      (Some (GetSubscriptions (Some example_insight) ! i), latest)"
    using latest_subscription_is_latest [of "Some example_insight" "map_option ts_Seconds"] by blast
qed

lemma Sum_sum_list: "Sum v ds = sum_list (map v (GetSubscriptions ds))"
proof -
  have "fold (\<lambda>s result. result + v s) ss r = r + sum_list (map v ss)" for ss r
    by (induction ss arbitrary: r) (simp_all add: ac_simps)
  then show ?thesis by (simp add: Sum_def)
qed

end
