(* ===== verification/Resource_Specs.thy ===== *)
theory Resource_Specs
  imports Mesh_Model Dataplane_Insight
begin

text \<open>
  All the resource types of \<open>pkg/core/resources/apis\<close> under one type, with what the interface
  \<open>model.Resource\<close> and \<open>model.ResourceList\<close> offer: \<open>GetType\<close>, \<open>Validate\<close>, \<open>NewItem\<close>,
  \<open>AddItem\<close>, and the type registry of \<open>pkg/core/resources/registry\<close>.
\<close>

section \<open>Specifications and their types\<close>

text \<open>The \<open>data\<close> of a secret is a wrapped byte string, or absent.\<close>

datatype ResourceSpec =
    MeshSpec Mesh
  | DataplaneSpec Dataplane
  | DataplaneInsightSpec DataplaneInsight
  | TrafficPermissionSpec TrafficPermission
  | TrafficRouteSpec TrafficRoute
  | TrafficLogSpec TrafficLog
  | TrafficTraceSpec TrafficTrace
  | HealthCheckSpec HealthCheck
  | FaultInjectionSpec FaultInjection
  | ProxyTemplateSpec ProxyTemplate
  | SecretSpec "string option"

type_synonym AnyResource = "ResourceSpec Resource"

definition MeshType :: string where "MeshType = ''Mesh''"
definition SecretType :: string where "SecretType = ''Secret''"

fun spec_type :: "ResourceSpec \<Rightarrow> string" where
  "spec_type (MeshSpec _) = MeshType"
| "spec_type (DataplaneSpec _) = ''Dataplane''"
| "spec_type (DataplaneInsightSpec _) = ''DataplaneInsight''"
| "spec_type (TrafficPermissionSpec _) = ''TrafficPermission''"
| "spec_type (TrafficRouteSpec _) = ''TrafficRoute''"
| "spec_type (TrafficLogSpec _) = ''TrafficLog''"
| "spec_type (TrafficTraceSpec _) = ''TrafficTrace''"
| "spec_type (HealthCheckSpec _) = ''HealthCheck''"
| "spec_type (FaultInjectionSpec _) = ''FaultInjection''"
| "spec_type (ProxyTemplateSpec _) = ''ProxyTemplate''"
| "spec_type (SecretSpec _) = SecretType"

definition GetType :: "AnyResource \<Rightarrow> string" where
  "GetType r = spec_type (Spec r)"

definition with_spec :: "'a Resource \<Rightarrow> 'b \<Rightarrow> 'b Resource" where
  "with_spec r s = \<lparr>Meta = Meta r, Spec = s\<rparr>"

lemma with_spec_simps [simp]: "Meta (with_spec r s) = Meta r" "Spec (with_spec r s) = s"
  by (simp_all add: with_spec_def)

section \<open>Validation\<close>

text \<open>
  The functions of libraries that validators call: \<open>url.ParseRequestURI\<close> followed by \<open>URL.Port\<close>,
  \<open>ptypes.Duration\<close>, and the YAML reader of Envoy resources.
\<close>

record library =
  lib_url_Port :: "string \<Rightarrow> string option"
  lib_ptypes_Duration :: "PbDuration \<Rightarrow> int option"
  lib_ResourceFromYaml :: "string \<Rightarrow> go_error option"

text \<open>The method \<open>Validate\<close> of each resource; insights and secrets are not validated.\<close>

fun validate_spec :: "library \<Rightarrow> AnyResource \<Rightarrow> ResourceSpec \<Rightarrow> go_error option" where
  "validate_spec lib r (MeshSpec s) = Mesh_Validate (lib_url_Port lib) (with_spec r s)"
| "validate_spec lib r (DataplaneSpec s) = Dataplane_Validate (with_spec r s)"
| "validate_spec lib r (DataplaneInsightSpec s) = None"
| "validate_spec lib r (TrafficPermissionSpec s) = TrafficPermission_Validate (with_spec r s)"
| "validate_spec lib r (TrafficRouteSpec s) = TrafficRoute_Validate (with_spec r s)"
| "validate_spec lib r (TrafficLogSpec s) = TrafficLog_Validate (with_spec r s)"
| "validate_spec lib r (TrafficTraceSpec s) = TrafficTrace_Validate (with_spec r s)"
| "validate_spec lib r (HealthCheckSpec s) = HealthCheck_Validate (lib_ptypes_Duration lib) (with_spec r s)"
| "validate_spec lib r (FaultInjectionSpec s) = FaultInjection_Validate (with_spec r s)"
| "validate_spec lib r (ProxyTemplateSpec s) = ProxyTemplate_Validate (lib_ResourceFromYaml lib) (with_spec r s)"
| "validate_spec lib r (SecretSpec s) = None"

definition Validate :: "library \<Rightarrow> AnyResource \<Rightarrow> go_error option" where
  "Validate lib r = validate_spec lib r (Spec r)"

lemmas validate_defs = Mesh_Validate_def Dataplane_Validate_def TrafficPermission_Validate_def
      TrafficPermission_validateSources_def TrafficPermission_validateDestinations_def
      TrafficRoute_Validate_def TrafficRoute_validateSources_def TrafficRoute_validateDestinations_def
      TrafficRoute_validateConf_def TrafficLog_Validate_def TrafficLog_validateSources_def
      TrafficLog_validateDestinations_def TrafficTrace_Validate_def TrafficTrace_validateSelectors_def
      HealthCheck_Validate_def HealthCheck_validateSources_def HealthCheck_validateDestinations_def
      HealthCheck_validateConf_def HasActiveChecks_def HasPassiveChecks_def
      FaultInjection_Validate_def FaultInjection_validateSources_def
      FaultInjection_validateDestinations_def FaultInjection_validateConf_def HasFaultDelay_def
      HasFaultAbort_def HasFaultResponseBandwidth_def ProxyTemplate_Validate_def

text \<open>Validation reads the specification only, not the metadata.\<close>

lemma Validate_spec:
  assumes "Spec r = Spec r'"
  shows "Validate lib r = Validate lib r'"
  unfolding Validate_def assms
  by (cases "Spec r'"; simp only:; unfold validate_spec.simps with_spec_simps validate_defs with_spec_simps; rule refl)

section \<open>Lists\<close>

text \<open>
  A \<open>ResourceList\<close>: the specification of a new item (the zero value of its type, which also
  gives the type of the items), the items, and the pagination.
\<close>

record ResourceList =
  rl_NewSpec :: ResourceSpec
  rl_Items :: "AnyResource list"
  rl_NextOffset :: string

definition GetItemType :: "ResourceList \<Rightarrow> string" where
  "GetItemType l = spec_type (rl_NewSpec l)"

definition NewItem :: "ResourceList \<Rightarrow> AnyResource" where
  "NewItem l = \<lparr>Meta = None, Spec = rl_NewSpec l\<rparr>"

definition AddItem :: "AnyResource \<Rightarrow> ResourceList \<Rightarrow> go_error option \<times> ResourceList" where
  "AddItem r l =
     (if GetType r = GetItemType l then (None, l\<lparr>rl_Items := rl_Items l @ [r]\<rparr>)
      else (Some (ErrString (''Invalid argument type: expected='' @ quote (''*mesh.'' @ GetItemType l @ ''Resource'') @
              '' got='' @ quote (''*mesh.'' @ GetType r @ ''Resource''))), l))"

definition new_list :: "ResourceSpec \<Rightarrow> ResourceList" where
  "new_list s = \<lparr>rl_NewSpec = s, rl_Items = [], rl_NextOffset = ''''\<rparr>"

text \<open>The zero values of the specifications, which \<open>NewItem\<close> returns.\<close>

definition zero_specs :: "ResourceSpec list" where
  "zero_specs =
     [MeshSpec \<lparr>mesh_Mtls = None, mesh_Tracing = None, mesh_Logging = None, mesh_Metrics = None\<rparr>,
      DataplaneSpec \<lparr>dp_Networking = None, dp_Metrics = None\<rparr>,
      DataplaneInsightSpec \<lparr>di_Subscriptions = []\<rparr>,
      TrafficPermissionSpec \<lparr>tp_Sources = [], tp_Destinations = []\<rparr>,
      TrafficRouteSpec \<lparr>tr_Sources = [], tr_Destinations = [], tr_Conf = []\<rparr>,
      TrafficLogSpec \<lparr>tl_Sources = [], tl_Destinations = [], tl_Conf = None\<rparr>,
      TrafficTraceSpec \<lparr>tt_Selectors = [], tt_Conf = None\<rparr>,
      HealthCheckSpec \<lparr>hc_Sources = [], hc_Destinations = [], hc_Conf = None\<rparr>,
      FaultInjectionSpec \<lparr>fi_Sources = [], fi_Destinations = [], fi_Conf = None\<rparr>,
      ProxyTemplateSpec \<lparr>pt_Selectors = [], pt_Conf = None\<rparr>,
      SecretSpec None]"

section \<open>The type registry\<close>

text \<open>
  \<open>RegistryListType\<close> registers a list type under the type of its items; a duplicate is an error.
  The registry is given by the zero specification registered for each type.
\<close>

type_synonym typeRegistry = "(string, ResourceSpec) gomap"

definition RegisterListType :: "ResourceSpec \<Rightarrow> typeRegistry \<Rightarrow> go_error + typeRegistry" where
  "RegisterListType s reg =
     (case map_of reg (spec_type s) of
        Some previous \<Rightarrow>
          Inl (ErrString (''duplicate registration of ResourceType under name '' @ quote (spec_type s)))
      | None \<Rightarrow> Inr (gput (spec_type s) s reg))"

definition ListTypes :: "typeRegistry \<Rightarrow> string list" where
  "ListTypes reg = map fst reg"

definition NewList :: "string \<Rightarrow> typeRegistry \<Rightarrow> go_error + ResourceList" where
  "NewList resType reg =
     (case map_of reg resType of
        None \<Rightarrow> Inl (ErrString ''invalid type of resource type'')
      | Some s \<Rightarrow> Inr (new_list s))"

end
