(* ===== verification/Resource_Store.thy ===== *)
theory Resource_Store
  imports Resource_Specs
begin

text \<open>
  Stores of resources: the options of \<open>pkg/core/resources/store/options.go\<close>, the contract checks
  and errors of \<open>store.go\<close>, and the in-memory store of \<open>pkg/plugins/resources/memory/store.go\<close>.
  Each operation returns an error (or \<open>None\<close>) with the values it changed.  The operations of the
  memory store refine operations on a map from keys to records, under the invariant that keys are
  unique; from this follow the laws of the interface \<open>resource_store\<close> and the theorems on
  versions and on pagination.
\<close>

section \<open>Options\<close>

record CreateOptions =
  co_Name :: string
  co_Mesh :: string
  co_CreationTime :: gotime

record UpdateOptions =
  uo_ModificationTime :: gotime

record DeleteOptions =
  do_Name :: string
  do_Mesh :: string

record DeleteAllOptions =
  dao_Mesh :: string

record GetOptions =
  go_Name :: string
  go_Mesh :: string
  go_Version :: string

record ListOptions =
  lo_Mesh :: string
  lo_PageSize :: int
  lo_PageOffset :: string

text \<open>The constructors apply a list of option functions to the zero value.\<close>

definition NewCreateOptions :: "(CreateOptions \<Rightarrow> CreateOptions) list \<Rightarrow> CreateOptions" where
  "NewCreateOptions fs = fold (\<lambda>f. f) fs \<lparr>co_Name = '''', co_Mesh = '''', co_CreationTime = 0\<rparr>"

definition CreateByKey :: "string \<Rightarrow> string \<Rightarrow> CreateOptions \<Rightarrow> CreateOptions" where
  "CreateByKey name mesh opts = opts\<lparr>co_Name := name, co_Mesh := mesh\<rparr>"

definition CreateBy :: "ResourceKey \<Rightarrow> CreateOptions \<Rightarrow> CreateOptions" where
  "CreateBy key = CreateByKey (key_Name key) (key_Mesh key)"

definition CreatedAt :: "gotime \<Rightarrow> CreateOptions \<Rightarrow> CreateOptions" where
  "CreatedAt creationTime opts = opts\<lparr>co_CreationTime := creationTime\<rparr>"

definition NewUpdateOptions :: "(UpdateOptions \<Rightarrow> UpdateOptions) list \<Rightarrow> UpdateOptions" where
  "NewUpdateOptions fs = fold (\<lambda>f. f) fs \<lparr>uo_ModificationTime = 0\<rparr>"

definition ModifiedAt :: "gotime \<Rightarrow> UpdateOptions \<Rightarrow> UpdateOptions" where
  "ModifiedAt modificationTime opts = opts\<lparr>uo_ModificationTime := modificationTime\<rparr>"

definition NewDeleteOptions :: "(DeleteOptions \<Rightarrow> DeleteOptions) list \<Rightarrow> DeleteOptions" where
  "NewDeleteOptions fs = fold (\<lambda>f. f) fs \<lparr>do_Name = '''', do_Mesh = ''''\<rparr>"

definition DeleteByKey :: "string \<Rightarrow> string \<Rightarrow> DeleteOptions \<Rightarrow> DeleteOptions" where
  "DeleteByKey name mesh opts = opts\<lparr>do_Name := name, do_Mesh := mesh\<rparr>"

definition DeleteBy :: "ResourceKey \<Rightarrow> DeleteOptions \<Rightarrow> DeleteOptions" where
  "DeleteBy key = DeleteByKey (key_Name key) (key_Mesh key)"

definition NewDeleteAllOptions :: "(DeleteAllOptions \<Rightarrow> DeleteAllOptions) list \<Rightarrow> DeleteAllOptions" where
  "NewDeleteAllOptions fs = fold (\<lambda>f. f) fs \<lparr>dao_Mesh = ''''\<rparr>"

definition DeleteAllByMesh :: "string \<Rightarrow> DeleteAllOptions \<Rightarrow> DeleteAllOptions" where
  "DeleteAllByMesh mesh opts = opts\<lparr>dao_Mesh := mesh\<rparr>"

definition NewGetOptions :: "(GetOptions \<Rightarrow> GetOptions) list \<Rightarrow> GetOptions" where
  "NewGetOptions fs = fold (\<lambda>f. f) fs \<lparr>go_Name = '''', go_Mesh = '''', go_Version = ''''\<rparr>"

definition GetByKey :: "string \<Rightarrow> string \<Rightarrow> GetOptions \<Rightarrow> GetOptions" where
  "GetByKey name mesh opts = opts\<lparr>go_Name := name, go_Mesh := mesh\<rparr>"

definition GetBy :: "ResourceKey \<Rightarrow> GetOptions \<Rightarrow> GetOptions" where
  "GetBy key = GetByKey (key_Name key) (key_Mesh key)"

definition GetByVersion :: "string \<Rightarrow> GetOptions \<Rightarrow> GetOptions" where
  "GetByVersion version opts = opts\<lparr>go_Version := version\<rparr>"

definition GetOptions_HashCode :: "GetOptions \<Rightarrow> string" where
  "GetOptions_HashCode g = go_Name g @ '':'' @ go_Mesh g"

definition NewListOptions :: "(ListOptions \<Rightarrow> ListOptions) list \<Rightarrow> ListOptions" where
  "NewListOptions fs = fold (\<lambda>f. f) fs \<lparr>lo_Mesh = '''', lo_PageSize = 0, lo_PageOffset = ''''\<rparr>"

definition ListByMesh :: "string \<Rightarrow> ListOptions \<Rightarrow> ListOptions" where
  "ListByMesh mesh opts = opts\<lparr>lo_Mesh := mesh\<rparr>"

definition ListByPage :: "int \<Rightarrow> string \<Rightarrow> ListOptions \<Rightarrow> ListOptions" where
  "ListByPage pageSize offset opts = opts\<lparr>lo_PageSize := pageSize, lo_PageOffset := offset\<rparr>"

definition ListOptions_HashCode :: "ListOptions \<Rightarrow> string" where
  "ListOptions_HashCode l = lo_Mesh l"

section \<open>Errors\<close>

definition resource_error :: "string \<Rightarrow> string \<Rightarrow> string \<Rightarrow> string \<Rightarrow> go_error" where
  "resource_error what rt name mesh =
     ErrString (what @ '': type='' @ quote rt @ '' name='' @ quote name @ '' mesh='' @ quote mesh)"

definition ErrorResourceNotFound :: "string \<Rightarrow> string \<Rightarrow> string \<Rightarrow> go_error" where
  "ErrorResourceNotFound = resource_error ''Resource not found''"

definition ErrorResourceAlreadyExists :: "string \<Rightarrow> string \<Rightarrow> string \<Rightarrow> go_error" where
  "ErrorResourceAlreadyExists = resource_error ''Resource already exists''"

definition ErrorResourceConflict :: "string \<Rightarrow> string \<Rightarrow> string \<Rightarrow> go_error" where
  "ErrorResourceConflict = resource_error ''Resource conflict''"

definition ErrorResourcePreconditionFailed :: "string \<Rightarrow> string \<Rightarrow> string \<Rightarrow> go_error" where
  "ErrorResourcePreconditionFailed = resource_error ''Resource precondition failed''"

definition ErrorInvalidOffset :: go_error where
  "ErrorInvalidOffset = ErrString ''invalid offset''"

text \<open>\<open>strings.HasPrefix\<close>.\<close>

definition has_prefix :: "string \<Rightarrow> string \<Rightarrow> bool" where
  "has_prefix p s = (take (length p) s = p)"

definition IsResourceNotFound :: "go_error option \<Rightarrow> bool" where
  "IsResourceNotFound err =
     (case err of None \<Rightarrow> False | Some e \<Rightarrow> has_prefix ''Resource not found'' (error_text e))"

definition IsResourcePreconditionFailed :: "go_error option \<Rightarrow> bool" where
  "IsResourcePreconditionFailed err =
     (case err of None \<Rightarrow> False | Some e \<Rightarrow> has_prefix ''Resource precondition failed'' (error_text e))"

section \<open>The memory store\<close>

record memoryStoreRecord =
  rec_ResourceType :: string
  rec_Name :: string
  rec_Mesh :: string
  rec_Version :: u64
  rec_Spec :: string
  rec_CreationTime :: gotime
  rec_ModificationTime :: gotime

type_synonym memoryStore = "memoryStoreRecord list"

text \<open>
  \<open>util_proto.ToJSON\<close> and \<open>util_proto.FromJSON\<close> call the JSON codec of the protobuf library, which
  is a parameter; \<open>FromJSON\<close> reads into an existing message.
\<close>

record codec =
  ToJSON :: "ResourceSpec \<Rightarrow> go_error + string"
  FromJSON :: "string \<Rightarrow> ResourceSpec \<Rightarrow> go_error + ResourceSpec"

definition initialVersion :: u64 where "initialVersion = 1"

definition memoryVersion_Next :: "u64 \<Rightarrow> u64" where "memoryVersion_Next v = v + 1"

fun find_record_loop ::
  "nat \<Rightarrow> memoryStore \<Rightarrow> string \<Rightarrow> string \<Rightarrow> string \<Rightarrow> (nat \<times> memoryStoreRecord) option" where
  "find_record_loop idx [] resourceType name mesh = None"
| "find_record_loop idx (rec # rest) resourceType name mesh =
     (if rec_ResourceType rec = resourceType \<and> rec_Name rec = name \<and> rec_Mesh rec = mesh
      then Some (idx, rec)
      else find_record_loop (Suc idx) rest resourceType name mesh)"

text \<open>\<open>findRecord\<close>: \<open>None\<close> stands for the pair \<open>-1, nil\<close>.\<close>

definition findRecord ::
  "memoryStore \<Rightarrow> string \<Rightarrow> string \<Rightarrow> string \<Rightarrow> (nat \<times> memoryStoreRecord) option" where
  "findRecord c resourceType name mesh = find_record_loop 0 c resourceType name mesh"

definition findRecords :: "memoryStore \<Rightarrow> string \<Rightarrow> string \<Rightarrow> memoryStoreRecord list" where
  "findRecords c resourceType mesh =
     filter (\<lambda>rec. rec_ResourceType rec = resourceType \<and> (mesh = '''' \<or> rec_Mesh rec = mesh)) c"

definition marshalRecord ::
  "codec \<Rightarrow> string \<Rightarrow> memoryMeta \<Rightarrow> ResourceSpec \<Rightarrow> go_error + memoryStoreRecord" where
  "marshalRecord cd resourceType meta spec =
     bindE (ToJSON cd spec) (\<lambda>content.
       Inr \<lparr>rec_ResourceType = resourceType, rec_Name = mm_Name meta, rec_Mesh = mm_Mesh meta,
            rec_Version = mm_Version meta, rec_Spec = content,
            rec_CreationTime = mm_CreationTime meta, rec_ModificationTime = mm_ModificationTime meta\<rparr>)"

definition record_meta :: "memoryStoreRecord \<Rightarrow> memoryMeta" where
  "record_meta s =
     \<lparr>mm_Name = rec_Name s, mm_Mesh = rec_Mesh s, mm_Version = rec_Version s,
      mm_CreationTime = rec_CreationTime s, mm_ModificationTime = rec_ModificationTime s\<rparr>"

definition unmarshalRecord ::
  "codec \<Rightarrow> memoryStoreRecord \<Rightarrow> AnyResource \<Rightarrow> go_error option \<times> AnyResource" where
  "unmarshalRecord cd s r =
     (let r = r\<lparr>Meta := Some (MemoryMeta (record_meta s))\<rparr> in
      case FromJSON cd (rec_Spec s) (Spec r) of
        Inl e \<Rightarrow> (Some e, r)
      | Inr spec \<Rightarrow> (None, r\<lparr>Spec := spec\<rparr>))"

definition mem_Create ::
  "codec \<Rightarrow> AnyResource \<Rightarrow> (CreateOptions \<Rightarrow> CreateOptions) list \<Rightarrow> memoryStore \<Rightarrow>
   go_error option \<times> AnyResource \<times> memoryStore" where
  "mem_Create cd r fs c =
     (let opts = NewCreateOptions fs;
          opts = (if GetType r = MeshType then opts\<lparr>co_Mesh := co_Name opts\<rparr> else opts)
      in case findRecord c (GetType r) (co_Name opts) (co_Mesh opts) of
           Some _ \<Rightarrow> (Some (ErrorResourceAlreadyExists (GetType r) (co_Name opts) (co_Mesh opts)), r, c)
         | None \<Rightarrow>
             (let meta = \<lparr>mm_Name = co_Name opts, mm_Mesh = co_Mesh opts, mm_Version = initialVersion,
                          mm_CreationTime = co_CreationTime opts, mm_ModificationTime = co_CreationTime opts\<rparr>;
                  r = r\<lparr>Meta := Some (MemoryMeta meta)\<rparr>
              in case marshalRecord cd (GetType r) meta (Spec r) of
                   Inl err \<Rightarrow> (Some err, r, c)
                 | Inr record \<Rightarrow> (None, r, c @ [record])))"

definition mem_Update ::
  "codec \<Rightarrow> AnyResource \<Rightarrow> (UpdateOptions \<Rightarrow> UpdateOptions) list \<Rightarrow> memoryStore \<Rightarrow>
   go_error option \<times> memoryStore" where
  "mem_Update cd r fs c =
     (let opts = NewUpdateOptions fs in
      case Meta r of
        Some (MemoryMeta meta) \<Rightarrow>
          (let conflict = (Some (ErrorResourceConflict (GetType r) (mm_Name meta) (mm_Mesh meta)), c) in
           case findRecord c (GetType r) (mm_Name meta) (mm_Mesh meta) of
             None \<Rightarrow> conflict
           | Some (idx, record) \<Rightarrow>
               if mm_Version meta \<noteq> rec_Version record then conflict
               else (let meta = meta\<lparr>mm_Version := memoryVersion_Next (mm_Version meta),
                                     mm_ModificationTime := uo_ModificationTime opts\<rparr>
                     in case marshalRecord cd (GetType r) meta (Spec r) of
                          Inl err \<Rightarrow> (Some err, c)
                        | Inr record \<Rightarrow> (None, c[idx := record])))
      | _ \<Rightarrow> (Some (ErrString ''MemoryStore.Update() requires r.GetMeta() to be of type memoryMeta''), c))"

definition mem_Delete ::
  "AnyResource \<Rightarrow> (DeleteOptions \<Rightarrow> DeleteOptions) list \<Rightarrow> memoryStore \<Rightarrow>
   go_error option \<times> memoryStore" where
  "mem_Delete r fs c =
     (let opts = NewDeleteOptions fs in
      case Meta r of
        Some (ForeignMeta _) \<Rightarrow>
          (Some (ErrString ''MemoryStore.Delete() requires r.GetMeta() either to be nil or to be of type memoryMeta''), c)
      | _ \<Rightarrow>
          (case findRecord c (GetType r) (do_Name opts) (do_Mesh opts) of
             None \<Rightarrow> (Some (ErrorResourceNotFound (GetType r) (do_Name opts) (do_Mesh opts)), c)
           | Some (idx, record) \<Rightarrow> (None, take idx c @ drop (Suc idx) c)))"

definition mem_Get ::
  "codec \<Rightarrow> AnyResource \<Rightarrow> (GetOptions \<Rightarrow> GetOptions) list \<Rightarrow> memoryStore \<Rightarrow>
   go_error option \<times> AnyResource" where
  "mem_Get cd r fs c =
     (let opts = NewGetOptions fs;
          opts = (if GetType r = MeshType then opts\<lparr>go_Mesh := go_Name opts\<rparr> else opts)
      in case findRecord c (GetType r) (go_Name opts) (go_Mesh opts) of
           None \<Rightarrow> (Some (ErrorResourceNotFound (GetType r) (go_Name opts) (go_Mesh opts)), r)
         | Some (idx, record) \<Rightarrow>
             if go_Version opts \<noteq> '''' \<and> go_Version opts \<noteq> memoryVersion_String (rec_Version record)
             then (Some (ErrorResourcePreconditionFailed (GetType r) (go_Name opts) (go_Mesh opts)), r)
             else unmarshalRecord cd record r)"

text \<open>Addition of Go's 64-bit \<open>int\<close>, which wraps.\<close>

definition add_int :: "int \<Rightarrow> int \<Rightarrow> int" where
  "add_int a b = sint (word_of_int (a + b) :: 64 word)"

text \<open>
  The loop of \<open>List\<close> from index \<open>i\<close>; a negative index into \<open>records\<close> panics.  \<open>AddItem\<close> of an item
  made by \<open>NewItem\<close> cannot fail, and its result is not looked at.
\<close>

function list_loop ::
  "codec \<Rightarrow> memoryStoreRecord list \<Rightarrow> int \<Rightarrow> int \<Rightarrow> ResourceList \<Rightarrow> go_error option \<times> ResourceList" where
  "list_loop cd records end_idx i rs =
     (if i < end_idx \<and> i < int (length records)
      then if i < 0 then (Some (ErrPanic ''index out of range''), rs)
           else (case unmarshalRecord cd (records ! nat i) (NewItem rs) of
                   (Some err, _) \<Rightarrow> (Some err, rs)
                 | (None, r) \<Rightarrow> list_loop cd records end_idx (i + 1) (snd (AddItem r rs)))
      else (None, rs))"
  by pat_completeness auto
termination
  by (relation "measure (\<lambda>(cd, records, e, i, rs). nat (int (length records) - i))") auto

declare list_loop.simps [simp del]

definition mem_List ::
  "codec \<Rightarrow> ResourceList \<Rightarrow> (ListOptions \<Rightarrow> ListOptions) list \<Rightarrow> memoryStore \<Rightarrow>
   go_error option \<times> ResourceList" where
  "mem_List cd rs fs c =
     (let opts = NewListOptions fs;
          records = findRecords c (GetItemType rs) (lo_Mesh opts);
          paginateResults = lo_PageSize opts \<noteq> 0;
          pageSize = (if paginateResults then lo_PageSize opts else int (length records))
      in case (if paginateResults \<and> lo_PageOffset opts \<noteq> '''' then atoi (lo_PageOffset opts) else Inr 0) of
           Inl _ \<Rightarrow> (Some ErrorInvalidOffset, rs)
         | Inr offset \<Rightarrow>
             (case list_loop cd records (add_int offset pageSize) offset rs of
                (Some err, rs) \<Rightarrow> (Some err, rs)
              | (None, rs) \<Rightarrow>
                  (None,
                   if paginateResults
                   then rs\<lparr>rl_NextOffset :=
                             (if add_int offset pageSize < int (length records)
                              then format_int (add_int offset (lo_PageSize opts)) else '''')\<rparr>
                   else rs)))"

section \<open>The interface of stores\<close>

text \<open>The interface \<open>ResourceStore\<close>, over a state \<open>'s\<close>; a call that fills its argument returns it.\<close>

record 's ResourceStore =
  st_Create :: "AnyResource \<Rightarrow> (CreateOptions \<Rightarrow> CreateOptions) list \<Rightarrow> 's \<Rightarrow>
    go_error option \<times> AnyResource \<times> 's"
  st_Update :: "AnyResource \<Rightarrow> (UpdateOptions \<Rightarrow> UpdateOptions) list \<Rightarrow> 's \<Rightarrow> go_error option \<times> 's"
  st_Delete :: "AnyResource \<Rightarrow> (DeleteOptions \<Rightarrow> DeleteOptions) list \<Rightarrow> 's \<Rightarrow> go_error option \<times> 's"
  st_Get :: "AnyResource \<Rightarrow> (GetOptions \<Rightarrow> GetOptions) list \<Rightarrow> 's \<Rightarrow> go_error option \<times> AnyResource"
  st_List :: "ResourceList \<Rightarrow> (ListOptions \<Rightarrow> ListOptions) list \<Rightarrow> 's \<Rightarrow> go_error option \<times> ResourceList"

definition memory_store :: "codec \<Rightarrow> memoryStore ResourceStore" where
  "memory_store cd =
     \<lparr>st_Create = mem_Create cd, st_Update = mem_Update cd, st_Delete = mem_Delete,
      st_Get = mem_Get cd, st_List = mem_List cd\<rparr>"

text \<open>
  \<open>strictResourceStore\<close> checks the contract between a store and its users before it delegates.
  The resource is \<open>None\<close> when the caller passes \<open>nil\<close>.
\<close>

definition strict_Create ::
  "'s ResourceStore \<Rightarrow> AnyResource option \<Rightarrow> (CreateOptions \<Rightarrow> CreateOptions) list \<Rightarrow> 's \<Rightarrow>
   go_error option \<times> AnyResource option \<times> 's" where
  "strict_Create delegate r fs s =
     (case r of
        None \<Rightarrow> (Some (ErrString ''ResourceStore.Create() requires a non-nil resource''), r, s)
      | Some res \<Rightarrow>
          if Meta res \<noteq> None
          then (Some (ErrString ''ResourceStore.Create() ignores resource.GetMeta() but the argument has a non-nil value''), r, s)
          else (let opts = NewCreateOptions fs in
                if co_Name opts = ''''
                then (Some (ErrString ''ResourceStore.Create() requires options.Name to be a non-empty value''), r, s)
                else if co_Mesh opts = ''''
                then (Some (ErrString ''ResourceStore.Create() requires options.Mesh to be a non-empty value''), r, s)
                else (case st_Create delegate res fs s of (e, res', s') \<Rightarrow> (e, Some res', s'))))"

definition strict_Update ::
  "'s ResourceStore \<Rightarrow> AnyResource option \<Rightarrow> (UpdateOptions \<Rightarrow> UpdateOptions) list \<Rightarrow> 's \<Rightarrow>
   go_error option \<times> 's" where
  "strict_Update delegate r fs s =
     (case r of
        None \<Rightarrow> (Some (ErrString ''ResourceStore.Update() requires a non-nil resource''), s)
      | Some res \<Rightarrow>
          if Meta res = None
          then (Some (ErrString ''ResourceStore.Update() requires resource.GetMeta() to be a non-nil value previously returned by ResourceStore.Get()''), s)
          else st_Update delegate res fs s)"

definition strict_Delete ::
  "'s ResourceStore \<Rightarrow> AnyResource option \<Rightarrow> (DeleteOptions \<Rightarrow> DeleteOptions) list \<Rightarrow> 's \<Rightarrow>
   go_error option \<times> 's" where
  "strict_Delete delegate r fs s =
     (case r of
        None \<Rightarrow> (Some (ErrString ''ResourceStore.Delete() requires a non-nil resource''), s)
      | Some res \<Rightarrow>
          (let opts = NewDeleteOptions fs in
           if do_Name opts = ''''
           then (Some (ErrString ''ResourceStore.Delete() requires options.Name to be a non-empty value''), s)
           else if do_Mesh opts = ''''
           then (Some (ErrString ''ResourceStore.Delete() requires options.Mesh to be a non-empty value''), s)
           else (case Meta res of
                   None \<Rightarrow> st_Delete delegate res fs s
                 | Some m \<Rightarrow>
                     if do_Name opts \<noteq> meta_GetName m
                     then (Some (ErrString ''ResourceStore.Delete() requires resource.GetMeta() either to be a nil or resource.GetMeta().GetName() == options.Name''), s)
                     else if do_Mesh opts \<noteq> meta_GetMesh m
                     then (Some (ErrString ''ResourceStore.Delete() requires resource.GetMeta() either to be a nil or resource.GetMeta().GetMesh() == options.Mesh''), s)
                     else st_Delete delegate res fs s)))"

definition strict_Get ::
  "'s ResourceStore \<Rightarrow> AnyResource option \<Rightarrow> (GetOptions \<Rightarrow> GetOptions) list \<Rightarrow> 's \<Rightarrow>
   go_error option \<times> AnyResource option" where
  "strict_Get delegate r fs s =
     (case r of
        None \<Rightarrow> (Some (ErrString ''ResourceStore.Get() requires a non-nil resource''), r)
      | Some res \<Rightarrow>
          if Meta res \<noteq> None
          then (Some (ErrString ''ResourceStore.Get() ignores resource.GetMeta() but the argument has a non-nil value''), r)
          else (let opts = NewGetOptions fs in
                if go_Name opts = ''''
                then (Some (ErrString ''ResourceStore.Get() requires options.Name to be a non-empty value''), r)
                else if go_Mesh opts = ''''
                then (Some (ErrString ''ResourceStore.Get() requires options.Mesh to be a non-empty value''), r)
                else (case st_Get delegate res fs s of (e, res') \<Rightarrow> (e, Some res'))))"

definition strict_List ::
  "'s ResourceStore \<Rightarrow> ResourceList option \<Rightarrow> (ListOptions \<Rightarrow> ListOptions) list \<Rightarrow> 's \<Rightarrow>
   go_error option \<times> ResourceList option" where
  "strict_List delegate rs fs s =
     (case rs of
        None \<Rightarrow> (Some (ErrString ''ResourceStore.List() requires a non-nil resource list''), rs)
      | Some l \<Rightarrow> (case st_List delegate l fs s of (e, l') \<Rightarrow> (e, Some l')))"

section \<open>The memory store as a map\<close>

type_synonym store_key = "string \<times> string \<times> string"

definition rec_key :: "memoryStoreRecord \<Rightarrow> store_key" where
  "rec_key rec = (rec_ResourceType rec, rec_Name rec, rec_Mesh rec)"

definition unique_keys :: "memoryStore \<Rightarrow> bool" where
  "unique_keys c \<longleftrightarrow> distinct (map rec_key c)"

text \<open>The abstraction: the record stored under a key.\<close>

definition mem_abs :: "memoryStore \<Rightarrow> store_key \<Rightarrow> memoryStoreRecord option" where
  "mem_abs c = map_of (map (\<lambda>rec. (rec_key rec, rec)) c)"

lemma find_record_loop_ge: "find_record_loop i c t n m = Some (k, rec) \<Longrightarrow> i \<le> k"
  by (induction c arbitrary: i) (auto split: if_splits dest: Suc_leD)

lemma find_record_loop_iff:
  "find_record_loop i c t n m = Some (i + k, rec) \<longleftrightarrow>
     k < length c \<and> c ! k = rec \<and> rec_key rec = (t, n, m) \<and> (\<forall>j < k. rec_key (c ! j) \<noteq> (t, n, m))"
proof (induction c arbitrary: i k)
  case Nil
  then show ?case by simp
next
  case (Cons a c)
  show ?case
  proof (cases k)
    case 0
    then show ?thesis by (auto simp: rec_key_def dest: find_record_loop_ge)
  next
    case (Suc j)
    then show ?thesis using Cons [of "Suc i" j] by (auto simp: All_less_Suc2 rec_key_def)
  qed
qed

lemma findRecord_Some:
  "findRecord c t n m = Some (k, rec) \<longleftrightarrow>
     k < length c \<and> c ! k = rec \<and> rec_key rec = (t, n, m) \<and> (\<forall>j < k. rec_key (c ! j) \<noteq> (t, n, m))"
  using find_record_loop_iff [of 0] by (simp add: findRecord_def)

lemma findRecord_abs: "map_option snd (findRecord c t n m) = mem_abs c (t, n, m)"
proof -
  have "map_option snd (find_record_loop i c t n m) = mem_abs c (t, n, m)" for i
    by (induction c arbitrary: i) (auto simp: mem_abs_def rec_key_def)
  then show ?thesis by (simp add: findRecord_def)
qed

lemma findRecord_None: "findRecord c t n m = None \<longleftrightarrow> mem_abs c (t, n, m) = None"
  by (metis findRecord_abs map_option_is_None)

lemma mem_abs_key: "mem_abs c k = Some rec \<Longrightarrow> rec \<in> set c \<and> rec_key rec = k"
  by (auto simp: mem_abs_def dest!: map_of_SomeD)

lemma mem_abs_member: "unique_keys c \<Longrightarrow> rec \<in> set c \<Longrightarrow> mem_abs c (rec_key rec) = Some rec"
  unfolding mem_abs_def unique_keys_def by (intro map_of_is_SomeI) (auto simp: comp_def)

lemma mem_abs_None: "mem_abs c k = None \<longleftrightarrow> k \<notin> rec_key ` set c"
  by (force simp: mem_abs_def map_of_eq_None_iff)

lemma mem_abs_append: "mem_abs (c @ [rec]) = (mem_abs c)(rec_key rec := (case mem_abs c (rec_key rec) of None \<Rightarrow> Some rec | Some r \<Rightarrow> Some r))"
  by (rule ext) (auto simp: mem_abs_def map_add_def split: option.split)

lemma mem_abs_update:
  assumes "unique_keys c" and "k < length c" and "rec_key rec = rec_key (c ! k)"
  shows "unique_keys (c[k := rec]) \<and> mem_abs (c[k := rec]) = (mem_abs c)(rec_key rec \<mapsto> rec)"
proof -
  have keys: "map rec_key (c[k := rec]) = map rec_key c"
    using assms(3) by (metis list_update_id map_update)
  then have uk: "unique_keys (c[k := rec])" using assms(1) by (simp add: unique_keys_def)
  have "mem_abs (c[k := rec]) key = ((mem_abs c)(rec_key rec \<mapsto> rec)) key" for key
  proof (cases "key \<in> rec_key ` set c")
    case True
    then obtain j where j: "j < length c" "key = rec_key (c ! j)" by (metis imageE in_set_conv_nth)
    have "mem_abs (c[k := rec]) (rec_key (c[k := rec] ! j)) = Some (c[k := rec] ! j)"
      using mem_abs_member [OF uk] j by simp
    moreover have "rec_key (c[k := rec] ! j) = key" using j assms by (cases "j = k") auto
    moreover have "j = k" if "key = rec_key rec"
      using that j assms nth_eq_iff_index_eq [of "map rec_key c" j k] by (simp add: unique_keys_def)
    moreover have "mem_abs c key = Some (c ! j)" using mem_abs_member [OF assms(1)] j by simp
    moreover have "key \<noteq> rec_key rec" if "j \<noteq> k" using that calculation(3) by blast
    ultimately show ?thesis using assms(2,3) j by (cases "j = k") auto
  next
    case False
    then have "key \<noteq> rec_key rec" using assms(2,3) by (metis imageI nth_mem)
    moreover have "mem_abs (c[k := rec]) key = None"
      using False keys by (metis mem_abs_None list.set_map)
    moreover have "mem_abs c key = None" using False by (simp add: mem_abs_None)
    ultimately show ?thesis by simp
  qed
  then show ?thesis using uk by auto
qed

lemma mem_abs_delete:
  assumes "unique_keys c" and "k < length c"
  shows "unique_keys (take k c @ drop (Suc k) c) \<and>
    mem_abs (take k c @ drop (Suc k) c) = (mem_abs c)(rec_key (c ! k) := None)"
proof -
  have c: "c = take k c @ c ! k # drop (Suc k) c" using assms(2) by (rule id_take_nth_drop)
  have "distinct (map rec_key (take k c @ c ! k # drop (Suc k) c))"
    using assms(1) c by (metis unique_keys_def)
  then have uk: "unique_keys (take k c @ drop (Suc k) c)"
    and out: "rec_key (c ! k) \<notin> rec_key ` set (take k c @ drop (Suc k) c)"
    by (auto simp: unique_keys_def)
  have "mem_abs (take k c @ drop (Suc k) c) key = ((mem_abs c)(rec_key (c ! k) := None)) key" for key
  proof (cases "key = rec_key (c ! k)")
    case True
    then show ?thesis using out by (simp add: mem_abs_None)
  next
    case False
    have "mem_abs (take k c @ c ! k # drop (Suc k) c) key = mem_abs (take k c @ drop (Suc k) c) key"
      using False by (simp add: mem_abs_def map_add_def split: option.split)
    then show ?thesis using False c by simp
  qed
  then show ?thesis using uk by auto
qed

section \<open>Operations on the map\<close>

text \<open>
  What each operation does to the abstraction: a successful \<open>Create\<close> adds a key that was absent, a
  successful \<open>Update\<close> replaces the record that has the version of its argument, a successful
  \<open>Delete\<close> removes a key; a failing operation changes nothing.
\<close>

definition create_key :: "AnyResource \<Rightarrow> CreateOptions \<Rightarrow> store_key" where
  "create_key r opts =
     (GetType r, co_Name opts, if GetType r = MeshType then co_Name opts else co_Mesh opts)"

definition created_record :: "AnyResource \<Rightarrow> CreateOptions \<Rightarrow> string \<Rightarrow> memoryStoreRecord" where
  "created_record r opts content =
     \<lparr>rec_ResourceType = GetType r, rec_Name = co_Name opts, rec_Mesh = snd (snd (create_key r opts)),
      rec_Version = 1, rec_Spec = content,
      rec_CreationTime = co_CreationTime opts, rec_ModificationTime = co_CreationTime opts\<rparr>"

lemma GetType_Meta [simp]: "GetType (r\<lparr>Meta := m\<rparr>) = GetType r"
  by (simp add: GetType_def)

lemma mem_Create_cases:
  assumes "mem_Create cd r fs c = (e, r', c')"
  obtains (exists) "mem_abs c (create_key r (NewCreateOptions fs)) \<noteq> None" "c' = c" "r' = r"
      "e = Some (ErrorResourceAlreadyExists (fst (create_key r (NewCreateOptions fs)))
         (fst (snd (create_key r (NewCreateOptions fs)))) (snd (snd (create_key r (NewCreateOptions fs)))))"
    | (codec) err where "ToJSON cd (Spec r) = Inl err" "e = Some err" "c' = c" "Spec r' = Spec r"
    | (created) content where "mem_abs c (create_key r (NewCreateOptions fs)) = None"
      "ToJSON cd (Spec r) = Inr content" "e = None" "c' = c @ [created_record r (NewCreateOptions fs) content]"
      "r' = r\<lparr>Meta := Some (MemoryMeta (record_meta (created_record r (NewCreateOptions fs) content)))\<rparr>"
proof -
  let ?o = "NewCreateOptions fs"
  let ?k = "create_key r ?o"
  have key: "findRecord c (GetType r) (co_Name ?o) (if GetType r = MeshType then co_Name ?o else co_Mesh ?o) = None \<longleftrightarrow>
      mem_abs c ?k = None"
    by (simp add: findRecord_None create_key_def)
  show thesis
  proof (cases "mem_abs c ?k")
    case None
    show thesis
    proof (cases "ToJSON cd (Spec r)")
      case (Inl err)
      then show thesis
        using assms None key codec [of err]
        by (auto simp: mem_Create_def Let_def marshalRecord_def split: if_splits)
    next
      case (Inr content)
      then show thesis
        using assms None key created [OF None Inr]
        by (auto simp: mem_Create_def Let_def marshalRecord_def created_record_def record_meta_def
            initialVersion_def create_key_def split: if_splits)
    qed
  next
    case (Some rec)
    then have "mem_abs c ?k \<noteq> None" by simp
    then show thesis
      using assms key exists by (auto simp: mem_Create_def Let_def create_key_def split: if_splits option.splits)
  qed
qed

lemma rec_key_created [simp]: "rec_key (created_record r opts content) = create_key r opts"
  by (simp add: rec_key_def created_record_def create_key_def)

definition update_key :: "AnyResource \<Rightarrow> memoryMeta \<Rightarrow> store_key" where
  "update_key r m = (GetType r, mm_Name m, mm_Mesh m)"

definition updated_record :: "AnyResource \<Rightarrow> memoryMeta \<Rightarrow> gotime \<Rightarrow> string \<Rightarrow> memoryStoreRecord" where
  "updated_record r m t content =
     \<lparr>rec_ResourceType = GetType r, rec_Name = mm_Name m, rec_Mesh = mm_Mesh m,
      rec_Version = mm_Version m + 1, rec_Spec = content,
      rec_CreationTime = mm_CreationTime m, rec_ModificationTime = t\<rparr>"

lemma rec_key_updated [simp]: "rec_key (updated_record r m t content) = update_key r m"
  by (simp add: rec_key_def updated_record_def update_key_def)

lemma mem_Update_cases:
  assumes "mem_Update cd r fs c = (e, c')"
  obtains (failed) err where "e = Some err" "c' = c"
    | (updated) m rec idx content where "Meta r = Some (MemoryMeta m)"
      "findRecord c (GetType r) (mm_Name m) (mm_Mesh m) = Some (idx, rec)" "mm_Version m = rec_Version rec"
      "ToJSON cd (Spec r) = Inr content" "e = None"
      "c' = c[idx := updated_record r m (uo_ModificationTime (NewUpdateOptions fs)) content]"
proof (cases e)
  case None
  then obtain m where m: "Meta r = Some (MemoryMeta m)"
    using assms by (auto simp: mem_Update_def Let_def split: option.splits ResourceMeta.splits)
  then obtain idx rec where rec: "findRecord c (GetType r) (mm_Name m) (mm_Mesh m) = Some (idx, rec)"
    using assms None by (auto simp: mem_Update_def Let_def split: option.splits)
  then show thesis
    using assms None m updated [OF m rec]
    by (auto simp: mem_Update_def Let_def marshalRecord_def bindE_def updated_record_def
        memoryVersion_Next_def split: if_splits sum.splits)
next
  case (Some err)
  then show thesis
    using assms failed
    by (auto simp: mem_Update_def Let_def split: option.splits ResourceMeta.splits if_splits sum.splits)
qed

lemma mem_Delete_cases:
  assumes "mem_Delete r fs c = (e, c')"
  obtains (failed) err where "e = Some err" "c' = c"
    | (deleted) idx rec where "e = None"
      "findRecord c (GetType r) (do_Name (NewDeleteOptions fs)) (do_Mesh (NewDeleteOptions fs)) = Some (idx, rec)"
      "c' = take idx c @ drop (Suc idx) c"
  using assms
  by (auto simp: mem_Delete_def Let_def split: option.splits ResourceMeta.splits intro: that)

lemma mem_Create_abs:
  assumes "unique_keys c" and "mem_Create cd r fs c = (e, r', c')"
  shows "unique_keys c'" and "e \<noteq> None \<Longrightarrow> c' = c"
    and "e = None \<Longrightarrow> \<exists>content. ToJSON cd (Spec r) = Inr content \<and>
      mem_abs c (create_key r (NewCreateOptions fs)) = None \<and>
      mem_abs c' = (mem_abs c)(create_key r (NewCreateOptions fs) \<mapsto> created_record r (NewCreateOptions fs) content)"
proof -
  from assms(2)
  have "unique_keys c' \<and> (e \<noteq> None \<longrightarrow> c' = c) \<and> (e = None \<longrightarrow>
    (\<exists>content. ToJSON cd (Spec r) = Inr content \<and> mem_abs c (create_key r (NewCreateOptions fs)) = None \<and>
      mem_abs c' = (mem_abs c)(create_key r (NewCreateOptions fs) \<mapsto> created_record r (NewCreateOptions fs) content)))"
  proof (cases rule: mem_Create_cases)
    case (created content)
    then have "create_key r (NewCreateOptions fs) \<notin> rec_key ` set c" by (simp add: mem_abs_None)
    then show ?thesis using created assms(1) by (simp add: unique_keys_def mem_abs_append)
  qed (use assms(1) in auto)
  then show "unique_keys c'" "e \<noteq> None \<Longrightarrow> c' = c" "e = None \<Longrightarrow> \<exists>content. ToJSON cd (Spec r) = Inr content \<and>
      mem_abs c (create_key r (NewCreateOptions fs)) = None \<and>
      mem_abs c' = (mem_abs c)(create_key r (NewCreateOptions fs) \<mapsto> created_record r (NewCreateOptions fs) content)"
    by blast+
qed

lemma mem_Update_abs:
  assumes "unique_keys c" and "mem_Update cd r fs c = (e, c')"
  shows "unique_keys c'" and "e \<noteq> None \<Longrightarrow> c' = c"
    and "e = None \<Longrightarrow> \<exists>m rec content. Meta r = Some (MemoryMeta m) \<and> ToJSON cd (Spec r) = Inr content \<and>
      mem_abs c (update_key r m) = Some rec \<and> rec_Version rec = mm_Version m \<and>
      mem_abs c' = (mem_abs c)(update_key r m \<mapsto> updated_record r m (uo_ModificationTime (NewUpdateOptions fs)) content)"
proof -
  from assms(2)
  have "unique_keys c' \<and> (e \<noteq> None \<longrightarrow> c' = c) \<and> (e = None \<longrightarrow>
    (\<exists>m rec content. Meta r = Some (MemoryMeta m) \<and> ToJSON cd (Spec r) = Inr content \<and>
      mem_abs c (update_key r m) = Some rec \<and> rec_Version rec = mm_Version m \<and>
      mem_abs c' = (mem_abs c)(update_key r m \<mapsto> updated_record r m (uo_ModificationTime (NewUpdateOptions fs)) content)))"
  proof (cases rule: mem_Update_cases)
    case (updated m rec idx content)
    let ?new = "updated_record r m (uo_ModificationTime (NewUpdateOptions fs)) content"
    have idx: "idx < length c" "rec_key ?new = rec_key (c ! idx)"
      using updated(2) by (auto simp: findRecord_Some update_key_def)
    have "mem_abs c (update_key r m) = Some rec"
      using updated(2) findRecord_abs [of c "GetType r" "mm_Name m" "mm_Mesh m"] by (simp add: update_key_def)
    then show ?thesis using updated mem_abs_update [OF assms(1) idx] by auto
  qed (use assms(1) in auto)
  then show "unique_keys c'" "e \<noteq> None \<Longrightarrow> c' = c" "e = None \<Longrightarrow> \<exists>m rec content. Meta r = Some (MemoryMeta m) \<and>
      ToJSON cd (Spec r) = Inr content \<and> mem_abs c (update_key r m) = Some rec \<and> rec_Version rec = mm_Version m \<and>
      mem_abs c' = (mem_abs c)(update_key r m \<mapsto> updated_record r m (uo_ModificationTime (NewUpdateOptions fs)) content)"
    by blast+
qed

lemma mem_Delete_abs:
  assumes "unique_keys c" and "mem_Delete r fs c = (e, c')"
  shows "unique_keys c'" and "e \<noteq> None \<Longrightarrow> c' = c"
    and "e = None \<Longrightarrow> mem_abs c (GetType r, do_Name (NewDeleteOptions fs), do_Mesh (NewDeleteOptions fs)) \<noteq> None \<and>
      mem_abs c' = (mem_abs c)((GetType r, do_Name (NewDeleteOptions fs), do_Mesh (NewDeleteOptions fs)) := None)"
proof -
  let ?k = "(GetType r, do_Name (NewDeleteOptions fs), do_Mesh (NewDeleteOptions fs))"
  from assms(2)
  have "unique_keys c' \<and> (e \<noteq> None \<longrightarrow> c' = c) \<and>
    (e = None \<longrightarrow> mem_abs c ?k \<noteq> None \<and> mem_abs c' = (mem_abs c)(?k := None))"
  proof (cases rule: mem_Delete_cases)
    case (deleted idx rec)
    have idx: "idx < length c" "rec_key (c ! idx) = ?k" using deleted(2) by (auto simp: findRecord_Some)
    have "mem_abs c ?k \<noteq> None" using deleted(2) by (metis findRecord_None option.distinct(1))
    then show ?thesis using deleted mem_abs_delete [OF assms(1) idx(1)] idx by auto
  qed (use assms(1) in auto)
  then show "unique_keys c'" "e \<noteq> None \<Longrightarrow> c' = c" "e = None \<Longrightarrow> mem_abs c ?k \<noteq> None \<and> mem_abs c' = (mem_abs c)(?k := None)"
    by blast+
qed

section \<open>What the store holds\<close>

text \<open>
  What is assumed of the JSON codec: reading what was written for a specification into the zero
  value of its type gives the specification back.
\<close>

definition codec_ok :: "codec \<Rightarrow> bool" where
  "codec_ok cd \<longleftrightarrow>
     (\<forall>spec content zero. ToJSON cd spec = Inr content \<longrightarrow> zero \<in> set zero_specs \<longrightarrow>
        spec_type zero = spec_type spec \<longrightarrow> FromJSON cd content zero = Inr spec)"

definition zero_of :: "string \<Rightarrow> ResourceSpec" where
  "zero_of typ = (case find (\<lambda>z. spec_type z = typ) zero_specs of None \<Rightarrow> SecretSpec None | Some z \<Rightarrow> z)"

text \<open>The resource a record stands for.\<close>

definition decode :: "codec \<Rightarrow> memoryStoreRecord \<Rightarrow> AnyResource" where
  "decode cd rec = snd (unmarshalRecord cd rec \<lparr>Meta = None, Spec = zero_of (rec_ResourceType rec)\<rparr>)"

definition record_ok :: "codec \<Rightarrow> memoryStoreRecord \<Rightarrow> bool" where
  "record_ok cd rec \<longleftrightarrow>
     (\<exists>spec. ToJSON cd spec = Inr (rec_Spec rec) \<and> spec_type spec = rec_ResourceType rec)"

definition mem_inv :: "codec \<Rightarrow> memoryStore \<Rightarrow> bool" where
  "mem_inv cd c \<longleftrightarrow> codec_ok cd \<and> unique_keys c \<and> (\<forall>rec \<in> set c. record_ok cd rec)"

definition mem_contents :: "codec \<Rightarrow> memoryStore \<Rightarrow> AnyResource set" where
  "mem_contents cd c = decode cd ` set c"

lemma zero_specs_complete: "zero_of (spec_type spec) \<in> set zero_specs \<and> spec_type (zero_of (spec_type spec)) = spec_type spec"
  by (cases spec) (simp_all add: zero_of_def zero_specs_def MeshType_def SecretType_def)

lemma unmarshal_ok:
  assumes "codec_ok cd" and "ToJSON cd spec = Inr (rec_Spec rec)" and "spec_type spec = rec_ResourceType rec"
    and "Spec r \<in> set zero_specs" and "GetType r = rec_ResourceType rec"
  shows "unmarshalRecord cd rec r = (None, \<lparr>Meta = Some (MemoryMeta (record_meta rec)), Spec = spec\<rparr>)"
proof -
  have "FromJSON cd (rec_Spec rec) (Spec r) = Inr spec"
    using assms unfolding codec_ok_def GetType_def by metis
  then show ?thesis by (simp add: unmarshalRecord_def Let_def)
qed

lemma decode_eq:
  assumes "codec_ok cd" and "ToJSON cd spec = Inr (rec_Spec rec)" and "spec_type spec = rec_ResourceType rec"
  shows "decode cd rec = \<lparr>Meta = Some (MemoryMeta (record_meta rec)), Spec = spec\<rparr>"
  using unmarshal_ok [OF assms, of "\<lparr>Meta = None, Spec = zero_of (rec_ResourceType rec)\<rparr>"]
    zero_specs_complete [of spec] assms(3)
  by (simp add: decode_def GetType_def)

lemma unmarshal_decode:
  assumes "codec_ok cd" and "record_ok cd rec" and "Spec r \<in> set zero_specs" and "GetType r = rec_ResourceType rec"
  shows "unmarshalRecord cd rec r = (None, decode cd rec)" and "GetType (decode cd rec) = rec_ResourceType rec"
    and "Meta (decode cd rec) = Some (MemoryMeta (record_meta rec))"
proof -
  obtain spec where spec: "ToJSON cd spec = Inr (rec_Spec rec)" "spec_type spec = rec_ResourceType rec"
    using assms(2) unfolding record_ok_def by blast
  then show "unmarshalRecord cd rec r = (None, decode cd rec)" "GetType (decode cd rec) = rec_ResourceType rec"
    "Meta (decode cd rec) = Some (MemoryMeta (record_meta rec))"
    using unmarshal_ok [OF assms(1) spec assms(3,4)] decode_eq [OF assms(1) spec] by (simp_all add: GetType_def)
qed

lemma decode_created:
  assumes "codec_ok cd" and "ToJSON cd (Spec r) = Inr content"
  shows "record_ok cd (created_record r opts content) \<and>
    decode cd (created_record r opts content) = r\<lparr>Meta := Some (MemoryMeta (record_meta (created_record r opts content)))\<rparr>"
proof -
  have "ToJSON cd (Spec r) = Inr (rec_Spec (created_record r opts content))"
    "spec_type (Spec r) = rec_ResourceType (created_record r opts content)"
    using assms(2) by (simp_all add: created_record_def GetType_def)
  then show ?thesis using decode_eq [OF assms(1)] unfolding record_ok_def by (cases r) auto
qed

lemma decode_updated:
  assumes "codec_ok cd" and "ToJSON cd (Spec r) = Inr content"
  shows "record_ok cd (updated_record r m t content) \<and> Spec (decode cd (updated_record r m t content)) = Spec r"
proof -
  have "ToJSON cd (Spec r) = Inr (rec_Spec (updated_record r m t content))"
    "spec_type (Spec r) = rec_ResourceType (updated_record r m t content)"
    using assms(2) by (simp_all add: updated_record_def GetType_def)
  then show ?thesis using decode_eq [OF assms(1)] unfolding record_ok_def by auto
qed

text \<open>Every operation keeps the invariant, and only \<open>Create\<close> and \<open>Update\<close> add to the contents.\<close>

lemma mem_Create_contents:
  assumes "mem_inv cd c" and "mem_Create cd r fs c = (e, r', c')"
  shows "mem_inv cd c' \<and> Spec r' = Spec r \<and>
    (\<forall>x \<in> mem_contents cd c'. x \<in> mem_contents cd c \<or> e = None \<and> Spec x = Spec r)"
  using assms(2)
proof (cases rule: mem_Create_cases)
  case (created content)
  have "unique_keys c'" using mem_Create_abs(1) [OF _ assms(2)] assms(1) by (simp add: mem_inv_def)
  then show ?thesis
    using created assms(1) decode_created [of cd r content "NewCreateOptions fs"] by (auto simp: mem_inv_def mem_contents_def)
qed (use assms(1) in auto)

lemma mem_Update_contents:
  assumes "mem_inv cd c" and "mem_Update cd r fs c = (e, c')"
  shows "mem_inv cd c' \<and> (\<forall>x \<in> mem_contents cd c'. x \<in> mem_contents cd c \<or> e = None \<and> Spec x = Spec r)"
  using assms(2)
proof (cases rule: mem_Update_cases)
  case (updated m rec idx content)
  let ?new = "updated_record r m (uo_ModificationTime (NewUpdateOptions fs)) content"
  have "set c' \<subseteq> insert ?new (set c)" using updated(6) by (simp add: set_update_subset_insert)
  moreover have "unique_keys c'" using mem_Update_abs(1) [OF _ assms(2)] assms(1) by (simp add: mem_inv_def)
  ultimately show ?thesis
    using updated(4,5) assms(1) decode_updated [of cd r content m] unfolding mem_inv_def mem_contents_def by blast
qed (use assms(1) in auto)

lemma mem_Delete_contents:
  assumes "mem_inv cd c" and "mem_Delete r fs c = (e, c')"
  shows "mem_inv cd c' \<and> mem_contents cd c' \<subseteq> mem_contents cd c"
  using assms(2)
proof (cases rule: mem_Delete_cases)
  case (deleted idx rec)
  have "set c' \<subseteq> set c" unfolding deleted(3) using set_take_subset set_drop_subset by fastforce
  moreover have "unique_keys c'" using mem_Delete_abs(1) [OF _ assms(2)] assms(1) by (simp add: mem_inv_def)
  ultimately show ?thesis using assms(1) by (auto simp: mem_inv_def mem_contents_def)
qed (use assms(1) in auto)

lemma mem_Get_contents:
  assumes inv: "mem_inv cd c" and get: "mem_Get cd r fs c = (None, r')" and zero: "Spec r \<in> set zero_specs"
  shows "r' \<in> mem_contents cd c \<and> GetType r' = GetType r"
proof -
  obtain t n m idx rec where f: "findRecord c t n m = Some (idx, rec)" and t: "t = GetType r"
    and u: "unmarshalRecord cd rec r = (None, r')"
    using get by (auto simp: mem_Get_def Let_def split: option.splits if_splits)
  then have rec: "rec \<in> set c" "rec_ResourceType rec = GetType r"
    by (auto simp: findRecord_Some rec_key_def)
  then show ?thesis
    using unmarshal_decode [of cd rec r] inv zero u unfolding mem_inv_def mem_contents_def by fastforce
qed

text \<open>Listing adds the resources that the listed records stand for.\<close>

lemma rl_AddItem [simp]:
  "rl_NewSpec (snd (AddItem r rs)) = rl_NewSpec rs" "GetItemType (snd (AddItem r rs)) = GetItemType rs"
  by (simp_all add: AddItem_def GetItemType_def)

lemma list_loop_contents:
  assumes "codec_ok cd" and "\<forall>rec \<in> set records. record_ok cd rec \<and> rec_ResourceType rec = GetItemType rs"
    and "rl_NewSpec rs \<in> set zero_specs" and "list_loop cd records e i rs = (err, rs')"
  shows "rl_NewSpec rs' = rl_NewSpec rs \<and>
    set (rl_Items rs') \<subseteq> set (rl_Items rs) \<union> decode cd ` set records"
  using assms
proof (induction cd records e i rs rule: list_loop.induct)
  case (1 cd records e i rs)
  show ?case
  proof (cases "i < e \<and> i < int (length records) \<and> 0 \<le> i")
    case True
    then have mem: "records ! nat i \<in> set records" by (intro nth_mem) linarith
    have u: "unmarshalRecord cd (records ! nat i) (NewItem rs) = (None, decode cd (records ! nat i))"
      using unmarshal_decode [of cd "records ! nat i" "NewItem rs"] "1.prems"(1-3) mem
      by (simp add: NewItem_def GetType_def GetItemType_def)
    have "list_loop cd records e (i + 1) (snd (AddItem (decode cd (records ! nat i)) rs)) = (err, rs')"
      using "1.prems"(4) True u by (subst (asm) list_loop.simps) simp
    then have "rl_NewSpec rs' = rl_NewSpec rs \<and> set (rl_Items rs') \<subseteq>
        set (rl_Items (snd (AddItem (decode cd (records ! nat i)) rs))) \<union> decode cd ` set records"
      using "1.IH" [of None "decode cd (records ! nat i)"] True u "1.prems"(1-3) by simp
    moreover have "set (rl_Items (snd (AddItem (decode cd (records ! nat i)) rs))) \<subseteq>
        insert (decode cd (records ! nat i)) (set (rl_Items rs))"
      by (auto simp: AddItem_def)
    ultimately show ?thesis using mem by blast
  next
    case False
    then show ?thesis using "1.prems"(4) by (subst (asm) list_loop.simps) (auto split: if_splits)
  qed
qed

lemma findRecords_ok:
  assumes "mem_inv cd c"
  shows "\<forall>rec \<in> set (findRecords c typ mesh). record_ok cd rec \<and> rec_ResourceType rec = typ"
  using assms by (auto simp: findRecords_def mem_inv_def)

lemma mem_List_contents:
  assumes inv: "mem_inv cd c" and zero: "rl_NewSpec rs \<in> set zero_specs" and res: "mem_List cd rs fs c = (e, rs')"
  shows "rl_NewSpec rs' = rl_NewSpec rs \<and>
    set (rl_Items rs') \<subseteq> set (rl_Items rs) \<union> {x \<in> mem_contents cd c. GetType x = GetItemType rs}"
proof -
  let ?records = "findRecords c (GetItemType rs) (lo_Mesh (NewListOptions fs))"
  note ok = findRecords_ok [OF inv, of "GetItemType rs" "lo_Mesh (NewListOptions fs)"]
  have cd: "codec_ok cd" using inv by (simp add: mem_inv_def)
  have types: "GetType (decode cd rec) = GetItemType rs" if "rec \<in> set ?records" for rec
    using unmarshal_decode(2) [OF cd, of rec "NewItem rs"] ok that zero
    by (simp add: NewItem_def GetType_def GetItemType_def)
  consider "rs' = rs" | e0 offset e' rs'' where "list_loop cd ?records e0 offset rs = (e', rs'')"
      "rl_Items rs' = rl_Items rs''" "rl_NewSpec rs' = rl_NewSpec rs''"
    using res by (auto simp: mem_List_def Let_def split: sum.splits prod.splits option.splits if_splits)
  then show ?thesis
  proof cases
    case 2
    have "set ?records \<subseteq> set c" by (auto simp: findRecords_def)
    then show ?thesis
      using list_loop_contents [OF cd ok zero 2(1)] 2(2,3) types by (fastforce simp: mem_contents_def)
  qed simp
qed

lemma list_loop_ok:
  assumes "codec_ok cd" and "\<forall>rec \<in> set records. record_ok cd rec \<and> rec_ResourceType rec = GetItemType rs"
    and "rl_NewSpec rs \<in> set zero_specs" and "0 \<le> i"
  shows "list_loop cd records e i rs =
    (None, rs\<lparr>rl_Items := rl_Items rs @ map (decode cd) (take (nat (e - i)) (drop (nat i) records))\<rparr>)"
  using assms
proof (induction cd records e i rs rule: list_loop.induct)
  case (1 cd records e i rs)
  show ?case
  proof (cases "i < e \<and> i < int (length records)")
    case True
    then have mem: "records ! nat i \<in> set records" using "1.prems"(4) by (intro nth_mem) linarith
    have u: "unmarshalRecord cd (records ! nat i) (NewItem rs) = (None, decode cd (records ! nat i))"
      and t: "GetType (decode cd (records ! nat i)) = GetItemType rs"
      using unmarshal_decode [of cd "records ! nat i" "NewItem rs"] "1.prems"(1-3) mem
      by (simp_all add: NewItem_def GetType_def GetItemType_def)
    let ?rs = "snd (AddItem (decode cd (records ! nat i)) rs)"
    have rs: "?rs = rs\<lparr>rl_Items := rl_Items rs @ [decode cd (records ! nat i)]\<rparr>" using t by (simp add: AddItem_def)
    have step: "list_loop cd records e i rs = list_loop cd records e (i + 1) ?rs"
      using True "1.prems"(4) u by (subst list_loop.simps) simp
    have IH: "list_loop cd records e (i + 1) ?rs = (None, ?rs\<lparr>rl_Items := rl_Items ?rs @
        map (decode cd) (take (nat (e - (i + 1))) (drop (nat (i + 1)) records))\<rparr>)"
      using "1.IH" [of None "decode cd (records ! nat i)"] True u "1.prems" by simp
    have "take (nat (e - i)) (drop (nat i) records) =
        records ! nat i # take (nat (e - (i + 1))) (drop (nat (i + 1)) records)"
    proof -
      have "nat (e - i) = Suc (nat (e - (i + 1)))" "nat (i + 1) = Suc (nat i)" using True "1.prems"(4) by linarith+
      moreover have "drop (nat i) records = records ! nat i # drop (Suc (nat i)) records"
        using True "1.prems"(4) by (intro Cons_nth_drop_Suc [symmetric]) linarith
      ultimately show ?thesis by simp
    qed
    then show ?thesis using step IH rs by simp
  next
    case False
    then have "take (nat (e - i)) (drop (nat i) records) = []" using "1.prems"(4) by auto
    then show ?thesis using False by (subst list_loop.simps) auto
  qed
qed

section \<open>The contract of a store\<close>

text \<open>
  What the clients of a store rely on: its invariant is kept, a listing or a read returns only
  resources it holds, and what it holds was there before or was passed to a successful call.
\<close>

locale resource_store =
  fixes store :: "'s ResourceStore" and inv :: "'s \<Rightarrow> bool" and contents :: "'s \<Rightarrow> AnyResource set"
  assumes create_law: "inv s \<Longrightarrow> st_Create store r cfs s = (e, r', s') \<Longrightarrow>
      inv s' \<and> Spec r' = Spec r \<and> (\<forall>x \<in> contents s'. x \<in> contents s \<or> e = None \<and> Spec x = Spec r)"
    and update_law: "inv s \<Longrightarrow> st_Update store r ufs s = (e, s') \<Longrightarrow>
      inv s' \<and> (\<forall>x \<in> contents s'. x \<in> contents s \<or> e = None \<and> Spec x = Spec r)"
    and delete_law: "inv s \<Longrightarrow> st_Delete store r dfs s = (e, s') \<Longrightarrow> inv s' \<and> contents s' \<subseteq> contents s"
    and get_law: "inv s \<Longrightarrow> Spec r \<in> set zero_specs \<Longrightarrow> st_Get store r gfs s = (None, r') \<Longrightarrow>
      r' \<in> contents s \<and> GetType r' = GetType r"
    and list_law: "inv s \<Longrightarrow> rl_NewSpec l \<in> set zero_specs \<Longrightarrow> st_List store l lfs s = (e, l') \<Longrightarrow>
      rl_NewSpec l' = rl_NewSpec l \<and>
      set (rl_Items l') \<subseteq> set (rl_Items l) \<union> {x \<in> contents s. GetType x = GetItemType l}"

interpretation mem: resource_store "memory_store cd" "mem_inv cd" "mem_contents cd"
  for cd
proof unfold_locales
  fix s r cfs e r' s'
  assume "mem_inv cd s" "st_Create (memory_store cd) r cfs s = (e, r', s')"
  then show "mem_inv cd s' \<and> Spec r' = Spec r \<and>
      (\<forall>x \<in> mem_contents cd s'. x \<in> mem_contents cd s \<or> e = None \<and> Spec x = Spec r)"
    using mem_Create_contents by (simp add: memory_store_def)
next
  fix s r ufs e s'
  assume "mem_inv cd s" "st_Update (memory_store cd) r ufs s = (e, s')"
  then show "mem_inv cd s' \<and> (\<forall>x \<in> mem_contents cd s'. x \<in> mem_contents cd s \<or> e = None \<and> Spec x = Spec r)"
    using mem_Update_contents by (simp add: memory_store_def)
next
  fix s r dfs e s'
  assume "mem_inv cd s" "st_Delete (memory_store cd) r dfs s = (e, s')"
  then show "mem_inv cd s' \<and> mem_contents cd s' \<subseteq> mem_contents cd s"
    using mem_Delete_contents by (simp add: memory_store_def)
next
  fix s r gfs r'
  assume "mem_inv cd s" "Spec r \<in> set zero_specs" "st_Get (memory_store cd) r gfs s = (None, r')"
  then show "r' \<in> mem_contents cd s \<and> GetType r' = GetType r"
    using mem_Get_contents by (simp add: memory_store_def)
next
  fix s l lfs e l'
  assume "mem_inv cd s" "rl_NewSpec l \<in> set zero_specs" "st_List (memory_store cd) l lfs s = (e, l')"
  then show "rl_NewSpec l' = rl_NewSpec l \<and>
      set (rl_Items l') \<subseteq> set (rl_Items l) \<union> {x \<in> mem_contents cd s. GetType x = GetItemType l}"
    using mem_List_contents by (simp add: memory_store_def)
qed

section \<open>Properties of the memory store\<close>

text \<open>
  C9. The memory store refines a map from keys to records: with unique keys, \<open>Create\<close> succeeds only
  when the key is absent and then adds it, \<open>Update\<close> succeeds only when the key is present with the
  caller's version and then replaces the record with the next version, \<open>Delete\<close> succeeds only when
  the key is present and then removes it, an operation that fails changes nothing, and keys stay
  unique.
\<close>

theorem memory_store_refines_map:
  assumes "unique_keys c"
  shows "(mem_Create cd r cfs c = (e, r', c') \<longrightarrow> unique_keys c' \<and> (e \<noteq> None \<longrightarrow> c' = c) \<and>
      (e = None \<longrightarrow> (\<exists>content. ToJSON cd (Spec r) = Inr content \<and> mem_abs c (create_key r (NewCreateOptions cfs)) = None \<and>
         mem_abs c' = (mem_abs c)(create_key r (NewCreateOptions cfs) \<mapsto> created_record r (NewCreateOptions cfs) content)))) \<and>
    (mem_Update cd r ufs c = (e, c') \<longrightarrow> unique_keys c' \<and> (e \<noteq> None \<longrightarrow> c' = c) \<and>
      (e = None \<longrightarrow> (\<exists>m rec content. Meta r = Some (MemoryMeta m) \<and> ToJSON cd (Spec r) = Inr content \<and>
         mem_abs c (update_key r m) = Some rec \<and> rec_Version rec = mm_Version m \<and>
         mem_abs c' = (mem_abs c)(update_key r m \<mapsto>
           updated_record r m (uo_ModificationTime (NewUpdateOptions ufs)) content)))) \<and>
    (mem_Delete r dfs c = (e, c') \<longrightarrow> unique_keys c' \<and> (e \<noteq> None \<longrightarrow> c' = c) \<and>
      (e = None \<longrightarrow> mem_abs c (GetType r, do_Name (NewDeleteOptions dfs), do_Mesh (NewDeleteOptions dfs)) \<noteq> None \<and>
         mem_abs c' = (mem_abs c)((GetType r, do_Name (NewDeleteOptions dfs), do_Mesh (NewDeleteOptions dfs)) := None)))"
proof (intro conjI)
  note create = mem_Create_abs [OF assms, of cd r cfs e r' c'] and update = mem_Update_abs [OF assms, of cd r ufs e c']
    and delete = mem_Delete_abs [OF assms, of r dfs e c']
  show "mem_Create cd r cfs c = (e, r', c') \<longrightarrow> unique_keys c' \<and> (e \<noteq> None \<longrightarrow> c' = c) \<and>
      (e = None \<longrightarrow> (\<exists>content. ToJSON cd (Spec r) = Inr content \<and> mem_abs c (create_key r (NewCreateOptions cfs)) = None \<and>
         mem_abs c' = (mem_abs c)(create_key r (NewCreateOptions cfs) \<mapsto> created_record r (NewCreateOptions cfs) content)))"
    using create by fast
  show "mem_Update cd r ufs c = (e, c') \<longrightarrow> unique_keys c' \<and> (e \<noteq> None \<longrightarrow> c' = c) \<and>
      (e = None \<longrightarrow> (\<exists>m rec content. Meta r = Some (MemoryMeta m) \<and> ToJSON cd (Spec r) = Inr content \<and>
         mem_abs c (update_key r m) = Some rec \<and> rec_Version rec = mm_Version m \<and>
         mem_abs c' = (mem_abs c)(update_key r m \<mapsto>
           updated_record r m (uo_ModificationTime (NewUpdateOptions ufs)) content)))"
    using update by fast
  show "mem_Delete r dfs c = (e, c') \<longrightarrow> unique_keys c' \<and> (e \<noteq> None \<longrightarrow> c' = c) \<and>
      (e = None \<longrightarrow> mem_abs c (GetType r, do_Name (NewDeleteOptions dfs), do_Mesh (NewDeleteOptions dfs)) \<noteq> None \<and>
         mem_abs c' = (mem_abs c)((GetType r, do_Name (NewDeleteOptions dfs), do_Mesh (NewDeleteOptions dfs)) := None))"
    using delete by fast
qed

text \<open>A codec that writes the zero values and a few specifications, enough for examples.\<close>

definition example_permission :: TrafficPermission where
  "example_permission = \<lparr>tp_Sources = [[(''service'', ''web'')]], tp_Destinations = [[(''service'', ''backend'')]]\<rparr>"

definition example_closed_insight :: DataplaneInsight where
  "example_closed_insight =
     \<lparr>di_Subscriptions = [\<lparr>sub_Id = ''u'', sub_ControlPlaneInstanceId = ''cp'', sub_ConnectTime = Some \<lparr>ts_Seconds = 1, ts_Nanos = 0\<rparr>,
        sub_DisconnectTime = Some \<lparr>ts_Seconds = 9, ts_Nanos = 0\<rparr>, sub_Status = Some NewSubscriptionStatus\<rparr>]\<rparr>"

definition example_codec :: codec where
  "example_codec =
     \<lparr>ToJSON = (\<lambda>spec. if spec = TrafficPermissionSpec example_permission then Inr ''permission''
                   else if spec = DataplaneSpec example_dataplane then Inr ''dataplane''
                   else if spec = DataplaneInsightSpec example_closed_insight then Inr ''insight''
                   else if spec \<in> set zero_specs then Inr ''{}'' else Inl (ErrString ''unsupported'')),
      FromJSON = (\<lambda>content z. if content = ''permission'' then Inr (TrafficPermissionSpec example_permission)
                   else if content = ''dataplane'' then Inr (DataplaneSpec example_dataplane)
                   else if content = ''insight'' then Inr (DataplaneInsightSpec example_closed_insight) else Inr z)\<rparr>"

lemma zero_specs_distinct: "x \<in> set zero_specs \<Longrightarrow> y \<in> set zero_specs \<Longrightarrow> spec_type x = spec_type y \<Longrightarrow> x = y"
  by (auto simp: zero_specs_def MeshType_def SecretType_def)

lemma example_codec_ok: "codec_ok example_codec"
  by (auto simp: codec_ok_def example_codec_def dest: zero_specs_distinct split: if_splits)

definition example_created :: "AnyResource \<times> memoryStore" where
  "example_created = snd (mem_Create example_codec \<lparr>Meta = None, Spec = TrafficPermissionSpec example_permission\<rparr>
     [CreateByKey ''p'' ''default'', CreatedAt 5] [])"

theorem memory_store_refines_map_witness:
  "mem_abs (snd example_created) (''TrafficPermission'', ''p'', ''default'') \<noteq> None"
proof -
  let ?r = "\<lparr>Meta = None, Spec = TrafficPermissionSpec example_permission\<rparr>"
  let ?fs = "[CreateByKey ''p'' ''default'', CreatedAt 5]"
  have c: "mem_Create example_codec ?r ?fs [] = (None, fst example_created, snd example_created)"
    by (simp add: example_created_def mem_Create_def findRecord_def marshalRecord_def example_codec_def Let_def)
  have k: "create_key ?r (NewCreateOptions ?fs) = (''TrafficPermission'', ''p'', ''default'')"
    by (simp add: create_key_def NewCreateOptions_def CreateByKey_def CreatedAt_def GetType_def MeshType_def)
  have "unique_keys []" by (simp add: unique_keys_def)
  from memory_store_refines_map [OF this, of example_codec ?r ?fs None "fst example_created" "snd example_created"] c
  obtain content where "mem_abs (snd example_created) =
      (mem_abs [])(create_key ?r (NewCreateOptions ?fs) \<mapsto> created_record ?r (NewCreateOptions ?fs) content)"
    by blast
  then show ?thesis unfolding k by simp
qed

text \<open>
  A created resource is read back as it was created: \<open>Get\<close> with its name and mesh fills a fresh
  resource of its type with the same metadata and specification, given that the codec reads what
  it wrote.
\<close>

theorem create_then_get:
  assumes "mem_inv cd c" and "mem_Create cd r cfs c = (None, r', c')"
    and "fresh = \<lparr>Meta = None, Spec = zero_of (GetType r)\<rparr>"
    and "co_Name (NewCreateOptions cfs) = name" and "co_Mesh (NewCreateOptions cfs) = mesh"
  shows "mem_Get cd fresh [GetByKey name mesh] c' = (None, r') \<and> Spec r' = Spec r"
proof -
  let ?o = "NewCreateOptions cfs"
  have cd: "codec_ok cd" and uk: "unique_keys c" using assms(1) by (simp_all add: mem_inv_def)
  obtain content where content: "ToJSON cd (Spec r) = Inr content" and c': "c' = c @ [created_record r ?o content]"
    and r': "r' = r\<lparr>Meta := Some (MemoryMeta (record_meta (created_record r ?o content)))\<rparr>"
    using assms(2) by (cases rule: mem_Create_cases) auto
  have zero: "Spec fresh \<in> set zero_specs" "GetType fresh = GetType r"
    using zero_specs_complete [of "Spec r"] assms(3) by (simp_all add: GetType_def)
  have "mem_abs c' (create_key r ?o) = Some (created_record r ?o content)"
    using mem_Create_abs(3) [OF uk assms(2)] content by auto
  then obtain idx where f: "findRecord c' (GetType r) name (if GetType r = MeshType then name else mesh) =
      Some (idx, created_record r ?o content)"
    using findRecord_abs [of c' "GetType r" name "if GetType r = MeshType then name else mesh"] assms(4,5)
    by (auto simp: create_key_def)
  have "unmarshalRecord cd (created_record r ?o content) fresh = (None, r')"
    using decode_created [OF cd content, of ?o] zero r'
      unmarshal_decode [OF cd, of "created_record r ?o content" fresh]
    by (simp add: created_record_def)
  then have "mem_Get cd fresh [GetByKey name mesh] c' = (None, r')"
    using f zero(2) by (auto simp: mem_Get_def NewGetOptions_def GetByKey_def Let_def)
  then show ?thesis using r' by simp
qed

theorem create_then_get_witness:
  "mem_Get example_codec \<lparr>Meta = None, Spec = zero_of ''TrafficPermission''\<rparr> [GetByKey ''p'' ''default'']
     (snd example_created) = (None, fst example_created)"
proof -
  let ?r = "\<lparr>Meta = None, Spec = TrafficPermissionSpec example_permission\<rparr>"
  let ?fs = "[CreateByKey ''p'' ''default'', CreatedAt 5]"
  have inv: "mem_inv example_codec []" by (simp add: mem_inv_def unique_keys_def example_codec_ok)
  have c: "mem_Create example_codec ?r ?fs [] = (None, fst example_created, snd example_created)"
    by (simp add: example_created_def mem_Create_def findRecord_def marshalRecord_def example_codec_def Let_def)
  have "mem_Get example_codec \<lparr>Meta = None, Spec = zero_of (GetType ?r)\<rparr> [GetByKey ''p'' ''default'']
     (snd example_created) = (None, fst example_created)"
    using create_then_get [OF inv c refl, of "''p''" "''default''"]
    by (simp add: NewCreateOptions_def CreateByKey_def CreatedAt_def)
  then show ?thesis by (simp add: GetType_def)
qed

text \<open>
  Concurrency is optimistic: once an update succeeded, any other update that was prepared from
  the same metadata fails with a conflict and changes nothing.
\<close>

theorem stale_update_conflicts:
  assumes "unique_keys c" and "mem_Update cd r fs c = (None, c')"
    and "Meta r2 = Meta r" and "GetType r2 = GetType r"
  shows "\<exists>m. Meta r = Some (MemoryMeta m) \<and>
    mem_Update cd r2 fs2 c' = (Some (ErrorResourceConflict (GetType r) (mm_Name m) (mm_Mesh m)), c')"
proof -
  obtain m rec content where m: "Meta r = Some (MemoryMeta m)"
    and abs: "mem_abs c' = (mem_abs c)(update_key r m \<mapsto> updated_record r m (uo_ModificationTime (NewUpdateOptions fs)) content)"
    using mem_Update_abs(3) [OF assms(1,2)] by blast
  then have "map_option snd (findRecord c' (GetType r) (mm_Name m) (mm_Mesh m)) =
      Some (updated_record r m (uo_ModificationTime (NewUpdateOptions fs)) content)"
    unfolding findRecord_abs by (simp add: update_key_def)
  then obtain idx where "findRecord c' (GetType r) (mm_Name m) (mm_Mesh m) =
      Some (idx, updated_record r m (uo_ModificationTime (NewUpdateOptions fs)) content)" by auto
  moreover have "mm_Version m \<noteq> mm_Version m + 1" by simp
  ultimately show ?thesis
    using m assms(3,4) by (auto simp: mem_Update_def updated_record_def Let_def)
qed

theorem stale_update_conflicts_witness:
  "\<exists>c'. mem_Update example_codec (fst example_created) [] (snd example_created) = (None, c') \<and>
     fst (mem_Update example_codec (fst example_created) [] c') =
       Some (ErrorResourceConflict ''TrafficPermission'' ''p'' ''default'')"
proof -
  let ?r = "\<lparr>Meta = None, Spec = TrafficPermissionSpec example_permission\<rparr>"
  let ?fs = "[CreateByKey ''p'' ''default'', CreatedAt 5]"
  note defs = example_created_def mem_Create_def findRecord_def marshalRecord_def example_codec_def Let_def
    NewCreateOptions_def CreateByKey_def CreatedAt_def GetType_def MeshType_def initialVersion_def
  have uk: "unique_keys (snd example_created)" by (simp add: defs unique_keys_def)
  obtain c' where c': "mem_Update example_codec (fst example_created) [] (snd example_created) = (None, c')"
    by (simp add: defs mem_Update_def)
  have "Meta (fst example_created) = Some (MemoryMeta \<lparr>mm_Name = ''p'', mm_Mesh = ''default'', mm_Version = 1,
      mm_CreationTime = 5, mm_ModificationTime = 5\<rparr>)" "GetType (fst example_created) = ''TrafficPermission''"
    by (simp_all add: defs)
  then show ?thesis using stale_update_conflicts [OF uk c' refl refl, of "[]"] c' by auto
qed

section \<open>Pagination\<close>

text \<open>The pages a client gets when it follows \<open>NextOffset\<close> for at most \<open>fuel\<close> pages.\<close>

fun list_pages ::
  "codec \<Rightarrow> nat \<Rightarrow> ResourceSpec \<Rightarrow> string \<Rightarrow> int \<Rightarrow> string \<Rightarrow> memoryStore \<Rightarrow> AnyResource list option" where
  "list_pages cd 0 zero mesh pageSize offset c = None"
| "list_pages cd (Suc fuel) zero mesh pageSize offset c =
     (case mem_List cd (new_list zero) [ListByMesh mesh, ListByPage pageSize offset] c of
        (Some e, _) \<Rightarrow> None
      | (None, page) \<Rightarrow>
          if rl_NextOffset page = '''' then Some (rl_Items page)
          else map_option ((@) (rl_Items page))
                 (list_pages cd fuel zero mesh pageSize (rl_NextOffset page) c))"

lemma add_int_id: "- (2 ^ 63) \<le> a + b \<Longrightarrow> a + b < 2 ^ 63 \<Longrightarrow> add_int a b = a + b"
  unfolding add_int_def sint_sbintrunc' by (simp add: signed_take_bit_int_eq_self)

lemma format_int_nat: "format_int (int n) = format_nat n"
  by (simp add: format_int_def)

lemma page_of:
  assumes inv: "mem_inv cd c" and zero: "zero \<in> set zero_specs" and n: "0 < n"
    and bound: "int (p + n) < 2 ^ 63" and offset: "offset = (if p = 0 then '''' else format_nat p)"
  shows "mem_List cd (new_list zero) [ListByMesh mesh, ListByPage (int n) offset] c =
    (None, \<lparr>rl_NewSpec = zero,
      rl_Items = map (decode cd) (take n (drop p (findRecords c (spec_type zero) mesh))),
      rl_NextOffset = (if p + n < length (findRecords c (spec_type zero) mesh) then format_nat (p + n) else '''')\<rparr>)"
proof -
  let ?records = "findRecords c (spec_type zero) mesh"
  have sum: "add_int (int p) (int n) = int (p + n)" using bound by (subst add_int_id) auto
  have atoi: "(if offset \<noteq> '''' then atoi offset else Inr 0) = Inr (int p)"
    using offset bound atoi_format_nat [of p] by auto
  have "list_loop cd ?records (int (p + n)) (int p) (new_list zero) =
      (None, \<lparr>rl_NewSpec = zero, rl_Items = map (decode cd) (take n (drop p ?records)), rl_NextOffset = ''''\<rparr>)"
    using list_loop_ok [of cd ?records "new_list zero" "int p" "int (p + n)"] inv zero findRecords_ok [OF inv]
    by (simp add: mem_inv_def new_list_def GetItemType_def)
  then show ?thesis
    using n atoi sum format_int_nat [of "p + n"]
    by (simp add: mem_List_def NewListOptions_def ListByMesh_def ListByPage_def Let_def GetItemType_def
        new_list_def split: if_splits)
qed

lemma list_pages_from:
  assumes inv: "mem_inv cd c" and zero: "zero \<in> set zero_specs" and n: "0 < n"
    and bound: "int (length c + n) < 2 ^ 63"
    and fuel: "length (findRecords c (spec_type zero) mesh) \<le> p + fuel * n" "fuel \<noteq> 0" "p \<le> length c"
    and offset: "offset = (if p = 0 then '''' else format_nat p)"
  shows "list_pages cd fuel zero mesh (int n) offset c =
    Some (map (decode cd) (drop p (findRecords c (spec_type zero) mesh)))"
  using fuel offset
proof (induction fuel arbitrary: p offset)
  case 0
  then show ?case by simp
next
  case (Suc fuel)
  let ?records = "findRecords c (spec_type zero) mesh"
  have len: "length ?records \<le> length c" by (simp add: findRecords_def)
  have pg: "mem_List cd (new_list zero) [ListByMesh mesh, ListByPage (int n) offset] c =
    (None, \<lparr>rl_NewSpec = zero, rl_Items = map (decode cd) (take n (drop p ?records)),
      rl_NextOffset = (if p + n < length ?records then format_nat (p + n) else '''')\<rparr>)"
    using Suc.prems(3,4) bound by (intro page_of [OF inv zero n]) auto
  show ?case
  proof (cases "p + n < length ?records")
    case True
    then have IH: "list_pages cd fuel zero mesh (int n) (format_nat (p + n)) c = Some (map (decode cd) (drop (p + n) ?records))"
      using Suc.prems len n by (intro Suc.IH) (auto intro: gr0I)
    have "take n (drop p ?records) @ drop (p + n) ?records = drop p ?records"
      by (metis add.commute append_take_drop_id drop_drop)
    then show ?thesis using pg IH True by (simp flip: map_append)
  next
    case False
    then show ?thesis using pg by simp
  qed
qed

text \<open>A listing without pages returns what the matching records stand for.\<close>

lemma mem_List_all:
  assumes "mem_inv cd c" and "zero \<in> set zero_specs" and "int (length c) < 2 ^ 63"
  shows "mem_List cd (new_list zero) [ListByMesh mesh] c =
    (None, (new_list zero)\<lparr>rl_Items := map (decode cd) (findRecords c (spec_type zero) mesh)\<rparr>)"
proof -
  let ?records = "findRecords c (spec_type zero) mesh"
  have len: "length ?records \<le> length c" by (simp add: findRecords_def)
  have sum: "add_int 0 (int (length ?records)) = int (length ?records)"
    using len assms(3) by (subst add_int_id) auto
  have "list_loop cd ?records (int (length ?records)) 0 (new_list zero) =
      (None, (new_list zero)\<lparr>rl_Items := map (decode cd) ?records\<rparr>)"
    using list_loop_ok [of cd ?records "new_list zero" 0 "int (length ?records)"] assms(1,2) findRecords_ok [OF assms(1)]
    by (simp add: mem_inv_def new_list_def GetItemType_def)
  then show ?thesis
    using sum by (simp add: mem_List_def NewListOptions_def ListByMesh_def Let_def GetItemType_def new_list_def)
qed

text \<open>
  C25. Pagination loses and repeats nothing: following \<open>NextOffset\<close> with any positive page size ends
  after at most one page more than there are records, and the pages together are the list that
  the store returns without pagination, in the same order.
\<close>

theorem pagination_is_complete:
  assumes "mem_inv cd c" and "zero \<in> set zero_specs" and "0 < n" and "int (length c + n) < 2 ^ 63"
  shows "\<exists>rs. mem_List cd (new_list zero) [ListByMesh mesh] c = (None, rs) \<and>
    list_pages cd (length c + 1) zero mesh (int n) '''' c = Some (rl_Items rs)"
proof -
  let ?records = "findRecords c (spec_type zero) mesh"
  have len: "length ?records \<le> length c" by (simp add: findRecords_def)
  have "mem_List cd (new_list zero) [ListByMesh mesh] c = (None, (new_list zero)\<lparr>rl_Items := map (decode cd) ?records\<rparr>)"
    using assms(4) by (intro mem_List_all [OF assms(1,2)]) simp
  moreover have "list_pages cd (length c + 1) zero mesh (int n) '''' c = Some (map (decode cd) ?records)"
  proof -
    have "length ?records \<le> 0 + (length c + 1) * n"
      using len assms(3) by (metis add_0 le_add1 le_trans mult_le_mono2 nat_mult_1_right One_nat_def Suc_leI)
    then show ?thesis using list_pages_from [OF assms, of mesh 0 "length c + 1" "''''"] by simp
  qed
  ultimately show ?thesis by (auto simp: new_list_def)
qed

theorem pagination_is_complete_witness:
  "list_pages example_codec 2 (zero_of ''TrafficPermission'') '''' 1 '''' (snd example_created) = Some [fst example_created]"
proof -
  let ?z = "zero_of ''TrafficPermission''"
  note defs = example_created_def mem_Create_def findRecord_def marshalRecord_def example_codec_def Let_def
    NewCreateOptions_def CreateByKey_def CreatedAt_def GetType_def MeshType_def initialVersion_def
  have c: "mem_Create example_codec \<lparr>Meta = None, Spec = TrafficPermissionSpec example_permission\<rparr>
      [CreateByKey ''p'' ''default'', CreatedAt 5] [] = (None, fst example_created, snd example_created)"
    by (simp add: example_created_def mem_Create_def findRecord_def marshalRecord_def example_codec_def Let_def)
  have "mem_inv example_codec []" by (simp add: mem_inv_def unique_keys_def example_codec_ok)
  then have inv: "mem_inv example_codec (snd example_created)" using mem_Create_contents [OF _ c] by blast
  have z: "?z \<in> set zero_specs" using zero_specs_complete [of "TrafficPermissionSpec example_permission"] by simp
  have len: "length (snd example_created) = 1" by (simp add: defs)
  obtain rs where l: "mem_List example_codec (new_list ?z) [ListByMesh ''''] (snd example_created) = (None, rs)"
    and pages: "list_pages example_codec 2 ?z '''' 1 '''' (snd example_created) = Some (rl_Items rs)"
    using pagination_is_complete [OF inv z, of 1 "''''"] len by (auto simp: numeral_2_eq_2)
  have "rl_Items rs = [fst example_created]"
    using l by (auto simp: defs mem_List_def NewListOptions_def ListByMesh_def findRecords_def new_list_def
        GetItemType_def zero_of_def zero_specs_def SecretType_def add_int_def list_loop.simps unmarshalRecord_def
        record_meta_def NewItem_def AddItem_def)
  then show ?thesis using pages by simp
qed



end
