(* ===== verification/Resource_Manager.thy ===== *)
theory Resource_Manager
  imports Resource_Store
begin

text \<open>
  Managers of resources (\<open>pkg/core/resources/manager\<close>): the manager over a store
  (\<open>manager.go\<close>), which validates resources before it writes them, the manager that dispatches on
  the resource type (\<open>customizable_manager.go\<close>) and the cached read-only manager (\<open>cache.go\<close>).
  Inside the contract \<open>resource_store\<close> every operation of the manager is shown to keep all stored
  resources valid.
\<close>

section \<open>The interface\<close>

record 's ResourceManager =
  rm_Get :: "AnyResource \<Rightarrow> (GetOptions \<Rightarrow> GetOptions) list \<Rightarrow> 's \<Rightarrow> go_error option \<times> AnyResource"
  rm_List :: "ResourceList \<Rightarrow> (ListOptions \<Rightarrow> ListOptions) list \<Rightarrow> 's \<Rightarrow> go_error option \<times> ResourceList"
  rm_Create :: "AnyResource \<Rightarrow> (CreateOptions \<Rightarrow> CreateOptions) list \<Rightarrow> 's \<Rightarrow>
    go_error option \<times> AnyResource \<times> 's"
  rm_Update :: "AnyResource \<Rightarrow> (UpdateOptions \<Rightarrow> UpdateOptions) list \<Rightarrow> 's \<Rightarrow>
    go_error option \<times> AnyResource \<times> 's"
  rm_Delete :: "AnyResource \<Rightarrow> (DeleteOptions \<Rightarrow> DeleteOptions) list \<Rightarrow> 's \<Rightarrow> go_error option \<times> 's"
  rm_DeleteAll :: "ResourceList \<Rightarrow> (DeleteAllOptions \<Rightarrow> DeleteAllOptions) list \<Rightarrow> 's \<Rightarrow>
    go_error option \<times> 's"

section \<open>The manager over a store\<close>

text \<open>\<open>core.Now()\<close> and \<open>time.Now()\<close> are the reading \<open>now\<close> of the clock during the call.\<close>

definition ensureMeshExists :: "'s ResourceStore \<Rightarrow> string \<Rightarrow> 's \<Rightarrow> go_error option" where
  "ensureMeshExists store meshName s =
     (case st_List store (new_list (zero_of MeshType)) [ListByMesh meshName] s of
        (Some err, _) \<Rightarrow> Some err
      | (None, list) \<Rightarrow> if length (rl_Items list) \<noteq> 1 then Some (ErrMeshNotFound meshName) else None)"

definition res_Create ::
  "library \<Rightarrow> gotime \<Rightarrow> 's ResourceStore \<Rightarrow> AnyResource \<Rightarrow> (CreateOptions \<Rightarrow> CreateOptions) list \<Rightarrow> 's \<Rightarrow>
   go_error option \<times> AnyResource \<times> 's" where
  "res_Create lib now store resource fs s =
     (case Validate lib resource of
        Some err \<Rightarrow> (Some err, resource, s)
      | None \<Rightarrow>
          (let opts = NewCreateOptions fs in
           case (if GetType resource \<noteq> MeshType then ensureMeshExists store (co_Mesh opts) s else None) of
             Some err \<Rightarrow> (Some err, resource, s)
           | None \<Rightarrow> st_Create store resource (fs @ [CreatedAt now]) s))"

definition res_Update ::
  "library \<Rightarrow> gotime \<Rightarrow> 's ResourceStore \<Rightarrow> AnyResource \<Rightarrow> (UpdateOptions \<Rightarrow> UpdateOptions) list \<Rightarrow> 's \<Rightarrow>
   go_error option \<times> AnyResource \<times> 's" where
  "res_Update lib now store resource fs s =
     (case Validate lib resource of
        Some err \<Rightarrow> (Some err, resource, s)
      | None \<Rightarrow> (case st_Update store resource (fs @ [ModifiedAt now]) s of (err, s') \<Rightarrow> (err, resource, s')))"

text \<open>\<open>DeleteAllResources\<close> deletes through the manager it is given; a vanished resource is no error.\<close>

fun delete_all_loop ::
  "(AnyResource \<Rightarrow> (DeleteOptions \<Rightarrow> DeleteOptions) list \<Rightarrow> 's \<Rightarrow> go_error option \<times> 's) \<Rightarrow>
   AnyResource list \<Rightarrow> 's \<Rightarrow> go_error option \<times> 's" where
  "delete_all_loop delete [] s = (None, s)"
| "delete_all_loop delete (item # rest) s =
     (case delete item [DeleteBy (MetaToResourceKey (Meta item))] s of
        (err, s') \<Rightarrow>
          if err \<noteq> None \<and> \<not> IsResourceNotFound err then (err, s')
          else delete_all_loop delete rest s')"

definition DeleteAllResources ::
  "(ResourceList \<Rightarrow> (ListOptions \<Rightarrow> ListOptions) list \<Rightarrow> 's \<Rightarrow> go_error option \<times> ResourceList) \<Rightarrow>
   (AnyResource \<Rightarrow> (DeleteOptions \<Rightarrow> DeleteOptions) list \<Rightarrow> 's \<Rightarrow> go_error option \<times> 's) \<Rightarrow>
   ResourceList \<Rightarrow> (DeleteAllOptions \<Rightarrow> DeleteAllOptions) list \<Rightarrow> 's \<Rightarrow> go_error option \<times> 's" where
  "DeleteAllResources manager_List manager_Delete list fs s =
     (let opts = NewDeleteAllOptions fs in
      case manager_List list [ListByMesh (dao_Mesh opts)] s of
        (Some err, _) \<Rightarrow> (Some err, s)
      | (None, list) \<Rightarrow> delete_all_loop manager_Delete (rl_Items list) s)"

definition resourcesManager :: "library \<Rightarrow> gotime \<Rightarrow> 's ResourceStore \<Rightarrow> 's ResourceManager" where
  "resourcesManager lib now store =
     \<lparr>rm_Get = st_Get store, rm_List = st_List store, rm_Create = res_Create lib now store,
      rm_Update = res_Update lib now store, rm_Delete = st_Delete store,
      rm_DeleteAll = DeleteAllResources (st_List store) (st_Delete store)\<rparr>"

fun IsMeshNotFound :: "go_error option \<Rightarrow> bool" where
  "IsMeshNotFound (Some (ErrMeshNotFound _)) = True"
| "IsMeshNotFound _ = False"

section \<open>Dispatch on the resource type\<close>

definition customizable_resourceManager ::
  "'s ResourceManager \<Rightarrow> (string, 's ResourceManager) gomap \<Rightarrow> string \<Rightarrow> 's ResourceManager" where
  "customizable_resourceManager defaultManager customManagers typ =
     (case map_of customManagers typ of Some customManager \<Rightarrow> customManager | None \<Rightarrow> defaultManager)"

definition customizableResourceManager ::
  "'s ResourceManager \<Rightarrow> (string, 's ResourceManager) gomap \<Rightarrow> 's ResourceManager" where
  "customizableResourceManager defaultManager customManagers =
     (let m = customizable_resourceManager defaultManager customManagers in
      \<lparr>rm_Get = (\<lambda>resource. rm_Get (m (GetType resource)) resource),
       rm_List = (\<lambda>list. rm_List (m (GetItemType list)) list),
       rm_Create = (\<lambda>resource. rm_Create (m (GetType resource)) resource),
       rm_Update = (\<lambda>resource. rm_Update (m (GetType resource)) resource),
       rm_Delete = (\<lambda>resource. rm_Delete (m (GetType resource)) resource),
       rm_DeleteAll = (\<lambda>list. rm_DeleteAll (m (GetItemType list)) list)\<rparr>)"

section \<open>The cached manager\<close>

text \<open>
  The entries of the cache that have not expired; expiry belongs to the \<open>go-cache\<close> library and is
  a step of the environment that removes keys.  A cached resource is the pointer the caller
  passed; the model stores its value at that moment.
\<close>

datatype cached = CachedResource AnyResource | CachedItems "AnyResource list"

type_synonym cache = "(string, cached) gomap"

definition get_cache_key :: "string \<Rightarrow> GetOptions \<Rightarrow> string" where
  "get_cache_key typ opts = ''GET:'' @ typ @ '':'' @ GetOptions_HashCode opts"

definition list_cache_key :: "string \<Rightarrow> ListOptions \<Rightarrow> string" where
  "list_cache_key typ opts = ''LIST:'' @ typ @ '':'' @ ListOptions_HashCode opts"

text \<open>\<open>SetSpec\<close> of a resource fails when the type of the specification differs.\<close>

definition SetSpec :: "ResourceSpec \<Rightarrow> AnyResource \<Rightarrow> go_error option \<times> AnyResource" where
  "SetSpec spec r =
     (if spec_type spec \<noteq> GetType r then (Some (ErrString ''invalid type of spec''), r)
      else (None, r\<lparr>Spec := spec\<rparr>))"

definition cached_Get ::
  "(AnyResource \<Rightarrow> (GetOptions \<Rightarrow> GetOptions) list \<Rightarrow> go_error option \<times> AnyResource) \<Rightarrow>
   AnyResource \<Rightarrow> (GetOptions \<Rightarrow> GetOptions) list \<Rightarrow> cache \<Rightarrow> go_error option \<times> AnyResource \<times> cache" where
  "cached_Get delegate_Get res fs c =
     (let cacheKey = get_cache_key (GetType res) (NewGetOptions fs) in
      case map_of c cacheKey of
        None \<Rightarrow>
          (case delegate_Get res fs of
             (Some err, res') \<Rightarrow> (Some err, res', c)
           | (None, res') \<Rightarrow> (None, res', gput cacheKey (CachedResource res') c))
      | Some (CachedResource cached) \<Rightarrow>
          (case SetSpec (Spec cached) res of
             (Some err, res') \<Rightarrow> (Some err, res', c)
           | (None, res') \<Rightarrow> (None, res'\<lparr>Meta := Meta cached\<rparr>, c))
      | Some (CachedItems _) \<Rightarrow> (Some (ErrPanic ''interface conversion''), res, c))"

fun add_items :: "AnyResource list \<Rightarrow> ResourceList \<Rightarrow> go_error option \<times> ResourceList" where
  "add_items [] list = (None, list)"
| "add_items (res # rest) list =
     (case AddItem res list of
        (Some err, list') \<Rightarrow> (Some err, list')
      | (None, list') \<Rightarrow> add_items rest list')"

definition cached_List ::
  "(ResourceList \<Rightarrow> (ListOptions \<Rightarrow> ListOptions) list \<Rightarrow> go_error option \<times> ResourceList) \<Rightarrow>
   ResourceList \<Rightarrow> (ListOptions \<Rightarrow> ListOptions) list \<Rightarrow> cache \<Rightarrow> go_error option \<times> ResourceList \<times> cache" where
  "cached_List delegate_List list fs c =
     (let cacheKey = list_cache_key (GetItemType list) (NewListOptions fs) in
      case map_of c cacheKey of
        None \<Rightarrow>
          (case delegate_List list fs of
             (Some err, list') \<Rightarrow> (Some err, list', c)
           | (None, list') \<Rightarrow> (None, list', gput cacheKey (CachedItems (rl_Items list')) c))
      | Some (CachedItems resources) \<Rightarrow>
          (case add_items resources list of (err, list') \<Rightarrow> (err, list', c))
      | Some (CachedResource _) \<Rightarrow> (Some (ErrPanic ''interface conversion''), list, c))"

section \<open>Stored resources stay valid\<close>

definition all_valid :: "('s \<Rightarrow> bool) \<Rightarrow> ('s \<Rightarrow> AnyResource set) \<Rightarrow> library \<Rightarrow> 's \<Rightarrow> bool" where
  "all_valid ok contents lib s \<longleftrightarrow> ok s \<and> (\<forall>x \<in> contents s. Validate lib x = None)"

text \<open>
  What it takes for a property of states to survive every operation of the managers: the store
  keeps it when it creates or updates a valid resource and when it deletes.
\<close>

locale managed_store =
  fixes store :: "'s ResourceStore" and lib :: library and I :: "'s \<Rightarrow> bool"
  assumes create_keeps: "I s \<Longrightarrow> Validate lib r = None \<Longrightarrow> st_Create store r cfs s = (e, r', s') \<Longrightarrow> I s'"
    and update_keeps: "I s \<Longrightarrow> Validate lib r = None \<Longrightarrow> st_Update store r ufs s = (e, s') \<Longrightarrow> I s'"
    and delete_keeps: "I s \<Longrightarrow> st_Delete store r dfs s = (e, s') \<Longrightarrow> I s'"
begin

lemma res_Create_keeps: "I s \<Longrightarrow> res_Create lib now store r fs s = (e, r', s') \<Longrightarrow> I s'"
  by (auto simp: res_Create_def Let_def split: option.splits if_splits dest: create_keeps)

lemma res_Update_keeps: "I s \<Longrightarrow> res_Update lib now store r fs s = (e, r', s') \<Longrightarrow> I s'"
  by (auto simp: res_Update_def split: option.splits prod.splits dest: update_keeps)

lemma delete_all_loop_keeps:
  assumes "\<And>r dfs s e s'. I s \<Longrightarrow> delete r dfs s = (e, s') \<Longrightarrow> I s'"
  shows "I s \<Longrightarrow> delete_all_loop delete items s = (e, s') \<Longrightarrow> I s'"
proof (induction items arbitrary: s)
  case Nil
  then show ?case by simp
next
  case (Cons item rest)
  obtain err s1 where d: "delete item [DeleteBy (MetaToResourceKey (Meta item))] s = (err, s1)" by fastforce
  have s1: "I s1" by (rule assms [OF Cons.prems(1) d])
  show ?case
  proof (cases "err \<noteq> None \<and> \<not> IsResourceNotFound err")
    case True
    then show ?thesis using Cons.prems(2) d s1 by simp
  next
    case False
    then show ?thesis using Cons.IH [OF s1] Cons.prems(2) d by auto
  qed
qed

lemma DeleteAllResources_keeps:
  assumes "\<And>r dfs s e s'. I s \<Longrightarrow> delete r dfs s = (e, s') \<Longrightarrow> I s'"
    and "I s" and "DeleteAllResources list delete l fs s = (e, s')"
  shows "I s'"
proof (cases "list l [ListByMesh (dao_Mesh (NewDeleteAllOptions fs))] s")
  case (Pair err l')
  show ?thesis
  proof (cases err)
    case None
    then have loop: "delete_all_loop delete (rl_Items l') s = (e, s')"
      using assms(3) Pair by (simp add: DeleteAllResources_def)
    show ?thesis by (rule delete_all_loop_keeps [OF _ assms(2) loop]) (erule (1) assms(1))
  next
    case (Some x)
    then show ?thesis using assms(2,3) Pair by (simp add: DeleteAllResources_def)
  qed
qed

end

sublocale resource_store \<subseteq> valid: managed_store store lib "all_valid inv contents lib"
  for lib
proof unfold_locales
  fix s r cfs e r' s'
  assume "all_valid inv contents lib s" "Validate lib r = None" "st_Create store r cfs s = (e, r', s')"
  then show "all_valid inv contents lib s'"
    using create_law Validate_spec [of _ r lib] unfolding all_valid_def by metis
next
  fix s r ufs e s'
  assume "all_valid inv contents lib s" "Validate lib r = None" "st_Update store r ufs s = (e, s')"
  then show "all_valid inv contents lib s'"
    using update_law Validate_spec [of _ r lib] unfolding all_valid_def by metis
next
  fix s r dfs e s'
  assume "all_valid inv contents lib s" "st_Delete store r dfs s = (e, s')"
  then show "all_valid inv contents lib s'" using delete_law unfolding all_valid_def by blast
qed

context resource_store
begin

lemma listed_valid:
  assumes "all_valid inv contents lib s" and "zero \<in> set zero_specs" and "st_List store (new_list zero) fs s = (None, l)"
  shows "\<forall>x \<in> set (rl_Items l). Validate lib x = None \<and> GetType x = spec_type zero"
  using list_law [of s "new_list zero" fs None l] assms unfolding all_valid_def
  by (auto simp: new_list_def GetItemType_def)

lemma got_valid:
  assumes "all_valid inv contents lib s" and "Spec r \<in> set zero_specs" and "st_Get store r fs s = (None, r')"
  shows "Validate lib r' = None \<and> GetType r' = GetType r"
  using get_law assms unfolding all_valid_def by blast

end

section \<open>The manager over the memory store\<close>

lemma filter_key_delete:
  assumes "unique_keys c" and "k < length c"
  shows "take k c @ drop (Suc k) c = filter (\<lambda>rec. rec_key rec \<noteq> rec_key (c ! k)) c"
proof -
  have c: "c = take k c @ c ! k # drop (Suc k) c" using assms(2) by (rule id_take_nth_drop)
  have "distinct (map rec_key (take k c @ c ! k # drop (Suc k) c))"
    using assms(1) c by (metis unique_keys_def)
  then have "filter (\<lambda>rec. rec_key rec \<noteq> rec_key (c ! k)) (take k c) = take k c"
    "filter (\<lambda>rec. rec_key rec \<noteq> rec_key (c ! k)) (drop (Suc k) c) = drop (Suc k) c"
    by (auto simp: filter_id_conv) (metis imageI)+
  then have "filter (\<lambda>rec. rec_key rec \<noteq> rec_key (c ! k)) (take k c @ c ! k # drop (Suc k) c) =
      take k c @ drop (Suc k) c"
    by simp
  then show ?thesis using c by simp
qed

lemma mem_Delete_decoded:
  assumes "mem_inv cd c" and "rec \<in> set c"
  shows "mem_Delete (decode cd rec) [DeleteBy (MetaToResourceKey (Meta (decode cd rec)))] c =
    (None, filter (\<lambda>r. rec_key r \<noteq> rec_key rec) c)"
proof -
  have cd: "codec_ok cd" "unique_keys c" "record_ok cd rec" using assms by (auto simp: mem_inv_def)
  obtain spec where spec: "ToJSON cd spec = Inr (rec_Spec rec)" "spec_type spec = rec_ResourceType rec"
    using cd(3) unfolding record_ok_def by blast
  have d: "decode cd rec = \<lparr>Meta = Some (MemoryMeta (record_meta rec)), Spec = spec\<rparr>"
    by (rule decode_eq [OF cd(1) spec])
  have "mem_abs c (rec_key rec) = Some rec" using mem_abs_member [OF cd(2) assms(2)] .
  then obtain k where f: "findRecord c (rec_ResourceType rec) (rec_Name rec) (rec_Mesh rec) = Some (k, rec)"
    using findRecord_abs [of c "rec_ResourceType rec" "rec_Name rec" "rec_Mesh rec"] by (auto simp: rec_key_def)
  then have "k < length c" "c ! k = rec" by (simp_all add: findRecord_Some)
  then show ?thesis
    using f filter_key_delete [OF cd(2), of k] spec
    by (simp add: d mem_Delete_def Let_def NewDeleteOptions_def DeleteBy_def DeleteByKey_def
        MetaToResourceKey_def record_meta_def GetType_def)
qed

lemma mem_inv_filter: "mem_inv cd c \<Longrightarrow> mem_inv cd (filter P c)"
  by (auto simp: mem_inv_def unique_keys_def distinct_map_filter)

lemma delete_all_loop_mem:
  assumes "mem_inv cd c" and "set recs \<subseteq> set c" and "distinct (map rec_key recs)"
  shows "delete_all_loop mem_Delete (map (decode cd) recs) c =
    (None, filter (\<lambda>r. rec_key r \<notin> rec_key ` set recs) c)"
  using assms
proof (induction recs arbitrary: c)
  case Nil
  then show ?case by simp
next
  case (Cons rec recs)
  have "set recs \<subseteq> set (filter (\<lambda>r. rec_key r \<noteq> rec_key rec) c)"
    using Cons.prems(2,3) by (auto simp: rev_image_eqI)
  then have "delete_all_loop mem_Delete (map (decode cd) recs) (filter (\<lambda>r. rec_key r \<noteq> rec_key rec) c) =
      (None, filter (\<lambda>r. rec_key r \<notin> rec_key ` set recs) (filter (\<lambda>r. rec_key r \<noteq> rec_key rec) c))"
    using Cons.prems by (intro Cons.IH mem_inv_filter) auto
  then show ?case
    using mem_Delete_decoded [OF Cons.prems(1), of rec] Cons.prems(2) by (simp add: conj_commute)
qed

lemma DeleteAllResources_mem:
  assumes "mem_inv cd c" and "zero \<in> set zero_specs" and "int (length c) < 2 ^ 63"
  shows "DeleteAllResources (mem_List cd) mem_Delete (new_list zero) [DeleteAllByMesh mesh] c =
    (None, filter (\<lambda>rec. \<not> (rec_ResourceType rec = spec_type zero \<and> (mesh = '''' \<or> rec_Mesh rec = mesh))) c)"
proof -
  let ?recs = "findRecords c (spec_type zero) mesh"
  have uk: "unique_keys c" using assms(1) by (simp add: mem_inv_def)
  have "distinct (map rec_key ?recs)" using uk by (simp add: findRecords_def unique_keys_def distinct_map_filter)
  then have "delete_all_loop mem_Delete (map (decode cd) ?recs) c =
      (None, filter (\<lambda>r. rec_key r \<notin> rec_key ` set ?recs) c)"
    using assms(1) by (intro delete_all_loop_mem) (auto simp: findRecords_def)
  moreover have "filter (\<lambda>r. rec_key r \<notin> rec_key ` set ?recs) c =
      filter (\<lambda>rec. \<not> (rec_ResourceType rec = spec_type zero \<and> (mesh = '''' \<or> rec_Mesh rec = mesh))) c"
    by (rule filter_cong) (auto simp: findRecords_def rec_key_def)
  ultimately show ?thesis
    using mem_List_all [OF assms, of mesh]
    by (simp add: DeleteAllResources_def NewDeleteAllOptions_def
        DeleteAllByMesh_def Let_def new_list_def)
qed

text \<open>
  \<open>DeleteAll\<close> removes exactly the resources of its type in the mesh (in every mesh when the mesh
  is empty), keeps all others in their order, and does not fail.
\<close>

theorem delete_all_is_exact:
  assumes "mem_inv cd c" and "zero \<in> set zero_specs" and "int (length c) < 2 ^ 63"
  shows "rm_DeleteAll (resourcesManager lib now (memory_store cd)) (new_list zero) [DeleteAllByMesh mesh] c =
    (None, filter (\<lambda>rec. \<not> (rec_ResourceType rec = spec_type zero \<and> (mesh = '''' \<or> rec_Mesh rec = mesh))) c)"
  using DeleteAllResources_mem [OF assms, of mesh] by (simp add: resourcesManager_def memory_store_def)

text \<open>Records of meshes are filed under their own name.\<close>

definition mesh_named :: "memoryStore \<Rightarrow> bool" where
  "mesh_named c \<longleftrightarrow> (\<forall>rec \<in> set c. rec_ResourceType rec = MeshType \<longrightarrow> rec_Mesh rec = rec_Name rec)"

lemma mesh_named_create:
  "mesh_named c \<Longrightarrow> mem_Create cd r fs c = (e, r', c') \<Longrightarrow> mesh_named c'"
  by (erule mem_Create_cases) (auto simp: mesh_named_def created_record_def create_key_def)

lemma mesh_named_update:
  assumes "mesh_named c" and "mem_Update cd r fs c = (e, c')"
  shows "mesh_named c'"
  using assms(2)
proof (cases rule: mem_Update_cases)
  case (updated m rec idx content)
  let ?new = "updated_record r m (uo_ModificationTime (NewUpdateOptions fs)) content"
  have "rec \<in> set c" "rec_key rec = rec_key ?new"
    using updated(2) unfolding findRecord_Some rec_key_updated update_key_def by (metis nth_mem)+
  then have "rec_ResourceType ?new = MeshType \<longrightarrow> rec_Mesh ?new = rec_Name ?new"
    using assms(1) unfolding mesh_named_def rec_key_def prod.inject by metis
  moreover have "set c' \<subseteq> insert ?new (set c)" unfolding updated(6) by (rule set_update_subset_insert)
  ultimately show ?thesis using assms(1) unfolding mesh_named_def by blast
qed (use assms in simp)

lemma mesh_named_delete:
  "mesh_named c \<Longrightarrow> mem_Delete r fs c = (e, c') \<Longrightarrow> mesh_named c'"
  by (erule mem_Delete_cases) (auto simp: mesh_named_def dest: in_set_takeD in_set_dropD)

text \<open>The states of the memory store that managers produce: valid contents, meshes under their name.\<close>

definition managed_ok :: "codec \<Rightarrow> library \<Rightarrow> memoryStore \<Rightarrow> bool" where
  "managed_ok cd lib c \<longleftrightarrow> all_valid (mem_inv cd) (mem_contents cd) lib c \<and> mesh_named c"

interpretation memory_managed: managed_store "memory_store cd" lib "managed_ok cd lib"
  for cd lib
proof unfold_locales
  fix s r cfs e r' s'
  assume "managed_ok cd lib s" "Validate lib r = None" and c: "st_Create (memory_store cd) r cfs s = (e, r', s')"
  then show "managed_ok cd lib s'"
    using mem.valid.create_keeps [OF _ _ c] mesh_named_create by (auto simp: managed_ok_def memory_store_def)
next
  fix s r ufs e s'
  assume "managed_ok cd lib s" "Validate lib r = None" and u: "st_Update (memory_store cd) r ufs s = (e, s')"
  then show "managed_ok cd lib s'"
    using mem.valid.update_keeps [OF _ _ u] mesh_named_update by (auto simp: managed_ok_def memory_store_def)
next
  fix s r dfs e s'
  assume "managed_ok cd lib s" and d: "st_Delete (memory_store cd) r dfs s = (e, s')"
  then show "managed_ok cd lib s'"
    using mem.valid.delete_keeps [OF _ d] mesh_named_delete by (auto simp: managed_ok_def memory_store_def)
qed

lemma findRecords_mesh:
  assumes "unique_keys c" and "mesh_named c" and "mesh \<noteq> ''''"
  shows "length (findRecords c MeshType mesh) = (case mem_abs c (MeshType, mesh, mesh) of None \<Rightarrow> 0 | Some _ \<Rightarrow> 1)"
proof -
  have "findRecords c MeshType mesh = filter (\<lambda>rec. (MeshType, mesh, mesh) = rec_key rec) c"
    unfolding findRecords_def rec_key_def prod.inject
    using assms(2,3) unfolding mesh_named_def by (intro filter_cong refl) metis
  then have len: "length (findRecords c MeshType mesh) = count_list (map rec_key c) (MeshType, mesh, mesh)"
    by (simp add: count_list_eq_length_filter filter_map comp_def)
  show ?thesis
  proof (cases "mem_abs c (MeshType, mesh, mesh)")
    case None
    then have "count_list (map rec_key c) (MeshType, mesh, mesh) = 0"
      by (simp add: mem_abs_None count_list_0_iff)
    then show ?thesis using None len by simp
  next
    case (Some rec)
    then have "(MeshType, mesh, mesh) \<in> set (map rec_key c)" using mem_abs_key [of c] by force
    moreover have "distinct (map rec_key c)" using assms(1) by (simp add: unique_keys_def)
    ultimately have "count_list (map rec_key c) (MeshType, mesh, mesh) = 1"
      unfolding distinct_count_atmost_1 count_mset by presburger
    then show ?thesis using Some len by simp
  qed
qed

text \<open>
  A resource other than a mesh can only be created in a mesh that exists: for a valid resource and
  a non-empty mesh name, \<open>Create\<close> reports \<open>MeshNotFound\<close> and changes nothing when the mesh is
  missing, and otherwise does what the store does, with the time of the call as creation time.
\<close>

theorem create_requires_mesh:
  assumes "mem_inv cd c" and "mesh_named c" and "int (length c) < 2 ^ 63"
    and "Validate lib r = None" and "GetType r \<noteq> MeshType" and "mesh \<noteq> ''''"
  shows "res_Create lib now (memory_store cd) r [CreateByKey name mesh] c =
    (if mem_abs c (MeshType, mesh, mesh) = None then (Some (ErrMeshNotFound mesh), r, c)
     else mem_Create cd r [CreateByKey name mesh, CreatedAt now] c)"
proof -
  have zero: "zero_of MeshType \<in> set zero_specs" "spec_type (zero_of MeshType) = MeshType"
    using zero_specs_complete [of "MeshSpec m" for m] by simp_all
  have "ensureMeshExists (memory_store cd) mesh c =
      (case mem_abs c (MeshType, mesh, mesh) of None \<Rightarrow> Some (ErrMeshNotFound mesh) | Some _ \<Rightarrow> None)"
    using mem_List_all [OF assms(1) zero(1) assms(3), of mesh] findRecords_mesh [OF _ assms(2,6)] assms(1) zero(2)
    by (simp add: ensureMeshExists_def memory_store_def new_list_def mem_inv_def split: option.split)
  then show ?thesis
    using assms(4,5)
    by (auto simp: res_Create_def Let_def NewCreateOptions_def CreateByKey_def memory_store_def split: option.split)
qed

definition example_library :: library where
  "example_library = \<lparr>lib_url_Port = (\<lambda>_. Some ''9411''), lib_ptypes_Duration = (\<lambda>d. Some (Seconds d)),
     lib_ResourceFromYaml = (\<lambda>_. None)\<rparr>"

definition example_resource :: AnyResource where
  "example_resource = \<lparr>Meta = None, Spec = TrafficPermissionSpec example_permission\<rparr>"

lemma example_resource_valid: "Validate example_library example_resource = None"
  by code_simp

lemma empty_store_ok: "mem_inv example_codec []" "mesh_named []"
  by (simp_all add: mem_inv_def unique_keys_def mesh_named_def example_codec_ok)

theorem create_requires_mesh_witness:
  "res_Create example_library 7 (memory_store example_codec) example_resource [CreateByKey ''p'' ''default''] [] =
     (Some (ErrMeshNotFound ''default''), example_resource, [])"
  using create_requires_mesh [OF empty_store_ok _ example_resource_valid, of "''default''" 7 "''p''"]
  by (simp add: example_resource_def GetType_def MeshType_def mem_abs_def)

theorem delete_all_is_exact_witness:
  "rm_DeleteAll (resourcesManager example_library 7 (memory_store example_codec)) (new_list (zero_of ''TrafficPermission''))
     [DeleteAllByMesh ''default''] (snd example_created) = (None, [])"
proof -
  have c: "mem_Create example_codec \<lparr>Meta = None, Spec = TrafficPermissionSpec example_permission\<rparr>
      [CreateByKey ''p'' ''default'', CreatedAt 5] [] = (None, fst example_created, snd example_created)"
    by (simp add: example_created_def mem_Create_def findRecord_def marshalRecord_def example_codec_def Let_def)
  have inv: "mem_inv example_codec (snd example_created)" using mem_Create_contents [OF empty_store_ok(1) c] by blast
  have zero: "zero_of ''TrafficPermission'' \<in> set zero_specs" "spec_type (zero_of ''TrafficPermission'') = ''TrafficPermission''"
    using zero_specs_complete [of "TrafficPermissionSpec example_permission"] by simp_all
  show ?thesis
    using delete_all_is_exact [OF inv zero(1), of example_library 7 "''default''"] zero(2)
    by (simp add: example_created_def mem_Create_def findRecord_def marshalRecord_def example_codec_def Let_def
        NewCreateOptions_def CreateByKey_def CreatedAt_def GetType_def MeshType_def)
qed

text \<open>
  C37. The cached manager keys its entries by name and mesh only: a read that asks for a version is
  answered from the cache although the delegate would reject the version.
\<close>

theorem cache_ignores_version:
  assumes "cached_Get delegate res [GetByKey name mesh] [] = (None, res1, c)"
    and "GetType res1 = GetType res2" and "GetType res = GetType res2"
  shows "cached_Get delegate res2 [GetByKey name mesh, GetByVersion v] c =
    (None, res2\<lparr>Spec := Spec res1, Meta := Meta res1\<rparr>, c)"
proof -
  have k: "get_cache_key (GetType res) (NewGetOptions [GetByKey name mesh]) =
      get_cache_key (GetType res2) (NewGetOptions [GetByKey name mesh, GetByVersion v])"
    using assms(3) by (simp add: get_cache_key_def GetOptions_HashCode_def NewGetOptions_def GetByKey_def GetByVersion_def)
  have "c = [(get_cache_key (GetType res) (NewGetOptions [GetByKey name mesh]), CachedResource res1)]"
    using assms(1) by (auto simp: cached_Get_def Let_def split: prod.splits option.splits)
  then show ?thesis
    using assms(2) k by (simp add: cached_Get_def Let_def SetSpec_def GetType_def)
qed

theorem cache_ignores_version_witness:
  "\<exists>c. fst (cached_Get (\<lambda>r fs. mem_Get example_codec r fs (snd example_created))
       \<lparr>Meta = None, Spec = zero_of ''TrafficPermission''\<rparr> [GetByKey ''p'' ''default''] []) = None \<and>
     fst (mem_Get example_codec \<lparr>Meta = None, Spec = zero_of ''TrafficPermission''\<rparr>
       [GetByKey ''p'' ''default'', GetByVersion ''9''] (snd example_created)) \<noteq> None \<and>
     fst (cached_Get (\<lambda>r fs. mem_Get example_codec r fs (snd example_created))
       \<lparr>Meta = None, Spec = zero_of ''TrafficPermission''\<rparr> [GetByKey ''p'' ''default'', GetByVersion ''9''] c) = None"
proof -
  let ?r = "\<lparr>Meta = None, Spec = zero_of ''TrafficPermission''\<rparr>"
  let ?d = "\<lambda>r fs. mem_Get example_codec r fs (snd example_created)"
  note defs = mem_Get_def example_created_def mem_Create_def findRecord_def marshalRecord_def example_codec_def Let_def
    NewCreateOptions_def CreateByKey_def CreatedAt_def GetType_def MeshType_def NewGetOptions_def GetByKey_def
    zero_of_def zero_specs_def unmarshalRecord_def initialVersion_def GetByVersion_def memoryVersion_String_def
  have get: "?d ?r [GetByKey ''p'' ''default''] = (None, fst example_created)"
    by (simp add: defs record_meta_def)
  have "format_nat 1 \<noteq> ''9''" by code_simp
  then have bad: "fst (?d ?r [GetByKey ''p'' ''default'', GetByVersion ''9'']) \<noteq> None"
    by (auto simp: defs)
  obtain c where c: "cached_Get ?d ?r [GetByKey ''p'' ''default''] [] = (None, fst example_created, c)"
    using get by (simp add: cached_Get_def Let_def)
  have t: "GetType (fst example_created) = GetType ?r" by (simp add: defs)
  show ?thesis
    using cache_ignores_version [OF c t refl, of "''9''"] c bad by (intro exI [of _ c]) simp
qed

end
