(* ===== verification/Mesh_Manager.thy ===== *)
theory Mesh_Manager
  imports Resource_Manager
begin

text \<open>
  The manager of secrets (\<open>pkg/core/secrets/manager\<close>) and the manager of meshes
  (\<open>pkg/core/managers/apis/mesh\<close>), with the validation of certificate authorities and the
  creation of the default mesh.  The states that any sequence of manager operations reaches are
  defined inductively, and every resource in such a state is valid.
\<close>

section \<open>Secrets\<close>

text \<open>The interface \<open>cipher.Cipher\<close>, and the cipher that leaves data as it is.\<close>

record Cipher =
  Encrypt :: "string \<Rightarrow> go_error + string"
  Decrypt :: "string \<Rightarrow> go_error + string"

definition none_cipher :: Cipher where
  "none_cipher = \<lparr>Encrypt = Inr, Decrypt = Inr\<rparr>"

definition map_secret :: "(string \<Rightarrow> go_error + string) \<Rightarrow> AnyResource \<Rightarrow> go_error option \<times> AnyResource" where
  "map_secret f secret =
     (case Spec secret of
        SecretSpec (Some data) \<Rightarrow>
          if 0 < length data
          then (case f data of
                  Inl err \<Rightarrow> (Some err, secret)
                | Inr v \<Rightarrow> (None, secret\<lparr>Spec := SecretSpec (Some v)\<rparr>))
          else (None, secret)
      | _ \<Rightarrow> (None, secret))"

definition secret_encrypt :: "Cipher \<Rightarrow> AnyResource \<Rightarrow> go_error option \<times> AnyResource" where
  "secret_encrypt ciph = map_secret (Encrypt ciph)"

definition secret_decrypt :: "Cipher \<Rightarrow> AnyResource \<Rightarrow> go_error option \<times> AnyResource" where
  "secret_decrypt ciph = map_secret (Decrypt ciph)"

definition secret_Get ::
  "Cipher \<Rightarrow> 's ResourceStore \<Rightarrow> AnyResource \<Rightarrow> (GetOptions \<Rightarrow> GetOptions) list \<Rightarrow> 's \<Rightarrow>
   go_error option \<times> AnyResource" where
  "secret_Get ciph store secret fs s =
     (case st_Get store secret fs s of
        (Some err, secret) \<Rightarrow> (Some err, secret)
      | (None, secret) \<Rightarrow> secret_decrypt ciph secret)"

text \<open>The loop of \<open>List\<close> decrypts the items one by one and stops at the first error.\<close>

fun decrypt_items :: "Cipher \<Rightarrow> AnyResource list \<Rightarrow> go_error option \<times> AnyResource list" where
  "decrypt_items ciph [] = (None, [])"
| "decrypt_items ciph (secret # rest) =
     (case secret_decrypt ciph secret of
        (Some err, secret') \<Rightarrow> (Some err, secret' # rest)
      | (None, secret') \<Rightarrow> (case decrypt_items ciph rest of (e, rest') \<Rightarrow> (e, secret' # rest')))"

definition secret_List ::
  "Cipher \<Rightarrow> 's ResourceStore \<Rightarrow> ResourceList \<Rightarrow> (ListOptions \<Rightarrow> ListOptions) list \<Rightarrow> 's \<Rightarrow>
   go_error option \<times> ResourceList" where
  "secret_List ciph store secrets fs s =
     (case st_List store secrets fs s of
        (Some err, secrets) \<Rightarrow> (Some err, secrets)
      | (None, secrets) \<Rightarrow>
          (case decrypt_items ciph (rl_Items secrets) of (e, items) \<Rightarrow> (e, secrets\<lparr>rl_Items := items\<rparr>)))"

definition secret_Create ::
  "Cipher \<Rightarrow> gotime \<Rightarrow> 's ResourceStore \<Rightarrow> AnyResource \<Rightarrow> (CreateOptions \<Rightarrow> CreateOptions) list \<Rightarrow> 's \<Rightarrow>
   go_error option \<times> AnyResource \<times> 's" where
  "secret_Create ciph now store secret fs s =
     (case secret_encrypt ciph secret of
        (Some err, secret) \<Rightarrow> (Some err, secret, s)
      | (None, secret) \<Rightarrow>
          (case st_Create store secret (fs @ [CreatedAt now]) s of
             (Some err, secret, s') \<Rightarrow> (Some err, secret, s')
           | (None, secret, s') \<Rightarrow> (case secret_decrypt ciph secret of (e, secret) \<Rightarrow> (e, secret, s'))))"

definition secret_Update ::
  "Cipher \<Rightarrow> gotime \<Rightarrow> 's ResourceStore \<Rightarrow> AnyResource \<Rightarrow> (UpdateOptions \<Rightarrow> UpdateOptions) list \<Rightarrow> 's \<Rightarrow>
   go_error option \<times> AnyResource \<times> 's" where
  "secret_Update ciph now store secret fs s =
     (case secret_encrypt ciph secret of
        (Some err, secret) \<Rightarrow> (Some err, secret, s)
      | (None, secret) \<Rightarrow>
          (case st_Update store secret (fs @ [ModifiedAt now]) s of
             (Some err, s') \<Rightarrow> (Some err, secret, s')
           | (None, s') \<Rightarrow> (case secret_decrypt ciph secret of (e, secret) \<Rightarrow> (e, secret, s'))))"

definition secret_Delete ::
  "'s ResourceStore \<Rightarrow> AnyResource \<Rightarrow> (DeleteOptions \<Rightarrow> DeleteOptions) list \<Rightarrow> 's \<Rightarrow> go_error option \<times> 's" where
  "secret_Delete store = st_Delete store"

definition secret_DeleteAll ::
  "'s ResourceStore \<Rightarrow> (DeleteAllOptions \<Rightarrow> DeleteAllOptions) list \<Rightarrow> 's \<Rightarrow> go_error option \<times> 's" where
  "secret_DeleteAll store fs s =
     DeleteAllResources (st_List store) (secret_Delete store) (new_list (zero_of SecretType)) fs s"

section \<open>Certificate authorities of a mesh\<close>

text \<open>
  The interface \<open>ca.Manager\<close> is implemented by plugins: \<open>ValidateBackend\<close> may fail with any error,
  \<open>Ensure\<close> may write secrets.
\<close>

record 's caManager =
  ca_ValidateBackend :: "string \<Rightarrow> CertificateAuthorityBackend \<Rightarrow> 's \<Rightarrow> go_error option"
  ca_Ensure :: "string \<Rightarrow> CertificateAuthorityBackend \<Rightarrow> 's \<Rightarrow> go_error option \<times> 's"

type_synonym 's caManagers = "(string, 's caManager) gomap"

definition mtls_backends :: "MeshResource \<Rightarrow> CertificateAuthorityBackend list" where
  "mtls_backends m = (case mesh_Mtls (Spec m) of None \<Rightarrow> [] | Some t \<Rightarrow> mtls_Backends t)"

definition mtls_enabled_backend :: "MeshResource \<Rightarrow> string" where
  "mtls_enabled_backend m = (case mesh_Mtls (Spec m) of None \<Rightarrow> '''' | Some t \<Rightarrow> mtls_EnabledBackend t)"

fun validateMTLSBackends_loop ::
  "'s caManagers \<Rightarrow> string \<Rightarrow> 's \<Rightarrow> nat \<Rightarrow> CertificateAuthorityBackend list \<Rightarrow> ValidationError \<Rightarrow> go_error option" where
  "validateMTLSBackends_loop cas name s idx [] verr = OrNil verr"
| "validateMTLSBackends_loop cas name s idx (backend # rest) verr =
     (let path = path_Field ''backends'' (RootedAt ''mtls'') in
      case map_of cas (cab_Type backend) of
        None \<Rightarrow>
          OrNil (AddViolationAt (path_Field ''type'' (path_Index idx path))
                   ''could not find installed plugin for this type'' verr)
      | Some caManager \<Rightarrow>
          (case ca_ValidateBackend caManager name backend s of
             None \<Rightarrow> validateMTLSBackends_loop cas name s (Suc idx) rest verr
           | Some (ErrValidation configErr) \<Rightarrow>
               validateMTLSBackends_loop cas name s (Suc idx) rest
                 (AddErrorAt (path_Field ''config'' (path_Index idx path)) configErr verr)
           | Some err \<Rightarrow> Some err))"

definition validateMTLSBackends :: "'s caManagers \<Rightarrow> string \<Rightarrow> MeshResource \<Rightarrow> 's \<Rightarrow> go_error option" where
  "validateMTLSBackends cas name resource s =
     validateMTLSBackends_loop cas name s 0 (mtls_backends resource) []"

definition mesh_ValidateCreate :: "'s caManagers \<Rightarrow> string \<Rightarrow> MeshResource \<Rightarrow> 's \<Rightarrow> go_error option" where
  "mesh_ValidateCreate cas name resource s = validateMTLSBackends cas name resource s"

definition validateMTLSBackendChange :: "MeshResource \<Rightarrow> MeshResource \<Rightarrow> go_error option" where
  "validateMTLSBackendChange previousMesh newMesh =
     OrNil (if MTLSEnabled (Some previousMesh) \<and> MTLSEnabled (Some newMesh) \<and>
               mtls_enabled_backend previousMesh \<noteq> mtls_enabled_backend newMesh
            then AddViolation ''mtls.enabledBackend''
                   ''Changing CA when mTLS is enabled is forbidden. Disable mTLS first and then change the CA'' []
            else [])"

definition mesh_ValidateUpdate :: "'s caManagers \<Rightarrow> MeshResource \<Rightarrow> MeshResource \<Rightarrow> 's \<Rightarrow> go_error option" where
  "mesh_ValidateUpdate cas previousMesh newMesh s =
     (case validateMTLSBackendChange previousMesh newMesh of
        Some err \<Rightarrow> Some err
      | None \<Rightarrow> validateMTLSBackends cas (res_name newMesh) newMesh s)"

definition EnsureEnabledCA :: "'s caManagers \<Rightarrow> MeshResource \<Rightarrow> string \<Rightarrow> 's \<Rightarrow> go_error option \<times> 's" where
  "EnsureEnabledCA cas mesh meshName s =
     (case GetEnabledCertificateAuthorityBackend mesh of
        None \<Rightarrow> (None, s)
      | Some backend \<Rightarrow>
          (case map_of cas (cab_Type backend) of
             None \<Rightarrow> (Some (ErrString (''CA manager for type '' @ cab_Type backend @ '' does not exist'')), s)
           | Some caManager \<Rightarrow>
               (case ca_Ensure caManager meshName backend s of
                  (Some err, s') \<Rightarrow> (Some (ErrWrap err (''could not create CA of backend name '' @ cab_Name backend)), s')
                | (None, s') \<Rightarrow> (None, s'))))"

section \<open>The manager of meshes\<close>

record 's meshManager =
  mgr_store :: "'s ResourceStore"
  mgr_otherManagers :: "'s ResourceManager"
  mgr_caManagers :: "'s caManagers"
  mgr_registry :: typeRegistry

definition go_type_name :: "string \<Rightarrow> string" where
  "go_type_name typ = (if typ = SecretType then ''*system.'' else ''*mesh.'') @ typ"

definition invalid_resource_type :: "string \<Rightarrow> string \<Rightarrow> go_error" where
  "invalid_resource_type what typ =
     ErrString (''invalid resource type: expected=*mesh.MeshResource'' @ what @ '', got='' @
       go_type_name typ @ ''Resource'' @ what)"

text \<open>The type assertion of \<open>meshManager.mesh\<close>.\<close>

definition as_mesh :: "AnyResource \<Rightarrow> go_error + MeshResource" where
  "as_mesh resource =
     (case Spec resource of
        MeshSpec m \<Rightarrow> Inr (with_spec resource m)
      | spec \<Rightarrow> Inl (invalid_resource_type '''' (spec_type spec)))"

definition of_mesh :: "MeshResource \<Rightarrow> AnyResource" where
  "of_mesh m = with_spec m (MeshSpec (Spec m))"

definition as_meshes :: "ResourceList \<Rightarrow> go_error option" where
  "as_meshes list =
     (if GetItemType list = MeshType then None
      else Some (invalid_resource_type ''List'' (GetItemType list)))"

definition meshmgr_Get ::
  "'s meshManager \<Rightarrow> AnyResource \<Rightarrow> (GetOptions \<Rightarrow> GetOptions) list \<Rightarrow> 's \<Rightarrow> go_error option \<times> AnyResource" where
  "meshmgr_Get m resource fs s =
     (case as_mesh resource of
        Inl err \<Rightarrow> (Some err, resource)
      | Inr mesh \<Rightarrow> st_Get (mgr_store m) (of_mesh mesh) fs s)"

definition meshmgr_List ::
  "'s meshManager \<Rightarrow> ResourceList \<Rightarrow> (ListOptions \<Rightarrow> ListOptions) list \<Rightarrow> 's \<Rightarrow> go_error option \<times> ResourceList" where
  "meshmgr_List m list fs s =
     (case as_meshes list of Some err \<Rightarrow> (Some err, list) | None \<Rightarrow> st_List (mgr_store m) list fs s)"

definition meshmgr_Create ::
  "library \<Rightarrow> gotime \<Rightarrow> 's meshManager \<Rightarrow> AnyResource \<Rightarrow> (CreateOptions \<Rightarrow> CreateOptions) list \<Rightarrow> 's \<Rightarrow>
   go_error option \<times> AnyResource \<times> 's" where
  "meshmgr_Create lib now m resource fs s =
     (let opts = NewCreateOptions fs in
      case as_mesh resource of
        Inl err \<Rightarrow> (Some err, resource, s)
      | Inr mesh \<Rightarrow>
          (let mesh = Mesh_Default mesh; resource = of_mesh mesh in
           case Validate lib resource of
             Some err \<Rightarrow> (Some err, resource, s)
           | None \<Rightarrow>
               (case mesh_ValidateCreate (mgr_caManagers m) (co_Name opts) mesh s of
                  Some err \<Rightarrow> (Some err, resource, s)
                | None \<Rightarrow>
                    (case EnsureEnabledCA (mgr_caManagers m) mesh (co_Name opts) s of
                       (Some err, s') \<Rightarrow> (Some err, resource, s')
                     | (None, s') \<Rightarrow> st_Create (mgr_store m) resource (fs @ [CreatedAt now]) s'))))"

text \<open>The loop that deletes the resources of every registered type.\<close>

fun delete_types_loop ::
  "'s ResourceManager \<Rightarrow> typeRegistry \<Rightarrow> string \<Rightarrow> string list \<Rightarrow> 's \<Rightarrow> go_error option \<times> 's" where
  "delete_types_loop others registry name [] s = (None, s)"
| "delete_types_loop others registry name (typ # rest) s =
     (case NewList typ registry of
        Inl err \<Rightarrow> (Some err, s)
      | Inr list \<Rightarrow>
          (case rm_DeleteAll others list [DeleteAllByMesh name] s of
             (Some err, s') \<Rightarrow> (Some (ErrWrap err ''could not delete associated resources''), s')
           | (None, s') \<Rightarrow> delete_types_loop others registry name rest s'))"

definition meshmgr_Delete ::
  "'s meshManager \<Rightarrow> AnyResource \<Rightarrow> (DeleteOptions \<Rightarrow> DeleteOptions) list \<Rightarrow> 's \<Rightarrow> go_error option \<times> 's" where
  "meshmgr_Delete m resource fs s =
     (case as_mesh resource of
        Inl err \<Rightarrow> (Some err, s)
      | Inr mesh \<Rightarrow>
          (case st_Delete (mgr_store m) (of_mesh mesh) fs s of
             (err, s1) \<Rightarrow>
               if err \<noteq> None \<and> \<not> IsResourceNotFound err then (err, s1)
               else
                 (let notFoundErr = err; opts = NewDeleteOptions fs in
                  case secret_DeleteAll (mgr_store m) [DeleteAllByMesh (do_Mesh opts)] s1 of
                    (Some err, s2) \<Rightarrow> (Some (ErrWrap err ''could not delete associated secrets''), s2)
                  | (None, s2) \<Rightarrow>
                      (case delete_types_loop (mgr_otherManagers m) (mgr_registry m) (do_Name opts)
                              (ListTypes (mgr_registry m)) s2 of
                         (Some err, s3) \<Rightarrow> (Some err, s3)
                       | (None, s3) \<Rightarrow> (notFoundErr, s3)))))"

definition meshmgr_DeleteAll ::
  "'s meshManager \<Rightarrow> ResourceList \<Rightarrow> (DeleteAllOptions \<Rightarrow> DeleteAllOptions) list \<Rightarrow> 's \<Rightarrow> go_error option \<times> 's" where
  "meshmgr_DeleteAll m list fs s =
     (case as_meshes list of
        Some err \<Rightarrow> (Some err, s)
      | None \<Rightarrow> DeleteAllResources (meshmgr_List m) (meshmgr_Delete m) list fs s)"

text \<open>\<open>mesh.GetMeta().GetVersion()\<close> panics when the resource has no metadata.\<close>

definition meshmgr_Update ::
  "library \<Rightarrow> gotime \<Rightarrow> 's meshManager \<Rightarrow> AnyResource \<Rightarrow> (UpdateOptions \<Rightarrow> UpdateOptions) list \<Rightarrow> 's \<Rightarrow>
   go_error option \<times> AnyResource \<times> 's" where
  "meshmgr_Update lib now m resource fs s =
     (case as_mesh resource of
        Inl err \<Rightarrow> (Some err, resource, s)
      | Inr mesh \<Rightarrow>
          (let mesh = Mesh_Default mesh; resource = of_mesh mesh in
           case Validate lib resource of
             Some err \<Rightarrow> (Some err, resource, s)
           | None \<Rightarrow>
               (case Meta mesh of
                  None \<Rightarrow> (Some (ErrPanic ''nil pointer dereference''), resource, s)
                | Some meta \<Rightarrow>
                    (case meshmgr_Get m \<lparr>Meta = None, Spec = zero_of MeshType\<rparr>
                            [GetBy (MetaToResourceKey (Some meta)), GetByVersion (meta_GetVersion meta)] s of
                       (Some err, _) \<Rightarrow> (Some err, resource, s)
                     | (None, current) \<Rightarrow>
                         (case as_mesh current of
                            Inl err \<Rightarrow> (Some err, resource, s)
                          | Inr currentMesh \<Rightarrow>
                              (case mesh_ValidateUpdate (mgr_caManagers m) currentMesh mesh s of
                                 Some err \<Rightarrow> (Some err, resource, s)
                               | None \<Rightarrow>
                                   (case EnsureEnabledCA (mgr_caManagers m) mesh (meta_GetName meta) s of
                                      (Some err, s') \<Rightarrow> (Some err, resource, s')
                                    | (None, s') \<Rightarrow>
                                        (case st_Update (mgr_store m) resource (fs @ [ModifiedAt now]) s' of
                                           (err, s'') \<Rightarrow> (err, resource, s'')))))))))"

definition meshManager :: "library \<Rightarrow> gotime \<Rightarrow> 's meshManager \<Rightarrow> 's ResourceManager" where
  "meshManager lib now m =
     \<lparr>rm_Get = meshmgr_Get m, rm_List = meshmgr_List m, rm_Create = meshmgr_Create lib now m,
      rm_Update = meshmgr_Update lib now m, rm_Delete = meshmgr_Delete m,
      rm_DeleteAll = meshmgr_DeleteAll m\<rparr>"

definition CreateDefaultMesh :: "'s ResourceManager \<Rightarrow> Mesh \<Rightarrow> 's \<Rightarrow> go_error option \<times> 's" where
  "CreateDefaultMesh resManager template s =
     (let key = \<lparr>key_Mesh = DefaultMesh, key_Name = DefaultMesh\<rparr> in
      case rm_Get resManager \<lparr>Meta = None, Spec = zero_of MeshType\<rparr> [GetBy key] s of
        (None, _) \<Rightarrow> (None, s)
      | (Some err, defaultMesh) \<Rightarrow>
          if IsResourceNotFound (Some err)
          then (case rm_Create resManager (defaultMesh\<lparr>Spec := MeshSpec template\<rparr>) [CreateBy key] s of
                  (Some err, _, s') \<Rightarrow>
                    (Some (ErrWrap err ''Failed to create `default` Mesh resource in a given resource store''), s')
                | (None, _, s') \<Rightarrow> (None, s'))
          else (Some err, s))"

section \<open>The manager of the control plane\<close>

text \<open>
  \<open>initializeResourceManager\<close> ties a knot: the mesh manager deletes through the customizable
  manager, which dispatches meshes to the mesh manager.  The model unfolds the knot \<open>fuel\<close> times;
  \<open>mesh_deletion\<close> below shows that deleting a mesh needs two unfoldings only.
\<close>

definition stuck_manager :: "'s ResourceManager" where
  "stuck_manager =
     (let stuck = Some (ErrPanic ''out of fuel'') in
      \<lparr>rm_Get = (\<lambda>r fs s. (stuck, r)), rm_List = (\<lambda>l fs s. (stuck, l)), rm_Create = (\<lambda>r fs s. (stuck, r, s)),
       rm_Update = (\<lambda>r fs s. (stuck, r, s)), rm_Delete = (\<lambda>r fs s. (stuck, s)), rm_DeleteAll = (\<lambda>l fs s. (stuck, s))\<rparr>)"

fun customizableManager ::
  "nat \<Rightarrow> library \<Rightarrow> gotime \<Rightarrow> 's ResourceStore \<Rightarrow> 's caManagers \<Rightarrow> typeRegistry \<Rightarrow> 's ResourceManager" where
  "customizableManager 0 lib now store cas registry =
     customizableResourceManager (resourcesManager lib now store) [(MeshType, stuck_manager)]"
| "customizableManager (Suc fuel) lib now store cas registry =
     customizableResourceManager (resourcesManager lib now store)
       [(MeshType, meshManager lib now
          \<lparr>mgr_store = store, mgr_otherManagers = customizableManager fuel lib now store cas registry,
           mgr_caManagers = cas, mgr_registry = registry\<rparr>)]"

lemma rm_customizable:
  "rm_Create (customizableManager (Suc fuel) lib now store cas registry) r =
     (if GetType r = MeshType
      then meshmgr_Create lib now \<lparr>mgr_store = store, mgr_otherManagers = customizableManager fuel lib now store cas registry,
           mgr_caManagers = cas, mgr_registry = registry\<rparr> r
      else res_Create lib now store r)"
  "rm_Update (customizableManager (Suc fuel) lib now store cas registry) r =
     (if GetType r = MeshType
      then meshmgr_Update lib now \<lparr>mgr_store = store, mgr_otherManagers = customizableManager fuel lib now store cas registry,
           mgr_caManagers = cas, mgr_registry = registry\<rparr> r
      else res_Update lib now store r)"
  "rm_Delete (customizableManager (Suc fuel) lib now store cas registry) r =
     (if GetType r = MeshType
      then meshmgr_Delete \<lparr>mgr_store = store, mgr_otherManagers = customizableManager fuel lib now store cas registry,
           mgr_caManagers = cas, mgr_registry = registry\<rparr> r
      else st_Delete store r)"
  "rm_DeleteAll (customizableManager (Suc fuel) lib now store cas registry) l =
     (if GetItemType l = MeshType
      then meshmgr_DeleteAll \<lparr>mgr_store = store, mgr_otherManagers = customizableManager fuel lib now store cas registry,
           mgr_caManagers = cas, mgr_registry = registry\<rparr> l
      else DeleteAllResources (st_List store) (st_Delete store) l)"
  "rm_DeleteAll (customizableManager 0 lib now store cas registry) l fs s =
     (if GetItemType l = MeshType then (Some (ErrPanic ''out of fuel''), s)
      else DeleteAllResources (st_List store) (st_Delete store) l fs s)"
  by (simp_all add: customizableResourceManager_def customizable_resourceManager_def meshManager_def
      resourcesManager_def stuck_manager_def Let_def)

declare customizableManager.simps [simp del]

section \<open>Every operation keeps stored resources valid\<close>

text \<open>What is assumed of the plugins for certificate authorities: \<open>Ensure\<close> keeps \<open>I\<close>.\<close>

definition ca_keeps :: "('s \<Rightarrow> bool) \<Rightarrow> 's caManagers \<Rightarrow> bool" where
  "ca_keeps I cas \<longleftrightarrow>
     (\<forall>(typ, ca) \<in> set cas. \<forall>mesh backend s e s'. I s \<longrightarrow> ca_Ensure ca mesh backend s = (e, s') \<longrightarrow> I s')"

lemma Validate_secret: "GetType r = SecretType \<Longrightarrow> Validate lib r = None"
  by (cases "Spec r") (simp_all add: Validate_def GetType_def MeshType_def SecretType_def)

lemma GetType_map_secret: "map_secret f r = (e, r') \<Longrightarrow> GetType r' = GetType r"
  by (auto simp: map_secret_def GetType_def split: ResourceSpec.splits option.splits if_splits sum.splits)

context managed_store
begin

lemma secret_Create_keeps:
  assumes "I s" and "GetType r = SecretType" and c: "secret_Create ciph now store r fs s = (e, r', s')"
  shows "I s'"
proof -
  obtain e1 r1 where enc: "secret_encrypt ciph r = (e1, r1)" by fastforce
  have v: "Validate lib r1 = None"
    using GetType_map_secret [OF enc [unfolded secret_encrypt_def]] assms(2) Validate_secret by simp
  obtain e2 r2 s2 where st: "st_Create store r1 (fs @ [CreatedAt now]) s = (e2, r2, s2)" by (metis prod_cases3)
  have "I s2" by (rule create_keeps [OF assms(1) v st])
  then show ?thesis
    using c assms(1) by (auto simp: secret_Create_def enc st split: option.splits prod.splits)
qed

lemma secret_Update_keeps:
  assumes "I s" and "GetType r = SecretType" and u: "secret_Update ciph now store r fs s = (e, r', s')"
  shows "I s'"
proof -
  obtain e1 r1 where enc: "secret_encrypt ciph r = (e1, r1)" by fastforce
  have v: "Validate lib r1 = None"
    using GetType_map_secret [OF enc [unfolded secret_encrypt_def]] assms(2) Validate_secret by simp
  obtain e2 s2 where st: "st_Update store r1 (fs @ [ModifiedAt now]) s = (e2, s2)" by fastforce
  have "I s2" by (rule update_keeps [OF assms(1) v st])
  then show ?thesis
    using u assms(1) by (auto simp: secret_Update_def enc st split: option.splits prod.splits)
qed

lemma secret_DeleteAll_keeps: "I s \<Longrightarrow> secret_DeleteAll store fs s = (e, s') \<Longrightarrow> I s'"
  unfolding secret_DeleteAll_def secret_Delete_def by (rule DeleteAllResources_keeps [OF delete_keeps])

lemma EnsureEnabledCA_keeps:
  assumes "ca_keeps I cas" and "I s" and "EnsureEnabledCA cas mesh name s = (e, s')"
  shows "I s'"
proof (cases "GetEnabledCertificateAuthorityBackend mesh")
  case None
  then show ?thesis using assms by (simp add: EnsureEnabledCA_def)
next
  case (Some backend)
  show ?thesis
  proof (cases "map_of cas (cab_Type backend)")
    case None
    then show ?thesis using assms Some by (simp add: EnsureEnabledCA_def)
  next
    case (Some ca)
    obtain e1 s1 where "ca_Ensure ca name backend s = (e1, s1)" by fastforce
    moreover have "(cab_Type backend, ca) \<in> set cas" using Some by (rule map_of_SomeD)
    ultimately have "I s1" using assms(1,2) unfolding ca_keeps_def by blast
    then show ?thesis
      using assms(3) Some \<open>GetEnabledCertificateAuthorityBackend mesh = Some backend\<close>
        \<open>ca_Ensure ca name backend s = (e1, s1)\<close>
      by (auto simp: EnsureEnabledCA_def split: option.splits)
  qed
qed

lemma meshmgr_Create_keeps:
  assumes "mgr_store m = store" and "ca_keeps I (mgr_caManagers m)" and "I s"
    and "meshmgr_Create lib now m r fs s = (e, r', s')"
  shows "I s'"
proof (cases "as_mesh r")
  case (Inl err)
  then show ?thesis using assms(3,4) by (simp add: meshmgr_Create_def)
next
  case (Inr mesh)
  let ?mesh = "Mesh_Default mesh"
  obtain e1 s1 where ca: "EnsureEnabledCA (mgr_caManagers m) ?mesh (co_Name (NewCreateOptions fs)) s = (e1, s1)"
    by fastforce
  have s1: "I s1" by (rule EnsureEnabledCA_keeps [OF assms(2,3) ca])
  show ?thesis
  proof (cases "Validate lib (of_mesh ?mesh) = None \<and>
      mesh_ValidateCreate (mgr_caManagers m) (co_Name (NewCreateOptions fs)) ?mesh s = None \<and> e1 = None")
    case True
    then have "st_Create store (of_mesh ?mesh) (fs @ [CreatedAt now]) s1 = (e, r', s')"
      using assms(1,4) Inr ca by (simp add: meshmgr_Create_def)
    then show ?thesis using create_keeps [OF s1] True by blast
  next
    case False
    then show ?thesis
      using assms(3,4) Inr ca s1 by (auto simp: meshmgr_Create_def Let_def split: option.splits)
  qed
qed

lemma meshmgr_Update_keeps:
  assumes "mgr_store m = store" and "ca_keeps I (mgr_caManagers m)" and "I s"
    and u: "meshmgr_Update lib now m r fs s = (e, r', s')"
  shows "I s'"
proof (cases "as_mesh r")
  case (Inl err)
  then show ?thesis using assms(3,4) by (simp add: meshmgr_Update_def)
next
  case (Inr mesh)
  let ?mesh = "Mesh_Default mesh"
  show ?thesis
  proof (cases "Meta ?mesh")
    case None
    then show ?thesis using assms(3) u Inr by (auto simp: meshmgr_Update_def Let_def split: option.splits)
  next
    case (Some meta)
    obtain e1 s1 where ca: "EnsureEnabledCA (mgr_caManagers m) ?mesh (meta_GetName meta) s = (e1, s1)" by fastforce
    have s1: "I s1" by (rule EnsureEnabledCA_keeps [OF assms(2,3) ca])
    obtain e2 s2 where st: "st_Update store (of_mesh ?mesh) (fs @ [ModifiedAt now]) s1 = (e2, s2)" by fastforce
    show ?thesis
    proof (cases "Validate lib (of_mesh ?mesh)")
      case None
      have "I s2" by (rule update_keeps [OF s1 None st])
      then show ?thesis
        using assms(1,3) u Inr ca s1 st None Some
        by (auto simp: meshmgr_Update_def Let_def split: option.splits prod.splits sum.splits)
    next
      case (Some err)
      then show ?thesis using assms(3) u Inr by (simp add: meshmgr_Update_def Let_def)
    qed
  qed
qed

lemma delete_types_loop_keeps:
  assumes "\<And>l s e s'. I s \<Longrightarrow> rm_DeleteAll others l [DeleteAllByMesh name] s = (e, s') \<Longrightarrow> I s'"
  shows "I s \<Longrightarrow> delete_types_loop others registry name types s = (e, s') \<Longrightarrow> I s'"
proof (induction types arbitrary: s)
  case Nil
  then show ?case by simp
next
  case (Cons t rest)
  show ?case
  proof (cases "NewList t registry")
    case (Inl err)
    then show ?thesis using Cons.prems by simp
  next
    case (Inr l)
    obtain e1 s1 where d: "rm_DeleteAll others l [DeleteAllByMesh name] s = (e1, s1)" by fastforce
    have s1: "I s1" by (rule assms [OF Cons.prems(1) d])
    show ?thesis
    proof (cases e1)
      case None
      then show ?thesis using Cons.IH [OF s1] Cons.prems(2) Inr d by simp
    next
      case (Some err)
      then show ?thesis using Cons.prems(2) Inr d s1 by auto
    qed
  qed
qed

lemma meshmgr_Delete_keeps:
  assumes "mgr_store m = store" and "I s"
    and others: "\<And>l fs s e s'. I s \<Longrightarrow> rm_DeleteAll (mgr_otherManagers m) l fs s = (e, s') \<Longrightarrow> I s'"
    and d: "meshmgr_Delete m r fs s = (e, s')"
  shows "I s'"
proof (cases "as_mesh r")
  case (Inl err)
  then show ?thesis using assms(2) d by (simp add: meshmgr_Delete_def)
next
  case (Inr mesh)
  let ?o = "NewDeleteOptions fs"
  obtain e1 s1 where st: "st_Delete store (of_mesh mesh) fs s = (e1, s1)" by fastforce
  obtain e2 s2 where sec: "secret_DeleteAll store [DeleteAllByMesh (do_Mesh ?o)] s1 = (e2, s2)" by fastforce
  obtain e3 s3 where loop: "delete_types_loop (mgr_otherManagers m) (mgr_registry m) (do_Name ?o)
      (ListTypes (mgr_registry m)) s2 = (e3, s3)" by fastforce
  have s1: "I s1" by (rule delete_keeps [OF assms(2) st])
  have s2: "I s2" by (rule secret_DeleteAll_keeps [OF s1 sec])
  have "I s3" by (rule delete_types_loop_keeps [OF _ s2 loop]) (erule (1) others)
  then show ?thesis
    using d assms(1) Inr st sec loop s1 s2
    by (auto simp: meshmgr_Delete_def Let_def split: if_splits option.splits)
qed

lemma meshmgr_DeleteAll_keeps:
  assumes "mgr_store m = store" and "I s"
    and others: "\<And>l fs s e s'. I s \<Longrightarrow> rm_DeleteAll (mgr_otherManagers m) l fs s = (e, s') \<Longrightarrow> I s'"
    and d: "meshmgr_DeleteAll m l fs s = (e, s')"
  shows "I s'"
proof (cases "as_meshes l")
  case None
  then have all: "DeleteAllResources (meshmgr_List m) (meshmgr_Delete m) l fs s = (e, s')"
    using d by (simp add: meshmgr_DeleteAll_def)
  show ?thesis
  proof (rule DeleteAllResources_keeps [OF _ assms(2) all])
    fix r dfs s e s'
    assume s: "I s" and del: "meshmgr_Delete m r dfs s = (e, s')"
    show "I s'" by (rule meshmgr_Delete_keeps [OF assms(1) s _ del]) (erule (1) others)
  qed
next
  case (Some err)
  then show ?thesis using assms(2) d by (simp add: meshmgr_DeleteAll_def)
qed

lemma customizable_DeleteAll_keeps:
  "I s \<Longrightarrow> rm_DeleteAll (customizableManager fuel lib now store cas registry) l fs s = (e, s') \<Longrightarrow> I s'"
proof (induction fuel arbitrary: l fs s e s')
  case 0
  show ?case
  proof (cases "GetItemType l = MeshType")
    case True
    then show ?thesis using 0 by (simp add: rm_customizable)
  next
    case False
    then have all: "DeleteAllResources (st_List store) (st_Delete store) l fs s = (e, s')"
      using 0(2) by (simp add: rm_customizable)
    show ?thesis by (rule DeleteAllResources_keeps [OF _ 0(1) all]) (erule (1) delete_keeps)
  qed
next
  case (Suc fuel)
  show ?case
  proof (cases "GetItemType l = MeshType")
    case True
    let ?m = "\<lparr>mgr_store = store, mgr_otherManagers = customizableManager fuel lib now store cas registry,
      mgr_caManagers = cas, mgr_registry = registry\<rparr>"
    have d: "meshmgr_DeleteAll ?m l fs s = (e, s')" using Suc.prems(2) True by (simp add: rm_customizable)
    show ?thesis
    proof (rule meshmgr_DeleteAll_keeps [OF _ Suc.prems(1) _ d])
      fix l fs s e s'
      assume "I s" "rm_DeleteAll (mgr_otherManagers ?m) l fs s = (e, s')"
      then show "I s'" using Suc.IH by simp
    qed simp
  next
    case False
    then have all: "DeleteAllResources (st_List store) (st_Delete store) l fs s = (e, s')"
      using Suc.prems(2) by (simp add: rm_customizable)
    show ?thesis by (rule DeleteAllResources_keeps [OF _ Suc.prems(1) all]) (erule (1) delete_keeps)
  qed
qed

lemma customizable_Create_keeps:
  assumes "ca_keeps I cas" and "I s" and "rm_Create (customizableManager (Suc fuel) lib now store cas registry) r fs s = (e, r', s')"
  shows "I s'"
  using assms meshmgr_Create_keeps [of "\<lparr>mgr_store = store, mgr_otherManagers = customizableManager fuel lib now store cas registry,
      mgr_caManagers = cas, mgr_registry = registry\<rparr>" s now r fs e r' s'] res_Create_keeps [of s now r fs e r' s']
  by (simp add: rm_customizable split: if_splits)

lemma customizable_Update_keeps:
  assumes "ca_keeps I cas" and "I s" and "rm_Update (customizableManager (Suc fuel) lib now store cas registry) r fs s = (e, r', s')"
  shows "I s'"
  using assms meshmgr_Update_keeps [of "\<lparr>mgr_store = store, mgr_otherManagers = customizableManager fuel lib now store cas registry,
      mgr_caManagers = cas, mgr_registry = registry\<rparr>" s now r fs e r' s'] res_Update_keeps [of s now r fs e r' s']
  by (simp add: rm_customizable split: if_splits)

lemma customizable_Delete_keeps:
  assumes "I s" and d: "rm_Delete (customizableManager (Suc fuel) lib now store cas registry) r fs s = (e, s')"
  shows "I s'"
proof (cases "GetType r = MeshType")
  case True
  let ?m = "\<lparr>mgr_store = store, mgr_otherManagers = customizableManager fuel lib now store cas registry,
      mgr_caManagers = cas, mgr_registry = registry\<rparr>"
  have d: "meshmgr_Delete ?m r fs s = (e, s')" using d True by (simp add: rm_customizable)
  show ?thesis
  proof (rule meshmgr_Delete_keeps [OF _ assms(1) _ d])
    fix l fs s e s'
    assume "I s" "rm_DeleteAll (mgr_otherManagers ?m) l fs s = (e, s')"
    then show "I s'" using customizable_DeleteAll_keeps by simp
  qed simp
next
  case False
  then show ?thesis using d delete_keeps [OF assms(1)] by (simp add: rm_customizable)
qed

end

section \<open>Reachable states\<close>

text \<open>
  The states of the memory store that the control plane reaches from an empty store by any sequence
  of calls to its managers, each with its own clock reading, arguments and outcome.
\<close>

inductive managed ::
  "library \<Rightarrow> codec \<Rightarrow> memoryStore caManagers \<Rightarrow> typeRegistry \<Rightarrow> memoryStore \<Rightarrow> bool"
  for lib cd cas registry where
  managed_empty: "managed lib cd cas registry []"
| managed_create: "managed lib cd cas registry s \<Longrightarrow>
    rm_Create (customizableManager (Suc fuel) lib now (memory_store cd) cas registry) r cfs s = (e, r', s') \<Longrightarrow>
    managed lib cd cas registry s'"
| managed_update: "managed lib cd cas registry s \<Longrightarrow>
    rm_Update (customizableManager (Suc fuel) lib now (memory_store cd) cas registry) r ufs s = (e, r', s') \<Longrightarrow>
    managed lib cd cas registry s'"
| managed_delete: "managed lib cd cas registry s \<Longrightarrow>
    rm_Delete (customizableManager (Suc fuel) lib now (memory_store cd) cas registry) r dfs s = (e, s') \<Longrightarrow>
    managed lib cd cas registry s'"
| managed_delete_all: "managed lib cd cas registry s \<Longrightarrow>
    rm_DeleteAll (customizableManager (Suc fuel) lib now (memory_store cd) cas registry) l dafs s = (e, s') \<Longrightarrow>
    managed lib cd cas registry s'"
| managed_secret_create: "managed lib cd cas registry s \<Longrightarrow> GetType r = SecretType \<Longrightarrow>
    secret_Create ciph now (memory_store cd) r cfs s = (e, r', s') \<Longrightarrow> managed lib cd cas registry s'"
| managed_secret_update: "managed lib cd cas registry s \<Longrightarrow> GetType r = SecretType \<Longrightarrow>
    secret_Update ciph now (memory_store cd) r ufs s = (e, r', s') \<Longrightarrow> managed lib cd cas registry s'"
| managed_secret_delete: "managed lib cd cas registry s \<Longrightarrow>
    secret_Delete (memory_store cd) r dfs s = (e, s') \<Longrightarrow> managed lib cd cas registry s'"
| managed_secret_delete_all: "managed lib cd cas registry s \<Longrightarrow>
    secret_DeleteAll (memory_store cd) dafs s = (e, s') \<Longrightarrow> managed lib cd cas registry s'"

lemma managed_invariant:
  assumes "codec_ok cd" and "ca_keeps (managed_ok cd lib) cas" and "managed lib cd cas registry s"
  shows "managed_ok cd lib s"
  using assms(3)
proof induction
  case managed_empty
  then show ?case
    using assms(1) by (simp add: managed_ok_def all_valid_def mem_inv_def mem_contents_def unique_keys_def mesh_named_def)
next
  case (managed_create s fuel now r cfs e r' s')
  show ?case by (rule memory_managed.customizable_Create_keeps [OF assms(2) managed_create.IH managed_create.hyps(2)])
next
  case (managed_update s fuel now r ufs e r' s')
  show ?case by (rule memory_managed.customizable_Update_keeps [OF assms(2) managed_update.IH managed_update.hyps(2)])
next
  case (managed_delete s fuel now r dfs e s')
  show ?case by (rule memory_managed.customizable_Delete_keeps [OF managed_delete.IH managed_delete.hyps(2)])
next
  case (managed_delete_all s fuel now l dafs e s')
  show ?case by (rule memory_managed.customizable_DeleteAll_keeps [OF managed_delete_all.IH managed_delete_all.hyps(2)])
next
  case (managed_secret_create s r ciph now cfs e r' s')
  show ?case by (rule memory_managed.secret_Create_keeps [OF managed_secret_create.IH managed_secret_create.hyps(2,3)])
next
  case (managed_secret_update s r ciph now ufs e r' s')
  show ?case by (rule memory_managed.secret_Update_keeps [OF managed_secret_update.IH managed_secret_update.hyps(2,3)])
next
  case (managed_secret_delete s r dfs e s')
  show ?case
    by (rule memory_managed.delete_keeps [OF managed_secret_delete.IH managed_secret_delete.hyps(2) [unfolded secret_Delete_def]])
next
  case (managed_secret_delete_all s dafs e s')
  show ?case by (rule memory_managed.secret_DeleteAll_keeps [OF managed_secret_delete_all.IH managed_secret_delete_all.hyps(2)])
qed


text \<open>An example run: the default mesh is created, then a traffic permission in it.\<close>

definition example_registry :: typeRegistry where
  "example_registry = map (\<lambda>z. (spec_type z, z)) zero_specs"

definition example_manager :: "memoryStore ResourceManager" where
  "example_manager = customizableManager 2 example_library 7 (memory_store example_codec) [] example_registry"

definition example_mesh_record :: memoryStoreRecord where
  "example_mesh_record = \<lparr>rec_ResourceType = ''Mesh'', rec_Name = ''default'', rec_Mesh = ''default'', rec_Version = 1,
     rec_Spec = ''{}'', rec_CreationTime = 7, rec_ModificationTime = 7\<rparr>"

definition example_permission_record :: memoryStoreRecord where
  "example_permission_record = \<lparr>rec_ResourceType = ''TrafficPermission'', rec_Name = ''p'', rec_Mesh = ''default'',
     rec_Version = 1, rec_Spec = ''permission'', rec_CreationTime = 7, rec_ModificationTime = 7\<rparr>"

lemma example_mesh_created:
  "\<exists>r'. rm_Create example_manager \<lparr>Meta = None, Spec = zero_of MeshType\<rparr> [CreateByKey ''default'' ''default''] [] =
     (None, r', [example_mesh_record])"
proof -
  let ?z = "\<lparr>mesh_Mtls = None, mesh_Tracing = None, mesh_Logging = None, mesh_Metrics = None\<rparr>"
  let ?r = "\<lparr>Meta = None, Spec = MeshSpec ?z\<rparr>"
  have z: "zero_of MeshType = MeshSpec ?z" by (simp add: zero_of_def zero_specs_def)
  have conv: "as_mesh ?r = Inr \<lparr>Meta = None, Spec = ?z\<rparr>" "Mesh_Default \<lparr>Meta = None, Spec = ?z\<rparr> = \<lparr>Meta = None, Spec = ?z\<rparr>"
    "of_mesh \<lparr>Meta = None, Spec = ?z\<rparr> = ?r" "GetType ?r = MeshType"
    by (simp_all add: as_mesh_def of_mesh_def with_spec_def Mesh_Default_def GetType_def)
  have v: "Validate example_library ?r = None" by code_simp
  have ca: "mesh_ValidateCreate [] n \<lparr>Meta = None, Spec = ?z\<rparr> s = None"
    "EnsureEnabledCA [] \<lparr>Meta = None, Spec = ?z\<rparr> n s = (None, s)" for n and s :: memoryStore
    by (simp_all add: mesh_ValidateCreate_def validateMTLSBackends_def mtls_backends_def EnsureEnabledCA_def
        GetEnabledCertificateAuthorityBackend_def GetCertificateAuthorityBackend_def get_field_def)
  have c: "\<exists>r'. mem_Create example_codec ?r [CreateByKey ''default'' ''default'', CreatedAt 7] [] = (None, r', [example_mesh_record])"
    by (simp add: mem_Create_def findRecord_def marshalRecord_def example_codec_def zero_specs_def NewCreateOptions_def
        CreateByKey_def CreatedAt_def initialVersion_def example_mesh_record_def MeshType_def GetType_def)
  show ?thesis
    unfolding z example_manager_def numeral_2_eq_2 rm_customizable meshmgr_Create_def
    using c by (simp add: conv v ca memory_store_def)
qed

lemma example_mesh_store_ok: "mem_inv example_codec [example_mesh_record]" "mesh_named [example_mesh_record]"
proof -
  have "ToJSON example_codec (zero_of MeshType) = Inr (rec_Spec example_mesh_record)"
    "spec_type (zero_of MeshType) = rec_ResourceType example_mesh_record"
    by (simp_all add: example_codec_def zero_of_def zero_specs_def example_mesh_record_def MeshType_def)
  then have "record_ok example_codec example_mesh_record" unfolding record_ok_def by blast
  then show "mem_inv example_codec [example_mesh_record]" "mesh_named [example_mesh_record]"
    by (simp_all add: mem_inv_def unique_keys_def mesh_named_def example_codec_ok example_mesh_record_def)
qed

lemma example_mesh_exists: "ensureMeshExists (memory_store example_codec) ''default'' [example_mesh_record] = None"
proof -
  have l: "mem_List example_codec (new_list (zero_of MeshType)) [ListByMesh ''default''] [example_mesh_record] =
      (None, (new_list (zero_of MeshType))\<lparr>rl_Items := map (decode example_codec)
        (findRecords [example_mesh_record] (spec_type (zero_of MeshType)) ''default'')\<rparr>)"
    using zero_specs_complete [of "MeshSpec m" for m] by (intro mem_List_all example_mesh_store_ok) simp_all
  have "spec_type (zero_of MeshType) = MeshType" using zero_specs_complete [of "MeshSpec m" for m] by simp
  then show ?thesis
    using l by (simp add: ensureMeshExists_def memory_store_def findRecords_def example_mesh_record_def MeshType_def)
qed

text \<open>A valid resource that the codec writes is created next to the default mesh.\<close>

lemma example_created_in_mesh:
  assumes "Validate example_library \<lparr>Meta = None, Spec = spec\<rparr> = None" and "ToJSON example_codec spec = Inr content"
    and "spec_type spec \<noteq> MeshType"
  shows "\<exists>r'. rm_Create example_manager \<lparr>Meta = None, Spec = spec\<rparr> [CreateByKey name ''default''] [example_mesh_record] =
     (None, r', [example_mesh_record, \<lparr>rec_ResourceType = spec_type spec, rec_Name = name, rec_Mesh = ''default'',
       rec_Version = 1, rec_Spec = content, rec_CreationTime = 7, rec_ModificationTime = 7\<rparr>])"
  using assms example_mesh_exists
  by (simp add: example_manager_def numeral_2_eq_2 rm_customizable res_Create_def Let_def NewCreateOptions_def CreateByKey_def
      memory_store_def mem_Create_def findRecord_def marshalRecord_def GetType_def
      CreatedAt_def initialVersion_def example_mesh_record_def MeshType_def)

lemma example_permission_created:
  "\<exists>r'. rm_Create example_manager example_resource [CreateByKey ''p'' ''default''] [example_mesh_record] =
     (None, r', [example_mesh_record, example_permission_record])"
  using example_created_in_mesh [of "TrafficPermissionSpec example_permission" "''permission''" "''p''"] example_resource_valid
  by (simp add: example_resource_def example_permission_record_def example_codec_def MeshType_def)

lemma example_managed:
  "managed example_library example_codec [] example_registry [example_mesh_record, example_permission_record]"
proof -
  obtain r1 where r1: "rm_Create example_manager \<lparr>Meta = None, Spec = zero_of MeshType\<rparr>
      [CreateByKey ''default'' ''default''] [] = (None, r1, [example_mesh_record])"
    using example_mesh_created by blast
  obtain r2 where r2: "rm_Create example_manager example_resource [CreateByKey ''p'' ''default''] [example_mesh_record] =
      (None, r2, [example_mesh_record, example_permission_record])"
    using example_permission_created by blast
  note m = example_manager_def numeral_2_eq_2
  show ?thesis
    by (rule managed_create [OF managed_create [OF managed_empty r1 [unfolded m]] r2 [unfolded m]])
qed


section \<open>Deleting a mesh\<close>

lemma IsResourceNotFound_error [simp]: "IsResourceNotFound (Some (ErrorResourceNotFound t n m))"
  by (simp add: IsResourceNotFound_def ErrorResourceNotFound_def resource_error_def has_prefix_def)

text \<open>The registry holds the zero specification of every type under its name.\<close>

definition registry_ok :: "typeRegistry \<Rightarrow> bool" where
  "registry_ok registry \<longleftrightarrow> wf_map registry \<and> set registry = (\<lambda>z. (spec_type z, z)) ` set zero_specs"

lemma NewList_registered:
  "registry_ok registry \<Longrightarrow> z \<in> set zero_specs \<Longrightarrow> NewList (spec_type z) registry = Inr (new_list z)"
  unfolding registry_ok_def NewList_def wf_map_def
  by (metis (no_types, lifting) image_eqI map_of_is_SomeI option.simps(5))

lemma delete_meshes_none:
  assumes "mem_inv cd c" and "int (length c) < 2 ^ 63" and "z \<in> set zero_specs" and "spec_type z = MeshType"
    and none: "findRecords c MeshType name = []" and "mgr_store m = memory_store cd"
  shows "meshmgr_DeleteAll m (new_list z) [DeleteAllByMesh name] c = (None, c)"
  using mem_List_all [OF assms(1,3,2), of name] none assms(4,6)
  by (simp add: meshmgr_DeleteAll_def as_meshes_def DeleteAllResources_def NewDeleteAllOptions_def DeleteAllByMesh_def
      meshmgr_List_def GetItemType_def new_list_def memory_store_def)

lemma delete_types_loop_mem:
  assumes "mem_inv cd c" and "int (length c) < 2 ^ 63" and reg: "registry_ok registry" and name: "name \<noteq> ''''"
    and none: "findRecords c MeshType name = []" and types: "set types \<subseteq> spec_type ` set zero_specs"
  shows "delete_types_loop (customizableManager (Suc fuel) lib now (memory_store cd) cas registry) registry name types c =
    (None, filter (\<lambda>rec. \<not> (rec_ResourceType rec \<in> set types \<and> rec_Mesh rec = name)) c)"
  using assms(1,2) none types
proof (induction types arbitrary: c)
  case Nil
  then show ?case by simp
next
  case (Cons t rest)
  then obtain z where z: "z \<in> set zero_specs" "spec_type z = t" by auto
  let ?keep = "\<lambda>rec. \<not> (rec_ResourceType rec = t \<and> rec_Mesh rec = name)"
  have d: "rm_DeleteAll (customizableManager (Suc fuel) lib now (memory_store cd) cas registry) (new_list z)
      [DeleteAllByMesh name] c = (None, filter ?keep c)"
  proof (cases "t = MeshType")
    case True
    then have "filter ?keep c = c"
      using Cons.prems(3) by (auto simp: findRecords_def filter_empty_conv filter_id_conv)
    then show ?thesis
      using True delete_meshes_none [OF Cons.prems(1,2) z(1) _ Cons.prems(3)] z
      by (simp add: rm_customizable GetItemType_def new_list_def)
  next
    case False
    then show ?thesis
      using DeleteAllResources_mem [OF Cons.prems(1) z(1) Cons.prems(2), of name] z name
      by (simp add: rm_customizable GetItemType_def new_list_def memory_store_def)
  qed
  have "findRecords (filter ?keep c) MeshType name = []" using Cons.prems(3) by (auto simp: findRecords_def filter_empty_conv)
  moreover have "int (length (filter ?keep c)) < 2 ^ 63" using Cons.prems(2) by (meson le_less_trans length_filter_le of_nat_mono)
  ultimately have "delete_types_loop (customizableManager (Suc fuel) lib now (memory_store cd) cas registry) registry name rest
      (filter ?keep c) = (None, filter (\<lambda>rec. \<not> (rec_ResourceType rec \<in> set rest \<and> rec_Mesh rec = name)) (filter ?keep c))"
    using Cons.prems by (intro Cons.IH mem_inv_filter) auto
  then show ?case
    using d NewList_registered [OF reg z(1)] z(2) by (auto intro!: filter_cong)
qed

text \<open>
  C20. Deleting a mesh by its name removes the mesh and everything in it, secrets included, and nothing
  else; the call ends, and its error says whether the mesh itself was there.
\<close>

theorem mesh_deletion:
  assumes inv: "mem_inv cd c" and named: "mesh_named c" and len: "int (length c) < 2 ^ 63"
    and reg: "registry_ok registry" and name: "name \<noteq> ''''"
    and r: "r = \<lparr>Meta = None, Spec = MeshSpec m\<rparr>"
  shows "rm_Delete (customizableManager (Suc (Suc fuel)) lib now (memory_store cd) cas registry) r [DeleteByKey name name] c =
    (if mem_abs c (MeshType, name, name) = None then Some (ErrorResourceNotFound MeshType name name) else None,
     filter (\<lambda>rec. rec_Mesh rec \<noteq> name) c)"
proof -
  let ?m = "\<lparr>mgr_store = memory_store cd,
    mgr_otherManagers = customizableManager (Suc fuel) lib now (memory_store cd) cas registry,
    mgr_caManagers = cas, mgr_registry = registry\<rparr>"
  let ?e = "if mem_abs c (MeshType, name, name) = None then Some (ErrorResourceNotFound MeshType name name) else None"
  let ?c1 = "filter (\<lambda>rec. rec_key rec \<noteq> (MeshType, name, name)) c"
  let ?c2 = "filter (\<lambda>rec. \<not> (rec_ResourceType rec = SecretType \<and> rec_Mesh rec = name)) ?c1"
  have uk: "unique_keys c" using inv by (simp add: mem_inv_def)
  have del: "mem_Delete r [DeleteByKey name name] c = (?e, ?c1)"
  proof (cases "findRecord c MeshType name name")
    case None
    then have abs: "mem_abs c (MeshType, name, name) = None" by (simp add: findRecord_None)
    then have "?c1 = c" unfolding mem_abs_None filter_id_conv by (metis image_eqI)
    then show ?thesis
      using None abs r by (simp add: mem_Delete_def NewDeleteOptions_def DeleteByKey_def GetType_def Let_def)
  next
    case (Some x)
    obtain k rec where x: "x = (k, rec)" by (cases x)
    then have k: "k < length c" "rec_key (c ! k) = (MeshType, name, name)" using Some by (auto simp: findRecord_Some)
    have "mem_abs c (MeshType, name, name) \<noteq> None" using Some by (metis findRecord_None option.distinct(1))
    then show ?thesis
      using Some x r filter_key_delete [OF uk k(1)] k(2)
      by (simp add: mem_Delete_def NewDeleteOptions_def DeleteByKey_def GetType_def Let_def)
  qed
  have inv1: "mem_inv cd ?c1" and inv2: "mem_inv cd ?c2" using inv by (intro mem_inv_filter; assumption)+
  have shorter: "int (length (filter P xs)) < 2 ^ 63" if "int (length xs) < 2 ^ 63" for P and xs :: memoryStore
    using that by (meson le_less_trans length_filter_le of_nat_mono)
  have sz: "zero_of SecretType \<in> set zero_specs" "spec_type (zero_of SecretType) = SecretType"
    using zero_specs_complete [of "SecretSpec x" for x] by simp_all
  have sec: "secret_DeleteAll (memory_store cd) [DeleteAllByMesh name] ?c1 = (None, ?c2)"
    using DeleteAllResources_mem [OF inv1 sz(1) shorter [OF len], of name] sz(2) name
    by (simp add: secret_DeleteAll_def secret_Delete_def memory_store_def)
  have none: "findRecords ?c2 MeshType name = []"
    using named name by (auto simp: findRecords_def filter_empty_conv mesh_named_def rec_key_def)
  have types: "set (ListTypes registry) = spec_type ` set zero_specs"
    using reg by (auto simp: registry_ok_def ListTypes_def image_image)
  have loop: "delete_types_loop (customizableManager (Suc fuel) lib now (memory_store cd) cas registry) registry name
      (ListTypes registry) ?c2 =
      (None, filter (\<lambda>rec. \<not> (rec_ResourceType rec \<in> set (ListTypes registry) \<and> rec_Mesh rec = name)) ?c2)"
    using types by (intro delete_types_loop_mem [OF inv2 shorter [OF shorter [OF len]] reg name none]) simp
  have "rec_ResourceType rec \<in> spec_type ` set zero_specs" if "rec \<in> set c" for rec
    using inv that zero_specs_complete unfolding mem_inv_def record_ok_def by (metis image_eqI)
  then have fin: "filter (\<lambda>rec. \<not> (rec_ResourceType rec \<in> set (ListTypes registry) \<and> rec_Mesh rec = name)) ?c2 =
      filter (\<lambda>rec. rec_Mesh rec \<noteq> name) c"
    unfolding types filter_filter by (intro filter_cong) (auto simp: rec_key_def)
  have r': "as_mesh r = Inr (with_spec r m)" "of_mesh (with_spec r m) = r" "GetType r = MeshType"
    using r by (simp_all add: as_mesh_def of_mesh_def with_spec_def GetType_def)
  have opts: "do_Mesh (NewDeleteOptions [DeleteByKey name name]) = name" "do_Name (NewDeleteOptions [DeleteByKey name name]) = name"
    by (simp_all add: NewDeleteOptions_def DeleteByKey_def)
  have "meshmgr_Delete ?m r [DeleteByKey name name] c = (?e, filter (\<lambda>rec. rec_Mesh rec \<noteq> name) c)"
    using del sec loop fin by (simp add: meshmgr_Delete_def r' opts memory_store_def Let_def)
  then show ?thesis using r'(3) by (simp add: rm_customizable)
qed

theorem mesh_deletion_witness:
  "rm_Delete example_manager \<lparr>Meta = None, Spec = zero_of MeshType\<rparr> [DeleteByKey ''default'' ''default'']
     [example_mesh_record, example_permission_record] = (None, [])"
proof -
  let ?z = "\<lparr>mesh_Mtls = None, mesh_Tracing = None, mesh_Logging = None, mesh_Metrics = None\<rparr>"
  have z: "zero_of MeshType = MeshSpec ?z" by (simp add: zero_of_def zero_specs_def)
  have ok: "managed_ok example_codec example_library [example_mesh_record, example_permission_record]"
    by (rule managed_invariant [OF example_codec_ok _ example_managed]) (simp add: ca_keeps_def)
  have reg: "registry_ok example_registry"
    by (simp add: registry_ok_def example_registry_def wf_map_def zero_specs_def MeshType_def SecretType_def)
  show ?thesis
    unfolding example_manager_def numeral_2_eq_2 z
    using mesh_deletion [OF _ _ _ reg _ refl, of example_codec "[example_mesh_record, example_permission_record]" "''default''"
        0 example_library 7 "[]" ?z] ok
    by (simp add: managed_ok_def all_valid_def mem_abs_def rec_key_def example_mesh_record_def
        example_permission_record_def MeshType_def)
qed

end
