(* ===== verification/Xds_Types.thy ===== *)
theory Xds_Types
  imports Resource_Model Tag_Selectors
begin

text \<open>
  The data of \<open>pkg/core/xds\<close>: proxy ids and their text (\<open>types.go\<close>), the metadata an Envoy node
  sends (\<open>metadata.go\<close>), the hash of a node (\<open>context.go\<close>), endpoints, and the set of generated
  xDS resources (\<open>resource.go\<close>), which is shown to keep the first resource of every type and name.
\<close>

section \<open>Proxy ids\<close>

record ProxyId =
  pid_Mesh :: string
  pid_Name :: string

definition ProxyId_String :: "ProxyId \<Rightarrow> string" where
  "ProxyId_String pid = pid_Mesh pid @ ''.'' @ pid_Name pid"

text \<open>The part of \<open>envoy_core.Node\<close> the code reads: the id and the metadata fields.\<close>

datatype PbValue = StringValue string | OtherValue

record Node =
  node_Id :: string
  node_Metadata :: "(string, PbValue option) gomap option"

definition ParseProxyIdFromString :: "string \<Rightarrow> go_error + ProxyId" where
  "ParseProxyIdFromString pid =
     (let parts = strings_split2 (CHR ''.'') pid;
          mesh = parts ! 0
      in if mesh = '''' then Inl (ErrString ''mesh must not be empty'')
         else if length parts < 2 then Inl (ErrString ''the name should be provided after the dot'')
         else (let name = parts ! 1 in
               if name = '''' then Inl (ErrString ''name must not be empty'')
               else Inr \<lparr>pid_Mesh = mesh, pid_Name = name\<rparr>))"

definition BuildProxyId :: "string \<Rightarrow> string \<Rightarrow> string list \<Rightarrow> go_error + ProxyId" where
  "BuildProxyId mesh name others = ParseProxyIdFromString (strings_join ''.'' ([mesh, name] @ others))"

definition ParseProxyId :: "Node option \<Rightarrow> go_error + ProxyId" where
  "ParseProxyId node =
     (case node of
        None \<Rightarrow> Inl (ErrString ''Envoy node must not be nil'')
      | Some n \<Rightarrow> ParseProxyIdFromString (node_Id n))"

definition ToResourceKey :: "ProxyId \<Rightarrow> ResourceKey" where
  "ToResourceKey pid = \<lparr>key_Mesh = pid_Mesh pid, key_Name = pid_Name pid\<rparr>"

definition FromResourceKey :: "ResourceKey \<Rightarrow> ProxyId" where
  "FromResourceKey key = \<lparr>pid_Mesh = key_Mesh key, pid_Name = key_Name key\<rparr>"

text \<open>\<open>hasher.ID\<close>: the key of a node in the snapshot cache.\<close>

definition hasher_ID :: "Node option \<Rightarrow> string" where
  "hasher_ID node =
     (case node of
        None \<Rightarrow> ''unknown''
      | Some _ \<Rightarrow>
          (case ParseProxyId node of
             Inl _ \<Rightarrow> ''unknown''
           | Inr proxyId \<Rightarrow> ProxyId_String proxyId))"

section \<open>Node metadata\<close>

record DataplaneMetadata =
  md_DataplaneTokenPath :: string
  md_AdminPort :: u32

definition fieldDataplaneTokenPath :: string where
  "fieldDataplaneTokenPath = ''dataplaneTokenPath''"

definition fieldDataplaneAdminPort :: string where
  "fieldDataplaneAdminPort = ''dataplane.admin.port''"

definition GetDataplaneTokenPath :: "DataplaneMetadata option \<Rightarrow> string" where
  "GetDataplaneTokenPath m = (case m of None \<Rightarrow> '''' | Some md \<Rightarrow> md_DataplaneTokenPath md)"

definition GetAdminPort :: "DataplaneMetadata option \<Rightarrow> u32" where
  "GetAdminPort m = (case m of None \<Rightarrow> 0 | Some md \<Rightarrow> md_AdminPort md)"

fun GetStringValue :: "PbValue \<Rightarrow> string" where
  "GetStringValue (StringValue s) = s"
| "GetStringValue OtherValue = ''''"

text \<open>The expression \<open>node.Metadata.Fields[k]\<close>: a pointer, \<open>nil\<close> when the key is absent.\<close>

definition metadata_field :: "(string, PbValue option) gomap \<Rightarrow> string \<Rightarrow> PbValue option" where
  "metadata_field flds k = (case map_of flds k of None \<Rightarrow> None | Some v \<Rightarrow> v)"

text \<open>
  The conversion \<open>uint32(port)\<close> of the parsed \<open>int\<close> keeps the low 32 bits; an invalid port is
  logged and ignored.
\<close>

definition DataplaneMetadataFromNode :: "Node \<Rightarrow> DataplaneMetadata" where
  "DataplaneMetadataFromNode node =
     (let metadata = \<lparr>md_DataplaneTokenPath = '''', md_AdminPort = 0\<rparr> in
      case node_Metadata node of
        None \<Rightarrow> metadata
      | Some flds \<Rightarrow>
          (let metadata =
                 (case metadata_field flds fieldDataplaneTokenPath of
                    None \<Rightarrow> metadata
                  | Some field \<Rightarrow> metadata\<lparr>md_DataplaneTokenPath := GetStringValue field\<rparr>)
           in case metadata_field flds fieldDataplaneAdminPort of
                None \<Rightarrow> metadata
              | Some v \<Rightarrow>
                  (case atoi (GetStringValue v) of
                     Inl _ \<Rightarrow> metadata
                   | Inr port \<Rightarrow> metadata\<lparr>md_AdminPort := word_of_int port\<rparr>)))"

section \<open>Endpoints\<close>

record Endpoint =
  ep_Target :: string
  ep_Port :: u32
  ep_Tags :: tags

text \<open>\<open>EndpointList.Filter\<close>.\<close>

fun EndpointList_Filter :: "Endpoint list \<Rightarrow> tags \<Rightarrow> Endpoint list" where
  "EndpointList_Filter [] selector = []"
| "EndpointList_Filter (endpoint # rest) selector =
     (if Matches selector (ep_Tags endpoint)
      then endpoint # EndpointList_Filter rest selector
      else EndpointList_Filter rest selector)"

lemma EndpointList_Filter_filter:
  "EndpointList_Filter es s = filter (\<lambda>e. Matches s (ep_Tags e)) es"
  by (induction es) auto

section \<open>Sets of generated resources\<close>

text \<open>
  A payload is an Envoy message; its type name \<open>proto.MessageName\<close> and its packing
  \<open>ptypes.MarshalAny\<close> belong to the protobuf library and are parameters.
\<close>

record 'r XdsResource =
  xr_Name :: string
  xr_Version :: string
  xr_Resource :: 'r

record 'r ResourceSet =
  rs_resources :: "'r XdsResource list"
  rs_typeToNamesIndex :: "(string, (string, bool) gomap) gomap"

definition empty_ResourceSet :: "'r ResourceSet" where
  "empty_ResourceSet = \<lparr>rs_resources = [], rs_typeToNamesIndex = []\<rparr>"

definition rs_Contains :: "('r \<Rightarrow> string) \<Rightarrow> 'r ResourceSet \<Rightarrow> string \<Rightarrow> 'r \<Rightarrow> bool" where
  "rs_Contains messageName s name resource =
     (case map_of (rs_typeToNamesIndex s) (messageName resource) of
        None \<Rightarrow> False
      | Some names \<Rightarrow> map_of names name \<noteq> None)"

definition rs_index :: "('r \<Rightarrow> string) \<Rightarrow> 'r XdsResource \<Rightarrow> 'r ResourceSet \<Rightarrow> 'r ResourceSet" where
  "rs_index messageName resource s =
     (let typeName = messageName (xr_Resource resource);
          names = (case map_of (rs_typeToNamesIndex s) typeName of None \<Rightarrow> [] | Some ns \<Rightarrow> ns)
      in s\<lparr>rs_typeToNamesIndex :=
             gput typeName (gput (xr_Name resource) True names) (rs_typeToNamesIndex s)\<rparr>)"

fun rs_Add :: "('r \<Rightarrow> string) \<Rightarrow> 'r XdsResource list \<Rightarrow> 'r ResourceSet \<Rightarrow> 'r ResourceSet" where
  "rs_Add messageName [] s = s"
| "rs_Add messageName (resource # rest) s =
     (if rs_Contains messageName s (xr_Name resource) (xr_Resource resource)
      then rs_Add messageName rest s
      else rs_Add messageName rest
             (rs_index messageName resource (s\<lparr>rs_resources := rs_resources s @ [resource]\<rparr>)))"

definition rs_List :: "'r ResourceSet \<Rightarrow> 'r XdsResource list" where
  "rs_List s = rs_resources s"

definition ToIndex :: "'r XdsResource list \<Rightarrow> (string, 'r) gomap" where
  "ToIndex rs = fold (\<lambda>resource index. gput (xr_Name resource) (xr_Resource resource) index) rs []"

definition ToDeltaDiscoveryResponse ::
  "('r \<Rightarrow> go_error + 'any) \<Rightarrow> 'r XdsResource list \<Rightarrow> go_error + (string \<times> string \<times> 'any) list" where
  "ToDeltaDiscoveryResponse marshalAny rs =
     mapE (\<lambda>r. bindE (marshalAny (xr_Resource r)) (\<lambda>pbany. Inr (xr_Name r, xr_Version r, pbany))) rs"

section \<open>Lemmas\<close>

lemma strings_split2_prefix:
  assumes "c \<notin> set a"
  shows "strings_split2 c (a @ c # b) = [a, b]"
  using assms by (simp add: strings_split2_def index_byte_append_notin)

lemma ParseProxyIdFromString_Inr:
  "ParseProxyIdFromString t = Inr pid \<longleftrightarrow>
     t = ProxyId_String pid \<and> pid_Mesh pid \<noteq> '''' \<and> CHR ''.'' \<notin> set (pid_Mesh pid) \<and> pid_Name pid \<noteq> ''''"
proof
  assume "ParseProxyIdFromString t = Inr pid"
  then obtain i where i: "index_byte (CHR ''.'') t = Some i" and pid: "pid = \<lparr>pid_Mesh = take i t, pid_Name = drop (Suc i) t\<rparr>"
    and ne: "take i t \<noteq> []" "drop (Suc i) t \<noteq> []"
    by (cases "index_byte (CHR ''.'') t")
      (auto simp: ParseProxyIdFromString_def strings_split2_def Let_def split: if_splits)
  then show "t = ProxyId_String pid \<and> pid_Mesh pid \<noteq> '''' \<and> CHR ''.'' \<notin> set (pid_Mesh pid) \<and> pid_Name pid \<noteq> ''''"
    using index_byte_Some [OF i] by (auto simp: ProxyId_String_def id_take_nth_drop [symmetric])
next
  assume "t = ProxyId_String pid \<and> pid_Mesh pid \<noteq> '''' \<and> CHR ''.'' \<notin> set (pid_Mesh pid) \<and> pid_Name pid \<noteq> ''''"
  then show "ParseProxyIdFromString t = Inr pid"
    by (simp add: ParseProxyIdFromString_def ProxyId_String_def strings_split2_prefix Let_def)
qed

text \<open>
  A text is read as a proxy id exactly when it is the text of that id and the id is well
  formed: the mesh is non-empty and has no dot, the name is non-empty (and may have dots).  So
  proxy ids are read back from their text, and two well-formed ids never share a text.
\<close>

theorem proxy_id_roundtrip:
  "ParseProxyIdFromString t = Inr pid \<longleftrightarrow>
     t = ProxyId_String pid \<and> pid_Mesh pid \<noteq> '''' \<and> CHR ''.'' \<notin> set (pid_Mesh pid) \<and> pid_Name pid \<noteq> ''''"
  by (rule ParseProxyIdFromString_Inr)

text \<open>The key under which a resource is unique, and the resources that come first with their key.\<close>

definition xr_key :: "('r \<Rightarrow> string) \<Rightarrow> 'r XdsResource \<Rightarrow> string \<times> string" where
  "xr_key messageName r = (messageName (xr_Resource r), xr_Name r)"

fun first_by :: "('a \<Rightarrow> 'k) \<Rightarrow> 'a list \<Rightarrow> 'a list" where
  "first_by key [] = []"
| "first_by key (x # xs) = x # filter (\<lambda>y. key y \<noteq> key x) (first_by key xs)"

text \<open>The index agrees with the list of resources.\<close>

definition rs_ok :: "('r \<Rightarrow> string) \<Rightarrow> 'r ResourceSet \<Rightarrow> bool" where
  "rs_ok messageName s \<longleftrightarrow>
     distinct (map (xr_key messageName) (rs_resources s)) \<and>
     (\<forall>name r. rs_Contains messageName s name r \<longleftrightarrow>
        (messageName r, name) \<in> xr_key messageName ` set (rs_resources s))"

lemma rs_Contains_index:
  "rs_Contains mn (rs_index mn x s) name r \<longleftrightarrow> (mn r, name) = xr_key mn x \<or> rs_Contains mn s name r"
  by (auto simp: rs_Contains_def rs_index_def xr_key_def map_of_gput Let_def split: option.splits if_splits)

lemma rs_ok_empty [simp]: "rs_ok mn empty_ResourceSet"
  by (simp add: rs_ok_def empty_ResourceSet_def rs_Contains_def)

lemma rs_ok_step:
  assumes "rs_ok mn s" and "\<not> rs_Contains mn s (xr_Name x) (xr_Resource x)"
  shows "rs_ok mn (rs_index mn x (s\<lparr>rs_resources := rs_resources s @ [x]\<rparr>))"
proof -
  let ?s = "s\<lparr>rs_resources := rs_resources s @ [x]\<rparr>"
  have res: "rs_resources (rs_index mn x ?s) = rs_resources s @ [x]" by (simp add: rs_index_def Let_def)
  have con: "rs_Contains mn (rs_index mn x ?s) name r \<longleftrightarrow> (mn r, name) = xr_key mn x \<or> rs_Contains mn s name r"
    for name r by (subst rs_Contains_index) (simp add: rs_Contains_def)
  have "xr_key mn x \<notin> xr_key mn ` set (rs_resources s)"
    using assms unfolding rs_ok_def by (metis xr_key_def)
  then show ?thesis using assms(1) unfolding rs_ok_def res con by auto
qed

lemma rs_Add_first:
  assumes "rs_ok mn s"
  shows "rs_ok mn (rs_Add mn xs s) \<and>
    rs_resources (rs_Add mn xs s) = rs_resources s @
      filter (\<lambda>y. xr_key mn y \<notin> xr_key mn ` set (rs_resources s)) (first_by (xr_key mn) xs)"
  using assms
proof (induction mn xs s rule: rs_Add.induct)
  case (1 mn s)
  then show ?case by simp
next
  case (2 mn x xs s)
  have con: "rs_Contains mn s (xr_Name x) (xr_Resource x) \<longleftrightarrow> xr_key mn x \<in> xr_key mn ` set (rs_resources s)"
    using "2.prems" unfolding rs_ok_def by (metis xr_key_def)
  show ?case
  proof (cases "rs_Contains mn s (xr_Name x) (xr_Resource x)")
    case True
    have "filter (\<lambda>y. xr_key mn y \<notin> xr_key mn ` set (rs_resources s)) (first_by (xr_key mn) (x # xs)) =
        filter (\<lambda>y. xr_key mn y \<notin> xr_key mn ` set (rs_resources s)) (first_by (xr_key mn) xs)"
      using True con by (auto intro!: filter_cong)
    then show ?thesis using "2.IH"(1) [OF True "2.prems"] True by simp
  next
    case False
    let ?s = "rs_index mn x (s\<lparr>rs_resources := rs_resources s @ [x]\<rparr>)"
    have res: "rs_resources ?s = rs_resources s @ [x]" by (simp add: rs_index_def Let_def)
    show ?thesis
      using "2.IH"(2) [OF False rs_ok_step [OF "2.prems" False]] False con unfolding res
      by (auto intro!: filter_cong)
  qed
qed

text \<open>
  Adding resources to an empty set keeps, in order, the first resource of every type and name
  and drops the later ones; in particular no two listed resources share type and name.
\<close>

theorem resource_set_keeps_first:
  "rs_List (rs_Add messageName rs empty_ResourceSet) = first_by (xr_key messageName) rs \<and>
   distinct (map (xr_key messageName) (rs_List (rs_Add messageName rs empty_ResourceSet)))"
  using rs_Add_first [OF rs_ok_empty, of messageName rs]
  by (auto simp: rs_List_def rs_ok_def empty_ResourceSet_def)

lemma find_append:
  "find P (xs @ ys) = (case find P xs of None \<Rightarrow> find P ys | Some x \<Rightarrow> Some x)"
  by (induction xs) auto

lemma map_of_ToIndex_fold:
  "map_of (fold (\<lambda>r index. gput (xr_Name r) (xr_Resource r) index) rs m) name =
     (case find (\<lambda>r. xr_Name r = name) (rev rs) of None \<Rightarrow> map_of m name | Some r \<Rightarrow> Some (xr_Resource r))"
  by (induction rs arbitrary: m) (auto simp: map_of_gput find_append split: option.split)

text \<open>
  The index of a list of resources holds under each name the last resource with that name.
\<close>

theorem resource_index_keeps_last:
  "map_of (ToIndex rs) name = map_option xr_Resource (find (\<lambda>r. xr_Name r = name) (rev rs))"
  by (simp add: ToIndex_def map_of_ToIndex_fold split: option.split)

end
