(* ===== verification/Topology.thy ===== *)
theory Topology
  imports Validated_Resources Mesh_Manager Xds_Types
begin

text \<open>
  What a dataplane reaches and which policies apply to it: the routes, destinations, endpoints,
  health checks and tracing of \<open>pkg/xds/topology\<close> and the matchers of \<open>pkg/core/permissions\<close>,
  \<open>pkg/core/logs\<close> and \<open>pkg/core/faultinjections\<close>.  Each operation lists the policies of the mesh
  through a read-only manager and hands them to the matchers of \<open>Policy_Matching\<close>; the lemmas say
  what each operation returns when the manager lists valid resources.
\<close>

section \<open>Typed reads\<close>

text \<open>
  The interface \<open>ReadOnlyResourceManager\<close> at one state of the store; a list or a resource comes
  back typed, so a read is followed by the projection of its items to their type.
\<close>

record ReadOnlyResourceManager =
  ro_Get :: "AnyResource \<Rightarrow> (GetOptions \<Rightarrow> GetOptions) list \<Rightarrow> go_error option \<times> AnyResource"
  ro_List :: "ResourceList \<Rightarrow> (ListOptions \<Rightarrow> ListOptions) list \<Rightarrow> go_error option \<times> ResourceList"

definition read_only :: "'s ResourceManager \<Rightarrow> 's \<Rightarrow> ReadOnlyResourceManager" where
  "read_only m s = \<lparr>ro_Get = (\<lambda>r fs. rm_Get m r fs s), ro_List = (\<lambda>l fs. rm_List m l fs s)\<rparr>"

fun as_Mesh :: "ResourceSpec \<Rightarrow> Mesh option" where
  "as_Mesh (MeshSpec s) = Some s" | "as_Mesh _ = None"

fun as_Dataplane :: "ResourceSpec \<Rightarrow> Dataplane option" where
  "as_Dataplane (DataplaneSpec s) = Some s" | "as_Dataplane _ = None"

fun as_TrafficPermission :: "ResourceSpec \<Rightarrow> TrafficPermission option" where
  "as_TrafficPermission (TrafficPermissionSpec s) = Some s" | "as_TrafficPermission _ = None"

fun as_TrafficRoute :: "ResourceSpec \<Rightarrow> TrafficRoute option" where
  "as_TrafficRoute (TrafficRouteSpec s) = Some s" | "as_TrafficRoute _ = None"

fun as_TrafficLog :: "ResourceSpec \<Rightarrow> TrafficLog option" where
  "as_TrafficLog (TrafficLogSpec s) = Some s" | "as_TrafficLog _ = None"

fun as_TrafficTrace :: "ResourceSpec \<Rightarrow> TrafficTrace option" where
  "as_TrafficTrace (TrafficTraceSpec s) = Some s" | "as_TrafficTrace _ = None"

fun as_HealthCheck :: "ResourceSpec \<Rightarrow> HealthCheck option" where
  "as_HealthCheck (HealthCheckSpec s) = Some s" | "as_HealthCheck _ = None"

fun as_FaultInjection :: "ResourceSpec \<Rightarrow> FaultInjection option" where
  "as_FaultInjection (FaultInjectionSpec s) = Some s" | "as_FaultInjection _ = None"

fun as_ProxyTemplate :: "ResourceSpec \<Rightarrow> ProxyTemplate option" where
  "as_ProxyTemplate (ProxyTemplateSpec s) = Some s" | "as_ProxyTemplate _ = None"

definition typed :: "(ResourceSpec \<Rightarrow> 'a option) \<Rightarrow> AnyResource list \<Rightarrow> 'a Resource list" where
  "typed dest rs = List.map_filter (\<lambda>r. map_option (with_spec r) (dest (Spec r))) rs"

definition list_in_mesh ::
  "(ResourceSpec \<Rightarrow> 'a option) \<Rightarrow> string \<Rightarrow> ReadOnlyResourceManager \<Rightarrow> string \<Rightarrow> go_error + 'a Resource list" where
  "list_in_mesh dest typ manager mesh =
     (case ro_List manager (new_list (zero_of typ)) [ListByMesh mesh] of
        (Some err, _) \<Rightarrow> Inl err
      | (None, list) \<Rightarrow> Inr (typed dest (rl_Items list)))"

definition get_typed ::
  "(ResourceSpec \<Rightarrow> 'a option) \<Rightarrow> string \<Rightarrow> ReadOnlyResourceManager \<Rightarrow> (GetOptions \<Rightarrow> GetOptions) list \<Rightarrow>
   go_error + 'a Resource" where
  "get_typed dest typ manager fs =
     (case ro_Get manager \<lparr>Meta = None, Spec = zero_of typ\<rparr> fs of
        (Some err, _) \<Rightarrow> Inl err
      | (None, r) \<Rightarrow> (case dest (Spec r) of
          None \<Rightarrow> Inl (ErrPanic ''type assertion'')
        | Some s \<Rightarrow> Inr (with_spec r s)))"

text \<open>The expression \<open>dataplane.GetMeta().GetMesh()\<close>, a method call on the \<open>nil\<close> interface when
  the dataplane has no metadata.\<close>

definition dataplane_mesh :: "DataplaneResource \<Rightarrow> go_error + string" where
  "dataplane_mesh d =
     (case Meta d of None \<Rightarrow> Inl (ErrPanic ''nil pointer dereference'') | Some m \<Rightarrow> Inr (meta_GetMesh m))"

section \<open>Routes\<close>

type_synonym RouteMap = "(string, TrafficRouteResource) gomap"
type_synonym DestinationMap = "(string, tags list) gomap"
type_synonym EndpointMap = "(string, Endpoint list) gomap"

text \<open>The metadata \<open>pseudoMeta\<close> of an implicit route; its times are the time of the call.\<close>

definition pseudoMeta :: "gotime \<Rightarrow> string \<Rightarrow> ResourceMeta" where
  "pseudoMeta now name =
     ForeignMeta \<lparr>fm_Name = name, fm_Mesh = '''', fm_Version = '''', fm_CreationTime = now, fm_ModificationTime = now\<rparr>"

definition implicit_route :: "gotime \<Rightarrow> string \<Rightarrow> TrafficRouteResource" where
  "implicit_route now service =
     \<lparr>Meta = Some (pseudoMeta now ''(implicit default route)''),
      Spec = \<lparr>tr_Sources = [MatchAnyService], tr_Destinations = [MatchService service],
              tr_Conf = [\<lparr>wd_Weight = 100, wd_Destination = MatchService service\<rparr>]\<rparr>\<rparr>"

definition BuildRouteMap :: "gotime \<Rightarrow> DataplaneResource \<Rightarrow> TrafficRouteResource list \<Rightarrow> RouteMap" where
  "BuildRouteMap now dataplane routes =
     (let policyMap = SelectOutboundConnectionPolicies (Spec dataplane) (map TrafficRoute_policy routes) in
      fold (\<lambda>oface routeMap.
          case map_of policyMap (out_Service oface) of
            Some policy \<Rightarrow> gput (out_Service oface) (pol_Resource policy) routeMap
          | None \<Rightarrow> gput (out_Service oface) (implicit_route now (out_Service oface)) routeMap)
        (dp_GetOutbound (Spec dataplane)) [])"

definition GetRoutes :: "gotime \<Rightarrow> DataplaneResource \<Rightarrow> ReadOnlyResourceManager \<Rightarrow> go_error + RouteMap" where
  "GetRoutes now dataplane manager =
     (if length (dp_GetOutbound (Spec dataplane)) = 0 then Inr []
      else bindE (dataplane_mesh dataplane) (\<lambda>mesh.
           bindE (list_in_mesh as_TrafficRoute ''TrafficRoute'' manager mesh) (\<lambda>routes.
           Inr (BuildRouteMap now dataplane routes))))"

section \<open>Destinations\<close>

text \<open>The statement \<open>destinations[s] = destinations[s].Add(selector)\<close>.\<close>

definition add_destination :: "string \<Rightarrow> tags \<Rightarrow> DestinationMap \<Rightarrow> DestinationMap" where
  "add_destination service selector destinations =
     gput service
       (TagSelectorSet_Add (case map_of destinations service of None \<Rightarrow> [] | Some s \<Rightarrow> s) selector) destinations"

definition weighted_step :: "WeightedDestination \<Rightarrow> DestinationMap \<Rightarrow> DestinationMap" where
  "weighted_step destination destinations =
     (case map_of (wd_Destination destination) ServiceTag of
        None \<Rightarrow> destinations
      | Some service \<Rightarrow> add_destination service (MatchTags (wd_Destination destination)) destinations)"

definition BuildDestinationMap :: "DataplaneResource \<Rightarrow> RouteMap \<Rightarrow> DestinationMap" where
  "BuildDestinationMap dataplane routes =
     fold (\<lambda>oface destinations.
         case map_of routes (out_Service oface) of
           Some route \<Rightarrow> fold weighted_step (tr_Conf (Spec route)) destinations
         | None \<Rightarrow> add_destination (out_Service oface) (MatchService (out_Service oface)) destinations)
       (dp_GetOutbound (Spec dataplane)) []"

section \<open>Endpoints\<close>

text \<open>The body of the loop over the inbound interfaces of one dataplane.\<close>

definition endpoint_step :: "DestinationMap \<Rightarrow> Networking \<Rightarrow> nat \<Rightarrow> EndpointMap \<Rightarrow> EndpointMap" where
  "endpoint_step destinations networking i outbound =
     (let inbound = net_Inbound networking ! i;
          service = gstr (in_Tags inbound) ServiceTag
      in case map_of destinations service of
           None \<Rightarrow> outbound
         | Some selectors \<Rightarrow>
             if \<not> list_ex (\<lambda>selector. Matches selector (in_Tags inbound)) selectors then outbound
             else (case GetInboundInterfaceByIdx networking i of
                 Inl err \<Rightarrow> outbound
               | Inr iface \<Rightarrow>
                   gput service
                     ((case map_of outbound service of None \<Rightarrow> [] | Some l \<Rightarrow> l) @
                      [\<lparr>ep_Target = ii_DataplaneIP iface, ep_Port = ii_DataplanePort iface, ep_Tags = in_Tags inbound\<rparr>])
                     outbound))"

definition dataplane_endpoints_step :: "DestinationMap \<Rightarrow> DataplaneResource \<Rightarrow> EndpointMap \<Rightarrow> EndpointMap" where
  "dataplane_endpoints_step destinations dataplane outbound =
     (case dp_Networking (Spec dataplane) of
        None \<Rightarrow> outbound
      | Some networking \<Rightarrow>
          fold (endpoint_step destinations networking) [0..<length (net_Inbound networking)] outbound)"

definition BuildEndpointMap :: "DestinationMap \<Rightarrow> DataplaneResource list \<Rightarrow> EndpointMap" where
  "BuildEndpointMap destinations dataplanes =
     (if length destinations = 0 then [] else fold (dataplane_endpoints_step destinations) dataplanes [])"

definition GetOutboundTargets ::
  "DataplaneResource \<Rightarrow> DestinationMap \<Rightarrow> ReadOnlyResourceManager \<Rightarrow> go_error + EndpointMap" where
  "GetOutboundTargets dataplane destinations manager =
     (if length destinations = 0 then Inr []
      else bindE (dataplane_mesh dataplane) (\<lambda>mesh.
           bindE (list_in_mesh as_Dataplane ''Dataplane'' manager mesh) (\<lambda>dataplanes.
           Inr (BuildEndpointMap destinations dataplanes))))"

section \<open>Health checks and tracing\<close>

definition BuildHealthCheckMap ::
  "DataplaneResource \<Rightarrow> DestinationMap \<Rightarrow> HealthCheckResource list \<Rightarrow> (string, HealthCheckResource) gomap" where
  "BuildHealthCheckMap dataplane destinations healthChecks =
     (if length destinations = 0 \<or> length healthChecks = 0 then []
      else (case drain (length destinations + 1) (ToServicesOf destinations) 0 of
          None \<Rightarrow> []
        | Some services \<Rightarrow>
            map (\<lambda>(service, policy). (service, pol_Resource policy))
              (SelectConnectionPolicies (Spec dataplane) services (map HealthCheck_policy healthChecks))))"

definition GetHealthChecks ::
  "DataplaneResource \<Rightarrow> DestinationMap \<Rightarrow> ReadOnlyResourceManager \<Rightarrow>
   go_error + (string, HealthCheckResource) gomap" where
  "GetHealthChecks dataplane destinations manager =
     (if length destinations = 0 then Inr []
      else bindE (dataplane_mesh dataplane) (\<lambda>mesh.
           bindE (list_in_mesh as_HealthCheck ''HealthCheck'' manager mesh) (\<lambda>healthChecks.
           Inr (BuildHealthCheckMap dataplane destinations healthChecks))))"

definition GetTrafficTrace ::
  "DataplaneResource \<Rightarrow> ReadOnlyResourceManager \<Rightarrow> go_error + TrafficTraceResource option" where
  "GetTrafficTrace dataplane manager =
     bindE (dataplane_mesh dataplane) (\<lambda>mesh.
     bindE (list_in_mesh as_TrafficTrace ''TrafficTrace'' manager mesh) (\<lambda>traces.
     bindE (SelectDataplanePolicy (Spec dataplane) (map TrafficTrace_policy traces)) (\<lambda>policy.
     Inr (map_option pol_Resource policy))))"

section \<open>Matchers\<close>

definition permissions_Match ::
  "ReadOnlyResourceManager \<Rightarrow> DataplaneResource \<Rightarrow>
   go_error + (InboundInterface, TrafficPermissionResource) gomap" where
  "permissions_Match manager dataplane =
     bindE (dataplane_mesh dataplane) (\<lambda>mesh.
     bindE (wrap_err (list_in_mesh as_TrafficPermission ''TrafficPermission'' manager mesh)
         ''could not retrieve traffic permissions'') (\<lambda>permissions.
     bindE (SelectInboundConnectionPolicies (Spec dataplane) (map TrafficPermission_policy permissions)) (\<lambda>policyMap.
     Inr (map (\<lambda>(inbound, policy). (inbound, pol_Resource policy)) policyMap))))"

definition faults_Match ::
  "ReadOnlyResourceManager \<Rightarrow> DataplaneResource \<Rightarrow> go_error + (InboundInterface, FaultInjection) gomap" where
  "faults_Match manager dataplane =
     bindE (dataplane_mesh dataplane) (\<lambda>mesh.
     bindE (wrap_err (list_in_mesh as_FaultInjection ''FaultInjection'' manager mesh)
         ''could not retrieve fault injections'') (\<lambda>faultInjections.
     bindE (SelectInboundConnectionPolicies (Spec dataplane) (map FaultInjection_policy faultInjections)) (\<lambda>policyMap.
     Inr (map (\<lambda>(inbound, policy). (inbound, Spec (pol_Resource policy))) policyMap))))"

text \<open>
  The value of the map \<open>backendsByName\<close> is a pointer, which is \<open>nil\<close> under the empty name when the
  default backend does not exist.
\<close>

definition logging_backendsByName :: "MeshResource \<Rightarrow> (string, LoggingBackend option) gomap" where
  "logging_backendsByName mesh =
     (let logging = mesh_Logging (Spec mesh);
          byName = map (\<lambda>(name, backend). (name, Some backend))
            (backends_by_name lb_Name (get_field log_Backends [] logging));
          defaultBackend = get_field log_DefaultBackend '''' logging
      in if defaultBackend \<noteq> ''''
         then gput '''' (case map_of byName defaultBackend of None \<Rightarrow> None | Some b \<Rightarrow> b) byName
         else byName)"

definition backendsByName ::
  "ReadOnlyResourceManager \<Rightarrow> DataplaneResource \<Rightarrow> go_error + (string, LoggingBackend option) gomap" where
  "backendsByName manager dataplane =
     bindE (dataplane_mesh dataplane) (\<lambda>name.
     bindE (get_typed as_Mesh MeshType manager [GetByKey name name]) (\<lambda>mesh.
     Inr (logging_backendsByName mesh)))"

definition log_step ::
  "(string, LoggingBackend option) gomap \<Rightarrow> string \<times> TrafficLogResource ConnectionPolicy \<Rightarrow>
   (string, LoggingBackend option) gomap \<Rightarrow> (string, LoggingBackend option) gomap" where
  "log_step backends = (\<lambda>(service, policy) logMap.
     case map_of backends (case tl_Conf (Spec (pol_Resource policy)) of None \<Rightarrow> '''' | Some b \<Rightarrow> b) of
       None \<Rightarrow> logMap
     | Some backend \<Rightarrow> gput service backend logMap)"

definition logs_Match ::
  "ReadOnlyResourceManager \<Rightarrow> DataplaneResource \<Rightarrow> go_error + (string, LoggingBackend option) gomap" where
  "logs_Match manager dataplane =
     bindE (dataplane_mesh dataplane) (\<lambda>mesh.
     bindE (wrap_err (list_in_mesh as_TrafficLog ''TrafficLog'' manager mesh) ''could not retrieve traffic logs'') (\<lambda>logs.
     bindE (backendsByName manager dataplane) (\<lambda>backends.
     Inr (fold (log_step backends)
       (SelectOutboundConnectionPolicies (Spec dataplane) (map TrafficLog_policy logs)) []))))"


section \<open>Routes: one for every outbound service\<close>

lemma map_of_fold_gput:
  "map_of (fold (\<lambda>x. gput (k x) (f (k x))) xs m) key = (if key \<in> k ` set xs then Some (f key) else map_of m key)"
  by (induction xs arbitrary: m) (auto simp: map_of_gput)

definition route_to :: "gotime \<Rightarrow> DataplaneResource \<Rightarrow> TrafficRouteResource list \<Rightarrow> string \<Rightarrow> TrafficRouteResource" where
  "route_to now d routes s =
     (case map_of (SelectOutboundConnectionPolicies (Spec d) (map TrafficRoute_policy routes)) s of
        Some policy \<Rightarrow> pol_Resource policy | None \<Rightarrow> implicit_route now s)"

lemma BuildRouteMap_eq:
  "BuildRouteMap now d routes =
     fold (\<lambda>oface. gput (out_Service oface) (route_to now d routes (out_Service oface))) (dp_GetOutbound (Spec d)) []"
  unfolding BuildRouteMap_def Let_def route_to_def
  by (rule fold_cong) (auto split: option.splits)

lemma chosen_member: "chosen ranks ps p \<Longrightarrow> p \<in> set ps"
  by (simp add: chosen_def)

text \<open>What a selection among views of resources returns, in terms of the resources.\<close>

lemma selected_view:
  assumes "distinct (map res_name rs)" and "\<And>r. pol_Name (view r) = res_name r" and "\<And>r. pol_Resource (view r) = r"
  shows "map_option pol_Resource (map_of (SelectConnectionPolicies d services (map view rs)) s) = Some r \<longleftrightarrow>
    s \<in> set services \<and> chosen (connection_ranks d s) (map view rs) (view r)"
proof -
  have names: "distinct (map pol_Name (map view rs))" using assms(1) by (simp add: comp_def assms(2))
  have "p = view (pol_Resource p)" if "chosen (connection_ranks d s) (map view rs) p" for p
    using chosen_member [OF that] by (auto simp: assms(3))
  then show ?thesis
    using Select_chosen [OF names, of d services s] by (auto simp: assms(3))
qed

lemma selected_view_None:
  assumes "distinct (map res_name rs)" and "\<And>r. pol_Name (view r) = res_name r"
  shows "map_of (SelectConnectionPolicies d services (map view rs)) s = None \<longleftrightarrow>
    s \<notin> set services \<or> (\<forall>r \<in> set rs. connection_ranks d s (view r) = {})"
proof -
  have names: "distinct (map pol_Name (map view rs))" using assms(1) by (simp add: comp_def assms(2))
  then show ?thesis using Select_exists [OF names, of d services s] by auto
qed

lemma policy_views [simp]:
  "pol_Name (TrafficRoute_policy r) = res_name r" "pol_Resource (TrafficRoute_policy r) = r"
  "pol_Name (TrafficLog_policy l) = res_name l" "pol_Resource (TrafficLog_policy l) = l"
  "pol_Name (HealthCheck_policy h) = res_name h" "pol_Resource (HealthCheck_policy h) = h"
  "pol_Name (TrafficPermission_policy p) = res_name p" "pol_Resource (TrafficPermission_policy p) = p"
  "pol_Name (FaultInjection_policy f) = res_name f" "pol_Resource (FaultInjection_policy f) = f"
  "pol_Name (TrafficTrace_policy t) = res_name t" "pol_Resource (TrafficTrace_policy t) = t"
  by (simp_all add: TrafficRoute_policy_def TrafficLog_policy_def HealthCheck_policy_def
      TrafficPermission_policy_def FaultInjection_policy_def TrafficTrace_policy_def)

lemma route_map_entry:
  assumes "distinct (map res_name routes)"
  shows "map_of (BuildRouteMap now d routes) s = Some r \<longleftrightarrow>
    s \<in> out_Service ` set (dp_GetOutbound (Spec d)) \<and>
    (chosen (connection_ranks (Spec d) s) (map TrafficRoute_policy routes) (TrafficRoute_policy r) \<or>
     (\<forall>q \<in> set routes. connection_ranks (Spec d) s (TrafficRoute_policy q) = {}) \<and> r = implicit_route now s)"
proof (cases "s \<in> out_Service ` set (dp_GetOutbound (Spec d))")
  case True
  then have s: "s \<in> set (outbound_services (Spec d))" by (auto simp: outbound_services_def)
  let ?m = "SelectOutboundConnectionPolicies (Spec d) (map TrafficRoute_policy routes)"
  have sel: "map_option pol_Resource (map_of ?m s) = Some r \<longleftrightarrow>
      chosen (connection_ranks (Spec d) s) (map TrafficRoute_policy routes) (TrafficRoute_policy r)"
    using selected_view [OF assms, of TrafficRoute_policy "Spec d" "outbound_services (Spec d)" s r] s
    unfolding SelectOutbound_services by simp
  have none: "map_of ?m s = None \<longleftrightarrow> (\<forall>q \<in> set routes. connection_ranks (Spec d) s (TrafficRoute_policy q) = {})"
    using selected_view_None [OF assms, of TrafficRoute_policy "Spec d" "outbound_services (Spec d)" s] s
    unfolding SelectOutbound_services by simp
  have "map_of (BuildRouteMap now d routes) s = Some (route_to now d routes s)"
    using True unfolding BuildRouteMap_eq map_of_fold_gput by simp
  then show ?thesis
    using True sel none by (cases "map_of ?m s") (auto simp: route_to_def)
next
  case False
  then show ?thesis unfolding BuildRouteMap_eq map_of_fold_gput by simp
qed

text \<open>
  C13. Every outbound service of a dataplane gets exactly one route: the route that outranks all other
  matching routes, or, when none matches, the implicit route that sends everything to the service
  itself; no other service gets a route.
\<close>

theorem every_outbound_has_one_route:
  assumes "distinct (map res_name routes)"
  shows "map_of (BuildRouteMap now d routes) s = Some r \<longleftrightarrow>
    s \<in> out_Service ` set (dp_GetOutbound (Spec d)) \<and>
    (chosen (connection_ranks (Spec d) s) (map TrafficRoute_policy routes) (TrafficRoute_policy r) \<or>
     (\<forall>q \<in> set routes. connection_ranks (Spec d) s (TrafficRoute_policy q) = {}) \<and> r = implicit_route now s)"
  by (rule route_map_entry [OF assms])

theorem every_outbound_has_one_route_witness:
  "map_of (BuildRouteMap 7 example_dataplane_resource []) ''backend'' = Some (implicit_route 7 ''backend'') \<and>
   map_of (BuildRouteMap 7 example_dataplane_resource []) ''web'' = None"
  using every_outbound_has_one_route [of "[]" 7 example_dataplane_resource "''backend''" "implicit_route 7 ''backend''"]
    every_outbound_has_one_route [of "[]" 7 example_dataplane_resource "''web''"]
  by (auto simp: example_dataplane_resource_def example_dataplane_def dp_GetOutbound_def)

section \<open>Endpoints: the inbounds that the routes reach\<close>

text \<open>The expression \<open>m[s]\<close> on a map of lists.\<close>

definition glist :: "(string, 'a list) gomap \<Rightarrow> string \<Rightarrow> 'a list" where
  "glist m s = (case map_of m s of None \<Rightarrow> [] | Some l \<Rightarrow> l)"

lemma glist_gput: "glist (gput k l m) s = (if s = k then l else glist m s)"
  by (simp add: glist_def map_of_gput)

text \<open>The destinations one outbound interface contributes.\<close>

definition destinations_of :: "RouteMap \<Rightarrow> Outbound \<Rightarrow> (string \<times> tags) list" where
  "destinations_of routes oface =
     (case map_of routes (out_Service oface) of
        Some route \<Rightarrow> List.map_filter
          (\<lambda>w. map_option (\<lambda>service. (service, wd_Destination w)) (map_of (wd_Destination w) ServiceTag))
          (tr_Conf (Spec route))
      | None \<Rightarrow> [(out_Service oface, MatchService (out_Service oface))])"

lemma in_set_map_filter: "y \<in> set (List.map_filter f xs) \<longleftrightarrow> (\<exists>x \<in> set xs. f x = Some y)"
  by (induction xs) (auto simp: List.map_filter_simps split: option.splits)

lemma weighted_loop:
  "fold weighted_step ws m = fold (\<lambda>(s, t). add_destination s t)
     (List.map_filter (\<lambda>w. map_option (\<lambda>service. (service, wd_Destination w)) (map_of (wd_Destination w) ServiceTag)) ws) m"
  by (induction ws arbitrary: m) (auto simp: weighted_step_def List.map_filter_simps MatchTags_def split: option.splits)

lemma BuildDestinationMap_eq:
  "BuildDestinationMap d routes =
     fold (\<lambda>(s, t). add_destination s t) (concat (map (destinations_of routes) (dp_GetOutbound (Spec d)))) []"
proof -
  have "fold (\<lambda>oface. fold (\<lambda>(s, t). add_destination s t) (destinations_of routes oface)) os m =
      fold (\<lambda>(s, t). add_destination s t) (concat (map (destinations_of routes) os)) m" for os m
    by (induction os arbitrary: m) auto
  moreover have "(\<lambda>oface m. case map_of routes (out_Service oface) of
         Some route \<Rightarrow> fold weighted_step (tr_Conf (Spec route)) m
       | None \<Rightarrow> add_destination (out_Service oface) (MatchService (out_Service oface)) m) =
     (\<lambda>oface. fold (\<lambda>(s, t). add_destination s t) (destinations_of routes oface))"
    by (intro ext) (auto simp: destinations_of_def weighted_loop split: option.splits)
  ultimately show ?thesis by (simp only: BuildDestinationMap_def)
qed

lemma Matches_Equal:
  assumes "wf_map t" and "wf_map u" and "Equal t u"
  shows "Matches t tgs = Matches u tgs"
  using assms by (simp add: Equal_map_of Matches_iff)

lemma TagSelectorSet_Add_Matches:
  assumes "wf_map t" and "\<forall>u \<in> set l. wf_map u"
  shows "(\<exists>u \<in> set (TagSelectorSet_Add l t). Matches u tgs) \<longleftrightarrow> (\<exists>u \<in> set l. Matches u tgs) \<or> Matches t tgs"
proof (cases "selector_in t l")
  case True
  then obtain u where "u \<in> set l" "Equal t u" by (auto simp: selector_in_iff)
  then have "Matches t tgs \<Longrightarrow> \<exists>u \<in> set l. Matches u tgs"
    using Matches_Equal [OF assms(1), of u tgs] assms(2) by auto
  then show ?thesis using True by (auto simp: TagSelectorSet_Add_def)
qed (auto simp: TagSelectorSet_Add_def)

lemma add_destinations_Matches:
  assumes "\<forall>(s, t) \<in> set ps. wf_map t" and "\<forall>s. \<forall>u \<in> set (glist m s). wf_map u"
  shows "(\<exists>u \<in> set (glist (fold (\<lambda>(s, t). add_destination s t) ps m) s). Matches u tgs) \<longleftrightarrow>
    (\<exists>u \<in> set (glist m s). Matches u tgs) \<or> (\<exists>t. (s, t) \<in> set ps \<and> Matches t tgs)"
  using assms
proof (induction ps arbitrary: m)
  case (Cons p ps)
  obtain k t where p: "p = (k, t)" by fastforce
  let ?m = "add_destination k t m"
  have m: "glist ?m s = (if s = k then TagSelectorSet_Add (glist m k) t else glist m s)" for s
    unfolding add_destination_def glist_def [symmetric] by (simp add: glist_gput)
  have "\<forall>s. \<forall>u \<in> set (glist ?m s). wf_map u"
    using Cons.prems p by (auto simp: m TagSelectorSet_Add_def split: if_splits)
  moreover have "(\<exists>u \<in> set (glist ?m s). Matches u tgs) \<longleftrightarrow>
      (\<exists>u \<in> set (glist m s). Matches u tgs) \<or> s = k \<and> Matches t tgs"
    using TagSelectorSet_Add_Matches [of t "glist m k" tgs] Cons.prems p by (auto simp: m)
  ultimately show ?case using Cons.IH [of ?m] Cons.prems p by auto
qed simp

text \<open>
  The specification: through the routes, traffic of the dataplane for \<open>service\<close> may go to an inbound
  with the tags \<open>tgs\<close>.
\<close>

definition reaches :: "DataplaneResource \<Rightarrow> RouteMap \<Rightarrow> string \<Rightarrow> tags \<Rightarrow> bool" where
  "reaches d routes service tgs \<longleftrightarrow>
     (\<exists>oface \<in> set (dp_GetOutbound (Spec d)).
        case map_of routes (out_Service oface) of
          Some route \<Rightarrow> \<exists>w \<in> set (tr_Conf (Spec route)).
            map_of (wd_Destination w) ServiceTag = Some service \<and> Matches (wd_Destination w) tgs
        | None \<Rightarrow> service = out_Service oface \<and> Matches (MatchService service) tgs)"

lemma reaches_destinations:
  "reaches d routes s tgs \<longleftrightarrow>
     (\<exists>t. (s, t) \<in> set (concat (map (destinations_of routes) (dp_GetOutbound (Spec d)))) \<and> Matches t tgs)"
proof -
  have "(case map_of routes (out_Service oface) of
          Some route \<Rightarrow> \<exists>w \<in> set (tr_Conf (Spec route)).
            map_of (wd_Destination w) ServiceTag = Some s \<and> Matches (wd_Destination w) tgs
        | None \<Rightarrow> s = out_Service oface \<and> Matches (MatchService s) tgs) \<longleftrightarrow>
      (\<exists>t. (s, t) \<in> set (destinations_of routes oface) \<and> Matches t tgs)" for oface
    by (auto simp: destinations_of_def in_set_map_filter split: option.splits)
  then show ?thesis by (auto simp: reaches_def)
qed

definition routes_ok :: "RouteMap \<Rightarrow> bool" where
  "routes_ok routes \<longleftrightarrow> (\<forall>(s, r) \<in> set routes. \<forall>w \<in> set (tr_Conf (Spec r)). wf_map (wd_Destination w))"

lemma destinations_wf:
  assumes "routes_ok routes" and "(s, t) \<in> set (destinations_of routes oface)"
  shows "wf_map t"
proof (cases "map_of routes (out_Service oface)")
  case None
  then show ?thesis using assms by (simp add: destinations_of_def MatchService_def wf_map_def)
next
  case (Some r)
  then show ?thesis
    using assms map_of_SomeD [OF Some] by (auto simp: destinations_of_def in_set_map_filter routes_ok_def)
qed

lemma destination_map_Matches:
  assumes "routes_ok routes"
  shows "(\<exists>u \<in> set (glist (BuildDestinationMap d routes) s). Matches u tgs) \<longleftrightarrow> reaches d routes s tgs"
proof -
  have "\<forall>(s, t) \<in> set (concat (map (destinations_of routes) (dp_GetOutbound (Spec d)))). wf_map t"
    using destinations_wf [OF assms] by auto
  then show ?thesis
    unfolding BuildDestinationMap_eq reaches_destinations
    by (subst add_destinations_Matches) (auto simp: glist_def)
qed

text \<open>The endpoint that one inbound interface contributes, with its service.\<close>

definition inbound_endpoint :: "DestinationMap \<Rightarrow> Networking \<Rightarrow> nat \<Rightarrow> (string \<times> Endpoint) option" where
  "inbound_endpoint destinations n i =
     (let inbound = net_Inbound n ! i; service = gstr (in_Tags inbound) ServiceTag in
      if \<exists>u \<in> set (glist destinations service). Matches u (in_Tags inbound)
      then (case GetInboundInterfaceByIdx n i of
              Inl _ \<Rightarrow> None
            | Inr iface \<Rightarrow> Some (service,
                \<lparr>ep_Target = ii_DataplaneIP iface, ep_Port = ii_DataplanePort iface, ep_Tags = in_Tags inbound\<rparr>))
      else None)"

definition dataplane_endpoints :: "DestinationMap \<Rightarrow> DataplaneResource \<Rightarrow> (string \<times> Endpoint) list" where
  "dataplane_endpoints destinations dp =
     (case dp_Networking (Spec dp) of
        None \<Rightarrow> []
      | Some n \<Rightarrow> List.map_filter (inbound_endpoint destinations n) [0..<length (net_Inbound n)])"

definition add_endpoint :: "string \<times> Endpoint \<Rightarrow> EndpointMap \<Rightarrow> EndpointMap" where
  "add_endpoint = (\<lambda>(s, e) m. gput s (glist m s @ [e]) m)"

lemma dataplane_endpoints_iff:
  "se \<in> set (dataplane_endpoints destinations dp) \<longleftrightarrow>
     (\<exists>n i. dp_Networking (Spec dp) = Some n \<and> i < length (net_Inbound n) \<and> inbound_endpoint destinations n i = Some se)"
  by (cases "dp_Networking (Spec dp)") (auto simp: dataplane_endpoints_def in_set_map_filter Bex_def)

lemma endpoint_step_eq:
  "endpoint_step destinations n i m =
     (case inbound_endpoint destinations n i of None \<Rightarrow> m | Some se \<Rightarrow> add_endpoint se m)"
  by (auto simp: endpoint_step_def inbound_endpoint_def add_endpoint_def Let_def glist_def list_ex_iff
      split: option.splits sum.splits)

lemma fold_map_filter:
  "fold (\<lambda>x m. case f x of None \<Rightarrow> m | Some y \<Rightarrow> g y m) xs m = fold g (List.map_filter f xs) m"
  by (induction xs arbitrary: m) (auto simp: List.map_filter_simps split: option.splits)

lemma BuildEndpointMap_eq:
  assumes "destinations \<noteq> []"
  shows "BuildEndpointMap destinations dps = fold add_endpoint (concat (map (dataplane_endpoints destinations) dps)) []"
proof -
  have "dataplane_endpoints_step destinations dp m = fold add_endpoint (dataplane_endpoints destinations dp) m" for dp m
    using fold_map_filter [where f = "inbound_endpoint destinations n" and g = add_endpoint and m = m for n]
    by (simp add: dataplane_endpoints_step_def dataplane_endpoints_def endpoint_step_eq [abs_def] split: option.splits)
  then have "fold (dataplane_endpoints_step destinations) dps m =
      fold add_endpoint (concat (map (dataplane_endpoints destinations) dps)) m" for m
    by (induction dps arbitrary: m) simp_all
  then show ?thesis using assms by (simp add: BuildEndpointMap_def)
qed

lemma glist_add_endpoints:
  "glist (fold add_endpoint ses m) s = glist m s @ map snd (filter (\<lambda>se. fst se = s) ses)"
  by (induction ses arbitrary: m) (auto simp: add_endpoint_def glist_gput)

lemma endpoint_map_eq:
  "glist (BuildEndpointMap destinations dps) s =
     map snd (filter (\<lambda>se. fst se = s) (concat (map (dataplane_endpoints destinations) dps)))"
proof (cases "destinations = []")
  case True
  have "inbound_endpoint [] n i = None" for n i by (simp add: inbound_endpoint_def glist_def Let_def)
  then have "dataplane_endpoints [] dp = []" for dp
    by (simp add: dataplane_endpoints_def map_filter_def split: option.splits)
  then have "concat (map (dataplane_endpoints []) dps) = []" by simp
  then show ?thesis using True by (simp add: BuildEndpointMap_def glist_def)
next
  case False
  then show ?thesis by (simp add: BuildEndpointMap_eq glist_add_endpoints) (simp add: glist_def)
qed

text \<open>
  C12. The endpoints of a service are exactly the inbound interfaces of the dataplanes of the mesh that
  carry the service, match a destination of a route for some outbound of the dataplane, and resolve.
\<close>

theorem endpoints_are_routed_inbounds:
  assumes "routes_ok routes"
  shows "e \<in> set (glist (BuildEndpointMap (BuildDestinationMap d routes) dps) s) \<longleftrightarrow>
    (\<exists>dp \<in> set dps. \<exists>n i iface. dp_Networking (Spec dp) = Some n \<and> i < length (net_Inbound n) \<and>
       gstr (in_Tags (net_Inbound n ! i)) ServiceTag = s \<and> reaches d routes s (in_Tags (net_Inbound n ! i)) \<and>
       GetInboundInterfaceByIdx n i = Inr iface \<and>
       e = \<lparr>ep_Target = ii_DataplaneIP iface, ep_Port = ii_DataplanePort iface, ep_Tags = in_Tags (net_Inbound n ! i)\<rparr>)"
    (is "_ \<longleftrightarrow> ?R")
proof -
  have entry: "inbound_endpoint (BuildDestinationMap d routes) n i = Some (s, e) \<longleftrightarrow>
      gstr (in_Tags (net_Inbound n ! i)) ServiceTag = s \<and> reaches d routes s (in_Tags (net_Inbound n ! i)) \<and>
      (\<exists>iface. GetInboundInterfaceByIdx n i = Inr iface \<and>
       e = \<lparr>ep_Target = ii_DataplaneIP iface, ep_Port = ii_DataplanePort iface, ep_Tags = in_Tags (net_Inbound n ! i)\<rparr>)"
    for n i
    by (auto simp: inbound_endpoint_def Let_def destination_map_Matches [OF assms] split: sum.splits)
  have "e \<in> set (glist (BuildEndpointMap (BuildDestinationMap d routes) dps) s) \<longleftrightarrow>
      (\<exists>dp \<in> set dps. (s, e) \<in> set (dataplane_endpoints (BuildDestinationMap d routes) dp))"
    unfolding endpoint_map_eq by force
  also have "\<dots> \<longleftrightarrow> (\<exists>dp \<in> set dps. \<exists>n i. dp_Networking (Spec dp) = Some n \<and> i < length (net_Inbound n) \<and>
      inbound_endpoint (BuildDestinationMap d routes) n i = Some (s, e))"
    unfolding dataplane_endpoints_iff ..
  also have "\<dots> \<longleftrightarrow> ?R" unfolding entry by blast
  finally show ?thesis .
qed

text \<open>An example: the dataplane of a backend, reached through the implicit route.\<close>

definition backend_dataplane :: DataplaneResource where
  "backend_dataplane =
     \<lparr>Meta = None,
      Spec = \<lparr>dp_Networking = Some
        \<lparr>net_Address = ''192.168.0.2'', net_Gateway = None,
         net_Inbound = [\<lparr>in_Interface = '''', in_Port = 1, in_ServicePort = 2, in_Address = '''',
                         in_Tags = [(''service'', ''backend'')]\<rparr>],
         net_Outbound = [], net_TransparentProxying = None\<rparr>, dp_Metrics = None\<rparr>\<rparr>"

theorem endpoints_are_routed_inbounds_witness:
  "\<lparr>ep_Target = ''192.168.0.2'', ep_Port = 1, ep_Tags = [(''service'', ''backend'')]\<rparr> \<in>
     set (glist (BuildEndpointMap (BuildDestinationMap example_dataplane_resource
       [(''backend'', implicit_route 7 ''backend'')]) [backend_dataplane]) ''backend'')"
proof -
  let ?routes = "[(''backend'', implicit_route 7 ''backend'')]"
  have ok: "routes_ok ?routes" by (simp add: routes_ok_def implicit_route_def MatchService_def wf_map_def)
  have "reaches example_dataplane_resource ?routes ''backend'' [(''service'', ''backend'')]"
    by (simp add: reaches_def example_dataplane_resource_def example_dataplane_def dp_GetOutbound_def
        implicit_route_def MatchService_def Matches_def tag_matches_def ServiceTag_def)
  then show ?thesis
    unfolding endpoints_are_routed_inbounds [OF ok]
    by (simp add: backend_dataplane_def gstr_def ServiceTag_def GetInboundInterfaceByIdx_def Let_def)
qed

section \<open>Health checks\<close>

lemma map_of_map_value: "map_of (map (\<lambda>(k, v). (k, f v)) m) k = map_option f (map_of m k)"
  by (induction m) auto

lemma BuildHealthCheckMap_eq:
  "BuildHealthCheckMap d destinations hcs = map (\<lambda>(service, policy). (service, pol_Resource policy))
     (if hcs = [] then [] else SelectConnectionPolicies (Spec d) (map fst destinations) (map HealthCheck_policy hcs))"
proof -
  have "SelectConnectionPolicies (Spec d) [] ps = []" for ps :: "HealthCheckResource ConnectionPolicy list"
    by (simp add: SelectConnectionPolicies_def)
  then show ?thesis
    using drain_ToServicesOf [of destinations] by (auto simp: BuildHealthCheckMap_def)
qed

lemma health_check_entry:
  assumes "distinct (map res_name hcs)"
  shows "map_of (BuildHealthCheckMap d destinations hcs) s = Some h \<longleftrightarrow>
    s \<in> fst ` set destinations \<and>
    chosen (connection_ranks (Spec d) s) (map HealthCheck_policy hcs) (HealthCheck_policy h)"
proof (cases "hcs = []")
  case True
  then show ?thesis by (simp add: BuildHealthCheckMap_def chosen_def)
next
  case False
  then show ?thesis
    using selected_view [OF assms, of HealthCheck_policy "Spec d" "map fst destinations" s h]
    by (simp add: BuildHealthCheckMap_eq map_of_map_value)
qed

section \<open>Logging backends\<close>

lemma wf_map_destination_step: "wf_map m \<Longrightarrow> wf_map (destination_step service c t m)"
  by (auto simp: destination_step_def Let_def split: option.splits)

lemma wf_map_fold: "(\<And>x m. wf_map m \<Longrightarrow> wf_map (f x m)) \<Longrightarrow> wf_map m \<Longrightarrow> wf_map (fold f xs m)"
  by (induction xs arbitrary: m) auto

lemma wf_map_service_step: "wf_map m \<Longrightarrow> wf_map (service_step cs service m)"
  by (auto simp: service_step_def intro!: wf_map_fold wf_map_destination_step split: option.splits)

lemma wf_map_Select: "wf_map (SelectConnectionPolicies d services ps)"
proof -
  have "wf_map (fold (service_step cs) services [])" for cs :: "'a candidateBySource list"
    by (intro wf_map_fold wf_map_service_step) simp_all
  then show ?thesis
    by (simp add: SelectConnectionPolicies_def Let_def wf_map_def comp_def case_prod_unfold)
qed

text \<open>The backend a traffic log asks for: the one it names, or the default of the mesh.\<close>

definition effective_backend :: "MeshResource \<Rightarrow> string option \<Rightarrow> LoggingBackend option" where
  "effective_backend mesh conf =
     (let name = (case conf of None \<Rightarrow> '''' | Some b \<Rightarrow> b);
          logging = mesh_Logging (Spec mesh)
      in find (\<lambda>b. lb_Name b = (if name = '''' then get_field log_DefaultBackend '''' logging else name))
           (get_field log_Backends [] logging))"

lemma validateLoggingBackend_name: "validateLoggingBackend b = [] \<Longrightarrow> lb_Name b \<noteq> ''''"
  by (auto simp: validateLoggingBackend_def Let_def split: if_splits option.splits LoggingType.splits)

lemma backends_by_name_find:
  assumes "distinct (map name bs)"
  shows "map_of (backends_by_name name bs) n = find (\<lambda>b. name b = n) bs"
proof (cases "n \<in> name ` set bs")
  case True
  then obtain b where b: "b \<in> set bs" "find (\<lambda>b. name b = n) bs = Some b" "name b = n"
    using find_in_set [of n name bs] by blast
  then show ?thesis using backends_by_name_distinct [OF assms b(1)] by simp
next
  case False
  then have "find (\<lambda>b. name b = n) bs = None" "find (\<lambda>b. name b = n) (rev bs) = None"
    by (auto simp: find_None_iff)
  then show ?thesis by (simp add: backends_by_name_def map_of_backends_by_name)
qed

lemma logging_backends_resolve:
  assumes "Mesh_Validate p mesh = None"
  shows "map_of (logging_backendsByName mesh) (case conf of None \<Rightarrow> '''' | Some b \<Rightarrow> b) =
    map_option Some (effective_backend mesh conf)"
proof (cases "mesh_Logging (Spec mesh)")
  case None
  then show ?thesis
    by (simp add: logging_backendsByName_def effective_backend_def get_field_def backends_by_name_def Let_def)
next
  case (Some logging)
  let ?bs = "log_Backends logging"
  have v: "\<forall>b \<in> set ?bs. lb_Name b \<noteq> ''''" "distinct (map lb_Name ?bs)"
    "log_DefaultBackend logging \<noteq> '''' \<longrightarrow> log_DefaultBackend logging \<in> lb_Name ` set ?bs"
    using assms Some validateLoggingBackend_name by (auto simp: Mesh_Validate_None validateLogging_Nil)
  have empty: "find (\<lambda>b. lb_Name b = '''') ?bs = None" using v(1) by (auto simp: find_None_iff)
  have default: "\<exists>b. find (\<lambda>b. lb_Name b = log_DefaultBackend logging) ?bs = Some b" if "log_DefaultBackend logging \<noteq> ''''"
    using v(3) that find_in_set [of "log_DefaultBackend logging" lb_Name ?bs] by blast
  show ?thesis
    using empty default Some
    by (cases "log_DefaultBackend logging = ''''") (auto simp: logging_backendsByName_def effective_backend_def get_field_def Let_def map_of_gput map_of_map_value
        backends_by_name_find [OF v(2)] split: option.splits)
qed

lemma log_loop:
  assumes "wf_map pm"
  shows "map_of (fold (log_step backends) pm m) s =
    (case map_of pm s of
       None \<Rightarrow> map_of m s
     | Some policy \<Rightarrow>
         (case map_of backends (case tl_Conf (Spec (pol_Resource policy)) of None \<Rightarrow> '''' | Some b \<Rightarrow> b) of
            None \<Rightarrow> map_of m s | Some backend \<Rightarrow> Some backend))"
  using assms
proof (induction pm arbitrary: m)
  case (Cons kp pm)
  obtain k policy where kp: "kp = (k, policy)" by fastforce
  have "wf_map pm" and new: "map_of pm k = None"
    using Cons.prems kp by (auto simp: wf_map_def map_of_eq_None_iff)
  then show ?case
    using Cons.IH [of "log_step backends kp m"] kp new
    by (auto simp: log_step_def map_of_gput split: option.splits)
qed simp

text \<open>
  What \<open>logs_Match\<close> computes from the logs and the mesh it reads: every service that a log applies
  to is logged to the backend of the chosen log, and no entry is a \<open>nil\<close> backend.
\<close>

lemma log_map_entry:
  assumes "Mesh_Validate p mesh = None" and "distinct (map res_name logs)"
  shows "map_of (fold (log_step (logging_backendsByName mesh))
      (SelectOutboundConnectionPolicies (Spec d) (map TrafficLog_policy logs)) []) s = Some v \<longleftrightarrow>
    s \<in> set (outbound_services (Spec d)) \<and>
    (\<exists>l backend. chosen (connection_ranks (Spec d) s) (map TrafficLog_policy logs) (TrafficLog_policy l) \<and>
       effective_backend mesh (tl_Conf (Spec l)) = Some backend \<and> v = Some backend)"
proof -
  let ?m = "SelectConnectionPolicies (Spec d) (outbound_services (Spec d)) (map TrafficLog_policy logs)"
  have sel: "map_option pol_Resource (map_of ?m s) = Some l \<longleftrightarrow>
      s \<in> set (outbound_services (Spec d)) \<and>
      chosen (connection_ranks (Spec d) s) (map TrafficLog_policy logs) (TrafficLog_policy l)" for l
    using selected_view [OF assms(2), of TrafficLog_policy] by simp
  have "s \<in> set (outbound_services (Spec d)) \<and>
      (\<exists>l backend. chosen (connection_ranks (Spec d) s) (map TrafficLog_policy logs) (TrafficLog_policy l) \<and>
         effective_backend mesh (tl_Conf (Spec l)) = Some backend \<and> v = Some backend) \<longleftrightarrow>
      (\<exists>l backend. map_option pol_Resource (map_of ?m s) = Some l \<and>
         effective_backend mesh (tl_Conf (Spec l)) = Some backend \<and> v = Some backend)"
    unfolding sel by blast
  then show ?thesis
    unfolding SelectOutbound_services log_loop [OF wf_map_Select] logging_backends_resolve [OF assms(1)]
    by (cases "map_of ?m s") (auto split: option.splits)
qed

end
