(* ===== verification/Proxy_Sync.thy ===== *)
theory Proxy_Sync
  imports Topology
begin

text \<open>
  The synchronisation of one dataplane (\<open>DefaultDataplaneSyncTracker\<close> of
  \<open>pkg/xds/server/components.go\<close>): on every tick the control plane reads the dataplane, its mesh and
  the policies of the mesh, and hands the resulting \<open>Proxy\<close> to the reconciler.  The contract
  \<open>valid_reads\<close> says what a tick may rely on of its reads; it holds in every state the managers of
  the control plane reach.
\<close>

section \<open>The contract of reads\<close>

lemma typed_eq:
  "\<forall>r \<in> set rs. dest (Spec r) \<noteq> None \<Longrightarrow> typed dest rs = map (\<lambda>r. with_spec r (the (dest (Spec r)))) rs"
  by (induction rs) (auto simp: typed_def List.map_filter_simps)

lemma res_name_with_spec [simp]: "res_name (with_spec r s) = res_name r" "res_mesh (with_spec r s) = res_mesh r"
  "with_spec (with_spec r s) s' = with_spec r s'"
  by (simp_all add: res_name_def res_mesh_def with_spec_def)

text \<open>What the projection \<open>dest\<close> inverts: the constructor of the specifications of one type.\<close>

definition projects :: "(ResourceSpec \<Rightarrow> 'a option) \<Rightarrow> ('a \<Rightarrow> ResourceSpec) \<Rightarrow> string \<Rightarrow> bool" where
  "projects dest con typ \<longleftrightarrow>
     (\<forall>s x. dest s = Some x \<longleftrightarrow> s = con x) \<and> (\<forall>s. spec_type s = typ \<longrightarrow> dest s \<noteq> None) \<and>
     zero_of typ \<in> set zero_specs \<and> spec_type (zero_of typ) = typ"

lemma projectsI:
  assumes "\<And>s x. dest s = Some x \<longleftrightarrow> s = con x" and "\<And>s. spec_type s = typ \<Longrightarrow> dest s \<noteq> None"
    and "\<And>x. spec_type (con x) = typ"
  shows "projects dest con typ"
  using assms zero_specs_complete [of "con x" for x] by (simp add: projects_def)

lemma projections:
  "projects as_Mesh MeshSpec MeshType"
  "projects as_Dataplane DataplaneSpec ''Dataplane''"
  "projects as_TrafficPermission TrafficPermissionSpec ''TrafficPermission''"
  "projects as_TrafficRoute TrafficRouteSpec ''TrafficRoute''"
  "projects as_TrafficLog TrafficLogSpec ''TrafficLog''"
  "projects as_TrafficTrace TrafficTraceSpec ''TrafficTrace''"
  "projects as_HealthCheck HealthCheckSpec ''HealthCheck''"
  "projects as_FaultInjection FaultInjectionSpec ''FaultInjection''"
proof (rule_tac [!] projectsI)
  fix s
  show "as_Mesh s = Some x \<longleftrightarrow> s = MeshSpec x" "spec_type (MeshSpec x) = MeshType" for x by (cases s; simp)+
  show "spec_type s = MeshType \<Longrightarrow> as_Mesh s \<noteq> None" by (cases s) (simp_all add: MeshType_def SecretType_def)
  show "as_Dataplane s = Some x \<longleftrightarrow> s = DataplaneSpec x" "spec_type (DataplaneSpec x) = ''Dataplane''" for x by (cases s; simp)+
  show "spec_type s = ''Dataplane'' \<Longrightarrow> as_Dataplane s \<noteq> None" by (cases s) (simp_all add: MeshType_def SecretType_def)
  show "as_TrafficPermission s = Some x \<longleftrightarrow> s = TrafficPermissionSpec x" "spec_type (TrafficPermissionSpec x) = ''TrafficPermission''" for x by (cases s; simp)+
  show "spec_type s = ''TrafficPermission'' \<Longrightarrow> as_TrafficPermission s \<noteq> None" by (cases s) (simp_all add: MeshType_def SecretType_def)
  show "as_TrafficRoute s = Some x \<longleftrightarrow> s = TrafficRouteSpec x" "spec_type (TrafficRouteSpec x) = ''TrafficRoute''" for x by (cases s; simp)+
  show "spec_type s = ''TrafficRoute'' \<Longrightarrow> as_TrafficRoute s \<noteq> None" by (cases s) (simp_all add: MeshType_def SecretType_def)
  show "as_TrafficLog s = Some x \<longleftrightarrow> s = TrafficLogSpec x" "spec_type (TrafficLogSpec x) = ''TrafficLog''" for x by (cases s; simp)+
  show "spec_type s = ''TrafficLog'' \<Longrightarrow> as_TrafficLog s \<noteq> None" by (cases s) (simp_all add: MeshType_def SecretType_def)
  show "as_TrafficTrace s = Some x \<longleftrightarrow> s = TrafficTraceSpec x" "spec_type (TrafficTraceSpec x) = ''TrafficTrace''" for x by (cases s; simp)+
  show "spec_type s = ''TrafficTrace'' \<Longrightarrow> as_TrafficTrace s \<noteq> None" by (cases s) (simp_all add: MeshType_def SecretType_def)
  show "as_HealthCheck s = Some x \<longleftrightarrow> s = HealthCheckSpec x" "spec_type (HealthCheckSpec x) = ''HealthCheck''" for x by (cases s; simp)+
  show "spec_type s = ''HealthCheck'' \<Longrightarrow> as_HealthCheck s \<noteq> None" by (cases s) (simp_all add: MeshType_def SecretType_def)
  show "as_FaultInjection s = Some x \<longleftrightarrow> s = FaultInjectionSpec x" "spec_type (FaultInjectionSpec x) = ''FaultInjection''" for x by (cases s; simp)+
  show "spec_type s = ''FaultInjection'' \<Longrightarrow> as_FaultInjection s \<noteq> None" by (cases s) (simp_all add: MeshType_def SecretType_def)
qed

text \<open>
  In a state that is \<open>ok\<close>, listing a type in a mesh succeeds with valid resources under distinct
  names, and a resource that is read is valid and carries the metadata it was asked for.
\<close>

locale valid_reads =
  fixes ok :: "'s \<Rightarrow> bool" and manager :: "'s \<Rightarrow> ReadOnlyResourceManager" and lib :: library
  assumes list_law: "ok s \<Longrightarrow> zero \<in> set zero_specs \<Longrightarrow> mesh \<noteq> '''' \<Longrightarrow>
      \<exists>items. ro_List (manager s) (new_list zero) [ListByMesh mesh] = (None, (new_list zero)\<lparr>rl_Items := items\<rparr>) \<and>
        distinct (map res_name items) \<and> (\<forall>r \<in> set items. Validate lib r = None \<and> GetType r = spec_type zero)"
    and get_law: "ok s \<Longrightarrow> zero \<in> set zero_specs \<Longrightarrow>
      ro_Get (manager s) \<lparr>Meta = None, Spec = zero\<rparr> [GetByKey name mesh] = (None, r) \<Longrightarrow>
      Validate lib r = None \<and> GetType r = spec_type zero \<and>
      (\<exists>m. Meta r = Some m \<and> meta_GetName m = name \<and> (spec_type zero \<noteq> MeshType \<longrightarrow> meta_GetMesh m = mesh))"
begin

lemma listed:
  assumes "ok s" and "mesh \<noteq> ''''" and p: "projects dest con typ"
  shows "\<exists>rs. list_in_mesh dest typ (manager s) mesh = Inr rs \<and> distinct (map res_name rs) \<and>
    (\<forall>r \<in> set rs. Validate lib (with_spec r (con (Spec r))) = None)"
proof -
  have z: "zero_of typ \<in> set zero_specs" "spec_type (zero_of typ) = typ" using p by (auto simp: projects_def)
  obtain items where items: "ro_List (manager s) (new_list (zero_of typ)) [ListByMesh mesh] =
      (None, (new_list (zero_of typ))\<lparr>rl_Items := items\<rparr>)" "distinct (map res_name items)"
    "\<forall>r \<in> set items. Validate lib r = None \<and> GetType r = typ"
    using list_law [OF assms(1) z(1) assms(2)] z(2) by auto
  have dest: "\<exists>x. dest (Spec r) = Some x \<and> Spec r = con x" if "r \<in> set items" for r
    using items(3) that p unfolding projects_def GetType_def by blast
  have "typed dest items = map (\<lambda>r. with_spec r (the (dest (Spec r)))) items"
    using dest by (intro typed_eq) fastforce
  moreover have "Validate lib (with_spec r (con (the (dest (Spec r))))) = None" if "r \<in> set items" for r
    using dest [OF that] items(3) that Validate_spec [of "with_spec r (con (the (dest (Spec r))))" r lib] by auto
  ultimately have "distinct (map res_name (typed dest items)) \<and>
      (\<forall>r \<in> set (typed dest items). Validate lib (with_spec r (con (Spec r))) = None)"
    using items(2) by (auto simp: comp_def)
  then show ?thesis using items(1) by (simp add: list_in_mesh_def)
qed

lemma got:
  assumes "ok s" and p: "projects dest con typ" and "get_typed dest typ (manager s) [GetByKey name mesh] = Inr r"
  shows "Validate lib (with_spec r (con (Spec r))) = None \<and>
    (\<exists>m. Meta r = Some m \<and> meta_GetName m = name \<and> (typ \<noteq> MeshType \<longrightarrow> meta_GetMesh m = mesh))"
proof -
  obtain r0 x where r0: "ro_Get (manager s) \<lparr>Meta = None, Spec = zero_of typ\<rparr> [GetByKey name mesh] = (None, r0)"
    "dest (Spec r0) = Some x" "r = with_spec r0 x"
    using assms(3) by (auto simp: get_typed_def split: option.splits prod.splits)
  have "Spec r0 = con x" using r0(2) p by (simp add: projects_def)
  moreover have "zero_of typ \<in> set zero_specs" "spec_type (zero_of typ) = typ" using p by (auto simp: projects_def)
  ultimately show ?thesis
    using get_law [OF assms(1) _ r0(1)] r0(3) Validate_spec [of "with_spec r (con (Spec r))" r0 lib] by auto
qed

lemmas listed_type = listed [OF _ _ projections(3)] listed [OF _ _ projections(4)] listed [OF _ _ projections(5)]
  listed [OF _ _ projections(6)] listed [OF _ _ projections(7)] listed [OF _ _ projections(8)]

end

text \<open>Reads through the manager of the control plane are reads of the store.\<close>

lemma read_only_store:
  "ro_List (read_only (customizableManager (Suc fuel) lib now store cas registry) s) l fs = st_List store l fs s"
  "ro_Get (read_only (customizableManager (Suc fuel) lib now store cas registry) s) r gfs = st_Get store r gfs s"
proof -
  show "ro_List (read_only (customizableManager (Suc fuel) lib now store cas registry) s) l fs = st_List store l fs s"
    by (simp add: read_only_def customizableManager.simps customizableResourceManager_def
        customizable_resourceManager_def meshManager_def resourcesManager_def meshmgr_List_def as_meshes_def)
  have "of_mesh (with_spec r m) = r" if "Spec r = MeshSpec m" for m
    using that by (cases r) (simp add: of_mesh_def with_spec_def)
  moreover have "\<exists>m. Spec r = MeshSpec m" if "GetType r = MeshType"
    using that by (cases "Spec r") (simp_all add: GetType_def MeshType_def SecretType_def)
  ultimately show "ro_Get (read_only (customizableManager (Suc fuel) lib now store cas registry) s) r gfs = st_Get store r gfs s"
    by (auto simp: read_only_def customizableManager.simps customizableResourceManager_def
        customizable_resourceManager_def meshManager_def resourcesManager_def meshmgr_Get_def as_mesh_def)
qed

text \<open>The states in which ticks are shown to work; a list of \<open>2^63\<close> records does not fit an \<open>int\<close>.\<close>

definition sync_ok :: "codec \<Rightarrow> library \<Rightarrow> memoryStore \<Rightarrow> bool" where
  "sync_ok cd lib c \<longleftrightarrow> managed_ok cd lib c \<and> int (length c) < 2 ^ 63"

lemma findRecords_names:
  assumes "unique_keys c" and "mesh \<noteq> ''''"
  shows "distinct (map rec_Name (findRecords c t mesh))"
proof -
  have "distinct (map rec_key (findRecords c t mesh))"
    using assms(1) by (simp add: unique_keys_def findRecords_def distinct_map_filter)
  moreover have "map rec_key (findRecords c t mesh) = map (\<lambda>n. (t, n, mesh)) (map rec_Name (findRecords c t mesh))"
    using assms(2) by (auto simp: findRecords_def rec_key_def)
  ultimately show ?thesis by (metis distinct_map)
qed

lemma mem_Get_key:
  assumes "mem_inv cd c" and "Spec r \<in> set zero_specs" and "mem_Get cd r [GetByKey name mesh] c = (None, r')"
  shows "\<exists>m. Meta r' = Some m \<and> meta_GetName m = name \<and> (GetType r \<noteq> MeshType \<longrightarrow> meta_GetMesh m = mesh)"
proof -
  let ?mesh = "if GetType r = MeshType then name else mesh"
  obtain idx rec where f: "findRecord c (GetType r) name ?mesh = Some (idx, rec)"
    and u: "unmarshalRecord cd rec r = (None, r')"
    using assms(3) by (auto simp: mem_Get_def NewGetOptions_def GetByKey_def Let_def split: option.splits if_splits)
  then have rec: "rec \<in> set c" "rec_key rec = (GetType r, name, ?mesh)" by (auto simp: findRecord_Some)
  then have "r' = decode cd rec" "Meta (decode cd rec) = Some (MemoryMeta (record_meta rec))"
    using unmarshal_decode [of cd rec r] assms(1,2) u by (auto simp: mem_inv_def rec_key_def)
  then show ?thesis using rec(2) by (auto simp: record_meta_def rec_key_def)
qed

interpretation synced: valid_reads "sync_ok cd lib"
  "read_only (customizableManager (Suc fuel) lib now (memory_store cd) cas registry)" lib
  for cd lib fuel now cas registry
proof unfold_locales
  fix s :: memoryStore and zero :: ResourceSpec and mesh :: string
  assume ok: "sync_ok cd lib s" and zero: "zero \<in> set zero_specs" and mesh: "mesh \<noteq> ''''"
  have inv: "mem_inv cd s" and small: "int (length s) < 2 ^ 63" and valid: "\<forall>x \<in> mem_contents cd s. Validate lib x = None"
    using ok by (auto simp: sync_ok_def managed_ok_def all_valid_def)
  let ?recs = "findRecords s (spec_type zero) mesh"
  have decoded: "GetType (decode cd rec) = rec_ResourceType rec" "res_name (decode cd rec) = rec_Name rec"
    if "rec \<in> set s" for rec
  proof -
    obtain spec where "ToJSON cd spec = Inr (rec_Spec rec)" "spec_type spec = rec_ResourceType rec"
      using inv \<open>rec \<in> set s\<close> unfolding mem_inv_def record_ok_def by blast
    then have d: "decode cd rec = \<lparr>Meta = Some (MemoryMeta (record_meta rec)), Spec = spec\<rparr>" "spec_type spec = rec_ResourceType rec"
      using inv by (auto simp: mem_inv_def intro: decode_eq)
    then show "GetType (decode cd rec) = rec_ResourceType rec" "res_name (decode cd rec) = rec_Name rec"
      by (simp_all add: GetType_def res_name_def record_meta_def)
  qed
  have sub: "set ?recs \<subseteq> set s" and rt: "\<forall>rec \<in> set ?recs. rec_ResourceType rec = spec_type zero"
    by (auto simp: findRecords_def)
  have "map res_name (map (decode cd) ?recs) = map rec_Name ?recs"
    using sub decoded(2) by auto
  moreover have "distinct (map rec_Name ?recs)"
    using inv by (intro findRecords_names mesh) (simp add: mem_inv_def)
  ultimately have "distinct (map res_name (map (decode cd) ?recs))" by metis
  then show "\<exists>items. ro_List (read_only (customizableManager (Suc fuel) lib now (memory_store cd) cas registry) s)
        (new_list zero) [ListByMesh mesh] = (None, (new_list zero)\<lparr>rl_Items := items\<rparr>) \<and>
      distinct (map res_name items) \<and> (\<forall>r \<in> set items. Validate lib r = None \<and> GetType r = spec_type zero)"
    using mem_List_all [OF inv zero small, of mesh] sub rt decoded(1) valid
    by (intro exI [of _ "map (decode cd) ?recs"]) (auto simp: read_only_store memory_store_def mem_contents_def)
next
  fix s :: memoryStore and zero :: ResourceSpec and name mesh :: string and r :: AnyResource
  assume ok: "sync_ok cd lib s" and zero: "zero \<in> set zero_specs"
    and get: "ro_Get (read_only (customizableManager (Suc fuel) lib now (memory_store cd) cas registry) s)
      \<lparr>Meta = None, Spec = zero\<rparr> [GetByKey name mesh] = (None, r)"
  have valid: "all_valid (mem_inv cd) (mem_contents cd) lib s" and inv: "mem_inv cd s"
    using ok by (auto simp: sync_ok_def managed_ok_def all_valid_def)
  have g: "mem_Get cd \<lparr>Meta = None, Spec = zero\<rparr> [GetByKey name mesh] s = (None, r)"
    using get by (simp add: read_only_store memory_store_def)
  have "Validate lib r = None \<and> GetType r = spec_type zero"
    using mem_Get_contents [OF inv g] valid zero by (auto simp: all_valid_def GetType_def)
  then show "Validate lib r = None \<and> GetType r = spec_type zero \<and>
      (\<exists>m. Meta r = Some m \<and> meta_GetName m = name \<and> (spec_type zero \<noteq> MeshType \<longrightarrow> meta_GetMesh m = mesh))"
    using mem_Get_key [OF inv _ g] zero by (simp add: GetType_def)
qed

section \<open>Metadata of the streams\<close>

text \<open>\<open>DataplaneMetadataTracker\<close>: the metadata of the node behind every open stream.\<close>

type_synonym DataplaneMetadataTracker = "(int, DataplaneMetadata) gomap"

definition tracker_Metadata :: "DataplaneMetadataTracker \<Rightarrow> int \<Rightarrow> DataplaneMetadata" where
  "tracker_Metadata d streamId =
     (case map_of d streamId of
        Some metadata \<Rightarrow> metadata
      | None \<Rightarrow> \<lparr>md_DataplaneTokenPath = '''', md_AdminPort = 0\<rparr>)"

definition metadata_OnStreamClosed :: "int \<Rightarrow> DataplaneMetadataTracker \<Rightarrow> DataplaneMetadataTracker" where
  "metadata_OnStreamClosed stream d = gdel stream d"

definition metadata_OnStreamRequest :: "int \<Rightarrow> Node option \<Rightarrow> DataplaneMetadataTracker \<Rightarrow> DataplaneMetadataTracker" where
  "metadata_OnStreamRequest stream node d =
     (case node of None \<Rightarrow> d | Some n \<Rightarrow> gput stream (DataplaneMetadataFromNode n) d)"

section \<open>The tick\<close>

text \<open>\<open>xds_context.Context\<close>: the context of the control plane (opaque here) and the mesh.\<close>

record 'c Context =
  ctx_ControlPlane :: 'c
  ctx_Mesh :: MeshResource

record Proxy =
  px_Id :: ProxyId
  px_Dataplane :: DataplaneResource
  px_TrafficPermissions :: "(InboundInterface, TrafficPermissionResource) gomap"
  px_Logs :: "(string, LoggingBackend option) gomap"
  px_TrafficRoutes :: RouteMap
  px_OutboundSelectors :: DestinationMap
  px_OutboundTargets :: EndpointMap
  px_HealthChecks :: "(string, HealthCheckResource) gomap"
  px_TrafficTrace :: "TrafficTraceResource option"
  px_TracingBackend :: "TracingBackend option"
  px_Metadata :: DataplaneMetadata
  px_FaultInjections :: "(InboundInterface, FaultInjection) gomap"

text \<open>The interface \<open>SnapshotReconciler\<close>, over the state \<open>'w\<close> of the snapshot cache.\<close>

record ('c, 'w) SnapshotReconciler =
  sr_Reconcile :: "'c Context \<Rightarrow> Proxy \<Rightarrow> 'w \<Rightarrow> go_error option \<times> 'w"
  sr_Clear :: "ProxyId \<Rightarrow> 'w \<Rightarrow> go_error option \<times> 'w"

text \<open>Everything a tick reads after the dataplane and the mesh.\<close>

definition build_proxy ::
  "gotime \<Rightarrow> ReadOnlyResourceManager \<Rightarrow> DataplaneMetadata \<Rightarrow> ProxyId \<Rightarrow> DataplaneResource \<Rightarrow> MeshResource \<Rightarrow>
   go_error + Proxy" where
  "build_proxy now manager metadata proxyID dataplane mesh =
     bindE (GetRoutes now dataplane manager) (\<lambda>routes.
     let destinations = BuildDestinationMap dataplane routes in
     bindE (GetOutboundTargets dataplane destinations manager) (\<lambda>outbound.
     bindE (GetHealthChecks dataplane destinations manager) (\<lambda>healthChecks.
     bindE (GetTrafficTrace dataplane manager) (\<lambda>trafficTrace.
     let tracingBackend = (case trafficTrace of
           None \<Rightarrow> None
         | Some trace \<Rightarrow> GetTracingBackend mesh (case tt_Conf (Spec trace) of None \<Rightarrow> '''' | Some b \<Rightarrow> b)) in
     bindE (permissions_Match manager dataplane) (\<lambda>matchedPermissions.
     bindE (logs_Match manager dataplane) (\<lambda>matchedLogs.
     bindE (faults_Match manager dataplane) (\<lambda>faultInjection.
     Inr \<lparr>px_Id = proxyID, px_Dataplane = dataplane, px_TrafficPermissions = matchedPermissions,
          px_Logs = matchedLogs, px_TrafficRoutes = routes, px_OutboundSelectors = destinations,
          px_OutboundTargets = outbound, px_HealthChecks = healthChecks, px_TrafficTrace = trafficTrace,
          px_TracingBackend = tracingBackend, px_Metadata = metadata, px_FaultInjections = faultInjection\<rparr>)))))))"

definition OnTick ::
  "gotime \<Rightarrow> ReadOnlyResourceManager \<Rightarrow> 'c \<Rightarrow> DataplaneMetadataTracker \<Rightarrow> ('c, 'w) SnapshotReconciler \<Rightarrow>
   ResourceKey \<Rightarrow> int \<Rightarrow> 'w \<Rightarrow> go_error option \<times> 'w" where
  "OnTick now manager envoyCpCtx metadataTracker reconciler key streamId w =
     (let proxyID = FromResourceKey key in
      case get_typed as_Dataplane ''Dataplane'' manager [GetBy key] of
        Inl err \<Rightarrow> if IsResourceNotFound (Some err) then sr_Clear reconciler proxyID w else (Some err, w)
      | Inr dataplane \<Rightarrow>
          (case get_typed as_Mesh MeshType manager [GetByKey (pid_Mesh proxyID) (pid_Mesh proxyID)] of
             Inl err \<Rightarrow> (Some err, w)
           | Inr mesh \<Rightarrow>
               (case build_proxy now manager (tracker_Metadata metadataTracker streamId) proxyID dataplane mesh of
                  Inl err \<Rightarrow> (Some err, w)
                | Inr proxy \<Rightarrow>
                    sr_Reconcile reconciler \<lparr>ctx_ControlPlane = envoyCpCtx, ctx_Mesh = mesh\<rparr> proxy w)))"

section \<open>Every tick builds a proxy\<close>

lemma select_inbound_total:
  assumes "no_empty_destination ps" and "GetInboundInterfaces (dp_Networking d) = Inr ifaces"
  shows "\<exists>m. SelectInboundConnectionPolicies d ps = Inr m"
proof -
  have "no_empty_destination (sort_ByName ps)"
    using assms(1) by (simp add: no_empty_destination_def sort_ByName_props)
  then show ?thesis by (simp add: SelectInboundConnectionPolicies_def assms(2) inbound_loop)
qed

text \<open>
  What a proxy built from valid resources satisfies: every outbound service has a route, every
  endpoint has a port and an address (or the empty address the validator lets through), and no
  log entry is a \<open>nil\<close> backend.
\<close>

definition proxy_ok :: "Proxy \<Rightarrow> bool" where
  "proxy_ok proxy \<longleftrightarrow>
     (\<forall>oface \<in> set (dp_GetOutbound (Spec (px_Dataplane proxy))). map_of (px_TrafficRoutes proxy) (out_Service oface) \<noteq> None) \<and>
     (\<forall>s. \<forall>e \<in> set (glist (px_OutboundTargets proxy) s).
        valid_port (ep_Port e) \<and> (ep_Target e = '''' \<or> parse_ip (ep_Target e) \<noteq> [])) \<and>
     (\<forall>s. map_of (px_Logs proxy) s \<noteq> Some None)"

lemma endpoints_ok:
  assumes "\<forall>dp \<in> set dps. Dataplane_Validate dp = None" and "e \<in> set (glist (BuildEndpointMap destinations dps) s)"
  shows "valid_port (ep_Port e) \<and> (ep_Target e = '''' \<or> parse_ip (ep_Target e) \<noteq> [])"
proof -
  obtain dp n i where dp: "dp \<in> set dps" "dp_Networking (Spec dp) = Some n" "i < length (net_Inbound n)"
    and ep: "inbound_endpoint destinations n i = Some (s, e)"
    using assms(2) unfolding endpoint_map_eq by (fastforce simp: dataplane_endpoints_iff)
  obtain iface where iface: "GetInboundInterfaceByIdx n i = Inr iface" "inbound_interface_ok n iface"
    using validated_networking [of dp] assms(1) dp by auto
  then show ?thesis
    using ep by (auto simp: inbound_endpoint_def Let_def inbound_interface_ok_def split: if_splits)
qed

lemma with_own_spec [simp]: "with_spec r (Spec r) = r"
  by (cases r) (simp add: with_spec_def)

lemma Validate_con:
  "Validate lib (with_spec r (DataplaneSpec (Spec r))) = Dataplane_Validate r"
  "Validate lib (with_spec p (TrafficPermissionSpec (Spec p))) = TrafficPermission_Validate p"
  "Validate lib (with_spec f (FaultInjectionSpec (Spec f))) = FaultInjection_Validate f"
  "Validate lib (with_spec m (MeshSpec (Spec m))) = Mesh_Validate (lib_url_Port lib) m"
  by (simp_all add: Validate_def)

context valid_reads
begin

lemma GetRoutes_ok:
  assumes "ok s" and "Meta d = Some md" and "meta_GetMesh md \<noteq> ''''"
  shows "\<exists>routes. GetRoutes now d (manager s) = Inr routes \<and>
    (\<forall>oface \<in> set (dp_GetOutbound (Spec d)). map_of routes (out_Service oface) \<noteq> None)"
proof -
  obtain rs where rs: "list_in_mesh as_TrafficRoute ''TrafficRoute'' (manager s) (meta_GetMesh md) = Inr rs"
    using listed [OF assms(1,3) projections(4)] by blast
  have "map_of (BuildRouteMap now d rs) (out_Service oface) \<noteq> None" if "oface \<in> set (dp_GetOutbound (Spec d))" for oface
    using that unfolding BuildRouteMap_eq map_of_fold_gput by simp
  then show ?thesis using rs assms(2) by (auto simp: GetRoutes_def dataplane_mesh_def)
qed

lemma GetOutboundTargets_ok:
  assumes "ok s" and "Meta d = Some md" and "meta_GetMesh md \<noteq> ''''"
  shows "\<exists>out. GetOutboundTargets d destinations (manager s) = Inr out \<and>
    (\<forall>t. \<forall>e \<in> set (glist out t). valid_port (ep_Port e) \<and> (ep_Target e = '''' \<or> parse_ip (ep_Target e) \<noteq> []))"
proof -
  obtain dps where "list_in_mesh as_Dataplane ''Dataplane'' (manager s) (meta_GetMesh md) = Inr dps"
    "\<forall>dp \<in> set dps. Dataplane_Validate dp = None"
    using listed [OF assms(1,3) projections(2)] by (auto simp: Validate_con)
  then show ?thesis
    using assms(2) endpoints_ok [of dps _ destinations] by (auto simp: GetOutboundTargets_def dataplane_mesh_def glist_def)
qed

lemma GetHealthChecks_ok:
  assumes "ok s" and "Meta d = Some md" and "meta_GetMesh md \<noteq> ''''"
  shows "\<exists>checks. GetHealthChecks d destinations (manager s) = Inr checks"
  using listed [OF assms(1,3) projections(7)] assms(2) by (auto simp: GetHealthChecks_def dataplane_mesh_def)

lemma GetTrafficTrace_ok:
  assumes "ok s" and "Meta d = Some md" and "meta_GetMesh md \<noteq> ''''"
  shows "\<exists>trace. GetTrafficTrace d (manager s) = Inr trace"
proof -
  obtain ts where ts: "list_in_mesh as_TrafficTrace ''TrafficTrace'' (manager s) (meta_GetMesh md) = Inr ts"
    "distinct (map res_name ts)"
    using listed [OF assms(1,3) projections(6)] by blast
  then have "distinct (map pol_Name (map TrafficTrace_policy ts))" by (simp add: comp_def)
  then show ?thesis
    using SelectDataplane_chosen [of "map TrafficTrace_policy ts" "Spec d"] ts(1) assms(2)
    by (auto simp: GetTrafficTrace_def dataplane_mesh_def)
qed

lemma inbound_matchers_ok:
  assumes "ok s" and "Meta d = Some md" and "meta_GetMesh md \<noteq> ''''" and "Dataplane_Validate d = None"
  shows "\<exists>m. permissions_Match (manager s) d = Inr m" and "\<exists>m. faults_Match (manager s) d = Inr m"
proof -
  obtain ifaces where ifaces: "GetInboundInterfaces (dp_Networking (Spec d)) = Inr ifaces"
    using validated_networking [OF assms(4)] by auto
  obtain ps where ps: "list_in_mesh as_TrafficPermission ''TrafficPermission'' (manager s) (meta_GetMesh md) = Inr ps"
    "\<forall>p \<in> set ps. TrafficPermission_Validate p = None"
    using listed [OF assms(1,3) projections(3)] by (auto simp: Validate_con)
  then show "\<exists>m. permissions_Match (manager s) d = Inr m"
    using select_inbound_total [OF permission.no_empty_destination_views [OF ps(2)] ifaces] assms(2)
    by (auto simp: permissions_Match_def dataplane_mesh_def)
  obtain fs where fs: "list_in_mesh as_FaultInjection ''FaultInjection'' (manager s) (meta_GetMesh md) = Inr fs"
    "\<forall>f \<in> set fs. FaultInjection_Validate f = None"
    using listed [OF assms(1,3) projections(8)] by (auto simp: Validate_con)
  then show "\<exists>m. faults_Match (manager s) d = Inr m"
    using select_inbound_total [OF fault.no_empty_destination_views [OF fs(2)] ifaces] assms(2)
    by (auto simp: faults_Match_def dataplane_mesh_def)
qed

lemma logs_Match_ok:
  assumes "ok s" and "Meta d = Some md" and "meta_GetMesh md \<noteq> ''''"
    and mesh: "get_typed as_Mesh MeshType (manager s) [GetByKey (meta_GetMesh md) (meta_GetMesh md)] = Inr m"
  shows "\<exists>logs. logs_Match (manager s) d = Inr logs \<and> (\<forall>t. map_of logs t \<noteq> Some None)"
proof -
  obtain ls where ls: "list_in_mesh as_TrafficLog ''TrafficLog'' (manager s) (meta_GetMesh md) = Inr ls"
    "distinct (map res_name ls)"
    using listed [OF assms(1,3) projections(5)] by blast
  have valid: "Mesh_Validate (lib_url_Port lib) m = None"
    using got [OF assms(1) projections(1) mesh] by (simp add: Validate_con)
  let ?logs = "fold (log_step (logging_backendsByName m)) (SelectOutboundConnectionPolicies (Spec d) (map TrafficLog_policy ls)) []"
  have "logs_Match (manager s) d = Inr ?logs"
    using ls(1) mesh assms(2) by (simp add: logs_Match_def backendsByName_def dataplane_mesh_def)
  moreover have "map_of ?logs t \<noteq> Some None" for t
    using log_map_entry [OF valid ls(2), of d t None] by simp
  ultimately show ?thesis by blast
qed

lemma build_proxy_ok:
  assumes "ok s" and "Meta d = Some md" and "meta_GetMesh md \<noteq> ''''" and "Dataplane_Validate d = None"
    and "get_typed as_Mesh MeshType (manager s) [GetByKey (meta_GetMesh md) (meta_GetMesh md)] = Inr m"
  shows "\<exists>proxy. build_proxy now (manager s) metadata pid d m = Inr proxy \<and> proxy_ok proxy \<and>
    px_Id proxy = pid \<and> px_Dataplane proxy = d \<and> px_Metadata proxy = metadata"
proof -
  obtain routes where r: "GetRoutes now d (manager s) = Inr routes"
    "\<forall>oface \<in> set (dp_GetOutbound (Spec d)). map_of routes (out_Service oface) \<noteq> None"
    using GetRoutes_ok [OF assms(1-3)] by blast
  obtain out where o: "GetOutboundTargets d (BuildDestinationMap d routes) (manager s) = Inr out"
    "\<forall>t. \<forall>e \<in> set (glist out t). valid_port (ep_Port e) \<and> (ep_Target e = '''' \<or> parse_ip (ep_Target e) \<noteq> [])"
    using GetOutboundTargets_ok [OF assms(1-3)] by blast
  obtain hc where h: "GetHealthChecks d (BuildDestinationMap d routes) (manager s) = Inr hc"
    using GetHealthChecks_ok [OF assms(1-3)] by blast
  obtain tr where t: "GetTrafficTrace d (manager s) = Inr tr" using GetTrafficTrace_ok [OF assms(1-3)] by blast
  obtain pm fm where i: "permissions_Match (manager s) d = Inr pm" "faults_Match (manager s) d = Inr fm"
    using inbound_matchers_ok [OF assms(1-4)] by blast
  obtain lm where l: "logs_Match (manager s) d = Inr lm" "\<forall>t. map_of lm t \<noteq> Some None"
    using logs_Match_ok [OF assms(1-3,5)] by blast
  show ?thesis using r(2) o(2) l(2) by (simp add: build_proxy_def r(1) o(1) h t i l(1) Let_def proxy_ok_def)
qed

end

lemma mem_Get_found:
  assumes "mem_inv cd c" and "Spec r \<in> set zero_specs" and "GetType r = MeshType \<Longrightarrow> mesh = name"
    and "mem_abs c (GetType r, name, mesh) = Some rec"
  shows "mem_Get cd r [GetByKey name mesh] c = (None, decode cd rec)"
proof -
  obtain idx where f: "findRecord c (GetType r) name mesh = Some (idx, rec)"
    using findRecord_abs [of c "GetType r" name mesh] assms(4) by (cases "findRecord c (GetType r) name mesh") auto
  then have rec: "rec \<in> set c" "rec_ResourceType rec = GetType r" by (auto simp: findRecord_Some rec_key_def)
  then have "unmarshalRecord cd rec r = (None, decode cd rec)"
    using unmarshal_decode(1) [of cd rec r] assms(1,2) by (auto simp: mem_inv_def)
  moreover have "(if GetType r = MeshType then name else mesh) = mesh" using assms(3) by auto
  ultimately show ?thesis using f by (auto simp: mem_Get_def NewGetOptions_def GetByKey_def Let_def)
qed

lemma mem_Get_missing:
  assumes "GetType r = MeshType \<Longrightarrow> mesh = name" and "mem_abs c (GetType r, name, mesh) = None"
  shows "mem_Get cd r [GetByKey name mesh] c = (Some (ErrorResourceNotFound (GetType r) name mesh), r)"
proof -
  have "findRecord c (GetType r) name mesh = None" using findRecord_abs [of c "GetType r" name mesh] assms(2) by simp
  moreover have "(if GetType r = MeshType then name else mesh) = mesh" using assms(1) by auto
  ultimately show ?thesis by (auto simp: mem_Get_def NewGetOptions_def GetByKey_def Let_def)
qed

lemma zero_resource:
  assumes "projects dest con typ"
  shows "Spec \<lparr>Meta = None, Spec = zero_of typ\<rparr> \<in> set zero_specs" "GetType \<lparr>Meta = None, Spec = zero_of typ\<rparr> = typ"
  using assms by (auto simp: projects_def GetType_def)

text \<open>Typed reads of the memory store by key.\<close>

lemma get_typed_found:
  assumes "mem_inv cd c" and p: "projects dest con typ" and "typ = MeshType \<Longrightarrow> mesh = name"
    and "mem_abs c (typ, name, mesh) = Some rec"
  shows "\<exists>r. get_typed dest typ (read_only (customizableManager (Suc fuel) lib now (memory_store cd) cas registry) c)
      [GetByKey name mesh] = Inr r \<and> with_spec r (con (Spec r)) = decode cd rec"
proof -
  note z = zero_resource [OF p]
  have g: "mem_Get cd \<lparr>Meta = None, Spec = zero_of typ\<rparr> [GetByKey name mesh] c = (None, decode cd rec)"
    using assms by (intro mem_Get_found z(1)) (simp_all only: z(2))
  have "rec_ResourceType rec = typ" "rec \<in> set c"
    using mem_abs_key [OF assms(4)] by (auto simp: rec_key_def)
  then have "GetType (decode cd rec) = typ"
    using unmarshal_decode(2) [of cd rec "\<lparr>Meta = None, Spec = zero_of typ\<rparr>"] assms(1) z by (auto simp: mem_inv_def)
  then obtain x where x: "dest (Spec (decode cd rec)) = Some x" "Spec (decode cd rec) = con x"
    using p unfolding projects_def GetType_def by blast
  have "with_spec (decode cd rec) (con x) = decode cd rec" using x(2) with_own_spec [of "decode cd rec"] by simp
  then show ?thesis using g x(1) by (simp add: get_typed_def read_only_store memory_store_def)
qed

lemma get_typed_missing:
  assumes p: "projects dest con typ" and "typ = MeshType \<Longrightarrow> mesh = name" and "mem_abs c (typ, name, mesh) = None"
  shows "get_typed dest typ (read_only (customizableManager (Suc fuel) lib now (memory_store cd) cas registry) c)
      [GetByKey name mesh] = Inl (ErrorResourceNotFound typ name mesh)"
  using mem_Get_missing [of "\<lparr>Meta = None, Spec = zero_of typ\<rparr>" mesh name c cd] assms(2,3)
  by (simp add: get_typed_def read_only_store memory_store_def zero_resource [OF p])

lemma dataplane_not_mesh: "''Dataplane'' \<noteq> MeshType"
  by (simp add: MeshType_def)


text \<open>
  When the dataplane is not stored, a tick clears the configuration of the proxy; when only the mesh
  is missing, the tick fails and leaves the configuration alone.
\<close>

theorem tick_without_resources:
  assumes "mem_inv cd s"
  shows "(mem_abs s (''Dataplane'', key_Name key, key_Mesh key) = None \<longrightarrow>
      OnTick now (read_only (customizableManager (Suc fuel) lib now' (memory_store cd) cas registry) s)
        cp tracker reconciler key stream w = sr_Clear reconciler (FromResourceKey key) w) \<and>
    (mem_abs s (''Dataplane'', key_Name key, key_Mesh key) \<noteq> None \<and>
     mem_abs s (MeshType, key_Mesh key, key_Mesh key) = None \<longrightarrow>
      OnTick now (read_only (customizableManager (Suc fuel) lib now' (memory_store cd) cas registry) s)
        cp tracker reconciler key stream w =
      (Some (ErrorResourceNotFound MeshType (key_Mesh key) (key_Mesh key)), w))"
proof (intro conjI impI)
  assume "mem_abs s (''Dataplane'', key_Name key, key_Mesh key) = None"
  then show "OnTick now (read_only (customizableManager (Suc fuel) lib now' (memory_store cd) cas registry) s)
        cp tracker reconciler key stream w = sr_Clear reconciler (FromResourceKey key) w"
    using get_typed_missing [OF projections(2) _, of "key_Mesh key" "key_Name key" s fuel lib now' cd cas registry] dataplane_not_mesh
    by (simp add: OnTick_def Let_def GetBy_def)
next
  assume "mem_abs s (''Dataplane'', key_Name key, key_Mesh key) \<noteq> None \<and> mem_abs s (MeshType, key_Mesh key, key_Mesh key) = None"
  then show "OnTick now (read_only (customizableManager (Suc fuel) lib now' (memory_store cd) cas registry) s)
        cp tracker reconciler key stream w = (Some (ErrorResourceNotFound MeshType (key_Mesh key) (key_Mesh key)), w)"
    using get_typed_found [OF assms projections(2), of "key_Mesh key" "key_Name key" _ fuel lib now' cas registry] dataplane_not_mesh
      get_typed_missing [OF projections(1), of "key_Mesh key" "key_Mesh key" s fuel lib now' cd cas registry]
    by (auto simp: OnTick_def Let_def GetBy_def FromResourceKey_def)
qed

text \<open>An example: the default mesh with one dataplane, and a reconciler that records the proxies.\<close>

definition example_dataplane_record :: memoryStoreRecord where
  "example_dataplane_record = \<lparr>rec_ResourceType = ''Dataplane'', rec_Name = ''web-1'', rec_Mesh = ''default'',
     rec_Version = 1, rec_Spec = ''dataplane'', rec_CreationTime = 7, rec_ModificationTime = 7\<rparr>"

definition example_sync_store :: memoryStore where
  "example_sync_store = [example_mesh_record, example_dataplane_record]"

definition example_key :: ResourceKey where
  "example_key = \<lparr>key_Mesh = ''default'', key_Name = ''web-1''\<rparr>"

definition example_reconciler :: "(unit, Proxy list) SnapshotReconciler" where
  "example_reconciler =
     \<lparr>sr_Reconcile = (\<lambda>ctx proxy w. (None, w @ [proxy])), sr_Clear = (\<lambda>pid w. (None, []))\<rparr>"

definition example_reads :: "memoryStore \<Rightarrow> ReadOnlyResourceManager" where
  "example_reads s = read_only (customizableManager (Suc 1) example_library 7 (memory_store example_codec) [] example_registry) s"

lemma example_sync_managed: "managed example_library example_codec [] example_registry example_sync_store"
proof -
  obtain r1 where r1: "rm_Create example_manager \<lparr>Meta = None, Spec = zero_of MeshType\<rparr>
      [CreateByKey ''default'' ''default''] [] = (None, r1, [example_mesh_record])"
    using example_mesh_created by blast
  have "Validate example_library \<lparr>Meta = None, Spec = DataplaneSpec example_dataplane\<rparr> = None"
    using example_dataplane_valid by (simp add: Validate_def with_spec_def example_dataplane_resource_def)
  then obtain r2 where r2: "rm_Create example_manager \<lparr>Meta = None, Spec = DataplaneSpec example_dataplane\<rparr>
      [CreateByKey ''web-1'' ''default''] [example_mesh_record] = (None, r2, example_sync_store)"
    using example_created_in_mesh [of "DataplaneSpec example_dataplane" "''dataplane''" "''web-1''"]
    by (auto simp: example_codec_def example_sync_store_def example_dataplane_record_def MeshType_def)
  note m = example_manager_def numeral_2_eq_2
  show ?thesis
    by (rule managed_create [OF managed_create [OF managed_empty r1 [unfolded m]] r2 [unfolded m]])
qed

lemma example_sync_abs:
  "mem_abs example_sync_store (''Dataplane'', key_Name example_key, key_Mesh example_key) = Some example_dataplane_record"
  "mem_abs example_sync_store (MeshType, key_Mesh example_key, key_Mesh example_key) = Some example_mesh_record"
  by (simp_all add: mem_abs_def example_sync_store_def example_key_def example_mesh_record_def
      example_dataplane_record_def rec_key_def MeshType_def)


theorem tick_without_resources_witness:
  "\<forall>p. OnTick 8 (example_reads []) () [] example_reconciler example_key 1 [p] = (None, [])"
  using tick_without_resources [of example_codec "[]" example_key 8 1 example_library 7 "[]" example_registry "()" "[]"
      example_reconciler 1 "[p]" for p] empty_store_ok(1)
  by (simp add: mem_abs_def example_reads_def example_reconciler_def)

end
