(* ===== verification/Snapshot_Cache.thy ===== *)
theory Snapshot_Cache
  imports Resource_Store Xds_Types
begin

text \<open>
  The snapshot cache of \<open>pkg/util/xds/cache.go\<close> and the versions of snapshots
  (\<open>pkg/util/xds/versioner.go\<close>), for any implementation of the interface \<open>Snapshot\<close>, with the one of
  \<open>pkg/mads/cache/snapshot.go\<close> as the instance.  The response channel of a watch is an address in
  a list of buffers; a send on a full buffer would block the cache for ever and is an error of the
  model, which the invariant excludes.
\<close>

section \<open>Messages\<close>

record DiscoveryRequest =
  rq_VersionInfo :: string
  rq_Node :: "Node option"
  rq_ResourceNames :: "string list"
  rq_TypeUrl :: string
  rq_ResponseNonce :: string
  rq_ErrorDetail :: "string option"

record 'r Response =
  rsp_Request :: DiscoveryRequest
  rsp_Version :: string
  rsp_Resources :: "'r list"

section \<open>The interface of snapshots\<close>

record ('snap, 'r) SnapshotOps =
  sn_GetSupportedTypes :: "'snap \<Rightarrow> string list"
  sn_GetResources :: "'snap \<Rightarrow> string \<Rightarrow> (string, 'r) gomap"
  sn_GetVersion :: "'snap \<Rightarrow> string \<Rightarrow> string"
  sn_WithVersion :: "'snap \<Rightarrow> string \<Rightarrow> string \<Rightarrow> 'snap"

record 'r CacheResources =
  cr_Version :: string
  cr_Items :: "(string, 'r) gomap"

text \<open>The snapshot of monitoring assignments.\<close>

definition MonitoringAssignmentType :: string where
  "MonitoringAssignmentType = ''type.googleapis.com/kuma.observability.v1alpha1.MonitoringAssignment''"

type_synonym 'r mads_Snapshot = "'r CacheResources"

definition mads_NewSnapshot :: "string \<Rightarrow> (string, 'r) gomap \<Rightarrow> 'r mads_Snapshot" where
  "mads_NewSnapshot version assignments = \<lparr>cr_Version = version, cr_Items = assignments\<rparr>"

definition mads_GetResources :: "'r mads_Snapshot \<Rightarrow> string \<Rightarrow> (string, 'r) gomap" where
  "mads_GetResources s typ = (if typ = MonitoringAssignmentType then cr_Items s else [])"

definition mads_GetVersion :: "'r mads_Snapshot \<Rightarrow> string \<Rightarrow> string" where
  "mads_GetVersion s typ = (if typ = MonitoringAssignmentType then cr_Version s else '''')"

definition mads_WithVersion :: "'r mads_Snapshot \<Rightarrow> string \<Rightarrow> string \<Rightarrow> 'r mads_Snapshot" where
  "mads_WithVersion s typ version =
     (if mads_GetVersion s typ = version then s
      else if typ = MonitoringAssignmentType then \<lparr>cr_Version = version, cr_Items = cr_Items s\<rparr>
      else s)"

definition mads_ops :: "('r mads_Snapshot, 'r) SnapshotOps" where
  "mads_ops =
     \<lparr>sn_GetSupportedTypes = (\<lambda>s. [MonitoringAssignmentType]), sn_GetResources = mads_GetResources,
      sn_GetVersion = mads_GetVersion, sn_WithVersion = mads_WithVersion\<rparr>"

section \<open>State of the cache\<close>

record ResponseWatch =
  w_Request :: DiscoveryRequest
  w_Response :: nat

record statusInfo =
  si_node :: "Node option"
  si_watches :: "(int, ResponseWatch) gomap"
  si_lastWatchRequestTime :: gotime

record ('snap, 'r) snapshotCache =
  sc_ads :: bool
  sc_snapshots :: "(string, 'snap) gomap"
  sc_status :: "(string, statusInfo) gomap"
  sc_watchCount :: int
  sc_channels :: "'r Response list list"

definition NewSnapshotCache :: "bool \<Rightarrow> ('snap, 'r) snapshotCache" where
  "NewSnapshotCache ads = \<lparr>sc_ads = ads, sc_snapshots = [], sc_status = [], sc_watchCount = 0, sc_channels = []\<rparr>"

definition newStatusInfo :: "Node option \<Rightarrow> statusInfo" where
  "newStatusInfo node = \<lparr>si_node = node, si_watches = [], si_lastWatchRequestTime = 0\<rparr>"

section \<open>Operations\<close>

definition nameSet :: "string list \<Rightarrow> (string, bool) gomap" where
  "nameSet names = fold (\<lambda>name m. gput name True m) names []"

text \<open>\<open>superset\<close>: whether all resources are listed; its error text only goes to the log.\<close>

definition superset :: "(string, bool) gomap \<Rightarrow> (string, 'r) gomap \<Rightarrow> bool" where
  "superset names resources \<longleftrightarrow> list_all (\<lambda>(resourceName, _). map_of names resourceName \<noteq> None) resources"

definition cache_createResponse :: "DiscoveryRequest \<Rightarrow> (string, 'r) gomap \<Rightarrow> string \<Rightarrow> 'r Response" where
  "cache_createResponse request resources version =
     (let filtered =
        (if length (rq_ResourceNames request) \<noteq> 0
         then (let names = nameSet (rq_ResourceNames request) in
               map snd (filter (\<lambda>(name, _). map_of names name = Some True) resources))
         else map snd resources)
      in \<lparr>rsp_Request = request, rsp_Version = version, rsp_Resources = filtered\<rparr>)"

text \<open>A send on a channel of capacity 1.\<close>

definition chan_send :: "nat \<Rightarrow> 'r Response \<Rightarrow> 'r Response list list \<Rightarrow> go_error + 'r Response list list" where
  "chan_send ch x chans =
     (if chans ! ch \<noteq> [] then Inl (ErrPanic ''send blocks'') else Inr (chans[ch := chans ! ch @ [x]]))"

definition cache_respond ::
  "bool \<Rightarrow> DiscoveryRequest \<Rightarrow> nat \<Rightarrow> (string, 'r) gomap \<Rightarrow> string \<Rightarrow> 'r Response list list \<Rightarrow>
   go_error + 'r Response list list" where
  "cache_respond ads request ch resources version chans =
     (if length (rq_ResourceNames request) \<noteq> 0 \<and> ads \<and> \<not> superset (nameSet (rq_ResourceNames request)) resources
      then Inr chans
      else chan_send ch (cache_createResponse request resources version) chans)"

text \<open>The loop over the open watches of one node; it returns the watches that stay and the channels.\<close>

fun respond_watches ::
  "('snap, 'r) SnapshotOps \<Rightarrow> bool \<Rightarrow> 'snap \<Rightarrow> (int, ResponseWatch) gomap \<Rightarrow> 'r Response list list \<Rightarrow>
   go_error + (int, ResponseWatch) gomap \<times> 'r Response list list" where
  "respond_watches ops ads snapshot [] chans = Inr ([], chans)"
| "respond_watches ops ads snapshot ((wid, watch) # rest) chans =
     (let typ = rq_TypeUrl (w_Request watch);
          version = sn_GetVersion ops snapshot typ
      in if version \<noteq> rq_VersionInfo (w_Request watch)
         then bindE (cache_respond ads (w_Request watch) (w_Response watch) (sn_GetResources ops snapshot typ) version chans)
                (respond_watches ops ads snapshot rest)
         else bindE (respond_watches ops ads snapshot rest chans) (\<lambda>(kept, chans). Inr ((wid, watch) # kept, chans)))"

definition SetSnapshot ::
  "('snap, 'r) SnapshotOps \<Rightarrow> string \<Rightarrow> 'snap \<Rightarrow> ('snap, 'r) snapshotCache \<Rightarrow> go_error + ('snap, 'r) snapshotCache" where
  "SetSnapshot ops node snapshot cache =
     (let cache = cache\<lparr>sc_snapshots := gput node snapshot (sc_snapshots cache)\<rparr> in
      case map_of (sc_status cache) node of
        None \<Rightarrow> Inr cache
      | Some info \<Rightarrow>
          bindE (respond_watches ops (sc_ads cache) snapshot (si_watches info) (sc_channels cache)) (\<lambda>(kept, chans).
          Inr (cache\<lparr>sc_status := gput node (info\<lparr>si_watches := kept\<rparr>) (sc_status cache), sc_channels := chans\<rparr>)))"

definition GetSnapshot :: "string \<Rightarrow> ('snap, 'r) snapshotCache \<Rightarrow> go_error + 'snap" where
  "GetSnapshot node cache =
     (case map_of (sc_snapshots cache) node of
        None \<Rightarrow> Inl (ErrString (''no snapshot found for node '' @ node))
      | Some snap \<Rightarrow> Inr snap)"

definition ClearSnapshot :: "string \<Rightarrow> ('snap, 'r) snapshotCache \<Rightarrow> ('snap, 'r) snapshotCache" where
  "ClearSnapshot node cache =
     cache\<lparr>sc_snapshots := gdel node (sc_snapshots cache), sc_status := gdel node (sc_status cache)\<rparr>"

text \<open>
  \<open>CreateWatch\<close> returns the channel and the cancel function, given by the node and the watch it
  removes; there is none when the watch is answered at once.
\<close>

definition CreateWatch ::
  "('snap, 'r) SnapshotOps \<Rightarrow> (Node option \<Rightarrow> string) \<Rightarrow> gotime \<Rightarrow> DiscoveryRequest \<Rightarrow> ('snap, 'r) snapshotCache \<Rightarrow>
   go_error + (nat \<times> (string \<times> int) option) \<times> ('snap, 'r) snapshotCache" where
  "CreateWatch ops hash now request cache =
     (let nodeID = hash (rq_Node request);
          info = (case map_of (sc_status cache) nodeID of None \<Rightarrow> newStatusInfo (rq_Node request) | Some info \<Rightarrow> info);
          info = info\<lparr>si_lastWatchRequestTime := now\<rparr>;
          value = length (sc_channels cache);
          cache = cache\<lparr>sc_status := gput nodeID info (sc_status cache), sc_channels := sc_channels cache @ [[]]\<rparr>;
          open_watch =
            (let watchID = add_int (sc_watchCount cache) 1;
                 info = info\<lparr>si_watches := gput watchID \<lparr>w_Request = request, w_Response = value\<rparr> (si_watches info)\<rparr>
             in Inr ((value, Some (nodeID, watchID)),
                  cache\<lparr>sc_watchCount := watchID, sc_status := gput nodeID info (sc_status cache)\<rparr>))
      in case map_of (sc_snapshots cache) nodeID of
           None \<Rightarrow> open_watch
         | Some snapshot \<Rightarrow>
             (let version = sn_GetVersion ops snapshot (rq_TypeUrl request) in
              if rq_VersionInfo request = version then open_watch
              else bindE (cache_respond (sc_ads cache) request value
                       (sn_GetResources ops snapshot (rq_TypeUrl request)) version (sc_channels cache)) (\<lambda>chans.
                   Inr ((value, None), cache\<lparr>sc_channels := chans\<rparr>))))"

definition cancelWatch :: "string \<Rightarrow> int \<Rightarrow> ('snap, 'r) snapshotCache \<Rightarrow> ('snap, 'r) snapshotCache" where
  "cancelWatch nodeID watchID cache =
     (case map_of (sc_status cache) nodeID of
        None \<Rightarrow> cache
      | Some info \<Rightarrow>
          cache\<lparr>sc_status := gput nodeID (info\<lparr>si_watches := gdel watchID (si_watches info)\<rparr>) (sc_status cache)\<rparr>)"

definition Fetch ::
  "('snap, 'r) SnapshotOps \<Rightarrow> (Node option \<Rightarrow> string) \<Rightarrow> DiscoveryRequest \<Rightarrow> ('snap, 'r) snapshotCache \<Rightarrow>
   go_error + 'r Response" where
  "Fetch ops hash request cache =
     (let nodeID = hash (rq_Node request) in
      case map_of (sc_snapshots cache) nodeID of
        Some snapshot \<Rightarrow>
          (let version = sn_GetVersion ops snapshot (rq_TypeUrl request) in
           if rq_VersionInfo request = version then Inl (ErrString ''skip fetch: version up to date'')
           else Inr (cache_createResponse request (sn_GetResources ops snapshot (rq_TypeUrl request)) version))
      | None \<Rightarrow> Inl (ErrString (''missing snapshot for '' @ quote nodeID)))"

definition GetStatusInfo :: "string \<Rightarrow> ('snap, 'r) snapshotCache \<Rightarrow> statusInfo option" where
  "GetStatusInfo node cache = map_of (sc_status cache) node"

definition GetStatusKeys :: "('snap, 'r) snapshotCache \<Rightarrow> string list" where
  "GetStatusKeys cache = map fst (sc_status cache)"

definition GetNumWatches :: "statusInfo \<Rightarrow> nat" where
  "GetNumWatches info = length (si_watches info)"

text \<open>The receive \<open>resp, more := <-value\<close> of a stream takes the response out of the channel.\<close>

definition chan_receive :: "nat \<Rightarrow> ('snap, 'r) snapshotCache \<Rightarrow> 'r Response option \<times> ('snap, 'r) snapshotCache" where
  "chan_receive ch cache =
     (case sc_channels cache ! ch of
        [] \<Rightarrow> (None, cache)
      | x # rest \<Rightarrow> (Some x, cache\<lparr>sc_channels := (sc_channels cache)[ch := rest]\<rparr>))"

section \<open>Versions\<close>

definition resources_equal :: "('r \<Rightarrow> 'r \<Rightarrow> bool) \<Rightarrow> (string, 'r) gomap \<Rightarrow> (string, 'r) gomap \<Rightarrow> bool" where
  "resources_equal proto_Equal new old \<longleftrightarrow>
     length new = length old \<and>
     list_all (\<lambda>(key, newValue).
       case map_of old key of None \<Rightarrow> False | Some oldValue \<Rightarrow> proto_Equal newValue oldValue) new"

text \<open>The loop of \<open>Version\<close>; \<open>uuids\<close> are the values the calls of \<open>UUID\<close> return, in order.\<close>

fun version_loop ::
  "('snap, 'r) SnapshotOps \<Rightarrow> ('r \<Rightarrow> 'r \<Rightarrow> bool) \<Rightarrow> (nat \<Rightarrow> string) \<Rightarrow> 'snap option \<Rightarrow> string list \<Rightarrow> nat \<Rightarrow> 'snap \<Rightarrow> 'snap" where
  "version_loop ops eq uuids old [] n new = new"
| "version_loop ops eq uuids old (typ # types) n new =
     (let version = sn_GetVersion ops new typ in
      if version \<noteq> '''' then version_loop ops eq uuids old types n new
      else (let version = (case old of
                  Some o' \<Rightarrow> if resources_equal eq (sn_GetResources ops new typ) (sn_GetResources ops o' typ)
                             then sn_GetVersion ops o' typ else version
                | None \<Rightarrow> version)
            in if version = '''' then version_loop ops eq uuids old types (Suc n) (sn_WithVersion ops new typ (uuids n))
               else version_loop ops eq uuids old types n (sn_WithVersion ops new typ version)))"

definition auto_Version ::
  "('snap, 'r) SnapshotOps \<Rightarrow> ('r \<Rightarrow> 'r \<Rightarrow> bool) \<Rightarrow> (nat \<Rightarrow> string) \<Rightarrow> 'snap option \<Rightarrow> 'snap option \<Rightarrow> 'snap option" where
  "auto_Version ops eq uuids new old =
     (case new of None \<Rightarrow> None | Some s \<Rightarrow> Some (version_loop ops eq uuids old (sn_GetSupportedTypes ops s) 0 s))"

section \<open>Answering the watches of a node\<close>

definition stale :: "('snap, 'r) SnapshotOps \<Rightarrow> 'snap \<Rightarrow> ResponseWatch \<Rightarrow> bool" where
  "stale ops snapshot w \<longleftrightarrow> sn_GetVersion ops snapshot (rq_TypeUrl (w_Request w)) \<noteq> rq_VersionInfo (w_Request w)"

text \<open>In ADS mode a request that names resources is answered only when it names all of them.\<close>

definition answerable :: "('snap, 'r) SnapshotOps \<Rightarrow> bool \<Rightarrow> 'snap \<Rightarrow> DiscoveryRequest \<Rightarrow> bool" where
  "answerable ops ads snapshot rq \<longleftrightarrow>
     rq_ResourceNames rq = [] \<or> \<not> ads \<or> fst ` set (sn_GetResources ops snapshot (rq_TypeUrl rq)) \<subseteq> set (rq_ResourceNames rq)"

definition answer :: "('snap, 'r) SnapshotOps \<Rightarrow> bool \<Rightarrow> 'snap \<Rightarrow> DiscoveryRequest \<Rightarrow> 'r Response list" where
  "answer ops ads snapshot rq =
     (if answerable ops ads snapshot rq
      then [\<lparr>rsp_Request = rq, rsp_Version = sn_GetVersion ops snapshot (rq_TypeUrl rq),
             rsp_Resources = map snd (filter (\<lambda>(name, _). rq_ResourceNames rq = [] \<or> name \<in> set (rq_ResourceNames rq))
               (sn_GetResources ops snapshot (rq_TypeUrl rq)))\<rparr>]
      else [])"

lemma map_of_nameSet: "map_of (nameSet names) n = (if n \<in> set names then Some True else None)"
proof -
  have "map_of (fold (\<lambda>name m. gput name True m) names m) n = (if n \<in> set names then Some True else map_of m n)" for m
    by (induction names arbitrary: m) (auto simp: go_maps)
  then show ?thesis by (simp add: nameSet_def)
qed

lemma cache_respond_answer:
  assumes "chans ! ch = []"
  shows "cache_respond ads rq ch (sn_GetResources ops snapshot (rq_TypeUrl rq))
      (sn_GetVersion ops snapshot (rq_TypeUrl rq)) chans = Inr (chans[ch := answer ops ads snapshot rq])"
proof -
  have sup: "superset (nameSet (rq_ResourceNames rq)) (sn_GetResources ops snapshot (rq_TypeUrl rq)) \<longleftrightarrow>
      fst ` set (sn_GetResources ops snapshot (rq_TypeUrl rq)) \<subseteq> set (rq_ResourceNames rq)"
  proof -
    have "map_of (nameSet names) n \<noteq> None \<longleftrightarrow> n \<in> set names" for names n by (auto simp: map_of_nameSet)
    then show ?thesis by (force simp: superset_def list_all_iff)
  qed
  have "cache_createResponse rq (sn_GetResources ops snapshot (rq_TypeUrl rq)) (sn_GetVersion ops snapshot (rq_TypeUrl rq)) =
      \<lparr>rsp_Request = rq, rsp_Version = sn_GetVersion ops snapshot (rq_TypeUrl rq),
       rsp_Resources = map snd (filter (\<lambda>(name, _). rq_ResourceNames rq = [] \<or> name \<in> set (rq_ResourceNames rq))
         (sn_GetResources ops snapshot (rq_TypeUrl rq)))\<rparr>"
    by (cases "rq_ResourceNames rq") (auto simp: cache_createResponse_def map_of_nameSet intro!: arg_cong [of _ _ "map snd"] filter_cong split: if_splits)
  moreover have "chans[ch := []] = chans" using assms by (metis list_update_id)
  ultimately show ?thesis
    using assms by (auto simp: cache_respond_def chan_send_def answer_def answerable_def sup)
qed

lemma respond_watches_spec:
  assumes "distinct (map (\<lambda>(_, w). w_Response w) ws)"
    and "\<forall>(wid, w) \<in> set ws. w_Response w < length chans \<and> chans ! w_Response w = []"
  shows "\<exists>chans'. respond_watches ops ads snapshot ws chans = Inr (filter (\<lambda>(_, w). \<not> stale ops snapshot w) ws, chans') \<and>
    length chans' = length chans \<and>
    (\<forall>(wid, w) \<in> set ws. stale ops snapshot w \<longrightarrow> chans' ! w_Response w = answer ops ads snapshot (w_Request w)) \<and>
    (\<forall>ch. (\<forall>(wid, w) \<in> set ws. stale ops snapshot w \<longrightarrow> w_Response w \<noteq> ch) \<longrightarrow> chans' ! ch = chans ! ch)"
  using assms
proof (induction ws arbitrary: chans)
  case (Cons x ws)
  obtain wid w where x: "x = (wid, w)" by fastforce
  have w: "w_Response w < length chans" "chans ! w_Response w = []"
    and new: "\<forall>(wid', w') \<in> set ws. w_Response w' \<noteq> w_Response w"
    using Cons.prems x by force+
  let ?chans = "if stale ops snapshot w then chans[w_Response w := answer ops ads snapshot (w_Request w)] else chans"
  have "distinct (map (\<lambda>(_, w). w_Response w) ws)" using Cons.prems by simp
  moreover have "\<forall>(wid, w) \<in> set ws. w_Response w < length ?chans \<and> ?chans ! w_Response w = []"
    using Cons.prems new by fastforce
  ultimately obtain chans' where IH:
    "respond_watches ops ads snapshot ws ?chans = Inr (filter (\<lambda>(_, w). \<not> stale ops snapshot w) ws, chans')"
    "length chans' = length ?chans"
    "\<forall>(wid, w) \<in> set ws. stale ops snapshot w \<longrightarrow> chans' ! w_Response w = answer ops ads snapshot (w_Request w)"
    "\<forall>ch. (\<forall>(wid, w) \<in> set ws. stale ops snapshot w \<longrightarrow> w_Response w \<noteq> ch) \<longrightarrow> chans' ! ch = ?chans ! ch"
    using Cons.IH [of ?chans] by blast
  have "respond_watches ops ads snapshot (x # ws) chans =
      Inr (filter (\<lambda>(_, w). \<not> stale ops snapshot w) (x # ws), chans')"
    using IH(1) cache_respond_answer [OF w(2), of ads "w_Request w" ops snapshot] by (auto simp: x stale_def Let_def)
  moreover have "chans' ! w_Response w = ?chans ! w_Response w"
    using IH(4) new by fastforce
  ultimately show ?case
    using IH(2-4) w(1) by (auto simp: x split: if_splits)
qed simp

section \<open>No open watch waits for a version that is already there\<close>

definition watch_at :: "('snap, 'r) snapshotCache \<Rightarrow> string \<Rightarrow> int \<Rightarrow> ResponseWatch option" where
  "watch_at c node wid = Option.bind (map_of (sc_status c) node) (\<lambda>info. map_of (si_watches info) wid)"

definition watch_ok :: "('snap, 'r) SnapshotOps \<Rightarrow> ('snap, 'r) snapshotCache \<Rightarrow> string \<Rightarrow> ResponseWatch \<Rightarrow> bool" where
  "watch_ok ops c node w \<longleftrightarrow>
     w_Response w < length (sc_channels c) \<and> sc_channels c ! w_Response w = [] \<and>
     (\<forall>s. map_of (sc_snapshots c) node = Some s \<longrightarrow> \<not> stale ops s w)"

definition cache_inv :: "('snap, 'r) SnapshotOps \<Rightarrow> ('snap, 'r) snapshotCache \<Rightarrow> bool" where
  "cache_inv ops c \<longleftrightarrow>
     (\<forall>node info. map_of (sc_status c) node = Some info \<longrightarrow> wf_map (si_watches info)) \<and>
     (\<forall>node wid w. watch_at c node wid = Some w \<longrightarrow> watch_ok ops c node w) \<and>
     (\<forall>n1 i1 w1 n2 i2 w2. watch_at c n1 i1 = Some w1 \<longrightarrow> watch_at c n2 i2 = Some w2 \<longrightarrow>
        w_Response w1 = w_Response w2 \<longrightarrow> n1 = n2 \<and> i1 = i2)"

lemma cache_invD:
  assumes "cache_inv ops c"
  shows "map_of (sc_status c) node = Some info \<Longrightarrow> wf_map (si_watches info)"
    and "watch_at c node wid = Some w \<Longrightarrow> watch_ok ops c node w"
    and "watch_at c n1 i1 = Some w1 \<Longrightarrow> watch_at c n2 i2 = Some w2 \<Longrightarrow> w_Response w1 = w_Response w2 \<Longrightarrow> n1 = n2 \<and> i1 = i2"
  using assms unfolding cache_inv_def by blast+

lemma watch_at_member:
  "map_of (sc_status c) node = Some info \<Longrightarrow> wf_map (si_watches info) \<Longrightarrow>
   (wid, w) \<in> set (si_watches info) \<longleftrightarrow> watch_at c node wid = Some w"
  by (simp add: watch_at_def wf_map_def map_of_eq_Some_iff)

lemma cache_inv_new: "cache_inv ops (NewSnapshotCache ads)"
  by (simp add: cache_inv_def NewSnapshotCache_def watch_at_def)

text \<open>Removing watches keeps the invariant.\<close>

lemma cache_inv_fewer:
  assumes "cache_inv ops c" and "\<And>node wid w. watch_at c' node wid = Some w \<Longrightarrow> watch_at c node wid = Some w"
    and "\<And>node info. map_of (sc_status c') node = Some info \<Longrightarrow> wf_map (si_watches info)"
    and "\<And>node wid w. watch_at c' node wid = Some w \<Longrightarrow> watch_ok ops c' node w"
  shows "cache_inv ops c'"
  using assms(2-4) cache_invD(3) [OF assms(1)] unfolding cache_inv_def by blast

lemma watch_at_gput:
  "sc_status c' = gput node info (sc_status c) \<Longrightarrow>
   watch_at c' n wid = (if n = node then map_of (si_watches info) wid else watch_at c n wid)"
  by (simp add: watch_at_def map_of_gput)

lemma cancelWatch_inv:
  assumes "cache_inv ops c"
  shows "cache_inv ops (cancelWatch node wid c)"
proof (cases "map_of (sc_status c) node")
  case (Some info)
  let ?c = "cancelWatch node wid c"
  have st: "sc_status ?c = gput node (info\<lparr>si_watches := gdel wid (si_watches info)\<rparr>) (sc_status c)"
    and same: "sc_channels ?c = sc_channels c" "sc_snapshots ?c = sc_snapshots c"
    using Some by (simp_all add: cancelWatch_def)
  have fewer: "watch_at c n i = Some w" if "watch_at ?c n i = Some w" for n i w
    using that Some unfolding watch_at_gput [OF st] by (auto simp: watch_at_def map_of_gdel split: if_splits)
  show ?thesis
  proof (rule cache_inv_fewer [OF assms fewer])
    show "wf_map (si_watches info')" if "map_of (sc_status ?c) n = Some info'" for n info'
      using that cache_invD(1) [OF assms] Some unfolding st map_of_gput by (auto split: if_splits)
    show "watch_ok ops ?c n w" if "watch_at ?c n i = Some w" for n i w
      using cache_invD(2) [OF assms fewer [OF that]] by (simp add: watch_ok_def same)
  qed
qed (simp add: cancelWatch_def assms)

lemma ClearSnapshot_inv:
  assumes "cache_inv ops c"
  shows "cache_inv ops (ClearSnapshot node c)"
proof -
  let ?c = "ClearSnapshot node c"
  have fewer: "watch_at c n i = Some w \<and> n \<noteq> node" if "watch_at ?c n i = Some w" for n i w
    using that by (auto simp: watch_at_def ClearSnapshot_def map_of_gdel split: if_splits)
  show ?thesis
  proof (rule cache_inv_fewer [OF assms])
    show "wf_map (si_watches info')" if "map_of (sc_status ?c) n = Some info'" for n info'
      using that cache_invD(1) [OF assms] by (auto simp: ClearSnapshot_def map_of_gdel split: if_splits)
    show "watch_ok ops ?c n w" if "watch_at ?c n i = Some w" for n i w
      using cache_invD(2) [OF assms] fewer [OF that] by (auto simp: watch_ok_def ClearSnapshot_def map_of_gdel)
  qed (use fewer in blast)
qed

lemma chan_receive_inv:
  assumes "cache_inv ops c"
  shows "cache_inv ops (snd (chan_receive ch c))"
proof (cases "sc_channels c ! ch")
  case (Cons x rest)
  let ?c = "snd (chan_receive ch c)"
  have c: "?c = c\<lparr>sc_channels := (sc_channels c)[ch := rest]\<rparr>" using Cons by (simp add: chan_receive_def)
  have same: "watch_at ?c n i = watch_at c n i" for n i by (simp add: c watch_at_def)
  show ?thesis
  proof (rule cache_inv_fewer [OF assms])
    show "wf_map (si_watches info')" if "map_of (sc_status ?c) n = Some info'" for n info'
      using that cache_invD(1) [OF assms] by (simp add: c)
    show "watch_ok ops ?c n w" if "watch_at ?c n i = Some w" for n i w
      using cache_invD(2) [OF assms that [unfolded same]] Cons
      by (cases "ch = w_Response w") (auto simp: watch_ok_def c)
  qed (simp add: same)
qed (simp add: chan_receive_def assms)

lemma node_channels_distinct:
  assumes "cache_inv ops c" and "map_of (sc_status c) node = Some info"
  shows "distinct (map (\<lambda>(_, w). w_Response w) (si_watches info))"
    and "\<forall>(wid, w) \<in> set (si_watches info). w_Response w < length (sc_channels c) \<and> sc_channels c ! w_Response w = []"
proof -
  have wf: "wf_map (si_watches info)" using cache_invD(1) [OF assms] .
  have at: "(wid, w) \<in> set (si_watches info) \<longleftrightarrow> watch_at c node wid = Some w" for wid w
    by (rule watch_at_member [OF assms(2) wf])
  have "inj_on (\<lambda>(_, w). w_Response w) (set (si_watches info))"
  proof (rule inj_onI)
    fix x y :: "int \<times> ResponseWatch"
    assume mem: "x \<in> set (si_watches info)" "y \<in> set (si_watches info)"
      and same: "(\<lambda>(_, w). w_Response w) x = (\<lambda>(_, w). w_Response w) y"
    obtain i1 w1 i2 w2 where xy: "x = (i1, w1)" "y = (i2, w2)" by fastforce
    then have "i1 = i2" using cache_invD(3) [OF assms(1), of node i1 w1 node i2 w2] mem same at by auto
    then show "x = y" using xy mem at by auto
  qed
  moreover have "distinct (si_watches info)" using wf by (simp add: wf_map_def distinct_map)
  ultimately show "distinct (map (\<lambda>(_, w). w_Response w) (si_watches info))" by (simp add: distinct_map)
  show "\<forall>(wid, w) \<in> set (si_watches info). w_Response w < length (sc_channels c) \<and> sc_channels c ! w_Response w = []"
    using cache_invD(2) [OF assms(1)] at by (auto simp: watch_ok_def)
qed

text \<open>What \<open>SetSnapshot\<close> does in a state that satisfies the invariant.\<close>

lemma SetSnapshot_spec:
  assumes inv: "cache_inv ops c"
  shows "\<exists>c'. SetSnapshot ops node s c = Inr c' \<and> cache_inv ops c' \<and>
    map_of (sc_snapshots c') = (map_of (sc_snapshots c))(node \<mapsto> s) \<and>
    (\<forall>n wid w. watch_at c' n wid = Some w \<longleftrightarrow> watch_at c n wid = Some w \<and> (n = node \<longrightarrow> \<not> stale ops s w)) \<and>
    (\<forall>wid w. watch_at c node wid = Some w \<and> stale ops s w \<longrightarrow>
       sc_channels c' ! w_Response w = answer ops (sc_ads c) s (w_Request w))"
proof (cases "map_of (sc_status c) node")
  case None
  let ?c = "c\<lparr>sc_snapshots := gput node s (sc_snapshots c)\<rparr>"
  have none: "watch_at c node wid = None" for wid using None by (simp add: watch_at_def)
  have same: "watch_at ?c n i = watch_at c n i" for n i by (simp add: watch_at_def)
  have "cache_inv ops ?c"
  proof (rule cache_inv_fewer [OF inv])
    show "wf_map (si_watches info')" if "map_of (sc_status ?c) n = Some info'" for n info'
      using that cache_invD(1) [OF inv] by simp
    show "watch_ok ops ?c n w" if "watch_at ?c n i = Some w" for n i w
      using that cache_invD(2) [OF inv, of n i w] none by (auto simp: same watch_ok_def map_of_gput)
  qed (simp add: same)
  moreover have "SetSnapshot ops node s c = Inr ?c" using None by (simp add: SetSnapshot_def)
  moreover have "map_of (sc_snapshots ?c) = (map_of (sc_snapshots c))(node \<mapsto> s)" by (simp add: update_conv')
  ultimately show ?thesis using none by (intro exI [of _ ?c]) (auto simp: same)
next
  case (Some info)
  obtain chans where r: "respond_watches ops (sc_ads c) s (si_watches info) (sc_channels c) =
      Inr (filter (\<lambda>(_, w). \<not> stale ops s w) (si_watches info), chans)" "length chans = length (sc_channels c)"
    "\<forall>(wid, w) \<in> set (si_watches info). stale ops s w \<longrightarrow> chans ! w_Response w = answer ops (sc_ads c) s (w_Request w)"
    "\<forall>ch. (\<forall>(wid, w) \<in> set (si_watches info). stale ops s w \<longrightarrow> w_Response w \<noteq> ch) \<longrightarrow> chans ! ch = sc_channels c ! ch"
    using respond_watches_spec [OF node_channels_distinct [OF inv Some], where ops = ops and ads = "sc_ads c" and snapshot = s]
    by (elim exE conjE) (rule that)
  let ?kept = "filter (\<lambda>(_, w). \<not> stale ops s w) (si_watches info)"
  let ?c = "c\<lparr>sc_snapshots := gput node s (sc_snapshots c), sc_status := gput node (info\<lparr>si_watches := ?kept\<rparr>) (sc_status c),
    sc_channels := chans\<rparr>"
  have set: "SetSnapshot ops node s c = Inr ?c" using Some r(1) by (simp add: SetSnapshot_def)
  have wf: "wf_map (si_watches info)" using cache_invD(1) [OF inv Some] .
  have wfk: "wf_map ?kept" using wf by (simp add: wf_map_def distinct_map_filter)
  have at: "(wid, w) \<in> set (si_watches info) \<longleftrightarrow> watch_at c node wid = Some w" for wid w
    by (rule watch_at_member [OF Some wf])
  have kept: "map_of ?kept wid = Some w \<longleftrightarrow> watch_at c node wid = Some w \<and> \<not> stale ops s w" for wid w
    using wfk at by (auto simp: wf_map_def map_of_eq_Some_iff)
  have watches: "watch_at ?c n wid = Some w \<longleftrightarrow> watch_at c n wid = Some w \<and> (n = node \<longrightarrow> \<not> stale ops s w)" for n wid w
    using kept by (subst watch_at_gput [where c = c]) auto
  have "cache_inv ops ?c"
  proof (rule cache_inv_fewer [OF inv])
    show "wf_map (si_watches info')" if "map_of (sc_status ?c) n = Some info'" for n info'
      using that cache_invD(1) [OF inv] wfk by (auto simp: go_maps split: if_splits)
    show "watch_ok ops ?c n w" if "watch_at ?c n i = Some w" for n i w
    proof -
      have w: "watch_at c n i = Some w" "n = node \<longrightarrow> \<not> stale ops s w" using that watches by auto
      have "w_Response w' \<noteq> w_Response w" if "(wid', w') \<in> set (si_watches info)" "stale ops s w'" for wid' w'
        using cache_invD(3) [OF inv w(1), of node wid' w'] that at w by auto
      then have "chans ! w_Response w = sc_channels c ! w_Response w" using r(4) by fastforce
      then show ?thesis
        using cache_invD(2) [OF inv w(1)] w(2) r(2) by (auto simp: watch_ok_def map_of_gput)
    qed
  qed (use watches in blast)
  moreover have "\<forall>wid w. watch_at c node wid = Some w \<and> stale ops s w \<longrightarrow>
      sc_channels ?c ! w_Response w = answer ops (sc_ads c) s (w_Request w)"
    using r(3) at by auto
  moreover have "map_of (sc_snapshots ?c) = (map_of (sc_snapshots c))(node \<mapsto> s)" by (simp add: update_conv')
  ultimately show ?thesis using set watches by blast
qed

text \<open>\<open>CreateWatch\<close>: the state with the status of the node refreshed and a new empty channel.\<close>

definition watch_prepared ::
  "(Node option \<Rightarrow> string) \<Rightarrow> gotime \<Rightarrow> DiscoveryRequest \<Rightarrow> ('snap, 'r) snapshotCache \<Rightarrow> statusInfo \<times> ('snap, 'r) snapshotCache" where
  "watch_prepared hash now rq c =
     (let info = (case map_of (sc_status c) (hash (rq_Node rq)) of None \<Rightarrow> newStatusInfo (rq_Node rq) | Some info \<Rightarrow> info);
          info = info\<lparr>si_lastWatchRequestTime := now\<rparr>
      in (info, c\<lparr>sc_status := gput (hash (rq_Node rq)) info (sc_status c), sc_channels := sc_channels c @ [[]]\<rparr>))"

lemma watch_prepared_inv:
  assumes inv: "cache_inv ops c" and p: "watch_prepared hash now rq c = (info, c1)"
  shows "cache_inv ops c1" and "\<And>n i. watch_at c1 n i = watch_at c n i"
    and "\<And>i. map_of (si_watches info) i = watch_at c (hash (rq_Node rq)) i" and "wf_map (si_watches info)"
proof -
  let ?node = "hash (rq_Node rq)"
  have c1: "c1 = c\<lparr>sc_status := gput ?node info (sc_status c), sc_channels := sc_channels c @ [[]]\<rparr>"
    using p by (auto simp: watch_prepared_def Let_def)
  show info: "map_of (si_watches info) i = watch_at c ?node i" for i
    using p by (auto simp: watch_prepared_def Let_def watch_at_def newStatusInfo_def split: option.splits)
  show wf: "wf_map (si_watches info)"
    using p cache_invD(1) [OF inv] by (auto simp: watch_prepared_def Let_def newStatusInfo_def split: option.splits)
  show same: "watch_at c1 n i = watch_at c n i" for n i
    using info by (subst watch_at_gput [where c = c]) (auto simp: c1)
  show "cache_inv ops c1"
  proof (rule cache_inv_fewer [OF inv])
    show "wf_map (si_watches info')" if "map_of (sc_status c1) n = Some info'" for n info'
      using that cache_invD(1) [OF inv] wf by (auto simp: c1 map_of_gput split: if_splits)
    show "watch_ok ops c1 n w" if "watch_at c1 n i = Some w" for n i w
      using cache_invD(2) [OF inv that [unfolded same]] by (simp add: watch_ok_def c1 nth_append)
  qed (simp add: same)
qed

lemma open_watch_inv:
  assumes inv: "cache_inv ops c" and wf: "wf_map ws" and ws: "\<And>i. map_of ws i = watch_at c node i"
    and ch: "ch < length (sc_channels c)" "sc_channels c ! ch = []" and new: "\<And>n i w. watch_at c n i = Some w \<Longrightarrow> w_Response w \<noteq> ch"
    and fresh: "\<And>s. map_of (sc_snapshots c) node = Some s \<Longrightarrow> \<not> stale ops s \<lparr>w_Request = rq, w_Response = ch\<rparr>"
    and c': "c' = c\<lparr>sc_watchCount := k, sc_status := gput node (info\<lparr>si_watches := gput wid \<lparr>w_Request = rq, w_Response = ch\<rparr> ws\<rparr>) (sc_status c)\<rparr>"
  shows "cache_inv ops c'" and "watch_at c' node wid = Some \<lparr>w_Request = rq, w_Response = ch\<rparr>"
proof -
  let ?w = "\<lparr>w_Request = rq, w_Response = ch\<rparr>"
  have at: "watch_at c' n i = (if n = node \<and> i = wid then Some ?w else watch_at c n i)" for n i
    using ws by (subst watch_at_gput [where c = c]) (auto simp: c' map_of_gput)
  have same: "sc_channels c' = sc_channels c" "sc_snapshots c' = sc_snapshots c" by (simp_all add: c')
  show "watch_at c' node wid = Some ?w" by (simp add: at)
  show "cache_inv ops c'"
    unfolding cache_inv_def
  proof (intro conjI allI impI)
    show "wf_map (si_watches i')" if "map_of (sc_status c') n = Some i'" for n i'
      using that cache_invD(1) [OF inv] wf by (auto simp: c' map_of_gput split: if_splits)
    show "watch_ok ops c' n w" if "watch_at c' n i = Some w" for n i w
      using that cache_invD(2) [OF inv] ch fresh by (auto simp: at watch_ok_def same split: if_splits)
    fix n1 i1 w1 n2 i2 w2
    assume a: "watch_at c' n1 i1 = Some w1" "watch_at c' n2 i2 = Some w2" "w_Response w1 = w_Response w2"
    show "n1 = n2" "i1 = i2"
      using a cache_invD(3) [OF inv, of n1 i1 w1 n2 i2 w2] new [of n1 i1 w1] new [of n2 i2 w2] by (auto simp: at split: if_splits)
  qed
qed

lemma CreateWatch_spec:
  assumes inv: "cache_inv ops c"
  shows "\<exists>cancel c'. CreateWatch ops hash now rq c = Inr ((length (sc_channels c), cancel), c') \<and> cache_inv ops c' \<and>
    sc_snapshots c' = sc_snapshots c \<and>
    (case map_of (sc_snapshots c) (hash (rq_Node rq)) of
       Some s \<Rightarrow> if rq_VersionInfo rq = sn_GetVersion ops s (rq_TypeUrl rq)
         then \<exists>wid. cancel = Some (hash (rq_Node rq), wid) \<and>
           watch_at c' (hash (rq_Node rq)) wid = Some \<lparr>w_Request = rq, w_Response = length (sc_channels c)\<rparr>
         else cancel = None \<and> sc_channels c' ! length (sc_channels c) = answer ops (sc_ads c) s rq
     | None \<Rightarrow> \<exists>wid. cancel = Some (hash (rq_Node rq), wid) \<and>
         watch_at c' (hash (rq_Node rq)) wid = Some \<lparr>w_Request = rq, w_Response = length (sc_channels c)\<rparr>)"
proof -
  let ?node = "hash (rq_Node rq)" and ?ch = "length (sc_channels c)"
  obtain info c1 where p: "watch_prepared hash now rq c = (info, c1)" by fastforce
  note p1 = watch_prepared_inv [OF inv p]
  have c1: "c1 = c\<lparr>sc_status := gput ?node info (sc_status c), sc_channels := sc_channels c @ [[]]\<rparr>"
    using p by (auto simp: watch_prepared_def Let_def)
  let ?wid = "add_int (sc_watchCount c1) 1"
  let ?opened = "c1\<lparr>sc_watchCount := ?wid,
    sc_status := gput ?node (info\<lparr>si_watches := gput ?wid \<lparr>w_Request = rq, w_Response = ?ch\<rparr> (si_watches info)\<rparr>) (sc_status c1)\<rparr>"
  have new: "w_Response w \<noteq> ?ch" if "watch_at c1 n i = Some w" for n i w
    using cache_invD(2) [OF inv] that p1(2) by (fastforce simp: watch_ok_def)
  have opened: "cache_inv ops ?opened" "watch_at ?opened ?node ?wid = Some \<lparr>w_Request = rq, w_Response = ?ch\<rparr>"
    if "\<And>s. map_of (sc_snapshots c) ?node = Some s \<Longrightarrow> rq_VersionInfo rq = sn_GetVersion ops s (rq_TypeUrl rq)"
    using that open_watch_inv [OF p1(1) p1(4), of ?node ?ch rq ?opened ?wid info ?wid] p1(2,3) new
    by (auto simp: c1 stale_def)
  have create: "CreateWatch ops hash now rq c =
      (case map_of (sc_snapshots c) ?node of
         None \<Rightarrow> Inr ((?ch, Some (?node, ?wid)), ?opened)
       | Some s \<Rightarrow> if rq_VersionInfo rq = sn_GetVersion ops s (rq_TypeUrl rq) then Inr ((?ch, Some (?node, ?wid)), ?opened)
           else bindE (cache_respond (sc_ads c) rq ?ch (sn_GetResources ops s (rq_TypeUrl rq))
               (sn_GetVersion ops s (rq_TypeUrl rq)) (sc_channels c1)) (\<lambda>chans. Inr ((?ch, None), c1\<lparr>sc_channels := chans\<rparr>)))"
    using p by (auto simp: CreateWatch_def watch_prepared_def Let_def split: option.splits)
  show ?thesis
  proof (cases "\<exists>s. map_of (sc_snapshots c) ?node = Some s \<and> rq_VersionInfo rq \<noteq> sn_GetVersion ops s (rq_TypeUrl rq)")
    case False
    then show ?thesis using opened unfolding create by (auto simp: c1 split: option.splits)
  next
    case True
    then obtain s where s: "map_of (sc_snapshots c) ?node = Some s" "rq_VersionInfo rq \<noteq> sn_GetVersion ops s (rq_TypeUrl rq)"
      by blast
    have empty: "sc_channels c1 ! ?ch = []" by (simp add: c1 nth_append)
    let ?c = "c1\<lparr>sc_channels := (sc_channels c1)[?ch := answer ops (sc_ads c) s rq]\<rparr>"
    have same: "watch_at ?c n i = watch_at c1 n i" for n i by (simp add: watch_at_def)
    have "cache_inv ops ?c"
    proof (rule cache_inv_fewer [OF p1(1)])
      show "wf_map (si_watches info')" if "map_of (sc_status ?c) n = Some info'" for n info'
        using that cache_invD(1) [OF p1(1)] by simp
      show "watch_ok ops ?c n w" if "watch_at ?c n i = Some w" for n i w
        using cache_invD(2) [OF p1(1) that [unfolded same]] new [OF that [unfolded same]] by (auto simp: watch_ok_def)
    qed (simp add: same)
    then show ?thesis
      using s cache_respond_answer [OF empty, of "sc_ads c" rq ops s] unfolding create by (simp add: c1)
  qed
qed

section \<open>Reachable caches\<close>

inductive cached :: "('snap, 'r) SnapshotOps \<Rightarrow> (Node option \<Rightarrow> string) \<Rightarrow> ('snap, 'r) snapshotCache \<Rightarrow> bool"
  for ops hash where
  cached_new: "cached ops hash (NewSnapshotCache ads)"
| cached_set: "cached ops hash c \<Longrightarrow> SetSnapshot ops node s c = Inr c' \<Longrightarrow> cached ops hash c'"
| cached_clear: "cached ops hash c \<Longrightarrow> cached ops hash (ClearSnapshot node c)"
| cached_watch: "cached ops hash c \<Longrightarrow> CreateWatch ops hash now rq c = Inr (r, c') \<Longrightarrow> cached ops hash c'"
| cached_cancel: "cached ops hash c \<Longrightarrow> cached ops hash (cancelWatch node wid c)"
| cached_receive: "cached ops hash c \<Longrightarrow> cached ops hash (snd (chan_receive ch c))"

lemma cached_inv: "cached ops hash c \<Longrightarrow> cache_inv ops c"
proof (induction rule: cached.induct)
  case (cached_set c node s c')
  then show ?case using SetSnapshot_spec [OF cached_set.IH, of node s] by auto
next
  case (cached_watch c now rq r c')
  then show ?case using CreateWatch_spec [OF cached_watch.IH, of hash now rq] by auto
qed (simp_all add: cache_inv_new ClearSnapshot_inv cancelWatch_inv chan_receive_inv)

text \<open>
  C14. In every reachable cache no open watch misses an update: the version its client has is the
  version of the current snapshot of the node; its channel is empty, so that no answer can block the
  cache, and \<open>SetSnapshot\<close> and \<open>CreateWatch\<close> always succeed.
\<close>

theorem no_watch_misses_an_update:
  assumes "cached ops hash c"
  shows "(watch_at c node wid = Some w \<and> map_of (sc_snapshots c) node = Some s \<longrightarrow>
      sn_GetVersion ops s (rq_TypeUrl (w_Request w)) = rq_VersionInfo (w_Request w)) \<and>
    (watch_at c node wid = Some w \<longrightarrow> sc_channels c ! w_Response w = []) \<and>
    (\<exists>c'. SetSnapshot ops node s' c = Inr c') \<and> (\<exists>r. CreateWatch ops hash now rq c = Inr r)"
  using cache_invD(2) [OF cached_inv [OF assms], of node wid w] SetSnapshot_spec [OF cached_inv [OF assms], of node s']
    CreateWatch_spec [OF cached_inv [OF assms], of hash now rq]
  by (auto simp: watch_ok_def stale_def)


text \<open>An example: a watch is opened before the first snapshot and answered by it.\<close>

definition example_request :: DiscoveryRequest where
  "example_request = \<lparr>rq_VersionInfo = '''', rq_Node = None, rq_ResourceNames = [], rq_TypeUrl = MonitoringAssignmentType,
     rq_ResponseNonce = '''', rq_ErrorDetail = None\<rparr>"

definition example_cache :: "(nat mads_Snapshot, nat) snapshotCache" where
  "example_cache =
     \<lparr>sc_ads = False, sc_snapshots = [],
      sc_status = [(''n'', \<lparr>si_node = None, si_watches = [(1, \<lparr>w_Request = example_request, w_Response = 0\<rparr>)],
                     si_lastWatchRequestTime = 5\<rparr>)],
      sc_watchCount = 1, sc_channels = [[]]\<rparr>"

lemma example_cached: "cached mads_ops (\<lambda>_. ''n'') example_cache"
proof -
  have "CreateWatch mads_ops (\<lambda>_. ''n'') 5 example_request (NewSnapshotCache False) = Inr ((0, Some (''n'', 1)), example_cache)"
    by (simp add: CreateWatch_def NewSnapshotCache_def newStatusInfo_def example_request_def example_cache_def Let_def add_int_def)
  then show ?thesis by (rule cached_watch [OF cached_new])
qed

theorem no_watch_misses_an_update_witness:
  "watch_at example_cache ''n'' 1 = Some \<lparr>w_Request = example_request, w_Response = 0\<rparr> \<and>
   (\<exists>c'. SetSnapshot mads_ops ''n'' (mads_NewSnapshot ''v1'' [(''a'', 7)]) example_cache = Inr c')"
  using no_watch_misses_an_update [OF example_cached, of "''n''"]
  by (auto simp: watch_at_def example_cache_def)


section \<open>Versions change exactly with the resources\<close>

text \<open>The version that a type keeps: its own, or that of equal resources of the old snapshot.\<close>

definition kept_version :: "('snap, 'r) SnapshotOps \<Rightarrow> ('r \<Rightarrow> 'r \<Rightarrow> bool) \<Rightarrow> 'snap option \<Rightarrow> 'snap \<Rightarrow> string \<Rightarrow> string" where
  "kept_version ops eq old new typ =
     (if sn_GetVersion ops new typ \<noteq> '''' then sn_GetVersion ops new typ
      else (case old of
              Some o' \<Rightarrow> if resources_equal eq (sn_GetResources ops new typ) (sn_GetResources ops o' typ)
                         then sn_GetVersion ops o' typ else ''''
            | None \<Rightarrow> ''''))"

text \<open>What the versioner relies on of an implementation of \<open>Snapshot\<close>.\<close>

locale versioned_snapshots =
  fixes ops :: "('snap, 'r) SnapshotOps"
  assumes types_law: "sn_GetSupportedTypes ops (sn_WithVersion ops s t v) = sn_GetSupportedTypes ops s"
    and distinct_types: "distinct (sn_GetSupportedTypes ops s)"
    and resources_law: "sn_GetResources ops (sn_WithVersion ops s t v) t' = sn_GetResources ops s t'"
    and version_law: "t \<in> set (sn_GetSupportedTypes ops s) \<Longrightarrow>
      sn_GetVersion ops (sn_WithVersion ops s t v) t' = (if t' = t then v else sn_GetVersion ops s t')"
begin

lemma version_loop_spec:
  assumes "distinct types" and "set types \<subseteq> set (sn_GetSupportedTypes ops new)"
  shows "sn_GetResources ops (version_loop ops eq uuids old types n new) t = sn_GetResources ops new t \<and>
    (t \<notin> set types \<longrightarrow> sn_GetVersion ops (version_loop ops eq uuids old types n new) t = sn_GetVersion ops new t) \<and>
    (t \<in> set types \<longrightarrow>
       (if kept_version ops eq old new t \<noteq> ''''
        then sn_GetVersion ops (version_loop ops eq uuids old types n new) t = kept_version ops eq old new t
        else \<exists>k. sn_GetVersion ops (version_loop ops eq uuids old types n new) t = uuids k))"
  using assms
proof (induction types arbitrary: n new)
  case (Cons ty types)
  have kept_other: "kept_version ops eq old (sn_WithVersion ops new ty v) t' = kept_version ops eq old new t'" if "t' \<noteq> ty" for v t'
    using that Cons.prems(2) by (simp add: kept_version_def version_law resources_law split: option.splits)
  obtain n' new' where step: "version_loop ops eq uuids old (ty # types) n new = version_loop ops eq uuids old types n' new'"
    and new': "new' = new \<and> sn_GetVersion ops new ty \<noteq> '''' \<or>
      sn_GetVersion ops new ty = '''' \<and> (\<exists>v. new' = sn_WithVersion ops new ty v \<and>
        (if kept_version ops eq old new ty \<noteq> '''' then v = kept_version ops eq old new ty else \<exists>k. v = uuids k))"
  proof (cases "sn_GetVersion ops new ty = ''''")
    case False
    then show ?thesis using that [of n new] by simp
  next
    case True
    have kv: "kept_version ops eq old new ty =
        (case old of Some o' \<Rightarrow> if resources_equal eq (sn_GetResources ops new ty) (sn_GetResources ops o' ty)
           then sn_GetVersion ops o' ty else '''' | None \<Rightarrow> '''')"
      by (simp add: kept_version_def True)
    show ?thesis
    proof (cases "kept_version ops eq old new ty = ''''")
      case kept: True
      show ?thesis by (rule that [of "Suc n" "sn_WithVersion ops new ty (uuids n)"])
          (use True kept kv in \<open>auto simp: Let_def split: option.splits if_splits\<close>)
    next
      case kept: False
      show ?thesis by (rule that [of n "sn_WithVersion ops new ty (kept_version ops eq old new ty)"])
          (use True kept kv in \<open>auto simp: Let_def split: option.splits if_splits\<close>)
    qed
  qed
  have ty: "ty \<in> set (sn_GetSupportedTypes ops new)" "ty \<notin> set types" using Cons.prems by auto
  have "set types \<subseteq> set (sn_GetSupportedTypes ops new')"
    using new' Cons.prems(2) by (auto simp: types_law)
  then have IH: "sn_GetResources ops (version_loop ops eq uuids old types n' new') t = sn_GetResources ops new' t"
    "t \<notin> set types \<longrightarrow> sn_GetVersion ops (version_loop ops eq uuids old types n' new') t = sn_GetVersion ops new' t"
    "t \<in> set types \<longrightarrow>
       (if kept_version ops eq old new' t \<noteq> ''''
        then sn_GetVersion ops (version_loop ops eq uuids old types n' new') t = kept_version ops eq old new' t
        else \<exists>k. sn_GetVersion ops (version_loop ops eq uuids old types n' new') t = uuids k)"
    using Cons.IH [of new' n'] Cons.prems(1) by auto
  have other: "kept_version ops eq old new' t = kept_version ops eq old new t" "sn_GetVersion ops new' t = sn_GetVersion ops new t" if "t \<noteq> ty"
    using new' kept_other [OF that] version_law [OF ty(1)] that by auto
  have own: "if kept_version ops eq old new ty \<noteq> '''' then sn_GetVersion ops new' ty = kept_version ops eq old new ty
      else \<exists>k. sn_GetVersion ops new' ty = uuids k"
    using new' version_law [OF ty(1)] by (auto simp: kept_version_def split: if_splits)
  have "sn_GetResources ops new' t = sn_GetResources ops new t" using new' by (auto simp: resources_law)
  then show ?case
    unfolding step using IH own other ty(2) by (cases "t = ty") auto
qed simp

end

interpretation mads: versioned_snapshots mads_ops
  by unfold_locales
    (auto simp: mads_ops_def mads_WithVersion_def mads_GetVersion_def mads_GetResources_def)

text \<open>
  For snapshots of monitoring assignments without a version of their own, and fresh UUIDs, the
  versioner keeps the resources and assigns the version of the old snapshot exactly when the
  resources are equal (key by key, for \<open>proto.Equal\<close>); it never leaves the version empty.
\<close>

theorem versions_follow_resources:
  assumes "cr_Version new = ''''" and "cr_Version old \<noteq> ''''" and "\<And>k. uuids k \<noteq> '''' \<and> uuids k \<noteq> cr_Version old"
  shows "\<exists>s. auto_Version mads_ops eq uuids (Some new) (Some old) = Some s \<and> cr_Items s = cr_Items new \<and>
    cr_Version s \<noteq> '''' \<and> (cr_Version s = cr_Version old \<longleftrightarrow> resources_equal eq (cr_Items new) (cr_Items old))"
proof -
  let ?s = "version_loop mads_ops eq uuids (Some old) (sn_GetSupportedTypes mads_ops new) 0 new"
  have acc: "sn_GetResources mads_ops s MonitoringAssignmentType = cr_Items s"
    "sn_GetVersion mads_ops s MonitoringAssignmentType = cr_Version s"
    "sn_GetSupportedTypes mads_ops s = [MonitoringAssignmentType]" for s :: "'a mads_Snapshot"
    by (simp_all add: mads_ops_def mads_GetResources_def mads_GetVersion_def)
  have kept: "kept_version mads_ops eq (Some old) new MonitoringAssignmentType =
      (if resources_equal eq (cr_Items new) (cr_Items old) then cr_Version old else '''')"
    using assms(1) by (simp add: kept_version_def acc)
  have spec: "cr_Items ?s = cr_Items new \<and>
      (if resources_equal eq (cr_Items new) (cr_Items old) then cr_Version ?s = cr_Version old
       else \<exists>k. cr_Version ?s = uuids k)"
    using mads.version_loop_spec [of "sn_GetSupportedTypes mads_ops new" new eq uuids "Some old" 0 MonitoringAssignmentType]
      kept assms(2) by (auto simp: acc)
  have "cr_Version ?s \<noteq> '''' \<and> (cr_Version ?s = cr_Version old \<longleftrightarrow> resources_equal eq (cr_Items new) (cr_Items old))"
    using spec assms(2,3) by metis
  then show ?thesis using spec by (simp add: auto_Version_def)
qed

theorem versions_follow_resources_witness:
  "\<exists>s. auto_Version mads_ops (=) (\<lambda>_. ''v2'') (Some (mads_NewSnapshot '''' [(''a'', 7 :: nat)]))
       (Some (mads_NewSnapshot ''v1'' [(''a'', 7)])) = Some s \<and> cr_Version s = ''v1''"
proof -
  have "resources_equal (=) [(''a'', 7 :: nat)] [(''a'', 7)]" by (simp add: resources_equal_def)
  then show ?thesis
    using versions_follow_resources [of "mads_NewSnapshot '''' [(''a'', 7 :: nat)]" "mads_NewSnapshot ''v1'' [(''a'', 7)]" "\<lambda>_. ''v2''" "(=)"]
    by (auto simp: mads_NewSnapshot_def)
qed

end
