(* ===== verification/Stream_Tracking.thy ===== *)
theory Stream_Tracking
  imports Proxy_Sync Snapshot_Cache
begin

text \<open>
  The callbacks of the xDS server: the tracker that starts and stops the synchronisation of a
  dataplane (\<open>pkg/xds/sync/dataplane_sync_tracker.go\<close>), the tracker of the status of streams
  (\<open>pkg/xds/server/dataplane_status_tracker.go\<close>), the sinks that store it
  (\<open>pkg/xds/server/dataplane_status_sink.go\<close>) and their chain (\<open>pkg/util/xds/callbacks_chain.go\<close>).
  The goroutines interleave: a run of the system is a sequence of events, each of them a callback
  or one round of a sink.  A \<open>streamState\<close> is shared between the tracker and its sink, so states live
  in a list and are referred to by their address.
\<close>

section \<open>Synchronisation of dataplanes\<close>

record watchdog =
  wd_key :: ResourceKey
  wd_stream :: int
  wd_stopped :: bool

text \<open>A cancel function is given by the watchdog whose stop channel it closes.\<close>

record dataplaneSyncTracker =
  syn_streams :: "(int, nat) gomap"
  syn_watchdogs :: "watchdog list"

definition sync_OnStreamClosed :: "int \<Rightarrow> dataplaneSyncTracker \<Rightarrow> go_error + dataplaneSyncTracker" where
  "sync_OnStreamClosed streamID t =
     (case map_of (syn_streams t) streamID of
        None \<Rightarrow> Inr (t\<lparr>syn_streams := gdel streamID (syn_streams t)\<rparr>)
      | Some a \<Rightarrow>
          (let w = syn_watchdogs t ! a in
           if wd_stopped w then Inl (ErrPanic ''close of closed channel'')
           else Inr (t\<lparr>syn_streams := gdel streamID (syn_streams t),
                       syn_watchdogs := (syn_watchdogs t)[a := w\<lparr>wd_stopped := True\<rparr>]\<rparr>)))"

definition sync_OnStreamRequest :: "int \<Rightarrow> DiscoveryRequest \<Rightarrow> dataplaneSyncTracker \<Rightarrow> dataplaneSyncTracker" where
  "sync_OnStreamRequest streamID req t =
     (case map_of (syn_streams t) streamID of
        Some _ \<Rightarrow> t
      | None \<Rightarrow>
          (case ParseProxyId (rq_Node req) of
             Inl err \<Rightarrow> t
           | Inr pid \<Rightarrow>
               t\<lparr>syn_streams := gput streamID (length (syn_watchdogs t)) (syn_streams t),
                 syn_watchdogs := syn_watchdogs t @
                   [\<lparr>wd_key = \<lparr>key_Mesh = pid_Mesh pid, key_Name = pid_Name pid\<rparr>, wd_stream = streamID, wd_stopped = False\<rparr>]\<rparr>))"

section \<open>Status of streams\<close>

record streamState =
  ss_stop :: bool
  ss_dataplaneId :: ResourceKey
  ss_subscription :: DiscoverySubscription

text \<open>A goroutine of \<open>dataplaneInsightSink.Start\<close>: the state it reads, what it stored last, and whether it runs.\<close>

record dataplaneInsightSink =
  snk_accessor :: nat
  snk_lastStoredState :: "DiscoverySubscription option"
  snk_running :: bool

record dataplaneStatusTracker =
  dst_streams :: "(int, nat) gomap"
  dst_states :: "streamState list"
  dst_sinks :: "dataplaneInsightSink list"

definition no_key :: ResourceKey where
  "no_key = \<lparr>key_Mesh = '''', key_Name = ''''\<rparr>"

definition status_OnStreamOpen ::
  "string \<Rightarrow> string \<Rightarrow> PbTimestamp \<Rightarrow> int \<Rightarrow> dataplaneStatusTracker \<Rightarrow> dataplaneStatusTracker" where
  "status_OnStreamOpen uuid instanceId now streamID t =
     (let subscription =
        \<lparr>sub_Id = uuid, sub_ControlPlaneInstanceId = instanceId, sub_ConnectTime = Some now,
         sub_DisconnectTime = None, sub_Status = Some NewSubscriptionStatus\<rparr>
      in t\<lparr>dst_streams := gput streamID (length (dst_states t)) (dst_streams t),
           dst_states := dst_states t @ [\<lparr>ss_stop = False, ss_dataplaneId = no_key, ss_subscription = subscription\<rparr>]\<rparr>)"

definition nil_dereference :: go_error where
  "nil_dereference = ErrPanic ''nil pointer dereference''"

definition status_OnStreamClosed ::
  "PbTimestamp \<Rightarrow> int \<Rightarrow> dataplaneStatusTracker \<Rightarrow> go_error + dataplaneStatusTracker" where
  "status_OnStreamClosed now streamID t =
     (case map_of (dst_streams t) streamID of
        None \<Rightarrow> Inl nil_dereference
      | Some a \<Rightarrow>
          (let state = dst_states t ! a;
               state = state\<lparr>ss_subscription := (ss_subscription state)\<lparr>sub_DisconnectTime := Some now\<rparr>\<rparr>
           in if ss_stop state then Inl (ErrPanic ''close of closed channel'')
              else Inr (t\<lparr>dst_streams := gdel streamID (dst_streams t),
                          dst_states := (dst_states t)[a := state\<lparr>ss_stop := True\<rparr>]\<rparr>)))"

text \<open>Counting a message: in the total and under its type, with the time of the update.\<close>

definition count_message ::
  "PbTimestamp \<Rightarrow> string \<Rightarrow> (DiscoveryServiceStats \<Rightarrow> DiscoveryServiceStats) \<Rightarrow> DiscoverySubscription \<Rightarrow>
   go_error + DiscoverySubscription" where
  "count_message now typeUrl f subscription =
     (case sub_Status subscription of
        None \<Rightarrow> Inl nil_dereference
      | Some st \<Rightarrow>
          (case st_Total st of
             None \<Rightarrow> Inl nil_dereference
           | Some tot \<Rightarrow>
               Inr (subscription\<lparr>sub_Status :=
                 Some (StatsOf typeUrl f (st\<lparr>st_LastUpdateTime := Some now, st_Total := Some (f tot)\<rparr>))\<rparr>)))"

definition rejected :: "DiscoveryServiceStats \<Rightarrow> DiscoveryServiceStats" where
  "rejected s = s\<lparr>ResponsesRejected := ResponsesRejected s + 1\<rparr>"

definition acknowledged :: "DiscoveryServiceStats \<Rightarrow> DiscoveryServiceStats" where
  "acknowledged s = s\<lparr>ResponsesAcknowledged := ResponsesAcknowledged s + 1\<rparr>"

definition sent :: "DiscoveryServiceStats \<Rightarrow> DiscoveryServiceStats" where
  "sent s = s\<lparr>ResponsesSent := ResponsesSent s + 1\<rparr>"

definition status_OnStreamRequest ::
  "PbTimestamp \<Rightarrow> int \<Rightarrow> DiscoveryRequest \<Rightarrow> dataplaneStatusTracker \<Rightarrow> go_error + dataplaneStatusTracker" where
  "status_OnStreamRequest now streamID req t =
     (case map_of (dst_streams t) streamID of
        None \<Rightarrow> Inl nil_dereference
      | Some a \<Rightarrow>
          (let state = dst_states t ! a;
               (state, started) =
                 (if ss_dataplaneId state = no_key
                  then (case ParseProxyId (rq_Node req) of
                          Inr pid \<Rightarrow>
                            (state\<lparr>ss_dataplaneId := \<lparr>key_Mesh = pid_Mesh pid, key_Name = pid_Name pid\<rparr>\<rparr>,
                             [\<lparr>snk_accessor = a, snk_lastStoredState = None, snk_running = True\<rparr>])
                        | Inl err \<Rightarrow> (state, []))
                  else (state, []))
           in bindE
                (if rq_ResponseNonce req \<noteq> ''''
                 then count_message now (rq_TypeUrl req)
                        (if rq_ErrorDetail req \<noteq> None then rejected else acknowledged) (ss_subscription state)
                 else Inr (ss_subscription state))
                (\<lambda>subscription.
                   Inr (t\<lparr>dst_states := (dst_states t)[a := state\<lparr>ss_subscription := subscription\<rparr>],
                          dst_sinks := dst_sinks t @ started\<rparr>))))"

definition status_OnStreamResponse ::
  "PbTimestamp \<Rightarrow> int \<Rightarrow> string \<Rightarrow> dataplaneStatusTracker \<Rightarrow> go_error + dataplaneStatusTracker" where
  "status_OnStreamResponse now streamID typeUrl t =
     (case map_of (dst_streams t) streamID of
        None \<Rightarrow> Inl nil_dereference
      | Some a \<Rightarrow>
          bindE (count_message now typeUrl sent (ss_subscription (dst_states t ! a))) (\<lambda>subscription.
          Inr (t\<lparr>dst_states := (dst_states t)[a := (dst_states t ! a)\<lparr>ss_subscription := subscription\<rparr>]\<rparr>)))"

section \<open>Storing the status\<close>

definition insight_Upsert ::
  "'s ResourceManager \<Rightarrow> ResourceKey \<Rightarrow> DiscoverySubscription \<Rightarrow> 's \<Rightarrow> go_error option \<times> 's" where
  "insight_Upsert resManager dataplaneId subscription s =
     (case rm_Get resManager \<lparr>Meta = None, Spec = zero_of ''DataplaneInsight''\<rparr> [GetBy dataplaneId] s of
        (err, insight) \<Rightarrow>
          if err \<noteq> None \<and> \<not> IsResourceNotFound err then (err, s)
          else (case Spec insight of
              DataplaneInsightSpec d \<Rightarrow>
                (let d = (case UpdateSubscription subscription (Some d) of None \<Rightarrow> d | Some d \<Rightarrow> d);
                     insight = insight\<lparr>Spec := DataplaneInsightSpec d\<rparr>
                 in if err \<noteq> None
                    then (case rm_Create resManager insight [CreateBy dataplaneId] s of (err, _, s') \<Rightarrow> (err, s'))
                    else (case rm_Update resManager insight [] s of (err, _, s') \<Rightarrow> (err, s')))
            | _ \<Rightarrow> (Some (ErrPanic ''type assertion''), s)))"

text \<open>The closure \<open>flush\<close> of a sink.\<close>

definition flush ::
  "(ResourceKey \<Rightarrow> DiscoverySubscription \<Rightarrow> 's \<Rightarrow> go_error option \<times> 's) \<Rightarrow> streamState \<Rightarrow>
   DiscoverySubscription option \<Rightarrow> 's \<Rightarrow> DiscoverySubscription option \<times> 's" where
  "flush upsert state lastStoredState s =
     (let currentState = ss_subscription state in
      if Some currentState = lastStoredState then (lastStoredState, s)
      else (case upsert (ss_dataplaneId state) currentState s of
              (Some err, s') \<Rightarrow> (lastStoredState, s')
            | (None, s') \<Rightarrow> (Some currentState, s')))"

section \<open>The system\<close>

record 's xds_system =
  sys_streamCount :: int
  sys_open :: "int list"
  sys_sync :: dataplaneSyncTracker
  sys_metadata :: DataplaneMetadataTracker
  sys_status :: dataplaneStatusTracker
  sys_store :: 's

definition initial_system :: "'s \<Rightarrow> 's xds_system" where
  "initial_system s =
     \<lparr>sys_streamCount = 0, sys_open = [], sys_sync = \<lparr>syn_streams = [], syn_watchdogs = []\<rparr>, sys_metadata = [],
      sys_status = \<lparr>dst_streams = [], dst_states = [], dst_sinks = []\<rparr>, sys_store = s\<rparr>"

text \<open>
  Events: the callbacks of the server (with the clock and the UUID they read) and one round of a
  sink, on its ticker or on its stop channel, with the time the manager stamps on what it stores.
\<close>

datatype xds_event =
    StreamOpen string PbTimestamp
  | StreamRequest int DiscoveryRequest PbTimestamp
  | StreamResponse int string PbTimestamp
  | StreamClosed int PbTimestamp
  | SinkTick nat gotime
  | SinkStop nat gotime

text \<open>The chain runs the callbacks in order for a request and in reverse for a closed stream.\<close>

definition chain_OnStreamRequest :: "PbTimestamp \<Rightarrow> int \<Rightarrow> DiscoveryRequest \<Rightarrow> 's xds_system \<Rightarrow> go_error + 's xds_system" where
  "chain_OnStreamRequest now i req sys =
     (let sync = sync_OnStreamRequest i req (sys_sync sys);
          metadata = metadata_OnStreamRequest i (rq_Node req) (sys_metadata sys)
      in bindE (status_OnStreamRequest now i req (sys_status sys)) (\<lambda>st.
         Inr (sys\<lparr>sys_sync := sync, sys_metadata := metadata, sys_status := st\<rparr>)))"

definition chain_OnStreamClosed :: "PbTimestamp \<Rightarrow> int \<Rightarrow> 's xds_system \<Rightarrow> go_error + 's xds_system" where
  "chain_OnStreamClosed now i sys =
     bindE (status_OnStreamClosed now i (sys_status sys)) (\<lambda>st.
     bindE (sync_OnStreamClosed i (sys_sync sys)) (\<lambda>sync.
     Inr (sys\<lparr>sys_sync := sync, sys_metadata := metadata_OnStreamClosed i (sys_metadata sys), sys_status := st\<rparr>)))"

text \<open>One round of the loop of a sink.\<close>

definition sink_round ::
  "(gotime \<Rightarrow> ResourceKey \<Rightarrow> DiscoverySubscription \<Rightarrow> 's \<Rightarrow> go_error option \<times> 's) \<Rightarrow> gotime \<Rightarrow> nat \<Rightarrow> bool \<Rightarrow> 's xds_system \<Rightarrow> 's xds_system" where
  "sink_round upsert now k returns sys =
     (let snk = dst_sinks (sys_status sys) ! k;
          (stored, s) = flush (upsert now) (dst_states (sys_status sys) ! snk_accessor snk) (snk_lastStoredState snk) (sys_store sys);
          snk = snk\<lparr>snk_lastStoredState := stored, snk_running := \<not> returns\<rparr>
      in sys\<lparr>sys_status := (sys_status sys)\<lparr>dst_sinks := (dst_sinks (sys_status sys))[k := snk]\<rparr>, sys_store := s\<rparr>)"

fun xds_step ::
  "(gotime \<Rightarrow> ResourceKey \<Rightarrow> DiscoverySubscription \<Rightarrow> 's \<Rightarrow> go_error option \<times> 's) \<Rightarrow> string \<Rightarrow> xds_event \<Rightarrow> 's xds_system \<Rightarrow>
   go_error + 's xds_system" where
  "xds_step upsert inst (StreamOpen uuid now) sys =
     (let i = sys_streamCount sys + 1 in
      Inr (sys\<lparr>sys_streamCount := i, sys_open := i # sys_open sys,
               sys_status := status_OnStreamOpen uuid inst now i (sys_status sys)\<rparr>))"
| "xds_step upsert inst (StreamRequest i req now) sys = chain_OnStreamRequest now i req sys"
| "xds_step upsert inst (StreamResponse i typeUrl now) sys =
     bindE (status_OnStreamResponse now i typeUrl (sys_status sys)) (\<lambda>st. Inr (sys\<lparr>sys_status := st\<rparr>))"
| "xds_step upsert inst (StreamClosed i now) sys =
     bindE (chain_OnStreamClosed now i sys) (\<lambda>sys. Inr (sys\<lparr>sys_open := removeAll i (sys_open sys)\<rparr>))"
| "xds_step upsert inst (SinkTick k now) sys = Inr (sink_round upsert now k False sys)"
| "xds_step upsert inst (SinkStop k now) sys = Inr (sink_round upsert now k True sys)"

text \<open>
  When an event may happen: the server calls back for its open streams only, a UUID is new, a sink
  runs, and it returns only when its stop channel is closed.
\<close>

fun enabled :: "xds_event \<Rightarrow> 's xds_system \<Rightarrow> bool" where
  "enabled (StreamOpen uuid now) sys \<longleftrightarrow> uuid \<notin> sub_Id ` ss_subscription ` set (dst_states (sys_status sys))"
| "enabled (StreamRequest i req now) sys \<longleftrightarrow> i \<in> set (sys_open sys)"
| "enabled (StreamResponse i typeUrl now) sys \<longleftrightarrow> i \<in> set (sys_open sys)"
| "enabled (StreamClosed i now) sys \<longleftrightarrow> i \<in> set (sys_open sys)"
| "enabled (SinkTick k now) sys \<longleftrightarrow> k < length (dst_sinks (sys_status sys)) \<and> snk_running (dst_sinks (sys_status sys) ! k)"
| "enabled (SinkStop k now) sys \<longleftrightarrow>
     k < length (dst_sinks (sys_status sys)) \<and> snk_running (dst_sinks (sys_status sys) ! k) \<and>
     ss_stop (dst_states (sys_status sys) ! snk_accessor (dst_sinks (sys_status sys) ! k))"

inductive xds_reachable ::
  "(gotime \<Rightarrow> ResourceKey \<Rightarrow> DiscoverySubscription \<Rightarrow> 's \<Rightarrow> go_error option \<times> 's) \<Rightarrow> string \<Rightarrow> 's \<Rightarrow> 's xds_system \<Rightarrow> bool"
  for upsert inst s where
  xds_initial: "xds_reachable upsert inst s (initial_system s)"
| xds_event: "xds_reachable upsert inst s sys \<Longrightarrow> enabled e sys \<Longrightarrow> xds_step upsert inst e sys = Inr sys' \<Longrightarrow>
    xds_reachable upsert inst s sys'"

section \<open>Invariant of the trackers\<close>

definition sync_inv :: "int list \<Rightarrow> dataplaneSyncTracker \<Rightarrow> bool" where
  "sync_inv opened t \<longleftrightarrow>
     (\<forall>i a. map_of (syn_streams t) i = Some a \<longrightarrow>
        i \<in> set opened \<and> a < length (syn_watchdogs t) \<and> wd_stream (syn_watchdogs t ! a) = i \<and> \<not> wd_stopped (syn_watchdogs t ! a)) \<and>
     (\<forall>a < length (syn_watchdogs t). \<not> wd_stopped (syn_watchdogs t ! a) \<longrightarrow>
        map_of (syn_streams t) (wd_stream (syn_watchdogs t ! a)) = Some a)"

lemma sync_invI:
  assumes "\<And>i a. map_of (syn_streams t) i = Some a \<Longrightarrow>
      i \<in> set opened \<and> a < length (syn_watchdogs t) \<and> wd_stream (syn_watchdogs t ! a) = i \<and> \<not> wd_stopped (syn_watchdogs t ! a)"
    and "\<And>a. a < length (syn_watchdogs t) \<Longrightarrow> \<not> wd_stopped (syn_watchdogs t ! a) \<Longrightarrow>
      map_of (syn_streams t) (wd_stream (syn_watchdogs t ! a)) = Some a"
  shows "sync_inv opened t"
  using assms unfolding sync_inv_def by blast

lemma sync_invD:
  assumes "sync_inv opened t"
  shows "map_of (syn_streams t) i = Some a \<Longrightarrow>
      i \<in> set opened \<and> a < length (syn_watchdogs t) \<and> wd_stream (syn_watchdogs t ! a) = i \<and> \<not> wd_stopped (syn_watchdogs t ! a)"
    and "a < length (syn_watchdogs t) \<Longrightarrow> \<not> wd_stopped (syn_watchdogs t ! a) \<Longrightarrow>
      map_of (syn_streams t) (wd_stream (syn_watchdogs t ! a)) = Some a"
  using assms unfolding sync_inv_def by blast+

lemma sync_inv_open: "sync_inv opened t \<Longrightarrow> sync_inv (i # opened) t"
  by (auto simp: sync_inv_def)

lemma sync_inv_request:
  assumes inv: "sync_inv opened t" and i: "i \<in> set opened"
  shows "sync_inv opened (sync_OnStreamRequest i rq t)"
proof (cases "map_of (syn_streams t) i = None \<and> (\<exists>pid. ParseProxyId (rq_Node rq) = Inr pid)")
  case True
  then obtain pid where new: "map_of (syn_streams t) i = None" and pid: "ParseProxyId (rq_Node rq) = Inr pid" by blast
  let ?t = "sync_OnStreamRequest i rq t"
  let ?w = "\<lparr>wd_key = \<lparr>key_Mesh = pid_Mesh pid, key_Name = pid_Name pid\<rparr>, wd_stream = i, wd_stopped = False\<rparr>"
  have t: "syn_streams ?t = gput i (length (syn_watchdogs t)) (syn_streams t)" "syn_watchdogs ?t = syn_watchdogs t @ [?w]"
    using new pid by (simp_all add: sync_OnStreamRequest_def)
  show ?thesis
  proof (rule sync_invI)
    fix j a
    assume "map_of (syn_streams ?t) j = Some a"
    then show "j \<in> set opened \<and> a < length (syn_watchdogs ?t) \<and> wd_stream (syn_watchdogs ?t ! a) = j \<and> \<not> wd_stopped (syn_watchdogs ?t ! a)"
      using i sync_invD(1) [OF inv, of j a] unfolding t by (auto simp: go_maps nth_append split: if_splits)
  next
    fix a
    assume a: "a < length (syn_watchdogs ?t)" "\<not> wd_stopped (syn_watchdogs ?t ! a)"
    show "map_of (syn_streams ?t) (wd_stream (syn_watchdogs ?t ! a)) = Some a"
    proof (cases "a = length (syn_watchdogs t)")
      case False
      then have "a < length (syn_watchdogs t)" "map_of (syn_streams t) (wd_stream (syn_watchdogs t ! a)) = Some a"
        using a sync_invD(2) [OF inv, of a] unfolding t by (auto simp: nth_append)
      then show ?thesis using new unfolding t by (auto simp: go_maps nth_append)
    qed (simp add: t go_maps)
  qed
next
  case False
  then have "sync_OnStreamRequest i rq t = t"
    by (auto simp: sync_OnStreamRequest_def split: option.splits sum.splits)
  then show ?thesis using inv by simp
qed

lemma sync_inv_closed:
  assumes inv: "sync_inv opened t"
  shows "\<exists>t'. sync_OnStreamClosed i t = Inr t' \<and> sync_inv (removeAll i opened) t'"
proof (cases "map_of (syn_streams t) i")
  case None
  let ?t = "t\<lparr>syn_streams := gdel i (syn_streams t)\<rparr>"
  have same: "map_of (gdel i (syn_streams t)) j = map_of (syn_streams t) j" for j using None by (simp add: go_maps)
  have "sync_inv (removeAll i opened) ?t"
    by (rule sync_invI) (use None sync_invD [OF inv] in \<open>auto simp: same\<close>)
  then show ?thesis using None by (auto simp: sync_OnStreamClosed_def)
next
  case (Some a)
  have a: "a < length (syn_watchdogs t)" "wd_stream (syn_watchdogs t ! a) = i" "\<not> wd_stopped (syn_watchdogs t ! a)"
    using sync_invD(1) [OF inv Some] by auto
  let ?w = "(syn_watchdogs t ! a)\<lparr>wd_stopped := True\<rparr>"
  let ?t = "t\<lparr>syn_streams := gdel i (syn_streams t), syn_watchdogs := (syn_watchdogs t)[a := ?w]\<rparr>"
  have "sync_inv (removeAll i opened) ?t"
  proof (rule sync_invI)
    fix j b
    assume "map_of (syn_streams ?t) j = Some b"
    then have j: "j \<noteq> i" "map_of (syn_streams t) j = Some b" by (auto simp: go_maps split: if_splits)
    then have "b \<noteq> a" using sync_invD(1) [OF inv j(2)] a(2) by auto
    then show "j \<in> set (removeAll i opened) \<and> b < length (syn_watchdogs ?t) \<and> wd_stream (syn_watchdogs ?t ! b) = j \<and>
        \<not> wd_stopped (syn_watchdogs ?t ! b)"
      using j sync_invD(1) [OF inv j(2)] by simp
  next
    fix b
    assume b: "b < length (syn_watchdogs ?t)" "\<not> wd_stopped (syn_watchdogs ?t ! b)"
    then have "b \<noteq> a" using a(1) by auto
    then have "map_of (syn_streams t) (wd_stream (syn_watchdogs t ! b)) = Some b" using b sync_invD(2) [OF inv, of b] by simp
    then show "map_of (syn_streams ?t) (wd_stream (syn_watchdogs ?t ! b)) = Some b"
      using \<open>b \<noteq> a\<close> Some by (auto simp: go_maps)
  qed
  then show ?thesis using Some a(3) by (simp add: sync_OnStreamClosed_def Let_def)
qed

text \<open>A state has counters; a stopped one has a time of disconnection.\<close>

definition state_ok :: "streamState \<Rightarrow> bool" where
  "state_ok st \<longleftrightarrow> (\<exists>status tot. sub_Status (ss_subscription st) = Some status \<and> st_Total status = Some tot) \<and>
     (ss_stop st \<longrightarrow> sub_DisconnectTime (ss_subscription st) \<noteq> None)"

definition status_inv :: "int list \<Rightarrow> dataplaneStatusTracker \<Rightarrow> bool" where
  "status_inv opened t \<longleftrightarrow>
     (\<forall>i. (map_of (dst_streams t) i \<noteq> None) = (i \<in> set opened)) \<and>
     (\<forall>i a. map_of (dst_streams t) i = Some a \<longrightarrow> a < length (dst_states t) \<and> \<not> ss_stop (dst_states t ! a)) \<and>
     (\<forall>i j a. map_of (dst_streams t) i = Some a \<longrightarrow> map_of (dst_streams t) j = Some a \<longrightarrow> i = j) \<and>
     (\<forall>a. a < length (dst_states t) \<longrightarrow> state_ok (dst_states t ! a)) \<and>
     distinct (map (sub_Id \<circ> ss_subscription) (dst_states t)) \<and>
     distinct (map snk_accessor (dst_sinks t)) \<and>
     (\<forall>a. a \<in> snk_accessor ` set (dst_sinks t) \<longleftrightarrow> a < length (dst_states t) \<and> ss_dataplaneId (dst_states t ! a) \<noteq> no_key) \<and>
     (\<forall>snk \<in> set (dst_sinks t). \<not> snk_running snk \<longrightarrow> ss_stop (dst_states t ! snk_accessor snk))"

lemma status_invI:
  assumes "\<And>i. (map_of (dst_streams t) i \<noteq> None) = (i \<in> set opened)"
    and "\<And>i a. map_of (dst_streams t) i = Some a \<Longrightarrow> a < length (dst_states t) \<and> \<not> ss_stop (dst_states t ! a)"
    and "\<And>i j a. map_of (dst_streams t) i = Some a \<Longrightarrow> map_of (dst_streams t) j = Some a \<Longrightarrow> i = j"
    and "\<And>a. a < length (dst_states t) \<Longrightarrow> state_ok (dst_states t ! a)"
    and "distinct (map (sub_Id \<circ> ss_subscription) (dst_states t))"
    and "distinct (map snk_accessor (dst_sinks t))"
    and "\<And>a. a \<in> snk_accessor ` set (dst_sinks t) \<longleftrightarrow> a < length (dst_states t) \<and> ss_dataplaneId (dst_states t ! a) \<noteq> no_key"
    and "\<And>snk. snk \<in> set (dst_sinks t) \<Longrightarrow> \<not> snk_running snk \<Longrightarrow> ss_stop (dst_states t ! snk_accessor snk)"
  shows "status_inv opened t"
  unfolding status_inv_def
proof (intro conjI allI impI ballI)
qed (erule (1) assms(8) | erule (1) assms(3) | erule assms(4) | rule assms(1,5-7) | erule assms(2) [THEN conjunct1] | erule assms(2) [THEN conjunct2])+

lemma status_invD:
  assumes "status_inv opened t"
  shows "(map_of (dst_streams t) i \<noteq> None) = (i \<in> set opened)"
    and "map_of (dst_streams t) i = Some a \<Longrightarrow> a < length (dst_states t) \<and> \<not> ss_stop (dst_states t ! a)"
    and "map_of (dst_streams t) i = Some a \<Longrightarrow> map_of (dst_streams t) j = Some a \<Longrightarrow> i = j"
    and "a < length (dst_states t) \<Longrightarrow> state_ok (dst_states t ! a)"
    and "distinct (map (sub_Id \<circ> ss_subscription) (dst_states t))"
    and "distinct (map snk_accessor (dst_sinks t))"
    and "a \<in> snk_accessor ` set (dst_sinks t) \<longleftrightarrow> a < length (dst_states t) \<and> ss_dataplaneId (dst_states t ! a) \<noteq> no_key"
    and "snk \<in> set (dst_sinks t) \<Longrightarrow> \<not> snk_running snk \<Longrightarrow> ss_stop (dst_states t ! snk_accessor snk)"
proof -
  note c = assms [unfolded status_inv_def]
  show "(map_of (dst_streams t) i \<noteq> None) = (i \<in> set opened)" by (rule c [THEN conjunct1, rule_format])
  show "map_of (dst_streams t) i = Some a \<Longrightarrow> a < length (dst_states t) \<and> \<not> ss_stop (dst_states t ! a)"
    by (rule c [THEN conjunct2, THEN conjunct1, rule_format])
  note c = c [THEN conjunct2, THEN conjunct2]
  show "map_of (dst_streams t) i = Some a \<Longrightarrow> map_of (dst_streams t) j = Some a \<Longrightarrow> i = j"
    by (rule c [THEN conjunct1, rule_format])
  show "a < length (dst_states t) \<Longrightarrow> state_ok (dst_states t ! a)"
    by (rule c [THEN conjunct2, THEN conjunct1, rule_format])
  note c = c [THEN conjunct2, THEN conjunct2]
  show "distinct (map (sub_Id \<circ> ss_subscription) (dst_states t))" by (rule c [THEN conjunct1])
  show "distinct (map snk_accessor (dst_sinks t))" by (rule c [THEN conjunct2, THEN conjunct1])
  note c = c [THEN conjunct2, THEN conjunct2]
  show "a \<in> snk_accessor ` set (dst_sinks t) \<longleftrightarrow> a < length (dst_states t) \<and> ss_dataplaneId (dst_states t ! a) \<noteq> no_key"
    by (rule c [THEN conjunct1, rule_format])
  show "snk \<in> set (dst_sinks t) \<Longrightarrow> \<not> snk_running snk \<Longrightarrow> ss_stop (dst_states t ! snk_accessor snk)"
    by (rule c [THEN conjunct2, rule_format])
qed

lemma status_inv_open:
  assumes inv: "status_inv opened t" and i: "i \<notin> set opened" and uuid: "uuid \<notin> sub_Id ` ss_subscription ` set (dst_states t)"
  shows "status_inv (i # opened) (status_OnStreamOpen uuid inst now i t)"
proof -
  let ?t = "status_OnStreamOpen uuid inst now i t" and ?n = "length (dst_states t)"
  let ?st = "\<lparr>ss_stop = False, ss_dataplaneId = no_key, ss_subscription =
    \<lparr>sub_Id = uuid, sub_ControlPlaneInstanceId = inst, sub_ConnectTime = Some now, sub_DisconnectTime = None,
     sub_Status = Some NewSubscriptionStatus\<rparr>\<rparr>"
  have t: "dst_streams ?t = gput i ?n (dst_streams t)" "dst_states ?t = dst_states t @ [?st]" "dst_sinks ?t = dst_sinks t"
    by (simp_all add: status_OnStreamOpen_def Let_def)
  have new: "map_of (dst_streams t) i = None" using status_invD(1) [OF inv, of i] i by simp
  have range: "a < ?n" if "map_of (dst_streams t) j = Some a" for j a using status_invD(2) [OF inv that] by simp
  have acc: "snk_accessor snk < ?n" if "snk \<in> set (dst_sinks t)" for snk using status_invD(7) [OF inv] that by blast
  show ?thesis
  proof (rule status_invI)
    show "(map_of (dst_streams ?t) j \<noteq> None) = (j \<in> set (i # opened))" for j
      using status_invD(1) [OF inv, of j] by (auto simp: t go_maps)
    show "a < length (dst_states ?t) \<and> \<not> ss_stop (dst_states ?t ! a)" if "map_of (dst_streams ?t) j = Some a" for j a
      using that status_invD(2) [OF inv, of j a] by (auto simp: t go_maps nth_append split: if_splits)
    show "j = k" if "map_of (dst_streams ?t) j = Some a" "map_of (dst_streams ?t) k = Some a" for j k a
      using that status_invD(3) [OF inv, of j a k] range [of j a] range [of k a] by (auto simp: t go_maps split: if_splits)
    show "state_ok (dst_states ?t ! a)" if "a < length (dst_states ?t)" for a
      using that status_invD(4) [OF inv, of a]
      by (cases "a = ?n") (auto simp: t nth_append state_ok_def NewSubscriptionStatus_def)
    show "distinct (map (sub_Id \<circ> ss_subscription) (dst_states ?t))"
      using status_invD(5) [OF inv] uuid by (auto simp: t image_image)
    show "distinct (map snk_accessor (dst_sinks ?t))" using status_invD(6) [OF inv] by (simp add: t)
    show "a \<in> snk_accessor ` set (dst_sinks ?t) \<longleftrightarrow> a < length (dst_states ?t) \<and> ss_dataplaneId (dst_states ?t ! a) \<noteq> no_key" for a
      using status_invD(7) [OF inv, of a] by (auto simp: t nth_append)
    show "ss_stop (dst_states ?t ! snk_accessor snk)" if "snk \<in> set (dst_sinks ?t)" "\<not> snk_running snk" for snk
      using that status_invD(8) [OF inv, of snk] acc [of snk] by (auto simp: t nth_append)
  qed
qed

text \<open>Changing the state of an open stream; \<open>started\<close> is the sink of a stream that is identified now.\<close>

lemma status_inv_update:
  assumes inv: "status_inv opened t" and a: "map_of (dst_streams t) i = Some a"
    and st: "\<not> ss_stop st" "sub_Id (ss_subscription st) = sub_Id (ss_subscription (dst_states t ! a))" "state_ok st"
    and started: "if ss_dataplaneId st = ss_dataplaneId (dst_states t ! a) then started = []
      else ss_dataplaneId (dst_states t ! a) = no_key \<and> ss_dataplaneId st \<noteq> no_key \<and>
        started = [\<lparr>snk_accessor = a, snk_lastStoredState = None, snk_running = True\<rparr>]"
  shows "status_inv opened (t\<lparr>dst_states := (dst_states t)[a := st], dst_sinks := dst_sinks t @ started\<rparr>)"
    (is "status_inv opened ?t")
proof -
  have len: "a < length (dst_states t)" using status_invD(2) [OF inv a] by simp
  have t: "dst_streams ?t = dst_streams t" "dst_states ?t = (dst_states t)[a := st]" "dst_sinks ?t = dst_sinks t @ started"
    by simp_all
  have ids: "map (sub_Id \<circ> ss_subscription) ((dst_states t)[a := st]) = map (sub_Id \<circ> ss_subscription) (dst_states t)"
    using st(2) len by (metis comp_apply list_update_id map_update nth_map)
  show ?thesis
  proof (rule status_invI)
    show "b < length (dst_states ?t) \<and> \<not> ss_stop (dst_states ?t ! b)" if "map_of (dst_streams ?t) j = Some b" for j b
      using that status_invD(2) [OF inv, of j b] st(1) by (cases "a = b") (auto simp: t)
    show "state_ok (dst_states ?t ! b)" if "b < length (dst_states ?t)" for b
      using that status_invD(4) [OF inv, of b] st(3) len by (auto simp: t nth_list_update)
    show "distinct (map (sub_Id \<circ> ss_subscription) (dst_states ?t))" using status_invD(5) [OF inv] ids by (simp add: t)
    show "distinct (map snk_accessor (dst_sinks ?t))"
      using status_invD(6) [OF inv] status_invD(7) [OF inv, of a] started by (auto simp: t split: if_splits)
    show "b \<in> snk_accessor ` set (dst_sinks ?t) \<longleftrightarrow> b < length (dst_states ?t) \<and> ss_dataplaneId (dst_states ?t ! b) \<noteq> no_key" for b
      using status_invD(7) [OF inv, of b] started len by (auto simp: t nth_list_update split: if_splits)
    show "ss_stop (dst_states ?t ! snk_accessor snk)" if "snk \<in> set (dst_sinks ?t)" "\<not> snk_running snk" for snk
    proof -
      have "snk \<in> set (dst_sinks t)" using that started by (auto split: if_splits)
      then have s: "ss_stop (dst_states t ! snk_accessor snk)" using status_invD(8) [OF inv] that(2) by blast
      then have "snk_accessor snk \<noteq> a" using status_invD(2) [OF inv a] by auto
      then show ?thesis using s by (simp add: t)
    qed
  qed (use status_invD(1,3) [OF inv] in \<open>simp_all add: t\<close>)
qed

lemma count_message_ok:
  assumes "state_ok st"
  shows "\<exists>sub. count_message now typeUrl f (ss_subscription st) = Inr sub \<and> sub_Id sub = sub_Id (ss_subscription st) \<and>
    state_ok (st\<lparr>ss_subscription := sub\<rparr>)"
proof -
  obtain status tot where "sub_Status (ss_subscription st) = Some status" "st_Total status = Some tot"
    using assms by (auto simp: state_ok_def)
  then show ?thesis using assms by (auto simp: count_message_def state_ok_def StatsOf_def)
qed

lemma status_inv_response:
  assumes inv: "status_inv opened t" and i: "i \<in> set opened"
  shows "\<exists>t'. status_OnStreamResponse now i typeUrl t = Inr t' \<and> status_inv opened t' \<and>
    dst_sinks t' = dst_sinks t \<and> length (dst_states t') = length (dst_states t) \<and>
    (\<forall>b. sub_Id (ss_subscription (dst_states t' ! b)) = sub_Id (ss_subscription (dst_states t ! b)) \<and>
         ss_dataplaneId (dst_states t' ! b) = ss_dataplaneId (dst_states t ! b))"
proof -
  obtain a where a: "map_of (dst_streams t) i = Some a" using status_invD(1) [OF inv, of i] i by auto
  have st: "a < length (dst_states t)" "\<not> ss_stop (dst_states t ! a)" using status_invD(2) [OF inv a] by auto
  obtain sub where sub: "count_message now typeUrl sent (ss_subscription (dst_states t ! a)) = Inr sub"
    "sub_Id sub = sub_Id (ss_subscription (dst_states t ! a))" "state_ok ((dst_states t ! a)\<lparr>ss_subscription := sub\<rparr>)"
    using count_message_ok [OF status_invD(4) [OF inv st(1)], of now typeUrl sent] by blast
  let ?t = "t\<lparr>dst_states := (dst_states t)[a := (dst_states t ! a)\<lparr>ss_subscription := sub\<rparr>]\<rparr>"
  have "status_inv opened (t\<lparr>dst_states := (dst_states t)[a := (dst_states t ! a)\<lparr>ss_subscription := sub\<rparr>], dst_sinks := dst_sinks t @ []\<rparr>)"
    using st sub by (intro status_inv_update [OF inv a]) simp_all
  then have "status_inv opened ?t" by simp
  moreover have "status_OnStreamResponse now i typeUrl t = Inr ?t" using a sub(1) by (simp add: status_OnStreamResponse_def)
  moreover have "sub_Id (ss_subscription (dst_states ?t ! b)) = sub_Id (ss_subscription (dst_states t ! b)) \<and>
      ss_dataplaneId (dst_states ?t ! b) = ss_dataplaneId (dst_states t ! b)" for b
    using sub(2) st(1) by (cases "a = b") auto
  ultimately show ?thesis by (intro exI [of _ ?t]) simp
qed

text \<open>The key of a parsed proxy id is not empty.\<close>

lemma ParseProxyId_key:
  "ParseProxyId n = Inr pid \<Longrightarrow> \<lparr>key_Mesh = pid_Mesh pid, key_Name = pid_Name pid\<rparr> \<noteq> no_key"
  by (auto simp: ParseProxyId_def ParseProxyIdFromString_Inr no_key_def split: option.splits)

lemma status_inv_request:
  assumes inv: "status_inv opened t" and i: "i \<in> set opened"
  shows "\<exists>t' started. status_OnStreamRequest now i rq t = Inr t' \<and> status_inv opened t' \<and>
    dst_sinks t' = dst_sinks t @ started \<and> (\<forall>snk \<in> set started. snk_lastStoredState snk = None) \<and>
    length (dst_states t') = length (dst_states t) \<and>
    (\<forall>b. sub_Id (ss_subscription (dst_states t' ! b)) = sub_Id (ss_subscription (dst_states t ! b)) \<and>
         (b \<in> snk_accessor ` set (dst_sinks t) \<longrightarrow> ss_dataplaneId (dst_states t' ! b) = ss_dataplaneId (dst_states t ! b)))"
proof -
  obtain a where a: "map_of (dst_streams t) i = Some a" using status_invD(1) [OF inv, of i] i by auto
  let ?old = "dst_states t ! a"
  have old: "a < length (dst_states t)" "\<not> ss_stop ?old" using status_invD(2) [OF inv a] by auto
  have ok: "state_ok ?old" by (rule status_invD(4) [OF inv old(1)])
  obtain st started where st: "(if ss_dataplaneId ?old = no_key
        then (case ParseProxyId (rq_Node rq) of
                Inr pid \<Rightarrow> (?old\<lparr>ss_dataplaneId := \<lparr>key_Mesh = pid_Mesh pid, key_Name = pid_Name pid\<rparr>\<rparr>,
                   [\<lparr>snk_accessor = a, snk_lastStoredState = None, snk_running = True\<rparr>])
              | Inl err \<Rightarrow> (?old, []))
        else (?old, [])) = (st, started)" by fastforce
  have sub_st: "ss_subscription st = ss_subscription ?old" "ss_stop st = ss_stop ?old"
    and started: "if ss_dataplaneId st = ss_dataplaneId ?old then started = []
      else ss_dataplaneId ?old = no_key \<and> ss_dataplaneId st \<noteq> no_key \<and>
        started = [\<lparr>snk_accessor = a, snk_lastStoredState = None, snk_running = True\<rparr>]"
    using st ParseProxyId_key [of "rq_Node rq"] by (auto split: if_splits sum.splits)
  have ok': "state_ok st" using ok sub_st by (simp add: state_ok_def)
  have "\<exists>sub. (if rq_ResponseNonce rq \<noteq> ''''
        then count_message now (rq_TypeUrl rq) (if rq_ErrorDetail rq \<noteq> None then rejected else acknowledged) (ss_subscription st)
        else Inr (ss_subscription st)) = Inr sub \<and> sub_Id sub = sub_Id (ss_subscription st) \<and> state_ok (st\<lparr>ss_subscription := sub\<rparr>)"
    using count_message_ok [OF ok'] ok' by auto
  then obtain sub where sub: "(if rq_ResponseNonce rq \<noteq> ''''
        then count_message now (rq_TypeUrl rq) (if rq_ErrorDetail rq \<noteq> None then rejected else acknowledged) (ss_subscription st)
        else Inr (ss_subscription st)) = Inr sub" "sub_Id sub = sub_Id (ss_subscription st)" "state_ok (st\<lparr>ss_subscription := sub\<rparr>)"
    by blast
  let ?t = "t\<lparr>dst_states := (dst_states t)[a := st\<lparr>ss_subscription := sub\<rparr>], dst_sinks := dst_sinks t @ started\<rparr>"
  have "status_inv opened ?t"
    using old sub sub_st started by (intro status_inv_update [OF inv a]) simp_all
  moreover have "status_OnStreamRequest now i rq t = Inr ?t"
    using a by (simp only: status_OnStreamRequest_def option.case Let_def st prod.case sub(1) bindE_simps)
  moreover have "sub_Id (ss_subscription (dst_states ?t ! b)) = sub_Id (ss_subscription (dst_states t ! b)) \<and>
      (b \<in> snk_accessor ` set (dst_sinks t) \<longrightarrow> ss_dataplaneId (dst_states ?t ! b) = ss_dataplaneId (dst_states t ! b))" for b
    using sub(2) sub_st old(1) started status_invD(7) [OF inv, of b] by (cases "a = b") (auto split: if_splits)
  moreover have "\<forall>snk \<in> set started. snk_lastStoredState snk = None" using started by (auto split: if_splits)
  ultimately show ?thesis by (intro exI [of _ ?t] exI [of _ started]) simp
qed

lemma status_inv_closed:
  assumes inv: "status_inv opened t" and i: "i \<in> set opened"
  shows "\<exists>t'. status_OnStreamClosed now i t = Inr t' \<and> status_inv (removeAll i opened) t' \<and>
    dst_sinks t' = dst_sinks t \<and> length (dst_states t') = length (dst_states t) \<and>
    (\<forall>b. sub_Id (ss_subscription (dst_states t' ! b)) = sub_Id (ss_subscription (dst_states t ! b)) \<and>
         ss_dataplaneId (dst_states t' ! b) = ss_dataplaneId (dst_states t ! b))"
proof -
  obtain a where a: "map_of (dst_streams t) i = Some a" using status_invD(1) [OF inv, of i] i by auto
  have len: "a < length (dst_states t)" "\<not> ss_stop (dst_states t ! a)" using status_invD(2) [OF inv a] by auto
  let ?sub = "(ss_subscription (dst_states t ! a))\<lparr>sub_DisconnectTime := Some now\<rparr>"
  let ?st = "(dst_states t ! a)\<lparr>ss_subscription := ?sub, ss_stop := True\<rparr>"
  let ?t = "t\<lparr>dst_streams := gdel i (dst_streams t), dst_states := (dst_states t)[a := ?st]\<rparr>"
  have other: "map_of (gdel i (dst_streams t)) j = Some b \<Longrightarrow> j \<noteq> i \<and> b \<noteq> a \<and> map_of (dst_streams t) j = Some b" for j b
    using status_invD(3) [OF inv, of j b i] a by (auto simp: go_maps split: if_splits)
  have ids: "map (sub_Id \<circ> ss_subscription) ((dst_states t)[a := ?st]) = map (sub_Id \<circ> ss_subscription) (dst_states t)"
    using len by (simp add: map_update list_update_same_conv)
  have "status_inv (removeAll i opened) ?t"
  proof (rule status_invI)
    show "(map_of (dst_streams ?t) j \<noteq> None) = (j \<in> set (removeAll i opened))" for j
      using status_invD(1) [OF inv, of j] by (auto simp: go_maps)
    show "b < length (dst_states ?t) \<and> \<not> ss_stop (dst_states ?t ! b)" if "map_of (dst_streams ?t) j = Some b" for j b
      using that other [of j b] status_invD(2) [OF inv, of j b] by simp
    show "j = k" if "map_of (dst_streams ?t) j = Some b" "map_of (dst_streams ?t) k = Some b" for j k b
      using that other [of j b] other [of k b] status_invD(3) [OF inv, of j b k] by simp
    show "state_ok (dst_states ?t ! b)" if "b < length (dst_states ?t)" for b
      using that status_invD(4) [OF inv, of b] len by (auto simp: nth_list_update state_ok_def)
    show "distinct (map (sub_Id \<circ> ss_subscription) (dst_states ?t))" using status_invD(5) [OF inv] ids by simp
    show "distinct (map snk_accessor (dst_sinks ?t))" using status_invD(6) [OF inv] by simp
    show "b \<in> snk_accessor ` set (dst_sinks ?t) \<longleftrightarrow> b < length (dst_states ?t) \<and> ss_dataplaneId (dst_states ?t ! b) \<noteq> no_key" for b
      using status_invD(7) [OF inv, of b] len by (auto simp: nth_list_update)
    show "ss_stop (dst_states ?t ! snk_accessor snk)" if "snk \<in> set (dst_sinks ?t)" "\<not> snk_running snk" for snk
      using that status_invD(8) [OF inv, of snk] len by (cases "snk_accessor snk = a") auto
  qed
  moreover have "status_OnStreamClosed now i t = Inr ?t"
    using a len by (simp add: status_OnStreamClosed_def Let_def)
  moreover have "sub_Id (ss_subscription (dst_states ?t ! b)) = sub_Id (ss_subscription (dst_states t ! b)) \<and>
      ss_dataplaneId (dst_states ?t ! b) = ss_dataplaneId (dst_states t ! b)" for b
    using len(1) by (cases "a = b") auto
  ultimately show ?thesis by (intro exI [of _ ?t]) simp
qed

lemma status_inv_sink:
  assumes inv: "status_inv opened t" and k: "k < length (dst_sinks t)"
    and acc: "snk_accessor snk = snk_accessor (dst_sinks t ! k)"
    and stop: "\<not> snk_running snk \<Longrightarrow> ss_stop (dst_states t ! snk_accessor snk)"
  shows "status_inv opened (t\<lparr>dst_sinks := (dst_sinks t)[k := snk]\<rparr>)"
proof -
  have accs: "map snk_accessor ((dst_sinks t)[k := snk]) = map snk_accessor (dst_sinks t)"
    using k acc by (simp add: map_update list_update_same_conv)
  then have acc_set: "snk_accessor ` set ((dst_sinks t)[k := snk]) = snk_accessor ` set (dst_sinks t)"
    by (metis image_set)
  show ?thesis
  proof (rule status_invI)
    show "ss_stop (dst_states (t\<lparr>dst_sinks := (dst_sinks t)[k := snk]\<rparr>) ! snk_accessor x)"
      if "x \<in> set (dst_sinks (t\<lparr>dst_sinks := (dst_sinks t)[k := snk]\<rparr>))" "\<not> snk_running x" for x
      using that stop status_invD(8) [OF inv, of x] set_update_subset_insert [of "dst_sinks t" k snk] by auto
  qed (use status_invD [OF inv] accs acc_set in \<open>simp_all\<close>)
qed

section \<open>Invariant of the system\<close>

definition system_ok :: "'s xds_system \<Rightarrow> bool" where
  "system_ok sys \<longleftrightarrow> status_inv (sys_open sys) (sys_status sys) \<and> sync_inv (sys_open sys) (sys_sync sys) \<and>
     (\<forall>i \<in> set (sys_open sys). i \<le> sys_streamCount sys)"

text \<open>The part of a sink that survives: every event keeps the id and, once known, the key of a stream.\<close>

definition same_streams :: "dataplaneStatusTracker \<Rightarrow> dataplaneStatusTracker \<Rightarrow> bool" where
  "same_streams t t' \<longleftrightarrow> length (dst_states t) \<le> length (dst_states t') \<and>
     (\<forall>b < length (dst_states t).
        sub_Id (ss_subscription (dst_states t' ! b)) = sub_Id (ss_subscription (dst_states t ! b)) \<and>
        (b \<in> snk_accessor ` set (dst_sinks t) \<longrightarrow> ss_dataplaneId (dst_states t' ! b) = ss_dataplaneId (dst_states t ! b)))"

lemma system_ok_initial: "system_ok (initial_system s)"
  by (simp add: system_ok_def initial_system_def status_inv_def sync_inv_def)

lemma sink_round_fields:
  "sys_open (sink_round upsert now k returns sys) = sys_open sys"
  "sys_sync (sink_round upsert now k returns sys) = sys_sync sys"
  "sys_streamCount (sink_round upsert now k returns sys) = sys_streamCount sys"
  by (simp_all add: sink_round_def Let_def split: prod.splits)

lemma sink_round_ok:
  assumes ok: "system_ok sys" and k: "k < length (dst_sinks (sys_status sys))"
    and stop: "returns \<Longrightarrow> ss_stop (dst_states (sys_status sys) ! snk_accessor (dst_sinks (sys_status sys) ! k))"
  shows "system_ok (sink_round upsert now k returns sys)"
proof -
  obtain stored s where f: "flush (upsert now) (dst_states (sys_status sys) ! snk_accessor (dst_sinks (sys_status sys) ! k))
      (snk_lastStoredState (dst_sinks (sys_status sys) ! k)) (sys_store sys) = (stored, s)" by fastforce
  have "status_inv (sys_open sys) ((sys_status sys)\<lparr>dst_sinks := (dst_sinks (sys_status sys))
      [k := (dst_sinks (sys_status sys) ! k)\<lparr>snk_lastStoredState := stored, snk_running := \<not> returns\<rparr>]\<rparr>)"
    using ok k stop by (intro status_inv_sink) (simp_all add: system_ok_def)
  then show ?thesis using ok f by (simp add: system_ok_def sink_round_fields) (simp add: sink_round_def Let_def)
qed

lemma xds_step_ok:
  assumes ok: "system_ok sys" and "enabled e sys"
  shows "\<exists>sys'. xds_step upsert inst e sys = Inr sys' \<and> system_ok sys'"
  using assms(2)
proof (cases e)
  case (StreamOpen uuid now)
  let ?i = "sys_streamCount sys + 1"
  have "?i \<notin> set (sys_open sys)" using ok by (auto simp: system_ok_def)
  then have "status_inv (?i # sys_open sys) (status_OnStreamOpen uuid inst now ?i (sys_status sys))"
    using ok assms(2) StreamOpen by (intro status_inv_open) (simp_all add: system_ok_def)
  then show ?thesis using ok StreamOpen by (auto simp: system_ok_def Let_def sync_inv_open)
next
  case (StreamRequest i rq now)
  then have i: "i \<in> set (sys_open sys)" using assms(2) by simp
  obtain t' where "status_OnStreamRequest now i rq (sys_status sys) = Inr t'" "status_inv (sys_open sys) t'"
    using status_inv_request [OF _ i, of "sys_status sys" now rq] ok by (auto simp: system_ok_def)
  then show ?thesis using ok StreamRequest sync_inv_request [OF _ i, of "sys_sync sys" rq]
    by (simp add: chain_OnStreamRequest_def Let_def system_ok_def)
next
  case (StreamResponse i typeUrl now)
  then have i: "i \<in> set (sys_open sys)" using assms(2) by simp
  obtain t' where "status_OnStreamResponse now i typeUrl (sys_status sys) = Inr t'" "status_inv (sys_open sys) t'"
    using status_inv_response [OF _ i, of "sys_status sys" now typeUrl] ok by (auto simp: system_ok_def)
  then show ?thesis using ok StreamResponse by (simp add: system_ok_def)
next
  case (StreamClosed i now)
  then have i: "i \<in> set (sys_open sys)" using assms(2) by simp
  obtain t' where t: "status_OnStreamClosed now i (sys_status sys) = Inr t'" "status_inv (removeAll i (sys_open sys)) t'"
    using status_inv_closed [OF _ i, of "sys_status sys" now] ok by (auto simp: system_ok_def)
  obtain y where y: "sync_OnStreamClosed i (sys_sync sys) = Inr y" "sync_inv (removeAll i (sys_open sys)) y"
    using sync_inv_closed [of "sys_open sys" "sys_sync sys" i] ok by (auto simp: system_ok_def)
  show ?thesis using ok StreamClosed t y by (simp add: chain_OnStreamClosed_def system_ok_def)
next
  case (SinkTick k now)
  then show ?thesis using sink_round_ok [OF ok, of k False upsert now] assms(2) by simp
next
  case (SinkStop k now)
  then show ?thesis using sink_round_ok [OF ok, of k True upsert now] assms(2) by simp
qed

lemma reachable_ok: "xds_reachable upsert inst s sys \<Longrightarrow> system_ok sys"
proof (induction rule: xds_reachable.induct)
  case (xds_event sys e sys')
  then show ?case using xds_step_ok [of sys e upsert inst] by simp
qed (rule system_ok_initial)

text \<open>An event of the server leaves the store and the sinks alone, or starts a sink that has stored nothing.\<close>

lemma callback_streams:
  assumes ok: "system_ok sys" and en: "enabled e sys" and e: "\<nexists>k now. e = SinkTick k now \<or> e = SinkStop k now"
    and step: "xds_step upsert inst e sys = Inr sys'"
  shows "sys_store sys' = sys_store sys \<and> same_streams (sys_status sys) (sys_status sys') \<and>
    (\<exists>started. dst_sinks (sys_status sys') = dst_sinks (sys_status sys) @ started \<and>
       (\<forall>snk \<in> set started. snk_lastStoredState snk = None))"
proof (cases e)
  case (StreamOpen uuid now)
  then show ?thesis using step
    by (auto simp: same_streams_def status_OnStreamOpen_def Let_def nth_append)
next
  case (StreamRequest i rq now)
  then have "i \<in> set (sys_open sys)" using en by simp
  from status_inv_request [OF _ this, of "sys_status sys" now rq] ok
  obtain t' started where t: "status_OnStreamRequest now i rq (sys_status sys) = Inr t'"
    "dst_sinks t' = dst_sinks (sys_status sys) @ started" "\<forall>snk \<in> set started. snk_lastStoredState snk = None"
    "same_streams (sys_status sys) t'"
    unfolding system_ok_def same_streams_def by (metis order_refl)
  then have "sys_store sys' = sys_store sys" "sys_status sys' = t'"
    using step StreamRequest by (auto simp: chain_OnStreamRequest_def Let_def)
  then show ?thesis using t by blast
next
  case (StreamResponse i typeUrl now)
  then have "i \<in> set (sys_open sys)" using en by simp
  from status_inv_response [OF _ this, of "sys_status sys" now typeUrl] ok
  obtain t' where t: "status_OnStreamResponse now i typeUrl (sys_status sys) = Inr t'"
    "dst_sinks t' = dst_sinks (sys_status sys)" "same_streams (sys_status sys) t'"
    unfolding system_ok_def same_streams_def by (metis order_refl)
  then show ?thesis using step StreamResponse by auto
next
  case (StreamClosed i now)
  then have "i \<in> set (sys_open sys)" using en by simp
  from status_inv_closed [OF _ this, of "sys_status sys" now] ok
  obtain t' where t: "status_OnStreamClosed now i (sys_status sys) = Inr t'"
    "dst_sinks t' = dst_sinks (sys_status sys)" "same_streams (sys_status sys) t'"
    unfolding system_ok_def same_streams_def by (metis order_refl)
  then show ?thesis using step StreamClosed by (auto simp: chain_OnStreamClosed_def bindE_Inr)
qed (use e in auto)

section \<open>What the sinks store\<close>

text \<open>What a sink believes it stored is what the store holds for its stream.\<close>

definition sink_synced ::
  "('s \<Rightarrow> ResourceKey \<Rightarrow> string \<Rightarrow> DiscoverySubscription option) \<Rightarrow> 's \<Rightarrow> streamState \<Rightarrow> DiscoverySubscription option \<Rightarrow> bool" where
  "sink_synced lookup s st stored \<longleftrightarrow>
     (case stored of None \<Rightarrow> True
      | Some x \<Rightarrow> sub_Id x = sub_Id (ss_subscription st) \<and> lookup s (ss_dataplaneId st) (sub_Id x) = Some x)"

definition sinks_synced :: "('s \<Rightarrow> ResourceKey \<Rightarrow> string \<Rightarrow> DiscoverySubscription option) \<Rightarrow> 's xds_system \<Rightarrow> bool" where
  "sinks_synced lookup sys \<longleftrightarrow>
     (\<forall>snk \<in> set (dst_sinks (sys_status sys)).
        sink_synced lookup (sys_store sys) (dst_states (sys_status sys) ! snk_accessor snk) (snk_lastStoredState snk))"

lemma sinks_synced_callback:
  assumes ok: "system_ok sys" and synced: "sinks_synced lookup sys" and store: "sys_store sys' = sys_store sys"
    and same: "same_streams (sys_status sys) (sys_status sys')"
    and sinks: "dst_sinks (sys_status sys') = dst_sinks (sys_status sys) @ started" "\<forall>snk \<in> set started. snk_lastStoredState snk = None"
  shows "sinks_synced lookup sys'"
  unfolding sinks_synced_def
proof
  fix snk
  assume snk: "snk \<in> set (dst_sinks (sys_status sys'))"
  show "sink_synced lookup (sys_store sys') (dst_states (sys_status sys') ! snk_accessor snk) (snk_lastStoredState snk)"
  proof (cases "snk \<in> set (dst_sinks (sys_status sys))")
    case True
    then have "snk_accessor snk < length (dst_states (sys_status sys))"
      using ok status_invD(7) [of "sys_open sys" "sys_status sys" "snk_accessor snk"] by (auto simp: system_ok_def)
    then have st: "sub_Id (ss_subscription (dst_states (sys_status sys') ! snk_accessor snk)) =
        sub_Id (ss_subscription (dst_states (sys_status sys) ! snk_accessor snk))"
      "ss_dataplaneId (dst_states (sys_status sys') ! snk_accessor snk) = ss_dataplaneId (dst_states (sys_status sys) ! snk_accessor snk)"
      using True same by (simp_all add: same_streams_def)
    have "sink_synced lookup (sys_store sys) (dst_states (sys_status sys) ! snk_accessor snk) (snk_lastStoredState snk)"
      using True synced by (simp add: sinks_synced_def)
    then show ?thesis by (simp only: sink_synced_def st store)
  next
    case False
    then show ?thesis using snk sinks by (auto simp: sink_synced_def)
  qed
qed

text \<open>The store of insights, as the sinks use it.\<close>

locale insight_store =
  fixes upsert :: "gotime \<Rightarrow> ResourceKey \<Rightarrow> DiscoverySubscription \<Rightarrow> 's \<Rightarrow> go_error option \<times> 's"
    and lookup :: "'s \<Rightarrow> ResourceKey \<Rightarrow> string \<Rightarrow> DiscoverySubscription option"
    and ok :: "'s \<Rightarrow> bool"
  assumes upsert_ok: "ok s \<Longrightarrow> upsert now key sub s = (e, s') \<Longrightarrow> ok s'"
    and upsert_stored: "ok s \<Longrightarrow> upsert now key sub s = (None, s') \<Longrightarrow>
      lookup s' key' sid = (if key' = key \<and> sid = sub_Id sub then Some sub else lookup s key' sid)"
    and upsert_failed: "ok s \<Longrightarrow> upsert now key sub s = (Some err, s') \<Longrightarrow> lookup s' key' sid = lookup s key' sid"
begin

lemma flush_law:
  assumes "ok s" and synced: "sink_synced lookup s st stored" and "flush (upsert now) st stored s = (stored', s')"
  shows "ok s'" and "sink_synced lookup s' st stored'"
    and "sid \<noteq> sub_Id (ss_subscription st) \<Longrightarrow> lookup s' key sid = lookup s key sid"
    and "fst (upsert now (ss_dataplaneId st) (ss_subscription st) s) = None \<Longrightarrow>
      lookup s' (ss_dataplaneId st) (sub_Id (ss_subscription st)) = Some (ss_subscription st)"
proof -
  let ?sub = "ss_subscription st" and ?key = "ss_dataplaneId st"
  obtain e s1 where u: "upsert now ?key ?sub s = (e, s1)" by fastforce
  consider (unchanged) "stored = Some ?sub" "stored' = stored" "s' = s"
    | (failed) err where "e = Some err" "stored' = stored" "s' = s1"
    | (stored) "e = None" "stored' = Some ?sub" "s' = s1"
    using assms(3) u by (auto simp: flush_def Let_def split: if_splits option.splits)
  then have "ok s' \<and> sink_synced lookup s' st stored' \<and>
      (sid \<noteq> sub_Id ?sub \<longrightarrow> lookup s' key sid = lookup s key sid) \<and>
      (e = None \<longrightarrow> lookup s' ?key (sub_Id ?sub) = Some ?sub)"
  proof cases
    case unchanged
    then show ?thesis using assms(1) synced by (auto simp: sink_synced_def)
  next
    case (failed err)
    then show ?thesis
      using upsert_ok [OF assms(1) u] upsert_failed [OF assms(1) u [unfolded failed(1)]] synced
      by (auto simp: sink_synced_def split: option.splits)
  next
    case stored
    then show ?thesis
      using upsert_ok [OF assms(1) u] upsert_stored [OF assms(1) u [unfolded stored(1)]]
      by (simp add: sink_synced_def)
  qed
  then show "ok s'" "sink_synced lookup s' st stored'" "sid \<noteq> sub_Id ?sub \<Longrightarrow> lookup s' key sid = lookup s key sid"
    "fst (upsert now ?key ?sub s) = None \<Longrightarrow> lookup s' ?key (sub_Id ?sub) = Some ?sub"
    using u by simp_all
qed

lemma sink_round_synced:
  assumes "ok (sys_store sys)" and "system_ok sys" and synced: "sinks_synced lookup sys"
    and k: "k < length (dst_sinks (sys_status sys))"
  shows "ok (sys_store (sink_round upsert now k returns sys))"
    and "sinks_synced lookup (sink_round upsert now k returns sys)"
proof -
  let ?t = "sys_status sys" and ?snk = "dst_sinks (sys_status sys) ! k"
  let ?st = "dst_states ?t ! snk_accessor ?snk"
  have inv: "status_inv (sys_open sys) ?t" using assms(2) by (simp add: system_ok_def)
  obtain stored s where f: "flush (upsert now) ?st (snk_lastStoredState ?snk) (sys_store sys) = (stored, s)" by fastforce
  have this_synced: "sink_synced lookup (sys_store sys) ?st (snk_lastStoredState ?snk)"
    using synced k by (simp add: sinks_synced_def)
  let ?snk' = "?snk\<lparr>snk_lastStoredState := stored, snk_running := \<not> returns\<rparr>"
  have r: "sink_round upsert now k returns sys = sys\<lparr>sys_status := ?t\<lparr>dst_sinks := (dst_sinks ?t)[k := ?snk']\<rparr>, sys_store := s\<rparr>"
    using f by (simp add: sink_round_def Let_def)
  show "ok (sys_store (sink_round upsert now k returns sys))" using flush_law(1) [OF assms(1) this_synced f] by (simp add: r)
  have "sink_synced lookup s (dst_states ?t ! snk_accessor x) (snk_lastStoredState x)" if x: "x \<in> set ((dst_sinks ?t)[k := ?snk'])" for x
  proof -
    obtain j where j: "j < length (dst_sinks ?t)" "x = (dst_sinks ?t)[k := ?snk'] ! j" using x by (auto simp: in_set_conv_nth)
    show ?thesis
    proof (cases "j = k")
      case True
      then show ?thesis using j flush_law(2) [OF assms(1) this_synced f] by simp
    next
      case False
      have xj: "x = dst_sinks ?t ! j" using j False by simp
      have acc: "snk_accessor x \<noteq> snk_accessor ?snk"
        using status_invD(6) [OF inv] j(1) k False by (simp add: xj nth_eq_iff_index_eq distinct_conv_nth)
      have len: "snk_accessor x < length (dst_states ?t)" "snk_accessor ?snk < length (dst_states ?t)"
        using status_invD(7) [OF inv, of "snk_accessor x"] status_invD(7) [OF inv, of "snk_accessor ?snk"] j(1) k
        by (simp_all add: xj)
      have "sub_Id (ss_subscription (dst_states ?t ! snk_accessor x)) \<noteq> sub_Id (ss_subscription ?st)"
        using status_invD(5) [OF inv] len acc by (simp add: distinct_conv_nth)
      moreover have "sink_synced lookup (sys_store sys) (dst_states ?t ! snk_accessor x) (snk_lastStoredState x)"
        using synced j(1) by (simp add: sinks_synced_def xj)
      ultimately show ?thesis
        using flush_law(3) [OF assms(1) this_synced f] by (auto simp: sink_synced_def split: option.splits)
    qed
  qed
  then show "sinks_synced lookup (sink_round upsert now k returns sys)" by (simp add: r sinks_synced_def)
qed

lemma reachable_synced:
  "xds_reachable upsert inst s sys \<Longrightarrow> ok s \<Longrightarrow> ok (sys_store sys) \<and> sinks_synced lookup sys"
proof (induction rule: xds_reachable.induct)
  case xds_initial
  then show ?case by (simp add: initial_system_def sinks_synced_def)
next
  case (xds_event sys e sys')
  note sys_ok = reachable_ok [OF xds_event(1)]
  have IH: "ok (sys_store sys)" "sinks_synced lookup sys" using xds_event by auto
  show ?case
  proof (cases "\<exists>k now. e = SinkTick k now \<or> e = SinkStop k now")
    case True
    then obtain k now returns where "sys' = sink_round upsert now k returns sys" "k < length (dst_sinks (sys_status sys))"
      using xds_event(2,3) by auto
    then show ?thesis using sink_round_synced [OF IH(1) sys_ok IH(2)] by simp
  next
    case False
    from callback_streams [OF sys_ok xds_event(2) False xds_event(3)] obtain started where
      "sys_store sys' = sys_store sys" "same_streams (sys_status sys) (sys_status sys')"
      "dst_sinks (sys_status sys') = dst_sinks (sys_status sys) @ started" "\<forall>snk \<in> set started. snk_lastStoredState snk = None"
      by blast
    then show ?thesis using sinks_synced_callback [OF sys_ok IH(2)] IH(1) by simp
  qed
qed

end

section \<open>The store of insights over the resource manager\<close>

lemma insight_type [simp]: "GetType \<lparr>Meta = m, Spec = DataplaneInsightSpec d\<rparr> = ''DataplaneInsight''"
  by (simp add: GetType_def)

lemma insight_zero: "zero_of ''DataplaneInsight'' \<in> set zero_specs" "spec_type (zero_of ''DataplaneInsight'') = ''DataplaneInsight''"
  by (simp_all add: zero_of_def zero_specs_def MeshType_def SecretType_def)

definition insight_key :: "ResourceKey \<Rightarrow> store_key" where
  "insight_key key = (''DataplaneInsight'', key_Name key, key_Mesh key)"

text \<open>The insight an upsert starts from: the stored one, or an empty one.\<close>

definition stored_insight :: "codec \<Rightarrow> memoryStore \<Rightarrow> ResourceKey \<Rightarrow> DataplaneInsight" where
  "stored_insight cd c key =
     (case mem_abs c (insight_key key) of
        Some rec \<Rightarrow> (case Spec (decode cd rec) of DataplaneInsightSpec d \<Rightarrow> d | _ \<Rightarrow> \<lparr>di_Subscriptions = []\<rparr>)
      | None \<Rightarrow> \<lparr>di_Subscriptions = []\<rparr>)"

definition stored_subscription :: "codec \<Rightarrow> memoryStore \<Rightarrow> ResourceKey \<Rightarrow> string \<Rightarrow> DiscoverySubscription option" where
  "stored_subscription cd c key sid = map_option snd (GetSubscription (Some (stored_insight cd c key)) sid)"

lemma decode_insight:
  assumes "mem_inv cd c" and rec: "mem_abs c (insight_key key) = Some rec"
  shows "decode cd rec = \<lparr>Meta = Some (MemoryMeta (record_meta rec)), Spec = DataplaneInsightSpec (stored_insight cd c key)\<rparr>"
    and "unmarshalRecord cd rec \<lparr>Meta = None, Spec = zero_of ''DataplaneInsight''\<rparr> = (None, decode cd rec)"
proof -
  have in_c: "rec \<in> set c" "rec_key rec = insight_key key" using mem_abs_key [OF rec] by auto
  have zero: "Spec \<lparr>Meta = None, Spec = zero_of ''DataplaneInsight''\<rparr> \<in> set zero_specs"
    "GetType \<lparr>Meta = None, Spec = zero_of ''DataplaneInsight''\<rparr> = rec_ResourceType rec"
    using insight_zero in_c(2) by (simp_all add: GetType_def rec_key_def insight_key_def)
  note u = unmarshal_decode [OF _ _ zero, of cd]
  show "unmarshalRecord cd rec \<lparr>Meta = None, Spec = zero_of ''DataplaneInsight''\<rparr> = (None, decode cd rec)"
    using u(1) in_c assms(1) by (simp add: mem_inv_def)
  have "spec_type (Spec (decode cd rec)) = ''DataplaneInsight''" "Meta (decode cd rec) = Some (MemoryMeta (record_meta rec))"
    using u(2,3) in_c assms(1) by (simp_all add: mem_inv_def GetType_def rec_key_def insight_key_def)
  then show "decode cd rec = \<lparr>Meta = Some (MemoryMeta (record_meta rec)), Spec = DataplaneInsightSpec (stored_insight cd c key)\<rparr>"
    using rec by (cases "decode cd rec"; cases "Spec (decode cd rec)") (simp_all add: stored_insight_def MeshType_def SecretType_def)
qed

lemma mem_Get_insight:
  assumes "mem_inv cd c"
  shows "mem_Get cd \<lparr>Meta = None, Spec = zero_of ''DataplaneInsight''\<rparr> [GetBy key] c =
    (case mem_abs c (insight_key key) of
       None \<Rightarrow> (Some (ErrorResourceNotFound ''DataplaneInsight'' (key_Name key) (key_Mesh key)),
                \<lparr>Meta = None, Spec = DataplaneInsightSpec \<lparr>di_Subscriptions = []\<rparr>\<rparr>)
     | Some rec \<Rightarrow> (None, decode cd rec))"
proof -
  have zero: "zero_of ''DataplaneInsight'' = DataplaneInsightSpec \<lparr>di_Subscriptions = []\<rparr>"
    by (simp add: zero_of_def zero_specs_def MeshType_def SecretType_def)
  have f: "map_option snd (findRecord c ''DataplaneInsight'' (key_Name key) (key_Mesh key)) = mem_abs c (insight_key key)"
    by (simp add: findRecord_abs insight_key_def)
  show ?thesis
    using f decode_insight(2) [OF assms, of key]
    by (auto simp: mem_Get_def NewGetOptions_def GetBy_def GetByKey_def Let_def zero MeshType_def split: option.splits)
qed

lemma customizable_Get: "rm_Get (customizableManager (Suc fuel) lib now store cas registry) r fs s = st_Get store r fs s"
  using read_only_store(2) [of fuel lib now store cas registry s r fs] by (simp add: read_only_def)

text \<open>An upsert fails and changes nothing, or stores the insight with the subscription.\<close>

lemma insight_Upsert_result:
  assumes inv: "mem_inv cd c"
    and u: "insight_Upsert (customizableManager (Suc fuel) lib now (memory_store cd) cas registry) key sub c = (e, c')"
  shows "mem_inv cd c'" and "e \<noteq> None \<Longrightarrow> c' = c"
    and "e = None \<Longrightarrow> \<exists>rec d. mem_abs c' = (mem_abs c)(insight_key key \<mapsto> rec) \<and>
      Spec (decode cd rec) = DataplaneInsightSpec d \<and> UpdateSubscription sub (Some (stored_insight cd c key)) = Some d"
proof -
  obtain d where d: "UpdateSubscription sub (Some (stored_insight cd c key)) = Some d"
    by (simp add: UpdateSubscription_def)
  have cd: "codec_ok cd" "unique_keys c" using inv by (simp_all add: mem_inv_def)
  have "mem_inv cd c' \<and> (e \<noteq> None \<longrightarrow> c' = c) \<and>
    (e = None \<longrightarrow> (\<exists>rec. mem_abs c' = (mem_abs c)(insight_key key \<mapsto> rec) \<and> Spec (decode cd rec) = DataplaneInsightSpec d))"
  proof (cases "mem_abs c (insight_key key)")
    case None
    let ?r = "\<lparr>Meta = None, Spec = DataplaneInsightSpec d\<rparr>"
    have "stored_insight cd c key = \<lparr>di_Subscriptions = []\<rparr>" using None by (simp add: stored_insight_def)
    then obtain r' where r: "res_Create lib now (memory_store cd) ?r [CreateBy key] c = (e, r', c')"
      using u d None
      by (auto simp: insight_Upsert_def rm_customizable resourcesManager_def customizable_Get memory_store_def mem_Get_insight [OF inv]
          MeshType_def split: prod.splits)
    show ?thesis
    proof (cases "e = None")
      case True
      then have m: "mem_Create cd ?r [CreateBy key, CreatedAt now] c = (None, r', c')"
        using r by (auto simp: res_Create_def memory_store_def split: option.splits if_splits)
      obtain content where "ToJSON cd (Spec ?r) = Inr content"
        "mem_abs c' = (mem_abs c)(insight_key key \<mapsto> created_record ?r (NewCreateOptions [CreateBy key, CreatedAt now]) content)"
        using mem_Create_abs(3) [OF cd(2) m]
        by (auto simp: create_key_def insight_key_def NewCreateOptions_def CreateBy_def CreateByKey_def CreatedAt_def MeshType_def)
      then show ?thesis
        using mem_Create_contents [OF inv m] decode_created [OF cd(1), of ?r content] True by auto
    next
      case False
      then show ?thesis using r inv mem_Create_abs(2) [OF cd(2)] mem_Create_contents [OF inv]
        by (auto simp: res_Create_def memory_store_def split: option.splits if_splits)
    qed
  next
    case (Some rec)
    let ?m = "record_meta rec"
    let ?r = "\<lparr>Meta = Some (MemoryMeta ?m), Spec = DataplaneInsightSpec d\<rparr>"
    have r: "res_Update lib now (memory_store cd) ?r [] c = (e, ?r, c')"
      using u d Some decode_insight(1) [OF inv Some]
      by (auto simp: insight_Upsert_def rm_customizable customizable_Get memory_store_def mem_Get_insight [OF inv]
          MeshType_def res_Update_def split: prod.splits option.splits)
    show ?thesis
    proof (cases "Validate lib ?r")
      case None
      then have m: "mem_Update cd ?r [ModifiedAt now] c = (e, c')"
        using r by (auto simp: res_Update_def memory_store_def split: prod.splits)
      have key: "update_key ?r ?m = insight_key key"
        using mem_abs_key [OF Some] by (auto simp: update_key_def insight_key_def rec_key_def record_meta_def)
      show ?thesis
      proof (cases "e = None")
        case True
        then obtain content where "ToJSON cd (Spec ?r) = Inr content"
          "mem_abs c' = (mem_abs c)(insight_key key \<mapsto> updated_record ?r ?m (uo_ModificationTime (NewUpdateOptions [ModifiedAt now])) content)"
          using mem_Update_abs(3) [OF cd(2) m] key by auto
        then show ?thesis
          using mem_Update_contents [OF inv m] decode_updated [OF cd(1), of ?r content] True by auto
      qed (use inv mem_Update_abs(2) [OF cd(2) m] in auto)
    qed (use r inv in \<open>auto simp: res_Update_def\<close>)
  qed
  then show "mem_inv cd c'" "e \<noteq> None \<Longrightarrow> c' = c"
    "e = None \<Longrightarrow> \<exists>rec d. mem_abs c' = (mem_abs c)(insight_key key \<mapsto> rec) \<and>
      Spec (decode cd rec) = DataplaneInsightSpec d \<and> UpdateSubscription sub (Some (stored_insight cd c key)) = Some d"
    using d by auto
qed

interpretation insights: insight_store
  "\<lambda>now. insight_Upsert (customizableManager (Suc fuel) lib now (memory_store cd) cas registry)" "stored_subscription cd" "mem_inv cd"
  for fuel lib cd cas registry
proof unfold_locales
  fix s now key sub e s'
  assume "mem_inv cd s" "insight_Upsert (customizableManager (Suc fuel) lib now (memory_store cd) cas registry) key sub s = (e, s')"
  then show "mem_inv cd s'" by (rule insight_Upsert_result(1))
next
  fix s now key sub s' key' sid
  assume inv: "mem_inv cd s"
    and u: "insight_Upsert (customizableManager (Suc fuel) lib now (memory_store cd) cas registry) key sub s = (None, s')"
  obtain rec d where abs: "mem_abs s' = (mem_abs s)(insight_key key \<mapsto> rec)" and rec: "Spec (decode cd rec) = DataplaneInsightSpec d"
    and d: "UpdateSubscription sub (Some (stored_insight cd s key)) = Some d"
    using insight_Upsert_result(3) [OF inv u] by auto
  have "stored_insight cd s' key' = (if key' = key then d else stored_insight cd s key')"
    using rec by (auto simp: stored_insight_def abs insight_key_def)
  then show "stored_subscription cd s' key' sid =
      (if key' = key \<and> sid = sub_Id sub then Some sub else stored_subscription cd s key' sid)"
    using UpdateSubscription_same [of sub "stored_insight cd s key"] UpdateSubscription_other [of sid sub "stored_insight cd s key"] d
    by (auto simp: stored_subscription_def)
next
  fix s now key sub err s' key' sid
  assume inv: "mem_inv cd s"
    and u: "insight_Upsert (customizableManager (Suc fuel) lib now (memory_store cd) cas registry) key sub s = (Some err, s')"
  show "stored_subscription cd s' key' sid = stored_subscription cd s key' sid"
    using insight_Upsert_result(2) [OF inv u] by simp
qed

section \<open>Properties\<close>

lemma filter_distinct_key:
  "distinct (map f xs) \<Longrightarrow> length (filter (\<lambda>x. f x = a) xs) = (if a \<in> f ` set xs then 1 else 0)"
  by (induction xs) (auto simp: filter_empty_conv)


text \<open>
  C17. The end of a stream is reported.  In every reachable state, when a stream whose dataplane is
  known closes, its sink can take its stop signal, and, unless the store refuses it, that round leaves the
  final status in the stored insight of the dataplane, with the time of disconnection and all
  counters, and the sink has returned.
\<close>

theorem closed_stream_is_reported:
  assumes "xds_reachable (\<lambda>now. insight_Upsert (customizableManager (Suc fuel) lib now (memory_store cd) cas registry)) inst s sys"
    and "mem_inv cd s" and "map_of (dst_streams (sys_status sys)) i = Some a"
    and "ss_dataplaneId (dst_states (sys_status sys) ! a) \<noteq> no_key"
    and "fst (insight_Upsert (customizableManager (Suc fuel) lib now (memory_store cd) cas registry)
      (ss_dataplaneId (dst_states (sys_status sys) ! a))
      ((ss_subscription (dst_states (sys_status sys) ! a))\<lparr>sub_DisconnectTime := Some t\<rparr>) (sys_store sys)) = None"
  shows "\<exists>k sys1 sys2.
    xds_step (\<lambda>now. insight_Upsert (customizableManager (Suc fuel) lib now (memory_store cd) cas registry)) inst
      (StreamClosed i t) sys = Inr sys1 \<and>
    enabled (SinkStop k now) sys1 \<and>
    xds_step (\<lambda>now. insight_Upsert (customizableManager (Suc fuel) lib now (memory_store cd) cas registry)) inst
      (SinkStop k now) sys1 = Inr sys2 \<and>
    stored_subscription cd (sys_store sys2) (ss_dataplaneId (dst_states (sys_status sys) ! a))
      (sub_Id (ss_subscription (dst_states (sys_status sys) ! a))) =
      Some ((ss_subscription (dst_states (sys_status sys) ! a))\<lparr>sub_DisconnectTime := Some t\<rparr>) \<and>
    \<not> snk_running (dst_sinks (sys_status sys2) ! k)"
proof -
  define upsert where "upsert = (\<lambda>now. insight_Upsert (customizableManager (Suc fuel) lib now (memory_store cd) cas registry))"
  have reach: "xds_reachable upsert inst s sys" using assms(1) by (simp add: upsert_def)
  let ?t = "sys_status sys" and ?st = "dst_states (sys_status sys) ! a"
  let ?final = "?st\<lparr>ss_subscription := (ss_subscription ?st)\<lparr>sub_DisconnectTime := Some t\<rparr>, ss_stop := True\<rparr>"
  have ok: "system_ok sys" by (rule reachable_ok [OF reach])
  then have inv: "status_inv (sys_open sys) ?t" by (simp add: system_ok_def)
  have i: "i \<in> set (sys_open sys)" using status_invD(1) [OF inv, of i] assms(3) by simp
  have a: "a < length (dst_states ?t)" "\<not> ss_stop ?st" using status_invD(2) [OF inv assms(3)] by auto
  obtain k where k: "k < length (dst_sinks ?t)" "snk_accessor (dst_sinks ?t ! k) = a"
    using status_invD(7) [OF inv, of a] a(1) assms(4) by (auto simp: in_set_conv_nth)
  have running: "snk_running (dst_sinks ?t ! k)" using status_invD(8) [OF inv, of "dst_sinks ?t ! k"] k a(2) by auto
  obtain sys1 where step1: "xds_step upsert inst (StreamClosed i t) sys = Inr sys1"
    using xds_step_ok [OF ok, of "StreamClosed i t" upsert inst] i by auto
  have sys1: "dst_sinks (sys_status sys1) = dst_sinks ?t" "dst_states (sys_status sys1) = (dst_states ?t)[a := ?final]"
      "sys_store sys1 = sys_store sys"
    using step1 assms(3) a(2) by (auto simp: chain_OnStreamClosed_def status_OnStreamClosed_def Let_def bindE_Inr)
  have en: "enabled (SinkStop k now) sys1" using k running a(1) by (simp add: sys1)
  have reach1: "xds_reachable upsert inst s sys1"
    using i by (intro xds_reachable.xds_event [OF reach _ step1]) simp
  have synced: "mem_inv cd (sys_store sys1)" "sinks_synced (stored_subscription cd) sys1"
    using insights.reachable_synced [OF reach1 [unfolded upsert_def] assms(2)] by auto
  obtain stored s' where f: "flush (upsert now) ?final (snk_lastStoredState (dst_sinks ?t ! k)) (sys_store sys1) = (stored, s')"
    by fastforce
  have "sink_synced (stored_subscription cd) (sys_store sys1) ?final (snk_lastStoredState (dst_sinks ?t ! k))"
    using synced(2) [unfolded sinks_synced_def, rule_format, of "dst_sinks ?t ! k"] k a(1) by (simp add: sys1)
  from insights.flush_law(4) [OF synced(1) this f [unfolded upsert_def]]
  have "stored_subscription cd s' (ss_dataplaneId ?st) (sub_Id (ss_subscription ?st)) = Some (ss_subscription ?final)"
    using assms(5) by (simp add: sys1)
  moreover have "xds_step upsert inst (SinkStop k now) sys1 = Inr (sink_round upsert now k True sys1)" by simp
  moreover have "sys_store (sink_round upsert now k True sys1) = s'" "\<not> snk_running (dst_sinks (sys_status (sink_round upsert now k True sys1)) ! k)"
    using f k a(1) by (simp_all add: sink_round_def Let_def sys1)
  ultimately show ?thesis using step1 en unfolding upsert_def by (intro exI [of _ k] exI [of _ sys1] exI conjI) simp_all
qed

text \<open>An example: a dataplane connects and is identified by its first request.\<close>

definition example_upsert :: "gotime \<Rightarrow> ResourceKey \<Rightarrow> DiscoverySubscription \<Rightarrow> memoryStore \<Rightarrow> go_error option \<times> memoryStore" where
  "example_upsert now = insight_Upsert (customizableManager (Suc 1) example_library now (memory_store example_codec) [] example_registry)"

definition example_first_request :: DiscoveryRequest where
  "example_first_request = \<lparr>rq_VersionInfo = '''', rq_Node = Some \<lparr>node_Id = ''default.d'', node_Metadata = None\<rparr>,
     rq_ResourceNames = [], rq_TypeUrl = '''', rq_ResponseNonce = '''', rq_ErrorDetail = None\<rparr>"

definition example_state :: streamState where
  "example_state = \<lparr>ss_stop = False, ss_dataplaneId = \<lparr>key_Mesh = ''default'', key_Name = ''d''\<rparr>,
     ss_subscription = (hd (di_Subscriptions example_closed_insight))\<lparr>sub_DisconnectTime := None\<rparr>\<rparr>"

lemma example_tracked:
  "\<exists>sys. xds_reachable example_upsert ''cp'' [example_mesh_record] sys \<and> map_of (dst_streams (sys_status sys)) 1 = Some 0 \<and>
     dst_states (sys_status sys) = [example_state] \<and> sys_store sys = [example_mesh_record] \<and> sys_open sys = [1]"
proof -
  let ?open = "StreamOpen ''u'' \<lparr>ts_Seconds = 1, ts_Nanos = 0\<rparr>" and ?request = "StreamRequest 1 example_first_request \<lparr>ts_Seconds = 2, ts_Nanos = 0\<rparr>"
  let ?init = "initial_system [example_mesh_record]"
  have pid: "ParseProxyId (rq_Node example_first_request) = Inr \<lparr>pid_Mesh = ''default'', pid_Name = ''d''\<rparr>"
    by (simp add: ParseProxyId_def example_first_request_def ParseProxyIdFromString_Inr ProxyId_String_def)
  obtain sys1 where s1: "xds_step example_upsert ''cp'' ?open ?init = Inr sys1" by (simp add: Let_def)
  then have o: "sys_open sys1 = [1]" "sys_status sys1 = \<lparr>dst_streams = [(1, 0)],
      dst_states = [example_state\<lparr>ss_dataplaneId := no_key\<rparr>], dst_sinks = []\<rparr>" "sys_store sys1 = [example_mesh_record]"
    by (auto simp: initial_system_def Let_def status_OnStreamOpen_def example_state_def example_closed_insight_def)
  have r1: "xds_reachable example_upsert ''cp'' [example_mesh_record] sys1"
    by (rule xds_reachable.xds_event [OF xds_initial _ s1]) (simp add: initial_system_def)
  obtain sys2 where s2: "xds_step example_upsert ''cp'' ?request sys1 = Inr sys2"
    "sys_open sys2 = [1]" "sys_store sys2 = [example_mesh_record]"
    "sys_status sys2 = \<lparr>dst_streams = [(1, 0)], dst_states = [example_state],
       dst_sinks = [\<lparr>snk_accessor = 0, snk_lastStoredState = None, snk_running = True\<rparr>]\<rparr>"
    using pid by (auto simp: chain_OnStreamRequest_def status_OnStreamRequest_def o Let_def) (simp add: example_first_request_def example_state_def o)
  have "xds_reachable example_upsert ''cp'' [example_mesh_record] sys2"
    by (rule xds_reachable.xds_event [OF r1 _ s2(1)]) (simp add: o)
  then show ?thesis using s2 by auto
qed

lemma example_upserted:
  "fst (example_upsert 7 \<lparr>key_Mesh = ''default'', key_Name = ''d''\<rparr> (hd (di_Subscriptions example_closed_insight)) [example_mesh_record]) = None"
proof -
  let ?key = "\<lparr>key_Mesh = ''default'', key_Name = ''d''\<rparr>"
  have none: "mem_abs [example_mesh_record] (insight_key ?key) = None"
    by (simp add: mem_abs_def example_mesh_record_def insight_key_def rec_key_def)
  have inv: "mem_inv example_codec [example_mesh_record]" using example_mesh_store_ok by simp
  have upd: "UpdateSubscription (hd (di_Subscriptions example_closed_insight)) (Some \<lparr>di_Subscriptions = []\<rparr>) = Some example_closed_insight"
    by (simp add: UpdateSubscription_def GetSubscription_def GetSubscriptions_def example_closed_insight_def)
  have json: "ToJSON example_codec (DataplaneInsightSpec example_closed_insight) = Inr ''insight''"
    by (simp add: example_codec_def)
  have valid: "Validate example_library \<lparr>Meta = None, Spec = DataplaneInsightSpec example_closed_insight\<rparr> = None"
    by (simp add: Validate_def)
  obtain r' c' where c: "rm_Create example_manager \<lparr>Meta = None, Spec = DataplaneInsightSpec example_closed_insight\<rparr>
      [CreateByKey ''d'' ''default''] [example_mesh_record] = (None, r', c')"
    using example_created_in_mesh [OF valid json, of "''d''"] by (auto simp: MeshType_def)
  show ?thesis
    using c by (simp add: example_upsert_def insight_Upsert_def customizable_Get memory_store_def mem_Get_insight [OF inv] none upd
        CreateBy_def example_manager_def numeral_2_eq_2)
qed


theorem closed_stream_is_reported_witness:
  "\<exists>sys sys1 sys2 k. xds_step example_upsert ''cp'' (StreamClosed 1 \<lparr>ts_Seconds = 9, ts_Nanos = 0\<rparr>) sys = Inr sys1 \<and>
     xds_step example_upsert ''cp'' (SinkStop k 7) sys1 = Inr sys2 \<and>
     stored_subscription example_codec (sys_store sys2) \<lparr>key_Mesh = ''default'', key_Name = ''d''\<rparr> ''u'' =
       Some (hd (di_Subscriptions example_closed_insight))"
proof -
  obtain sys where sys: "xds_reachable example_upsert ''cp'' [example_mesh_record] sys"
    "map_of (dst_streams (sys_status sys)) 1 = Some 0" "dst_states (sys_status sys) = [example_state]"
    "sys_store sys = [example_mesh_record]"
    using example_tracked by blast
  have st: "ss_dataplaneId (dst_states (sys_status sys) ! 0) = \<lparr>key_Mesh = ''default'', key_Name = ''d''\<rparr>"
    "(ss_subscription (dst_states (sys_status sys) ! 0))\<lparr>sub_DisconnectTime := Some \<lparr>ts_Seconds = 9, ts_Nanos = 0\<rparr>\<rparr> =
       hd (di_Subscriptions example_closed_insight)"
    "sub_Id (ss_subscription (dst_states (sys_status sys) ! 0)) = ''u''"
    by (simp_all add: sys(3) example_state_def example_closed_insight_def)
  have up: "example_upsert = (\<lambda>now. insight_Upsert (customizableManager (Suc 1) example_library now (memory_store example_codec) [] example_registry))"
    by (rule ext) (simp add: example_upsert_def)
  have inv: "mem_inv example_codec [example_mesh_record]" using example_mesh_store_ok by simp
  show ?thesis
    using closed_stream_is_reported [OF sys(1) [unfolded up] inv sys(2), of 7 "\<lparr>ts_Seconds = 9, ts_Nanos = 0\<rparr>"] example_upserted
    unfolding st sys(4) up by (auto simp: no_key_def)
qed

end
