(* ===== verification/Discovery_Server.thy ===== *)
theory Discovery_Server
  imports Snapshot_Cache
begin

text \<open>
  The loop that serves one stream of discovery requests (\<open>pkg/xds/server/server.go\<close>): the watches a
  stream holds in the cache, the nonces of its responses, the callbacks around it, and the unary
  \<open>Fetch\<close>.  The cache, the callbacks, the serialisation of resources and the transport are interfaces
  in the code and parameters here; a locale states what the loop needs of the cache, and the cache
  of \<open>Snapshot_Cache\<close> provides it.  Other goroutines use the same cache: a run of a stream is a
  sequence of its own steps and of steps of the environment.
\<close>

section \<open>Messages and interfaces\<close>

datatype resource_kind = EndpointKind | ClusterKind | RouteKind | ListenerKind | SecretKind | RuntimeKind

definition all_kinds :: "resource_kind list" where
  "all_kinds = [EndpointKind, ClusterKind, RouteKind, ListenerKind, SecretKind, RuntimeKind]"

definition AnyType :: string where "AnyType = ''''"

fun type_url :: "resource_kind \<Rightarrow> string" where
  "type_url EndpointKind = EndpointType"
| "type_url ClusterKind = ClusterType"
| "type_url RouteKind = RouteType"
| "type_url ListenerKind = ListenerType"
| "type_url SecretKind = ''type.googleapis.com/envoy.api.v2.auth.Secret''"
| "type_url RuntimeKind = ''type.googleapis.com/envoy.service.discovery.v2.Runtime''"

fun watch_name :: "resource_kind \<Rightarrow> string" where
  "watch_name EndpointKind = ''endpoints''"
| "watch_name ClusterKind = ''clusters''"
| "watch_name RouteKind = ''routes''"
| "watch_name ListenerKind = ''listeners''"
| "watch_name SecretKind = ''secrets''"
| "watch_name RuntimeKind = ''runtimes''"

definition kind_of_url :: "string \<Rightarrow> resource_kind option" where
  "kind_of_url url = find (\<lambda>k. type_url k = url) all_kinds"

record DiscoveryResponse =
  dr_VersionInfo :: string
  dr_Resources :: "(string \<times> string) list"
  dr_TypeUrl :: string
  dr_Nonce :: string

text \<open>A cache: watches with their channels, one-off reads.  A watch is cancelled by the token \<open>'w\<close>.\<close>

record ('c, 'w, 'r) CacheOps =
  co_CreateWatch :: "DiscoveryRequest \<Rightarrow> 'c \<Rightarrow> go_error + (nat \<times> 'w option) \<times> 'c"
  co_cancel :: "'w \<Rightarrow> 'c \<Rightarrow> 'c"
  co_Fetch :: "DiscoveryRequest \<Rightarrow> 'c \<Rightarrow> go_error + 'r Response"
  co_receive :: "nat \<Rightarrow> 'c \<Rightarrow> 'r Response option \<times> 'c"

record 'b Callbacks =
  cb_OnStreamOpen :: "int \<Rightarrow> string \<Rightarrow> 'b \<Rightarrow> go_error option \<times> 'b"
  cb_OnStreamClosed :: "int \<Rightarrow> 'b \<Rightarrow> 'b"
  cb_OnStreamRequest :: "int \<Rightarrow> DiscoveryRequest \<Rightarrow> 'b \<Rightarrow> go_error option \<times> 'b"
  cb_OnStreamResponse :: "int \<Rightarrow> DiscoveryRequest \<Rightarrow> DiscoveryResponse \<Rightarrow> 'b \<Rightarrow> 'b"
  cb_OnFetchRequest :: "DiscoveryRequest \<Rightarrow> 'b \<Rightarrow> go_error option \<times> 'b"
  cb_OnFetchResponse :: "DiscoveryRequest \<Rightarrow> DiscoveryResponse option \<Rightarrow> 'b \<Rightarrow> 'b"

record ('c, 'w, 'r, 'b) server =
  srv_cache :: "('c, 'w, 'r) CacheOps"
  srv_callbacks :: "'b Callbacks"
  srv_Marshal :: "'r \<Rightarrow> go_error + string"

section \<open>Responses\<close>

definition server_createResponse :: "('r \<Rightarrow> go_error + string) \<Rightarrow> 'r Response option \<Rightarrow> string \<Rightarrow> go_error + DiscoveryResponse" where
  "server_createResponse marshal resp typeURL =
     (case resp of
        None \<Rightarrow> Inl (ErrString ''missing response'')
      | Some resp \<Rightarrow>
          bindE (mapE (\<lambda>r. bindE (marshal r) (\<lambda>b. Inr (typeURL, b))) (rsp_Resources resp)) (\<lambda>resources.
          Inr \<lparr>dr_VersionInfo = rsp_Version resp, dr_Resources = resources, dr_TypeUrl = typeURL, dr_Nonce = ''''\<rparr>))"

definition server_Fetch ::
  "('c, 'w, 'r, 'b) server \<Rightarrow> DiscoveryRequest \<Rightarrow> 'c \<Rightarrow> 'b \<Rightarrow> (go_error + DiscoveryResponse) \<times> 'b" where
  "server_Fetch srv req c b =
     (case cb_OnFetchRequest (srv_callbacks srv) req b of
        (Some err, b) \<Rightarrow> (Inl err, b)
      | (None, b) \<Rightarrow>
          (case co_Fetch (srv_cache srv) req c of
             Inl err \<Rightarrow> (Inl err, b)
           | Inr resp \<Rightarrow>
               (let out = server_createResponse (srv_Marshal srv) (Some resp) (rq_TypeUrl req) in
                (out, cb_OnFetchResponse (srv_callbacks srv) req (case out of Inl _ \<Rightarrow> None | Inr x \<Rightarrow> Some x) b))))"

text \<open>\<open>FetchEndpoints\<close>, \<open>FetchClusters\<close> and so on.\<close>

definition fetch_kind ::
  "('c, 'w, 'r, 'b) server \<Rightarrow> resource_kind \<Rightarrow> DiscoveryRequest option \<Rightarrow> 'c \<Rightarrow> 'b \<Rightarrow> (go_error + DiscoveryResponse) \<times> 'b" where
  "fetch_kind srv kind req c b =
     (case req of
        None \<Rightarrow> (Inl (ErrString ''empty request''), b)
      | Some req \<Rightarrow> server_Fetch srv (req\<lparr>rq_TypeUrl := type_url kind\<rparr>) c b)"

section \<open>Watches of a stream\<close>

text \<open>
  The channel of a kind is \<open>nil\<close>, a channel of the cache, or a channel the stream filled itself
  (\<open>scheduleResponse\<close>), with its contents and whether it is closed.
\<close>

datatype 'r watch_chan = NilChan | CacheChan nat | Scheduled "'r Response list" bool

datatype 'w watch_cancel = CancelWatch 'w | CancelScheduled

record ('w, 'r) watch_slot =
  ws_value :: "'r watch_chan"
  ws_cancel :: "'w watch_cancel option"
  ws_nonce :: string

record ('w, 'r) watches =
  ws_slots :: "resource_kind \<Rightarrow> ('w, 'r) watch_slot"
  ws_endpointNonceAcked :: bool

definition no_watches :: "('w, 'r) watches" where
  "no_watches = \<lparr>ws_slots = (\<lambda>_. \<lparr>ws_value = NilChan, ws_cancel = None, ws_nonce = ''''\<rparr>), ws_endpointNonceAcked = False\<rparr>"

definition cancel_slot ::
  "('c, 'w, 'r) CacheOps \<Rightarrow> ('w, 'r) watch_slot \<Rightarrow> 'c \<Rightarrow> go_error + ('w, 'r) watch_slot \<times> 'c" where
  "cancel_slot co slot c =
     (case ws_cancel slot of
        None \<Rightarrow> Inr (slot, c)
      | Some (CancelWatch w) \<Rightarrow> Inr (slot, co_cancel co w c)
      | Some CancelScheduled \<Rightarrow>
          (case ws_value slot of
             Scheduled buffer False \<Rightarrow> Inr (slot\<lparr>ws_value := Scheduled (drop 1 buffer) True\<rparr>, c)
           | _ \<Rightarrow> Inl (ErrPanic ''close of closed channel'')))"

fun watches_Cancel ::
  "('c, 'w, 'r) CacheOps \<Rightarrow> resource_kind list \<Rightarrow> ('w, 'r) watches \<Rightarrow> 'c \<Rightarrow> go_error + 'c" where
  "watches_Cancel co [] values c = Inr c"
| "watches_Cancel co (k # ks) values c =
     bindE (cancel_slot co (ws_slots values k) c) (\<lambda>(_, c). watches_Cancel co ks values c)"

section \<open>The loop of a stream\<close>

record ('c, 'w, 'r, 'b) stream_process =
  sp_streamID :: int
  sp_streamNonce :: int
  sp_values :: "('w, 'r) watches"
  sp_node :: Node
  sp_cache :: 'c
  sp_callbacks :: 'b
  sp_sent :: "DiscoveryResponse list"

datatype 's outcome = Running 's | Returned "go_error option" 's

text \<open>Selecting a case of the loop: a response on the channel of a kind (and what \<open>stream.Send\<close> reports), or a request.\<close>

datatype select_case =
    FromWatch resource_kind "go_error option"
  | FromClient "DiscoveryRequest option"
  | ClientDone

definition server_send ::
  "('c, 'w, 'r, 'b) server \<Rightarrow> go_error option \<Rightarrow> 'r Response \<Rightarrow> resource_kind \<Rightarrow> ('c, 'w, 'r, 'b) stream_process \<Rightarrow>
   (go_error + string) \<times> ('c, 'w, 'r, 'b) stream_process" where
  "server_send srv sent resp kind st =
     (case server_createResponse (srv_Marshal srv) (Some resp) (type_url kind) of
        Inl err \<Rightarrow> (Inl err, st)
      | Inr out \<Rightarrow>
          (let streamNonce = add_int (sp_streamNonce st) 1;
               out = out\<lparr>dr_Nonce := format_int streamNonce\<rparr>;
               st = st\<lparr>sp_streamNonce := streamNonce,
                       sp_callbacks := cb_OnStreamResponse (srv_callbacks srv) (sp_streamID st) (rsp_Request resp) out (sp_callbacks st),
                       sp_sent := sp_sent st @ [out]\<rparr>
           in (case sent of Some err \<Rightarrow> Inl err | None \<Rightarrow> Inr (dr_Nonce out), st)))"

definition peekResponse :: "('c, 'w, 'r) CacheOps \<Rightarrow> DiscoveryRequest \<Rightarrow> 'c \<Rightarrow> 'r Response option" where
  "peekResponse co req c =
     (case co_Fetch co (req\<lparr>rq_VersionInfo := ''''\<rparr>) c of
        Inl err \<Rightarrow> None
      | Inr resp \<Rightarrow> Some (resp\<lparr>rsp_Request := (rsp_Request resp)\<lparr>rq_VersionInfo := rq_VersionInfo req\<rparr>\<rparr>))"

definition scheduleResponse :: "'r Response \<Rightarrow> 'r watch_chan \<times> 'w watch_cancel option" where
  "scheduleResponse resp = (Scheduled [resp] False, Some CancelScheduled)"

text \<open>The receive on the channel of a kind; \<open>None\<close> when it would block, \<open>Some None\<close> when the channel is closed.\<close>

definition receive_slot ::
  "('c, 'w, 'r) CacheOps \<Rightarrow> ('w, 'r) watch_slot \<Rightarrow> 'c \<Rightarrow> ('r Response option \<times> ('w, 'r) watch_slot \<times> 'c) option" where
  "receive_slot co slot c =
     (case ws_value slot of
        NilChan \<Rightarrow> None
      | CacheChan ch \<Rightarrow>
          (case co_receive co ch c of
             (None, c) \<Rightarrow> None
           | (Some resp, c) \<Rightarrow> Some (Some resp, slot, c))
      | Scheduled (resp # rest) isClosed \<Rightarrow> Some (Some resp, slot\<lparr>ws_value := Scheduled rest isClosed\<rparr>, c)
      | Scheduled [] isClosed \<Rightarrow> if isClosed then Some (None, slot, c) else None)"

definition process_response ::
  "('c, 'w, 'r, 'b) server \<Rightarrow> resource_kind \<Rightarrow> go_error option \<Rightarrow> ('c, 'w, 'r, 'b) stream_process \<Rightarrow>
   ('c, 'w, 'r, 'b) stream_process outcome option" where
  "process_response srv kind sent st =
     (case receive_slot (srv_cache srv) (ws_slots (sp_values st) kind) (sp_cache st) of
        None \<Rightarrow> None
      | Some (resp, slot, c) \<Rightarrow>
          (let values = sp_values st;
               st = st\<lparr>sp_cache := c, sp_values := values\<lparr>ws_slots := (ws_slots values)(kind := slot)\<rparr>\<rparr>
           in case resp of
                None \<Rightarrow> Some (Returned (Some (ErrString (watch_name kind @ '' watch failed''))) st)
              | Some resp \<Rightarrow>
                  (case server_send srv sent resp kind st of
                     (Inl err, st) \<Rightarrow> Some (Returned (Some err) st)
                   | (Inr nonce, st) \<Rightarrow>
                       (let values = sp_values st;
                            slot = (ws_slots values kind)\<lparr>ws_nonce := nonce\<rparr>;
                            values = values\<lparr>ws_slots := (ws_slots values)(kind := slot)\<rparr>;
                            values = (if kind = EndpointKind then values\<lparr>ws_endpointNonceAcked := False\<rparr> else values)
                        in Some (Running (st\<lparr>sp_values := values\<rparr>))))))"

text \<open>A request for a kind: its watch is replaced, unless the request carries a stale nonce.\<close>

definition request_kind ::
  "('c, 'w, 'r) CacheOps \<Rightarrow> resource_kind \<Rightarrow> DiscoveryRequest \<Rightarrow> ('w, 'r) watches \<Rightarrow> 'c \<Rightarrow>
   go_error + ('w, 'r) watches \<times> 'c" where
  "request_kind co kind req values c =
     (let slot = ws_slots values kind;
          nonce = rq_ResponseNonce req
      in if ws_nonce slot = '''' \<or> ws_nonce slot = nonce
         then (let resp = (if kind = EndpointKind \<and> ws_endpointNonceAcked values then peekResponse co req c else None);
                   values = (if kind = EndpointKind
                             then values\<lparr>ws_endpointNonceAcked := (ws_nonce slot \<noteq> '''' \<and> ws_nonce slot = nonce)\<rparr>
                             else values)
               in bindE (cancel_slot co slot c) (\<lambda>(_, c).
                  bindE (case resp of
                           Some resp \<Rightarrow> Inr (scheduleResponse resp, c)
                         | None \<Rightarrow> bindE (co_CreateWatch co req c) (\<lambda>((ch, w), c).
                             Inr ((CacheChan ch, map_option CancelWatch w), c)))
                    (\<lambda>((value, cancel), c).
                       Inr (values\<lparr>ws_slots := (ws_slots values)(kind := \<lparr>ws_value = value, ws_cancel = cancel, ws_nonce = ws_nonce slot\<rparr>)\<rparr>, c))))
         else Inr (values, c))"

definition process_request ::
  "('c, 'w, 'r, 'b) server \<Rightarrow> string \<Rightarrow> DiscoveryRequest \<Rightarrow> ('c, 'w, 'r, 'b) stream_process \<Rightarrow>
   go_error + ('c, 'w, 'r, 'b) stream_process outcome" where
  "process_request srv defaultTypeURL req st =
     (let node = (case rq_Node req of None \<Rightarrow> sp_node st | Some node \<Rightarrow> node);
          req = req\<lparr>rq_Node := Some node\<rparr>;
          st = st\<lparr>sp_node := node\<rparr>
      in if defaultTypeURL = AnyType \<and> rq_TypeUrl req = ''''
         then Inr (Returned (Some (ErrString ''type URL is required for ADS'')) st)
         else (let req = (if rq_TypeUrl req = '''' then req\<lparr>rq_TypeUrl := defaultTypeURL\<rparr> else req) in
               case cb_OnStreamRequest (srv_callbacks srv) (sp_streamID st) req (sp_callbacks st) of
                 (Some err, b) \<Rightarrow> Inr (Returned (Some err) (st\<lparr>sp_callbacks := b\<rparr>))
               | (None, b) \<Rightarrow>
                   (let st = st\<lparr>sp_callbacks := b\<rparr> in
                    case kind_of_url (rq_TypeUrl req) of
                      None \<Rightarrow> Inr (Running st)
                    | Some kind \<Rightarrow>
                        bindE (request_kind (srv_cache srv) kind req (sp_values st) (sp_cache st)) (\<lambda>(values, c).
                        Inr (Running (st\<lparr>sp_values := values, sp_cache := c\<rparr>))))))"

text \<open>One round of the loop: \<open>Inl\<close> is a panic, \<open>None\<close> a case that is not ready.\<close>

fun process_step ::
  "('c, 'w, 'r, 'b) server \<Rightarrow> string \<Rightarrow> select_case \<Rightarrow> ('c, 'w, 'r, 'b) stream_process \<Rightarrow>
   go_error + ('c, 'w, 'r, 'b) stream_process outcome option" where
  "process_step srv defaultTypeURL (FromWatch kind sent) st = Inr (process_response srv kind sent st)"
| "process_step srv defaultTypeURL ClientDone st = Inr (Some (Returned None st))"
| "process_step srv defaultTypeURL (FromClient None) st = Inr (Some (Returned (Some (ErrString ''empty request'')) st))"
| "process_step srv defaultTypeURL (FromClient (Some req)) st =
     bindE (process_request srv defaultTypeURL req st) (\<lambda>r. Inr (Some r))"

text \<open>The start of \<open>process\<close>, with the counter of streams, and what it defers to its end.\<close>

definition process_open ::
  "('c, 'w, 'r, 'b) server \<Rightarrow> string \<Rightarrow> int \<Rightarrow> 'c \<Rightarrow> 'b \<Rightarrow> ('c, 'w, 'r, 'b) stream_process outcome \<times> int" where
  "process_open srv defaultTypeURL streamCount c b =
     (let streamID = add_int streamCount 1;
          (err, b) = cb_OnStreamOpen (srv_callbacks srv) streamID defaultTypeURL b;
          st = \<lparr>sp_streamID = streamID, sp_streamNonce = 0, sp_values = no_watches,
                sp_node = \<lparr>node_Id = '''', node_Metadata = None\<rparr>, sp_cache = c, sp_callbacks = b, sp_sent = []\<rparr>
      in (case err of Some err \<Rightarrow> Returned (Some err) st | None \<Rightarrow> Running st, streamID))"

definition process_close ::
  "('c, 'w, 'r, 'b) server \<Rightarrow> ('c, 'w, 'r, 'b) stream_process \<Rightarrow> go_error + ('c, 'w, 'r, 'b) stream_process" where
  "process_close srv st =
     bindE (watches_Cancel (srv_cache srv) all_kinds (sp_values st) (sp_cache st)) (\<lambda>c.
     Inr (st\<lparr>sp_cache := c, sp_callbacks := cb_OnStreamClosed (srv_callbacks srv) (sp_streamID st) (sp_callbacks st)\<rparr>))"

section \<open>Runs of a stream\<close>

definition tokens :: "('w, 'r) watches \<Rightarrow> 'w set" where
  "tokens values = {w. \<exists>k. ws_cancel (ws_slots values k) = Some (CancelWatch w)}"

text \<open>
  A running stream with the set of all watches it ever opened: its own steps, and steps of others on
  the cache as long as the cache has room for another watch.
\<close>

inductive served ::
  "('c, 'w, 'r, 'b) server \<Rightarrow> string \<Rightarrow> ('c \<Rightarrow> bool) \<Rightarrow> ('c \<Rightarrow> bool) \<Rightarrow> ('c \<Rightarrow> 'c \<Rightarrow> bool) \<Rightarrow>
   ('c, 'w, 'r, 'b) stream_process \<Rightarrow> 'w set \<Rightarrow> bool"
  for srv url start room env where
  served_open: "start c \<Longrightarrow> process_open srv url streamCount c b = (Running st, n) \<Longrightarrow> served srv url start room env st {}"
| served_step: "served srv url start room env st mine \<Longrightarrow> process_step srv url ev st = Inr (Some (Running st')) \<Longrightarrow>
    room (sp_cache st') \<Longrightarrow> served srv url start room env st' (mine \<union> tokens (sp_values st'))"
| served_env: "served srv url start room env st mine \<Longrightarrow> env (sp_cache st) c' \<Longrightarrow> room c' \<Longrightarrow>
    served srv url start room env (st\<lparr>sp_cache := c'\<rparr>) mine"

text \<open>A slot that was filled by the stream itself holds an open channel and the function that closes it.\<close>

definition slot_ok :: "('w, 'r) watch_slot \<Rightarrow> bool" where
  "slot_ok slot \<longleftrightarrow> (\<forall>buffer isClosed. ws_value slot = Scheduled buffer isClosed \<longrightarrow> \<not> isClosed) \<and>
     (ws_cancel slot = Some CancelScheduled \<longrightarrow> (\<exists>buffer. ws_value slot = Scheduled buffer False))"

lemma receive_slot_same:
  assumes "slot_ok slot" and "receive_slot co slot c = Some (resp, slot', c')"
  shows "slot_ok slot'" and "ws_cancel slot' = ws_cancel slot" and "ws_nonce slot' = ws_nonce slot" and "resp \<noteq> None"
    and "c' = c \<or> (\<exists>ch. co_receive co ch c = (resp, c'))"
  using assms by (auto simp: receive_slot_def slot_ok_def split: watch_chan.splits list.splits option.splits prod.splits if_splits)

text \<open>A request that is not stale puts a response of its own or a new watch into the slot.\<close>

lemma request_kind_cases [consumes 3, case_names peeked watched]:
  assumes r: "request_kind co kind req values c = Inr (values', c')" and "cancel_slot co (ws_slots values kind) c = Inr (slot, c1)"
    and fresh: "ws_nonce (ws_slots values kind) = '''' \<or> ws_nonce (ws_slots values kind) = rq_ResponseNonce req"
    and "\<And>resp. kind = EndpointKind \<Longrightarrow> ws_endpointNonceAcked values \<Longrightarrow> peekResponse co req c = Some resp \<Longrightarrow> c' = c1 \<Longrightarrow>
      ws_slots values' = (ws_slots values)(kind := \<lparr>ws_value = Scheduled [resp] False, ws_cancel = Some CancelScheduled,
        ws_nonce = ws_nonce (ws_slots values kind)\<rparr>) \<Longrightarrow> P"
    and "\<And>ch w. co_CreateWatch co req c1 = Inr ((ch, w), c') \<Longrightarrow>
      ws_slots values' = (ws_slots values)(kind := \<lparr>ws_value = CacheChan ch, ws_cancel = map_option CancelWatch w,
        ws_nonce = ws_nonce (ws_slots values kind)\<rparr>) \<Longrightarrow> P"
  shows P
proof (cases "if kind = EndpointKind \<and> ws_endpointNonceAcked values then peekResponse co req c else None")
  case None
  then show ?thesis using r assms(2) fresh assms(5) by (auto simp: request_kind_def Let_def bindE_Inr split: if_splits)
next
  case (Some resp)
  then show ?thesis using r assms(2) fresh assms(4) [of resp]
    by (auto simp: request_kind_def Let_def bindE_Inr scheduleResponse_def split: if_splits)
qed

text \<open>Every watch the stream ever opened and that is still open can be cancelled through a slot.\<close>

definition stream_inv ::
  "('c \<Rightarrow> bool) \<Rightarrow> ('c \<Rightarrow> 'w \<Rightarrow> bool) \<Rightarrow> ('c \<Rightarrow> 'w \<Rightarrow> bool) \<Rightarrow> ('w, 'r) watches \<Rightarrow> 'w set \<Rightarrow> 'c \<Rightarrow> bool" where
  "stream_inv good issued open_watch values mine c \<longleftrightarrow> good c \<and> (\<forall>k. slot_ok (ws_slots values k)) \<and> tokens values \<subseteq> mine \<and>
     (\<forall>w \<in> mine. issued c w \<and> (open_watch c w \<longrightarrow> w \<in> tokens values))"

lemma stream_invI:
  assumes "good c" and "\<And>k. slot_ok (ws_slots values k)" and "tokens values \<subseteq> mine"
    and "\<And>w. w \<in> mine \<Longrightarrow> issued c w \<and> (open_watch c w \<longrightarrow> w \<in> tokens values)"
  shows "stream_inv good issued open_watch values mine c"
  using assms by (simp add: stream_inv_def)

lemma stream_invD:
  assumes "stream_inv good issued open_watch values mine c"
  shows "good c" and "slot_ok (ws_slots values k)" and "tokens values \<subseteq> mine" and "w \<in> mine \<Longrightarrow> issued c w"
    and "w \<in> mine \<Longrightarrow> open_watch c w \<Longrightarrow> w \<in> tokens values"
  using assms by (simp_all add: stream_inv_def)

text \<open>What a stream needs of the cache.\<close>

locale watch_cache =
  fixes co :: "('c, 'w, 'r) CacheOps" and good room :: "'c \<Rightarrow> bool"
    and open_watch issued :: "'c \<Rightarrow> 'w \<Rightarrow> bool" and env :: "'c \<Rightarrow> 'c \<Rightarrow> bool"
  assumes create_total: "good c \<Longrightarrow> \<exists>r. co_CreateWatch co rq c = Inr r"
    and create_law: "good c \<Longrightarrow> co_CreateWatch co rq c = Inr ((ch, token), c') \<Longrightarrow> room c' \<Longrightarrow>
      good c' \<and> (\<forall>v. issued c v \<longrightarrow> issued c' v \<and> open_watch c' v = open_watch c v) \<and>
      (\<forall>v. token = Some v \<longrightarrow> issued c' v)"
    and cancel_law: "good c \<Longrightarrow> good (co_cancel co w c) \<and>
      (\<forall>v. issued (co_cancel co w c) v = issued c v \<and> open_watch (co_cancel co w c) v = (open_watch c v \<and> v \<noteq> w))"
    and receive_law: "good c \<Longrightarrow> co_receive co ch c = (r, c') \<Longrightarrow>
      good c' \<and> (\<forall>v. issued c' v = issued c v \<and> open_watch c' v = open_watch c v)"
    and env_law: "good c \<Longrightarrow> env c c' \<Longrightarrow> room c' \<Longrightarrow>
      good c' \<and> (\<forall>v. issued c v \<longrightarrow> issued c' v \<and> (open_watch c' v \<longrightarrow> open_watch c v))"
begin

lemma cancel_slot_law:
  assumes "good c" and "slot_ok slot"
  shows "\<exists>slot' c'. cancel_slot co slot c = Inr (slot', c') \<and> good c' \<and>
    (\<forall>v. issued c' v = issued c v \<and> open_watch c' v = (open_watch c v \<and> ws_cancel slot \<noteq> Some (CancelWatch v)))"
proof (cases "ws_cancel slot")
  case None
  then show ?thesis using assms by (auto simp: cancel_slot_def)
next
  case (Some a)
  then show ?thesis using assms cancel_law by (cases a) (auto simp: cancel_slot_def slot_ok_def)
qed

lemma watches_Cancel_law:
  assumes "good c" and "\<And>k. slot_ok (ws_slots values k)"
  shows "\<exists>c'. watches_Cancel co ks values c = Inr c' \<and> good c' \<and>
    (\<forall>v. open_watch c' v = (open_watch c v \<and> (\<forall>k \<in> set ks. ws_cancel (ws_slots values k) \<noteq> Some (CancelWatch v))))"
  using assms(1)
proof (induction ks arbitrary: c)
  case (Cons k ks)
  from cancel_slot_law [OF Cons.prems assms(2)] obtain slot c1 where c1: "cancel_slot co (ws_slots values k) c = Inr (slot, c1)" "good c1"
    "\<forall>v. open_watch c1 v = (open_watch c v \<and> ws_cancel (ws_slots values k) \<noteq> Some (CancelWatch v))" by blast
  show ?case using c1 Cons.IH [OF c1(2)] by auto
qed simp

lemma request_kind_total:
  assumes "stream_inv good issued open_watch values mine c"
  shows "\<exists>r. request_kind co kind req values c = Inr r"
proof -
  obtain slot c1 where c1: "cancel_slot co (ws_slots values kind) c = Inr (slot, c1)" "good c1"
    using cancel_slot_law [of c "ws_slots values kind"] assms by (auto simp: stream_inv_def)
  obtain ch w c2 where "co_CreateWatch co req c1 = Inr ((ch, w), c2)" using create_total [OF c1(2), of req] by auto
  then show ?thesis using c1(1) by (auto simp: request_kind_def Let_def scheduleResponse_def split: option.splits)
qed

lemma request_kind_law:
  assumes si: "stream_inv good issued open_watch values mine c"
    and r: "request_kind co kind req values c = Inr (values', c')" and room: "room c'"
  shows "stream_inv good issued open_watch values' (mine \<union> tokens values') c'"
proof (cases "ws_nonce (ws_slots values kind) = '''' \<or> ws_nonce (ws_slots values kind) = rq_ResponseNonce req")
  case False
  then have "values' = values" "c' = c" using r by (auto simp: request_kind_def Let_def)
  then show ?thesis using si stream_invD(3) [OF si] by (simp add: sup.absorb1)
next
  case True
  obtain slot c1 where c1: "cancel_slot co (ws_slots values kind) c = Inr (slot, c1)" "good c1"
    "\<And>v. issued c1 v = issued c v"
    "\<And>v. open_watch c1 v = (open_watch c v \<and> ws_cancel (ws_slots values kind) \<noteq> Some (CancelWatch v))"
    using cancel_slot_law [of c "ws_slots values kind"] si by (auto simp: stream_inv_def)
  have "\<exists>value cancel. ws_slots values' = (ws_slots values)(kind := \<lparr>ws_value = value, ws_cancel = cancel, ws_nonce = ws_nonce (ws_slots values kind)\<rparr>) \<and>
      slot_ok \<lparr>ws_value = value, ws_cancel = cancel, ws_nonce = ws_nonce (ws_slots values kind)\<rparr> \<and> good c' \<and>
      (\<forall>v. issued c1 v \<longrightarrow> issued c' v \<and> open_watch c' v = open_watch c1 v) \<and> (\<forall>v. cancel = Some (CancelWatch v) \<longrightarrow> issued c' v)"
    using r c1(1) True
  proof (cases rule: request_kind_cases)
    case (peeked resp)
    show ?thesis
      by (intro exI [of _ "Scheduled [resp] False"] exI [of _ "Some CancelScheduled"])
        (use peeked c1(2) in \<open>auto simp: slot_ok_def\<close>)
  next
    case (watched ch w)
    show ?thesis
      by (intro exI [of _ "CacheChan ch"] exI [of _ "map_option CancelWatch w"])
        (use watched create_law [OF c1(2) watched(1) room] in \<open>auto simp: slot_ok_def\<close>)
  qed
  then obtain val cancel where v: "ws_slots values' = (ws_slots values)(kind := \<lparr>ws_value = val, ws_cancel = cancel, ws_nonce = ws_nonce (ws_slots values kind)\<rparr>)"
    "slot_ok \<lparr>ws_value = val, ws_cancel = cancel, ws_nonce = ws_nonce (ws_slots values kind)\<rparr>" "good c'"
    "\<And>v. issued c1 v \<Longrightarrow> issued c' v \<and> open_watch c' v = open_watch c1 v" "\<And>v. cancel = Some (CancelWatch v) \<Longrightarrow> issued c' v"
    by blast
  show ?thesis
  proof (rule stream_invI)
    show "good c'" by (rule v(3))
    show "slot_ok (ws_slots values' k)" for k using v(2) si by (simp add: v(1) stream_inv_def)
    show "issued c' w \<and> (open_watch c' w \<longrightarrow> w \<in> tokens values')" if "w \<in> mine \<union> tokens values'" for w
    proof (cases "w \<in> mine")
      case True
      then have iss: "issued c1 w" using stream_invD(4) [OF si] c1(3) by simp
      have "w \<in> tokens values'" if o: "open_watch c' w"
      proof -
        have o1: "open_watch c w" "ws_cancel (ws_slots values kind) \<noteq> Some (CancelWatch w)"
          using o v(4) [OF iss] c1(4) by auto
        then obtain k where "ws_cancel (ws_slots values k) = Some (CancelWatch w)"
          using stream_invD(5) [OF si True] by (auto simp: tokens_def)
        then have "ws_cancel (ws_slots values' k) = Some (CancelWatch w)" using o1(2) by (cases "k = kind") (auto simp: v(1))
        then show ?thesis by (auto simp: tokens_def)
      qed
      then show ?thesis using v(4) [OF iss] by blast
    next
      case False
      then have w: "w \<in> tokens values'" using that by simp
      then obtain k where k: "ws_cancel (ws_slots values' k) = Some (CancelWatch w)" by (auto simp: tokens_def)
      have "k = kind" using False stream_invD(3) [OF si] k by (auto simp: v(1) tokens_def split: if_splits)
      then show ?thesis using v(5) [of w] k w by (simp add: v(1))
    qed
  qed simp
qed

lemma process_step_total:
  assumes "srv_cache srv = co" and "stream_inv good issued open_watch (sp_values st) mine (sp_cache st)"
  shows "\<exists>r. process_step srv url ev st = Inr r"
proof (cases "(srv, url, ev, st)" rule: process_step.cases)
  case (4 srv' url' req st')
  have no_panic: "request_kind (srv_cache srv) kind rq (sp_values st) (sp_cache st) \<noteq> Inl e" for kind rq e
    using request_kind_total [OF assms(2), of kind rq] assms(1) by auto
  have "process_request srv url req st \<noteq> Inl e" for e
    using no_panic by (simp add: process_request_def Let_def bindE_def split: option.splits prod.splits sum.splits)
  then obtain r where "process_request srv url req st = Inr r" by (cases "process_request srv url req st") auto
  then show ?thesis using 4 by auto
qed auto

lemma process_response_law:
  assumes co: "srv_cache srv = co" and si: "stream_inv good issued open_watch (sp_values st) mine (sp_cache st)"
    and r: "process_response srv kind sent st = Some (Running st') \<or> process_response srv kind sent st = Some (Returned e st')"
  shows "stream_inv good issued open_watch (sp_values st') mine (sp_cache st')"
proof -
  obtain resp slot c where rs: "receive_slot co (ws_slots (sp_values st) kind) (sp_cache st) = Some (resp, slot, c)"
    using r co by (auto simp: process_response_def split: option.splits)
  note slot = receive_slot_same [OF stream_invD(2) [OF si] rs]
  have c: "good c \<and> (\<forall>v. issued c v = issued (sp_cache st) v \<and> open_watch c v = open_watch (sp_cache st) v)"
    using slot(5) receive_law [OF stream_invD(1) [OF si]] stream_invD(1) [OF si] by auto
  have "\<exists>slot'. ws_slots (sp_values st') = (ws_slots (sp_values st))(kind := slot') \<and> sp_cache st' = c \<and>
      (slot' = slot \<or> (\<exists>nonce. slot' = slot\<lparr>ws_nonce := nonce\<rparr>))"
    using r rs co slot(4)
    by (auto simp: process_response_def server_send_def Let_def split: option.splits sum.splits prod.splits if_splits)
  then obtain slot' where st': "ws_slots (sp_values st') = (ws_slots (sp_values st))(kind := slot')" "sp_cache st' = c"
    and slot': "slot' = slot \<or> (\<exists>nonce. slot' = slot\<lparr>ws_nonce := nonce\<rparr>)" by blast
  have ok': "slot_ok slot'" "ws_cancel slot' = ws_cancel (ws_slots (sp_values st) kind)"
    using slot' slot(1,2) by (auto simp: slot_ok_def)
  have tok: "tokens (sp_values st') = tokens (sp_values st)"
    using ok'(2) by (auto simp: tokens_def st'(1) split: if_splits)
  show ?thesis
    by (rule stream_invI) (use ok'(1) stream_invD [OF si] c in \<open>auto simp: st' tok\<close>)
qed

lemma process_request_law:
  assumes co: "srv_cache srv = co" and si: "stream_inv good issued open_watch (sp_values st) mine (sp_cache st)"
  shows "process_request srv url req st = Inr (Running st') \<Longrightarrow> room (sp_cache st') \<Longrightarrow>
      stream_inv good issued open_watch (sp_values st') (mine \<union> tokens (sp_values st')) (sp_cache st')"
    and "process_request srv url req st = Inr (Returned e st') \<Longrightarrow>
      stream_inv good issued open_watch (sp_values st') mine (sp_cache st')"
proof -
  show "stream_inv good issued open_watch (sp_values st') mine (sp_cache st')" if "process_request srv url req st = Inr (Returned e st')"
    using that si by (auto simp: process_request_def Let_def bindE_Inr split: option.splits prod.splits if_splits)
  assume r: "process_request srv url req st = Inr (Running st')" and room: "room (sp_cache st')"
  consider "sp_values st' = sp_values st" "sp_cache st' = sp_cache st"
    | kind rq where "request_kind co kind rq (sp_values st) (sp_cache st) = Inr (sp_values st', sp_cache st')"
    using r co by (auto simp: process_request_def Let_def bindE_Inr split: option.splits prod.splits if_splits)
  then show "stream_inv good issued open_watch (sp_values st') (mine \<union> tokens (sp_values st')) (sp_cache st')"
  proof cases
    case 1
    then show ?thesis using si stream_invD(3) [OF si] by (simp add: sup.absorb1)
  qed (rule request_kind_law [OF si _ room])
qed

lemma process_step_law:
  assumes co: "srv_cache srv = co" and si: "stream_inv good issued open_watch (sp_values st) mine (sp_cache st)"
  shows "process_step srv url ev st = Inr (Some (Running st')) \<Longrightarrow> room (sp_cache st') \<Longrightarrow>
      stream_inv good issued open_watch (sp_values st') (mine \<union> tokens (sp_values st')) (sp_cache st')"
    and "process_step srv url ev st = Inr (Some (Returned e st')) \<Longrightarrow>
      stream_inv good issued open_watch (sp_values st') mine (sp_cache st')"
proof -
  show "stream_inv good issued open_watch (sp_values st') mine (sp_cache st')"
    if "process_step srv url ev st = Inr (Some (Returned e st'))"
    using that process_request_law(2) [OF co si] process_response_law [OF co si, OF disjI2] si
    by (cases "(srv, url, ev, st)" rule: process_step.cases) (auto simp: bindE_Inr)
  assume r: "process_step srv url ev st = Inr (Some (Running st'))" and room: "room (sp_cache st')"
  show "stream_inv good issued open_watch (sp_values st') (mine \<union> tokens (sp_values st')) (sp_cache st')"
  proof (cases "(srv, url, ev, st)" rule: process_step.cases)
    case (1 srv' url' kind sent st1)
    then have si': "stream_inv good issued open_watch (sp_values st') mine (sp_cache st')"
      using r process_response_law [OF co si, OF disjI1] by auto
    show ?thesis using si' stream_invD(3) [OF si'] by (simp add: sup.absorb1)
  next
    case (4 srv' url' req st1)
    then show ?thesis using r room process_request_law(1) [OF co si] by (auto simp: bindE_Inr)
  qed (use r in auto)
qed

lemma served_inv:
  assumes "served srv url start room env st mine" and co: "srv_cache srv = co" and start: "\<And>c. start c \<Longrightarrow> good c"
  shows "stream_inv good issued open_watch (sp_values st) mine (sp_cache st)"
  using assms(1)
proof (induction rule: served.induct)
  case (served_open c streamCount b st n)
  then have "sp_values st = no_watches" "sp_cache st = c" by (auto simp: process_open_def Let_def split: prod.splits option.splits)
  then show ?case using start served_open(1) by (auto simp: stream_inv_def no_watches_def slot_ok_def tokens_def)
next
  case (served_step st mine ev st')
  then show ?case using process_step_law(1) [OF co] by blast
next
  case (served_env st mine c')
  have "good c' \<and> (\<forall>v. issued (sp_cache st) v \<longrightarrow> issued c' v \<and> (open_watch c' v \<longrightarrow> open_watch (sp_cache st) v))"
    using env_law [OF stream_invD(1) [OF served_env.IH] served_env(2,3)] .
  then show ?case using served_env.IH by (auto simp: stream_inv_def)
qed

theorem served_closes:
  assumes "served srv url start room env st mine" and co: "srv_cache srv = co" and "\<And>c. start c \<Longrightarrow> good c"
  shows "\<exists>r. process_step srv url ev st = Inr r"
    and "process_step srv url ev st = Inr (Some (Returned e st')) \<Longrightarrow>
      \<exists>st''. process_close srv st' = Inr st'' \<and> (\<forall>w \<in> mine. \<not> open_watch (sp_cache st'') w)"
proof -
  note si = served_inv [OF assms]
  show "\<exists>r. process_step srv url ev st = Inr r" by (rule process_step_total [OF co si])
  assume "process_step srv url ev st = Inr (Some (Returned e st'))"
  then have si': "stream_inv good issued open_watch (sp_values st') mine (sp_cache st')"
    using process_step_law(2) [OF co si] by blast
  obtain c where c: "watches_Cancel co all_kinds (sp_values st') (sp_cache st') = Inr c"
    "\<And>v. open_watch c v = (open_watch (sp_cache st') v \<and> (\<forall>k \<in> set all_kinds. ws_cancel (ws_slots (sp_values st') k) \<noteq> Some (CancelWatch v)))"
    using watches_Cancel_law [OF stream_invD(1,2) [OF si'], of all_kinds] by blast
  have all: "k \<in> set all_kinds" for k by (cases k) (simp_all add: all_kinds_def)
  have "\<not> open_watch c w" if "w \<in> mine" for w
    using c(2) stream_invD(5) [OF si' that] all by (auto simp: tokens_def)
  then show "\<exists>st''. process_close srv st' = Inr st'' \<and> (\<forall>w \<in> mine. \<not> open_watch (sp_cache st'') w)"
    using c(1) co by (simp add: process_close_def)
qed

end

section \<open>The snapshot cache as the cache of a server\<close>

definition snapshot_CacheOps ::
  "('snap, 'r) SnapshotOps \<Rightarrow> (Node option \<Rightarrow> string) \<Rightarrow> gotime \<Rightarrow> (('snap, 'r) snapshotCache, string \<times> int, 'r) CacheOps" where
  "snapshot_CacheOps ops hash now =
     \<lparr>co_CreateWatch = CreateWatch ops hash now, co_cancel = (\<lambda>(node, wid). cancelWatch node wid),
      co_Fetch = Fetch ops hash, co_receive = chan_receive\<rparr>"

text \<open>One operation on the cache, by any goroutine.\<close>

inductive cache_step :: "('snap, 'r) SnapshotOps \<Rightarrow> (Node option \<Rightarrow> string) \<Rightarrow> ('snap, 'r) snapshotCache \<Rightarrow> ('snap, 'r) snapshotCache \<Rightarrow> bool"
  for ops hash where
  step_set: "SetSnapshot ops node s c = Inr c' \<Longrightarrow> cache_step ops hash c c'"
| step_clear: "cache_step ops hash c (ClearSnapshot node c)"
| step_watch: "CreateWatch ops hash now rq c = Inr (r, c') \<Longrightarrow> cache_step ops hash c c'"
| step_cancel: "cache_step ops hash c (cancelWatch node wid c)"
| step_receive: "cache_step ops hash c (snd (chan_receive ch c))"

text \<open>The ids of watches come from a 64-bit counter, so they are new as long as it did not wrap around.\<close>

definition count_room :: "('snap, 'r) snapshotCache \<Rightarrow> bool" where
  "count_room c \<longleftrightarrow> 0 \<le> sc_watchCount c"

definition cache_good :: "('snap, 'r) SnapshotOps \<Rightarrow> ('snap, 'r) snapshotCache \<Rightarrow> bool" where
  "cache_good ops c \<longleftrightarrow> cache_inv ops c \<and> 0 \<le> sc_watchCount c \<and> sc_watchCount c < 2 ^ 63 \<and>
     (\<forall>node wid w. watch_at c node wid = Some w \<longrightarrow> wid \<le> sc_watchCount c)"

definition watch_open :: "('snap, 'r) snapshotCache \<Rightarrow> string \<times> int \<Rightarrow> bool" where
  "watch_open c w \<longleftrightarrow> watch_at c (fst w) (snd w) \<noteq> None"

definition watch_issued :: "('snap, 'r) snapshotCache \<Rightarrow> string \<times> int \<Rightarrow> bool" where
  "watch_issued c w \<longleftrightarrow> snd w \<le> sc_watchCount c"

lemma add_int_one:
  assumes "0 \<le> i" and "i < 2 ^ 63" and "0 \<le> add_int i 1"
  shows "add_int i 1 = i + 1" and "i + 1 < 2 ^ 63"
proof -
  have "i \<noteq> 2 ^ 63 - 1" using assms(3) by (auto simp: add_int_def)
  then show "i + 1 < 2 ^ 63" using assms(2) by simp
  then show "add_int i 1 = i + 1" using assms(1) by (intro add_int_id) simp_all
qed

lemma CreateWatch_watches:
  assumes "CreateWatch ops hash now rq c = Inr ((ch, token), c')"
  shows "token = None \<and> sc_watchCount c' = sc_watchCount c \<and> watch_at c' = watch_at c \<or>
    token = Some (hash (rq_Node rq), add_int (sc_watchCount c) 1) \<and> sc_watchCount c' = add_int (sc_watchCount c) 1 \<and>
    (\<forall>node wid. (node, wid) \<noteq> (hash (rq_Node rq), add_int (sc_watchCount c) 1) \<longrightarrow> watch_at c' node wid = watch_at c node wid)"
  using assms
  by (auto simp: CreateWatch_def Let_def bindE_Inr watch_at_def go_maps newStatusInfo_def fun_eq_iff split: option.splits if_splits)

lemma cancelWatch_watches:
  "watch_at (cancelWatch node wid c) n i = (if n = node \<and> i = wid then None else watch_at c n i)"
  by (auto simp: cancelWatch_def watch_at_def go_maps split: option.splits)

lemma cancelWatch_count [simp]: "sc_watchCount (cancelWatch node wid c) = sc_watchCount c"
  by (simp add: cancelWatch_def split: option.splits)

lemma chan_receive_watches:
  "watch_at (snd (chan_receive ch c)) = watch_at c" "sc_watchCount (snd (chan_receive ch c)) = sc_watchCount c"
  by (auto simp: chan_receive_def watch_at_def fun_eq_iff split: list.splits)

lemma SetSnapshot_count: "SetSnapshot ops node s c = Inr c' \<Longrightarrow> sc_watchCount c' = sc_watchCount c"
  by (auto simp: SetSnapshot_def Let_def bindE_Inr split: option.splits)

lemma cache_good_create:
  assumes good: "cache_good ops c" and cw: "CreateWatch ops hash now rq c = Inr ((ch, token), c')" and room: "count_room c'"
  shows "cache_good ops c' \<and> (\<forall>v. watch_issued c v \<longrightarrow> watch_issued c' v \<and> watch_open c' v = watch_open c v) \<and>
    (\<forall>v. token = Some v \<longrightarrow> watch_issued c' v)"
proof -
  have inv: "cache_inv ops c'" using CreateWatch_spec [of ops c hash now rq] good cw by (auto simp: cache_good_def)
  from CreateWatch_watches [OF cw] show ?thesis
  proof
    assume "token = None \<and> sc_watchCount c' = sc_watchCount c \<and> watch_at c' = watch_at c"
    then show ?thesis using inv good by (auto simp: cache_good_def watch_issued_def watch_open_def)
  next
    let ?new = "(hash (rq_Node rq), add_int (sc_watchCount c) 1)"
    assume w: "token = Some ?new \<and> sc_watchCount c' = add_int (sc_watchCount c) 1 \<and>
      (\<forall>node wid. (node, wid) \<noteq> ?new \<longrightarrow> watch_at c' node wid = watch_at c node wid)"
    have n: "add_int (sc_watchCount c) 1 = sc_watchCount c + 1" "sc_watchCount c + 1 < 2 ^ 63"
      using add_int_one [of "sc_watchCount c"] good room w by (auto simp: cache_good_def count_room_def)
    have "wid \<le> sc_watchCount c'" if "watch_at c' node wid = Some x" for node wid x
    proof (cases "(node, wid) = ?new")
      case False
      then have "watch_at c node wid = Some x" using w that by auto
      then show ?thesis using good w n by (fastforce simp: cache_good_def)
    qed (use w in auto)
    then have "cache_good ops c'" using inv good w n by (simp add: cache_good_def)
    moreover have "watch_open c' v = watch_open c v" if "watch_issued c v" for v
      using that w n by (cases v) (auto simp: watch_issued_def watch_open_def)
    ultimately show ?thesis using w n by (auto simp: watch_issued_def)
  qed
qed

lemma cache_good_fewer:
  assumes "cache_good ops c" and "cache_inv ops c'" and "sc_watchCount c' = sc_watchCount c"
    and "\<And>n i w. watch_at c' n i = Some w \<Longrightarrow> watch_at c n i = Some w"
  shows "cache_good ops c' \<and> (\<forall>v. watch_issued c v \<longrightarrow> watch_issued c' v \<and> (watch_open c' v \<longrightarrow> watch_open c v))"
proof -
  have "wid \<le> sc_watchCount c" if "watch_at c' n wid = Some w" for n wid w
    using assms(1) assms(4) [OF that] by (auto simp: cache_good_def)
  then have "cache_good ops c'" using assms(1-3) by (auto simp: cache_good_def)
  moreover have "watch_open c v" if "watch_open c' v" for v
    using that assms(4) [of "fst v" "snd v"] by (auto simp: watch_open_def)
  ultimately show ?thesis using assms(3) by (simp add: watch_issued_def)
qed

lemma cache_good_step:
  assumes good: "cache_good ops c" and "cache_step ops hash c c'" and room: "count_room c'"
  shows "cache_good ops c' \<and> (\<forall>v. watch_issued c v \<longrightarrow> watch_issued c' v \<and> (watch_open c' v \<longrightarrow> watch_open c v))"
  using assms(2)
proof cases
  have inv: "cache_inv ops c" using good by (simp add: cache_good_def)
  {
    case (step_set node s)
    then show ?thesis using SetSnapshot_spec [OF inv, of node s] by (intro cache_good_fewer [OF good]) (auto dest: SetSnapshot_count)
  next
    case (step_clear node)
    then show ?thesis
      using ClearSnapshot_inv [OF inv]
      by (intro cache_good_fewer [OF good]) (auto simp: ClearSnapshot_def watch_at_def go_maps split: if_splits)
  next
    case (step_watch now rq r)
    then show ?thesis using cache_good_create [OF good _ room, of hash now rq "fst r" "snd r"] by auto
  next
    case (step_cancel node wid)
    then show ?thesis
      using cancelWatch_inv [OF inv] by (intro cache_good_fewer [OF good]) (auto simp: cancelWatch_watches split: if_splits)
  next
    case (step_receive ch)
    then show ?thesis using chan_receive_inv [OF inv] by (intro cache_good_fewer [OF good]) (auto simp: chan_receive_watches)
  }
qed

interpretation snapshots: watch_cache "snapshot_CacheOps ops hash now" "cache_good ops" count_room watch_open watch_issued "cache_step ops hash"
  for ops :: "('snap, 'r) SnapshotOps" and hash now
proof unfold_locales
  fix c rq
  assume "cache_good ops c"
  then show "\<exists>r. co_CreateWatch (snapshot_CacheOps ops hash now) rq c = Inr r"
    using CreateWatch_spec [of ops c hash now rq] by (auto simp: snapshot_CacheOps_def cache_good_def)
next
  fix c rq ch token c'
  assume "cache_good ops c" "co_CreateWatch (snapshot_CacheOps ops hash now) rq c = Inr ((ch, token), c')" "count_room c'"
  then show "cache_good ops c' \<and> (\<forall>v. watch_issued c v \<longrightarrow> watch_issued c' v \<and> watch_open c' v = watch_open c v) \<and>
      (\<forall>v. token = Some v \<longrightarrow> watch_issued c' v)"
    by (intro cache_good_create) (simp_all add: snapshot_CacheOps_def)
next
  fix c and w :: "string \<times> int"
  assume good: "cache_good ops c"
  obtain node wid where w: "w = (node, wid)" by fastforce
  have "cache_good ops (cancelWatch node wid c)"
    using cache_good_fewer [OF good, of "cancelWatch node wid c"] cancelWatch_inv good
    by (auto simp: cancelWatch_watches cache_good_def split: if_splits)
  then show "cache_good ops (co_cancel (snapshot_CacheOps ops hash now) w c) \<and>
      (\<forall>v. watch_issued (co_cancel (snapshot_CacheOps ops hash now) w c) v = watch_issued c v \<and>
           watch_open (co_cancel (snapshot_CacheOps ops hash now) w c) v = (watch_open c v \<and> v \<noteq> w))"
    by (auto simp: w snapshot_CacheOps_def watch_issued_def watch_open_def cancelWatch_watches)
next
  fix c ch r c'
  assume good: "cache_good ops c" and "co_receive (snapshot_CacheOps ops hash now) ch c = (r, c')"
  then have c': "c' = snd (chan_receive ch c)" by (simp add: snapshot_CacheOps_def)
  then show "cache_good ops c' \<and> (\<forall>v. watch_issued c' v = watch_issued c v \<and> watch_open c' v = watch_open c v)"
    using good chan_receive_inv by (auto simp: cache_good_def chan_receive_watches watch_issued_def watch_open_def)
next
  fix c c'
  assume "cache_good ops c" "cache_step ops hash c c'" "count_room c'"
  then show "cache_good ops c' \<and> (\<forall>v. watch_issued c v \<longrightarrow> watch_issued c' v \<and> (watch_open c' v \<longrightarrow> watch_open c v))"
    by (rule cache_good_step)
qed

lemma cache_good_new: "cache_good ops (NewSnapshotCache ads)"
  using cache_inv_new [of ops ads] by (simp add: cache_good_def NewSnapshotCache_def watch_at_def)

definition used_cache :: "('snap, 'r) SnapshotOps \<Rightarrow> (Node option \<Rightarrow> string) \<Rightarrow> bool \<Rightarrow> ('snap, 'r) snapshotCache \<Rightarrow> bool" where
  "used_cache ops hash ads = (\<lambda>c c'. cache_step ops hash c c' \<and> count_room c')\<^sup>*\<^sup>* (NewSnapshotCache ads)"

lemma used_cache_good:
  assumes "used_cache ops hash ads c"
  shows "cache_good ops c"
  using assms unfolding used_cache_def
proof (induction rule: rtranclp_induct)
  case (step c c')
  then show ?case using cache_good_step by blast
qed (rule cache_good_new)

text \<open>
  C15. A stream leaves nothing behind.  Opened on a cache in use, however its steps interleave with
  other uses of the cache, and as long as the 64-bit counter of watches has not wrapped around, no
  step of the stream panics, and when it returns, for whatever reason, closing it succeeds and none
  of the watches it ever opened is still open in the cache.
\<close>

theorem stream_leaves_no_watch:
  assumes "srv_cache srv = snapshot_CacheOps ops hash now"
    and "served srv url (used_cache ops hash ads) count_room (cache_step ops hash) st mine"
  shows "(\<exists>r. process_step srv url ev st = Inr r) \<and>
    (process_step srv url ev st = Inr (Some (Returned e st')) \<longrightarrow>
       (\<exists>st''. process_close srv st' = Inr st'' \<and> (\<forall>(node, wid) \<in> mine. watch_at (sp_cache st'') node wid = None)))"
  using snapshots.served_closes [OF assms(2,1) used_cache_good, where ev = ev] by (fastforce simp: watch_open_def)

section \<open>Nonces\<close>

lemma type_url_inj: "type_url k = type_url k' \<longleftrightarrow> k = k'"
  by (cases k; cases k') (simp_all add: EndpointType_def ClusterType_def RouteType_def ListenerType_def)

definition last_nonce :: "resource_kind \<Rightarrow> DiscoveryResponse list \<Rightarrow> string" where
  "last_nonce kind sent =
     (case rev (filter (\<lambda>r. dr_TypeUrl r = type_url kind) sent) of [] \<Rightarrow> '''' | r # _ \<Rightarrow> dr_Nonce r)"

lemma last_nonce_append:
  "last_nonce kind (sent @ [r]) = (if dr_TypeUrl r = type_url kind then dr_Nonce r else last_nonce kind sent)"
  by (simp add: last_nonce_def)

definition nonces_ok :: "('c, 'w, 'r, 'b) stream_process \<Rightarrow> bool" where
  "nonces_ok st \<longleftrightarrow> sp_streamNonce st = int (length (sp_sent st)) \<and>
     map dr_Nonce (sp_sent st) = map format_nat [1..<Suc (length (sp_sent st))] \<and>
     (\<forall>k. ws_nonce (ws_slots (sp_values st) k) = last_nonce k (sp_sent st))"

lemma server_createResponse_url:
  "server_createResponse marshal resp url = Inr out \<Longrightarrow> dr_TypeUrl out = url"
  by (auto simp: server_createResponse_def bindE_Inr split: option.splits)

lemma request_kind_nonce:
  assumes "request_kind co kind req values c = Inr (values', c')"
  shows "ws_nonce (ws_slots values' k) = ws_nonce (ws_slots values k)"
proof (cases "ws_nonce (ws_slots values kind) = '''' \<or> ws_nonce (ws_slots values kind) = rq_ResponseNonce req")
  case True
  obtain slot c1 where "cancel_slot co (ws_slots values kind) c = Inr (slot, c1)"
    using assms True by (auto simp: request_kind_def Let_def bindE_Inr)
  from assms this True show ?thesis by (cases rule: request_kind_cases) auto
qed (use assms in \<open>auto simp: request_kind_def Let_def\<close>)

lemma process_request_nonces:
  assumes "process_request srv url req st = Inr (Running st')"
  shows "sp_sent st' = sp_sent st \<and> sp_streamNonce st' = sp_streamNonce st \<and>
    (\<forall>k. ws_nonce (ws_slots (sp_values st') k) = ws_nonce (ws_slots (sp_values st) k))"
  using assms by (auto simp: process_request_def Let_def bindE_Inr request_kind_nonce split: option.splits prod.splits if_splits)

lemma process_response_nonces:
  assumes "process_response srv kind sent st = Some (Running st')"
  shows "\<exists>out. dr_TypeUrl out = type_url kind \<and> dr_Nonce out = format_int (add_int (sp_streamNonce st) 1) \<and>
    sp_sent st' = sp_sent st @ [out] \<and> sp_streamNonce st' = add_int (sp_streamNonce st) 1 \<and>
    (\<forall>k. ws_nonce (ws_slots (sp_values st') k) = (if k = kind then dr_Nonce out else ws_nonce (ws_slots (sp_values st) k)))"
  using assms
  by (fastforce simp: process_response_def server_send_def Let_def dest: server_createResponse_url
      split: option.splits sum.splits prod.splits if_splits)

lemma process_step_nonces:
  assumes ok: "nonces_ok st" and step: "process_step srv url ev st = Inr (Some (Running st'))" and bound: "length (sp_sent st') < 2 ^ 63"
  shows "nonces_ok st'"
proof (cases "(srv, url, ev, st)" rule: process_step.cases)
  case (1 srv' url' kind sent st1)
  then obtain out where out: "dr_TypeUrl out = type_url kind" "dr_Nonce out = format_int (add_int (sp_streamNonce st) 1)"
    "sp_sent st' = sp_sent st @ [out]" "sp_streamNonce st' = add_int (sp_streamNonce st) 1"
    "\<And>k. ws_nonce (ws_slots (sp_values st') k) = (if k = kind then dr_Nonce out else ws_nonce (ws_slots (sp_values st) k))"
    using process_response_nonces [of srv kind sent st st'] step by auto
  let ?n = "length (sp_sent st)"
  have n: "add_int (sp_streamNonce st) 1 = int (Suc ?n)"
    using ok bound by (subst add_int_id) (auto simp: nonces_ok_def out(3))
  then have "dr_Nonce out = format_nat (Suc ?n)" using out(2) by (simp add: format_int_nat del: of_nat_Suc)
  then show ?thesis
    using ok n by (auto simp: nonces_ok_def out(1,3-5) last_nonce_append type_url_inj)
next
  case (4 srv' url' req st1)
  then show ?thesis using step ok process_request_nonces [of srv url req st st'] by (auto simp: bindE_Inr nonces_ok_def)
qed (use step in auto)

lemma served_nonces:
  assumes "served srv url start room env st mine"
  shows "length (sp_sent st) < 2 ^ 63 \<longrightarrow> nonces_ok st"
  using assms
proof (induction rule: served.induct)
  case (served_open c streamCount b st n)
  then show ?case
    by (auto simp: process_open_def Let_def nonces_ok_def no_watches_def last_nonce_def split: prod.splits option.splits)
next
  case (served_step st mine ev st')
  have "length (sp_sent st) \<le> length (sp_sent st')"
    using served_step(2) by (cases "(srv, url, ev, st)" rule: process_step.cases)
      (auto simp: bindE_Inr dest!: process_response_nonces process_request_nonces)
  then show ?case using served_step.IH process_step_nonces [OF _ served_step(2)] by simp
next
  case (served_env st mine c')
  then show ?case by (simp add: nonces_ok_def)
qed

text \<open>
  C27. The nonces of a stream are the numbers 1, 2, 3 and so on, so they identify its responses, for as
  long as fewer than 2^63 responses were sent; and the stream ignores stale requests: a request
  for a kind that has been answered, whose nonce is not that of the last response of that kind,
  changes neither the watches nor the cache.
\<close>

theorem stale_requests_are_ignored:
  assumes "served srv url start room env st mine" and "length (sp_sent st) < 2 ^ 63"
  shows "map dr_Nonce (sp_sent st) = map format_nat [1..<Suc (length (sp_sent st))] \<and> distinct (map dr_Nonce (sp_sent st)) \<and>
    (kind_of_url (rq_TypeUrl req) = Some kind \<longrightarrow> last_nonce kind (sp_sent st) \<noteq> '''' \<longrightarrow>
     rq_ResponseNonce req \<noteq> last_nonce kind (sp_sent st) \<longrightarrow>
     process_step srv url (FromClient (Some req)) st = Inr (Some (Running st')) \<longrightarrow>
       sp_values st' = sp_values st \<and> sp_cache st' = sp_cache st)"
proof -
  have ok: "nonces_ok st" using served_nonces [OF assms(1)] assms(2) by simp
  have "inj_on format_nat A" for A by (simp add: inj_on_def)
  then have "distinct (map dr_Nonce (sp_sent st))" using ok unfolding nonces_ok_def by (simp only: distinct_map distinct_upt)
  moreover have "rq_TypeUrl req \<noteq> ''''" if "kind_of_url (rq_TypeUrl req) = Some kind"
    using that by (cases kind) (auto simp: kind_of_url_def all_kinds_def EndpointType_def ClusterType_def RouteType_def ListenerType_def split: if_splits)
  moreover have "ws_nonce (ws_slots (sp_values st) kind) = last_nonce kind (sp_sent st)" using ok by (simp add: nonces_ok_def)
  ultimately show ?thesis
    using ok by (auto simp: nonces_ok_def process_request_def Let_def bindE_Inr request_kind_def split: option.splits prod.splits if_splits)
qed

section \<open>Warming clusters\<close>

lemma kind_of_EndpointType [simp]: "kind_of_url EndpointType = Some EndpointKind"
  by (simp add: kind_of_url_def all_kinds_def)

lemma EndpointType_ne [simp]: "EndpointType \<noteq> ''''"
  by (simp add: EndpointType_def)

text \<open>A request for endpoints that runs on is the one of \<open>request_kind\<close>, with the node filled in.\<close>

lemma endpoint_request:
  assumes "process_step srv url (FromClient (Some req)) st = Inr (Some (Running st'))" and "rq_TypeUrl req = EndpointType"
  shows "request_kind (srv_cache srv) EndpointKind (req\<lparr>rq_Node := Some (sp_node st')\<rparr>) (sp_values st) (sp_cache st) =
      Inr (sp_values st', sp_cache st')" and "sp_sent st' = sp_sent st"
proof -
  have r: "process_request srv url req st = Inr (Running st')" using assms(1) by (auto simp: bindE_Inr)
  show "sp_sent st' = sp_sent st" using process_request_nonces [OF r] by simp
  show "request_kind (srv_cache srv) EndpointKind (req\<lparr>rq_Node := Some (sp_node st')\<rparr>) (sp_values st) (sp_cache st) =
      Inr (sp_values st', sp_cache st')"
    using r assms(2)
    by (cases "rq_Node req") (auto simp: process_request_def Let_def bindE_Inr split: option.splits prod.splits if_splits)
qed

lemma endpoint_request_acked:
  assumes "request_kind co EndpointKind req values c = Inr (values', c')"
    and "rq_ResponseNonce req = ws_nonce (ws_slots values EndpointKind)" and "rq_ResponseNonce req \<noteq> ''''"
  shows "ws_endpointNonceAcked values'"
  using assms by (auto simp: request_kind_def Let_def bindE_Inr split: option.splits)

lemma endpoint_request_peeked:
  assumes "request_kind co EndpointKind req values c = Inr (values', c')" and "ws_endpointNonceAcked values"
    and "rq_ResponseNonce req = ws_nonce (ws_slots values EndpointKind)" and "peekResponse co req c = Some resp"
  shows "ws_value (ws_slots values' EndpointKind) = Scheduled [resp] False"
  using assms by (auto simp: request_kind_def Let_def bindE_Inr scheduleResponse_def)


section \<open>An example\<close>

definition example_ops :: "(nat CacheResources, nat) SnapshotOps" where
  "example_ops =
     \<lparr>sn_GetSupportedTypes = (\<lambda>_. [EndpointType]), sn_GetResources = (\<lambda>s t. if t = EndpointType then cr_Items s else []),
      sn_GetVersion = (\<lambda>s t. if t = EndpointType then cr_Version s else ''''),
      sn_WithVersion = (\<lambda>s t v. if t = EndpointType then s\<lparr>cr_Version := v\<rparr> else s)\<rparr>"

definition example_hash :: "Node option \<Rightarrow> string" where
  "example_hash node = ''n''"

definition example_callbacks :: "unit Callbacks" where
  "example_callbacks =
     \<lparr>cb_OnStreamOpen = (\<lambda>_ _ b. (None, b)), cb_OnStreamClosed = (\<lambda>_ b. b), cb_OnStreamRequest = (\<lambda>_ _ b. (None, b)),
      cb_OnStreamResponse = (\<lambda>_ _ _ b. b), cb_OnFetchRequest = (\<lambda>_ b. (None, b)), cb_OnFetchResponse = (\<lambda>_ _ b. b)\<rparr>"

definition example_server :: "((nat CacheResources, nat) snapshotCache, string \<times> int, nat, unit) server" where
  "example_server = \<lparr>srv_cache = snapshot_CacheOps example_ops example_hash 5, srv_callbacks = example_callbacks, srv_Marshal = (\<lambda>_. Inr ''r'')\<rparr>"

definition example_snapshot :: "nat CacheResources" where
  "example_snapshot = \<lparr>cr_Version = ''v1'', cr_Items = [(''backend'', 7)]\<rparr>"

definition endpoint_req :: "string \<Rightarrow> string \<Rightarrow> DiscoveryRequest" where
  "endpoint_req version nonce = \<lparr>rq_VersionInfo = version, rq_Node = None, rq_ResourceNames = [''backend''], rq_TypeUrl = EndpointType,
     rq_ResponseNonce = nonce, rq_ErrorDetail = None\<rparr>"

lemmas example_defs = example_ops_def example_hash_def example_callbacks_def example_server_def example_snapshot_def
  endpoint_req_def snapshot_CacheOps_def

definition example_cache0 :: "(nat CacheResources, nat) snapshotCache" where
  "example_cache0 = \<lparr>sc_ads = False, sc_snapshots = [(''n'', example_snapshot)], sc_status = [], sc_watchCount = 0, sc_channels = []\<rparr>"

lemma example_used: "used_cache example_ops example_hash False example_cache0"
proof -
  have "cache_step example_ops example_hash (NewSnapshotCache False) example_cache0"
    by (rule step_set [of _ "''n''" example_snapshot]) (simp add: SetSnapshot_def NewSnapshotCache_def example_cache0_def)
  then show ?thesis unfolding used_cache_def by (intro r_into_rtranclp) (simp add: count_room_def example_cache0_def)
qed

text \<open>The stream asks for endpoints, gets them under the nonce 1, and acknowledges them.\<close>

definition example_node :: Node where
  "example_node = \<lparr>node_Id = '''', node_Metadata = None\<rparr>"

definition example_answer :: "nat Response" where
  "example_answer = cache_createResponse ((endpoint_req '''' '''')\<lparr>rq_Node := Some example_node\<rparr>) [(''backend'', 7)] ''v1''"

definition slots_with :: "(string \<times> int, nat) watch_slot \<Rightarrow> bool \<Rightarrow> (string \<times> int, nat) watches" where
  "slots_with slot acked = \<lparr>ws_slots = (ws_slots no_watches)(EndpointKind := slot), ws_endpointNonceAcked = acked\<rparr>"

definition example_process ::
  "(string \<times> int, nat) watches \<Rightarrow> (nat CacheResources, nat) snapshotCache \<Rightarrow> DiscoveryResponse list \<Rightarrow>
   ((nat CacheResources, nat) snapshotCache, string \<times> int, nat, unit) stream_process" where
  "example_process values c sent =
     \<lparr>sp_streamID = 1, sp_streamNonce = int (length sent), sp_values = values, sp_node = example_node, sp_cache = c, sp_callbacks = (), sp_sent = sent\<rparr>"

definition example_cache_at :: "(int, ResponseWatch) gomap \<Rightarrow> int \<Rightarrow> nat Response list list \<Rightarrow> (nat CacheResources, nat) snapshotCache" where
  "example_cache_at watches n chans =
     example_cache0\<lparr>sc_status := [(''n'', \<lparr>si_node = Some example_node, si_watches = watches, si_lastWatchRequestTime = 5\<rparr>)],
       sc_watchCount := n, sc_channels := chans\<rparr>"

definition example_out :: DiscoveryResponse where
  "example_out = \<lparr>dr_VersionInfo = ''v1'', dr_Resources = [(EndpointType, ''r'')], dr_TypeUrl = EndpointType, dr_Nonce = ''1''\<rparr>"

lemmas example_state_defs = example_process_def example_cache_at_def example_cache0_def slots_with_def example_node_def no_watches_def

lemma example_opened: "process_open example_server AnyType 0 example_cache0 () = (Running (example_process no_watches example_cache0 []), 1)"
  by (simp add: process_open_def Let_def example_defs example_process_def example_node_def add_int_id)

lemma example_asked:
  "process_step example_server AnyType (FromClient (Some (endpoint_req '''' ''''))) (example_process no_watches example_cache0 []) =
     Inr (Some (Running (example_process (slots_with \<lparr>ws_value = CacheChan 0, ws_cancel = None, ws_nonce = ''''\<rparr> False)
       (example_cache_at [] 0 [[example_answer]]) [])))"
  by (simp add: process_request_def request_kind_def cancel_slot_def CreateWatch_def cache_respond_def chan_send_def newStatusInfo_def Let_def
      example_defs example_state_defs example_answer_def)

lemma example_nonce: "format_int 1 = ''1''"
  by code_simp

lemma example_sent:
  "process_step example_server AnyType (FromWatch EndpointKind None)
     (example_process (slots_with \<lparr>ws_value = CacheChan 0, ws_cancel = None, ws_nonce = ''''\<rparr> False) (example_cache_at [] 0 [[example_answer]]) []) =
   Inr (Some (Running (example_process (slots_with \<lparr>ws_value = CacheChan 0, ws_cancel = None, ws_nonce = ''1''\<rparr> False)
     (example_cache_at [] 0 [[]]) [example_out])))"
  by (simp add: process_response_def receive_slot_def chan_receive_def server_send_def server_createResponse_def cache_createResponse_def Let_def
      nameSet_def example_nonce add_int_id example_defs example_state_defs example_answer_def example_out_def)

definition example_ack :: DiscoveryRequest where
  "example_ack = (endpoint_req ''v1'' ''1'')\<lparr>rq_Node := Some example_node\<rparr>"

abbreviation example_stream :: "((nat CacheResources, nat) snapshotCache, string \<times> int, nat, unit) stream_process" where
  "example_stream \<equiv> example_process (slots_with \<lparr>ws_value = CacheChan 0, ws_cancel = None, ws_nonce = ''1''\<rparr> False) (example_cache_at [] 0 [[]]) [example_out]"

abbreviation example_acked :: "((nat CacheResources, nat) snapshotCache, string \<times> int, nat, unit) stream_process" where
  "example_acked \<equiv> example_process (slots_with \<lparr>ws_value = CacheChan 1, ws_cancel = Some (CancelWatch (''n'', 1)), ws_nonce = ''1''\<rparr> True)
     (example_cache_at [(1, \<lparr>w_Request = example_ack, w_Response = 1\<rparr>)] 1 [[], []]) [example_out]"

lemma example_ack_step:
  "process_step example_server AnyType (FromClient (Some (endpoint_req ''v1'' ''1''))) example_stream = Inr (Some (Running example_acked))"
  by (simp add: process_request_def request_kind_def cancel_slot_def CreateWatch_def Let_def add_int_id
      example_defs example_state_defs example_ack_def)

abbreviation example_served :: "((nat CacheResources, nat) snapshotCache, string \<times> int, nat, unit) stream_process \<Rightarrow> (string \<times> int) set \<Rightarrow> bool" where
  "example_served \<equiv> served example_server AnyType (used_cache example_ops example_hash False) count_room (cache_step example_ops example_hash)"

lemma example_stream_served: "example_served example_stream {}"
proof -
  have tok: "tokens (slots_with \<lparr>ws_value = v, ws_cancel = None, ws_nonce = n\<rparr> a) = {}" for v n a
    by (auto simp: tokens_def slots_with_def no_watches_def)
  have "example_served (example_process no_watches example_cache0 []) {}"
    by (rule served_open [where start = "used_cache example_ops example_hash False", OF example_used example_opened])
  from served_step [OF this example_asked]
  have "example_served (example_process (slots_with \<lparr>ws_value = CacheChan 0, ws_cancel = None, ws_nonce = ''''\<rparr> False)
      (example_cache_at [] 0 [[example_answer]]) []) {}"
    using tok by (simp add: example_process_def example_cache_at_def count_room_def)
  from served_step [OF this example_sent] show ?thesis
    using tok by (simp add: example_process_def example_cache_at_def count_room_def)
qed

lemma example_acked_served: "example_served example_acked {(''n'', 1)}"
proof -
  have "tokens (sp_values example_acked) = {(''n'', 1)}"
    by (auto simp: tokens_def slots_with_def no_watches_def example_process_def split: if_splits)
  with served_step [OF example_stream_served example_ack_step] show ?thesis
    by (simp add: count_room_def example_process_def example_cache_at_def)
qed

lemma example_server_cache: "srv_cache example_server = snapshot_CacheOps example_ops example_hash 5"
  by (simp add: example_server_def)

theorem stream_leaves_no_watch_witness:
  "\<exists>st. watch_at (sp_cache example_acked) ''n'' 1 \<noteq> None \<and> process_close example_server example_acked = Inr st \<and>
     watch_at (sp_cache st) ''n'' 1 = None"
proof -
  have "watch_at (sp_cache example_acked) ''n'' 1 \<noteq> None" by (simp add: example_process_def example_cache_at_def watch_at_def)
  then show ?thesis
    using stream_leaves_no_watch [OF example_server_cache example_acked_served, of ClientDone None example_acked] by auto
qed

theorem stale_requests_are_ignored_witness:
  "\<exists>st. process_step example_server AnyType (FromClient (Some (endpoint_req ''v1'' ''0''))) example_stream = Inr (Some (Running st)) \<and>
     sp_values st = sp_values example_stream \<and> sp_cache st = sp_cache example_stream"
proof -
  have "\<exists>st. process_step example_server AnyType (FromClient (Some (endpoint_req ''v1'' ''0''))) example_stream = Inr (Some (Running st))"
    by (simp add: process_request_def request_kind_def Let_def example_defs example_state_defs)
  then obtain st where st: "process_step example_server AnyType (FromClient (Some (endpoint_req ''v1'' ''0''))) example_stream = Inr (Some (Running st))"
    by blast
  have len: "length (sp_sent example_stream) < 2 ^ 63" by (simp add: example_process_def)
  have "last_nonce EndpointKind (sp_sent example_stream) = ''1''" by (simp add: last_nonce_def example_process_def example_out_def)
  then show ?thesis
    using stale_requests_are_ignored [OF example_stream_served len, of "endpoint_req ''v1'' ''0''" EndpointKind st] st
    by (auto simp: endpoint_req_def)
qed


end
