(* ===== verification/Monitoring.thy ===== *)
theory Monitoring
  imports Proxy_Sync Snapshot_Cache
begin

text \<open>
  Service discovery for Prometheus: the monitoring assignments of dataplanes
  (\<open>pkg/mads/generator/assignments.go\<close>), their snapshot
  (\<open>pkg/mads/reconcile/snapshot_generator.go\<close>) and the reconciler that versions it and puts it into
  the cache (\<open>pkg/mads/reconcile/reconciler.go\<close>).  Parameters are \<open>proto.Merge\<close>, the function
  \<open>SanitizeLabelName\<close> of Prometheus, the name extensions of metadata that is not of the memory
  store, and the source of UUIDs.
\<close>

section \<open>Assignments\<close>

record MonitoringAssignment =
  ma_Name :: string
  ma_Targets :: "(string, string) gomap list"
  ma_Labels :: "(string, string) gomap"

definition meshLabel :: string where "meshLabel = ''mesh''"
definition dataplaneLabel :: string where "dataplaneLabel = ''dataplane''"

text \<open>Labels of the Prometheus library.\<close>

definition AddressLabel :: string where "AddressLabel = ''__address__''"
definition SchemeLabel :: string where "SchemeLabel = ''__scheme__''"
definition MetricsPathLabel :: string where "MetricsPathLabel = ''__metrics_path__''"
definition JobLabel :: string where "JobLabel = ''job''"
definition InstanceLabel :: string where "InstanceLabel = ''instance''"

record monitoring_library =
  mon_Merge :: "Prometheus \<Rightarrow> Prometheus option \<Rightarrow> Prometheus"
  mon_SanitizeLabelName :: "string \<Rightarrow> string"
  mon_NameExtensions :: "foreign_meta \<Rightarrow> (string, string) gomap"

fun meta_GetNameExtensions :: "monitoring_library \<Rightarrow> ResourceMeta \<Rightarrow> (string, string) gomap" where
  "meta_GetNameExtensions lib (MemoryMeta _) = []"
| "meta_GetNameExtensions lib (ForeignMeta m) = mon_NameExtensions lib m"

definition indexMeshes :: "MeshResource list \<Rightarrow> (string, MeshResource) gomap" where
  "indexMeshes meshes = fold (\<lambda>mesh index. gput (res_name mesh) mesh index) meshes []"

definition assignmentName :: "DataplaneResource \<Rightarrow> string" where
  "assignmentName dataplane = ''/meshes/'' @ res_mesh dataplane @ ''/dataplanes/'' @ res_name dataplane"

definition addressLabel :: "DataplaneResource \<Rightarrow> Prometheus \<Rightarrow> go_error + (string, string) gomap" where
  "addressLabel dataplane endpoint =
     bindE (GetIP (Some dataplane)) (\<lambda>ip.
     Inr [(AddressLabel, join_host_port ip (format_nat (unat (prom_Port endpoint))))])"

definition multiValue :: "string list \<Rightarrow> string" where
  "multiValue values = '','' @ strings_join '','' values @ '',''"

definition tag_labels :: "monitoring_library \<Rightarrow> MultiValueTagSet \<Rightarrow> string \<Rightarrow> (string, string) gomap \<Rightarrow> (string, string) gomap" where
  "tag_labels lib tags key labels =
     (let values = multi_Values tags key;
          val = (case values of [] \<Rightarrow> '''' | v # _ \<Rightarrow> v);
          labels = gput (mon_SanitizeLabelName lib key) val labels
      in gput (mon_SanitizeLabelName lib (key @ ''s'')) (multiValue values) labels)"

definition dataplaneLabels :: "monitoring_library \<Rightarrow> DataplaneResource \<Rightarrow> ResourceMeta \<Rightarrow> Prometheus \<Rightarrow> (string, string) gomap" where
  "dataplaneLabels lib dataplane meta endpoint =
     (let tags = dataplane_Tags (Spec dataplane);
          labels = fold (tag_labels lib tags) (multi_Keys tags) [];
          labels = fold (\<lambda>(key, val). gput (mon_SanitizeLabelName lib key) val) (meta_GetNameExtensions lib meta) labels;
          labels = gput SchemeLabel ''http'' labels;
          labels = gput MetricsPathLabel (prom_Path endpoint) labels;
          labels = gput JobLabel (GetIdentifyingService (Spec dataplane)) labels;
          labels = gput InstanceLabel (meta_GetName meta) labels;
          labels = gput meshLabel (meta_GetMesh meta) labels
      in gput dataplaneLabel (meta_GetName meta) labels)"

text \<open>The assignment of one dataplane: \<open>None\<close> when it is not monitored.\<close>

definition dataplane_assignment ::
  "monitoring_library \<Rightarrow> (string, MeshResource) gomap \<Rightarrow> DataplaneResource \<Rightarrow> go_error + MonitoringAssignment option" where
  "dataplane_assignment lib meshIndex dataplane =
     (case Meta dataplane of
        None \<Rightarrow> Inl (ErrPanic ''nil pointer dereference'')
      | Some meta \<Rightarrow>
          (case map_of meshIndex (meta_GetMesh meta) of
             None \<Rightarrow> Inr None
           | Some mesh \<Rightarrow>
               (case GetPrometheusEndpoint (mon_Merge lib) (Some dataplane) (Some mesh) of
                  None \<Rightarrow> Inr None
                | Some prometheusEndpoint \<Rightarrow>
                    bindE (addressLabel dataplane prometheusEndpoint) (\<lambda>target.
                    Inr (Some \<lparr>ma_Name = assignmentName dataplane, ma_Targets = [target],
                               ma_Labels = dataplaneLabels lib dataplane meta prometheusEndpoint\<rparr>)))))"

definition assignments_Generate ::
  "monitoring_library \<Rightarrow> MeshResource list \<Rightarrow> DataplaneResource list \<Rightarrow> go_error + MonitoringAssignment XdsResource list" where
  "assignments_Generate lib meshes dataplanes =
     bindE (mapE (dataplane_assignment lib (indexMeshes meshes)) dataplanes) (\<lambda>assignments.
     Inr (map (\<lambda>a. \<lparr>xr_Name = ma_Name a, xr_Version = '''', xr_Resource = a\<rparr>) (List.map_filter (\<lambda>a. a) assignments)))"

section \<open>Snapshots\<close>

definition getMeshes :: "ReadOnlyResourceManager \<Rightarrow> go_error + MeshResource list" where
  "getMeshes manager =
     (case ro_List manager (new_list (zero_of MeshType)) [] of
        (Some err, _) \<Rightarrow> Inl err
      | (None, list) \<Rightarrow> Inr (filter (\<lambda>mesh. HasPrometheusMetricsEnabled (Some mesh)) (typed as_Mesh (rl_Items list))))"

definition getDataplanes :: "ReadOnlyResourceManager \<Rightarrow> MeshResource list \<Rightarrow> go_error + DataplaneResource list" where
  "getDataplanes manager meshes =
     bindE (mapE (\<lambda>mesh. list_in_mesh as_Dataplane ''Dataplane'' manager (res_name mesh)) meshes) (\<lambda>dataplanes. Inr (concat dataplanes))"

definition mads_GenerateSnapshot :: "monitoring_library \<Rightarrow> ReadOnlyResourceManager \<Rightarrow> go_error + MonitoringAssignment mads_Snapshot" where
  "mads_GenerateSnapshot lib manager =
     bindE (getMeshes manager) (\<lambda>meshes.
     bindE (getDataplanes manager meshes) (\<lambda>dataplanes.
     bindE (assignments_Generate lib meshes dataplanes) (\<lambda>resources.
     Inr (mads_NewSnapshot '''' (ToIndex resources)))))"

text \<open>The reconciler; \<open>uuids\<close> are the UUIDs the versioner draws, \<open>eq\<close> is \<open>proto.Equal\<close>.\<close>

definition mads_Reconcile ::
  "('r \<Rightarrow> 'r \<Rightarrow> bool) \<Rightarrow> (nat \<Rightarrow> string) \<Rightarrow> (Node option \<Rightarrow> string) \<Rightarrow> (go_error + 'r mads_Snapshot) \<Rightarrow> Node option \<Rightarrow>
   ('r mads_Snapshot, 'r) snapshotCache \<Rightarrow> go_error option \<times> ('r mads_Snapshot, 'r) snapshotCache" where
  "mads_Reconcile eq uuids hash generated node cache =
     (case generated of
        Inl err \<Rightarrow> (Some err, cache)
      | Inr new \<Rightarrow>
          (let nid = hash node;
               old = (case GetSnapshot nid cache of Inl _ \<Rightarrow> None | Inr old \<Rightarrow> Some old)
           in case auto_Version mads_ops eq uuids (Some new) old of
                None \<Rightarrow> (None, cache)
              | Some new \<Rightarrow>
                  (case SetSnapshot mads_ops nid new cache of
                     Inl err \<Rightarrow> (Some err, cache)
                   | Inr cache \<Rightarrow> (None, cache))))"

section \<open>Labels\<close>

lemma less_append_char: "xs < xs @ [c]" for xs :: "'a :: order list"
  by (induction xs) simp_all

lemma tag_labels_lookup:
  "map_of (tag_labels lib tags key labels) l =
     (if l = mon_SanitizeLabelName lib (key @ ''s'') then Some (multiValue (multi_Values tags key))
      else if l = mon_SanitizeLabelName lib key then Some (case multi_Values tags key of [] \<Rightarrow> '''' | v # _ \<Rightarrow> v)
      else map_of labels l)"
  by (simp add: tag_labels_def Let_def go_maps)

text \<open>Later keys of a sorted list do not write the label of an earlier key, not even as a plural.\<close>

lemma tag_labels_fold:
  assumes "inj (mon_SanitizeLabelName lib)" and "\<forall>j \<in> set keys. k < j"
  shows "map_of (fold (tag_labels lib tags) keys labels) (mon_SanitizeLabelName lib k) = map_of labels (mon_SanitizeLabelName lib k)"
  using assms(2)
proof (induction keys arbitrary: labels)
  case (Cons j keys)
  have "k < j" using Cons.prems by simp
  then have "k \<noteq> j" "k \<noteq> j @ ''s''" using less_append_char [of j "CHR ''s''"] by auto
  then have "map_of (tag_labels lib tags j labels) (mon_SanitizeLabelName lib k) = map_of labels (mon_SanitizeLabelName lib k)"
    using assms(1) by (simp add: tag_labels_lookup inj_eq)
  then show ?case using Cons by simp
qed simp

lemma tag_labels_value:
  assumes inj: "inj (mon_SanitizeLabelName lib)" and keys: "sorted keys" "distinct keys" "k \<in> set keys"
  shows "map_of (fold (tag_labels lib tags) keys labels) (mon_SanitizeLabelName lib k) =
    Some (case multi_Values tags k of [] \<Rightarrow> '''' | v # _ \<Rightarrow> v)"
proof -
  obtain pre post where split: "keys = pre @ k # post" using keys(3) by (meson split_list)
  then have post: "\<forall>j \<in> set post. k < j" using keys(1,2) by (fastforce simp: sorted_append)
  have "k \<noteq> k @ ''s''" by simp
  then show ?thesis using tag_labels_fold [OF inj post] inj by (simp add: split tag_labels_lookup inj_eq)
qed

lemma wf_add_tags: "wf_map t \<Longrightarrow> wf_map (add_tags kvs t)"
  by (induction kvs arbitrary: t) (auto simp: add_tags_def add_tag_def Let_def split: prod.splits option.splits)

lemma wf_dataplane_Tags: "wf_map (dataplane_Tags d)"
proof -
  have "wf_map t \<Longrightarrow> wf_map (fold (\<lambda>inbound. add_tags (in_Tags inbound)) is t)" for "is" :: "Inbound list" and t
    by (induction "is" arbitrary: t) (simp_all add: wf_add_tags)
  then show ?thesis by (simp add: dataplane_Tags_def wf_add_tags)
qed

lemma multi_Keys_dataplane:
  assumes "(k, v) \<in> dataplane_tag_pairs d"
  shows "sorted (multi_Keys (dataplane_Tags d))" and "distinct (multi_Keys (dataplane_Tags d))"
    and "k \<in> set (multi_Keys (dataplane_Tags d))"
proof -
  show "sorted (multi_Keys (dataplane_Tags d))" "distinct (multi_Keys (dataplane_Tags d))"
    using wf_dataplane_Tags [of d] by (simp_all add: multi_Keys_def wf_map_def)
  have "multi_has (dataplane_Tags d) k v" using assms by (simp add: multi_has_dataplane_Tags)
  then have "map_of (dataplane_Tags d) k \<noteq> None" by (auto simp: multi_has_def split: option.splits)
  then show "k \<in> set (multi_Keys (dataplane_Tags d))" by (simp add: multi_Keys_def map_of_eq_None_iff)
qed

lemma first_value_least:
  assumes "(k, v) \<in> dataplane_tag_pairs d"
  shows "\<exists>w. (case multi_Values (dataplane_Tags d) k of [] \<Rightarrow> '''' | v # _ \<Rightarrow> v) = w \<and> (k, w) \<in> dataplane_tag_pairs d \<and>
    (\<forall>v'. (k, v') \<in> dataplane_tag_pairs d \<longrightarrow> w \<le> v')"
proof -
  let ?vs = "multi_Values (dataplane_Tags d) k"
  have mem: "(k, w) \<in> dataplane_tag_pairs d \<longleftrightarrow> w \<in> set ?vs" for w by (simp add: set_multi_Values multi_has_dataplane_Tags)
  have "sorted ?vs" by (simp add: multi_Values_def split: option.splits)
  then show ?thesis using assms unfolding mem by (cases ?vs) auto
qed

lemma extension_labels:
  assumes "\<forall>(e, v) \<in> set exts. f e \<noteq> l"
  shows "map_of (fold (\<lambda>(key, val). gput (f key) val) exts labels) l = map_of labels l"
  using assms by (induction exts arbitrary: labels) (auto simp: go_maps)

definition mandatory_labels :: "string list" where
  "mandatory_labels = [SchemeLabel, MetricsPathLabel, JobLabel, InstanceLabel, meshLabel, dataplaneLabel]"


section \<open>The snapshot of a reachable store\<close>

definition stored :: "(ResourceSpec \<Rightarrow> 'a option) \<Rightarrow> codec \<Rightarrow> memoryStore \<Rightarrow> 'a Resource list" where
  "stored dest cd s = typed dest (map (decode cd) s)"

lemma typed_member:
  assumes "projects dest con typ"
  shows "r \<in> set (typed dest rs) \<longleftrightarrow> with_spec r (con (Spec r)) \<in> set rs"
proof -
  have dest: "dest s = Some x \<longleftrightarrow> s = con x" for s x using assms by (simp add: projects_def)
  have con_inj: "con x = con y \<longleftrightarrow> x = y" for x y using dest [of "con x" x] dest [of "con x" y] by auto
  have none: "dest (con x) \<noteq> None" for x using dest [of "con x" x] by simp
  have typed: "set (typed dest rs) = {with_spec r0 x |r0 x. r0 \<in> set rs \<and> Spec r0 = con x}"
    by (induction rs) (auto simp: typed_def List.map_filter_simps dest con_inj none split: option.splits)
  show ?thesis
  proof
    assume "r \<in> set (typed dest rs)"
    then obtain r0 x where r0: "r0 \<in> set rs" "Spec r0 = con x" "r = with_spec r0 x" unfolding typed by blast
    then have "with_spec r (con (Spec r)) = r0" using r0(2,3) by (simp add: with_spec_def)
    then show "with_spec r (con (Spec r)) \<in> set rs" using r0(1) by simp
  next
    assume "with_spec r (con (Spec r)) \<in> set rs"
    moreover have "r = with_spec (with_spec r (con (Spec r))) (Spec r)" by (cases r) (simp add: with_spec_def)
    ultimately show "r \<in> set (typed dest rs)" unfolding typed by force
  qed
qed

lemma decoded_record:
  assumes "mem_inv cd s" and "rec \<in> set s"
  shows "spec_type (Spec (decode cd rec)) = rec_ResourceType rec" and "Meta (decode cd rec) = Some (MemoryMeta (record_meta rec))"
    and "res_name (decode cd rec) = rec_Name rec" and "res_mesh (decode cd rec) = rec_Mesh rec"
proof -
  obtain spec where "ToJSON cd spec = Inr (rec_Spec rec)" "spec_type spec = rec_ResourceType rec"
    using assms unfolding mem_inv_def record_ok_def by blast
  then have "decode cd rec = \<lparr>Meta = Some (MemoryMeta (record_meta rec)), Spec = spec\<rparr>" "spec_type spec = rec_ResourceType rec"
    using assms(1) by (auto simp: mem_inv_def intro: decode_eq)
  then show "spec_type (Spec (decode cd rec)) = rec_ResourceType rec" "Meta (decode cd rec) = Some (MemoryMeta (record_meta rec))"
    "res_name (decode cd rec) = rec_Name rec" "res_mesh (decode cd rec) = rec_Mesh rec"
    by (simp_all add: res_name_def res_mesh_def record_meta_def)
qed

lemma typed_findRecords:
  assumes "mem_inv cd s" and p: "projects dest con typ" and con: "\<And>x. spec_type (con x) = typ"
  shows "typed dest (map (decode cd) (findRecords s typ mesh)) = filter (\<lambda>r. mesh = '''' \<or> res_mesh r = mesh) (stored dest cd s)"
proof -
  have "typed dest (map (decode cd) (filter (\<lambda>rec. rec_ResourceType rec = typ \<and> (mesh = '''' \<or> rec_Mesh rec = mesh)) rs)) =
      filter (\<lambda>r. mesh = '''' \<or> res_mesh r = mesh) (typed dest (map (decode cd) rs))" if "set rs \<subseteq> set s" for rs
    using that
  proof (induction rs)
    case (Cons rec rs)
    have d: "spec_type (Spec (decode cd rec)) = rec_ResourceType rec" "res_mesh (decode cd rec) = rec_Mesh rec"
      using decoded_record [OF assms(1)] Cons.prems by auto
    have "dest (Spec (decode cd rec)) = None \<longleftrightarrow> spec_type (Spec (decode cd rec)) \<noteq> typ"
      using p con by (cases "dest (Spec (decode cd rec))") (auto simp: projects_def)
    then have dest: "dest (Spec (decode cd rec)) = None \<longleftrightarrow> rec_ResourceType rec \<noteq> typ" unfolding d(1) .
    show ?case
    proof (cases "dest (Spec (decode cd rec))")
      case None
      then have "rec_ResourceType rec \<noteq> typ" using dest by simp
      then show ?thesis using Cons None by (simp add: typed_def List.map_filter_simps)
    next
      case (Some x)
      then have "rec_ResourceType rec = typ" using dest by simp
      then show ?thesis
        using Cons Some d(2) by (cases "mesh = '''' \<or> rec_Mesh rec = mesh") (auto simp: typed_def List.map_filter_simps)
    qed
  qed (simp add: typed_def)
  then show ?thesis by (simp add: findRecords_def stored_def)
qed

lemma stored_member:
  assumes "mem_inv cd s" and p: "projects dest con typ" and con: "\<And>x. spec_type (con x) = typ" and "r \<in> set (stored dest cd s)"
  shows "\<exists>rec \<in> set s. with_spec r (con (Spec r)) = decode cd rec \<and> rec_key rec = (typ, res_name r, res_mesh r) \<and>
    Meta r = Some (MemoryMeta (record_meta rec))"
proof -
  obtain rec where rec: "rec \<in> set s" "with_spec r (con (Spec r)) = decode cd rec"
    using assms(4) typed_member [OF p] by (auto simp: stored_def)
  have "res_name (decode cd rec) = res_name r" "res_mesh (decode cd rec) = res_mesh r" "spec_type (Spec (decode cd rec)) = typ"
    "Meta (decode cd rec) = Meta r"
    unfolding rec(2) [symmetric] by (simp_all add: con)
  then show ?thesis using rec decoded_record [OF assms(1) rec(1)] by (intro bexI [of _ rec]) (simp_all add: rec_key_def)
qed

lemma stored_unique:
  assumes inv: "mem_inv cd s" and p: "projects dest con typ" and con: "\<And>x. spec_type (con x) = typ"
    and r: "r \<in> set (stored dest cd s)" "r' \<in> set (stored dest cd s)" "res_name r = res_name r'" "res_mesh r = res_mesh r'"
  shows "r = r'"
proof -
  have con_inj: "con x = con y \<longleftrightarrow> x = y" for x y using p by (auto simp: projects_def) (metis option.inject)
  obtain rec rec' where rec: "rec \<in> set s" "with_spec r (con (Spec r)) = decode cd rec" "rec_key rec = (typ, res_name r, res_mesh r)"
    "rec' \<in> set s" "with_spec r' (con (Spec r')) = decode cd rec'" "rec_key rec' = (typ, res_name r', res_mesh r')"
    using stored_member [OF inv p con r(1)] stored_member [OF inv p con r(2)] by blast
  have "unique_keys s" using inv by (simp add: mem_inv_def)
  then have "rec = rec'" using rec r(3,4) by (metis unique_keys_def distinct_map inj_on_def)
  then have "with_spec r (con (Spec r)) = with_spec r' (con (Spec r'))" using rec by simp
  then show ?thesis by (cases r; cases r') (simp add: with_spec_def con_inj)
qed

lemma fold_gput_lookup:
  assumes "\<And>x y. x \<in> set xs \<Longrightarrow> y \<in> set xs \<Longrightarrow> key x = key y \<Longrightarrow> val x = val y"
  shows "map_of (fold (\<lambda>x. gput (key x) (val x)) xs []) k = Some v \<longleftrightarrow> (\<exists>x \<in> set xs. key x = k \<and> val x = v)"
proof -
  have "map_of (fold (\<lambda>x. gput (key x) (val x)) (rev ys) []) k = Some v \<longleftrightarrow> (\<exists>x \<in> set ys. key x = k \<and> val x = v)"
    if "set ys \<subseteq> set xs" for ys
    using that
  proof (induction ys)
    case (Cons y ys)
    have same: "val x = val y" if "x \<in> set ys" "key x = key y" for x using assms [of x y] Cons.prems that by auto
    show ?case using Cons same by (auto simp: go_maps)
  qed simp
  from this [of "rev xs"] show ?thesis by simp
qed

lemma mapE_all: "(\<And>x. x \<in> set xs \<Longrightarrow> f x = Inr (g x)) \<Longrightarrow> mapE f xs = Inr (map g xs)"
  by (induction xs) simp_all

lemma getMeshes_stored:
  assumes "sync_ok cd lib s"
  shows "getMeshes (read_only (customizableManager (Suc fuel) lib now (memory_store cd) cas registry) s) =
    Inr (filter (\<lambda>mesh. HasPrometheusMetricsEnabled (Some mesh)) (stored as_Mesh cd s))"
proof -
  have inv: "mem_inv cd s" and small: "int (length s) < 2 ^ 63"
    using assms by (auto simp: sync_ok_def managed_ok_def all_valid_def)
  have zero: "zero_of MeshType \<in> set zero_specs" "spec_type (zero_of MeshType) = MeshType"
    using projections(1) by (simp_all add: projects_def)
  have "mem_List cd l [] s = mem_List cd l [ListByMesh ''''] s" for l
    by (simp add: mem_List_def NewListOptions_def ListByMesh_def)
  then have "mem_List cd (new_list (zero_of MeshType)) [] s =
      (None, (new_list (zero_of MeshType))\<lparr>rl_Items := map (decode cd) (findRecords s MeshType '''')\<rparr>)"
    using mem_List_all [OF inv zero(1) small, of "''''"] zero(2) by simp
  then show ?thesis
    using typed_findRecords [OF inv projections(1), of "''''"]
    by (simp add: getMeshes_def read_only_store memory_store_def)
qed

lemma getDataplanes_stored:
  assumes "sync_ok cd lib s"
  shows "getDataplanes (read_only (customizableManager (Suc fuel) lib now (memory_store cd) cas registry) s) meshes =
    Inr (concat (map (\<lambda>m. filter (\<lambda>d. res_name m = '''' \<or> res_mesh d = res_name m) (stored as_Dataplane cd s)) meshes))"
proof -
  have inv: "mem_inv cd s" and small: "int (length s) < 2 ^ 63"
    using assms by (auto simp: sync_ok_def managed_ok_def all_valid_def)
  have zero: "zero_of ''Dataplane'' \<in> set zero_specs" "spec_type (zero_of ''Dataplane'') = ''Dataplane''"
    using projections(2) by (simp_all add: projects_def)
  have "list_in_mesh as_Dataplane ''Dataplane'' (read_only (customizableManager (Suc fuel) lib now (memory_store cd) cas registry) s) m =
      Inr (filter (\<lambda>d. m = '''' \<or> res_mesh d = m) (stored as_Dataplane cd s))" for m
    using mem_List_all [OF inv zero(1) small, of m] zero(2) typed_findRecords [OF inv projections(2), of m]
    by (simp add: list_in_mesh_def read_only_store memory_store_def)
  then show ?thesis by (simp add: getDataplanes_def mapE_all)
qed

lemma stored_dataplane_networking:
  assumes "managed_ok cd lib s" and "d \<in> set (stored as_Dataplane cd s)"
  shows "Meta d \<noteq> None \<and> dp_Networking (Spec d) \<noteq> None"
proof -
  have inv: "mem_inv cd s" and valid: "\<forall>x \<in> mem_contents cd s. Validate lib x = None"
    using assms(1) by (auto simp: managed_ok_def all_valid_def)
  obtain rec where rec: "rec \<in> set s" "with_spec d (DataplaneSpec (Spec d)) = decode cd rec" "Meta d = Some (MemoryMeta (record_meta rec))"
    using stored_member [OF inv projections(2) _ assms(2)] by auto
  have "Validate lib (with_spec d (DataplaneSpec (Spec d))) = None" using valid rec by (simp add: mem_contents_def)
  then have "Dataplane_Validate d = None" by (cases d) (simp add: Validate_def with_spec_def)
  then show ?thesis using validated_networking [of d] rec(3) by blast
qed

lemma stored_meshes_unique:
  assumes "managed_ok cd lib s" and "m \<in> set (stored as_Mesh cd s)" "m' \<in> set (stored as_Mesh cd s)" "res_name m = res_name m'"
  shows "m = m'"
proof -
  have inv: "mem_inv cd s" and named: "mesh_named s" using assms(1) by (auto simp: managed_ok_def all_valid_def)
  have "res_mesh x = res_name x" if "x \<in> set (stored as_Mesh cd s)" for x
    using stored_member [OF inv projections(1) _ that] named by (auto simp: mesh_named_def rec_key_def)
  then show ?thesis using stored_unique [OF inv projections(1) _ assms(2,3)] assms(2-4) by simp
qed

lemma assignmentName_inj:
  assumes "CHR ''/'' \<notin> set (res_mesh d)" and "CHR ''/'' \<notin> set (res_mesh d')" and "assignmentName d = assignmentName d'"
  shows "res_mesh d = res_mesh d' \<and> res_name d = res_name d'"
proof -
  have eq: "res_mesh d @ ''/dataplanes/'' @ res_name d = res_mesh d' @ ''/dataplanes/'' @ res_name d'"
    using assms(3) by (simp add: assignmentName_def)
  have "takeWhile (\<lambda>c. c \<noteq> CHR ''/'') (m @ ''/dataplanes/'' @ n) = m" if "CHR ''/'' \<notin> set m" for m n
    using that by (induction m) auto
  then have "res_mesh d = res_mesh d'" using eq assms(1,2) by metis
  then show ?thesis using eq by simp
qed

lemma assignment_total:
  assumes "Meta d \<noteq> None" and "dp_Networking (Spec d) \<noteq> None"
  shows "\<exists>a. dataplane_assignment mlib idx d = Inr a"
proof -
  have "\<exists>ip. GetIP (Some d) = Inr ip" using assms(2) by (auto simp: GetIP_def split: option.splits sum.splits)
  then show ?thesis using assms(1) by (auto simp: dataplane_assignment_def addressLabel_def split: option.splits)
qed

lemma assignment_name: "dataplane_assignment mlib idx d = Inr (Some a) \<Longrightarrow> ma_Name a = assignmentName d"
  by (auto simp: dataplane_assignment_def bindE_Inr split: option.splits)

lemma assignment_mesh:
  assumes "Meta d \<noteq> None"
  shows "dataplane_assignment mlib idx d = Inr (Some a) \<longleftrightarrow>
    (\<exists>m. map_of idx (res_mesh d) = Some m \<and> dataplane_assignment mlib [(res_mesh d, m)] d = Inr (Some a))"
  using assms by (auto simp: dataplane_assignment_def res_mesh_def split: option.splits)

lemma generated_index:
  assumes total: "\<And>d. d \<in> set ds \<Longrightarrow> \<exists>a. dataplane_assignment mlib idx d = Inr a"
    and names: "\<And>d d'. d \<in> set ds \<Longrightarrow> d' \<in> set ds \<Longrightarrow> assignmentName d = assignmentName d' \<Longrightarrow> d = d'" and idx: "idx = indexMeshes ms"
  shows "\<exists>rs. assignments_Generate mlib ms ds = Inr rs \<and>
    (\<forall>n a. map_of (ToIndex rs) n = Some a \<longleftrightarrow> (\<exists>d \<in> set ds. n = assignmentName d \<and> dataplane_assignment mlib idx d = Inr (Some a)))"
proof -
  define g where "g = (\<lambda>d. case dataplane_assignment mlib idx d of Inr a \<Rightarrow> a | Inl _ \<Rightarrow> None)"
  have g: "dataplane_assignment mlib idx d = Inr (g d)" if "d \<in> set ds" for d using total [OF that] by (auto simp: g_def)
  let ?as = "List.map_filter (\<lambda>a. a) (map g ds)"
  let ?rs = "map (\<lambda>a. \<lparr>xr_Name = ma_Name a, xr_Version = '''', xr_Resource = a\<rparr>) ?as"
  have gen: "assignments_Generate mlib ms ds = Inr ?rs"
    using g by (simp add: assignments_Generate_def mapE_all idx [symmetric])
  have mem: "a \<in> set ?as \<longleftrightarrow> (\<exists>d \<in> set ds. g d = Some a)" for a
    by (auto simp: List.map_filter_def image_iff)
  have name: "ma_Name a = assignmentName d" if "d \<in> set ds" "g d = Some a" for a d
    using assignment_name [of mlib idx d a] g [OF that(1)] that(2) by simp
  have "map_of (ToIndex ?rs) n = Some a \<longleftrightarrow> (\<exists>r \<in> set ?rs. xr_Name r = n \<and> xr_Resource r = a)" for n a
    unfolding ToIndex_def
  proof (rule fold_gput_lookup)
    fix x y
    assume "x \<in> set ?rs" "y \<in> set ?rs" "xr_Name x = xr_Name y"
    then obtain d d' where "d \<in> set ds" "g d = Some (xr_Resource x)" "d' \<in> set ds" "g d' = Some (xr_Resource y)"
      "assignmentName d = assignmentName d'" using mem name by auto
    then show "xr_Resource x = xr_Resource y" using names [of d d'] by simp
  qed
  then have "map_of (ToIndex ?rs) n = Some a \<longleftrightarrow> (\<exists>d \<in> set ds. n = assignmentName d \<and> dataplane_assignment mlib idx d = Inr (Some a))" for n a
    using mem name g by auto
  then show ?thesis using gen by blast
qed


section \<open>Reconciling again\<close>

lemma mads_auto_Version:
  assumes "cr_Version new = ''''" and "uuids 0 \<noteq> ''''"
  shows "auto_Version mads_ops eq uuids (Some new) old =
    Some \<lparr>cr_Version =
      (case old of Some o' \<Rightarrow> if resources_equal eq (cr_Items new) (cr_Items o') \<and> cr_Version o' \<noteq> '''' then cr_Version o' else uuids 0
       | None \<Rightarrow> uuids 0), cr_Items = cr_Items new\<rparr>"
  using assms
  by (cases new; cases old)
    (auto simp: auto_Version_def mads_ops_def mads_GetVersion_def mads_GetResources_def mads_WithVersion_def mads_NewSnapshot_def Let_def)

lemma resources_equal_refl:
  assumes "wf_map m" and "\<And>x. eq x x"
  shows "resources_equal eq m m"
  using assms by (auto simp: resources_equal_def wf_map_def list_all_iff)

lemma respond_watches_none:
  assumes "\<forall>(wid, w) \<in> set ws. \<not> stale ops s w"
  shows "respond_watches ops ads s ws chans = Inr (ws, chans)"
  using assms by (induction ws) (auto simp: stale_def Let_def)

lemma SetSnapshot_again:
  assumes inv: "cache_inv ops c" and s: "map_of (sc_snapshots c) node = Some s"
  shows "\<exists>c'. SetSnapshot ops node s c = Inr c' \<and> sc_channels c' = sc_channels c \<and> watch_at c' = watch_at c \<and>
    map_of (sc_snapshots c') = map_of (sc_snapshots c)"
proof -
  have snap: "map_of (gput node s (sc_snapshots c)) = map_of (sc_snapshots c)" using s by (auto simp: go_maps)
  show ?thesis
  proof (cases "map_of (sc_status c) node")
    case None
    then show ?thesis using snap by (auto simp: SetSnapshot_def watch_at_def fun_eq_iff)
  next
    case (Some info)
    have "\<forall>(wid, w) \<in> set (si_watches info). \<not> stale ops s w"
      using cache_invD(2) [OF inv] watch_at_member [OF Some cache_invD(1) [OF inv Some]] s by (auto simp: watch_ok_def)
    then have "respond_watches ops (sc_ads c) s (si_watches info) (sc_channels c) = Inr (si_watches info, sc_channels c)"
      by (rule respond_watches_none)
    then show ?thesis using Some snap by (auto simp: SetSnapshot_def watch_at_def fun_eq_iff go_maps)
  qed
qed

lemma wf_ToIndex: "wf_map (ToIndex rs)"
proof -
  have "wf_map m \<Longrightarrow> wf_map (fold (\<lambda>r. gput (xr_Name r) (xr_Resource r)) rs m)" for m
    by (induction rs arbitrary: m) simp_all
  then show ?thesis by (simp add: ToIndex_def)
qed

text \<open>
  C24. Reconciling again pushes nothing.  When a snapshot was reconciled into a reachable cache, a second
  reconciliation from the same state of the store succeeds, answers no watch, closes none and leaves
  the snapshot and its version as they are, whatever UUIDs would be drawn.
\<close>

theorem reconciling_again_pushes_nothing:
  assumes "cached mads_ops hash c" and "mads_GenerateSnapshot mlib manager = Inr new"
    and "\<And>x. eq x x" and "uuids 0 \<noteq> ''''" and "uuids' 0 \<noteq> ''''"
    and "mads_Reconcile eq uuids hash (mads_GenerateSnapshot mlib manager) node c = (None, c1)"
  shows "\<exists>c2. mads_Reconcile eq uuids' hash (mads_GenerateSnapshot mlib manager) node c1 = (None, c2) \<and>
    sc_channels c2 = sc_channels c1 \<and> watch_at c2 = watch_at c1 \<and> map_of (sc_snapshots c2) = map_of (sc_snapshots c1)"
proof -
  have new: "cr_Version new = ''''" "wf_map (cr_Items new)"
    using assms(2) by (auto simp: mads_GenerateSnapshot_def bindE_Inr mads_NewSnapshot_def wf_ToIndex)
  define s where "s = the (auto_Version mads_ops eq uuids (Some new) (case GetSnapshot (hash node) c of Inl _ \<Rightarrow> None | Inr old \<Rightarrow> Some old))"
  have v: "auto_Version mads_ops eq uuids (Some new) (case GetSnapshot (hash node) c of Inl _ \<Rightarrow> None | Inr old \<Rightarrow> Some old) = Some s"
    by (simp add: s_def mads_auto_Version [where uuids = uuids, OF new(1) assms(4)])
  have sv: "cr_Version s \<noteq> ''''" "cr_Items s = cr_Items new"
    using v assms(4) by (auto simp: mads_auto_Version [where uuids = uuids, OF new(1) assms(4)] split: option.splits if_splits)
  have set1: "SetSnapshot mads_ops (hash node) s c = Inr c1"
    using assms(2,6) v by (auto simp: mads_Reconcile_def Let_def split: sum.splits)
  have c1: "cached mads_ops hash c1" by (rule cached_set [OF assms(1) set1])
  have snap: "map_of (sc_snapshots c1) (hash node) = Some s"
    using SetSnapshot_spec [OF cached_inv [OF assms(1)], of "hash node" s] set1 by auto
  then have old: "GetSnapshot (hash node) c1 = Inr s" by (simp add: GetSnapshot_def)
  have "auto_Version mads_ops eq uuids' (Some new) (Some s) = Some \<lparr>cr_Version = cr_Version s, cr_Items = cr_Items new\<rparr>"
    using sv resources_equal_refl [of "cr_Items new" eq] new(2) assms(3) by (simp add: mads_auto_Version [where uuids = uuids', OF new(1) assms(5)])
  also have "\<lparr>cr_Version = cr_Version s, cr_Items = cr_Items new\<rparr> = s" using sv(2) by (cases s) simp
  finally have v2: "auto_Version mads_ops eq uuids' (Some new) (Some s) = Some s" .
  obtain c2 where "SetSnapshot mads_ops (hash node) s c1 = Inr c2" "sc_channels c2 = sc_channels c1" "watch_at c2 = watch_at c1"
    "map_of (sc_snapshots c2) = map_of (sc_snapshots c1)"
    using SetSnapshot_again [OF cached_inv [OF c1] snap] by blast
  then show ?thesis using assms(2) old v2 by (simp add: mads_Reconcile_def Let_def)
qed

section \<open>Examples\<close>

definition example_monitoring :: monitoring_library where
  "example_monitoring = \<lparr>mon_Merge = (\<lambda>dst src. case src of None \<Rightarrow> dst | Some src \<Rightarrow> src), mon_SanitizeLabelName = (\<lambda>l. l),
     mon_NameExtensions = (\<lambda>_. [])\<rparr>"

definition example_monitored :: DataplaneResource where
  "example_monitored = \<lparr>Meta = Some (MemoryMeta (record_meta example_dataplane_record)), Spec = example_dataplane\<rparr>"


lemma example_stored: "stored as_Dataplane example_codec example_sync_store = [example_monitored]"
  by (simp add: stored_def typed_def List.map_filter_simps example_sync_store_def decode_def unmarshalRecord_def example_codec_def
      example_mesh_record_def example_dataplane_record_def example_monitored_def with_spec_def zero_of_def zero_specs_def MeshType_def SecretType_def Let_def)

lemma example_stored_mesh: "filter (\<lambda>mesh. HasPrometheusMetricsEnabled (Some mesh)) (stored as_Mesh example_codec example_sync_store) = []"
  by (simp add: stored_def typed_def List.map_filter_simps example_sync_store_def decode_def unmarshalRecord_def example_codec_def
      example_mesh_record_def example_dataplane_record_def with_spec_def zero_of_def zero_specs_def MeshType_def SecretType_def Let_def
      HasPrometheusMetricsEnabled_def metrics_GetPrometheus_def get_field_def)

lemma example_sync_ok: "sync_ok example_codec example_library example_sync_store"
  using managed_invariant [OF example_codec_ok _ example_sync_managed] by (simp add: sync_ok_def example_sync_store_def ca_keeps_def)

lemma example_generated:
  "mads_GenerateSnapshot example_monitoring (example_reads example_sync_store) = Inr (mads_NewSnapshot '''' [])"
  using getMeshes_stored [OF example_sync_ok, of 1 7 "[]" example_registry]
  by (simp add: mads_GenerateSnapshot_def example_reads_def example_stored_mesh getDataplanes_def assignments_Generate_def ToIndex_def
      List.map_filter_simps)


theorem reconciling_again_pushes_nothing_witness:
  "\<exists>c1 c2. mads_Reconcile (=) (\<lambda>_. ''v1'') (\<lambda>_. ''n'') (mads_GenerateSnapshot example_monitoring (example_reads example_sync_store)) None
       (NewSnapshotCache False) = (None, c1) \<and>
     mads_Reconcile (=) (\<lambda>_. ''v2'') (\<lambda>_. ''n'') (mads_GenerateSnapshot example_monitoring (example_reads example_sync_store)) None c1 = (None, c2) \<and>
     map_of (sc_snapshots c2) = map_of (sc_snapshots c1)"
proof -
  obtain c1 where c1: "mads_Reconcile (=) (\<lambda>_. ''v1'') (\<lambda>_. ''n'') (mads_GenerateSnapshot example_monitoring (example_reads example_sync_store)) None
      (NewSnapshotCache False) = (None, c1)"
    by (simp add: mads_Reconcile_def example_generated mads_auto_Version mads_NewSnapshot_def GetSnapshot_def NewSnapshotCache_def
        SetSnapshot_def Let_def)
  show ?thesis
    using reconciling_again_pushes_nothing [OF cached_new example_generated _ _ _ c1, of "\<lambda>_. ''v2''"] c1 by auto
qed

end
