(* ===== verification/Envoy_Config.thy ===== *)
theory Envoy_Config
  imports Proxy_Sync
begin

text \<open>
  The Envoy configuration that Kuma writes (\<open>pkg/xds/envoy\<close>), except for listeners: names of
  resources, the text of tags and the regular expressions over it, TLS contexts, clusters, load
  assignments and routes.  A message keeps the fields the code sets.  Messages that hold a packed
  message (\<open>google.protobuf.Any\<close>) are parameterised by its type \<open>'a\<close>; packing and unpacking are
  done by the protobuf library and are given by a record \<open>AnyCodec\<close>.
\<close>

section \<open>Names\<close>

definition format_u32 :: "u32 \<Rightarrow> string" where
  "format_u32 w = format_nat (unat w)"

definition GetLocalClusterName :: "u32 \<Rightarrow> string" where
  "GetLocalClusterName port = ''localhost:'' @ format_u32 port"

definition GetInboundListenerName :: "string \<Rightarrow> u32 \<Rightarrow> string" where
  "GetInboundListenerName address port = ''inbound:'' @ address @ '':'' @ format_u32 port"

definition GetOutboundListenerName :: "string \<Rightarrow> u32 \<Rightarrow> string" where
  "GetOutboundListenerName address port = ''outbound:'' @ address @ '':'' @ format_u32 port"

definition GetInboundRouteName :: "string \<Rightarrow> string" where
  "GetInboundRouteName service = ''inbound:'' @ service"

definition GetOutboundRouteName :: "string \<Rightarrow> string" where
  "GetOutboundRouteName service = ''outbound:'' @ service"

definition GetEnvoyAdminClusterName :: string where
  "GetEnvoyAdminClusterName = ''kuma:envoy:admin''"

definition GetPrometheusListenerName :: string where
  "GetPrometheusListenerName = ''kuma:metrics:prometheus''"

definition GetDestinationClusterName :: "string \<Rightarrow> tags \<Rightarrow> string" where
  "GetDestinationClusterName service selector =
     (let pairs = map (\<lambda>(key, value). key @ ''='' @ value) (filter (\<lambda>(key, value). key \<noteq> ServiceTag) selector)
      in if length pairs = 0 then service
         else service @ ''{'' @ strings_join '','' (sort pairs) @ ''}'')"

text \<open>
  \<open>SanitizeMetric\<close> replaces every character outside \<open>[a-zA-Z_\-0-9]\<close>.  The regular expression works
  on UTF-8: a valid sequence of several bytes is one character, any other byte is one.
\<close>

definition byte_in :: "nat \<Rightarrow> nat \<Rightarrow> char \<Rightarrow> bool" where
  "byte_in lo hi c = (lo \<le> of_char c \<and> of_char c \<le> hi)"

fun rune_width :: "string \<Rightarrow> nat" where
  "rune_width (a # b # c # d # _) =
     (if byte_in 0xC2 0xDF a \<and> byte_in 0x80 0xBF b then 2
      else if (byte_in 0xE0 0xE0 a \<and> byte_in 0xA0 0xBF b \<or> byte_in 0xE1 0xEC a \<and> byte_in 0x80 0xBF b \<or>
               byte_in 0xED 0xED a \<and> byte_in 0x80 0x9F b \<or> byte_in 0xEE 0xEF a \<and> byte_in 0x80 0xBF b) \<and>
              byte_in 0x80 0xBF c then 3
      else if (byte_in 0xF0 0xF0 a \<and> byte_in 0x90 0xBF b \<or> byte_in 0xF1 0xF3 a \<and> byte_in 0x80 0xBF b \<or>
               byte_in 0xF4 0xF4 a \<and> byte_in 0x80 0x8F b) \<and>
              byte_in 0x80 0xBF c \<and> byte_in 0x80 0xBF d then 4
      else 1)"
| "rune_width [a, b, c] =
     (if byte_in 0xC2 0xDF a \<and> byte_in 0x80 0xBF b then 2
      else if (byte_in 0xE0 0xE0 a \<and> byte_in 0xA0 0xBF b \<or> byte_in 0xE1 0xEC a \<and> byte_in 0x80 0xBF b \<or>
               byte_in 0xED 0xED a \<and> byte_in 0x80 0x9F b \<or> byte_in 0xEE 0xEF a \<and> byte_in 0x80 0xBF b) \<and>
              byte_in 0x80 0xBF c then 3
      else 1)"
| "rune_width [a, b] = (if byte_in 0xC2 0xDF a \<and> byte_in 0x80 0xBF b then 2 else 1)"
| "rune_width _ = 1"

definition legal_metric_char :: "char \<Rightarrow> bool" where
  "legal_metric_char c =
     (byte_in 97 122 c \<or> byte_in 65 90 c \<or> is_digit c \<or> c \<in> {CHR ''_'', CHR ''-''})"

fun SanitizeMetric :: "string \<Rightarrow> string" where
  "SanitizeMetric [] = []"
| "SanitizeMetric (c # cs) =
     (if legal_metric_char c then c # SanitizeMetric cs
      else CHR ''_'' # SanitizeMetric (drop (rune_width (c # cs) - 1) cs))"

section \<open>Tags in a header\<close>

definition Serialize :: "MultiValueTagSet \<Rightarrow> string" where
  "Serialize tags =
     strings_join '''' (map (\<lambda>key. ''&'' @ key @ ''='' @ strings_join '','' (multi_Values tags key) @ ''&'') (multi_Keys tags))"

definition escape_dots :: "string \<Rightarrow> string" where
  "escape_dots = concat \<circ> map (\<lambda>c. if c = CHR ''.'' then [CHR 92, CHR ''.''] else [c])"

definition MatchingRegex :: "tags \<Rightarrow> string" where
  "MatchingRegex tags =
     concat (map (\<lambda>key.
       let keyIsEqual = ''&'' @ key @ ''='';
           value = (if gstr tags key = ''*'' then '''' else ''[^&]*'' @ gstr tags key @ ''[,&]'')
       in keyIsEqual @ escape_dots value @ ''.*'') (single_Keys tags))"

definition RegexOR :: "string list \<Rightarrow> string" where
  "RegexOR r =
     (if length r = 0 then ''''
      else if length r = 1 then r ! 0
      else ''('' @ strings_join ''|'' r @ '')'')"

section \<open>Messages\<close>

subsection \<open>Endpoints, routes\<close>

record LbEndpoint =
  lbe_Address :: string
  lbe_Port :: u32
  lbe_Metadata :: "(string, (string, string) gomap) gomap option"

text \<open>A load assignment has the endpoints of its localities.\<close>

record ClusterLoadAssignment =
  cla_ClusterName :: string
  cla_Endpoints :: "LbEndpoint list list"

datatype ClusterSpecifier = ToCluster string | ToWeightedClusters "(string \<times> u32) list"

record Route =
  rt_Prefix :: string
  rt_Action :: ClusterSpecifier
  rt_PrefixRewrite :: string

record VirtualHost =
  vh_Name :: string
  vh_Domains :: "string list"
  vh_Routes :: "Route list"

record RouteConfiguration =
  rc_Name :: string
  rc_ValidateClusters :: "bool option"
  rc_RequestHeadersToAdd :: "(string \<times> string) list"
  rc_RequestHeadersToRemove :: "string list"
  rc_VirtualHosts :: "VirtualHost list"

subsection \<open>Filters\<close>

text \<open>
  \<open>FractionalPercent\<close>, the faults of \<open>HTTPFault\<close> and its only header matcher, given by the name of
  the header, the regular expression and the limit of its program size.
\<close>

datatype DenominatorType = HUNDRED | TEN_THOUSAND | MILLION

record FractionalPercent =
  fp_Numerator :: u32
  fp_Denominator :: DenominatorType

record FaultDelay =
  fd_FixedDelay :: "PbDuration option"
  fd_Percentage :: FractionalPercent

record FaultAbort =
  fa_HttpStatus :: u32
  fa_Percentage :: FractionalPercent

record FaultRateLimit =
  frl_LimitKbps :: u64
  frl_Percentage :: FractionalPercent

record HeaderMatcher =
  hm_Name :: string
  hm_Regex :: string
  hm_MaxProgramSize :: u32

record HTTPFault =
  hf_Delay :: "FaultDelay option"
  hf_Abort :: "FaultAbort option"
  hf_Headers :: "HeaderMatcher list"
  hf_ResponseRateLimit :: "FaultRateLimit option"

text \<open>The network filter \<open>RBAC\<close>: its action is always \<open>ALLOW\<close>, its policies have any permission.\<close>

datatype Principal = AnyPrincipal | Authenticated string

record RbacPolicy =
  rp_AnyPermission :: bool
  rp_Principals :: "Principal list"

record RBAC =
  rbac_Policies :: "(string, RbacPolicy) gomap"
  rbac_StatPrefix :: string

datatype 'a HttpFilter = HttpFilter (hfl_Name: string) (hfl_TypedConfig: "'a option")

datatype 'a AccessLog = AccessLog (al_Name: string) (al_TypedConfig: 'a)

datatype RouteSpecifier = RouteConfig RouteConfiguration | Rds string

datatype 'a HttpConnectionManager =
  HttpConnectionManagerMsg (hcm_StatPrefix: string) (hcm_HttpFilters: "'a HttpFilter list")
    (hcm_RouteSpecifier: "RouteSpecifier option") (hcm_Tracing: "float64 option option")
    (hcm_AccessLog: "'a AccessLog list")

datatype 'a TcpProxy =
  TcpProxyMsg (tcp_StatPrefix: string) (tcp_ClusterSpecifier: ClusterSpecifier)
    (tcp_AccessLog: "'a AccessLog list")

subsection \<open>TLS\<close>

datatype 'a CallCredentials = FromPlugin (cc_Name: string) (cc_TypedConfig: 'a)

datatype 'a GoogleGrpc =
  GoogleGrpcMsg (gg_TargetUri: string) (gg_StatPrefix: string) (gg_RootCerts: string)
    (gg_CallCredentials: "'a CallCredentials list") (gg_CredentialsFactoryName: string)

datatype 'a SdsSecretConfig = SdsSecretConfigMsg (sds_Name: string) (sds_GrpcService: "'a GoogleGrpc")

datatype 'a CommonTlsContext =
  CommonTlsContextMsg (ctc_ValidationContext: "'a SdsSecretConfig") (ctc_TlsCertificates: "'a SdsSecretConfig list")

datatype 'a DownstreamTlsContext =
  DownstreamTlsContextMsg (dtc_Common: "'a CommonTlsContext") (dtc_RequireClientCertificate: bool)

datatype 'a UpstreamTlsContext = UpstreamTlsContextMsg (utc_Common: "'a CommonTlsContext")

datatype 'a TransportSocket = TransportSocketMsg (ts_Name: string) (ts_TypedConfig: 'a)

record FileAccessLog =
  fal_Format :: string
  fal_Path :: string

text \<open>The messages that are packed into an \<open>Any\<close>, and the calls that pack and unpack.\<close>

datatype 'a EnvoyMessage =
    HttpConnectionManagerMessage "'a HttpConnectionManager"
  | TcpProxyMessage "'a TcpProxy"
  | RBACMessage RBAC
  | HTTPFaultMessage HTTPFault
  | HttpGrpcAccessLogMessage HttpGrpcAccessLogConfig
  | FileAccessLogMessage FileAccessLog
  | DownstreamTlsMessage "'a DownstreamTlsContext"
  | UpstreamTlsMessage "'a UpstreamTlsContext"
  | FileBasedMetadataMessage string

text \<open>\<open>pb_TypeText\<close> is the text of the Go type of a message, which only occurs in errors.\<close>

record 'a AnyCodec =
  pb_MarshalAny :: "'a EnvoyMessage \<Rightarrow> go_error + 'a"
  pb_UnmarshalAny :: "'a \<Rightarrow> go_error + 'a EnvoyMessage"
  pb_TypeText :: "'a EnvoyMessage \<Rightarrow> string"

text \<open>What the code relies on: a packed message is unpacked as it was.\<close>

definition any_roundtrip :: "'a AnyCodec \<Rightarrow> bool" where
  "any_roundtrip pb = (\<forall>m a. pb_MarshalAny pb m = Inr a \<longrightarrow> pb_UnmarshalAny pb a = Inr m)"

lemma any_roundtripD: "any_roundtrip pb \<Longrightarrow> pb_MarshalAny pb m = Inr a \<Longrightarrow> pb_UnmarshalAny pb a = Inr m"
  by (simp add: any_roundtrip_def)

text \<open>A codec that packs by wrapping, used in examples.\<close>

datatype packed = Packed "packed EnvoyMessage"

definition wrapping_codec :: "packed AnyCodec" where
  "wrapping_codec =
     \<lparr>pb_MarshalAny = \<lambda>m. Inr (Packed m), pb_UnmarshalAny = \<lambda>a. (case a of Packed m \<Rightarrow> Inr m),
      pb_TypeText = \<lambda>_. ''proto.Message''\<rparr>"

lemma wrapping_codec_roundtrip: "any_roundtrip wrapping_codec"
  by (auto simp: any_roundtrip_def wrapping_codec_def)

section \<open>TLS contexts\<close>

record ControlPlaneContext =
  cp_SdsLocation :: string
  cp_SdsTlsCert :: string

definition MeshCaResource :: string where "MeshCaResource = ''mesh_ca''"
definition IdentityCertResource :: string where "IdentityCertResource = ''identity_cert''"

definition file_based_metadata :: string where
  "file_based_metadata = ''envoy.grpc_credentials.file_based_metadata''"

definition withCallCredentials ::
  "'a AnyCodec \<Rightarrow> DataplaneMetadata option \<Rightarrow> 'a GoogleGrpc \<Rightarrow> go_error + 'a GoogleGrpc" where
  "withCallCredentials pb metadata grpc =
     (if GetDataplaneTokenPath metadata = '''' then Inr grpc
      else bindE (pb_MarshalAny pb (FileBasedMetadataMessage (GetDataplaneTokenPath metadata))) (\<lambda>typedConfig.
           Inr (GoogleGrpcMsg (gg_TargetUri grpc) (gg_StatPrefix grpc) (gg_RootCerts grpc)
                  (gg_CallCredentials grpc @ [FromPlugin file_based_metadata typedConfig])
                  file_based_metadata)))"

definition sdsSecretConfig ::
  "'a AnyCodec \<Rightarrow> ControlPlaneContext Context \<Rightarrow> string \<Rightarrow> DataplaneMetadata option \<Rightarrow> go_error + 'a SdsSecretConfig" where
  "sdsSecretConfig pb ctx name metadata =
     bindE (withCallCredentials pb metadata
              (GoogleGrpcMsg (cp_SdsLocation (ctx_ControlPlane ctx)) (SanitizeMetric (''sds_'' @ name))
                 (cp_SdsTlsCert (ctx_ControlPlane ctx)) [] ''''))
       (\<lambda>googleGrpc. Inr (SdsSecretConfigMsg name googleGrpc))"

definition CreateCommonTlsContext ::
  "'a AnyCodec \<Rightarrow> ControlPlaneContext Context \<Rightarrow> DataplaneMetadata option \<Rightarrow> go_error + 'a CommonTlsContext" where
  "CreateCommonTlsContext pb ctx metadata =
     bindE (sdsSecretConfig pb ctx MeshCaResource metadata) (\<lambda>meshCaSecret.
     bindE (sdsSecretConfig pb ctx IdentityCertResource metadata) (\<lambda>identitySecret.
     Inr (CommonTlsContextMsg meshCaSecret [identitySecret])))"

definition CreateDownstreamTlsContext ::
  "'a AnyCodec \<Rightarrow> ControlPlaneContext Context \<Rightarrow> DataplaneMetadata option \<Rightarrow> go_error + 'a DownstreamTlsContext option" where
  "CreateDownstreamTlsContext pb ctx metadata =
     (if \<not> MTLSEnabled (Some (ctx_Mesh ctx)) then Inr None
      else bindE (CreateCommonTlsContext pb ctx metadata) (\<lambda>commonTlsContext.
           Inr (Some (DownstreamTlsContextMsg commonTlsContext True))))"

definition CreateUpstreamTlsContext ::
  "'a AnyCodec \<Rightarrow> ControlPlaneContext Context \<Rightarrow> DataplaneMetadata option \<Rightarrow> go_error + 'a UpstreamTlsContext option" where
  "CreateUpstreamTlsContext pb ctx metadata =
     (if \<not> MTLSEnabled (Some (ctx_Mesh ctx)) then Inr None
      else bindE (CreateCommonTlsContext pb ctx metadata) (\<lambda>commonTlsContext.
           Inr (Some (UpstreamTlsContextMsg commonTlsContext))))"

section \<open>Load assignments\<close>

definition CreateStaticEndpoint :: "string \<Rightarrow> string \<Rightarrow> u32 \<Rightarrow> ClusterLoadAssignment" where
  "CreateStaticEndpoint clusterName address port =
     \<lparr>cla_ClusterName = clusterName,
      cla_Endpoints = [[\<lparr>lbe_Address = address, lbe_Port = port, lbe_Metadata = None\<rparr>]]\<rparr>"

definition CreateLbMetadata :: "tags \<Rightarrow> (string, (string, string) gomap) gomap option" where
  "CreateLbMetadata tags =
     (if length tags = 0 then None
      else (let flds = fold (\<lambda>(key, value) flds. gput key value flds) tags [] in Some [(''envoy.lb'', flds)]))"

definition CreateClusterLoadAssignment :: "string \<Rightarrow> Endpoint list \<Rightarrow> ClusterLoadAssignment" where
  "CreateClusterLoadAssignment clusterName endpoints =
     (let lbEndpoints = map (\<lambda>ep. \<lparr>lbe_Address = ep_Target ep, lbe_Port = ep_Port ep,
                                  lbe_Metadata = CreateLbMetadata (ep_Tags ep)\<rparr>) endpoints
      in \<lparr>cla_ClusterName = clusterName, cla_Endpoints = [lbEndpoints]\<rparr>)"

section \<open>Clusters\<close>

datatype DiscoveryType = STATIC | EDS | ORIGINAL_DST
datatype LbPolicy = ROUND_ROBIN | CLUSTER_PROVIDED

record TcpHealthCheck =
  thc_Interval :: "PbDuration option"
  thc_Timeout :: "PbDuration option"
  thc_UnhealthyThreshold :: u32
  thc_HealthyThreshold :: u32

record OutlierDetection =
  od_Interval :: "PbDuration option"
  od_Consecutive_5Xx :: u32

text \<open>\<open>cl_EdsConfig\<close> tells whether the cluster has an \<open>EdsClusterConfig\<close>, which is always by ADS.\<close>

record 'a Cluster =
  cl_Name :: string
  cl_AltStatName :: string
  cl_ConnectTimeout :: PbDuration
  cl_Type :: DiscoveryType
  cl_EdsConfig :: bool
  cl_LoadAssignment :: "ClusterLoadAssignment option"
  cl_LbPolicy :: LbPolicy
  cl_TransportSocket :: "'a TransportSocket option"
  cl_HealthChecks :: "TcpHealthCheck list"
  cl_OutlierDetection :: "OutlierDetection option"

definition defaultConnectTimeout :: PbDuration where
  "defaultConnectTimeout = \<lparr>Seconds = 5, Nanos = 0\<rparr>"

definition new_cluster :: "string \<Rightarrow> DiscoveryType \<Rightarrow> 'a Cluster" where
  "new_cluster clusterName t =
     \<lparr>cl_Name = clusterName, cl_AltStatName = '''', cl_ConnectTimeout = defaultConnectTimeout, cl_Type = t,
      cl_EdsConfig = False, cl_LoadAssignment = None, cl_LbPolicy = ROUND_ROBIN, cl_TransportSocket = None,
      cl_HealthChecks = [], cl_OutlierDetection = None\<rparr>"

definition clusterWithAltStatName :: "'a Cluster \<Rightarrow> 'a Cluster" where
  "clusterWithAltStatName cluster =
     (let sanitizedName = SanitizeMetric (cl_Name cluster) in
      if sanitizedName \<noteq> cl_Name cluster then cluster\<lparr>cl_AltStatName := sanitizedName\<rparr> else cluster)"

definition CreateLocalCluster :: "string \<Rightarrow> string \<Rightarrow> u32 \<Rightarrow> 'a Cluster" where
  "CreateLocalCluster clusterName address port =
     clusterWithAltStatName
       ((new_cluster clusterName STATIC)\<lparr>cl_LoadAssignment := Some (CreateStaticEndpoint clusterName address port)\<rparr>)"

definition tls_socket_name :: string where
  "tls_socket_name = ''envoy.transport_sockets.tls''"

definition CreateEdsCluster ::
  "'a AnyCodec \<Rightarrow> ControlPlaneContext Context \<Rightarrow> string \<Rightarrow> DataplaneMetadata option \<Rightarrow> go_error + 'a Cluster" where
  "CreateEdsCluster pb ctx clusterName metadata =
     bindE (CreateUpstreamTlsContext pb ctx metadata) (\<lambda>tlsContext.
     let cluster = clusterWithAltStatName ((new_cluster clusterName EDS)\<lparr>cl_EdsConfig := True\<rparr>) in
     case tlsContext of
       None \<Rightarrow> Inr cluster
     | Some tlsContext \<Rightarrow>
         bindE (pb_MarshalAny pb (UpstreamTlsMessage tlsContext)) (\<lambda>pbst.
         Inr (cluster\<lparr>cl_TransportSocket := Some (TransportSocketMsg tls_socket_name pbst)\<rparr>)))"

text \<open>The getters of absent checks return zero values, but \<open>Has\<dots>Checks\<close> excludes absent checks.\<close>

definition ClusterWithHealthChecks :: "'a Cluster \<Rightarrow> HealthCheckResource option \<Rightarrow> 'a Cluster" where
  "ClusterWithHealthChecks cluster healthCheck =
     (case healthCheck of
        None \<Rightarrow> cluster
      | Some healthCheck \<Rightarrow>
          (let cluster =
                 (case GetActiveChecks (Spec healthCheck) of
                    Some activeChecks \<Rightarrow>
                      if HasActiveChecks healthCheck
                      then cluster\<lparr>cl_HealthChecks := cl_HealthChecks cluster @
                             [\<lparr>thc_Interval = ac_Interval activeChecks, thc_Timeout = ac_Timeout activeChecks,
                               thc_UnhealthyThreshold = ac_UnhealthyThreshold activeChecks,
                               thc_HealthyThreshold = ac_HealthyThreshold activeChecks\<rparr>]\<rparr>
                      else cluster
                  | None \<Rightarrow> cluster)
           in case GetPassiveChecks (Spec healthCheck) of
                Some passiveChecks \<Rightarrow>
                  if HasPassiveChecks healthCheck
                  then cluster\<lparr>cl_OutlierDetection :=
                         Some \<lparr>od_Interval = pc_PenaltyInterval passiveChecks,
                               od_Consecutive_5Xx = pc_UnhealthyThreshold passiveChecks\<rparr>\<rparr>
                  else cluster
              | None \<Rightarrow> cluster))"

definition CreatePassThroughCluster :: "string \<Rightarrow> 'a Cluster" where
  "CreatePassThroughCluster clusterName =
     clusterWithAltStatName ((new_cluster clusterName ORIGINAL_DST)\<lparr>cl_LbPolicy := CLUSTER_PROVIDED\<rparr>)"

section \<open>Routes\<close>

record ClusterInfo =
  ci_Name :: string
  ci_Weight :: u32
  ci_Tags :: tags

text \<open>
  A configurer changes a message or fails.  An option adds configurers to the list a builder holds;
  \<open>Build\<close> applies them in order to an empty message.
\<close>

type_synonym 'm Configurer = "'m \<Rightarrow> go_error + 'm"
type_synonym 'm BuilderOpt = "'m Configurer list \<Rightarrow> 'm Configurer list"

definition TagsHeaderName :: string where
  "TagsHeaderName = ''x-kuma-tags''"

definition routeAction :: "ClusterInfo list \<Rightarrow> ClusterSpecifier" where
  "routeAction clusters =
     (if length clusters = 1 then ToCluster (ci_Name (clusters ! 0))
      else ToWeightedClusters (map (\<lambda>cluster. (ci_Name cluster, ci_Weight cluster)) clusters))"

definition DefaultRouteConfigurer_Configure :: "ClusterInfo list \<Rightarrow> VirtualHost Configurer" where
  "DefaultRouteConfigurer_Configure clusters virtualHost =
     Inr (virtualHost\<lparr>vh_Routes := vh_Routes virtualHost @
            [\<lparr>rt_Prefix = ''/'', rt_Action = routeAction clusters, rt_PrefixRewrite = ''''\<rparr>]\<rparr>)"

definition DefaultRoute :: "ClusterInfo list \<Rightarrow> VirtualHost BuilderOpt" where
  "DefaultRoute clusters config = config @ [DefaultRouteConfigurer_Configure clusters]"

definition CommonVirtualHostConfigurer_Configure :: "string \<Rightarrow> VirtualHost Configurer" where
  "CommonVirtualHostConfigurer_Configure name virtualHost = Inr (virtualHost\<lparr>vh_Name := name, vh_Domains := [''*'']\<rparr>)"

definition CommonVirtualHost :: "string \<Rightarrow> VirtualHost BuilderOpt" where
  "CommonVirtualHost name config = config @ [CommonVirtualHostConfigurer_Configure name]"

definition VirtualHostBuilder_Configure :: "VirtualHost BuilderOpt list \<Rightarrow> VirtualHost Configurer list" where
  "VirtualHostBuilder_Configure opts = fold (\<lambda>opt config. opt config) opts []"

definition VirtualHostBuilder_Build :: "VirtualHost Configurer list \<Rightarrow> go_error + VirtualHost" where
  "VirtualHostBuilder_Build configurers =
     foldE (\<lambda>configurer virtualHost. configurer virtualHost) configurers
       \<lparr>vh_Name = '''', vh_Domains = [], vh_Routes = []\<rparr>"

definition VirtualHostConfigurer_Configure :: "VirtualHost Configurer list \<Rightarrow> RouteConfiguration Configurer" where
  "VirtualHostConfigurer_Configure builder routeConfiguration =
     bindE (VirtualHostBuilder_Build builder) (\<lambda>virtualHost.
     Inr (routeConfiguration\<lparr>rc_VirtualHosts := rc_VirtualHosts routeConfiguration @ [virtualHost]\<rparr>))"

definition VirtualHostOpt :: "VirtualHost Configurer list \<Rightarrow> RouteConfiguration BuilderOpt" where
  "VirtualHostOpt builder config = config @ [VirtualHostConfigurer_Configure builder]"

definition CommonRouteConfiguration_Configure :: "string \<Rightarrow> RouteConfiguration Configurer" where
  "CommonRouteConfiguration_Configure name routeConfiguration =
     Inr (routeConfiguration\<lparr>rc_Name := name, rc_ValidateClusters := Some True\<rparr>)"

definition CommonRouteConfiguration :: "string \<Rightarrow> RouteConfiguration BuilderOpt" where
  "CommonRouteConfiguration name config = config @ [CommonRouteConfiguration_Configure name]"

definition ResetTagsHeader_Configure :: "RouteConfiguration Configurer" where
  "ResetTagsHeader_Configure rc =
     Inr (rc\<lparr>rc_RequestHeadersToRemove := rc_RequestHeadersToRemove rc @ [TagsHeaderName]\<rparr>)"

definition ResetTagsHeader :: "RouteConfiguration BuilderOpt" where
  "ResetTagsHeader config = config @ [ResetTagsHeader_Configure]"

definition TagsHeader_Configure :: "MultiValueTagSet \<Rightarrow> RouteConfiguration Configurer" where
  "TagsHeader_Configure tags rc =
     (if length tags = 0 then Inr rc
      else Inr (rc\<lparr>rc_RequestHeadersToAdd := rc_RequestHeadersToAdd rc @ [(TagsHeaderName, Serialize tags)]\<rparr>))"

definition TagsHeader :: "MultiValueTagSet \<Rightarrow> RouteConfiguration BuilderOpt" where
  "TagsHeader tags config = config @ [TagsHeader_Configure tags]"

definition RouteConfigurationBuilder_Configure ::
  "RouteConfiguration BuilderOpt list \<Rightarrow> RouteConfiguration Configurer list" where
  "RouteConfigurationBuilder_Configure opts = fold (\<lambda>opt config. opt config) opts []"

definition RouteConfigurationBuilder_Build ::
  "RouteConfiguration Configurer list \<Rightarrow> go_error + RouteConfiguration" where
  "RouteConfigurationBuilder_Build configurers =
     foldE (\<lambda>configurer routeConfiguration. configurer routeConfiguration) configurers
       \<lparr>rc_Name = '''', rc_ValidateClusters = None, rc_RequestHeadersToAdd = [], rc_RequestHeadersToRemove = [],
        rc_VirtualHosts = []\<rparr>"

end
