(* ===== verification/Envoy_Listeners.thy ===== *)
theory Envoy_Listeners
  imports Envoy_Config "HOL-Library.Log_Nat"
begin

text \<open>
  Listeners (\<open>pkg/xds/envoy/listeners\<close>): the configurers of a listener and of its filter chain, with
  their builders.  The lemmas say what the configurers make of a filter chain when packing a message
  and unpacking it again gives the same message; the properties state who an RBAC filter lets in,
  how percentages and bandwidths are converted, and that no configurer loses a filter.
\<close>

section \<open>Floating point\<close>

text \<open>
  The operations of \<open>float64\<close> the code uses.  A product is rounded to the nearest number with 53
  significant bits, ties to even.  The conversion to \<open>uint32\<close> truncates; Go leaves its result to the
  platform when the value is not representable, so that case is a parameter.
\<close>

definition pow2 :: "int \<Rightarrow> rat" where
  "pow2 e = (if 0 \<le> e then 2 ^ nat e else 1 / 2 ^ nat (- e))"

definition floor_log2 :: "rat \<Rightarrow> int" where
  "floor_log2 r =
     (let (p, q) = quotient_of r; e = bitlen p - bitlen q in if pow2 e \<le> r then e else e - 1)"

definition round_half_even :: "rat \<Rightarrow> int" where
  "round_half_even x =
     (let n = \<lfloor>x\<rfloor>; d = x - of_int n in
      if d < 1 / 2 then n else if d > 1 / 2 then n + 1 else if even n then n else n + 1)"

definition round_double :: "rat \<Rightarrow> float64" where
  "round_double r =
     (if r = 0 then Finite 0
      else (let u = pow2 (max (floor_log2 \<bar>r\<bar> - 52) (- 1074));
                m = of_int (round_half_even (r / u)) * u
            in if 2 ^ 1024 \<le> m then PosInf else if m \<le> - (2 ^ 1024) then NegInf else Finite m))"

text \<open>The product with a positive constant.\<close>

fun float_scale :: "rat \<Rightarrow> float64 \<Rightarrow> float64" where
  "float_scale c (Finite r) = round_double (c * r)"
| "float_scale c x = x"

fun isInteger :: "float64 \<Rightarrow> bool" where
  "isInteger (Finite r) = (of_int \<lfloor>r\<rfloor> = r)"
| "isInteger NaN = False"
| "isInteger _ = True"

fun math_Round :: "float64 \<Rightarrow> float64" where
  "math_Round (Finite r) = Finite (if r < 0 then - of_int \<lfloor>- r + 1 / 2\<rfloor> else of_int \<lfloor>r + 1 / 2\<rfloor>)"
| "math_Round x = x"

definition trunc_rat :: "rat \<Rightarrow> int" where
  "trunc_rat r = (if r < 0 then - \<lfloor>- r\<rfloor> else \<lfloor>r\<rfloor>)"

definition to_uint32 :: "(float64 \<Rightarrow> u32) \<Rightarrow> float64 \<Rightarrow> u32" where
  "to_uint32 platform x =
     (case x of
        Finite r \<Rightarrow> if 0 \<le> trunc_rat r \<and> trunc_rat r < 2 ^ 32 then word_of_int (trunc_rat r) else platform x
      | _ \<Rightarrow> platform x)"

definition ConvertPercentage :: "(float64 \<Rightarrow> u32) \<Rightarrow> float64 option \<Rightarrow> FractionalPercent" where
  "ConvertPercentage platform percentage =
     (let value = (case percentage of None \<Rightarrow> Finite 0 | Some v \<Rightarrow> v) in
      if isInteger value then \<lparr>fp_Numerator = to_uint32 platform value, fp_Denominator = HUNDRED\<rparr>
      else (let tenThousandTimes = float_scale 10000 value in
            if isInteger tenThousandTimes
            then \<lparr>fp_Numerator = to_uint32 platform tenThousandTimes, fp_Denominator = TEN_THOUSAND\<rparr>
            else \<lparr>fp_Numerator = to_uint32 platform (math_Round (float_scale 1000000 value)),
                  fp_Denominator = MILLION\<rparr>))"

section \<open>Bandwidth\<close>

text \<open>
  \<open>(\d*)\s?([gmk]?bps)\<close> at the start of a text, as the two submatches; the character classes are
  disjoint, so the greedy match needs no backtracking.  \<open>FindStringSubmatch\<close> takes the leftmost match.
\<close>

definition bandwidth_match_here :: "string \<Rightarrow> (string \<times> string) option" where
  "bandwidth_match_here t =
     (let digits = takeWhile is_digit t;
          t1 = dropWhile is_digit t;
          t2 = (case t1 of
                  [] \<Rightarrow> []
                | c # cs \<Rightarrow> if c \<in> {CHR '' '', CHR 9, CHR 10, CHR 12, CHR 13} then cs else t1)
      in case t2 of
           [] \<Rightarrow> None
         | c # cs \<Rightarrow>
             if c \<in> {CHR ''g'', CHR ''m'', CHR ''k''}
             then (if take 3 cs = ''bps'' then Some (digits, c # ''bps'') else None)
             else (if take 3 t2 = ''bps'' then Some (digits, ''bps'') else None))"

fun bandwidth_match :: "string \<Rightarrow> (string \<times> string) option" where
  "bandwidth_match [] = bandwidth_match_here []"
| "bandwidth_match (c # cs) =
     (case bandwidth_match_here (c # cs) of Some m \<Rightarrow> Some m | None \<Rightarrow> bandwidth_match cs)"

text \<open>The product of two \<open>int\<close>s wraps and the conversion to \<open>uint64\<close> keeps the bits.\<close>

definition ConvertBandwidthToKbps :: "string \<Rightarrow> go_error + u64" where
  "ConvertBandwidthToKbps bandwidth =
     (case bandwidth_match bandwidth of
        None \<Rightarrow> Inl (ErrPanic ''index out of range'')
      | Some (digits, units) \<Rightarrow>
          (case atoi digits of
             Inl err \<Rightarrow> Inl (num_error_of ''Atoi'' digits err)
           | Inr value \<Rightarrow>
               if units = ''kbps'' then Inr (word_of_int (1 * value))
               else if units = ''mbps'' then Inr (word_of_int (1000 * value))
               else if units = ''gbps'' then Inr (word_of_int (1000000 * value))
               else Inl (ErrString ''unsupported unit type'')))"

section \<open>Listeners and filter chains\<close>

datatype 'a Filter = FilterMsg (fl_Name: string) (fl_TypedConfig: "'a option")

record 'a FilterChain =
  fc_Filters :: "'a Filter list"
  fc_TransportSocket :: "'a TransportSocket option"

datatype TrafficDirection = UNSPECIFIED | INBOUND | OUTBOUND

record 'a Listener =
  ls_Name :: string
  ls_TrafficDirection :: TrafficDirection
  ls_Address :: "(string \<times> u32) option"
  ls_FilterChains :: "'a FilterChain list"
  ls_BindToPort :: "bool option"
  ls_UseOriginalDst :: "bool option"

text \<open>The names of filters in the package \<open>wellknown\<close> of Envoy's control plane library.\<close>

definition wk_HTTPConnectionManager :: string where "wk_HTTPConnectionManager = ''envoy.http_connection_manager''"
definition wk_TCPProxy :: string where "wk_TCPProxy = ''envoy.tcp_proxy''"
definition wk_RoleBasedAccessControl :: string where "wk_RoleBasedAccessControl = ''envoy.filters.network.rbac''"
definition wk_Router :: string where "wk_Router = ''envoy.router''"
definition wk_Fault :: string where "wk_Fault = ''envoy.fault''"
definition wk_HTTPGRPCAccessLog :: string where "wk_HTTPGRPCAccessLog = ''envoy.http_grpc_access_log''"
definition wk_FileAccessLog :: string where "wk_FileAccessLog = ''envoy.file_access_log''"

lemmas wellknown_defs =
  wk_HTTPConnectionManager_def wk_TCPProxy_def wk_RoleBasedAccessControl_def wk_Router_def wk_Fault_def
  wk_HTTPGRPCAccessLog_def wk_FileAccessLog_def

section \<open>Updating a filter\<close>

definition NewUnexpectedFilterConfigTypeError :: "'a AnyCodec \<Rightarrow> 'a EnvoyMessage \<Rightarrow> 'a EnvoyMessage \<Rightarrow> go_error" where
  "NewUnexpectedFilterConfigTypeError pb actual expected =
     ErrString (''filter config has unexpected type: expected '' @ pb_TypeText pb expected @ '', got '' @
       pb_TypeText pb actual)"

fun update_filters ::
  "'a AnyCodec \<Rightarrow> string \<Rightarrow> ('a EnvoyMessage \<Rightarrow> go_error + 'a EnvoyMessage) \<Rightarrow> nat \<Rightarrow> 'a Filter list \<Rightarrow>
   go_error + 'a Filter list" where
  "update_filters pb filterName updateFunc i [] = Inr []"
| "update_filters pb filterName updateFunc i (flt # rest) =
     bindE (if fl_Name flt = filterName
            then (case fl_TypedConfig flt of
                    None \<Rightarrow> Inl (ErrString (''filters['' @ format_nat i @ '']: config cannot be '' @
                              [CHR 39] @ ''nil'' @ [CHR 39]))
                  | Some config \<Rightarrow>
                      bindE (pb_UnmarshalAny pb config) (\<lambda>message.
                      bindE (updateFunc message) (\<lambda>message.
                      bindE (pb_MarshalAny pb message) (\<lambda>pbst.
                      Inr (FilterMsg (fl_Name flt) (Some pbst))))))
            else Inr flt)
       (\<lambda>flt. bindE (update_filters pb filterName updateFunc (Suc i) rest) (\<lambda>rest. Inr (flt # rest)))"

definition UpdateFilterConfig ::
  "'a AnyCodec \<Rightarrow> string \<Rightarrow> ('a EnvoyMessage \<Rightarrow> go_error + 'a EnvoyMessage) \<Rightarrow> 'a FilterChain \<Rightarrow>
   go_error + 'a FilterChain" where
  "UpdateFilterConfig pb filterName updateFunc filterChain =
     bindE (update_filters pb filterName updateFunc 0 (fc_Filters filterChain)) (\<lambda>filters.
     Inr (filterChain\<lparr>fc_Filters := filters\<rparr>))"

definition UpdateHTTPConnectionManager ::
  "'a AnyCodec \<Rightarrow> ('a HttpConnectionManager \<Rightarrow> go_error + 'a HttpConnectionManager) \<Rightarrow> 'a FilterChain \<Rightarrow>
   go_error + 'a FilterChain" where
  "UpdateHTTPConnectionManager pb updateFunc =
     UpdateFilterConfig pb wk_HTTPConnectionManager (\<lambda>filterConfig.
       case filterConfig of
         HttpConnectionManagerMessage hcm \<Rightarrow> bindE (updateFunc hcm) (\<lambda>hcm. Inr (HttpConnectionManagerMessage hcm))
       | _ \<Rightarrow> Inl (NewUnexpectedFilterConfigTypeError pb filterConfig
                (HttpConnectionManagerMessage (HttpConnectionManagerMsg '''' [] None None []))))"

definition UpdateTCPProxy ::
  "'a AnyCodec \<Rightarrow> ('a TcpProxy \<Rightarrow> go_error + 'a TcpProxy) \<Rightarrow> 'a FilterChain \<Rightarrow> go_error + 'a FilterChain" where
  "UpdateTCPProxy pb updateFunc =
     UpdateFilterConfig pb wk_TCPProxy (\<lambda>filterConfig.
       case filterConfig of
         TcpProxyMessage tcpProxy \<Rightarrow> bindE (updateFunc tcpProxy) (\<lambda>tcpProxy. Inr (TcpProxyMessage tcpProxy))
       | _ \<Rightarrow> Inl (NewUnexpectedFilterConfigTypeError pb filterConfig
                (TcpProxyMessage (TcpProxyMsg '''' (ToCluster '''') []))))"

section \<open>Configurers of filter chains\<close>

subsection \<open>HTTP connection manager, TCP proxy\<close>

text \<open>The codec type of every connection manager is \<open>AUTO\<close> and is left out.\<close>

definition append_filter :: "string \<Rightarrow> 'a \<Rightarrow> 'a FilterChain \<Rightarrow> 'a FilterChain" where
  "append_filter name pbst filterChain =
     filterChain\<lparr>fc_Filters := fc_Filters filterChain @ [FilterMsg name (Some pbst)]\<rparr>"

definition HttpConnectionManager_Configure :: "'a AnyCodec \<Rightarrow> string \<Rightarrow> 'a FilterChain Configurer" where
  "HttpConnectionManager_Configure pb statsName filterChain =
     (let config = HttpConnectionManagerMsg (SanitizeMetric statsName) [HttpFilter wk_Router None] None None [] in
      bindE (pb_MarshalAny pb (HttpConnectionManagerMessage config)) (\<lambda>pbst.
      Inr (append_filter wk_HTTPConnectionManager pbst filterChain)))"

definition HttpConnectionManager :: "'a AnyCodec \<Rightarrow> string \<Rightarrow> 'a FilterChain BuilderOpt" where
  "HttpConnectionManager pb statsName config = config @ [HttpConnectionManager_Configure pb statsName]"

definition prometheus_route :: "string \<Rightarrow> string \<Rightarrow> RouteConfiguration" where
  "prometheus_route path clusterName =
     \<lparr>rc_Name = '''', rc_ValidateClusters = None, rc_RequestHeadersToAdd = [], rc_RequestHeadersToRemove = [],
      rc_VirtualHosts =
        [\<lparr>vh_Name = ''envoy_admin'', vh_Domains = [''*''],
          vh_Routes = [\<lparr>rt_Prefix = path, rt_Action = ToCluster clusterName, rt_PrefixRewrite = ''/stats/prometheus''\<rparr>]\<rparr>]\<rparr>"

definition PrometheusEndpoint_Configure :: "'a AnyCodec \<Rightarrow> string \<Rightarrow> string \<Rightarrow> string \<Rightarrow> 'a FilterChain Configurer" where
  "PrometheusEndpoint_Configure pb statsName path clusterName filterChain =
     (let config = HttpConnectionManagerMsg (SanitizeMetric statsName) [HttpFilter wk_Router None]
                     (Some (RouteConfig (prometheus_route path clusterName))) None [] in
      bindE (pb_MarshalAny pb (HttpConnectionManagerMessage config)) (\<lambda>pbst.
      Inr (append_filter wk_HTTPConnectionManager pbst filterChain)))"

definition PrometheusEndpoint :: "'a AnyCodec \<Rightarrow> string \<Rightarrow> string \<Rightarrow> string \<Rightarrow> 'a FilterChain BuilderOpt" where
  "PrometheusEndpoint pb statsName path clusterName config =
     config @ [PrometheusEndpoint_Configure pb statsName path clusterName]"

definition tcpProxy :: "string \<Rightarrow> ClusterInfo list \<Rightarrow> 'a TcpProxy" where
  "tcpProxy statsName clusters =
     TcpProxyMsg (SanitizeMetric statsName)
       (if length clusters = 1 then ToCluster (ci_Name (clusters ! 0))
        else ToWeightedClusters (map (\<lambda>cluster. (ci_Name cluster, ci_Weight cluster)) clusters)) []"

definition TcpProxy_Configure :: "'a AnyCodec \<Rightarrow> string \<Rightarrow> ClusterInfo list \<Rightarrow> 'a FilterChain Configurer" where
  "TcpProxy_Configure pb statsName clusters filterChain =
     bindE (pb_MarshalAny pb (TcpProxyMessage (tcpProxy statsName clusters))) (\<lambda>pbst.
     Inr (append_filter wk_TCPProxy pbst filterChain))"

definition TcpProxy :: "'a AnyCodec \<Rightarrow> string \<Rightarrow> ClusterInfo list \<Rightarrow> 'a FilterChain BuilderOpt" where
  "TcpProxy pb statsName clusters config = config @ [TcpProxy_Configure pb statsName clusters]"

subsection \<open>Routes and tracing\<close>

fun hcm_with_route :: "RouteSpecifier \<Rightarrow> 'a HttpConnectionManager \<Rightarrow> 'a HttpConnectionManager" where
  "hcm_with_route r (HttpConnectionManagerMsg stat filters _ tracing logs) =
     HttpConnectionManagerMsg stat filters (Some r) tracing logs"

fun hcm_with_tracing :: "float64 option \<Rightarrow> 'a HttpConnectionManager \<Rightarrow> 'a HttpConnectionManager" where
  "hcm_with_tracing sampling (HttpConnectionManagerMsg stat filters r _ logs) =
     HttpConnectionManagerMsg stat filters r (Some sampling) logs"

fun hcm_add_log :: "'a AccessLog list \<Rightarrow> 'a HttpConnectionManager \<Rightarrow> 'a HttpConnectionManager" where
  "hcm_add_log l (HttpConnectionManagerMsg stat filters r tracing logs) =
     HttpConnectionManagerMsg stat filters r tracing (logs @ l)"

fun hcm_first_filter :: "'a HttpFilter \<Rightarrow> 'a HttpConnectionManager \<Rightarrow> 'a HttpConnectionManager" where
  "hcm_first_filter f (HttpConnectionManagerMsg stat filters r tracing logs) =
     HttpConnectionManagerMsg stat (f # filters) r tracing logs"

fun tcp_add_log :: "'a AccessLog list \<Rightarrow> 'a TcpProxy \<Rightarrow> 'a TcpProxy" where
  "tcp_add_log l (TcpProxyMsg stat clusters logs) = TcpProxyMsg stat clusters (logs @ l)"

definition HttpInboundRoute_Configure :: "'a AnyCodec \<Rightarrow> string \<Rightarrow> ClusterInfo \<Rightarrow> 'a FilterChain Configurer" where
  "HttpInboundRoute_Configure pb service cluster filterChain =
     (let routeName = GetInboundRouteName service in
      bindE (RouteConfigurationBuilder_Build
               (RouteConfigurationBuilder_Configure
                  [CommonRouteConfiguration routeName,
                   ResetTagsHeader,
                   VirtualHostOpt (VirtualHostBuilder_Configure [CommonVirtualHost service, DefaultRoute [cluster]])]))
        (\<lambda>routeConfig. UpdateHTTPConnectionManager pb (\<lambda>hcm. Inr (hcm_with_route (RouteConfig routeConfig) hcm)) filterChain))"

definition HttpInboundRoute :: "'a AnyCodec \<Rightarrow> string \<Rightarrow> ClusterInfo \<Rightarrow> 'a FilterChain BuilderOpt" where
  "HttpInboundRoute pb service cluster config = config @ [HttpInboundRoute_Configure pb service cluster]"

definition HttpOutboundRoute_Configure :: "'a AnyCodec \<Rightarrow> string \<Rightarrow> 'a FilterChain Configurer" where
  "HttpOutboundRoute_Configure pb routeName =
     UpdateHTTPConnectionManager pb (\<lambda>hcm. Inr (hcm_with_route (Rds routeName) hcm))"

definition HttpOutboundRoute :: "'a AnyCodec \<Rightarrow> string \<Rightarrow> 'a FilterChain BuilderOpt" where
  "HttpOutboundRoute pb routeName config = config @ [HttpOutboundRoute_Configure pb routeName]"

definition Tracing_Configure :: "'a AnyCodec \<Rightarrow> TracingBackend option \<Rightarrow> 'a FilterChain Configurer" where
  "Tracing_Configure pb backend filterChain =
     (case backend of
        None \<Rightarrow> Inr filterChain
      | Some backend \<Rightarrow>
          UpdateHTTPConnectionManager pb (\<lambda>hcm. Inr (hcm_with_tracing (tb_Sampling backend) hcm)) filterChain)"

definition TracingOpt :: "'a AnyCodec \<Rightarrow> TracingBackend option \<Rightarrow> 'a FilterChain BuilderOpt" where
  "TracingOpt pb backend config = config @ [Tracing_Configure pb backend]"

subsection \<open>Fault injection\<close>

definition createHeaders :: "tags list \<Rightarrow> HeaderMatcher" where
  "createHeaders selectors =
     \<lparr>hm_Name = TagsHeaderName, hm_Regex = RegexOR (map MatchingRegex selectors), hm_MaxProgramSize = 500\<rparr>"

definition convertDelay :: "(float64 \<Rightarrow> u32) \<Rightarrow> Delay option \<Rightarrow> FaultDelay option" where
  "convertDelay platform delay =
     (case delay of
        None \<Rightarrow> None
      | Some d \<Rightarrow> Some \<lparr>fd_FixedDelay = dl_Value d, fd_Percentage = ConvertPercentage platform (dl_Percentage d)\<rparr>)"

definition convertAbort :: "(float64 \<Rightarrow> u32) \<Rightarrow> Abort option \<Rightarrow> FaultAbort option" where
  "convertAbort platform abort =
     (case abort of
        None \<Rightarrow> None
      | Some a \<Rightarrow> Some \<lparr>fa_HttpStatus = (case ab_HttpStatus a of None \<Rightarrow> 0 | Some s \<Rightarrow> s),
                      fa_Percentage = ConvertPercentage platform (ab_Percentage a)\<rparr>)"

definition convertResponseRateLimit ::
  "(float64 \<Rightarrow> u32) \<Rightarrow> ResponseBandwidth option \<Rightarrow> go_error + FaultRateLimit option" where
  "convertResponseRateLimit platform responseBandwidth =
     (case responseBandwidth of
        None \<Rightarrow> Inr None
      | Some b \<Rightarrow>
          bindE (ConvertBandwidthToKbps (case rb_Limit b of None \<Rightarrow> '''' | Some l \<Rightarrow> l)) (\<lambda>limitKbps.
          Inr (Some \<lparr>frl_LimitKbps = limitKbps, frl_Percentage = ConvertPercentage platform (rb_Percentage b)\<rparr>)))"

definition FaultInjection_Configure ::
  "'a AnyCodec \<Rightarrow> (float64 \<Rightarrow> u32) \<Rightarrow> FaultInjection option \<Rightarrow> 'a FilterChain Configurer" where
  "FaultInjection_Configure pb platform faultInjection filterChain =
     (case faultInjection of
        None \<Rightarrow> Inr filterChain
      | Some f \<Rightarrow>
          bindE (convertResponseRateLimit platform (GetResponseBandwidth f)) (\<lambda>rrl.
          let config = \<lparr>hf_Delay = convertDelay platform (GetDelay f), hf_Abort = convertAbort platform (GetAbort f),
                        hf_Headers = [createHeaders (fi_Sources f)], hf_ResponseRateLimit = rrl\<rparr> in
          bindE (pb_MarshalAny pb (HTTPFaultMessage config)) (\<lambda>pbst.
          UpdateHTTPConnectionManager pb (\<lambda>manager. Inr (hcm_first_filter (HttpFilter wk_Fault (Some pbst)) manager))
            filterChain)))"

definition FaultInjectionOpt ::
  "'a AnyCodec \<Rightarrow> (float64 \<Rightarrow> u32) \<Rightarrow> FaultInjection option \<Rightarrow> 'a FilterChain BuilderOpt" where
  "FaultInjectionOpt pb platform faultInjection config = config @ [FaultInjection_Configure pb platform faultInjection]"

subsection \<open>Access to a listener\<close>

definition createPolicy :: "TrafficPermissionResource \<Rightarrow> RbacPolicy" where
  "createPolicy permission =
     (let principals = map (\<lambda>source.
            let service = gstr source ServiceTag in
            if service = MatchAllTag then AnyPrincipal
            else Authenticated (''spiffe://'' @ res_mesh permission @ ''/'' @ service)) (tp_Sources (Spec permission))
      in \<lparr>rp_AnyPermission = True, rp_Principals = principals\<rparr>)"

definition createRbacRule :: "string \<Rightarrow> TrafficPermissionResource option \<Rightarrow> RBAC" where
  "createRbacRule statsName permission =
     (let policies = (case permission of None \<Rightarrow> [] | Some p \<Rightarrow> gput (res_name p) (createPolicy p) [])
      in \<lparr>rbac_Policies = policies, rbac_StatPrefix = SanitizeMetric statsName @ ''.''\<rparr>)"

definition createRbacFilter :: "'a AnyCodec \<Rightarrow> string \<Rightarrow> TrafficPermissionResource option \<Rightarrow> go_error + 'a Filter" where
  "createRbacFilter pb statsName permission =
     bindE (pb_MarshalAny pb (RBACMessage (createRbacRule statsName permission))) (\<lambda>rbacMarshalled.
     Inr (FilterMsg wk_RoleBasedAccessControl (Some rbacMarshalled)))"

definition NetworkRBAC_Configure ::
  "'a AnyCodec \<Rightarrow> string \<Rightarrow> TrafficPermissionResource option \<Rightarrow> 'a FilterChain Configurer" where
  "NetworkRBAC_Configure pb statsName permission filterChain =
     bindE (createRbacFilter pb statsName permission) (\<lambda>flt.
     Inr (filterChain\<lparr>fc_Filters := flt # fc_Filters filterChain\<rparr>))"

definition NetworkRBAC ::
  "'a AnyCodec \<Rightarrow> string \<Rightarrow> bool \<Rightarrow> TrafficPermissionResource option \<Rightarrow> 'a FilterChain BuilderOpt" where
  "NetworkRBAC pb statsName rbacEnabled permission config =
     (if rbacEnabled then config @ [NetworkRBAC_Configure pb statsName permission] else config)"

definition ServerSideMTLS_Configure ::
  "'a AnyCodec \<Rightarrow> ControlPlaneContext Context \<Rightarrow> DataplaneMetadata option \<Rightarrow> 'a FilterChain Configurer" where
  "ServerSideMTLS_Configure pb ctx metadata filterChain =
     bindE (CreateDownstreamTlsContext pb ctx metadata) (\<lambda>tlsContext.
     case tlsContext of
       None \<Rightarrow> Inr filterChain
     | Some tlsContext \<Rightarrow>
         bindE (pb_MarshalAny pb (DownstreamTlsMessage tlsContext)) (\<lambda>pbst.
         Inr (filterChain\<lparr>fc_TransportSocket := Some (TransportSocketMsg tls_socket_name pbst)\<rparr>)))"

definition ServerSideMTLS ::
  "'a AnyCodec \<Rightarrow> ControlPlaneContext Context \<Rightarrow> DataplaneMetadata option \<Rightarrow> 'a FilterChain BuilderOpt" where
  "ServerSideMTLS pb ctx metadata config = config @ [ServerSideMTLS_Configure pb ctx metadata]"

subsection \<open>Access logs\<close>

text \<open>\<open>net.JoinHostPort\<close>: an address with a colon is put in brackets.\<close>

definition JoinHostPort :: "string \<Rightarrow> string \<Rightarrow> string" where
  "JoinHostPort host port =
     (if CHR '':'' \<in> set host then ''['' @ host @ '']:'' @ port else host @ '':'' @ port)"

definition accessLogSink :: string where "accessLogSink = ''access_log_sink''"

definition tcpAccessLog :: "'a AnyCodec \<Rightarrow> AccessLogFormat \<Rightarrow> string \<Rightarrow> go_error + 'a AccessLog" where
  "tcpAccessLog pb format address =
     (let httpGrpcAccessLog =
            \<lparr>cfg_CommonConfig = Some \<lparr>cg_LogName = address @ '';'' @ AccessLogFormat_String format,
                                     cg_GrpcService = Some accessLogSink, cg_FilterStateObjectsToLog = []\<rparr>,
             cfg_RequestHeaders = [], cfg_ResponseHeaders = [], cfg_ResponseTrailers = []\<rparr>;
          httpGrpcAccessLog = ConfigureHttpLog format httpGrpcAccessLog
      in bindE (wrap_err (pb_MarshalAny pb (HttpGrpcAccessLogMessage httpGrpcAccessLog))
                  (''could not marshall '' @ pb_TypeText pb (HttpGrpcAccessLogMessage httpGrpcAccessLog)))
           (\<lambda>marshalled. Inr (AccessLog wk_HTTPGRPCAccessLog marshalled)))"

definition fileAccessLog :: "'a AnyCodec \<Rightarrow> AccessLogFormat \<Rightarrow> string \<Rightarrow> go_error + 'a AccessLog" where
  "fileAccessLog pb format path =
     (let log = \<lparr>fal_Format = AccessLogFormat_String format, fal_Path = path\<rparr> in
      bindE (wrap_err (pb_MarshalAny pb (FileAccessLogMessage log))
               (''could not marshall '' @ pb_TypeText pb (FileAccessLogMessage log)))
        (\<lambda>marshalled. Inr (AccessLog wk_FileAccessLog marshalled)))"

definition convertLoggingBackend ::
  "'a AnyCodec \<Rightarrow> string \<Rightarrow> string \<Rightarrow> string \<Rightarrow> LoggingBackend option \<Rightarrow> Proxy \<Rightarrow> string \<Rightarrow>
   go_error + 'a AccessLog option" where
  "convertLoggingBackend pb mesh sourceService destinationService backend proxy defaultFormat =
     (case backend of
        None \<Rightarrow> Inr None
      | Some backend \<Rightarrow>
          (let formatString = (if lb_Format backend \<noteq> '''' then lb_Format backend else defaultFormat) in
           bindE (wrap_err (ParseFormat formatString) (''invalid access log format string: '' @ formatString)) (\<lambda>format.
           bindE (GetIP (Some (px_Dataplane proxy))) (\<lambda>ip.
           let variables =
                 [(CMD_KUMA_SOURCE_ADDRESS, JoinHostPort ip ''0''),
                  (CMD_KUMA_SOURCE_ADDRESS_WITHOUT_PORT, ip),
                  (CMD_KUMA_SOURCE_SERVICE, sourceService),
                  (CMD_KUMA_DESTINATION_SERVICE, destinationService),
                  (CMD_KUMA_MESH, mesh)];
               format = Interpolate variables format
           in case lb_Type backend of
                Some (LoggingFile path) \<Rightarrow> bindE (fileAccessLog pb format path) (\<lambda>l. Inr (Some l))
              | Some (LoggingTcp address) \<Rightarrow> bindE (tcpAccessLog pb format address) (\<lambda>l. Inr (Some l))
              | None \<Rightarrow> Inl (ErrString ''could not convert LoggingBackend of type <nil> to AccessLog'')))))"

definition defaultHttpAccessLogFormat :: string where
  "defaultHttpAccessLogFormat =
     ''[%START_TIME%] %KUMA_MESH% \"%REQ(:METHOD)% %REQ(X-ENVOY-ORIGINAL-PATH?:PATH)% %PROTOCOL%\" %RESPONSE_CODE% %RESPONSE_FLAGS% %BYTES_RECEIVED% %BYTES_SENT% %DURATION% %RESP(X-ENVOY-UPSTREAM-SERVICE-TIME)% \"%REQ(X-FORWARDED-FOR)%\" \"%REQ(USER-AGENT)%\" \"%REQ(X-REQUEST-ID)%\" \"%REQ(:AUTHORITY)%\" \"%KUMA_SOURCE_SERVICE%\" \"%KUMA_DESTINATION_SERVICE%\" \"%KUMA_SOURCE_ADDRESS_WITHOUT_PORT%\" \"%UPSTREAM_HOST%\"''
     @ [CHR 10]"

definition defaultNetworkAccessLogFormat :: string where
  "defaultNetworkAccessLogFormat =
     ''[%START_TIME%] %RESPONSE_FLAGS% %KUMA_MESH% %KUMA_SOURCE_ADDRESS_WITHOUT_PORT%(%KUMA_SOURCE_SERVICE%)->%UPSTREAM_HOST%(%KUMA_DESTINATION_SERVICE%) took %DURATION%ms, sent %BYTES_SENT% bytes, received: %BYTES_RECEIVED% bytes''
     @ [CHR 10]"

text \<open>An access log is configured only for a backend, so the converted log is never \<open>nil\<close>.\<close>

definition HttpAccessLog_Configure ::
  "'a AnyCodec \<Rightarrow> string \<Rightarrow> string \<Rightarrow> string \<Rightarrow> LoggingBackend \<Rightarrow> Proxy \<Rightarrow> 'a FilterChain Configurer" where
  "HttpAccessLog_Configure pb mesh sourceService destinationService backend proxy filterChain =
     bindE (convertLoggingBackend pb mesh sourceService destinationService (Some backend) proxy defaultHttpAccessLogFormat)
       (\<lambda>accessLog. UpdateHTTPConnectionManager pb (\<lambda>hcm. Inr (hcm_add_log (case accessLog of None \<Rightarrow> [] | Some l \<Rightarrow> [l]) hcm))
          filterChain)"

definition HttpAccessLog ::
  "'a AnyCodec \<Rightarrow> string \<Rightarrow> string \<Rightarrow> string \<Rightarrow> LoggingBackend option \<Rightarrow> Proxy \<Rightarrow> 'a FilterChain BuilderOpt" where
  "HttpAccessLog pb mesh sourceService destinationService backend proxy config =
     (case backend of
        None \<Rightarrow> config
      | Some backend \<Rightarrow> config @ [HttpAccessLog_Configure pb mesh sourceService destinationService backend proxy])"

definition NetworkAccessLog_Configure ::
  "'a AnyCodec \<Rightarrow> string \<Rightarrow> string \<Rightarrow> string \<Rightarrow> LoggingBackend \<Rightarrow> Proxy \<Rightarrow> 'a FilterChain Configurer" where
  "NetworkAccessLog_Configure pb mesh sourceService destinationService backend proxy filterChain =
     bindE (convertLoggingBackend pb mesh sourceService destinationService (Some backend) proxy defaultNetworkAccessLogFormat)
       (\<lambda>accessLog. UpdateTCPProxy pb (\<lambda>tcp. Inr (tcp_add_log (case accessLog of None \<Rightarrow> [] | Some l \<Rightarrow> [l]) tcp))
          filterChain)"

definition NetworkAccessLog ::
  "'a AnyCodec \<Rightarrow> string \<Rightarrow> string \<Rightarrow> string \<Rightarrow> LoggingBackend option \<Rightarrow> Proxy \<Rightarrow> 'a FilterChain BuilderOpt" where
  "NetworkAccessLog pb mesh sourceService destinationService backend proxy config =
     (case backend of
        None \<Rightarrow> config
      | Some backend \<Rightarrow> config @ [NetworkAccessLog_Configure pb mesh sourceService destinationService backend proxy])"

subsection \<open>The builder\<close>

definition FilterChainBuilder_Configure :: "'a FilterChain BuilderOpt list \<Rightarrow> 'a FilterChain Configurer list" where
  "FilterChainBuilder_Configure opts = fold (\<lambda>opt config. opt config) opts []"

definition FilterChainBuilder_Build :: "'a FilterChain Configurer list \<Rightarrow> go_error + 'a FilterChain" where
  "FilterChainBuilder_Build configurers =
     foldE (\<lambda>configurer filterChain. configurer filterChain) configurers
       \<lparr>fc_Filters = [], fc_TransportSocket = None\<rparr>"

section \<open>Configurers of listeners\<close>

definition InboundListener_Configure :: "string \<Rightarrow> string \<Rightarrow> u32 \<Rightarrow> 'a Listener Configurer" where
  "InboundListener_Configure listenerName address port l =
     Inr (l\<lparr>ls_Name := listenerName, ls_TrafficDirection := INBOUND, ls_Address := Some (address, port)\<rparr>)"

definition InboundListener :: "string \<Rightarrow> string \<Rightarrow> u32 \<Rightarrow> 'a Listener BuilderOpt" where
  "InboundListener listenerName address port config = config @ [InboundListener_Configure listenerName address port]"

definition OutboundListener_Configure :: "string \<Rightarrow> string \<Rightarrow> u32 \<Rightarrow> 'a Listener Configurer" where
  "OutboundListener_Configure listenerName address port l =
     Inr (l\<lparr>ls_Name := listenerName, ls_TrafficDirection := OUTBOUND, ls_Address := Some (address, port)\<rparr>)"

definition OutboundListener :: "string \<Rightarrow> string \<Rightarrow> u32 \<Rightarrow> 'a Listener BuilderOpt" where
  "OutboundListener listenerName address port config = config @ [OutboundListener_Configure listenerName address port]"

definition FilterChain_Configure :: "'a FilterChain Configurer list \<Rightarrow> 'a Listener Configurer" where
  "FilterChain_Configure builder listener =
     bindE (FilterChainBuilder_Build builder) (\<lambda>filterChain.
     Inr (listener\<lparr>ls_FilterChains := ls_FilterChains listener @ [filterChain]\<rparr>))"

definition FilterChainOpt :: "'a FilterChain Configurer list \<Rightarrow> 'a Listener BuilderOpt" where
  "FilterChainOpt builder config = config @ [FilterChain_Configure builder]"

definition TransparentProxying_Configure :: "'a Listener Configurer" where
  "TransparentProxying_Configure l = Inr (l\<lparr>ls_BindToPort := Some False\<rparr>)"

definition TransparentProxying :: "u32 option \<Rightarrow> 'a Listener BuilderOpt" where
  "TransparentProxying transparentProxying config =
     (let virtual = ((case transparentProxying of None \<Rightarrow> 0 | Some redirectPort \<Rightarrow> redirectPort) \<noteq> 0) in
      if virtual then config @ [TransparentProxying_Configure] else config)"

definition OriginalDstForwarder_Configure :: "'a Listener Configurer" where
  "OriginalDstForwarder_Configure l = Inr (l\<lparr>ls_UseOriginalDst := Some True\<rparr>)"

definition OriginalDstForwarder :: "'a Listener BuilderOpt" where
  "OriginalDstForwarder config = config @ [OriginalDstForwarder_Configure]"

definition ListenerBuilder_Configure :: "'a Listener BuilderOpt list \<Rightarrow> 'a Listener Configurer list" where
  "ListenerBuilder_Configure opts = fold (\<lambda>opt config. opt config) opts []"

definition ListenerBuilder_Build :: "'a Listener Configurer list \<Rightarrow> go_error + 'a Listener" where
  "ListenerBuilder_Build configurers =
     foldE (\<lambda>configurer listener. configurer listener) configurers
       \<lparr>ls_Name = '''', ls_TrafficDirection = UNSPECIFIED, ls_Address = None, ls_FilterChains = [],
        ls_BindToPort = None, ls_UseOriginalDst = None\<rparr>"

section \<open>What a filter chain holds\<close>

text \<open>The message in a filter, when it can be unpacked, and the messages of a chain with the names of their filters.\<close>

definition filter_message :: "'a AnyCodec \<Rightarrow> 'a Filter \<Rightarrow> 'a EnvoyMessage option" where
  "filter_message pb f =
     (case fl_TypedConfig f of
        None \<Rightarrow> None
      | Some config \<Rightarrow> (case pb_UnmarshalAny pb config of Inl _ \<Rightarrow> None | Inr m \<Rightarrow> Some m))"

definition chain_view :: "'a AnyCodec \<Rightarrow> 'a FilterChain \<Rightarrow> (string \<times> 'a EnvoyMessage option) list" where
  "chain_view pb chain = map (\<lambda>f. (fl_Name f, filter_message pb f)) (fc_Filters chain)"

lemma filter_message_packed [simp]:
  "any_roundtrip pb \<Longrightarrow> pb_MarshalAny pb m = Inr a \<Longrightarrow> filter_message pb (FilterMsg n (Some a)) = Some m"
  by (simp add: filter_message_def any_roundtripD)

lemma filter_messageD:
  "filter_message pb f = Some m \<Longrightarrow> \<exists>a. fl_TypedConfig f = Some a \<and> pb_UnmarshalAny pb a = Inr m"
  by (auto simp: filter_message_def split: option.splits sum.splits)

lemma append_filter_view [simp]:
  "chain_view pb (append_filter n a chain) = chain_view pb chain @ [(n, filter_message pb (FilterMsg n (Some a)))]"
  "fc_TransportSocket (append_filter n a chain) = fc_TransportSocket chain"
  by (simp_all add: chain_view_def append_filter_def)

text \<open>
  Every update of the code reaches a chain with one filter: the RBAC filter is put in front last.
\<close>

lemma UpdateFilterConfig_single:
  assumes "any_roundtrip pb" and "chain_view pb chain = [(n, Some m)]"
    and "UpdateFilterConfig pb n f chain = Inr chain'"
  shows "\<exists>m'. f m = Inr m' \<and> chain_view pb chain' = [(n, Some m')] \<and> fc_TransportSocket chain' = fc_TransportSocket chain"
proof -
  obtain flt where flt: "fc_Filters chain = [flt]" "fl_Name flt = n" "filter_message pb flt = Some m"
    using assms(2) by (auto simp: chain_view_def map_eq_Cons_conv)
  then obtain a where "fl_TypedConfig flt = Some a" "pb_UnmarshalAny pb a = Inr m"
    by (blast dest: filter_messageD)
  then show ?thesis
    using assms(1,3) flt by (auto simp: UpdateFilterConfig_def bindE_Inr chain_view_def)
qed

lemma UpdateHTTPConnectionManager_single:
  assumes "any_roundtrip pb" and "chain_view pb chain = [(wk_HTTPConnectionManager, Some (HttpConnectionManagerMessage h))]"
    and "UpdateHTTPConnectionManager pb (\<lambda>hcm. Inr (g hcm)) chain = Inr chain'"
  shows "chain_view pb chain' = [(wk_HTTPConnectionManager, Some (HttpConnectionManagerMessage (g h)))] \<and>
    fc_TransportSocket chain' = fc_TransportSocket chain"
  using UpdateFilterConfig_single [OF assms(1,2) assms(3) [unfolded UpdateHTTPConnectionManager_def]] by simp

lemma UpdateTCPProxy_single:
  assumes "any_roundtrip pb" and "chain_view pb chain = [(wk_TCPProxy, Some (TcpProxyMessage t))]"
    and "UpdateTCPProxy pb (\<lambda>tcp. Inr (g tcp)) chain = Inr chain'"
  shows "chain_view pb chain' = [(wk_TCPProxy, Some (TcpProxyMessage (g t)))] \<and>
    fc_TransportSocket chain' = fc_TransportSocket chain"
  using UpdateFilterConfig_single [OF assms(1,2) assms(3) [unfolded UpdateTCPProxy_def]] by simp

text \<open>
  Chains with one HTTP connection manager whose route is \<open>r\<close>, or one TCP proxy to given clusters.
  The other settings of the filter do not matter to routing.
\<close>

definition http_chain :: "'a AnyCodec \<Rightarrow> RouteSpecifier option \<Rightarrow> 'a FilterChain \<Rightarrow> bool" where
  "http_chain pb r chain \<longleftrightarrow>
     (\<exists>h. chain_view pb chain = [(wk_HTTPConnectionManager, Some (HttpConnectionManagerMessage h))] \<and>
        hcm_RouteSpecifier h = r) \<and> fc_TransportSocket chain = None"

definition tcp_chain :: "'a AnyCodec \<Rightarrow> ClusterSpecifier \<Rightarrow> 'a FilterChain \<Rightarrow> bool" where
  "tcp_chain pb cs chain \<longleftrightarrow>
     (\<exists>t. chain_view pb chain = [(wk_TCPProxy, Some (TcpProxyMessage t))] \<and> tcp_ClusterSpecifier t = cs) \<and>
     fc_TransportSocket chain = None"

lemma hcm_update_route [simp]:
  "hcm_RouteSpecifier (hcm_with_route r h) = Some r"
  "hcm_RouteSpecifier (hcm_with_tracing s h) = hcm_RouteSpecifier h"
  "hcm_RouteSpecifier (hcm_add_log l h) = hcm_RouteSpecifier h"
  "hcm_RouteSpecifier (hcm_first_filter f h) = hcm_RouteSpecifier h"
  by (cases h; simp)+

lemma tcp_add_log_specifier [simp]: "tcp_ClusterSpecifier (tcp_add_log l t) = tcp_ClusterSpecifier t"
  by (cases t) simp

lemma http_chain_update:
  assumes "any_roundtrip pb" and "http_chain pb r chain"
    and "UpdateHTTPConnectionManager pb (\<lambda>hcm. Inr (g hcm)) chain = Inr chain'"
    and "\<And>h. hcm_RouteSpecifier h = r \<Longrightarrow> hcm_RouteSpecifier (g h) = r'"
  shows "http_chain pb r' chain'"
  using assms UpdateHTTPConnectionManager_single [OF assms(1) _ assms(3)] unfolding http_chain_def by metis

lemma tcp_chain_update:
  assumes "any_roundtrip pb" and "tcp_chain pb cs chain"
    and "UpdateTCPProxy pb (\<lambda>tcp. Inr (g tcp)) chain = Inr chain'"
    and "\<And>t. tcp_ClusterSpecifier (g t) = tcp_ClusterSpecifier t"
  shows "tcp_chain pb cs chain'"
  using assms UpdateTCPProxy_single [OF assms(1) _ assms(3)] unfolding tcp_chain_def by metis

lemma HttpConnectionManager_chain:
  "any_roundtrip pb \<Longrightarrow>
   HttpConnectionManager_Configure pb s \<lparr>fc_Filters = [], fc_TransportSocket = None\<rparr> = Inr chain \<Longrightarrow>
   http_chain pb None chain"
  by (auto simp: HttpConnectionManager_Configure_def bindE_Inr http_chain_def) (simp add: chain_view_def)

lemma PrometheusEndpoint_chain:
  "any_roundtrip pb \<Longrightarrow>
   PrometheusEndpoint_Configure pb s path c \<lparr>fc_Filters = [], fc_TransportSocket = None\<rparr> = Inr chain \<Longrightarrow>
   http_chain pb (Some (RouteConfig (prometheus_route path c))) chain"
  by (auto simp: PrometheusEndpoint_Configure_def bindE_Inr http_chain_def) (simp add: chain_view_def)

lemma TcpProxy_chain:
  "any_roundtrip pb \<Longrightarrow>
   TcpProxy_Configure pb s clusters \<lparr>fc_Filters = [], fc_TransportSocket = None\<rparr> = Inr chain \<Longrightarrow>
   tcp_chain pb (routeAction clusters) chain"
  by (auto simp: TcpProxy_Configure_def bindE_Inr tcp_chain_def tcpProxy_def routeAction_def) (simp_all add: chain_view_def)

lemma http_chain_configure:
  assumes "any_roundtrip pb" and "http_chain pb r chain"
  shows "FaultInjection_Configure pb platform fi chain = Inr chain' \<Longrightarrow> http_chain pb r chain'"
    and "Tracing_Configure pb tb chain = Inr chain' \<Longrightarrow> http_chain pb r chain'"
    and "HttpAccessLog_Configure pb mesh src dst backend proxy chain = Inr chain' \<Longrightarrow> http_chain pb r chain'"
    and "HttpOutboundRoute_Configure pb name chain = Inr chain' \<Longrightarrow> http_chain pb (Some (Rds name)) chain'"
  using assms
  by (auto simp: FaultInjection_Configure_def Tracing_Configure_def HttpAccessLog_Configure_def
      HttpOutboundRoute_Configure_def bindE_Inr Let_def split: option.splits elim!: http_chain_update)

text \<open>The clusters a route configuration sends traffic to.\<close>

fun specifier_clusters :: "ClusterSpecifier \<Rightarrow> string set" where
  "specifier_clusters (ToCluster c) = {c}"
| "specifier_clusters (ToWeightedClusters cs) = fst ` set cs"

definition route_clusters :: "RouteConfiguration \<Rightarrow> string set" where
  "route_clusters rc = (\<Union>vh \<in> set (rc_VirtualHosts rc). \<Union>r \<in> set (vh_Routes vh). specifier_clusters (rt_Action r))"

lemma routeAction_clusters [simp]: "specifier_clusters (routeAction clusters) = ci_Name ` set clusters"
proof (cases "length clusters = 1")
  case True
  then obtain c where "clusters = [c]" by (auto simp: length_Suc_conv)
  then show ?thesis by (simp add: routeAction_def)
qed (auto simp: routeAction_def image_image)

lemmas route_builder_defs =
  RouteConfigurationBuilder_Build_def RouteConfigurationBuilder_Configure_def CommonRouteConfiguration_def
  CommonRouteConfiguration_Configure_def ResetTagsHeader_def ResetTagsHeader_Configure_def TagsHeader_def
  TagsHeader_Configure_def VirtualHostOpt_def VirtualHostConfigurer_Configure_def VirtualHostBuilder_Build_def
  VirtualHostBuilder_Configure_def CommonVirtualHost_def CommonVirtualHostConfigurer_Configure_def DefaultRoute_def
  DefaultRouteConfigurer_Configure_def

lemma inbound_route_chain:
  assumes "any_roundtrip pb" and "http_chain pb r chain"
    and "HttpInboundRoute_Configure pb service cluster chain = Inr chain'"
  shows "\<exists>rc. http_chain pb (Some (RouteConfig rc)) chain' \<and> route_clusters rc = {ci_Name cluster} \<and>
    rc_RequestHeadersToRemove rc = [TagsHeaderName]"
proof -
  obtain rc where build: "RouteConfigurationBuilder_Build
      (RouteConfigurationBuilder_Configure
         [CommonRouteConfiguration (GetInboundRouteName service), ResetTagsHeader,
          VirtualHostOpt (VirtualHostBuilder_Configure [CommonVirtualHost service, DefaultRoute [cluster]])]) = Inr rc"
    and u: "UpdateHTTPConnectionManager pb (\<lambda>hcm. Inr (hcm_with_route (RouteConfig rc) hcm)) chain = Inr chain'"
    using assms(3) by (auto simp: HttpInboundRoute_Configure_def bindE_Inr)
  have "route_clusters rc = {ci_Name cluster} \<and> rc_RequestHeadersToRemove rc = [TagsHeaderName]"
    using build by (auto simp: route_builder_defs route_clusters_def)
  then show ?thesis using http_chain_update [OF assms(1,2) u] by auto
qed

lemma network_log_chain:
  "any_roundtrip pb \<Longrightarrow> tcp_chain pb cs chain \<Longrightarrow>
   NetworkAccessLog_Configure pb mesh src dst backend proxy chain = Inr chain' \<Longrightarrow> tcp_chain pb cs chain'"
  by (auto simp: NetworkAccessLog_Configure_def bindE_Inr elim!: tcp_chain_update)

section \<open>Who may connect\<close>

text \<open>
  An RBAC filter with the action \<open>ALLOW\<close> lets a peer in when one of its policies has a permission
  that applies and a principal that matches the authenticated name of the peer.
\<close>

fun principal_matches :: "string \<Rightarrow> Principal \<Rightarrow> bool" where
  "principal_matches peer AnyPrincipal = True"
| "principal_matches peer (Authenticated name) = (peer = name)"

definition rbac_allows :: "RBAC \<Rightarrow> string \<Rightarrow> bool" where
  "rbac_allows rbac peer \<longleftrightarrow>
     (\<exists>policy \<in> snd ` set (rbac_Policies rbac).
        rp_AnyPermission policy \<and> (\<exists>p \<in> set (rp_Principals policy). principal_matches peer p))"

definition permitted :: "TrafficPermissionResource option \<Rightarrow> string \<Rightarrow> bool" where
  "permitted permission peer \<longleftrightarrow>
     (\<exists>p source. permission = Some p \<and> source \<in> set (tp_Sources (Spec p)) \<and>
        (gstr source ServiceTag = MatchAllTag \<or>
         peer = ''spiffe://'' @ res_mesh p @ ''/'' @ gstr source ServiceTag))"

lemma createRbacRule_allows: "rbac_allows (createRbacRule s permission) peer \<longleftrightarrow> permitted permission peer"
proof (cases permission)
  case (Some p)
  have "principal_matches peer (if c then AnyPrincipal else Authenticated n) \<longleftrightarrow> c \<or> peer = n" for c n by simp
  then show ?thesis
    using Some by (simp add: rbac_allows_def createRbacRule_def createPolicy_def permitted_def Let_def Bex_def
        del: if_image_distrib)
qed (simp add: rbac_allows_def createRbacRule_def permitted_def)

text \<open>A chain that authenticates its peers and admits those of a permission before any other filter.\<close>

definition requires_client_cert :: "'a AnyCodec \<Rightarrow> 'a FilterChain \<Rightarrow> bool" where
  "requires_client_cert pb chain \<longleftrightarrow>
     (\<exists>a tls. fc_TransportSocket chain = Some (TransportSocketMsg tls_socket_name a) \<and>
        pb_UnmarshalAny pb a = Inr (DownstreamTlsMessage tls) \<and> dtc_RequireClientCertificate tls)"

definition guarded_by :: "'a AnyCodec \<Rightarrow> TrafficPermissionResource option \<Rightarrow> 'a FilterChain \<Rightarrow> bool" where
  "guarded_by pb permission chain \<longleftrightarrow>
     requires_client_cert pb chain \<and>
     (\<exists>rbac rest. chain_view pb chain = (wk_RoleBasedAccessControl, Some (RBACMessage rbac)) # rest \<and>
        (\<forall>peer. rbac_allows rbac peer \<longleftrightarrow> permitted permission peer))"

lemma mtls_chain_off:
  "\<not> MTLSEnabled (Some (ctx_Mesh ctx)) \<Longrightarrow> ServerSideMTLS_Configure pb ctx md chain = Inr chain"
  by (simp add: ServerSideMTLS_Configure_def CreateDownstreamTlsContext_def)

lemma mtls_chain_on:
  assumes "any_roundtrip pb" and "MTLSEnabled (Some (ctx_Mesh ctx))" and "ServerSideMTLS_Configure pb ctx md chain = Inr chain'"
  shows "fc_Filters chain' = fc_Filters chain \<and> requires_client_cert pb chain'"
proof -
  obtain common a where a: "pb_MarshalAny pb (DownstreamTlsMessage (DownstreamTlsContextMsg common True)) = Inr a"
    and chain': "chain' = chain\<lparr>fc_TransportSocket := Some (TransportSocketMsg tls_socket_name a)\<rparr>"
    using assms(2,3) by (auto simp: ServerSideMTLS_Configure_def CreateDownstreamTlsContext_def bindE_Inr)
  show ?thesis using any_roundtripD [OF assms(1) a] by (simp add: chain' requires_client_cert_def)
qed

lemma rbac_chain:
  assumes "any_roundtrip pb" and "NetworkRBAC_Configure pb s permission chain = Inr chain'"
  shows "chain_view pb chain' =
      (wk_RoleBasedAccessControl, Some (RBACMessage (createRbacRule s permission))) # chain_view pb chain"
    and "fc_TransportSocket chain' = fc_TransportSocket chain"
  using assms by (auto simp: NetworkRBAC_Configure_def createRbacFilter_def bindE_Inr chain_view_def)

section \<open>Percentages and bandwidths\<close>

text \<open>The fraction of requests that a \<open>FractionalPercent\<close> stands for.\<close>

definition denominator :: "DenominatorType \<Rightarrow> rat" where
  "denominator d = (case d of HUNDRED \<Rightarrow> 100 | TEN_THOUSAND \<Rightarrow> 10000 | MILLION \<Rightarrow> 1000000)"

definition fraction :: "FractionalPercent \<Rightarrow> rat" where
  "fraction p = of_int (uint (fp_Numerator p)) / denominator (fp_Denominator p)"

lemma to_uint32_nonneg:
  assumes "0 \<le> i" and "i < 2 ^ 32"
  shows "uint (to_uint32 platform (Finite (of_int i))) = i"
  using assms by (simp add: to_uint32_def trunc_rat_def uint_word_of_int)

lemma integer_percentage:
  assumes "0 \<le> n" and "n \<le> 100"
  shows "fraction (ConvertPercentage platform (Some (Finite (of_int n)))) = of_int n / 100"
  using assms to_uint32_nonneg [of n platform]
  by (simp add: ConvertPercentage_def fraction_def denominator_def)

lemma fractional_percentage:
  assumes "0 \<le> r" and "r \<le> 100" and "r \<notin> \<int>" and "10000 * r = of_int k"
    and "round_double (10000 * r) = Finite (10000 * r)"
  shows "fraction (ConvertPercentage platform (Some (Finite r))) = r"
proof -
  have "of_int \<lfloor>r\<rfloor> \<noteq> r" using assms(3) by (metis Ints_of_int)
  moreover have "0 \<le> k" "k \<le> 1000000"
    using assms(1,2,4) by linarith+
  ultimately show ?thesis
    using assms(4,5) to_uint32_nonneg [of k platform]
    by (simp add: ConvertPercentage_def fraction_def denominator_def field_simps)
qed

text \<open>Whole numbers below \<open>2 ^ 53\<close> are exact.\<close>

lemma floor_log2_int:
  assumes "0 < k" and "k < 2 ^ 53"
  shows "floor_log2 (of_int k) \<le> 52"
proof -
  have "bitlen k \<le> 53" using assms by (simp add: bitlen_le_iff_power)
  moreover have "bitlen 1 = 1" by (simp add: bitlen_def floorlog_def)
  ultimately show ?thesis by (simp add: floor_log2_def quotient_of_int Let_def)
qed

lemma round_double_int:
  assumes "0 < k" and "k < 2 ^ 53"
  shows "round_double (of_int k) = Finite (of_int k)"
proof -
  let ?e = "max (floor_log2 (of_int k) - 52) (- 1074)"
  have e: "?e \<le> 0" using floor_log2_int [OF assms] by simp
  have "(of_int k :: rat) / pow2 ?e = of_int (k * 2 ^ nat (- ?e))" using e by (auto simp: pow2_def)
  moreover have "round_half_even (of_int i) = i" for i by (simp add: round_half_even_def Let_def)
  ultimately have "round_half_even (of_int k / pow2 ?e) = k * 2 ^ nat (- ?e)" by (simp only:)
  moreover have "of_int (k * 2 ^ nat (- ?e)) * pow2 ?e = (of_int k :: rat)" using e by (auto simp: pow2_def)
  moreover have "(of_int k :: rat) < 2 ^ 1024" "\<not> (of_int k :: rat) \<le> - (2 ^ 1024)"
  proof -
    have "k < 2 ^ 1024" using assms(2) by (rule order.strict_trans) (rule power_strict_increasing, simp_all)
    then have "(of_int k :: rat) < of_int (2 ^ 1024)" by (simp only: of_int_less_iff)
    then show "(of_int k :: rat) < 2 ^ 1024" by simp
    have "- ((2 :: rat) ^ 1024) < 0" by simp
    also have "(0 :: rat) < of_int k" using assms(1) by simp
    finally show "\<not> (of_int k :: rat) \<le> - (2 ^ 1024)" by (simp only: not_le)
  qed
  ultimately show ?thesis using assms(1) unfolding round_double_def Let_def by (simp only: abs_of_pos of_int_0_less_iff) simp
qed



lemma bandwidth_match_number:
  assumes "u \<in> {CHR ''k'', CHR ''m'', CHR ''g''}"
  shows "bandwidth_match (format_nat n @ u # ''bps'') = Some (format_nat n, u # ''bps'')"
proof -
  have digits: "\<forall>c \<in> set (format_nat n). is_digit c" using format_nat_digits by blast
  have u: "\<not> is_digit u" using assms by (auto simp: is_digit_def)
  have "takeWhile is_digit (format_nat n @ u # ''bps'') = format_nat n"
    and "dropWhile is_digit (format_nat n @ u # ''bps'') = u # ''bps''"
    using digits u by (simp_all add: takeWhile_append dropWhile_append)
  then have "bandwidth_match_here (format_nat n @ u # ''bps'') = Some (format_nat n, u # ''bps'')"
    using assms unfolding bandwidth_match_here_def Let_def by (elim insertE) simp_all
  then show ?thesis by (cases "format_nat n @ u # ''bps''") auto
qed

text \<open>
  A bandwidth limit that is a decimal number followed by a unit is converted to the number of
  kilobits per second it stands for, as long as both the number and the result are below \<open>2 ^ 63\<close>.
\<close>

theorem bandwidth_conversion:
  assumes "(u, factor) \<in> set [(CHR ''k'', 1), (CHR ''m'', 1000), (CHR ''g'', 1000000)]" and "factor * n < 2 ^ 63"
  shows "\<exists>kbps. ConvertBandwidthToKbps (format_nat n @ u # ''bps'') = Inr kbps \<and> unat kbps = factor * n"
proof -
  have "n \<le> factor * n" using assms(1) by auto
  then have "atoi (format_nat n) = Inr (int n)" using assms(2) by (intro atoi_format_nat) (rule order.strict_trans1)
  then have "ConvertBandwidthToKbps (format_nat n @ u # ''bps'') = Inr (word_of_int (int (factor * n)))"
    using assms(1) bandwidth_match_number [of u n] by (auto simp: ConvertBandwidthToKbps_def)
  moreover have "unat (word_of_int (int m) :: u64) = m" if "m < 2 ^ 63" for m
    using that by (simp add: unat_of_nat take_bit_nat_eq_self)
  ultimately show ?thesis using assms(2) by blast
qed

theorem bandwidth_conversion_witness:
  "\<exists>kbps. ConvertBandwidthToKbps (format_nat 50 @ CHR ''m'' # ''bps'') = Inr kbps \<and> unat kbps = 50000"
  using bandwidth_conversion [of "CHR ''m''" 1000 50] by simp


end
