(* ===== verification/Proxy_Generator.thy ===== *)
theory Proxy_Generator
  imports Envoy_Listeners
begin

text \<open>
  The generators of a proxy's configuration (\<open>pkg/xds/generator\<close>): from a \<open>Proxy\<close> to its clusters,
  load assignments, listeners and routes.  The properties say that every cluster and route a
  listener refers to is generated with it, that load assignments hold the matching endpoints, that
  inbound listeners admit the services their traffic permission names, and which protocol a service
  is given.
\<close>

section \<open>Protocols\<close>

definition protocolStacks :: "(string, string list) gomap" where
  "protocolStacks = [(ProtocolHTTP, [ProtocolHTTP, ProtocolTCP]), (ProtocolTCP, [ProtocolTCP])]"

text \<open>The nested loop that returns the first protocol of one stack that is in the other.\<close>

fun first_common :: "string list \<Rightarrow> string list \<Rightarrow> string" where
  "first_common [] another = ProtocolUnknown"
| "first_common (p # ps) another = (if p \<in> set another then p else first_common ps another)"

definition getCommonProtocol :: "string \<Rightarrow> string \<Rightarrow> string" where
  "getCommonProtocol one another =
     (if one = another then one
      else if one = ProtocolUnknown \<or> another = ProtocolUnknown then ProtocolUnknown
      else case map_of protocolStacks one of
             None \<Rightarrow> ProtocolUnknown
           | Some oneProtocolStack \<Rightarrow>
               (case map_of protocolStacks another of
                  None \<Rightarrow> ProtocolUnknown
                | Some anotherProtocolStack \<Rightarrow> first_common oneProtocolStack anotherProtocolStack))"

definition endpoint_protocol :: "Endpoint \<Rightarrow> string" where
  "endpoint_protocol endpoint = ParseProtocol (gstr (ep_Tags endpoint) ProtocolTag)"

definition InferServiceProtocol :: "Endpoint list \<Rightarrow> string" where
  "InferServiceProtocol endpoints =
     (case endpoints of
        [] \<Rightarrow> ProtocolUnknown
      | e # rest \<Rightarrow>
          fold (\<lambda>endpoint serviceProtocol. getCommonProtocol serviceProtocol (endpoint_protocol endpoint)) rest
            (endpoint_protocol e))"

section \<open>Resources\<close>

text \<open>
  The xDS resources.  A raw resource of a proxy template may be a secret or of some other type; its
  contents are opaque.
\<close>

datatype 'a EnvoyResource =
    ListenerResource "'a Listener"
  | RouteResource RouteConfiguration
  | ClusterResource "'a Cluster"
  | EndpointResource ClusterLoadAssignment
  | SecretResource string
  | OtherResource string

text \<open>
  What the generators use of libraries: packing of messages, the conversion of numbers that are not
  representable, \<open>proto.Merge\<close>, \<open>proto.MessageName\<close> and the reading of a resource from YAML.
\<close>

record 'a GeneratorLib =
  gl_Codec :: "'a AnyCodec"
  gl_Uint32 :: "float64 \<Rightarrow> u32"
  gl_Merge :: "Prometheus \<Rightarrow> Prometheus option \<Rightarrow> Prometheus"
  gl_MessageName :: "'a EnvoyResource \<Rightarrow> string"
  gl_ResourceFromYaml :: "string \<Rightarrow> go_error + 'a EnvoyResource"

type_synonym 'a resources = "'a EnvoyResource XdsResource list"
type_synonym 'a ResourceGenerator = "ControlPlaneContext Context \<Rightarrow> Proxy \<Rightarrow> go_error + 'a resources"

definition named_resource :: "string \<Rightarrow> 'a EnvoyResource \<Rightarrow> 'a EnvoyResource XdsResource" where
  "named_resource name r = \<lparr>xr_Name = name, xr_Version = '''', xr_Resource = r\<rparr>"

definition px_networking :: "Proxy \<Rightarrow> Networking option" where
  "px_networking proxy = dp_Networking (Spec (px_Dataplane proxy))"

definition px_transparent :: "Proxy \<Rightarrow> u32 option" where
  "px_transparent proxy = (case px_networking proxy of None \<Rightarrow> None | Some n \<Rightarrow> net_TransparentProxying n)"

definition px_log :: "Proxy \<Rightarrow> string \<Rightarrow> LoggingBackend option" where
  "px_log proxy service = (case map_of (px_Logs proxy) service of None \<Rightarrow> None | Some backend \<Rightarrow> backend)"

text \<open>The loop \<open>for i, x := range xs\<close> with a fallible body.\<close>

definition range_loop :: "(nat \<Rightarrow> 'x \<Rightarrow> 's \<Rightarrow> go_error + 's) \<Rightarrow> 'x list \<Rightarrow> 's \<Rightarrow> go_error + 's" where
  "range_loop body xs = foldE (\<lambda>(i, x). body i x) (zip [0 ..< length xs] xs)"

section \<open>Inbound\<close>

definition inbound_filter_chain ::
  "'a GeneratorLib \<Rightarrow> ControlPlaneContext Context \<Rightarrow> Proxy \<Rightarrow> InboundInterface \<Rightarrow> Inbound \<Rightarrow> 'a FilterChain Configurer list" where
  "inbound_filter_chain lib ctx proxy endpoint iface =
     (let pb = gl_Codec lib;
          localClusterName = GetLocalClusterName (ii_WorkloadPort endpoint);
          inboundListenerName = GetInboundListenerName (ii_DataplaneIP endpoint) (ii_DataplanePort endpoint);
          service = inbound_GetService (Some iface);
          protocol = ParseProtocol (inbound_GetProtocol (Some iface));
          localCluster = \<lparr>ci_Name = localClusterName, ci_Weight = 0, ci_Tags = []\<rparr>
      in FilterChainBuilder_Configure
           ((if protocol = ProtocolHTTP
             then [HttpConnectionManager pb localClusterName,
                   FaultInjectionOpt pb (gl_Uint32 lib) (map_of (px_FaultInjections proxy) endpoint),
                   TracingOpt pb (px_TracingBackend proxy),
                   HttpInboundRoute pb service localCluster]
             else [TcpProxy pb localClusterName [localCluster]]) @
            [ServerSideMTLS pb ctx (Some (px_Metadata proxy)),
             NetworkRBAC pb inboundListenerName (MTLSEnabled (Some (ctx_Mesh ctx)))
               (map_of (px_TrafficPermissions proxy) endpoint)]))"

definition inbound_listener ::
  "'a GeneratorLib \<Rightarrow> ControlPlaneContext Context \<Rightarrow> Proxy \<Rightarrow> InboundInterface \<Rightarrow> Inbound \<Rightarrow> go_error + 'a Listener" where
  "inbound_listener lib ctx proxy endpoint iface =
     ListenerBuilder_Build (ListenerBuilder_Configure
       [InboundListener (GetInboundListenerName (ii_DataplaneIP endpoint) (ii_DataplanePort endpoint))
          (ii_DataplaneIP endpoint) (ii_DataplanePort endpoint),
        FilterChainOpt (inbound_filter_chain lib ctx proxy endpoint iface),
        TransparentProxying (px_transparent proxy)])"

definition networking_path :: "string \<Rightarrow> nat \<Rightarrow> string" where
  "networking_path field i =
     path_String (path_Index i (path_Field field (path_Field ''networking'' (RootedAt ''dataplane''))))"

definition inbound_step ::
  "'a GeneratorLib \<Rightarrow> ControlPlaneContext Context \<Rightarrow> Proxy \<Rightarrow> Networking \<Rightarrow> nat \<Rightarrow> InboundInterface \<Rightarrow>
   'a EnvoyResource ResourceSet \<Rightarrow> go_error + 'a EnvoyResource ResourceSet" where
  "inbound_step lib ctx proxy networking i endpoint resources =
     (let localClusterName = GetLocalClusterName (ii_WorkloadPort endpoint);
          resources = rs_Add (gl_MessageName lib)
            [named_resource localClusterName
               (ClusterResource (CreateLocalCluster localClusterName ''127.0.0.1'' (ii_WorkloadPort endpoint)))] resources;
          iface = net_Inbound networking ! i;
          inboundListenerName = GetInboundListenerName (ii_DataplaneIP endpoint) (ii_DataplanePort endpoint)
      in bindE (wrap_err (inbound_listener lib ctx proxy endpoint iface)
                  (networking_path ''inbound'' i @ '': could not generate listener '' @ inboundListenerName))
           (\<lambda>inboundListener.
              Inr (rs_Add (gl_MessageName lib)
                     [named_resource inboundListenerName (ListenerResource inboundListener)] resources)))"

definition InboundProxyGenerator :: "'a GeneratorLib \<Rightarrow> 'a ResourceGenerator" where
  "InboundProxyGenerator lib ctx proxy =
     bindE (GetInboundInterfaces (px_networking proxy)) (\<lambda>endpoints.
     case px_networking proxy of
       None \<Rightarrow> Inr []
     | Some networking \<Rightarrow>
         if length endpoints = 0 then Inr []
         else bindE (range_loop (inbound_step lib ctx proxy networking) endpoints empty_ResourceSet) (\<lambda>resources.
              Inr (rs_List resources)))"

section \<open>Outbound\<close>

text \<open>\<open>fmt\<close> prints a map in the order of its keys.\<close>

definition fmt_tags :: "tags \<Rightarrow> string" where
  "fmt_tags t = ''map['' @ strings_join '' '' (map (\<lambda>k. k @ '':'' @ gstr t k) (single_Keys t)) @ '']''"

definition route_destination_step ::
  "TrafficRouteResource \<Rightarrow> nat \<Rightarrow> WeightedDestination \<Rightarrow> ClusterInfo list \<Rightarrow> go_error + ClusterInfo list" where
  "route_destination_step route j destination clusters =
     (case map_of (wd_Destination destination) ServiceTag of
        None \<Rightarrow> Inl (ErrString (''trafficroute{name='' @ quote (res_name route) @ ''}.'' @
                  path_String (path_Field ''destination'' (path_Index j (RootedAt ''conf''))) @
                  '': mandatory tag '' @ quote ServiceTag @ '' is missing: '' @ fmt_tags (wd_Destination destination)))
      | Some service \<Rightarrow>
          if wd_Weight destination = 0 then Inr clusters
          else Inr (clusters @
                 [\<lparr>ci_Name = GetDestinationClusterName service (wd_Destination destination),
                   ci_Weight = wd_Weight destination, ci_Tags = wd_Destination destination\<rparr>]))"

definition determineClusters :: "TrafficRouteResource \<Rightarrow> go_error + ClusterInfo list" where
  "determineClusters route = range_loop (route_destination_step route) (tr_Conf (Spec route)) []"

definition cluster_endpoints :: "Proxy \<Rightarrow> ClusterInfo \<Rightarrow> Endpoint list" where
  "cluster_endpoints proxy cluster =
     EndpointList_Filter (glist (px_OutboundTargets proxy) (gstr (ci_Tags cluster) ServiceTag)) (ci_Tags cluster)"

definition eds_step ::
  "'a GeneratorLib \<Rightarrow> ControlPlaneContext Context \<Rightarrow> Proxy \<Rightarrow> ClusterInfo \<Rightarrow>
   'a resources \<times> Endpoint list \<Rightarrow> go_error + 'a resources \<times> Endpoint list" where
  "eds_step lib ctx proxy cluster = (\<lambda>(resources, allEndpoints).
     (let serviceName = gstr (ci_Tags cluster) ServiceTag;
          healthCheck = map_of (px_HealthChecks proxy) serviceName
      in bindE (CreateEdsCluster (gl_Codec lib) ctx (ci_Name cluster) (Some (px_Metadata proxy))) (\<lambda>edsCluster.
         let endpoints = cluster_endpoints proxy cluster in
         Inr (resources @
                [named_resource (ci_Name cluster) (ClusterResource (ClusterWithHealthChecks edsCluster healthCheck)),
                 named_resource (ci_Name cluster) (EndpointResource (CreateClusterLoadAssignment (ci_Name cluster) endpoints))],
              allEndpoints @ endpoints))))"

definition generateEds ::
  "'a GeneratorLib \<Rightarrow> ControlPlaneContext Context \<Rightarrow> Proxy \<Rightarrow> ClusterInfo list \<Rightarrow>
   go_error + 'a resources \<times> Endpoint list" where
  "generateEds lib ctx proxy clusters = foldE (eds_step lib ctx proxy) clusters ([], [])"

definition generateRds ::
  "'a GeneratorLib \<Rightarrow> string \<Rightarrow> string \<Rightarrow> string \<Rightarrow> ClusterInfo list \<Rightarrow> MultiValueTagSet \<Rightarrow> go_error + 'a resources" where
  "generateRds lib protocol service outboundRouteName clusters tags =
     (if protocol = ProtocolHTTP
      then bindE (RouteConfigurationBuilder_Build
                    (RouteConfigurationBuilder_Configure
                       [CommonRouteConfiguration outboundRouteName,
                        TagsHeader tags,
                        VirtualHostOpt (VirtualHostBuilder_Configure [CommonVirtualHost service, DefaultRoute clusters])]))
             (\<lambda>routeConfiguration.
                Inr (rs_List (rs_Add (gl_MessageName lib)
                       [named_resource outboundRouteName (RouteResource routeConfiguration)] empty_ResourceSet)))
      else Inr (rs_List empty_ResourceSet))"

definition outbound_filter_chain ::
  "'a GeneratorLib \<Rightarrow> ControlPlaneContext Context \<Rightarrow> Proxy \<Rightarrow> string \<Rightarrow> string \<Rightarrow> ClusterInfo list \<Rightarrow>
   'a FilterChain Configurer list" where
  "outbound_filter_chain lib ctx proxy service protocol clusters =
     (let pb = gl_Codec lib;
          meshName = res_name (ctx_Mesh ctx);
          sourceService = GetIdentifyingService (Spec (px_Dataplane proxy))
      in FilterChainBuilder_Configure
           (if protocol = ProtocolHTTP
            then [HttpConnectionManager pb service,
                  TracingOpt pb (px_TracingBackend proxy),
                  HttpAccessLog pb meshName sourceService service (px_log proxy service) proxy,
                  HttpOutboundRoute pb (GetOutboundRouteName service)]
            else [TcpProxy pb service clusters,
                  NetworkAccessLog pb meshName sourceService service (px_log proxy service) proxy]))"

definition outbound_listener ::
  "'a GeneratorLib \<Rightarrow> ControlPlaneContext Context \<Rightarrow> Proxy \<Rightarrow> OutboundInterface \<Rightarrow> string \<Rightarrow> string \<Rightarrow> ClusterInfo list \<Rightarrow>
   go_error + 'a Listener" where
  "outbound_listener lib ctx proxy oface service protocol clusters =
     ListenerBuilder_Build (ListenerBuilder_Configure
       [OutboundListener (GetOutboundListenerName (oi_DataplaneIP oface) (oi_DataplanePort oface))
          (oi_DataplaneIP oface) (oi_DataplanePort oface),
        FilterChainOpt (outbound_filter_chain lib ctx proxy service protocol clusters),
        TransparentProxying (px_transparent proxy)])"

definition outbound_step ::
  "'a GeneratorLib \<Rightarrow> ControlPlaneContext Context \<Rightarrow> Proxy \<Rightarrow> OutboundInterface list \<Rightarrow> nat \<Rightarrow> Outbound \<Rightarrow>
   'a EnvoyResource ResourceSet \<Rightarrow> go_error + 'a EnvoyResource ResourceSet" where
  "outbound_step lib ctx proxy ofaces i outbound resources =
     (case map_of (px_TrafficRoutes proxy) (out_Service outbound) of
        None \<Rightarrow> Inl (ErrString (networking_path ''outbound'' i @ ''{service='' @ quote (out_Service outbound) @
                  ''}: has no TrafficRoute''))
      | Some route \<Rightarrow>
          bindE (determineClusters route) (\<lambda>clusters.
          bindE (generateEds lib ctx proxy clusters) (\<lambda>(edsResources, endpoints).
          let resources = rs_Add (gl_MessageName lib) edsResources resources;
              protocol = InferServiceProtocol endpoints;
              oface = ofaces ! i;
              outboundListenerName = GetOutboundListenerName (oi_DataplaneIP oface) (oi_DataplanePort oface)
          in bindE (wrap_err (outbound_listener lib ctx proxy oface (out_Service outbound) protocol clusters)
                      (networking_path ''outbound'' i @ '': could not generate listener '' @ outboundListenerName))
               (\<lambda>listener.
                  let resources = rs_Add (gl_MessageName lib)
                        [named_resource outboundListenerName (ListenerResource listener)] resources
                  in bindE (generateRds lib protocol (out_Service outbound) (GetOutboundRouteName (out_Service outbound))
                              clusters (dataplane_Tags (Spec (px_Dataplane proxy))))
                       (\<lambda>rdsResources. Inr (rs_Add (gl_MessageName lib) rdsResources resources))))))"

definition OutboundProxyGenerator :: "'a GeneratorLib \<Rightarrow> 'a ResourceGenerator" where
  "OutboundProxyGenerator lib ctx proxy =
     (let outbounds = dp_GetOutbound (Spec (px_Dataplane proxy)) in
      if length outbounds = 0 then Inr []
      else bindE (GetOutboundInterfaces (px_networking proxy)) (\<lambda>ofaces.
           bindE (range_loop (outbound_step lib ctx proxy ofaces) outbounds empty_ResourceSet) (\<lambda>resources.
           Inr (rs_List resources))))"

section \<open>Transparent proxying, Prometheus\<close>

definition TransparentProxyGenerator :: "'a GeneratorLib \<Rightarrow> 'a ResourceGenerator" where
  "TransparentProxyGenerator lib ctx proxy =
     (let redirectPort = (case px_transparent proxy of None \<Rightarrow> 0 | Some p \<Rightarrow> p) in
      if redirectPort = 0 then Inr []
      else (let pb = gl_Codec lib;
                sourceService = GetIdentifyingService (Spec (px_Dataplane proxy));
                meshName = res_name (ctx_Mesh ctx);
                version = (case Meta (px_Dataplane proxy) of None \<Rightarrow> '''' | Some m \<Rightarrow> meta_GetVersion m)
            in bindE (wrap_err (ListenerBuilder_Build (ListenerBuilder_Configure
                   [OutboundListener ''catch_all'' ''0.0.0.0'' redirectPort,
                    FilterChainOpt (FilterChainBuilder_Configure
                      [TcpProxy pb ''pass_through'' [\<lparr>ci_Name = ''pass_through'', ci_Weight = 0, ci_Tags = []\<rparr>],
                       NetworkAccessLog pb meshName sourceService ''external'' (px_log proxy PassThroughService) proxy]),
                    OriginalDstForwarder])) ''could not generate listener catch_all'')
                 (\<lambda>listener.
                    Inr [\<lparr>xr_Name = ''catch_all'', xr_Version = version, xr_Resource = ListenerResource listener\<rparr>,
                         \<lparr>xr_Name = ''pass_through'', xr_Version = version,
                          xr_Resource = ClusterResource (CreatePassThroughCluster ''pass_through'')\<rparr>])))"

definition PrometheusEndpointGenerator :: "'a GeneratorLib \<Rightarrow> 'a ResourceGenerator" where
  "PrometheusEndpointGenerator lib ctx proxy =
     (case GetPrometheusEndpoint (gl_Merge lib) (Some (px_Dataplane proxy)) (Some (ctx_Mesh ctx)) of
        None \<Rightarrow> Inr []
      | Some prometheusEndpoint \<Rightarrow>
          (let adminPort = GetAdminPort (Some (px_Metadata proxy)) in
           if adminPort = 0 then Inr []
           else if UsesInterface (Some (px_Dataplane proxy)) (ipv4 0 0 0 0) (prom_Port prometheusEndpoint) then Inr []
           else bindE (ListenerBuilder_Build (ListenerBuilder_Configure
                  [InboundListener GetPrometheusListenerName ''0.0.0.0'' (prom_Port prometheusEndpoint),
                   FilterChainOpt (FilterChainBuilder_Configure
                     [PrometheusEndpoint (gl_Codec lib) GetPrometheusListenerName (prom_Path prometheusEndpoint)
                        GetEnvoyAdminClusterName]),
                   TransparentProxying (px_transparent proxy)]))
                (\<lambda>listener.
                   Inr [named_resource GetEnvoyAdminClusterName
                          (ClusterResource (CreateLocalCluster GetEnvoyAdminClusterName ''127.0.0.1'' adminPort)),
                        named_resource GetPrometheusListenerName (ListenerResource listener)])))"

section \<open>Profiles and templates\<close>

definition CompositeResourceGenerator :: "'a ResourceGenerator list \<Rightarrow> 'a ResourceGenerator" where
  "CompositeResourceGenerator c ctx proxy =
     foldE (\<lambda>gen resources. bindE (gen ctx proxy) (\<lambda>rs. Inr (resources @ rs))) c []"

definition NewDefaultProxyProfile :: "'a GeneratorLib \<Rightarrow> 'a ResourceGenerator" where
  "NewDefaultProxyProfile lib =
     CompositeResourceGenerator
       [PrometheusEndpointGenerator lib, TransparentProxyGenerator lib, InboundProxyGenerator lib,
        OutboundProxyGenerator lib]"

definition predefinedProfiles :: "'a GeneratorLib \<Rightarrow> (string, 'a ResourceGenerator) gomap" where
  "predefinedProfiles lib = [(ProfileDefaultProxy, NewDefaultProxyProfile lib)]"

definition ProxyTemplateProfileSource :: "'a GeneratorLib \<Rightarrow> string \<Rightarrow> 'a ResourceGenerator" where
  "ProxyTemplateProfileSource lib profileName ctx proxy =
     (case map_of (predefinedProfiles lib) profileName of
        None \<Rightarrow> Inl (ErrString (''profile{name='' @ quote profileName @ ''}: unknown profile''))
      | Some g \<Rightarrow> g ctx proxy)"

definition raw_step ::
  "'a GeneratorLib \<Rightarrow> nat \<Rightarrow> ProxyTemplateRawResource \<Rightarrow> 'a resources \<Rightarrow> go_error + 'a resources" where
  "raw_step lib i r resources =
     bindE (map_error (\<lambda>err. ErrString (''raw.resources['' @ format_nat i @ '']{name='' @ quote (raw_Name r) @
              ''}.resource: '' @ error_text err)) (gl_ResourceFromYaml lib (raw_Resource r)))
       (\<lambda>res. Inr (resources @ [\<lparr>xr_Name = raw_Name r, xr_Version = raw_Version r, xr_Resource = res\<rparr>]))"

definition ProxyTemplateRawSource :: "'a GeneratorLib \<Rightarrow> ProxyTemplateRawResource list \<Rightarrow> 'a ResourceGenerator" where
  "ProxyTemplateRawSource lib rs ctx proxy = range_loop (raw_step lib) rs []"

definition import_step ::
  "'a GeneratorLib \<Rightarrow> ControlPlaneContext Context \<Rightarrow> Proxy \<Rightarrow> nat \<Rightarrow> string \<Rightarrow> 'a resources \<Rightarrow> go_error + 'a resources" where
  "import_step lib ctx proxy i name resources =
     bindE (map_error (\<lambda>err. ErrString (''imports['' @ format_nat i @ '']{name='' @ quote name @ ''}: '' @ error_text err))
              (ProxyTemplateProfileSource lib name ctx proxy))
       (\<lambda>rs. Inr (resources @ rs))"

definition TemplateProxyGenerator :: "'a GeneratorLib \<Rightarrow> ProxyTemplate option \<Rightarrow> 'a ResourceGenerator" where
  "TemplateProxyGenerator lib template ctx proxy =
     (let conf = (case template of None \<Rightarrow> None | Some t \<Rightarrow> pt_Conf t);
          imports_of = (case conf of None \<Rightarrow> [] | Some c \<Rightarrow> ptc_Imports c);
          raw = (case conf of None \<Rightarrow> [] | Some c \<Rightarrow> ptc_Resources c)
      in bindE (range_loop (import_step lib ctx proxy) imports_of []) (\<lambda>resources.
         bindE (map_error (\<lambda>err. ErrString (''resources: '' @ error_text err)) (ProxyTemplateRawSource lib raw ctx proxy))
           (\<lambda>rs. Inr (resources @ rs))))"

section \<open>Lemmas on protocols\<close>

lemma endpoint_protocol_cases:
  "endpoint_protocol e = ProtocolHTTP \<or> endpoint_protocol e = ProtocolTCP \<or> endpoint_protocol e = ProtocolUnknown"
  by (simp add: endpoint_protocol_def ParseProtocol_def Let_def)

lemma protocols_distinct [simp]:
  "ProtocolHTTP \<noteq> ProtocolTCP" "ProtocolTCP \<noteq> ProtocolHTTP" "ProtocolHTTP \<noteq> ProtocolUnknown"
  "ProtocolUnknown \<noteq> ProtocolHTTP" "ProtocolTCP \<noteq> ProtocolUnknown" "ProtocolUnknown \<noteq> ProtocolTCP"
  by (simp_all add: protocol_constants)

lemma getCommonProtocol_table [simp]:
  "getCommonProtocol p p = p"
  "getCommonProtocol ProtocolHTTP ProtocolTCP = ProtocolTCP"
  "getCommonProtocol ProtocolTCP ProtocolHTTP = ProtocolTCP"
  "getCommonProtocol ProtocolUnknown p = ProtocolUnknown"
  "getCommonProtocol p ProtocolUnknown = ProtocolUnknown"
  by (auto simp: getCommonProtocol_def protocolStacks_def)

definition weakest_protocol :: "string set \<Rightarrow> string" where
  "weakest_protocol ps =
     (if ProtocolUnknown \<in> ps then ProtocolUnknown else if ProtocolTCP \<in> ps then ProtocolTCP else ProtocolHTTP)"

lemma infer_fold:
  assumes "p \<in> {ProtocolHTTP, ProtocolTCP, ProtocolUnknown}"
  shows "fold (\<lambda>e p. getCommonProtocol p (endpoint_protocol e)) es p = weakest_protocol (insert p (endpoint_protocol ` set es))"
  using assms
proof (induction es arbitrary: p)
  case (Cons e es)
  have "getCommonProtocol p (endpoint_protocol e) = weakest_protocol {p, endpoint_protocol e}"
    using Cons.prems endpoint_protocol_cases [of e] by (auto simp: weakest_protocol_def)
  moreover have "weakest_protocol {p, endpoint_protocol e} \<in> {ProtocolHTTP, ProtocolTCP, ProtocolUnknown}"
    by (simp add: weakest_protocol_def)
  moreover have "weakest_protocol (insert (weakest_protocol {p, endpoint_protocol e}) S) = weakest_protocol (insert p (insert (endpoint_protocol e) S))" for S
    using Cons.prems endpoint_protocol_cases [of e] by (auto simp: weakest_protocol_def)
  ultimately show ?case using Cons.IH by simp
qed (auto simp: weakest_protocol_def)

text \<open>
  The protocol of a group of endpoints does not depend on their order: it is unknown when the
  group is empty or the protocol of some endpoint is unknown, otherwise TCP when some endpoint is
  TCP, otherwise HTTP.
\<close>

theorem service_protocol_is_weakest:
  "InferServiceProtocol endpoints =
     (if endpoints = [] \<or> ProtocolUnknown \<in> endpoint_protocol ` set endpoints then ProtocolUnknown
      else if ProtocolTCP \<in> endpoint_protocol ` set endpoints then ProtocolTCP
      else ProtocolHTTP)"
proof (cases endpoints)
  case (Cons e es)
  have "endpoint_protocol e \<in> {ProtocolHTTP, ProtocolTCP, ProtocolUnknown}" using endpoint_protocol_cases [of e] by auto
  then show ?thesis by (simp add: Cons InferServiceProtocol_def infer_fold weakest_protocol_def)
qed (simp add: InferServiceProtocol_def)

section \<open>Lemmas on loops and resource sets\<close>

lemma foldE_append: "foldE f (xs @ ys) s = bindE (foldE f xs s) (foldE f ys)"
  by (induction xs arbitrary: s) (auto simp: bindE_def split: sum.splits)

lemma foldE_invariant:
  assumes "foldE f xs s = Inr s'" and "P s" and "\<And>x t t'. x \<in> set xs \<Longrightarrow> P t \<Longrightarrow> f x t = Inr t' \<Longrightarrow> P t'"
  shows "P s'"
  using assms by (induction xs arbitrary: s) (auto simp: bindE_Inr)

lemma range_loop_invariant:
  assumes "range_loop body xs s = Inr s'" and "P s"
    and "\<And>i t t'. i < length xs \<Longrightarrow> P t \<Longrightarrow> body i (xs ! i) t = Inr t' \<Longrightarrow> P t'"
  shows "P s'"
  using assms(1) unfolding range_loop_def
proof (rule foldE_invariant [where P = P])
  show "P s" by fact
  fix x t t' assume x: "x \<in> set (zip [0 ..< length xs] xs)" and t: "P t" "(\<lambda>(i, x). body i x) x t = Inr t'"
  from x obtain i where "i < length xs" "x = (i, xs ! i)" by (auto simp: set_zip)
  then show "P t'" using assms(3) t by auto
qed

lemma image_key_diff: "f ` {x \<in> S. f x \<noteq> k} = f ` S - {k}" "f ` {x \<in> S. f x \<notin> T} = f ` S - T"
  by auto

lemma first_by_keys: "key ` set (first_by key xs) = key ` set xs" "set (first_by key xs) \<subseteq> set xs"
  by (induction xs) (auto simp: image_key_diff)

lemma rs_Add_append: "rs_Add mn ys (rs_Add mn xs s) = rs_Add mn (xs @ ys) s"
  by (induction mn xs s rule: rs_Add.induct) auto

lemma rs_Add_sets:
  assumes "rs_ok mn s"
  shows "rs_ok mn (rs_Add mn xs s)"
    and "set (rs_resources s) \<subseteq> set (rs_resources (rs_Add mn xs s))"
    and "set (rs_resources (rs_Add mn xs s)) \<subseteq> set (rs_resources s) \<union> set xs"
    and "xr_key mn ` set (rs_resources (rs_Add mn xs s)) = xr_key mn ` set (rs_resources s) \<union> xr_key mn ` set xs"
proof -
  let ?new = "filter (\<lambda>y. xr_key mn y \<notin> xr_key mn ` set (rs_resources s)) (first_by (xr_key mn) xs)"
  have res: "rs_resources (rs_Add mn xs s) = rs_resources s @ ?new" and ok: "rs_ok mn (rs_Add mn xs s)"
    using rs_Add_first [OF assms] by blast+
  show "rs_ok mn (rs_Add mn xs s)" by (rule ok)
  show "set (rs_resources s) \<subseteq> set (rs_resources (rs_Add mn xs s))" by (simp add: res)
  show "set (rs_resources (rs_Add mn xs s)) \<subseteq> set (rs_resources s) \<union> set xs"
    using first_by_keys(2) [of "xr_key mn" xs] by (auto simp: res)
  have "xr_key mn ` set xs = xr_key mn ` set (first_by (xr_key mn) xs)" by (rule first_by_keys(1) [symmetric])
  then show "xr_key mn ` set (rs_resources (rs_Add mn xs s)) = xr_key mn ` set (rs_resources s) \<union> xr_key mn ` set xs"
    by (simp add: res image_Un image_key_diff)
qed

section \<open>References between resources\<close>

datatype XdsKind = LdsKind | RdsKind | CdsKind | EdsKind | SdsKind | OtherKind

fun kind_of :: "'a EnvoyResource \<Rightarrow> XdsKind" where
  "kind_of (ListenerResource _) = LdsKind"
| "kind_of (RouteResource _) = RdsKind"
| "kind_of (ClusterResource _) = CdsKind"
| "kind_of (EndpointResource _) = EdsKind"
| "kind_of (SecretResource _) = SdsKind"
| "kind_of (OtherResource _) = OtherKind"

text \<open>\<open>proto.MessageName\<close> tells messages of different types apart.\<close>

definition kinds_named :: "'a GeneratorLib \<Rightarrow> bool" where
  "kinds_named lib = (\<forall>r r'. gl_MessageName lib r = gl_MessageName lib r' \<longrightarrow> kind_of r = kind_of r')"

text \<open>What a packed filter refers to: clusters, and route configurations by name.\<close>

fun message_refs :: "'a EnvoyMessage \<Rightarrow> (XdsKind \<times> string) set" where
  "message_refs (TcpProxyMessage t) = Pair CdsKind ` specifier_clusters (tcp_ClusterSpecifier t)"
| "message_refs (HttpConnectionManagerMessage h) =
     (case hcm_RouteSpecifier h of
        None \<Rightarrow> {}
      | Some (RouteConfig rc) \<Rightarrow> Pair CdsKind ` route_clusters rc
      | Some (Rds name) \<Rightarrow> {(RdsKind, name)})"
| "message_refs _ = {}"

definition chain_refs :: "'a AnyCodec \<Rightarrow> 'a FilterChain \<Rightarrow> (XdsKind \<times> string) set" where
  "chain_refs pb chain = (\<Union>(n, m) \<in> set (chain_view pb chain). case m of None \<Rightarrow> {} | Some m \<Rightarrow> message_refs m)"

definition chain_readable :: "'a AnyCodec \<Rightarrow> 'a FilterChain \<Rightarrow> bool" where
  "chain_readable pb chain = (chain_view pb chain \<noteq> [] \<and> None \<notin> snd ` set (chain_view pb chain))"

fun resource_refs :: "'a AnyCodec \<Rightarrow> 'a EnvoyResource \<Rightarrow> (XdsKind \<times> string) set" where
  "resource_refs pb (ListenerResource l) = (\<Union>chain \<in> set (ls_FilterChains l). chain_refs pb chain)"
| "resource_refs pb (RouteResource rc) = Pair CdsKind ` route_clusters rc"
| "resource_refs pb (ClusterResource c) = (if cl_Type c = EDS then {(EdsKind, cl_Name c)} else {})"
| "resource_refs pb _ = {}"

text \<open>
  A generated resource is a listener, a route configuration, a cluster or a load assignment, and
  carries the name it is listed under; a listener has one filter chain, all of whose filters can be
  unpacked.
\<close>

fun resource_ok :: "'a AnyCodec \<Rightarrow> string \<Rightarrow> 'a EnvoyResource \<Rightarrow> bool" where
  "resource_ok pb name (ListenerResource l) =
     (ls_Name l = name \<and> (\<exists>chain. ls_FilterChains l = [chain] \<and> chain_readable pb chain))"
| "resource_ok pb name (RouteResource rc) = (rc_Name rc = name)"
| "resource_ok pb name (ClusterResource c) = (cl_Name c = name)"
| "resource_ok pb name (EndpointResource cla) = (cla_ClusterName cla = name)"
| "resource_ok pb name _ = False"

definition provided :: "'a resources \<Rightarrow> (XdsKind \<times> string) set" where
  "provided rs = (\<lambda>r. (kind_of (xr_Resource r), xr_Name r)) ` set rs"

definition config_ok :: "'a AnyCodec \<Rightarrow> 'a resources \<Rightarrow> bool" where
  "config_ok pb rs \<longleftrightarrow>
     (\<forall>r \<in> set rs. resource_ok pb (xr_Name r) (xr_Resource r) \<and> resource_refs pb (xr_Resource r) \<subseteq> provided rs)"

lemma config_ok_Nil [simp]: "config_ok pb []"
  by (simp add: config_ok_def)

lemma provided_simps [simp]:
  "provided [] = {}"
  "provided (r # rs) = insert (kind_of (xr_Resource r), xr_Name r) (provided rs)"
  "provided (rs @ rs') = provided rs \<union> provided rs'"
  by (auto simp: provided_def)

lemma config_ok_append: "config_ok pb rs \<Longrightarrow> config_ok pb rs' \<Longrightarrow> config_ok pb (rs @ rs')"
  by (auto simp: config_ok_def)

lemma provided_keys:
  assumes "kinds_named lib" and "xr_key (gl_MessageName lib) ` set rs = xr_key (gl_MessageName lib) ` set rs'"
  shows "provided rs = provided rs'"
proof -
  let ?key = "xr_key (gl_MessageName lib)"
  have sub: "provided as \<subseteq> provided bs" if "?key ` set as \<subseteq> ?key ` set bs" for as bs :: "'a resources"
  proof
    fix p assume "p \<in> provided as"
    then obtain r where r: "r \<in> set as" "p = (kind_of (xr_Resource r), xr_Name r)" by (auto simp: provided_def)
    from r(1) that have "?key r \<in> ?key ` set bs" by blast
    then obtain r' where r': "r' \<in> set bs" "?key r = ?key r'" by (rule imageE) simp
    from r'(2) have name: "xr_Name r' = xr_Name r"
      and "gl_MessageName lib (xr_Resource r') = gl_MessageName lib (xr_Resource r)"
      by (simp_all add: xr_key_def)
    then have "kind_of (xr_Resource r') = kind_of (xr_Resource r)"
      using assms(1) unfolding kinds_named_def by blast
    with name show "p \<in> provided bs" using r(2) r'(1) by (metis (no_types, lifting) image_eqI provided_def)
  qed
  show ?thesis using sub assms(2) by (metis equalityI order_refl)
qed

lemma config_ok_add:
  assumes "kinds_named lib" and "rs_ok (gl_MessageName lib) s" and "config_ok pb (rs_resources s)"
    and "\<And>r. r \<in> set new \<Longrightarrow> resource_ok pb (xr_Name r) (xr_Resource r) \<and>
      resource_refs pb (xr_Resource r) \<subseteq> provided (rs_resources s) \<union> provided new"
  shows "config_ok pb (rs_resources (rs_Add (gl_MessageName lib) new s))"
proof -
  note add = rs_Add_sets [OF assms(2), of new]
  have "provided (rs_resources (rs_Add (gl_MessageName lib) new s)) = provided (rs_resources s @ new)"
    by (rule provided_keys [OF assms(1)]) (simp add: add(4) image_Un)
  then have prov: "provided (rs_resources (rs_Add (gl_MessageName lib) new s)) = provided (rs_resources s) \<union> provided new"
    by simp
  show ?thesis unfolding config_ok_def prov
  proof
    fix r assume "r \<in> set (rs_resources (rs_Add (gl_MessageName lib) new s))"
    then consider "r \<in> set (rs_resources s)" | "r \<in> set new" using add(3) by blast
    then show "resource_ok pb (xr_Name r) (xr_Resource r) \<and>
      resource_refs pb (xr_Resource r) \<subseteq> provided (rs_resources s) \<union> provided new"
    proof cases
      case 1
      then show ?thesis using assms(3) by (auto simp: config_ok_def)
    next
      case 2
      then show ?thesis by (rule assms(4))
    qed
  qed
qed

section \<open>The chains of listeners\<close>

lemma http_chain_facts:
  assumes "http_chain pb r chain"
  shows "chain_readable pb chain" and "fc_TransportSocket chain = None"
    and "chain_refs pb chain =
      (case r of None \<Rightarrow> {} | Some (RouteConfig rc) \<Rightarrow> Pair CdsKind ` route_clusters rc | Some (Rds name) \<Rightarrow> {(RdsKind, name)})"
  using assms by (auto simp: http_chain_def chain_readable_def chain_refs_def)

lemma tcp_chain_facts:
  assumes "tcp_chain pb cs chain"
  shows "chain_readable pb chain" and "fc_TransportSocket chain = None"
    and "chain_refs pb chain = Pair CdsKind ` specifier_clusters cs"
  using assms by (auto simp: tcp_chain_def chain_readable_def chain_refs_def)

lemmas chain_opts =
  FilterChainBuilder_Build_def FilterChainBuilder_Configure_def HttpConnectionManager_def FaultInjectionOpt_def
  TracingOpt_def HttpInboundRoute_def TcpProxy_def ServerSideMTLS_def NetworkRBAC_def HttpAccessLog_def
  HttpOutboundRoute_def NetworkAccessLog_def PrometheusEndpoint_def

lemma foldE_apply_append:
  "foldE (\<lambda>c m. c m) (cs @ [c]) s = Inr t \<longleftrightarrow> (\<exists>m. foldE (\<lambda>c m. c m) cs s = Inr m \<and> c m = Inr t)"
  by (simp add: foldE_append bindE_Inr)

lemma outbound_http_chain:
  assumes "any_roundtrip (gl_Codec lib)"
    and "FilterChainBuilder_Build (outbound_filter_chain lib ctx proxy service ProtocolHTTP clusters) = Inr chain"
  shows "http_chain (gl_Codec lib) (Some (Rds (GetOutboundRouteName service))) chain"
  using assms(2)
  by (auto simp: outbound_filter_chain_def chain_opts bindE_Inr Let_def split: option.splits
      dest!: HttpConnectionManager_chain [OF assms(1)] http_chain_configure(2-4) [OF assms(1), rotated])

lemma outbound_tcp_chain:
  assumes "any_roundtrip (gl_Codec lib)" and "protocol \<noteq> ProtocolHTTP"
    and "FilterChainBuilder_Build (outbound_filter_chain lib ctx proxy service protocol clusters) = Inr chain"
  shows "tcp_chain (gl_Codec lib) (routeAction clusters) chain"
  using assms(2,3)
  by (auto simp: outbound_filter_chain_def chain_opts bindE_Inr Let_def split: option.splits
      dest!: TcpProxy_chain [OF assms(1)] network_log_chain [OF assms(1), rotated])

text \<open>The part of an inbound chain that forwards to the application.\<close>

definition inbound_forwarding ::
  "'a GeneratorLib \<Rightarrow> Proxy \<Rightarrow> InboundInterface \<Rightarrow> Inbound \<Rightarrow> 'a FilterChain Configurer list" where
  "inbound_forwarding lib proxy endpoint iface =
     (let pb = gl_Codec lib;
          localClusterName = GetLocalClusterName (ii_WorkloadPort endpoint);
          localCluster = \<lparr>ci_Name = localClusterName, ci_Weight = 0, ci_Tags = []\<rparr>
      in if ParseProtocol (inbound_GetProtocol (Some iface)) = ProtocolHTTP
         then [HttpConnectionManager_Configure pb localClusterName,
               FaultInjection_Configure pb (gl_Uint32 lib) (map_of (px_FaultInjections proxy) endpoint),
               Tracing_Configure pb (px_TracingBackend proxy),
               HttpInboundRoute_Configure pb (inbound_GetService (Some iface)) localCluster]
         else [TcpProxy_Configure pb localClusterName [localCluster]])"

lemma inbound_filter_chain_split:
  "inbound_filter_chain lib ctx proxy endpoint iface =
     inbound_forwarding lib proxy endpoint iface @
     [ServerSideMTLS_Configure (gl_Codec lib) ctx (Some (px_Metadata proxy))] @
     (if MTLSEnabled (Some (ctx_Mesh ctx))
      then [NetworkRBAC_Configure (gl_Codec lib)
              (GetInboundListenerName (ii_DataplaneIP endpoint) (ii_DataplanePort endpoint))
              (map_of (px_TrafficPermissions proxy) endpoint)]
      else [])"
  by (simp add: inbound_filter_chain_def inbound_forwarding_def chain_opts Let_def)

lemma inbound_forwarding_chain:
  assumes rt: "any_roundtrip (gl_Codec lib)"
    and "FilterChainBuilder_Build (inbound_forwarding lib proxy endpoint iface) = Inr chain"
  shows "chain_readable (gl_Codec lib) chain \<and>
    chain_refs (gl_Codec lib) chain = {(CdsKind, GetLocalClusterName (ii_WorkloadPort endpoint))}"
proof (cases "ParseProtocol (inbound_GetProtocol (Some iface)) = ProtocolHTTP")
  case True
  obtain c1 c2 c3 where c:
    "HttpConnectionManager_Configure (gl_Codec lib) (GetLocalClusterName (ii_WorkloadPort endpoint))
       \<lparr>fc_Filters = [], fc_TransportSocket = None\<rparr> = Inr c1"
    "FaultInjection_Configure (gl_Codec lib) (gl_Uint32 lib) (map_of (px_FaultInjections proxy) endpoint) c1 = Inr c2"
    "Tracing_Configure (gl_Codec lib) (px_TracingBackend proxy) c2 = Inr c3"
    "HttpInboundRoute_Configure (gl_Codec lib) (inbound_GetService (Some iface))
       \<lparr>ci_Name = GetLocalClusterName (ii_WorkloadPort endpoint), ci_Weight = 0, ci_Tags = []\<rparr> c3 = Inr chain"
    using assms(2) True by (auto simp: FilterChainBuilder_Build_def inbound_forwarding_def Let_def bindE_Inr)
  have "http_chain (gl_Codec lib) None c3"
    using HttpConnectionManager_chain [OF rt c(1)] http_chain_configure(1) [OF rt _ c(2)]
      http_chain_configure(2) [OF rt _ c(3)] by blast
  from inbound_route_chain [OF rt this c(4)] obtain rc
    where "http_chain (gl_Codec lib) (Some (RouteConfig rc)) chain"
      and "route_clusters rc = {GetLocalClusterName (ii_WorkloadPort endpoint)}" by auto
  then show ?thesis using http_chain_facts(1,3) by fastforce
next
  case False
  then have "TcpProxy_Configure (gl_Codec lib) (GetLocalClusterName (ii_WorkloadPort endpoint))
      [\<lparr>ci_Name = GetLocalClusterName (ii_WorkloadPort endpoint), ci_Weight = 0, ci_Tags = []\<rparr>]
      \<lparr>fc_Filters = [], fc_TransportSocket = None\<rparr> = Inr chain"
    using assms(2) by (simp add: FilterChainBuilder_Build_def inbound_forwarding_def Let_def bindE_Inr)
  from tcp_chain_facts [OF TcpProxy_chain [OF rt this]] show ?thesis by simp
qed

lemma rbac_chain_refs:
  assumes "any_roundtrip pb" and "NetworkRBAC_Configure pb s permission chain = Inr chain'"
  shows "chain_refs pb chain' = chain_refs pb chain" and "chain_readable pb chain \<Longrightarrow> chain_readable pb chain'"
  using rbac_chain(1) [OF assms] by (simp_all add: chain_refs_def chain_readable_def)

lemma chain_view_filters: "fc_Filters chain' = fc_Filters chain \<Longrightarrow> chain_view pb chain' = chain_view pb chain"
  by (simp add: chain_view_def)

lemma inbound_chain:
  assumes rt: "any_roundtrip (gl_Codec lib)"
    and "FilterChainBuilder_Build (inbound_filter_chain lib ctx proxy endpoint iface) = Inr chain"
  shows "chain_readable (gl_Codec lib) chain"
    and "chain_refs (gl_Codec lib) chain = {(CdsKind, GetLocalClusterName (ii_WorkloadPort endpoint))}"
    and "MTLSEnabled (Some (ctx_Mesh ctx)) \<Longrightarrow>
      guarded_by (gl_Codec lib) (map_of (px_TrafficPermissions proxy) endpoint) chain"
proof -
  let ?pb = "gl_Codec lib" and ?mtls = "MTLSEnabled (Some (ctx_Mesh ctx))"
    and ?perm = "map_of (px_TrafficPermissions proxy) endpoint"
    and ?name = "GetInboundListenerName (ii_DataplaneIP endpoint) (ii_DataplanePort endpoint)"
  obtain c0 c1 where c0: "FilterChainBuilder_Build (inbound_forwarding lib proxy endpoint iface) = Inr c0"
    and c1: "ServerSideMTLS_Configure ?pb ctx (Some (px_Metadata proxy)) c0 = Inr c1"
    and last: "(if ?mtls then NetworkRBAC_Configure ?pb ?name ?perm c1 else Inr c1) = Inr chain"
    using assms(2) by (auto simp: FilterChainBuilder_Build_def inbound_filter_chain_split foldE_append bindE_Inr
        split: if_splits)
  note base = inbound_forwarding_chain [OF rt c0]
  have "chain_readable ?pb chain \<and>
      chain_refs ?pb chain = {(CdsKind, GetLocalClusterName (ii_WorkloadPort endpoint))} \<and>
      (?mtls \<longrightarrow> guarded_by ?pb ?perm chain)"
  proof (cases ?mtls)
    case True
    note tls = mtls_chain_on [OF rt True c1]
    have rbac: "NetworkRBAC_Configure ?pb ?name ?perm c1 = Inr chain" using last True by simp
    have view: "chain_view ?pb c1 = chain_view ?pb c0" using tls by (intro chain_view_filters) simp
    have "requires_client_cert ?pb chain" using tls rbac_chain(2) [OF rt rbac] by (simp add: requires_client_cert_def)
    then have "guarded_by ?pb ?perm chain"
      using rbac_chain(1) [OF rt rbac] createRbacRule_allows by (auto simp: guarded_by_def)
    then show ?thesis
      using base rbac_chain_refs [OF rt rbac] view by (simp add: chain_refs_def chain_readable_def)
  next
    case False
    then show ?thesis using base last c1 mtls_chain_off [OF False, of ?pb] by simp
  qed
  then show "chain_readable ?pb chain"
    and "chain_refs ?pb chain = {(CdsKind, GetLocalClusterName (ii_WorkloadPort endpoint))}"
    and "?mtls \<Longrightarrow> guarded_by ?pb ?perm chain" by auto
qed

section \<open>The listeners\<close>

lemmas listener_opts =
  ListenerBuilder_Build_def ListenerBuilder_Configure_def InboundListener_def InboundListener_Configure_def
  OutboundListener_def OutboundListener_Configure_def FilterChainOpt_def FilterChain_Configure_def
  TransparentProxying_def TransparentProxying_Configure_def OriginalDstForwarder_def OriginalDstForwarder_Configure_def

lemma inbound_listener_Inr:
  assumes "inbound_listener lib ctx proxy endpoint iface = Inr l"
  shows "\<exists>chain. FilterChainBuilder_Build (inbound_filter_chain lib ctx proxy endpoint iface) = Inr chain \<and>
    ls_FilterChains l = [chain] \<and> ls_TrafficDirection l = INBOUND \<and>
    ls_Name l = GetInboundListenerName (ii_DataplaneIP endpoint) (ii_DataplanePort endpoint) \<and>
    ls_Address l = Some (ii_DataplaneIP endpoint, ii_DataplanePort endpoint)"
  using assms by (auto simp: inbound_listener_def listener_opts Let_def bindE_Inr split: if_splits)

lemma outbound_listener_Inr:
  assumes "outbound_listener lib ctx proxy oface service protocol clusters = Inr l"
  shows "\<exists>chain. FilterChainBuilder_Build (outbound_filter_chain lib ctx proxy service protocol clusters) = Inr chain \<and>
    ls_FilterChains l = [chain] \<and> ls_TrafficDirection l = OUTBOUND \<and>
    ls_Name l = GetOutboundListenerName (oi_DataplaneIP oface) (oi_DataplanePort oface) \<and>
    ls_Address l = Some (oi_DataplaneIP oface, oi_DataplanePort oface)"
  using assms by (auto simp: outbound_listener_def listener_opts Let_def bindE_Inr split: if_splits)

section \<open>The steps of the generators\<close>

lemma alt_stat_name [simp]: "cl_Name (clusterWithAltStatName c) = cl_Name c" "cl_Type (clusterWithAltStatName c) = cl_Type c"
  by (simp_all add: clusterWithAltStatName_def Let_def)

lemma health_checks_name [simp]:
  "cl_Name (ClusterWithHealthChecks c h) = cl_Name c" "cl_Type (ClusterWithHealthChecks c h) = cl_Type c"
  by (auto simp: ClusterWithHealthChecks_def Let_def split: option.splits)

lemma local_cluster [simp]:
  "cl_Name (CreateLocalCluster n a p) = n" "cl_Type (CreateLocalCluster n a p) = STATIC"
  "cl_Name (CreatePassThroughCluster n) = n" "cl_Type (CreatePassThroughCluster n) = ORIGINAL_DST"
  by (simp_all add: CreateLocalCluster_def CreatePassThroughCluster_def new_cluster_def)

lemma eds_cluster:
  assumes "CreateEdsCluster pb ctx n md = Inr c"
  shows "cl_Name c = n \<and> cl_Type c = EDS"
  using assms by (auto simp: CreateEdsCluster_def new_cluster_def bindE_Inr Let_def split: option.splits)

lemma named_resource_simps [simp]:
  "xr_Name (named_resource n r) = n" "xr_Resource (named_resource n r) = r"
  by (simp_all add: named_resource_def)

text \<open>The resources of a cluster: the cluster itself, discovered by EDS, and its load assignment.\<close>

definition eds_resource :: "Proxy \<Rightarrow> ClusterInfo \<Rightarrow> 'a EnvoyResource XdsResource \<Rightarrow> bool" where
  "eds_resource proxy cluster r \<longleftrightarrow> xr_Name r = ci_Name cluster \<and>
     ((\<exists>c. xr_Resource r = ClusterResource c \<and> cl_Name c = ci_Name cluster \<and> cl_Type c = EDS) \<or>
      xr_Resource r = EndpointResource (CreateClusterLoadAssignment (ci_Name cluster) (cluster_endpoints proxy cluster)))"

lemma eds_step_Inr:
  "eds_step lib ctx proxy cluster (rs, endpoints) = Inr st \<longleftrightarrow>
     (\<exists>c. CreateEdsCluster (gl_Codec lib) ctx (ci_Name cluster) (Some (px_Metadata proxy)) = Inr c \<and>
        st = (rs @ [named_resource (ci_Name cluster) (ClusterResource
                (ClusterWithHealthChecks c (map_of (px_HealthChecks proxy) (gstr (ci_Tags cluster) ServiceTag)))),
              named_resource (ci_Name cluster)
                (EndpointResource (CreateClusterLoadAssignment (ci_Name cluster) (cluster_endpoints proxy cluster)))],
            endpoints @ cluster_endpoints proxy cluster))"
  by (auto simp: eds_step_def bindE_Inr Let_def)

lemma generateEds_Inr:
  assumes "generateEds lib ctx proxy clusters = Inr (rs, endpoints)"
  shows "endpoints = concat (map (cluster_endpoints proxy) clusters)"
    and "r \<in> set rs \<Longrightarrow> \<exists>cluster \<in> set clusters. eds_resource proxy cluster r"
    and "provided rs = (\<Union>cluster \<in> set clusters. {(CdsKind, ci_Name cluster), (EdsKind, ci_Name cluster)})"
proof -
  have "endpoints = endpoints0 @ concat (map (cluster_endpoints proxy) clusters) \<and>
      (\<forall>r \<in> set rs. r \<in> set rs0 \<or> (\<exists>cluster \<in> set clusters. eds_resource proxy cluster r)) \<and>
      provided rs = provided rs0 \<union> (\<Union>cluster \<in> set clusters. {(CdsKind, ci_Name cluster), (EdsKind, ci_Name cluster)})"
    if "foldE (eds_step lib ctx proxy) clusters (rs0, endpoints0) = Inr (rs, endpoints)" for rs0 endpoints0
    using that
  proof (induction clusters arbitrary: rs0 endpoints0)
    case (Cons cluster clusters)
    from Cons.prems obtain c where c: "CreateEdsCluster (gl_Codec lib) ctx (ci_Name cluster) (Some (px_Metadata proxy)) = Inr c"
      and rest: "foldE (eds_step lib ctx proxy) clusters
        (rs0 @ [named_resource (ci_Name cluster) (ClusterResource
             (ClusterWithHealthChecks c (map_of (px_HealthChecks proxy) (gstr (ci_Tags cluster) ServiceTag)))),
           named_resource (ci_Name cluster)
             (EndpointResource (CreateClusterLoadAssignment (ci_Name cluster) (cluster_endpoints proxy cluster)))],
         endpoints0 @ cluster_endpoints proxy cluster) = Inr (rs, endpoints)"
      by (auto simp: eds_step_Inr bindE_Inr)
    show ?case using Cons.IH [OF rest] eds_cluster [OF c] by (auto simp: eds_resource_def)
  qed simp
  from this [of "[]" "[]"] assms
  show "endpoints = concat (map (cluster_endpoints proxy) clusters)"
    and "r \<in> set rs \<Longrightarrow> \<exists>cluster \<in> set clusters. eds_resource proxy cluster r"
    and "provided rs = (\<Union>cluster \<in> set clusters. {(CdsKind, ci_Name cluster), (EdsKind, ci_Name cluster)})"
    by (auto simp: generateEds_def)
qed

lemma eds_resource_ok:
  assumes "eds_resource proxy cluster r"
  shows "resource_ok pb (xr_Name r) (xr_Resource r) \<and> resource_refs pb (xr_Resource r) \<subseteq> {(EdsKind, ci_Name cluster)}"
  using assms by (auto simp: eds_resource_def CreateClusterLoadAssignment_def Let_def)

lemma rs_Add_single: "rs_resources (rs_Add mn [r] empty_ResourceSet) = [r]"
  by (simp add: rs_Contains_def rs_index_def empty_ResourceSet_def Let_def)

lemma generateRds_Inr:
  assumes "generateRds lib protocol service name clusters tags = Inr rs"
  shows "protocol \<noteq> ProtocolHTTP \<and> rs = [] \<or>
    protocol = ProtocolHTTP \<and> (\<exists>rc. rs = [named_resource name (RouteResource rc)] \<and> rc_Name rc = name \<and>
      route_clusters rc = ci_Name ` set clusters)"
proof (cases "protocol = ProtocolHTTP")
  case True
  then obtain rc where build: "RouteConfigurationBuilder_Build
      (RouteConfigurationBuilder_Configure
         [CommonRouteConfiguration name, TagsHeader tags,
          VirtualHostOpt (VirtualHostBuilder_Configure [CommonVirtualHost service, DefaultRoute clusters])]) = Inr rc"
    and rs: "rs = [named_resource name (RouteResource rc)]"
    using assms by (auto simp: generateRds_def bindE_Inr rs_List_def rs_Add_single simp del: rs_Add.simps)
  have "rc_Name rc = name \<and> route_clusters rc = ci_Name ` set clusters"
    using build by (auto simp: route_builder_defs route_clusters_def split: if_splits)
  then show ?thesis using True rs by blast
next
  case False
  then show ?thesis using assms by (simp add: generateRds_def rs_List_def empty_ResourceSet_def)
qed

text \<open>What one outbound adds: the clusters of its route, its listener and, for HTTP, its route configuration.\<close>

lemma outbound_step_adds:
  assumes rt: "any_roundtrip (gl_Codec lib)" and "outbound_step lib ctx proxy ofaces i outbound s = Inr s'"
  shows "\<exists>new route clusters. s' = rs_Add (gl_MessageName lib) new s \<and>
    map_of (px_TrafficRoutes proxy) (out_Service outbound) = Some route \<and> determineClusters route = Inr clusters \<and>
    (\<forall>r \<in> set new. resource_ok (gl_Codec lib) (xr_Name r) (xr_Resource r) \<and>
       resource_refs (gl_Codec lib) (xr_Resource r) \<subseteq> provided new) \<and>
    (\<forall>r \<in> set new. \<forall>cla. xr_Resource r = EndpointResource cla \<longrightarrow>
       (\<exists>cluster \<in> set clusters. cla = CreateClusterLoadAssignment (ci_Name cluster) (cluster_endpoints proxy cluster))) \<and>
    Pair EdsKind ` ci_Name ` set clusters \<subseteq> provided new"
proof -
  let ?pb = "gl_Codec lib" and ?oface = "ofaces ! i" and ?svc = "out_Service outbound"
  let ?lname = "GetOutboundListenerName (oi_DataplaneIP ?oface) (oi_DataplanePort ?oface)"
  from assms(2) obtain route clusters eds endpoints l rds
    where route: "map_of (px_TrafficRoutes proxy) ?svc = Some route" and cl: "determineClusters route = Inr clusters"
      and eds: "generateEds lib ctx proxy clusters = Inr (eds, endpoints)"
      and l: "outbound_listener lib ctx proxy ?oface ?svc (InferServiceProtocol endpoints) clusters = Inr l"
      and rds: "generateRds lib (InferServiceProtocol endpoints) ?svc (GetOutboundRouteName ?svc) clusters
        (dataplane_Tags (Spec (px_Dataplane proxy))) = Inr rds"
      and s': "s' = rs_Add (gl_MessageName lib) (eds @ [named_resource ?lname (ListenerResource l)] @ rds) s"
    by (auto simp: outbound_step_def bindE_Inr Let_def rs_Add_append simp del: rs_Add.simps split: option.splits)
  obtain chain where chain: "FilterChainBuilder_Build (outbound_filter_chain lib ctx proxy ?svc (InferServiceProtocol endpoints) clusters) = Inr chain"
    "ls_FilterChains l = [chain]" "ls_Name l = ?lname" using outbound_listener_Inr [OF l] by blast
  note e = generateEds_Inr [OF eds]
  have "chain_readable ?pb chain \<and> chain_refs ?pb chain \<subseteq> provided eds \<union> provided rds"
  proof (cases "InferServiceProtocol endpoints = ProtocolHTTP")
    case True
    from http_chain_facts(1,3) [OF outbound_http_chain [OF rt chain(1) [unfolded True]]] show ?thesis
      using generateRds_Inr [OF rds] True by auto
  next
    case False
    from tcp_chain_facts(1,3) [OF outbound_tcp_chain [OF rt False chain(1)]] show ?thesis by (auto simp: e(3))
  qed
  then have "resource_ok ?pb (xr_Name r) (xr_Resource r) \<and>
      resource_refs ?pb (xr_Resource r) \<subseteq> provided (eds @ [named_resource ?lname (ListenerResource l)] @ rds)"
    if "r \<in> set (eds @ [named_resource ?lname (ListenerResource l)] @ rds)" for r
  proof -
    from that consider "r \<in> set eds" | "r = named_resource ?lname (ListenerResource l)" | "r \<in> set rds" by auto
    then show ?thesis
    proof cases
      case 1
      then show ?thesis using e(2) [OF 1] eds_resource_ok [of proxy _ r ?pb] by (fastforce simp: e(3))
    next
      case 2
      then show ?thesis
        using \<open>chain_readable ?pb chain \<and> chain_refs ?pb chain \<subseteq> provided eds \<union> provided rds\<close> chain(2,3) by auto
    next
      case 3
      then show ?thesis using generateRds_Inr [OF rds] by (auto simp: e(3))
    qed
  qed
  moreover have "\<exists>cluster \<in> set clusters. cla = CreateClusterLoadAssignment (ci_Name cluster) (cluster_endpoints proxy cluster)"
    if "r \<in> set (eds @ [named_resource ?lname (ListenerResource l)] @ rds)" "xr_Resource r = EndpointResource cla" for r cla
    using that e(2) [of r] generateRds_Inr [OF rds] by (auto simp: eds_resource_def)
  moreover have "Pair EdsKind ` ci_Name ` set clusters \<subseteq> provided (eds @ [named_resource ?lname (ListenerResource l)] @ rds)"
    by (auto simp: e(3))
  ultimately show ?thesis using s' route cl by blast
qed

lemma inbound_step_adds:
  assumes rt: "any_roundtrip (gl_Codec lib)" and "inbound_step lib ctx proxy networking i endpoint s = Inr s'"
  shows "\<exists>new. s' = rs_Add (gl_MessageName lib) new s \<and>
    (\<forall>r \<in> set new. resource_ok (gl_Codec lib) (xr_Name r) (xr_Resource r) \<and>
       resource_refs (gl_Codec lib) (xr_Resource r) \<subseteq> provided new) \<and>
    (\<forall>r \<in> set new. \<forall>l. xr_Resource r = ListenerResource l \<longrightarrow>
       ls_Address l = Some (ii_DataplaneIP endpoint, ii_DataplanePort endpoint) \<and>
       (\<exists>chain. ls_FilterChains l = [chain] \<and>
          (MTLSEnabled (Some (ctx_Mesh ctx)) \<longrightarrow>
             guarded_by (gl_Codec lib) (map_of (px_TrafficPermissions proxy) endpoint) chain)))"
proof -
  let ?cname = "GetLocalClusterName (ii_WorkloadPort endpoint)"
  let ?lname = "GetInboundListenerName (ii_DataplaneIP endpoint) (ii_DataplanePort endpoint)"
  let ?cluster = "named_resource ?cname (ClusterResource (CreateLocalCluster ?cname ''127.0.0.1'' (ii_WorkloadPort endpoint)))"
  from assms(2) obtain l where l: "inbound_listener lib ctx proxy endpoint (net_Inbound networking ! i) = Inr l"
    and s': "s' = rs_Add (gl_MessageName lib) ([?cluster] @ [named_resource ?lname (ListenerResource l)]) s"
    unfolding inbound_step_def Let_def bindE_Inr wrap_err_Inr rs_Add_append by blast
  obtain chain where chain: "ls_FilterChains l = [chain]" "ls_Name l = ?lname"
    "ls_Address l = Some (ii_DataplaneIP endpoint, ii_DataplanePort endpoint)"
    "chain_readable (gl_Codec lib) chain" "chain_refs (gl_Codec lib) chain = {(CdsKind, ?cname)}"
    "MTLSEnabled (Some (ctx_Mesh ctx)) \<Longrightarrow>
      guarded_by (gl_Codec lib) (map_of (px_TrafficPermissions proxy) endpoint) chain"
    using inbound_listener_Inr [OF l] inbound_chain [OF rt] by blast
  show ?thesis
    by (rule exI [of _ "[?cluster] @ [named_resource ?lname (ListenerResource l)]"])
      (use s' chain in \<open>simp del: rs_Add.simps\<close>)
qed

section \<open>The generators\<close>

text \<open>The state of a loop that adds resources: the index is sound and all references resolve.\<close>

definition set_ok :: "'a GeneratorLib \<Rightarrow> 'a EnvoyResource ResourceSet \<Rightarrow> bool" where
  "set_ok lib s \<longleftrightarrow> rs_ok (gl_MessageName lib) s \<and> config_ok (gl_Codec lib) (rs_resources s)"

lemma set_ok_empty [simp]: "set_ok lib empty_ResourceSet"
  by (simp add: set_ok_def) (simp add: empty_ResourceSet_def)

lemma set_ok_add:
  assumes "kinds_named lib" and "set_ok lib s"
    and "\<forall>r \<in> set new. resource_ok (gl_Codec lib) (xr_Name r) (xr_Resource r) \<and>
      resource_refs (gl_Codec lib) (xr_Resource r) \<subseteq> provided new"
  shows "set_ok lib (rs_Add (gl_MessageName lib) new s)"
  using assms rs_Add_sets(1) [of "gl_MessageName lib" s new] unfolding set_ok_def
  by (auto intro!: config_ok_add)

lemma step_ok:
  assumes "any_roundtrip (gl_Codec lib)" and "kinds_named lib" and "set_ok lib s"
  shows "inbound_step lib ctx proxy networking i endpoint s = Inr s' \<Longrightarrow> set_ok lib s'"
    and "outbound_step lib ctx proxy ofaces i outbound s = Inr s' \<Longrightarrow> set_ok lib s'"
proof -
  assume "inbound_step lib ctx proxy networking i endpoint s = Inr s'"
  from inbound_step_adds [OF assms(1) this] show "set_ok lib s'" using set_ok_add [OF assms(2,3)] by blast
next
  assume "outbound_step lib ctx proxy ofaces i outbound s = Inr s'"
  from outbound_step_adds [OF assms(1) this] show "set_ok lib s'" using set_ok_add [OF assms(2,3)] by blast
qed

lemma inbound_generator_ok:
  assumes "any_roundtrip (gl_Codec lib)" and "kinds_named lib" and "InboundProxyGenerator lib ctx proxy = Inr rs"
  shows "config_ok (gl_Codec lib) rs"
proof (cases "rs = []")
  case False
  then obtain networking endpoints s
    where loop: "range_loop (inbound_step lib ctx proxy networking) endpoints empty_ResourceSet = Inr s" and rs: "rs = rs_resources s"
    using assms(3) by (auto simp: InboundProxyGenerator_def bindE_Inr rs_List_def split: option.splits if_splits)
  have "set_ok lib s"
    by (rule range_loop_invariant [OF loop, where P = "set_ok lib"])
      (auto intro: step_ok [OF assms(1,2)])
  then show ?thesis by (simp add: rs set_ok_def)
qed simp

lemma outbound_generator_ok:
  assumes "any_roundtrip (gl_Codec lib)" and "kinds_named lib" and "OutboundProxyGenerator lib ctx proxy = Inr rs"
  shows "config_ok (gl_Codec lib) rs"
proof (cases "rs = []")
  case False
  then obtain ofaces outbounds s
    where loop: "range_loop (outbound_step lib ctx proxy ofaces) outbounds empty_ResourceSet = Inr s" and rs: "rs = rs_resources s"
    using assms(3) by (auto simp: OutboundProxyGenerator_def bindE_Inr rs_List_def Let_def split: if_splits)
  have "set_ok lib s"
    by (rule range_loop_invariant [OF loop, where P = "set_ok lib"])
      (auto intro: step_ok [OF assms(1,2)])
  then show ?thesis by (simp add: rs set_ok_def)
qed simp

lemma transparent_generator_ok:
  assumes rt: "any_roundtrip (gl_Codec lib)" and "TransparentProxyGenerator lib ctx proxy = Inr rs"
  shows "config_ok (gl_Codec lib) rs"
proof (cases "rs = []")
  case False
  let ?clusters = "[\<lparr>ci_Name = ''pass_through'', ci_Weight = 0, ci_Tags = []\<rparr>]"
  obtain port l v
    where l: "ListenerBuilder_Build (ListenerBuilder_Configure
        [OutboundListener ''catch_all'' ''0.0.0.0'' port,
         FilterChainOpt (FilterChainBuilder_Configure
           [TcpProxy (gl_Codec lib) ''pass_through'' ?clusters,
            NetworkAccessLog (gl_Codec lib) (res_name (ctx_Mesh ctx)) (GetIdentifyingService (Spec (px_Dataplane proxy)))
              ''external'' (px_log proxy PassThroughService) proxy]),
         OriginalDstForwarder]) = Inr l"
      and rs: "rs = [\<lparr>xr_Name = ''catch_all'', xr_Version = v, xr_Resource = ListenerResource l\<rparr>,
        \<lparr>xr_Name = ''pass_through'', xr_Version = v, xr_Resource = ClusterResource (CreatePassThroughCluster ''pass_through'')\<rparr>]"
    using assms(2) False unfolding TransparentProxyGenerator_def Let_def
    by (auto simp: bindE_Inr simp del: sort_key_simps split: if_splits option.splits)
  obtain chain where "ls_FilterChains l = [chain]" "ls_Name l = ''catch_all''"
    "tcp_chain (gl_Codec lib) (routeAction ?clusters) chain"
    using l by (auto simp: listener_opts chain_opts bindE_Inr split: option.splits
        dest!: TcpProxy_chain [OF rt] network_log_chain [OF rt, rotated])
  then show ?thesis using tcp_chain_facts(1,3) [of "gl_Codec lib" "routeAction ?clusters" chain]
    by (simp add: rs config_ok_def)
qed simp

lemma prometheus_generator_ok:
  assumes rt: "any_roundtrip (gl_Codec lib)" and "PrometheusEndpointGenerator lib ctx proxy = Inr rs"
  shows "config_ok (gl_Codec lib) rs"
proof (cases "rs = []")
  case False
  obtain port path l admin
    where l: "ListenerBuilder_Build (ListenerBuilder_Configure
        [InboundListener GetPrometheusListenerName ''0.0.0.0'' port,
         FilterChainOpt (FilterChainBuilder_Configure
           [PrometheusEndpoint (gl_Codec lib) GetPrometheusListenerName path GetEnvoyAdminClusterName]),
         TransparentProxying (px_transparent proxy)]) = Inr l"
      and rs: "rs = [named_resource GetEnvoyAdminClusterName
          (ClusterResource (CreateLocalCluster GetEnvoyAdminClusterName ''127.0.0.1'' admin)),
        named_resource GetPrometheusListenerName (ListenerResource l)]"
    using assms(2) False unfolding PrometheusEndpointGenerator_def Let_def
    by (auto simp: bindE_Inr split: if_splits option.splits)
  obtain chain where "ls_FilterChains l = [chain]" "ls_Name l = GetPrometheusListenerName"
    "http_chain (gl_Codec lib) (Some (RouteConfig (prometheus_route path GetEnvoyAdminClusterName))) chain"
    using l by (auto simp: listener_opts chain_opts bindE_Inr Let_def split: if_splits dest!: PrometheusEndpoint_chain [OF rt])
  then show ?thesis
    using http_chain_facts(1,3) [of "gl_Codec lib" "Some (RouteConfig (prometheus_route path GetEnvoyAdminClusterName))" chain]
    by (simp add: rs config_ok_def prometheus_route_def route_clusters_def)
qed simp

lemma composite_ok:
  assumes "CompositeResourceGenerator gens ctx proxy = Inr rs"
    and "\<And>gen rs. gen \<in> set gens \<Longrightarrow> gen ctx proxy = Inr rs \<Longrightarrow> config_ok pb rs"
  shows "config_ok pb rs"
  using assms(1) unfolding CompositeResourceGenerator_def
  by (rule foldE_invariant [where P = "config_ok pb"]) (auto simp: bindE_Inr intro: config_ok_append dest: assms(2))


text \<open>
  C3. When mutual TLS is enabled in the mesh, every inbound listener that is generated belongs to an
  inbound interface of the dataplane, demands a client certificate, and has as its first filter an
  access control filter that admits exactly the peers of the traffic permission matched for that
  interface: any peer when a source of the permission is the service \<open>*\<close>, otherwise the peers whose
  authenticated name is that of a source service in the mesh of the permission; without a matched
  permission it admits nobody.
\<close>

theorem inbound_listeners_are_guarded:
  assumes "any_roundtrip (gl_Codec lib)" and "MTLSEnabled (Some (ctx_Mesh ctx))"
    and "InboundProxyGenerator lib ctx proxy = Inr rs" and "r \<in> set rs" and "xr_Resource r = ListenerResource l"
  shows "\<exists>interfaces endpoint chain.
    GetInboundInterfaces (dp_Networking (Spec (px_Dataplane proxy))) = Inr interfaces \<and> endpoint \<in> set interfaces \<and>
    ls_Address l = Some (ii_DataplaneIP endpoint, ii_DataplanePort endpoint) \<and> ls_FilterChains l = [chain] \<and>
    guarded_by (gl_Codec lib) (map_of (px_TrafficPermissions proxy) endpoint) chain"
proof -
  obtain networking endpoints s
    where ifaces: "GetInboundInterfaces (px_networking proxy) = Inr endpoints"
      and loop: "range_loop (inbound_step lib ctx proxy networking) endpoints empty_ResourceSet = Inr s" and rs: "rs = rs_resources s"
    using assms(3,4) by (auto simp: InboundProxyGenerator_def bindE_Inr rs_List_def split: option.splits if_splits)
  let ?guarded = "\<lambda>l. \<exists>endpoint \<in> set endpoints. \<exists>chain.
    ls_Address l = Some (ii_DataplaneIP endpoint, ii_DataplanePort endpoint) \<and> ls_FilterChains l = [chain] \<and>
    guarded_by (gl_Codec lib) (map_of (px_TrafficPermissions proxy) endpoint) chain"
  let ?P = "\<lambda>s. rs_ok (gl_MessageName lib) s \<and>
    (\<forall>r \<in> set (rs_resources s). \<forall>l. xr_Resource r = ListenerResource l \<longrightarrow> ?guarded l)"
  have "?P s"
  proof (rule range_loop_invariant [OF loop, where P = ?P])
    show "?P empty_ResourceSet" by simp (simp add: empty_ResourceSet_def)
  next
    fix i t t' assume i: "i < length endpoints" and t: "?P t" and st: "inbound_step lib ctx proxy networking i (endpoints ! i) t = Inr t'"
    from inbound_step_adds [OF assms(1) st] obtain new where t': "t' = rs_Add (gl_MessageName lib) new t"
      and new: "\<And>r l. r \<in> set new \<Longrightarrow> xr_Resource r = ListenerResource l \<Longrightarrow> ?guarded l"
      using assms(2) nth_mem [OF i] by blast
    then show "?P t'" using t rs_Add_sets(1,3) [of "gl_MessageName lib" t new] by blast
  qed
  then have "?guarded l" using assms(4,5) unfolding rs by blast
  then show ?thesis using ifaces unfolding px_networking_def by blast
qed

section \<open>Load assignments\<close>

text \<open>A destination with a weight in the route of some outbound, and its service.\<close>

definition destination_of :: "Proxy \<Rightarrow> string \<Rightarrow> tags \<Rightarrow> bool" where
  "destination_of proxy service dest \<longleftrightarrow>
     (\<exists>outbound \<in> set (dp_GetOutbound (Spec (px_Dataplane proxy))). \<exists>route.
        map_of (px_TrafficRoutes proxy) (out_Service outbound) = Some route \<and>
        (\<exists>d \<in> set (tr_Conf (Spec route)). wd_Weight d \<noteq> 0 \<and> wd_Destination d = dest \<and> map_of dest ServiceTag = Some service))"

definition matching_targets :: "Proxy \<Rightarrow> string \<Rightarrow> tags \<Rightarrow> Endpoint list" where
  "matching_targets proxy service dest =
     filter (\<lambda>e. Matches dest (ep_Tags e)) (glist (px_OutboundTargets proxy) service)"

lemma range_loop_append:
  "range_loop body (xs @ [x]) s = bindE (range_loop body xs s) (body (length xs) x)"
proof -
  have "zip [0 ..< length (xs @ [x])] (xs @ [x]) = zip [0 ..< length xs] xs @ [(length xs, x)]" by simp
  then show ?thesis by (simp only: range_loop_def foldE_append) (simp add: bindE_def split: sum.splits)
qed

definition destination_cluster :: "WeightedDestination \<Rightarrow> ClusterInfo \<Rightarrow> bool" where
  "destination_cluster d cluster \<longleftrightarrow> wd_Weight d \<noteq> 0 \<and>
     (\<exists>service. map_of (wd_Destination d) ServiceTag = Some service \<and>
        cluster = \<lparr>ci_Name = GetDestinationClusterName service (wd_Destination d), ci_Weight = wd_Weight d,
                   ci_Tags = wd_Destination d\<rparr>)"

lemma route_destination_step_Inr:
  "route_destination_step route j d cs = Inr clusters \<Longrightarrow> set clusters = set cs \<union> Collect (destination_cluster d)"
  by (auto simp: route_destination_step_def destination_cluster_def split: option.splits if_splits)

lemma determineClusters_Inr:
  assumes "determineClusters route = Inr clusters"
  shows "set clusters = (\<Union>d \<in> set (tr_Conf (Spec route)). Collect (destination_cluster d))"
proof -
  have "set clusters = (\<Union>d \<in> set ds. Collect (destination_cluster d))"
    if "range_loop (route_destination_step route) ds [] = Inr clusters" for ds
    using that
  proof (induction ds arbitrary: clusters rule: rev_induct)
    case (snoc d ds)
    from snoc.prems obtain cs where "range_loop (route_destination_step route) ds [] = Inr cs"
      and "route_destination_step route (length ds) d cs = Inr clusters"
      by (auto simp: range_loop_append bindE_Inr)
    then show ?case using snoc.IH route_destination_step_Inr by fastforce
  qed (simp add: range_loop_def)
  then show ?thesis using assms by (simp add: determineClusters_def)
qed

lemma cluster_endpoints_matching:
  "map_of dest ServiceTag = Some service \<Longrightarrow>
   cluster_endpoints proxy \<lparr>ci_Name = n, ci_Weight = w, ci_Tags = dest\<rparr> = matching_targets proxy service dest"
  by (simp add: cluster_endpoints_def matching_targets_def EndpointList_Filter_filter gstr_def)

text \<open>A loop runs its body on every element, and what the body adds is kept.\<close>

lemma range_loop_keeps:
  assumes "range_loop body xs s = Inr s'" and "P s" and "i < length xs"
    and "\<And>j t t'. j < length xs \<Longrightarrow> P t \<Longrightarrow> body j (xs ! j) t = Inr t' \<Longrightarrow> P t' \<and> kept t \<subseteq> kept t'"
    and "\<And>t t'. P t \<Longrightarrow> body i (xs ! i) t = Inr t' \<Longrightarrow> A \<subseteq> kept t'"
  shows "A \<subseteq> kept s'"
  using assms(1,3,4,5)
proof (induction xs arbitrary: s' rule: rev_induct)
  case (snoc x xs)
  from snoc.prems(1) obtain t where t: "range_loop body xs s = Inr t" and x: "body (length xs) x t = Inr s'"
    by (auto simp: range_loop_append bindE_Inr)
  have body: "P t' \<and> kept u \<subseteq> kept t'" if "j < length xs" "P u" "body j (xs ! j) u = Inr t'" for j u t'
    using snoc.prems(3) [of j u t'] that by (simp add: nth_append)
  have "P t" by (rule range_loop_invariant [OF t, where P = P, OF assms(2)]) (use body in blast)
  then have last: "P s' \<and> kept t \<subseteq> kept s'" using snoc.prems(3) [of "length xs" t s'] x by simp
  show ?case
  proof (cases "i < length xs")
    case True
    then have "A \<subseteq> kept t'" if "P u" "body i (xs ! i) u = Inr t'" for u t'
      using snoc.prems(4) [OF that(1)] that(2) by (simp add: nth_append)
    then have "A \<subseteq> kept t" using snoc.IH [OF t True] body by blast
    then show ?thesis using last by blast
  next
    case False
    then have "i = length xs" using snoc.prems(2) by simp
    then show ?thesis using snoc.prems(4) [OF \<open>P t\<close>] x by simp
  qed
qed simp

lemma destination_of_clusters:
  assumes "outbound \<in> set (dp_GetOutbound (Spec (px_Dataplane proxy)))"
    and "map_of (px_TrafficRoutes proxy) (out_Service outbound) = Some route"
    and "determineClusters route = Inr clusters" and "cluster \<in> set clusters"
  shows "\<exists>service dest. destination_of proxy service dest \<and>
    CreateClusterLoadAssignment (ci_Name cluster) (cluster_endpoints proxy cluster) =
      CreateClusterLoadAssignment (GetDestinationClusterName service dest) (matching_targets proxy service dest)"
proof -
  obtain d service where d: "d \<in> set (tr_Conf (Spec route))" "wd_Weight d \<noteq> 0"
    "map_of (wd_Destination d) ServiceTag = Some service"
    "cluster = \<lparr>ci_Name = GetDestinationClusterName service (wd_Destination d), ci_Weight = wd_Weight d,
                ci_Tags = wd_Destination d\<rparr>"
    using assms(4) by (auto simp: determineClusters_Inr [OF assms(3)] destination_cluster_def)
  have "destination_of proxy service (wd_Destination d)"
    using assms(1,2) d(1,2,3) unfolding destination_of_def by blast
  moreover have "CreateClusterLoadAssignment (ci_Name cluster) (cluster_endpoints proxy cluster) =
      CreateClusterLoadAssignment (GetDestinationClusterName service (wd_Destination d))
        (matching_targets proxy service (wd_Destination d))"
    using d(3) by (simp add: d(4) cluster_endpoints_matching)
  ultimately show ?thesis by blast
qed

text \<open>The state of the outbound loop: every load assignment belongs to a destination.\<close>

definition assignment_of :: "Proxy \<Rightarrow> ClusterLoadAssignment \<Rightarrow> bool" where
  "assignment_of proxy cla \<longleftrightarrow> (\<exists>service dest. destination_of proxy service dest \<and>
     cla = CreateClusterLoadAssignment (GetDestinationClusterName service dest) (matching_targets proxy service dest))"

definition assignments_sound :: "'a GeneratorLib \<Rightarrow> Proxy \<Rightarrow> 'a EnvoyResource ResourceSet \<Rightarrow> bool" where
  "assignments_sound lib proxy s \<longleftrightarrow> rs_ok (gl_MessageName lib) s \<and>
     (\<forall>r \<in> set (rs_resources s). \<forall>cla. xr_Resource r = EndpointResource cla \<longrightarrow> assignment_of proxy cla)"

lemma assignments_sound_empty: "assignments_sound lib proxy empty_ResourceSet"
  by (simp add: assignments_sound_def) (simp add: empty_ResourceSet_def)

lemma assignments_sound_step:
  assumes rt: "any_roundtrip (gl_Codec lib)" and out: "outbound \<in> set (dp_GetOutbound (Spec (px_Dataplane proxy)))"
    and s: "assignments_sound lib proxy s" and step: "outbound_step lib ctx proxy ofaces i outbound s = Inr s'"
  shows "assignments_sound lib proxy s' \<and> provided (rs_resources s) \<subseteq> provided (rs_resources s')"
proof -
  from outbound_step_adds [OF rt step] obtain new where s': "s' = rs_Add (gl_MessageName lib) new s"
    and new: "\<And>r cla. r \<in> set new \<Longrightarrow> xr_Resource r = EndpointResource cla \<Longrightarrow> assignment_of proxy cla"
    using destination_of_clusters [OF out] unfolding assignment_of_def by metis
  have ok: "rs_ok (gl_MessageName lib) s" using s by (simp add: assignments_sound_def)
  note add = rs_Add_sets [OF ok, of new]
  have "provided (rs_resources s) \<subseteq> provided (rs_resources s')"
    using add(2) unfolding s' provided_def by blast
  then show ?thesis using s new add(1,3) unfolding assignments_sound_def s' by blast
qed

lemma outbound_step_provides:
  assumes rt: "any_roundtrip (gl_Codec lib)" and kinds: "kinds_named lib" and ok: "rs_ok (gl_MessageName lib) s"
    and step: "outbound_step lib ctx proxy ofaces i outbound s = Inr s'"
    and route: "map_of (px_TrafficRoutes proxy) (out_Service outbound) = Some route"
    and d: "d \<in> set (tr_Conf (Spec route))" "wd_Weight d \<noteq> 0" "map_of (wd_Destination d) ServiceTag = Some service"
  shows "(EdsKind, GetDestinationClusterName service (wd_Destination d)) \<in> provided (rs_resources s')"
proof -
  from outbound_step_adds [OF rt step] route obtain new clusters where s': "s' = rs_Add (gl_MessageName lib) new s"
    and cl: "determineClusters route = Inr clusters" "Pair EdsKind ` ci_Name ` set clusters \<subseteq> provided new"
    by auto
  have "\<lparr>ci_Name = GetDestinationClusterName service (wd_Destination d), ci_Weight = wd_Weight d,
      ci_Tags = wd_Destination d\<rparr> \<in> set clusters"
    using d by (auto simp: determineClusters_Inr [OF cl(1)] destination_cluster_def)
  then have "(EdsKind, GetDestinationClusterName service (wd_Destination d)) \<in> provided new" using cl(2) by force
  moreover have "provided (rs_resources s') = provided (rs_resources s @ new)"
    by (rule provided_keys [OF kinds]) (simp add: s' rs_Add_sets(4) [OF ok] image_Un)
  ultimately show ?thesis by simp
qed

lemma outbound_generator_loop:
  assumes "OutboundProxyGenerator lib ctx proxy = Inr rs" and "dp_GetOutbound (Spec (px_Dataplane proxy)) \<noteq> []"
  shows "\<exists>ofaces s. rs = rs_resources s \<and>
    range_loop (outbound_step lib ctx proxy ofaces) (dp_GetOutbound (Spec (px_Dataplane proxy))) empty_ResourceSet = Inr s"
  using assms by (auto simp: OutboundProxyGenerator_def bindE_Inr rs_List_def Let_def)

lemma outbound_generator_sound:
  assumes rt: "any_roundtrip (gl_Codec lib)" and gen: "OutboundProxyGenerator lib ctx proxy = Inr rs"
    and r: "r \<in> set rs" "xr_Resource r = EndpointResource cla"
  shows "assignment_of proxy cla"
proof -
  let ?outs = "dp_GetOutbound (Spec (px_Dataplane proxy))"
  have "?outs \<noteq> []" using gen r(1) by (auto simp: OutboundProxyGenerator_def)
  from outbound_generator_loop [OF gen this] obtain ofaces s where rs: "rs = rs_resources s"
    and loop: "range_loop (outbound_step lib ctx proxy ofaces) ?outs empty_ResourceSet = Inr s" by blast
  have "assignments_sound lib proxy s"
    by (rule range_loop_invariant [OF loop, where P = "assignments_sound lib proxy"])
      (use assignments_sound_empty assignments_sound_step [OF rt nth_mem] in blast)+
  then show ?thesis using r by (auto simp: rs assignments_sound_def)
qed

lemma outbound_generator_complete:
  assumes rt: "any_roundtrip (gl_Codec lib)" and kinds: "kinds_named lib" and gen: "OutboundProxyGenerator lib ctx proxy = Inr rs"
    and dest: "destination_of proxy service dest"
  shows "(EdsKind, GetDestinationClusterName service dest) \<in> provided rs"
proof -
  let ?outs = "dp_GetOutbound (Spec (px_Dataplane proxy))"
  obtain outbound route d where out: "outbound \<in> set ?outs" "map_of (px_TrafficRoutes proxy) (out_Service outbound) = Some route"
    and d: "d \<in> set (tr_Conf (Spec route))" "wd_Weight d \<noteq> 0" "wd_Destination d = dest" "map_of dest ServiceTag = Some service"
    using dest unfolding destination_of_def by blast
  then obtain i where i: "i < length ?outs" and route: "map_of (px_TrafficRoutes proxy) (out_Service (?outs ! i)) = Some route"
    unfolding in_set_conv_nth by blast
  then have "?outs \<noteq> []" by auto
  from outbound_generator_loop [OF gen this] obtain ofaces s where rs: "rs = rs_resources s"
    and loop: "range_loop (outbound_step lib ctx proxy ofaces) ?outs empty_ResourceSet = Inr s" by blast
  have "{(EdsKind, GetDestinationClusterName service dest)} \<subseteq> provided (rs_resources s)"
  proof (rule range_loop_keeps [OF loop, where P = "assignments_sound lib proxy" and kept = "\<lambda>s. provided (rs_resources s)" and i = i])
    fix t t' assume t: "assignments_sound lib proxy t" and st: "outbound_step lib ctx proxy ofaces i (?outs ! i) t = Inr t'"
    have "rs_ok (gl_MessageName lib) t" using t by (simp add: assignments_sound_def)
    from outbound_step_provides [OF rt kinds this st route d(1,2)] d(3,4)
    show "{(EdsKind, GetDestinationClusterName service dest)} \<subseteq> provided (rs_resources t')" by simp
  qed (use assignments_sound_empty assignments_sound_step [OF rt nth_mem] i in blast)+
  then show ?thesis by (simp add: rs)
qed

text \<open>
  C4. The load assignments that are generated for the outbounds of a proxy are those of the weighted
  destinations of their routes: each one belongs to such a destination and holds, under the cluster
  name of the destination, exactly the outbound targets of its service whose tags match the
  destination; and every such destination has one.
\<close>

theorem load_assignments_hold_matching_targets:
  assumes "any_roundtrip (gl_Codec lib)" and "kinds_named lib" and "OutboundProxyGenerator lib ctx proxy = Inr rs"
  shows "(\<forall>r \<in> set rs. \<forall>cla. xr_Resource r = EndpointResource cla \<longrightarrow>
       (\<exists>service dest. destination_of proxy service dest \<and>
          cla = CreateClusterLoadAssignment (GetDestinationClusterName service dest) (matching_targets proxy service dest))) \<and>
    (\<forall>service dest. destination_of proxy service dest \<longrightarrow>
       (EdsKind, GetDestinationClusterName service dest) \<in> provided rs)"
  using outbound_generator_sound [OF assms(1,3), unfolded assignment_of_def] outbound_generator_complete [OF assms]
  by blast

section \<open>An example\<close>

text \<open>A dataplane of \<open>web\<close> that calls \<open>backend\<close> in a mesh with mutual TLS, and a library for it.\<close>

definition example_lib :: "packed GeneratorLib" where
  "example_lib =
     \<lparr>gl_Codec = wrapping_codec, gl_Uint32 = \<lambda>_. 0, gl_Merge = \<lambda>dst src. dst,
      gl_MessageName = \<lambda>r. (case r of ListenerResource _ \<Rightarrow> ''L'' | RouteResource _ \<Rightarrow> ''R'' | ClusterResource _ \<Rightarrow> ''C''
        | EndpointResource _ \<Rightarrow> ''E'' | SecretResource _ \<Rightarrow> ''S'' | OtherResource _ \<Rightarrow> ''O''),
      gl_ResourceFromYaml = \<lambda>_. Inl (ErrString ''not read'')\<rparr>"

lemma example_lib_facts [simp]: "gl_Codec example_lib = wrapping_codec" "kinds_named example_lib"
  by (auto simp: example_lib_def kinds_named_def split: EnvoyResource.splits)

definition example_context :: "ControlPlaneContext Context" where
  "example_context =
     \<lparr>ctx_ControlPlane = \<lparr>cp_SdsLocation = ''kuma:5677'', cp_SdsTlsCert = ''cert''\<rparr>,
      ctx_Mesh = \<lparr>Meta = Some (pseudoMeta 0 ''default''),
                  Spec = \<lparr>mesh_Mtls = Some \<lparr>mtls_EnabledBackend = ''ca'', mtls_Backends = []\<rparr>, mesh_Tracing = None,
                          mesh_Logging = None, mesh_Metrics = None\<rparr>\<rparr>\<rparr>"

definition example_permission :: TrafficPermissionResource where
  "example_permission =
     \<lparr>Meta = Some (ForeignMeta \<lparr>fm_Name = ''allow'', fm_Mesh = ''default'', fm_Version = '''', fm_CreationTime = 0,
                                fm_ModificationTime = 0\<rparr>),
      Spec = \<lparr>tp_Sources = [[(''service'', ''mobile'')]], tp_Destinations = [[(''service'', ''web'')]]\<rparr>\<rparr>"

definition example_proxy :: Proxy where
  "example_proxy =
     \<lparr>px_Id = \<lparr>pid_Mesh = ''default'', pid_Name = ''web''\<rparr>,
      px_Dataplane = \<lparr>Meta = Some (pseudoMeta 0 ''web''), Spec = example_dataplane\<rparr>,
      px_TrafficPermissions =
        [(\<lparr>ii_DataplaneIP = ''192.168.0.1'', ii_DataplanePort = 8080, ii_WorkloadPort = 80\<rparr>, example_permission)],
      px_Logs = [], px_TrafficRoutes = [(''backend'', implicit_route 0 ''backend'')],
      px_OutboundSelectors = [], 
      px_OutboundTargets = [(''backend'', [\<lparr>ep_Target = ''192.168.0.2'', ep_Port = 1, ep_Tags = [(''service'', ''backend'')]\<rparr>])],
      px_HealthChecks = [], px_TrafficTrace = None, px_TracingBackend = None,
      px_Metadata = \<lparr>md_DataplaneTokenPath = '''', md_AdminPort = 0\<rparr>, px_FaultInjections = []\<rparr>"

section \<open>Generation succeeds\<close>

definition succeeds :: "go_error + 'x \<Rightarrow> bool" where
  "succeeds r = (\<exists>x. r = Inr x)"

lemma succeeds_intros [simp, intro]: "succeeds (Inr x)"
  by (simp add: succeeds_def)

lemma succeeds_bindE: "succeeds m \<Longrightarrow> (\<And>x. m = Inr x \<Longrightarrow> succeeds (f x)) \<Longrightarrow> succeeds (bindE m f)"
  by (auto simp: succeeds_def bindE_Inr)

lemma succeeds_wrap [simp]: "succeeds (wrap_err m s) = succeeds m"
  by (simp add: succeeds_def)

lemma succeeds_foldE:
  assumes "\<And>x s. x \<in> set xs \<Longrightarrow> succeeds (f x s)"
  shows "succeeds (foldE f xs s)"
  using assms by (induction xs arbitrary: s) (auto intro!: succeeds_bindE)

lemma succeeds_range_loop:
  assumes "\<And>i s. i < length xs \<Longrightarrow> succeeds (body i (xs ! i) s)"
  shows "succeeds (range_loop body xs s)"
  unfolding range_loop_def by (rule succeeds_foldE) (auto simp: set_zip assms)

text \<open>Packing never fails.\<close>

definition any_total :: "'a AnyCodec \<Rightarrow> bool" where
  "any_total pb = (\<forall>m. succeeds (pb_MarshalAny pb m))"

lemma wrapping_codec_total: "any_total wrapping_codec"
  by (simp add: any_total_def wrapping_codec_def)

lemma update_total:
  assumes "any_total pb" and "chain_view pb chain = [(n, Some m)]" and "succeeds (f m)"
  shows "succeeds (UpdateFilterConfig pb n f chain)"
proof -
  obtain flt where flt: "fc_Filters chain = [flt]" "fl_Name flt = n" "filter_message pb flt = Some m"
    using assms(2) by (auto simp: chain_view_def map_eq_Cons_conv)
  then obtain a where "fl_TypedConfig flt = Some a" "pb_UnmarshalAny pb a = Inr m" by (blast dest: filter_messageD)
  moreover obtain m' b where "f m = Inr m'" "pb_MarshalAny pb m' = Inr b"
    using assms(1,3) unfolding any_total_def succeeds_def by blast
  ultimately show ?thesis using flt by (simp add: UpdateFilterConfig_def)
qed

lemma http_update_total:
  "any_total pb \<Longrightarrow> http_chain pb r chain \<Longrightarrow> succeeds (UpdateHTTPConnectionManager pb (\<lambda>h. Inr (g h)) chain)"
  unfolding http_chain_def UpdateHTTPConnectionManager_def by (auto intro!: update_total)

lemma tcp_update_total:
  "any_total pb \<Longrightarrow> tcp_chain pb cs chain \<Longrightarrow> succeeds (UpdateTCPProxy pb (\<lambda>t. Inr (g t)) chain)"
  unfolding tcp_chain_def UpdateTCPProxy_def by (auto intro!: update_total)

lemma append_total:
  assumes "any_total pb"
  shows "succeeds (HttpConnectionManager_Configure pb n chain)" and "succeeds (TcpProxy_Configure pb n clusters chain)"
    and "succeeds (PrometheusEndpoint_Configure pb n path cluster chain)"
    and "succeeds (NetworkRBAC_Configure pb n permission chain)"
  using assms
  by (auto simp: HttpConnectionManager_Configure_def TcpProxy_Configure_def PrometheusEndpoint_Configure_def
      NetworkRBAC_Configure_def createRbacFilter_def Let_def any_total_def intro!: succeeds_bindE)

lemma tls_total:
  assumes "any_total pb"
  shows "succeeds (CreateCommonTlsContext pb ctx md)" and "succeeds (ServerSideMTLS_Configure pb ctx md chain)"
    and "succeeds (CreateEdsCluster pb ctx n md)"
proof -
  have pack: "succeeds (pb_MarshalAny pb m)" for m using assms by (simp add: any_total_def)
  have "succeeds (withCallCredentials pb md g)" for g
    by (auto simp: withCallCredentials_def intro!: succeeds_bindE pack)
  then have "succeeds (sdsSecretConfig pb ctx name md)" for name
    unfolding sdsSecretConfig_def by (rule succeeds_bindE) (rule succeeds_intros)
  then show common: "succeeds (CreateCommonTlsContext pb ctx md)"
    by (auto simp: CreateCommonTlsContext_def intro!: succeeds_bindE)
  show "succeeds (ServerSideMTLS_Configure pb ctx md chain)"
    using common pack by (auto simp: ServerSideMTLS_Configure_def CreateDownstreamTlsContext_def
        intro!: succeeds_bindE split: option.splits)
  show "succeeds (CreateEdsCluster pb ctx n md)"
    using common pack by (auto simp: CreateEdsCluster_def CreateUpstreamTlsContext_def Let_def
        intro!: succeeds_bindE split: option.splits)
qed

text \<open>What the generators reject in a logging backend, a fault injection and a route.\<close>

definition log_ok :: "LoggingBackend option \<Rightarrow> bool" where
  "log_ok backend = (case backend of None \<Rightarrow> True | Some b \<Rightarrow>
     lb_Type b \<noteq> None \<and> (lb_Format b = '''' \<or> succeeds (ParseFormat (lb_Format b))))"

definition fault_ok :: "FaultInjection option \<Rightarrow> bool" where
  "fault_ok fault = (case fault of None \<Rightarrow> True | Some f \<Rightarrow>
     (case GetResponseBandwidth f of None \<Rightarrow> True | Some b \<Rightarrow>
        succeeds (ConvertBandwidthToKbps (case rb_Limit b of None \<Rightarrow> '''' | Some l \<Rightarrow> l))))"

definition route_ok :: "TrafficRouteResource option \<Rightarrow> bool" where
  "route_ok route = (case route of None \<Rightarrow> False | Some r \<Rightarrow>
     list_all (\<lambda>d. map_of (wd_Destination d) ServiceTag \<noteq> None) (tr_Conf (Spec r)))"

lemma fault_total:
  assumes "any_total pb" and "fault_ok fault" and "http_chain pb r chain"
  shows "succeeds (FaultInjection_Configure pb platform fault chain)"
  using assms
  by (auto simp: FaultInjection_Configure_def convertResponseRateLimit_def fault_ok_def any_total_def Let_def
      intro!: succeeds_bindE http_update_total [OF assms(1,3)] split: option.splits)

lemma tracing_total:
  "any_total pb \<Longrightarrow> http_chain pb r chain \<Longrightarrow> succeeds (Tracing_Configure pb tb chain)"
  by (auto simp: Tracing_Configure_def http_update_total split: option.splits)

lemma route_total:
  assumes "any_total pb" and "http_chain pb r chain"
  shows "succeeds (HttpInboundRoute_Configure pb service cluster chain)" and "succeeds (HttpOutboundRoute_Configure pb name chain)"
  using assms
  by (auto simp: HttpInboundRoute_Configure_def HttpOutboundRoute_Configure_def Let_def
      intro!: succeeds_bindE http_update_total) (simp add: route_builder_defs)

lemma log_total:
  assumes "any_total pb" and "log_ok (Some backend)" and "px_networking proxy \<noteq> None" and "succeeds (ParseFormat fmt)"
  shows "succeeds (convertLoggingBackend pb mesh src dst (Some backend) proxy fmt)"
proof -
  have "succeeds (GetIP (Some (px_Dataplane proxy)))"
    using assms(3) by (auto simp: GetIP_def px_networking_def split: sum.splits)
  moreover have "succeeds (ParseFormat (if lb_Format backend \<noteq> '''' then lb_Format backend else fmt))"
    using assms(2,4) by (auto simp: log_ok_def)
  ultimately show ?thesis
    using assms(1,2) by (auto simp: convertLoggingBackend_def fileAccessLog_def tcpAccessLog_def any_total_def log_ok_def Let_def
        intro!: succeeds_bindE split: option.splits LoggingType.splits)
qed

section \<open>The default log formats are accepted\<close>

text \<open>Whether a format string is accepted, read from left to right without positions.\<close>

function accepted_format :: "string \<Rightarrow> bool" where
  "accepted_format rest =
     (case rest of
        [] \<Rightarrow> True
      | c # cs \<Rightarrow>
          if c = CHR ''%''
          then (case match_command rest of
                  None \<Rightarrow> False
                | Some (token, command, args, limit) \<Rightarrow>
                    (case parseCommandOperator token command args limit of
                       Inl _ \<Rightarrow> False
                     | Inr _ \<Rightarrow> accepted_format (drop (length token) rest)))
          else accepted_format cs)"
  by pat_completeness auto
termination
  by (relation "measure length") (auto dest: match_command_token)

declare accepted_format.simps [simp del]

lemma parse_loop_accepts:
  "pos \<le> length format \<Longrightarrow> (\<exists>f. parse_loop format pos start frags = Inr f) \<longleftrightarrow> accepted_format (drop pos format)"
proof (induction format pos start frags rule: parse_loop.induct)
  case (1 format pos start frags)
  show ?case
  proof (cases "pos < length format")
    case False
    then show ?thesis using "1.prems" by (simp add: parse_loop.simps accepted_format.simps)
  next
    case lt: True
    then have tail: "drop pos format = format ! pos # drop (Suc pos) format" by (simp add: Cons_nth_drop_Suc)
    show ?thesis
    proof (cases "format ! pos = CHR ''%''")
      case True
      show ?thesis
      proof (cases "match_command (drop pos format)")
        case None
        then show ?thesis using lt True tail by (subst parse_loop.simps, subst accepted_format.simps) simp
      next
        case (Some m)
        obtain token command args limit where m: "m = (token, command, args, limit)" by (cases m)
        have "pos + length token \<le> length format"
          using match_command_inv [of "drop pos format" token command args limit] Some m lt
          by (metis append_eq_conv_conj drop_drop length_drop length_append le_add1 le_diff_conv2 add.commute less_imp_le)
        moreover have "drop (length token) (CHR ''%'' # drop (Suc pos) format) = drop (pos + length token) format"
          using tail True by (metis add.commute drop_drop)
        ultimately show ?thesis
          using lt True tail Some m "1.IH"(1) [OF lt True refl refl Some [unfolded m] refl refl refl]
          by (subst parse_loop.simps, subst accepted_format.simps)
            (auto simp: Let_def bindE_Inr add.commute split: sum.splits)
      qed
    next
      case False
      then show ?thesis using lt tail "1.IH"(2) [OF lt False] by (subst parse_loop.simps, subst accepted_format.simps) simp
    qed
  qed
qed

lemma ParseFormat_accepts: "accepted_format format \<Longrightarrow> succeeds (ParseFormat format)"
  using parse_loop_accepts [of 0 format] by (simp add: ParseFormat_def succeeds_def)

lemma default_network_format_parses: "succeeds (ParseFormat defaultNetworkAccessLogFormat)"
  by (rule ParseFormat_accepts) code_simp

lemma default_http_format_parses: "succeeds (ParseFormat defaultHttpAccessLogFormat)"
  by (rule ParseFormat_accepts) code_simp

section \<open>Every generator succeeds\<close>

text \<open>
  What the default profile needs of a proxy: its interfaces are well formed, every outbound has a
  route whose destinations name a service, every logging backend has a type and a format that
  parses, and every bandwidth limit of a fault injection can be converted.
\<close>

definition generatable :: "Proxy \<Rightarrow> bool" where
  "generatable proxy \<longleftrightarrow>
     px_networking proxy \<noteq> None \<and>
     succeeds (GetInboundInterfaces (px_networking proxy)) \<and>
     succeeds (GetOutboundInterfaces (px_networking proxy)) \<and>
     list_all (\<lambda>outbound. route_ok (map_of (px_TrafficRoutes proxy) (out_Service outbound)))
       (dp_GetOutbound (Spec (px_Dataplane proxy))) \<and>
     list_all (\<lambda>(service, backend). log_ok backend) (px_Logs proxy) \<and>
     list_all (\<lambda>(endpoint, fault). fault_ok (Some fault)) (px_FaultInjections proxy)"

lemma generatable_parts:
  assumes "generatable proxy"
  shows "log_ok (px_log proxy service)" and "fault_ok (map_of (px_FaultInjections proxy) endpoint)"
proof -
  have none: "log_ok None" "fault_ok None" by (simp_all add: log_ok_def fault_ok_def)
  show "log_ok (px_log proxy service)"
    using assms none by (auto simp: generatable_def px_log_def list_all_iff split: option.splits dest!: map_of_SomeD)
  show "fault_ok (map_of (px_FaultInjections proxy) endpoint)"
    using assms none by (cases "map_of (px_FaultInjections proxy) endpoint")
      (auto simp: generatable_def list_all_iff dest!: map_of_SomeD)
qed

text \<open>The hypotheses that the lemmas below share.\<close>

definition ready :: "'a GeneratorLib \<Rightarrow> Proxy \<Rightarrow> bool" where
  "ready lib proxy \<longleftrightarrow> any_roundtrip (gl_Codec lib) \<and> any_total (gl_Codec lib) \<and> generatable proxy"

lemma ready_parts:
  assumes "ready lib proxy"
  shows "any_roundtrip (gl_Codec lib)" and "any_total (gl_Codec lib)" and "generatable proxy"
    and "px_networking proxy \<noteq> None"
  using assms by (auto simp: ready_def generatable_def)

lemma build_chain_Cons:
  assumes "succeeds (c s)" and "\<And>t. c s = Inr t \<Longrightarrow> succeeds (foldE (\<lambda>c m. c m) cs t)"
  shows "succeeds (foldE (\<lambda>c m. c m) (c # cs) s)"
  using assms by (simp add: succeeds_bindE)

lemma inbound_forwarding_total:
  assumes "ready lib proxy"
  shows "succeeds (FilterChainBuilder_Build (inbound_forwarding lib proxy endpoint iface))"
proof -
  note rt = ready_parts(1) [OF assms] and total = ready_parts(2) [OF assms]
  show ?thesis
    unfolding FilterChainBuilder_Build_def inbound_forwarding_def Let_def
    using generatable_parts(2) [OF ready_parts(3) [OF assms], of endpoint]
    by (auto intro!: build_chain_Cons append_total [OF total] fault_total [OF total] tracing_total [OF total]
        route_total [OF total] simp del: foldE.simps(2)
        dest: HttpConnectionManager_chain [OF rt] http_chain_configure(1,2) [OF rt, rotated])
qed

lemma inbound_chain_total:
  assumes "ready lib proxy"
  shows "succeeds (FilterChainBuilder_Build (inbound_filter_chain lib ctx proxy endpoint iface))"
proof -
  note total = ready_parts(2) [OF assms]
  show ?thesis
    using inbound_forwarding_total [OF assms, of endpoint iface]
    unfolding FilterChainBuilder_Build_def inbound_filter_chain_split foldE_append
    by (intro succeeds_bindE) (auto intro!: succeeds_bindE tls_total [OF total] append_total [OF total])
qed

lemma access_log_total:
  assumes "ready lib proxy" and "px_log proxy service = Some backend"
  shows "http_chain (gl_Codec lib) r chain \<Longrightarrow> succeeds (HttpAccessLog_Configure (gl_Codec lib) mesh src dst backend proxy chain)"
    and "tcp_chain (gl_Codec lib) cs chain \<Longrightarrow> succeeds (NetworkAccessLog_Configure (gl_Codec lib) mesh src dst backend proxy chain)"
proof -
  note total = ready_parts(2) [OF assms(1)]
  have log: "succeeds (convertLoggingBackend (gl_Codec lib) mesh src dst (Some backend) proxy fmt)"
    if "succeeds (ParseFormat fmt)" for fmt
    by (rule log_total [OF total _ ready_parts(4) [OF assms(1)] that])
      (metis assms(2) generatable_parts(1) ready_parts(3) [OF assms(1)])
  show "http_chain (gl_Codec lib) r chain \<Longrightarrow> succeeds (HttpAccessLog_Configure (gl_Codec lib) mesh src dst backend proxy chain)"
    unfolding HttpAccessLog_Configure_def
    by (intro succeeds_bindE log default_http_format_parses http_update_total [OF total])
  show "tcp_chain (gl_Codec lib) cs chain \<Longrightarrow> succeeds (NetworkAccessLog_Configure (gl_Codec lib) mesh src dst backend proxy chain)"
    unfolding NetworkAccessLog_Configure_def
    by (intro succeeds_bindE log default_network_format_parses tcp_update_total [OF total])
qed

lemma outbound_chain_total:
  assumes "ready lib proxy"
  shows "succeeds (FilterChainBuilder_Build (outbound_filter_chain lib ctx proxy service protocol clusters))"
proof -
  note rt = ready_parts(1) [OF assms] and total = ready_parts(2) [OF assms]
  show ?thesis
    unfolding outbound_filter_chain_def chain_opts Let_def
    by (auto intro!: build_chain_Cons append_total [OF total] tracing_total [OF total] access_log_total [OF assms]
        route_total [OF total] simp del: foldE.simps(2) split: option.splits
        dest: HttpConnectionManager_chain [OF rt] TcpProxy_chain [OF rt] http_chain_configure(2,3) [OF rt, rotated])
qed

lemma listener_total:
  assumes "succeeds (FilterChainBuilder_Build chain)"
  shows "succeeds (ListenerBuilder_Build (ListenerBuilder_Configure
      [OutboundListener name address port, FilterChainOpt chain, OriginalDstForwarder]))"
    and "succeeds (ListenerBuilder_Build (ListenerBuilder_Configure
      [OutboundListener name address port, FilterChainOpt chain, TransparentProxying tp]))"
    and "succeeds (ListenerBuilder_Build (ListenerBuilder_Configure
      [InboundListener name address port, FilterChainOpt chain, TransparentProxying tp]))"
  using assms by (auto simp: listener_opts Let_def intro!: succeeds_bindE)

lemma inbound_generator_total:
  assumes "ready lib proxy"
  shows "succeeds (InboundProxyGenerator lib ctx proxy)"
proof -
  have step: "succeeds (inbound_step lib ctx proxy networking i endpoint s)" for networking i endpoint s
    unfolding inbound_step_def Let_def inbound_listener_def
    by (rule succeeds_bindE) (simp_all add: listener_total inbound_chain_total [OF assms] del: rs_Add.simps)
  have "succeeds (GetInboundInterfaces (px_networking proxy))"
    using ready_parts(3) [OF assms] by (simp add: generatable_def)
  then show ?thesis
    by (auto simp: InboundProxyGenerator_def intro!: succeeds_bindE succeeds_range_loop step split: option.splits)
qed

lemma eds_total:
  assumes "ready lib proxy"
  shows "succeeds (generateEds lib ctx proxy clusters)"
  unfolding generateEds_def
  by (rule succeeds_foldE)
    (auto simp: eds_step_def Let_def intro!: succeeds_bindE tls_total(3) [OF ready_parts(2) [OF assms]])

lemma rds_total: "succeeds (generateRds lib protocol service name clusters tags)"
  unfolding generateRds_def
  by (auto intro!: succeeds_bindE simp del: rs_Add.simps) (simp add: route_builder_defs)

lemma clusters_total: "route_ok (Some route) \<Longrightarrow> succeeds (determineClusters route)"
  unfolding determineClusters_def
  by (rule succeeds_range_loop) (auto simp: route_ok_def route_destination_step_def list_all_length split: option.splits)

lemma outbound_step_total:
  assumes "ready lib proxy" and "route_ok (map_of (px_TrafficRoutes proxy) (out_Service outbound))"
  shows "succeeds (outbound_step lib ctx proxy ofaces i outbound s)"
proof -
  obtain route where route: "map_of (px_TrafficRoutes proxy) (out_Service outbound) = Some route" "route_ok (Some route)"
    using assms(2) by (cases "map_of (px_TrafficRoutes proxy) (out_Service outbound)") (simp_all add: route_ok_def)
  show ?thesis
    unfolding outbound_step_def route(1) option.case Let_def outbound_listener_def
    by (auto intro!: succeeds_bindE clusters_total [OF route(2)] eds_total [OF assms(1)] rds_total listener_total
        outbound_chain_total [OF assms(1)] simp del: rs_Add.simps)
qed

lemma outbound_generator_total:
  assumes "ready lib proxy"
  shows "succeeds (OutboundProxyGenerator lib ctx proxy)"
proof -
  have gen: "succeeds (GetOutboundInterfaces (px_networking proxy))"
    and routes: "\<And>outbound. outbound \<in> set (dp_GetOutbound (Spec (px_Dataplane proxy))) \<Longrightarrow>
      route_ok (map_of (px_TrafficRoutes proxy) (out_Service outbound))"
    using ready_parts(3) [OF assms] by (simp_all add: generatable_def list_all_iff)
  show ?thesis
    unfolding OutboundProxyGenerator_def Let_def
    by (auto intro!: succeeds_bindE gen succeeds_range_loop outbound_step_total [OF assms] routes)
qed

lemma transparent_generator_total:
  assumes "ready lib proxy"
  shows "succeeds (TransparentProxyGenerator lib ctx proxy)"
proof -
  note rt = ready_parts(1) [OF assms] and total = ready_parts(2) [OF assms]
  let ?clusters = "[\<lparr>ci_Name = ''pass_through'', ci_Weight = 0, ci_Tags = []\<rparr>]"
  have chain: "succeeds (FilterChainBuilder_Build (FilterChainBuilder_Configure
      [TcpProxy (gl_Codec lib) ''pass_through'' ?clusters,
       NetworkAccessLog (gl_Codec lib) mesh src dst (px_log proxy PassThroughService) proxy]))" for mesh src dst
    unfolding chain_opts
    by (auto intro!: build_chain_Cons append_total [OF total] access_log_total [OF assms] simp del: foldE.simps(2)
        split: option.splits dest: TcpProxy_chain [OF rt])
  show ?thesis
    unfolding TransparentProxyGenerator_def Let_def
    using listener_total(1) [OF chain] by (auto intro!: succeeds_bindE simp del: sort_key_simps)
qed

lemma prometheus_generator_total:
  assumes "ready lib proxy"
  shows "succeeds (PrometheusEndpointGenerator lib ctx proxy)"
proof -
  note total = ready_parts(2) [OF assms]
  have "succeeds (FilterChainBuilder_Build (FilterChainBuilder_Configure
      [PrometheusEndpoint (gl_Codec lib) name path cluster]))" for name path cluster
    unfolding chain_opts by (auto intro!: build_chain_Cons append_total [OF total] simp del: foldE.simps(2))
  then show ?thesis
    unfolding PrometheusEndpointGenerator_def Let_def
    by (auto intro!: succeeds_bindE listener_total split: option.splits)
qed

lemma default_profile_total:
  assumes "any_roundtrip (gl_Codec lib)" and "any_total (gl_Codec lib)" and "generatable proxy"
  shows "succeeds (NewDefaultProxyProfile lib ctx proxy)"
proof -
  have ready: "ready lib proxy" using assms by (simp add: ready_def)
  show ?thesis
    unfolding NewDefaultProxyProfile_def CompositeResourceGenerator_def
    by (rule succeeds_foldE)
      (auto intro!: succeeds_bindE prometheus_generator_total [OF ready] transparent_generator_total [OF ready]
        inbound_generator_total [OF ready] outbound_generator_total [OF ready])
qed

text \<open>Validated resources can be generated.\<close>

lemma validate_conf_loop_Nil:
  "validate_conf_loop i ds err = [] \<Longrightarrow> err = [] \<and> (\<forall>d \<in> set ds. map_of (wd_Destination d) ServiceTag \<noteq> None)"
  by (induction i ds err rule: validate_conf_loop.induct)
    (auto simp: ValidateSelector_Nil no_opts_def map_of_eq_None_iff)

lemma validated_route_ok: "TrafficRoute_Validate r = None \<Longrightarrow> route_ok (Some r)"
  by (auto simp: TrafficRoute_Validate_def TrafficRoute_validateConf_def route_ok_def list_all_iff
      dest!: validate_conf_loop_Nil)

lemma implicit_route_ok: "route_ok (Some (implicit_route now service))"
  by (simp add: route_ok_def implicit_route_def MatchService_def)

lemma built_routes_ok:
  assumes "distinct (map res_name routes)" and "\<forall>r \<in> set routes. TrafficRoute_Validate r = None"
    and "outbound \<in> set (dp_GetOutbound (Spec d))"
  shows "route_ok (map_of (BuildRouteMap now d routes) (out_Service outbound))"
proof -
  have "map_of (BuildRouteMap now d routes) (out_Service outbound) \<noteq> None"
    using assms(3) unfolding BuildRouteMap_eq map_of_fold_gput by simp
  then obtain r where r: "map_of (BuildRouteMap now d routes) (out_Service outbound) = Some r" by blast
  have "r \<in> set routes" if "TrafficRoute_policy r \<in> set (map TrafficRoute_policy routes)"
    using that by (metis (no_types, lifting) image_iff policy_views(2) set_map)
  with r have "r \<in> set routes \<or> r = implicit_route now (out_Service outbound)"
    using route_map_entry [OF assms(1), of now d "out_Service outbound" r] chosen_member by blast
  then show ?thesis using assms(2) validated_route_ok implicit_route_ok by (auto simp: r)
qed

lemma log_ok_none: "log_ok None"
  by (simp add: log_ok_def)

lemma validated_log_ok: "validateLoggingBackend b = [] \<Longrightarrow> lb_Type b \<noteq> None \<Longrightarrow> log_ok (Some b)"
  using validateLoggingBackend_format [of b] by (simp add: log_ok_def ValidateFormat_None succeeds_def)

lemma validated_interfaces:
  assumes "Dataplane_Validate (px_Dataplane proxy) = None"
  shows "px_networking proxy \<noteq> None" and "succeeds (GetInboundInterfaces (px_networking proxy))"
    and "succeeds (GetOutboundInterfaces (px_networking proxy))"
proof -
  obtain n where n: "px_networking proxy = Some n" and ins: "succeeds (GetInboundInterfaces (Some n))"
    and outs: "\<forall>b \<in> set (net_Outbound n). validateOutbound b = []"
    using validated_networking [OF assms] unfolding px_networking_def succeeds_def by blast
  have "\<forall>b \<in> set (net_Outbound n). \<exists>y. outbound_iface b = Inr y \<and> True" using outs validateOutbound_Nil by blast
  from mapE_total [OF this] have "succeeds (GetOutboundInterfaces (Some n))"
    by (simp add: GetOutboundInterfaces_def succeeds_def)
  then show "px_networking proxy \<noteq> None" and "succeeds (GetInboundInterfaces (px_networking proxy))"
    and "succeeds (GetOutboundInterfaces (px_networking proxy))" using n ins by simp_all
qed

text \<open>
  C5. Generation succeeds on validated resources.  When packing of messages does not fail, the
  default profile produces a configuration for every proxy whose dataplane passes validation, whose
  routes were built by \<open>BuildRouteMap\<close> from routes that pass validation, whose logging backends pass
  validation and have a type, and whose fault injections have bandwidth limits that can be
  converted.  The last two conditions are not implied by validation.
\<close>

theorem generation_succeeds:
  assumes "any_roundtrip (gl_Codec lib)" and "any_total (gl_Codec lib)"
    and "Dataplane_Validate (px_Dataplane proxy) = None"
    and "px_TrafficRoutes proxy = BuildRouteMap now (px_Dataplane proxy) routes"
    and "distinct (map res_name routes)" and "\<forall>r \<in> set routes. TrafficRoute_Validate r = None"
    and "\<forall>(service, backend) \<in> set (px_Logs proxy). \<forall>b. backend = Some b \<longrightarrow>
      validateLoggingBackend b = [] \<and> lb_Type b \<noteq> None"
    and "\<forall>(endpoint, fault) \<in> set (px_FaultInjections proxy). \<forall>b. GetResponseBandwidth fault = Some b \<longrightarrow>
      (\<exists>kbps. ConvertBandwidthToKbps (case rb_Limit b of None \<Rightarrow> '''' | Some l \<Rightarrow> l) = Inr kbps)"
  shows "\<exists>rs. NewDefaultProxyProfile lib ctx proxy = Inr rs"
proof -
  have "log_ok backend" if "(service, backend) \<in> set (px_Logs proxy)" for service backend
    using bspec [OF assms(7) that] by (cases backend) (simp_all add: validated_log_ok log_ok_none)
  moreover have "fault_ok (Some fault)" if "(endpoint, fault) \<in> set (px_FaultInjections proxy)" for endpoint fault
    using bspec [OF assms(8) that] by (auto simp: fault_ok_def succeeds_def split: option.split)
  ultimately have "generatable proxy"
    unfolding generatable_def list_all_iff assms(4)
    using validated_interfaces [OF assms(3)] built_routes_ok [OF assms(5,6)] by blast
  from default_profile_total [OF assms(1,2) this] show ?thesis by (simp add: succeeds_def)
qed

section \<open>The properties on the example\<close>

lemma example_codec [simp]: "any_roundtrip (gl_Codec example_lib)" "any_total (gl_Codec example_lib)"
  by (simp_all add: wrapping_codec_roundtrip wrapping_codec_total)

lemma example_dataplane_validates: "Dataplane_Validate (px_Dataplane example_proxy) = None"
  by code_simp

lemma example_routes: "px_TrafficRoutes example_proxy = BuildRouteMap 0 (px_Dataplane example_proxy) []"
  by code_simp

lemma example_others [simp]: "px_Logs example_proxy = []" "px_FaultInjections example_proxy = []"
  by (simp_all add: example_proxy_def)

theorem generation_succeeds_witness:
  "\<exists>rs. NewDefaultProxyProfile example_lib example_context example_proxy = Inr rs"
  using generation_succeeds [OF example_codec example_dataplane_validates example_routes, of example_context] by simp

lemma example_generatable: "generatable example_proxy"
proof -
  have "route_ok (map_of (px_TrafficRoutes example_proxy) (out_Service outbound))"
    if "outbound \<in> set (dp_GetOutbound (Spec (px_Dataplane example_proxy)))" for outbound
    using built_routes_ok [OF _ _ that, of "[]" 0] example_routes by simp
  then show ?thesis
    using validated_interfaces [OF example_dataplane_validates] by (auto simp: generatable_def list_all_iff)
qed

lemma example_ready: "ready example_lib example_proxy"
  using example_codec example_generatable by (simp add: ready_def)

lemma example_results:
  "\<exists>rs. NewDefaultProxyProfile example_lib example_context example_proxy = Inr rs"
  "\<exists>rs. InboundProxyGenerator example_lib example_context example_proxy = Inr rs"
  "\<exists>rs. OutboundProxyGenerator example_lib example_context example_proxy = Inr rs"
  using default_profile_total [OF example_codec example_generatable] inbound_generator_total [OF example_ready]
    outbound_generator_total [OF example_ready] unfolding succeeds_def by blast+


lemma example_destination: "destination_of example_proxy ''backend'' [(''service'', ''backend'')]"
  by (simp add: destination_of_def example_proxy_def dp_GetOutbound_def example_dataplane_def implicit_route_def
      MatchService_def ServiceTag_def)

theorem load_assignments_hold_matching_targets_witness:
  "\<exists>rs. OutboundProxyGenerator example_lib example_context example_proxy = Inr rs \<and>
     (EdsKind, GetDestinationClusterName ''backend'' [(''service'', ''backend'')]) \<in> provided rs"
  using example_results(3) example_destination
    load_assignments_hold_matching_targets [OF example_codec(1) example_lib_facts(2), of example_context example_proxy]
  by blast

lemma example_interface:
  "GetInboundInterfaces (dp_Networking (Spec (px_Dataplane example_proxy))) =
     Inr [\<lparr>ii_DataplaneIP = ''192.168.0.1'', ii_DataplanePort = 8080, ii_WorkloadPort = 80\<rparr>]"
  by code_simp

lemma example_inbound_listener:
  assumes "InboundProxyGenerator example_lib example_context example_proxy = Inr rs"
  shows "\<exists>r l. r \<in> set rs \<and> xr_Resource r = ListenerResource l"
proof -
  obtain networking endpoint s where "rs = rs_resources s"
    and "inbound_step example_lib example_context example_proxy networking 0 endpoint empty_ResourceSet = Inr s"
    using assms validated_interfaces(1) [OF example_dataplane_validates]
    by (auto simp: InboundProxyGenerator_def px_networking_def example_interface range_loop_def rs_List_def
        bindE_Inr split: option.splits)
  then obtain new where new: "rs = rs_resources (rs_Add (gl_MessageName example_lib) new empty_ResourceSet)"
    and kinds: "LdsKind \<in> fst ` provided new"
    unfolding inbound_step_def Let_def bindE_Inr wrap_err_Inr rs_Add_append by fastforce
  have "provided rs = provided new"
    unfolding new by (rule provided_keys [OF example_lib_facts(2)])
      (use rs_Add_sets(4) [of "gl_MessageName example_lib" empty_ResourceSet new] set_ok_empty [of example_lib] in
        \<open>simp add: set_ok_def empty_ResourceSet_def del: rs_Add.simps\<close>)
  with kinds have "LdsKind \<in> fst ` provided rs" by simp
  then obtain r where "r \<in> set rs" "kind_of (xr_Resource r) = LdsKind" by (auto simp: provided_def)
  then show ?thesis by (cases "xr_Resource r") auto
qed

theorem inbound_listeners_are_guarded_witness:
  "\<exists>rs r l chain. InboundProxyGenerator example_lib example_context example_proxy = Inr rs \<and> r \<in> set rs \<and>
     xr_Resource r = ListenerResource l \<and> ls_Address l = Some (''192.168.0.1'', 8080) \<and> ls_FilterChains l = [chain] \<and>
     guarded_by wrapping_codec (Some example_permission) chain"
proof -
  obtain rs where rs: "InboundProxyGenerator example_lib example_context example_proxy = Inr rs" using example_results(2) by blast
  obtain r l where r: "r \<in> set rs" "xr_Resource r = ListenerResource l" using example_inbound_listener [OF rs] by blast
  have mtls: "MTLSEnabled (Some (ctx_Mesh example_context))" by code_simp
  have "map_of (px_TrafficPermissions example_proxy)
      \<lparr>ii_DataplaneIP = ''192.168.0.1'', ii_DataplanePort = 8080, ii_WorkloadPort = 80\<rparr> = Some example_permission"
    by (simp add: example_proxy_def)
  then show ?thesis
    using inbound_listeners_are_guarded [OF example_codec(1) mtls rs r] rs r example_interface by fastforce
qed

end
