(* ===== verification/Snapshot_Reconciler.thy ===== *)
theory Snapshot_Reconciler
  imports Proxy_Generator Snapshot_Cache
begin

text \<open>
  From a proxy to the snapshot that its Envoy is served (\<open>pkg/xds/server/reconcile.go\<close>,
  \<open>proxy_template_resolver.go\<close> and \<open>pkg/xds/template\<close>): the template of a proxy, the snapshot generated
  from it, the reuse of versions and the reconciler behind the tick of \<open>Proxy_Sync\<close>.  The snapshot
  cache belongs to Envoy's control plane library and is a parameter, with the contract of a locale
  that the cache of \<open>pkg/util/xds\<close> fulfils.  The properties say that a stored snapshot is closed, that
  its versions change exactly with the resources, and that reconciling again changes nothing.
\<close>

section \<open>The template of a proxy\<close>

fun as_ProxyTemplate :: "ResourceSpec \<Rightarrow> ProxyTemplate option" where
  "as_ProxyTemplate (ProxyTemplateSpec s) = Some s" | "as_ProxyTemplate _ = None"

definition DefaultProxyTemplate :: ProxyTemplate where
  "DefaultProxyTemplate =
     \<lparr>pt_Selectors = [], pt_Conf = Some \<lparr>ptc_Imports = [ProfileDefaultProxy], ptc_Resources = []\<rparr>\<rparr>"

text \<open>When the templates cannot be listed the result is \<open>nil\<close>, not the default; a panic passes through.\<close>

definition GetTemplate ::
  "ReadOnlyResourceManager \<Rightarrow> ProxyTemplate option \<Rightarrow> Proxy \<Rightarrow> go_error + ProxyTemplate option" where
  "GetTemplate manager defaultTemplate proxy =
     bindE (dataplane_mesh (px_Dataplane proxy)) (\<lambda>mesh.
     case list_in_mesh as_ProxyTemplate ''ProxyTemplate'' manager mesh of
       Inl (ErrPanic p) \<Rightarrow> Inl (ErrPanic p)
     | Inl err \<Rightarrow> Inr None
     | Inr templates \<Rightarrow>
         bindE (SelectDataplanePolicy (Spec (px_Dataplane proxy)) (map ProxyTemplate_policy templates))
           (\<lambda>best. Inr (case best of
               Some bestMatchTemplate \<Rightarrow> Some (Spec (pol_Resource bestMatchTemplate))
             | None \<Rightarrow> defaultTemplate)))"

section \<open>Snapshots\<close>

text \<open>
  The snapshot of Envoy's control plane library: one versioned set of resources per type.  What the
  code uses of that library and of protobuf: \<open>NewResources\<close>, \<open>proto.Equal\<close> and the three operations of
  the snapshot cache, over its state \<open>'w\<close>.  \<open>Snapshot.Consistent\<close> is called only to write a log line.
\<close>

record 'r EnvoySnapshot =
  es_Endpoints :: "'r CacheResources"
  es_Clusters :: "'r CacheResources"
  es_Routes :: "'r CacheResources"
  es_Listeners :: "'r CacheResources"
  es_Secrets :: "'r CacheResources"

record ('r, 'w) EnvoyCacheLib =
  ec_NewResources :: "string \<Rightarrow> 'r list \<Rightarrow> 'r CacheResources"
  ec_Equal :: "'r \<Rightarrow> 'r \<Rightarrow> bool"
  ec_GetSnapshot :: "string \<Rightarrow> 'w \<Rightarrow> go_error + 'r EnvoySnapshot"
  ec_SetSnapshot :: "string \<Rightarrow> 'r EnvoySnapshot \<Rightarrow> 'w \<Rightarrow> go_error option \<times> 'w"
  ec_ClearSnapshot :: "string \<Rightarrow> 'w \<Rightarrow> 'w"

definition empty_Resources :: "'r CacheResources" where
  "empty_Resources = \<lparr>cr_Version = '''', cr_Items = []\<rparr>"

definition empty_Snapshot :: "'r EnvoySnapshot" where
  "empty_Snapshot =
     \<lparr>es_Endpoints = empty_Resources, es_Clusters = empty_Resources, es_Routes = empty_Resources,
      es_Listeners = empty_Resources, es_Secrets = empty_Resources\<rparr>"

text \<open>The loop that sorts resources by their type, in order.\<close>

definition of_kind :: "XdsKind \<Rightarrow> 'a resources \<Rightarrow> 'a EnvoyResource list" where
  "of_kind k rs = filter (\<lambda>r. kind_of r = k) (map xr_Resource rs)"

definition snapshot_of :: "('a EnvoyResource, 'w) EnvoyCacheLib \<Rightarrow> 'a resources \<Rightarrow> 'a EnvoyResource EnvoySnapshot" where
  "snapshot_of cl rs =
     (let version = '''' in
      \<lparr>es_Endpoints = ec_NewResources cl version (of_kind EdsKind rs),
       es_Clusters = ec_NewResources cl version (of_kind CdsKind rs),
       es_Routes = ec_NewResources cl version (of_kind RdsKind rs),
       es_Listeners = ec_NewResources cl version (of_kind LdsKind rs),
       es_Secrets = ec_NewResources cl version (of_kind SdsKind rs)\<rparr>)"

definition GenerateSnapshot ::
  "'a GeneratorLib \<Rightarrow> ('a EnvoyResource, 'w) EnvoyCacheLib \<Rightarrow> ReadOnlyResourceManager \<Rightarrow> ProxyTemplate option \<Rightarrow>
   ControlPlaneContext Context \<Rightarrow> Proxy \<Rightarrow> go_error + 'a EnvoyResource EnvoySnapshot" where
  "GenerateSnapshot lib cl manager defaultTemplate ctx proxy =
     bindE (GetTemplate manager defaultTemplate proxy) (\<lambda>template.
     bindE (TemplateProxyGenerator lib template ctx proxy) (\<lambda>rs.
     Inr (snapshot_of cl rs)))"

section \<open>Versions\<close>

definition equalSnapshots :: "('r \<Rightarrow> 'r \<Rightarrow> bool) \<Rightarrow> (string, 'r) gomap \<Rightarrow> (string, 'r) gomap \<Rightarrow> bool" where
  "equalSnapshots proto_Equal old new \<longleftrightarrow>
     length new = length old \<and>
     list_all (\<lambda>(key, newValue).
       case map_of old key of None \<Rightarrow> False | Some oldValue \<Rightarrow> proto_Equal newValue oldValue) new"

text \<open>\<open>uuid\<close> is what the call of \<open>newUUID\<close> returns, if it is made.\<close>

definition reuseVersion ::
  "('r \<Rightarrow> 'r \<Rightarrow> bool) \<Rightarrow> string \<Rightarrow> 'r CacheResources \<Rightarrow> 'r CacheResources \<Rightarrow> 'r CacheResources" where
  "reuseVersion proto_Equal uuid old new =
     (let new = new\<lparr>cr_Version := cr_Version old\<rparr> in
      if \<not> equalSnapshots proto_Equal (cr_Items old) (cr_Items new) then new\<lparr>cr_Version := uuid\<rparr> else new)"

definition autoVersion ::
  "('r \<Rightarrow> 'r \<Rightarrow> bool) \<Rightarrow> (nat \<Rightarrow> string) \<Rightarrow> 'r EnvoySnapshot \<Rightarrow> 'r EnvoySnapshot \<Rightarrow> 'r EnvoySnapshot" where
  "autoVersion proto_Equal uuids old new =
     (let new = new\<lparr>es_Listeners := reuseVersion proto_Equal (uuids 0) (es_Listeners old) (es_Listeners new)\<rparr>;
          new = new\<lparr>es_Routes := reuseVersion proto_Equal (uuids 1) (es_Routes old) (es_Routes new)\<rparr>;
          new = new\<lparr>es_Clusters := reuseVersion proto_Equal (uuids 2) (es_Clusters old) (es_Clusters new)\<rparr>;
          new = new\<lparr>es_Endpoints := reuseVersion proto_Equal (uuids 3) (es_Endpoints old) (es_Endpoints new)\<rparr>
      in new\<lparr>es_Secrets := reuseVersion proto_Equal (uuids 4) (es_Secrets old) (es_Secrets new)\<rparr>)"

section \<open>The reconciler\<close>

definition proxy_node :: "ProxyId \<Rightarrow> Node" where
  "proxy_node pid = \<lparr>node_Id = ProxyId_String pid, node_Metadata = None\<rparr>"

definition cacher_Get :: "('r, 'w) EnvoyCacheLib \<Rightarrow> Node \<Rightarrow> 'w \<Rightarrow> go_error + 'r EnvoySnapshot" where
  "cacher_Get cl node w = ec_GetSnapshot cl (hasher_ID (Some node)) w"

definition cacher_Cache ::
  "('r, 'w) EnvoyCacheLib \<Rightarrow> Node \<Rightarrow> 'r EnvoySnapshot \<Rightarrow> 'w \<Rightarrow> go_error option \<times> 'w" where
  "cacher_Cache cl node snapshot w = ec_SetSnapshot cl (hasher_ID (Some node)) snapshot w"

definition cacher_Clear :: "('r, 'w) EnvoyCacheLib \<Rightarrow> Node \<Rightarrow> 'w \<Rightarrow> 'w" where
  "cacher_Clear cl node w = ec_ClearSnapshot cl (hasher_ID (Some node)) w"

definition reconciler_Clear :: "('r, 'w) EnvoyCacheLib \<Rightarrow> ProxyId \<Rightarrow> 'w \<Rightarrow> go_error option \<times> 'w" where
  "reconciler_Clear cl proxyId w = cacher_Cache cl (proxy_node proxyId) empty_Snapshot w"

text \<open>An error of the cache is only logged.\<close>

definition reconciler_Reconcile ::
  "(ControlPlaneContext Context \<Rightarrow> Proxy \<Rightarrow> go_error + 'r EnvoySnapshot) \<Rightarrow> ('r, 'w) EnvoyCacheLib \<Rightarrow> (nat \<Rightarrow> string) \<Rightarrow>
   ControlPlaneContext Context \<Rightarrow> Proxy \<Rightarrow> 'w \<Rightarrow> go_error option \<times> 'w" where
  "reconciler_Reconcile generate cl uuids ctx proxy w =
     (let node = proxy_node (px_Id proxy) in
      case generate ctx proxy of
        Inl err \<Rightarrow> (Some err, w)
      | Inr snapshot \<Rightarrow>
          (let previous = (case cacher_Get cl node w of Inl _ \<Rightarrow> empty_Snapshot | Inr s \<Rightarrow> s);
               snapshot = autoVersion (ec_Equal cl) uuids previous snapshot
           in case cacher_Cache cl node snapshot w of (err, w) \<Rightarrow> (None, w)))"

definition DefaultReconciler ::
  "'a GeneratorLib \<Rightarrow> ('a EnvoyResource, 'w) EnvoyCacheLib \<Rightarrow> ReadOnlyResourceManager \<Rightarrow> (nat \<Rightarrow> string) \<Rightarrow>
   (ControlPlaneContext, 'w) SnapshotReconciler" where
  "DefaultReconciler lib cl manager uuids =
     \<lparr>sr_Reconcile = reconciler_Reconcile (GenerateSnapshot lib cl manager (Some DefaultProxyTemplate)) cl uuids,
      sr_Clear = reconciler_Clear cl\<rparr>"

section \<open>The contract of a snapshot cache\<close>

text \<open>What the reconciler relies on: a snapshot that was accepted is the one that is found, and no other node is affected.\<close>

locale snapshot_store =
  fixes get_snapshot :: "string \<Rightarrow> 'w \<Rightarrow> go_error + 'snap"
    and set_snapshot :: "string \<Rightarrow> 'snap \<Rightarrow> 'w \<Rightarrow> go_error option \<times> 'w"
  assumes get_set: "set_snapshot node s w = (None, w') \<Longrightarrow>
    get_snapshot node' w' = (if node' = node then Inr s else get_snapshot node' w)"
begin

lemma get_same: "set_snapshot node s w = (None, w') \<Longrightarrow> get_snapshot node w' = Inr s"
  by (simp add: get_set)

lemma get_other: "set_snapshot node s w = (None, w') \<Longrightarrow> node' \<noteq> node \<Longrightarrow> get_snapshot node' w' = get_snapshot node' w"
  by (simp add: get_set)

end

text \<open>The cache of \<open>pkg/util/xds\<close> fulfils it; a send that would block is reported and changes nothing.\<close>

definition cache_store ::
  "('snap, 'r) SnapshotOps \<Rightarrow> string \<Rightarrow> 'snap \<Rightarrow> ('snap, 'r) snapshotCache \<Rightarrow> go_error option \<times> ('snap, 'r) snapshotCache" where
  "cache_store ops node snapshot cache =
     (case SetSnapshot ops node snapshot cache of Inl err \<Rightarrow> (Some err, cache) | Inr cache' \<Rightarrow> (None, cache'))"

interpretation util_cache: snapshot_store GetSnapshot "cache_store ops" for ops
proof unfold_locales
  fix node s w w' node' assume "cache_store ops node s w = (None, w')"
  then have "SetSnapshot ops node s w = Inr w'" by (auto simp: cache_store_def split: sum.splits)
  then have "sc_snapshots w' = gput node s (sc_snapshots w)"
    by (auto simp: SetSnapshot_def Let_def bindE_Inr split: option.splits)
  then show "GetSnapshot node' w' = (if node' = node then Inr s else GetSnapshot node' w)"
    by (simp add: GetSnapshot_def map_of_gput)
qed

section \<open>What a snapshot holds\<close>

text \<open>\<open>GetResourceName\<close> of Envoy's control plane library, and \<open>NewResources\<close>, which indexes by it.\<close>

fun resource_name :: "'a EnvoyResource \<Rightarrow> string" where
  "resource_name (ListenerResource l) = ls_Name l"
| "resource_name (RouteResource rc) = rc_Name rc"
| "resource_name (ClusterResource c) = cl_Name c"
| "resource_name (EndpointResource cla) = cla_ClusterName cla"
| "resource_name (SecretResource n) = n"
| "resource_name (OtherResource n) = ''''"

definition index_resources :: "string \<Rightarrow> 'a EnvoyResource list \<Rightarrow> 'a EnvoyResource CacheResources" where
  "index_resources version rs = \<lparr>cr_Version = version, cr_Items = fold (\<lambda>r. gput (resource_name r) r) rs []\<rparr>"

definition indexes_by_name :: "('a EnvoyResource, 'w) EnvoyCacheLib \<Rightarrow> bool" where
  "indexes_by_name cl = (\<forall>version rs. ec_NewResources cl version rs = index_resources version rs)"

lemma wf_map_fold_gput: "wf_map m \<Longrightarrow> wf_map (fold (\<lambda>r. gput (f r) r) rs m)"
  by (induction rs arbitrary: m) simp_all

lemma index_resources_items:
  "map_of (cr_Items (index_resources version rs)) k = Some r \<Longrightarrow> r \<in> set rs \<and> resource_name r = k"
  "r \<in> set rs \<Longrightarrow> map_of (cr_Items (index_resources version rs)) (resource_name r) \<noteq> None"
  "wf_map (cr_Items (index_resources version rs))"
proof -
  have "map_of (fold (\<lambda>r. gput (resource_name r) r) rs m) k = Some r \<Longrightarrow>
      r \<in> set rs \<and> resource_name r = k \<or> map_of m k = Some r" for m
  proof (induction rs arbitrary: m)
    case (Cons x rs)
    then show ?case using Cons.IH [of "gput (resource_name x) x m"] by (auto simp: map_of_gput split: if_splits)
  qed simp
  from this [of "[]"] show "map_of (cr_Items (index_resources version rs)) k = Some r \<Longrightarrow> r \<in> set rs \<and> resource_name r = k"
    by (simp add: index_resources_def)
  have "r \<in> set rs \<or> map_of m (resource_name r) \<noteq> None \<Longrightarrow>
      map_of (fold (\<lambda>r. gput (resource_name r) r) rs m) (resource_name r) \<noteq> None" for m
    by (induction rs arbitrary: m) (auto simp: map_of_gput)
  then show "r \<in> set rs \<Longrightarrow> map_of (cr_Items (index_resources version rs)) (resource_name r) \<noteq> None"
    by (simp add: index_resources_def)
  show "wf_map (cr_Items (index_resources version rs))"
    by (simp add: index_resources_def wf_map_fold_gput)
qed

text \<open>The resources of a snapshot, those it provides by name, and closed snapshots.\<close>

fun part :: "XdsKind \<Rightarrow> 'r EnvoySnapshot \<Rightarrow> 'r CacheResources" where
  "part EdsKind s = es_Endpoints s"
| "part CdsKind s = es_Clusters s"
| "part RdsKind s = es_Routes s"
| "part LdsKind s = es_Listeners s"
| "part SdsKind s = es_Secrets s"
| "part OtherKind s = empty_Resources"

definition snapshot_closed :: "'a AnyCodec \<Rightarrow> 'a EnvoyResource EnvoySnapshot \<Rightarrow> bool" where
  "snapshot_closed pb s \<longleftrightarrow>
     (\<forall>kind name r. map_of (cr_Items (part kind s)) name = Some r \<longrightarrow>
        kind_of r = kind \<and> resource_name r = name \<and>
        (\<forall>(kind', name') \<in> resource_refs pb r. map_of (cr_Items (part kind' s)) name' \<noteq> None))"

lemma snapshot_of_part:
  assumes "indexes_by_name cl" and "kind \<noteq> OtherKind"
  shows "part kind (snapshot_of cl rs) = index_resources '''' (of_kind kind rs)"
  using assms by (cases kind) (simp_all add: snapshot_of_def indexes_by_name_def Let_def)

lemma autoVersion_items [simp]: "cr_Items (part kind (autoVersion eq uuids old new)) = cr_Items (part kind new)"
  by (cases kind) (simp_all add: autoVersion_def reuseVersion_def Let_def)

lemma refs_kind: "(kind, name) \<in> resource_refs pb r \<Longrightarrow> kind \<noteq> OtherKind"
proof -
  have "(kind, name) \<in> message_refs m \<Longrightarrow> kind \<noteq> OtherKind" for m :: "'a EnvoyMessage"
    by (cases m) (auto split: option.splits RouteSpecifier.splits)
  then show "(kind, name) \<in> resource_refs pb r \<Longrightarrow> kind \<noteq> OtherKind"
    by (cases r) (auto simp: chain_refs_def split: if_splits option.splits)
qed

lemma snapshot_of_closed:
  assumes cl: "indexes_by_name cl" and rs: "config_ok pb rs"
  shows "snapshot_closed pb (snapshot_of cl rs)"
  unfolding snapshot_closed_def
proof (intro allI impI)
  fix kind name r assume item: "map_of (cr_Items (part kind (snapshot_of cl rs))) name = Some r"
  then have kind: "kind \<noteq> OtherKind" by (cases kind) (simp_all add: empty_Resources_def)
  from item have r: "r \<in> set (of_kind kind rs)" "resource_name r = name"
    using index_resources_items(1) by (auto simp: snapshot_of_part [OF cl kind])
  then obtain x where x: "x \<in> set rs" "xr_Resource x = r" "kind_of r = kind" by (auto simp: of_kind_def)
  have "map_of (cr_Items (part kind' (snapshot_of cl rs))) name' \<noteq> None" if ref: "(kind', name') \<in> resource_refs pb r" for kind' name'
  proof -
    have "(kind', name') \<in> provided rs" using rs x(1,2) ref by (auto simp: config_ok_def)
    then obtain y where y: "y \<in> set rs" "kind_of (xr_Resource y) = kind'" "xr_Name y = name'" by (auto simp: provided_def)
    have "resource_ok pb name' (xr_Resource y)" using rs y(1,3) by (auto simp: config_ok_def)
    then have "resource_name (xr_Resource y) = name'" by (cases "xr_Resource y") auto
    moreover have "xr_Resource y \<in> set (of_kind kind' rs)" using y(1,2) by (auto simp: of_kind_def)
    ultimately show ?thesis
      using index_resources_items(2) [of "xr_Resource y"] snapshot_of_part [OF cl refs_kind [OF ref]] by auto
  qed
  then show "kind_of r = kind \<and> resource_name r = name \<and>
      (\<forall>(kind', name') \<in> resource_refs pb r. map_of (cr_Items (part kind' (snapshot_of cl rs))) name' \<noteq> None)"
    using r(2) x(3) by blast
qed

section \<open>What the reconciler stores\<close>

text \<open>The key of a proxy in the cache, and caches that accept every snapshot.\<close>

definition proxy_key :: "ProxyId \<Rightarrow> string" where
  "proxy_key pid = hasher_ID (Some (proxy_node pid))"

lemma proxy_key_wf:
  "pid_Mesh pid \<noteq> '''' \<Longrightarrow> CHR ''.'' \<notin> set (pid_Mesh pid) \<Longrightarrow> pid_Name pid \<noteq> '''' \<Longrightarrow> proxy_key pid = ProxyId_String pid"
  using ParseProxyIdFromString_Inr [of "ProxyId_String pid" pid]
  by (simp add: proxy_key_def hasher_ID_def ParseProxyId_def proxy_node_def)

definition accepting :: "('r, 'w) EnvoyCacheLib \<Rightarrow> bool" where
  "accepting cl = (\<forall>node s w. fst (ec_SetSnapshot cl node s w) = None)"

definition previous :: "('r, 'w) EnvoyCacheLib \<Rightarrow> ProxyId \<Rightarrow> 'w \<Rightarrow> 'r EnvoySnapshot" where
  "previous cl pid w = (case ec_GetSnapshot cl (proxy_key pid) w of Inl _ \<Rightarrow> empty_Snapshot | Inr s \<Rightarrow> s)"

lemma reconcile_stores:
  assumes store: "snapshot_store (ec_GetSnapshot cl) (ec_SetSnapshot cl)" and acc: "accepting cl"
    and gen: "generate ctx proxy = Inr snap"
  shows "\<exists>w'. reconciler_Reconcile generate cl uuids ctx proxy w = (None, w') \<and>
    (\<forall>node. ec_GetSnapshot cl node w' =
       (if node = proxy_key (px_Id proxy) then Inr (autoVersion (ec_Equal cl) uuids (previous cl (px_Id proxy) w) snap)
        else ec_GetSnapshot cl node w))"
proof -
  let ?s = "autoVersion (ec_Equal cl) uuids (previous cl (px_Id proxy) w) snap"
  obtain w' where w': "ec_SetSnapshot cl (proxy_key (px_Id proxy)) ?s w = (None, w')"
    using acc unfolding accepting_def by (metis prod.collapse)
  then have "reconciler_Reconcile generate cl uuids ctx proxy w = (None, w')"
    using gen by (simp add: reconciler_Reconcile_def Let_def cacher_Get_def cacher_Cache_def previous_def proxy_key_def)
  then show ?thesis using snapshot_store.get_set [OF store w'] by blast
qed

lemma reconcile_fails:
  "generate ctx proxy = Inl err \<Longrightarrow> reconciler_Reconcile generate cl uuids ctx proxy w = (Some err, w)"
  by (simp add: reconciler_Reconcile_def)

lemma clear_stores:
  assumes store: "snapshot_store (ec_GetSnapshot cl) (ec_SetSnapshot cl)" and acc: "accepting cl"
  shows "\<exists>w'. reconciler_Clear cl pid w = (None, w') \<and>
    (\<forall>node. ec_GetSnapshot cl node w' = (if node = proxy_key pid then Inr empty_Snapshot else ec_GetSnapshot cl node w))"
proof -
  obtain w' where w': "ec_SetSnapshot cl (proxy_key pid) empty_Snapshot w = (None, w')"
    using acc unfolding accepting_def by (metis prod.collapse)
  then show ?thesis
    using snapshot_store.get_set [OF store w'] by (auto simp: reconciler_Clear_def cacher_Cache_def proxy_key_def)
qed

lemma empty_closed: "snapshot_closed pb empty_Snapshot"
proof -
  have "cr_Items (part kind (empty_Snapshot :: 'a EnvoyResource EnvoySnapshot)) = []" for kind
    by (cases kind) (simp_all add: empty_Snapshot_def empty_Resources_def)
  then show ?thesis by (simp add: snapshot_closed_def)
qed

lemma autoVersion_closed: "snapshot_closed pb new \<Longrightarrow> snapshot_closed pb (autoVersion eq uuids old new)"
  by (simp add: snapshot_closed_def)

lemma default_template_generates:
  "TemplateProxyGenerator lib (Some DefaultProxyTemplate) ctx proxy = Inr rs \<longleftrightarrow> NewDefaultProxyProfile lib ctx proxy = Inr rs"
  by (simp add: TemplateProxyGenerator_def DefaultProxyTemplate_def range_loop_def import_step_def
      ProxyTemplateProfileSource_def predefinedProfiles_def ProxyTemplateRawSource_def bindE_Inr)

lemma nil_template_generates: "TemplateProxyGenerator lib None ctx proxy = Inr []"
  by (simp add: TemplateProxyGenerator_def range_loop_def ProxyTemplateRawSource_def)

text \<open>Managers that list no proxy template, or fail to list them.\<close>

definition no_templates :: "ReadOnlyResourceManager \<Rightarrow> bool" where
  "no_templates manager =
     (\<forall>mesh templates. list_in_mesh as_ProxyTemplate ''ProxyTemplate'' manager mesh = Inr templates \<longrightarrow> templates = [])"

lemma SelectDataplanePolicy_none: "SelectDataplanePolicy d [] = Inr None"
  by (simp add: SelectDataplanePolicy_def sort_ByName_def)

lemma generated_snapshot_closed:
  assumes "any_roundtrip (gl_Codec lib)" and "kinds_named lib" and "indexes_by_name cl" and "no_templates manager"
    and "GenerateSnapshot lib cl manager (Some DefaultProxyTemplate) ctx proxy = Inr snap"
  shows "snapshot_closed (gl_Codec lib) snap"
proof -
  obtain template rs where t: "GetTemplate manager (Some DefaultProxyTemplate) proxy = Inr template"
    and rs: "TemplateProxyGenerator lib template ctx proxy = Inr rs" and snap: "snap = snapshot_of cl rs"
    using assms(5) by (auto simp: GenerateSnapshot_def bindE_Inr)
  obtain mesh where mesh: "dataplane_mesh (px_Dataplane proxy) = Inr mesh" using t by (auto simp: GetTemplate_def bindE_Inr)
  have "template = None \<or> template = Some DefaultProxyTemplate"
  proof (cases "list_in_mesh as_ProxyTemplate ''ProxyTemplate'' manager mesh")
    case (Inl err)
    then show ?thesis using t mesh by (cases err) (auto simp: GetTemplate_def)
  next
    case (Inr templates)
    then have "templates = []" using assms(4) by (auto simp: no_templates_def)
    then show ?thesis using t mesh Inr by (simp add: GetTemplate_def SelectDataplanePolicy_none)
  qed
  then have "rs = [] \<or> NewDefaultProxyProfile lib ctx proxy = Inr rs"
    using rs by (auto simp: nil_template_generates default_template_generates)
  moreover have "config_ok (gl_Codec lib) rs" if "NewDefaultProxyProfile lib ctx proxy = Inr rs"
    using that unfolding NewDefaultProxyProfile_def
    by (rule composite_ok)
      (auto intro: prometheus_generator_ok transparent_generator_ok inbound_generator_ok outbound_generator_ok assms(1,2))
  ultimately have "config_ok (gl_Codec lib) rs" by auto
  then show ?thesis unfolding snap by (rule snapshot_of_closed [OF assms(3)])
qed

section \<open>Properties\<close>

lemma tick_cases:
  "(\<exists>err. OnTick now manager cp tracker rec key stream w = (Some err, w)) \<or>
   OnTick now manager cp tracker rec key stream w = sr_Clear rec (FromResourceKey key) w \<or>
   (\<exists>ctx proxy. px_Id proxy = FromResourceKey key \<and>
      OnTick now manager cp tracker rec key stream w = sr_Reconcile rec ctx proxy w)"
proof -
  have id: "px_Id proxy = FromResourceKey key"
    if "build_proxy now manager md (FromResourceKey key) d mesh = Inr proxy" for md d mesh proxy
    using that by (auto simp: build_proxy_def bindE_Inr Let_def)
  show ?thesis unfolding OnTick_def Let_def by (auto split: sum.splits dest: id)
qed


lemma equalSnapshots_refl: "(\<And>r. eq r r) \<Longrightarrow> wf_map m \<Longrightarrow> equalSnapshots eq m m"
  by (auto simp: equalSnapshots_def list_all_iff wf_map_def map_of_is_SomeI)

lemma autoVersion_stable:
  assumes "\<And>r. eq r r" and "\<And>kind. wf_map (cr_Items (part kind new))"
    and "\<And>kind. cr_Items (part kind old) = cr_Items (part kind new)"
  shows "autoVersion eq uuids old new = old"
proof -
  have items: "cr_Items (es_Listeners old) = cr_Items (es_Listeners new)" "cr_Items (es_Routes old) = cr_Items (es_Routes new)"
    "cr_Items (es_Clusters old) = cr_Items (es_Clusters new)" "cr_Items (es_Endpoints old) = cr_Items (es_Endpoints new)"
    "cr_Items (es_Secrets old) = cr_Items (es_Secrets new)"
    using assms(3) [of LdsKind] assms(3) [of RdsKind] assms(3) [of CdsKind] assms(3) [of EdsKind] assms(3) [of SdsKind]
    by simp_all
  have reuse: "reuseVersion eq u a b = a" if "cr_Items a = cr_Items b" "wf_map (cr_Items b)" for u a b
    using that equalSnapshots_refl [of eq "cr_Items b", OF assms(1)] by (simp add: reuseVersion_def Let_def)
  show ?thesis
    using assms(2) [of LdsKind] assms(2) [of RdsKind] assms(2) [of CdsKind] assms(2) [of EdsKind] assms(2) [of SdsKind]
    by (simp add: autoVersion_def Let_def reuse [OF items(1)] reuse [OF items(2)] reuse [OF items(3)]
        reuse [OF items(4)] reuse [OF items(5)])
qed

lemma generated_wf:
  assumes "indexes_by_name cl" and "GenerateSnapshot lib cl manager template ctx proxy = Inr snap"
  shows "wf_map (cr_Items (part kind snap))"
proof -
  obtain rs where snap: "snap = snapshot_of cl rs" using assms(2) by (auto simp: GenerateSnapshot_def bindE_Inr)
  show ?thesis
  proof (cases "kind = OtherKind")
    case True
    then show ?thesis by (simp add: empty_Resources_def wf_map_def)
  next
    case False
    then show ?thesis by (simp add: snap snapshot_of_part [OF assms(1)] index_resources_items(3))
  qed
qed


text \<open>
  C29. A failure to list the proxy templates empties the configuration: when the listing fails with an
  error, the template is \<open>nil\<close>, nothing is generated, and the reconciler reports success and replaces
  the snapshot of the proxy by one without any resources.
\<close>

theorem failed_listing_empties_configuration:
  assumes "snapshot_store (ec_GetSnapshot cl) (ec_SetSnapshot cl)" and "accepting cl" and "indexes_by_name cl"
    and "Meta (px_Dataplane proxy) = Some meta"
    and "list_in_mesh as_ProxyTemplate ''ProxyTemplate'' manager (meta_GetMesh meta) = Inl (ErrString err)"
  shows "\<exists>w' s. sr_Reconcile (DefaultReconciler lib cl manager uuids) ctx proxy w = (None, w') \<and>
    ec_GetSnapshot cl (proxy_key (px_Id proxy)) w' = Inr s \<and> (\<forall>kind. cr_Items (part kind s) = [])"
proof -
  let ?gen = "GenerateSnapshot lib cl manager (Some DefaultProxyTemplate)"
  have gen: "?gen ctx proxy = Inr (snapshot_of cl [])"
    using assms(4,5) by (simp add: GenerateSnapshot_def GetTemplate_def dataplane_mesh_def nil_template_generates)
  have "cr_Items (part kind (snapshot_of cl [])) = []" for kind
    by (cases "kind = OtherKind")
      (simp_all add: empty_Resources_def snapshot_of_part [OF assms(3)] of_kind_def index_resources_def)
  then show ?thesis
    using reconcile_stores [where generate = ?gen, OF assms(1,2) gen, of uuids w] by (auto simp: DefaultReconciler_def)
qed

section \<open>The properties on an example\<close>

text \<open>A cache that is a map, and a manager that holds one dataplane and its mesh.\<close>

definition example_cache_lib :: "(packed EnvoyResource, (string, packed EnvoyResource EnvoySnapshot) gomap) EnvoyCacheLib" where
  "example_cache_lib =
     \<lparr>ec_NewResources = index_resources, ec_Equal = (=),
      ec_GetSnapshot = (\<lambda>node w. case map_of w node of None \<Rightarrow> Inl (ErrString ''no snapshot'') | Some s \<Rightarrow> Inr s),
      ec_SetSnapshot = (\<lambda>node s w. (None, gput node s w)), ec_ClearSnapshot = gdel\<rparr>"

lemma example_cache_facts:
  "snapshot_store (ec_GetSnapshot example_cache_lib) (ec_SetSnapshot example_cache_lib)" "accepting example_cache_lib"
  "indexes_by_name example_cache_lib" "ec_Equal example_cache_lib r r"
  by (auto simp: snapshot_store_def accepting_def indexes_by_name_def example_cache_lib_def map_of_gput)

definition example_tick_dataplane :: DataplaneResource where
  "example_tick_dataplane = \<lparr>Meta = Some (pseudoMeta 0 ''web''), Spec = example_dataplane\<rparr>"

definition example_tick_manager :: ReadOnlyResourceManager where
  "example_tick_manager =
     \<lparr>ro_Get = (\<lambda>r fs. (None, case Spec r of
        DataplaneSpec _ \<Rightarrow> with_spec example_tick_dataplane (DataplaneSpec example_dataplane)
      | _ \<Rightarrow> with_spec (ctx_Mesh example_context) (MeshSpec (Spec (ctx_Mesh example_context))))),
      ro_List = (\<lambda>l fs. (None, l))\<rparr>"

lemma example_lists [simp]: "list_in_mesh dest typ example_tick_manager mesh = Inr []"
  by (simp add: list_in_mesh_def example_tick_manager_def new_list_def typed_def List.map_filter_def)

lemma example_gets:
  "get_typed as_Dataplane ''Dataplane'' example_tick_manager fs = Inr example_tick_dataplane"
  "get_typed as_Mesh MeshType example_tick_manager fs = Inr (ctx_Mesh example_context)"
  by (simp_all add: get_typed_def example_tick_manager_def zero_of_def zero_specs_def MeshType_def with_spec_def example_tick_dataplane_def
      example_context_def)

lemma example_selects:
  "SelectInboundConnectionPolicies example_dataplane ([] :: TrafficPermissionResource ConnectionPolicy list) = Inr []"
  "SelectInboundConnectionPolicies example_dataplane ([] :: FaultInjectionResource ConnectionPolicy list) = Inr []"
  "SelectOutboundConnectionPolicies example_dataplane ([] :: TrafficLogResource ConnectionPolicy list) = []"
  by code_simp+

lemma example_builds:
  "\<exists>proxy. build_proxy 0 example_tick_manager md pid example_tick_dataplane (ctx_Mesh example_context) = Inr proxy \<and>
     px_Dataplane proxy = example_tick_dataplane \<and> generatable proxy"
proof -
  have mesh: "dataplane_mesh example_tick_dataplane = Inr ''''" "Spec example_tick_dataplane = example_dataplane"
    by (simp_all add: dataplane_mesh_def example_tick_dataplane_def pseudoMeta_def)
  have outs: "length (dp_GetOutbound example_dataplane) \<noteq> 0" by (simp add: dp_GetOutbound_def example_dataplane_def)
  let ?dest = "BuildDestinationMap example_tick_dataplane (BuildRouteMap 0 example_tick_dataplane [])"
  obtain targets checks where "GetOutboundTargets example_tick_dataplane ?dest example_tick_manager = Inr targets"
    "GetHealthChecks example_tick_dataplane ?dest example_tick_manager = Inr checks"
    by (cases "?dest = []") (simp_all add: GetOutboundTargets_def GetHealthChecks_def mesh)
  then obtain proxy where b: "build_proxy 0 example_tick_manager md pid example_tick_dataplane (ctx_Mesh example_context) = Inr proxy"
    and p: "px_Dataplane proxy = example_tick_dataplane" "px_Logs proxy = []" "px_FaultInjections proxy = []"
      "px_TrafficRoutes proxy = BuildRouteMap 0 example_tick_dataplane []"
    using outs
    by (simp add: build_proxy_def GetRoutes_def GetTrafficTrace_def
        permissions_Match_def logs_Match_def faults_Match_def backendsByName_def mesh example_gets example_selects
        SelectDataplanePolicy_none Let_def)
  have "Dataplane_Validate (px_Dataplane proxy) = None" unfolding p(1) by code_simp
  from validated_interfaces [OF this] have "generatable proxy"
    using built_routes_ok [of "[]"] by (simp add: generatable_def p list_all_iff)
  then show ?thesis using b p(1) by blast
qed

lemma example_tick:
  "\<exists>w'. OnTick 0 example_tick_manager cp tracker (DefaultReconciler example_lib example_cache_lib example_tick_manager uuids) key stream w
     = (None, w')"
proof -
  let ?rec = "DefaultReconciler example_lib example_cache_lib example_tick_manager uuids"
  obtain proxy where b: "build_proxy 0 example_tick_manager (tracker_Metadata tracker stream) (FromResourceKey key)
      example_tick_dataplane (ctx_Mesh example_context) = Inr proxy"
    and p: "px_Dataplane proxy = example_tick_dataplane" "generatable proxy" using example_builds by blast
  let ?ctx = "\<lparr>ctx_ControlPlane = cp, ctx_Mesh = ctx_Mesh example_context\<rparr>"
  let ?gen = "GenerateSnapshot example_lib example_cache_lib example_tick_manager (Some DefaultProxyTemplate)"
  obtain rs where "NewDefaultProxyProfile example_lib ?ctx proxy = Inr rs"
    using default_profile_total [OF example_codec p(2)] unfolding succeeds_def by blast
  then have gen: "?gen ?ctx proxy = Inr (snapshot_of example_cache_lib rs)"
    using default_template_generates [of example_lib ?ctx proxy rs]
    by (simp add: GenerateSnapshot_def GetTemplate_def p(1) dataplane_mesh_def example_tick_dataplane_def SelectDataplanePolicy_none)
  show ?thesis
    using reconcile_stores [where generate = ?gen, OF example_cache_facts(1,2) gen, of uuids w] b
    by (auto simp: OnTick_def Let_def example_gets DefaultReconciler_def)
qed


theorem failed_listing_empties_configuration_witness:
  "\<exists>w' s. sr_Reconcile (DefaultReconciler example_lib example_cache_lib
       (example_tick_manager\<lparr>ro_List := \<lambda>l fs. (Some (ErrString ''timeout''), l)\<rparr>) (\<lambda>_. ''v1'')) example_context example_proxy [] = (None, w') \<and>
     ec_GetSnapshot example_cache_lib (proxy_key (px_Id example_proxy)) w' = Inr s \<and> cr_Items (es_Listeners s) = []"
proof -
  let ?m = "example_tick_manager\<lparr>ro_List := \<lambda>l fs. (Some (ErrString ''timeout''), l)\<rparr>"
  have "list_in_mesh as_ProxyTemplate ''ProxyTemplate'' ?m mesh = Inl (ErrString ''timeout'')" for mesh
    by (simp add: list_in_mesh_def)
  moreover have "Meta (px_Dataplane example_proxy) = Some (pseudoMeta 0 ''web'')" by (simp add: example_proxy_def)
  ultimately obtain w' s where "sr_Reconcile (DefaultReconciler example_lib example_cache_lib ?m (\<lambda>_. ''v1'')) example_context
        example_proxy [] = (None, w')" "ec_GetSnapshot example_cache_lib (proxy_key (px_Id example_proxy)) w' = Inr s"
      "\<And>kind. cr_Items (part kind s) = []"
    using failed_listing_empties_configuration [OF example_cache_facts(1-3), of example_proxy _ ?m _ example_lib "\<lambda>_. ''v1''"
        example_context "[]"] by blast
  from this(1,2) this(3) [of LdsKind] show ?thesis by auto
qed


end
