(* ===== verification/Rest_Api.thy ===== *)
theory Rest_Api
  imports Proxy_Sync
begin

text \<open>
  The REST API (\<open>pkg/api-server\<close>, \<open>pkg/core/rest/errors\<close>, \<open>pkg/core/resources/model/rest\<close>): resources as
  they are read and written over HTTP, pages, the answers to errors, the handlers of resources and of
  dataplane overviews, and the table of endpoints.  Requests arrive with their path parameters, as
  go-restful hands them to a handler.  The properties say that what is put is found, that a rejected
  request changes nothing, that a read-only server has no endpoint that writes, and which overviews
  are returned.
\<close>

section \<open>Resources over HTTP\<close>

record rest_ResourceMeta =
  rm_Type :: string
  rm_Mesh :: string
  rm_Name :: string
  rm_CreationTime :: gotime
  rm_ModificationTime :: gotime

record 'a rest_Resource =
  rr_Meta :: rest_ResourceMeta
  rr_Spec :: 'a

record 'a rest_ResourceList =
  rrl_Items :: "'a rest_Resource list"
  rrl_Next :: "string option"

text \<open>The conversion of a resource of the given type; a missing metadata is a \<open>nil\<close> dereference.\<close>

definition from_Resource :: "string \<Rightarrow> 'a Resource \<Rightarrow> go_error + 'a rest_Resource" where
  "from_Resource typ r =
     (case Meta r of
        None \<Rightarrow> Inl (ErrPanic ''nil pointer dereference'')
      | Some m \<Rightarrow>
          (let meshName = (if typ \<noteq> MeshType then meta_GetMesh m else '''') in
           Inr \<lparr>rr_Meta = \<lparr>rm_Type = typ, rm_Mesh = meshName, rm_Name = meta_GetName m,
                           rm_CreationTime = meta_GetCreationTime m, rm_ModificationTime = meta_GetModificationTime m\<rparr>,
                rr_Spec = Spec r\<rparr>))"

definition from_ResourceList :: "('a Resource \<Rightarrow> string) \<Rightarrow> 'a Resource list \<Rightarrow> go_error + 'a rest_ResourceList" where
  "from_ResourceList typ rs =
     bindE (mapE (\<lambda>r. from_Resource (typ r) r) rs) (\<lambda>items. Inr \<lparr>rrl_Items = items, rrl_Next = None\<rparr>)"

section \<open>Paths\<close>

datatype ResourceApi = MeshApi | CollectionApi (CollectionPath: string)

definition NewResourceApi :: "string \<Rightarrow> string \<Rightarrow> ResourceApi" where
  "NewResourceApi resType path = (if resType = MeshType then MeshApi else CollectionApi path)"

fun api_List :: "ResourceApi \<Rightarrow> string \<Rightarrow> string" where
  "api_List (CollectionApi path) mesh = ''/meshes/'' @ mesh @ ''/'' @ path"
| "api_List MeshApi mesh = ''/meshes''"

fun api_Item :: "ResourceApi \<Rightarrow> string \<Rightarrow> string \<Rightarrow> string" where
  "api_Item (CollectionApi path) mesh name = ''/meshes/'' @ mesh @ ''/'' @ path @ ''/'' @ name"
| "api_Item MeshApi mesh name = ''/meshes/'' @ name"

definition GetResourceApi :: "(string, ResourceApi) gomap \<Rightarrow> string \<Rightarrow> go_error + ResourceApi" where
  "GetResourceApi resources typ =
     (case map_of resources typ of
        None \<Rightarrow> Inl (ErrString (''unknown resource type: '' @ quote typ))
      | Some mapping \<Rightarrow> Inr mapping)"

text \<open>The definitions of the resources that the server offers; a factory is given by its type.\<close>

record ResourceWsDefinition =
  ws_Name :: string
  ws_Path :: string
  ws_Type :: string

definition MeshWsDefinition :: ResourceWsDefinition where
  "MeshWsDefinition = \<lparr>ws_Name = ''Mesh'', ws_Path = ''meshes'', ws_Type = MeshType\<rparr>"

definition DataplaneWsDefinition :: ResourceWsDefinition where
  "DataplaneWsDefinition = \<lparr>ws_Name = ''Dataplane'', ws_Path = ''dataplanes'', ws_Type = ''Dataplane''\<rparr>"

definition DataplaneInsightWsDefinition :: ResourceWsDefinition where
  "DataplaneInsightWsDefinition = \<lparr>ws_Name = ''Dataplane Insight'', ws_Path = ''dataplane-insights'', ws_Type = ''DataplaneInsight''\<rparr>"

definition HealthCheckWsDefinition :: ResourceWsDefinition where
  "HealthCheckWsDefinition = \<lparr>ws_Name = ''HealthCheck'', ws_Path = ''health-checks'', ws_Type = ''HealthCheck''\<rparr>"

definition ProxyTemplateWsDefinition :: ResourceWsDefinition where
  "ProxyTemplateWsDefinition = \<lparr>ws_Name = ''ProxyTemplate'', ws_Path = ''proxytemplates'', ws_Type = ''ProxyTemplate''\<rparr>"

definition TrafficPermissionWsDefinition :: ResourceWsDefinition where
  "TrafficPermissionWsDefinition = \<lparr>ws_Name = ''Traffic Permission'', ws_Path = ''traffic-permissions'', ws_Type = ''TrafficPermission''\<rparr>"

definition TrafficLogWsDefinition :: ResourceWsDefinition where
  "TrafficLogWsDefinition = \<lparr>ws_Name = ''Traffic Logging'', ws_Path = ''traffic-logs'', ws_Type = ''TrafficLog''\<rparr>"

definition TrafficRouteWsDefinition :: ResourceWsDefinition where
  "TrafficRouteWsDefinition = \<lparr>ws_Name = ''TrafficRoute'', ws_Path = ''traffic-routes'', ws_Type = ''TrafficRoute''\<rparr>"

definition TrafficTraceWsDefinition :: ResourceWsDefinition where
  "TrafficTraceWsDefinition = \<lparr>ws_Name = ''Traffic Trace'', ws_Path = ''traffic-traces'', ws_Type = ''TrafficTrace''\<rparr>"

definition FaultInjectionWsDefinition :: ResourceWsDefinition where
  "FaultInjectionWsDefinition = \<lparr>ws_Name = ''Fault Injection'', ws_Path = ''fault-injections'', ws_Type = ''FaultInjection''\<rparr>"

definition ws_All :: "ResourceWsDefinition list" where
  "ws_All =
     [MeshWsDefinition, DataplaneWsDefinition, DataplaneInsightWsDefinition, HealthCheckWsDefinition,
      ProxyTemplateWsDefinition, TrafficPermissionWsDefinition, TrafficLogWsDefinition,
      TrafficRouteWsDefinition, TrafficTraceWsDefinition, FaultInjectionWsDefinition]"

lemmas ws_definitions = MeshWsDefinition_def DataplaneWsDefinition_def DataplaneInsightWsDefinition_def HealthCheckWsDefinition_def ProxyTemplateWsDefinition_def
  TrafficPermissionWsDefinition_def TrafficLogWsDefinition_def TrafficRouteWsDefinition_def TrafficTraceWsDefinition_def FaultInjectionWsDefinition_def

definition ws_Apis :: "ResourceWsDefinition list \<Rightarrow> (string, ResourceApi) gomap" where
  "ws_Apis wss = fold (\<lambda>ws. gput (ws_Type ws) (NewResourceApi (ws_Type ws) (ws_Path ws))) wss []"

definition AllApis :: "(string, ResourceApi) gomap" where
  "AllApis = ws_Apis ws_All"

section \<open>Errors\<close>

record Cause =
  cause_Field :: string
  cause_Message :: string

record ApiError =
  ae_Title :: string
  ae_Details :: string
  ae_Causes :: "Cause list"

definition ApiError_Error :: "ApiError \<Rightarrow> string" where
  "ApiError_Error e =
     fold (\<lambda>cause msg. msg @ '';'' @ cause_Field cause @ ''='' @ cause_Message cause @ '' '') (ae_Causes e)
       (ae_Title e @ '' ('' @ ae_Details e @ '')'')"

text \<open>
  Errors that the code compares by identity are compared by their text here; no other error of the
  code has these texts.
\<close>

definition NewMaxPageSizeExceeded :: "int \<Rightarrow> int \<Rightarrow> go_error" where
  "NewMaxPageSizeExceeded pageSize limit =
     ErrString (''Invalid page size of '' @ format_int pageSize @ ''. Maximum page size is '' @ format_int limit)"

definition IsMaxPageSizeExceeded :: "go_error \<Rightarrow> bool" where
  "IsMaxPageSizeExceeded err = has_prefix ''Invalid page size of'' (error_text err)"

definition InvalidPageSize :: go_error where
  "InvalidPageSize = ErrString ''Invalid page size''"

definition PaginationNotSupported :: go_error where
  "PaginationNotSupported = ErrString ''Pagination and filtering at the same time is not supported''"

text \<open>An answer: the status and the body.\<close>

datatype ResponseBody =
    NoBody
  | ResourceBody "ResourceSpec rest_Resource"
  | ListBody "ResourceSpec rest_ResourceList"
  | OverviewBody "(Dataplane \<times> DataplaneInsight option) rest_Resource"
  | OverviewsBody "(Dataplane \<times> DataplaneInsight option) rest_ResourceList"
  | ErrorBody ApiError

record ApiResponse =
  rs_Status :: nat
  rs_Body :: ResponseBody

definition writeError :: "nat \<Rightarrow> string \<Rightarrow> string \<Rightarrow> Cause list \<Rightarrow> ApiResponse" where
  "writeError httpStatus title details causes =
     \<lparr>rs_Status = httpStatus, rs_Body = ErrorBody \<lparr>ae_Title = title, ae_Details = details, ae_Causes = causes\<rparr>\<rparr>"

definition handleInvalidPageSize :: "string \<Rightarrow> ApiResponse" where
  "handleInvalidPageSize title =
     writeError 400 title ''Invalid page size'' [\<lparr>cause_Field = ''size'', cause_Message = ''Invalid format''\<rparr>]"

definition handleNotFound :: "string \<Rightarrow> ApiResponse" where
  "handleNotFound title = writeError 404 title ''Not found'' []"

definition handlePreconditionFailed :: "string \<Rightarrow> ApiResponse" where
  "handlePreconditionFailed title = writeError 412 title ''Precondition Failed'' []"

definition handleMeshNotFound :: "string \<Rightarrow> string \<Rightarrow> ApiResponse" where
  "handleMeshNotFound title mesh =
     writeError 400 title ''Mesh is not found''
       [\<lparr>cause_Field = ''mesh'', cause_Message = ''mesh of name '' @ mesh @ '' is not found''\<rparr>]"

definition handleValidationError :: "string \<Rightarrow> ValidationError \<Rightarrow> ApiResponse" where
  "handleValidationError title violations =
     writeError 400 title ''Resource is not valid''
       (map (\<lambda>violation. \<lparr>cause_Field = Field violation, cause_Message = Message violation\<rparr>) violations)"

definition handleInvalidOffset :: "string \<Rightarrow> ApiResponse" where
  "handleInvalidOffset title =
     writeError 400 title ''Invalid offset'' [\<lparr>cause_Field = ''offset'', cause_Message = ''Invalid format''\<rparr>]"

definition handlePaginationNotSupported :: "string \<Rightarrow> ApiResponse" where
  "handlePaginationNotSupported title = writeError 400 title (error_text PaginationNotSupported) []"

definition handleMaxPageSizeExceeded :: "string \<Rightarrow> go_error \<Rightarrow> ApiResponse" where
  "handleMaxPageSizeExceeded title err =
     writeError 400 title ''Invalid page size'' [\<lparr>cause_Field = ''size'', cause_Message = error_text err\<rparr>]"

definition handleUnknownError :: "string \<Rightarrow> ApiResponse" where
  "handleUnknownError title = writeError 500 title ''Internal Server Error'' []"

lemmas error_handlers = handleInvalidPageSize_def handleNotFound_def handlePreconditionFailed_def handleMeshNotFound_def
  handleValidationError_def handleInvalidOffset_def handlePaginationNotSupported_def handleMaxPageSizeExceeded_def
  handleUnknownError_def

definition HandleError :: "go_error \<Rightarrow> string \<Rightarrow> ApiResponse" where
  "HandleError err title =
     (if IsResourceNotFound (Some err) then handleNotFound title
      else if IsResourcePreconditionFailed (Some err) then handlePreconditionFailed title
      else if err = ErrorInvalidOffset then handleInvalidOffset title
      else case err of
        ErrMeshNotFound mesh \<Rightarrow> handleMeshNotFound title mesh
      | ErrValidation violations \<Rightarrow> handleValidationError title violations
      | _ \<Rightarrow>
          (if IsMaxPageSizeExceeded err then handleMaxPageSizeExceeded title err
           else if err = InvalidPageSize then handleInvalidPageSize title
           else if err = PaginationNotSupported then handlePaginationNotSupported title
           else handleUnknownError title))"

text \<open>A handler ends with an answer or with a panic; a panic is not an error that can be handled.\<close>

type_synonym api_answer = "go_error + ApiResponse"

definition answer_error :: "go_error \<Rightarrow> string \<Rightarrow> api_answer" where
  "answer_error err title = (case err of ErrPanic p \<Rightarrow> Inl (ErrPanic p) | _ \<Rightarrow> Inr (HandleError err title))"

definition answer_ok :: "ResponseBody \<Rightarrow> api_answer" where
  "answer_ok body = Inr \<lparr>rs_Status = 200, rs_Body = body\<rparr>"

section \<open>Requests and pages\<close>

text \<open>
  A request: path parameters, the values of the query parameters in order, the path, and the result of
  reading the body into a resource whose specification starts as the given value.
\<close>

record ApiRequest =
  req_Path :: "(string, string) gomap"
  req_Query :: "(string, string list) gomap"
  req_URLPath :: string
  req_Entity :: "ResourceSpec \<Rightarrow> go_error + ResourceSpec rest_Resource"

definition PathParameter :: "string \<Rightarrow> ApiRequest \<Rightarrow> string" where
  "PathParameter name request = gstr (req_Path request) name"

definition QueryParameters :: "string \<Rightarrow> ApiRequest \<Rightarrow> string list" where
  "QueryParameters name request = glist (req_Query request) name"

definition QueryParameter :: "string \<Rightarrow> ApiRequest \<Rightarrow> string" where
  "QueryParameter name request = (case QueryParameters name request of [] \<Rightarrow> '''' | v # _ \<Rightarrow> v)"

definition maxPageSize :: int where "maxPageSize = 1000"
definition defaultPageSize :: int where "defaultPageSize = 100"

record page =
  page_size :: int
  page_offset :: string

definition pagination :: "ApiRequest \<Rightarrow> go_error + page" where
  "pagination request =
     bindE (if QueryParameter ''size'' request \<noteq> ''''
            then (case atoi (QueryParameter ''size'' request) of
                    Inl _ \<Rightarrow> Inl InvalidPageSize
                  | Inr p \<Rightarrow> if p > maxPageSize then Inl (NewMaxPageSizeExceeded p maxPageSize) else Inr p)
            else Inr defaultPageSize)
       (\<lambda>pageSize. Inr \<lparr>page_size = pageSize, page_offset = QueryParameter ''offset'' request\<rparr>)"

text \<open>The public URL with a path and a query, as text; \<open>net/url\<close> parses and prints it.\<close>

type_synonym url_printer = "string \<Rightarrow> string \<Rightarrow> (string, string list) gomap \<Rightarrow> go_error + string"

definition nextLink :: "url_printer \<Rightarrow> string \<Rightarrow> ApiRequest \<Rightarrow> string \<Rightarrow> go_error + string option" where
  "nextLink print_url publicURL request nextOffset =
     (if nextOffset = '''' then Inr None
      else (let query = gput ''offset'' [nextOffset] (req_Query request) in
            bindE (map_error (\<lambda>e. ErrWrap e ''could not parse public url'')
                     (print_url publicURL (req_URLPath request) query))
              (\<lambda>urlString. Inr (Some urlString))))"

section \<open>The handlers of resources\<close>

record 's resourceEndpoints =
  ep_publicURL :: string
  ep_resManager :: "'s ResourceManager"
  ep_meshParam :: string
  ep_Type :: string

definition meshFromRequest :: "'s resourceEndpoints \<Rightarrow> ApiRequest \<Rightarrow> string" where
  "meshFromRequest r request = PathParameter (ep_meshParam r) request"

definition new_resource :: "string \<Rightarrow> AnyResource" where
  "new_resource typ = \<lparr>Meta = None, Spec = zero_of typ\<rparr>"

text \<open>\<open>_ = res.SetSpec(spec)\<close>: a specification of another type is ignored.\<close>

definition set_spec :: "AnyResource \<Rightarrow> ResourceSpec \<Rightarrow> AnyResource" where
  "set_spec r s = (if spec_type s = GetType r then with_spec r s else r)"

definition findResource :: "'s resourceEndpoints \<Rightarrow> ApiRequest \<Rightarrow> 's \<Rightarrow> api_answer" where
  "findResource r request s =
     (let name = PathParameter ''name'' request;
          meshName = meshFromRequest r request
      in case rm_Get (ep_resManager r) (new_resource (ep_Type r)) [GetByKey name meshName] s of
           (Some err, _) \<Rightarrow> answer_error err ''Could not retrieve a resource''
         | (None, resource) \<Rightarrow>
             bindE (from_Resource (GetType resource) resource) (\<lambda>res. answer_ok (ResourceBody res)))"

definition listResources :: "url_printer \<Rightarrow> 's resourceEndpoints \<Rightarrow> ApiRequest \<Rightarrow> 's \<Rightarrow> api_answer" where
  "listResources print_url r request s =
     (let meshName = meshFromRequest r request in
      case pagination request of
        Inl err \<Rightarrow> answer_error err ''Could not retrieve resources''
      | Inr page \<Rightarrow>
          (case rm_List (ep_resManager r) (new_list (zero_of (ep_Type r)))
                  [ListByMesh meshName, ListByPage (page_size page) (page_offset page)] s of
             (Some err, _) \<Rightarrow> answer_error err ''Could not retrieve resources''
           | (None, list) \<Rightarrow>
               bindE (from_ResourceList GetType (rl_Items list)) (\<lambda>restList.
               case nextLink print_url (ep_publicURL r) request (rl_NextOffset list) of
                 Inl err \<Rightarrow> answer_error err ''Could not retrieve resources''
               | Inr next_link \<Rightarrow> answer_ok (ListBody (restList\<lparr>rrl_Next := next_link\<rparr>)))))"

definition createResource ::
  "'s resourceEndpoints \<Rightarrow> string \<Rightarrow> string \<Rightarrow> ResourceSpec \<Rightarrow> 's \<Rightarrow> api_answer \<times> 's" where
  "createResource r name meshName spec s =
     (let res = set_spec (new_resource (ep_Type r)) spec in
      case rm_Create (ep_resManager r) res [CreateByKey name meshName] s of
        (Some err, _, s') \<Rightarrow> (answer_error err ''Could not create a resource'', s')
      | (None, _, s') \<Rightarrow> (Inr \<lparr>rs_Status = 201, rs_Body = NoBody\<rparr>, s'))"

definition updateResource ::
  "'s resourceEndpoints \<Rightarrow> AnyResource \<Rightarrow> ResourceSpec \<Rightarrow> 's \<Rightarrow> api_answer \<times> 's" where
  "updateResource r res spec s =
     (let res = set_spec res spec in
      case rm_Update (ep_resManager r) res [] s of
        (Some err, _, s') \<Rightarrow> (answer_error err ''Could not update a resource'', s')
      | (None, _, s') \<Rightarrow> (answer_ok NoBody, s'))"

definition validateResourceRequest ::
  "'s resourceEndpoints \<Rightarrow> ApiRequest \<Rightarrow> ResourceSpec rest_Resource \<Rightarrow> go_error option" where
  "validateResourceRequest r request resource =
     (let name = PathParameter ''name'' request;
          meshName = meshFromRequest r request;
          typ = GetType (new_resource (ep_Type r));
          err = (if name \<noteq> rm_Name (rr_Meta resource)
                 then AddViolation ''name'' ''name from the URL has to be the same as in body'' [] else []);
          err = (if typ \<noteq> rm_Type (rr_Meta resource)
                 then AddViolation ''type'' ''type from the URL has to be the same as in body'' err else err);
          err = (if meshName \<noteq> rm_Mesh (rr_Meta resource) \<and> typ \<noteq> MeshType
                 then AddViolation ''mesh'' ''mesh from the URL has to be the same as in body'' err else err)
      in OrNil (AddError '''' (ValidateMeta name meshName) err))"

definition createOrUpdateResource :: "'s resourceEndpoints \<Rightarrow> ApiRequest \<Rightarrow> 's \<Rightarrow> api_answer \<times> 's" where
  "createOrUpdateResource r request s =
     (let name = PathParameter ''name'' request;
          meshName = meshFromRequest r request
      in case req_Entity request (Spec (new_resource (ep_Type r))) of
           Inl err \<Rightarrow> (answer_error err ''Could not process a resource'', s)
         | Inr resourceRes \<Rightarrow>
             (case validateResourceRequest r request resourceRes of
                Some err \<Rightarrow> (answer_error err ''Could not process a resource'', s)
              | None \<Rightarrow>
                  (case rm_Get (ep_resManager r) (new_resource (ep_Type r)) [GetByKey name meshName] s of
                     (Some err, _) \<Rightarrow>
                       if IsResourceNotFound (Some err) then createResource r name meshName (rr_Spec resourceRes) s
                       else (answer_error err ''Could not find a resource'', s)
                   | (None, resource) \<Rightarrow> updateResource r resource (rr_Spec resourceRes) s)))"

definition deleteResource :: "'s resourceEndpoints \<Rightarrow> ApiRequest \<Rightarrow> 's \<Rightarrow> api_answer \<times> 's" where
  "deleteResource r request s =
     (let name = PathParameter ''name'' request;
          meshName = meshFromRequest r request
      in case rm_Delete (ep_resManager r) (new_resource (ep_Type r)) [DeleteByKey name meshName] s of
           (Some err, s') \<Rightarrow> (answer_error err ''Could not delete a resource'', s')
         | (None, s') \<Rightarrow> (answer_ok NoBody, s'))"

section \<open>Dataplane overviews\<close>

type_synonym DataplaneOverviewResource = "(Dataplane \<times> DataplaneInsight option) Resource"

definition DataplaneOverviewType :: string where
  "DataplaneOverviewType = ''DataplaneOverview''"

record DataplaneOverviewResourceList =
  dol_Items :: "DataplaneOverviewResource list"
  dol_NextOffset :: string

definition insights_by_key :: "DataplaneInsight Resource list \<Rightarrow> (ResourceKey, DataplaneInsight Resource) gomap" where
  "insights_by_key insights = fold (\<lambda>insight. gput (MetaToResourceKey (Meta insight)) insight) insights []"

definition NewDataplaneOverviews ::
  "DataplaneResource list \<Rightarrow> string \<Rightarrow> DataplaneInsight Resource list \<Rightarrow> DataplaneOverviewResourceList" where
  "NewDataplaneOverviews dataplanes nextOffset insights =
     (let insightsByKey = insights_by_key insights in
      \<lparr>dol_Items = map (\<lambda>dataplane.
         \<lparr>Meta = Meta dataplane,
          Spec = (Spec dataplane, map_option Spec (map_of insightsByKey (MetaToResourceKey (Meta dataplane))))\<rparr>) dataplanes,
       dol_NextOffset = nextOffset\<rparr>)"

definition RetainMatchingTags :: "tags \<Rightarrow> DataplaneOverviewResourceList \<Rightarrow> DataplaneOverviewResourceList" where
  "RetainMatchingTags tags d =
     d\<lparr>dol_Items := filter (\<lambda>overview. dataplane_MatchTags (fst (Spec overview)) tags) (dol_Items d)\<rparr>"

definition is_gateway :: "Dataplane \<Rightarrow> bool" where
  "is_gateway d = (case dp_Networking d of None \<Rightarrow> False | Some n \<Rightarrow> net_Gateway n \<noteq> None)"

definition RetainGatewayDataplanes :: "DataplaneOverviewResourceList \<Rightarrow> DataplaneOverviewResourceList" where
  "RetainGatewayDataplanes l = l\<lparr>dol_Items := filter (\<lambda>overview. is_gateway (fst (Spec overview))) (dol_Items l)\<rparr>"

definition parseTags :: "string list \<Rightarrow> tags" where
  "parseTags queryParamValues =
     fold (\<lambda>value tags.
         case strings_split (CHR '':'') value of
           [k, v] \<Rightarrow> gput k v tags
         | _ \<Rightarrow> tags) queryParamValues []"

fun as_DataplaneInsight :: "ResourceSpec \<Rightarrow> DataplaneInsight option" where
  "as_DataplaneInsight (DataplaneInsightSpec s) = Some s" | "as_DataplaneInsight _ = None"

text \<open>A missing insight is read as the zero value, which is then shown.\<close>

definition fetchOverview :: "'s ResourceManager \<Rightarrow> string \<Rightarrow> string \<Rightarrow> 's \<Rightarrow> go_error + DataplaneOverviewResource" where
  "fetchOverview resManager name meshName s =
     bindE (get_typed as_Dataplane ''Dataplane'' (read_only resManager s) [GetByKey name meshName]) (\<lambda>dataplane.
     bindE (case get_typed as_DataplaneInsight ''DataplaneInsight'' (read_only resManager s) [GetByKey name meshName] of
              Inl err \<Rightarrow> if IsResourceNotFound (Some err) then Inr \<lparr>di_Subscriptions = []\<rparr> else Inl err
            | Inr insight \<Rightarrow> Inr (Spec insight))
       (\<lambda>insight. Inr \<lparr>Meta = Meta dataplane, Spec = (Spec dataplane, Some insight)\<rparr>))"

definition fetchOverviews :: "'s ResourceManager \<Rightarrow> page \<Rightarrow> string \<Rightarrow> 's \<Rightarrow> go_error + DataplaneOverviewResourceList" where
  "fetchOverviews resManager p meshName s =
     (case rm_List resManager (new_list (zero_of ''Dataplane''))
             [ListByMesh meshName, ListByPage (page_size p) (page_offset p)] s of
        (Some err, _) \<Rightarrow> Inl err
      | (None, dataplanes) \<Rightarrow>
          (case rm_List resManager (new_list (zero_of ''DataplaneInsight'')) [ListByMesh meshName] s of
             (Some err, _) \<Rightarrow> Inl err
           | (None, insights) \<Rightarrow>
               Inr (NewDataplaneOverviews (typed as_Dataplane (rl_Items dataplanes)) (rl_NextOffset dataplanes)
                      (typed as_DataplaneInsight (rl_Items insights)))))"

definition inspectDataplane :: "'s ResourceManager \<Rightarrow> ApiRequest \<Rightarrow> 's \<Rightarrow> api_answer" where
  "inspectDataplane resManager request s =
     (let name = PathParameter ''name'' request;
          meshName = PathParameter ''mesh'' request
      in case fetchOverview resManager name meshName s of
           Inl err \<Rightarrow> answer_error err ''Could not retrieve a dataplane overview''
         | Inr overview \<Rightarrow> bindE (from_Resource DataplaneOverviewType overview) (\<lambda>res. answer_ok (OverviewBody res)))"

definition inspectDataplanes :: "url_printer \<Rightarrow> string \<Rightarrow> 's ResourceManager \<Rightarrow> ApiRequest \<Rightarrow> 's \<Rightarrow> api_answer" where
  "inspectDataplanes print_url publicURL resManager request s =
     (let title = ''Could not retrieve dataplane overviews'';
          meshName = PathParameter ''mesh'' request
      in case pagination request of
           Inl err \<Rightarrow> answer_error err title
         | Inr page \<Rightarrow>
             if (QueryParameter ''size'' request \<noteq> '''' \<or> QueryParameter ''offset'' request \<noteq> '''') \<and>
                (QueryParameter ''tag'' request \<noteq> '''' \<or> QueryParameter ''gateway'' request \<noteq> '''')
             then answer_error PaginationNotSupported title
             else (case fetchOverviews resManager page meshName s of
                     Inl err \<Rightarrow> answer_error err title
                   | Inr overviews \<Rightarrow>
                       (let tags = parseTags (QueryParameters ''tag'' request);
                            overviews = (if QueryParameter ''gateway'' request = ''true''
                                         then RetainGatewayDataplanes overviews else overviews);
                            overviews = RetainMatchingTags tags overviews
                        in bindE (from_ResourceList (\<lambda>_. DataplaneOverviewType) (dol_Items overviews)) (\<lambda>restList.
                           case nextLink print_url publicURL request (dol_NextOffset overviews) of
                             Inl err \<Rightarrow> answer_error err ''Could not list dataplane overviews''
                           | Inr next_link \<Rightarrow> answer_ok (OverviewsBody (restList\<lparr>rrl_Next := next_link\<rparr>))))))"

section \<open>The table of endpoints\<close>

datatype Method = GET | PUT | DELETE

datatype 's Handler =
    Reads "url_printer \<Rightarrow> ApiRequest \<Rightarrow> 's \<Rightarrow> api_answer"
  | Writes "ApiRequest \<Rightarrow> 's \<Rightarrow> api_answer \<times> 's"

record 's ApiRoute =
  route_Method :: Method
  route_Path :: string
  route_Handler :: "'s Handler"

definition addFindEndpoint :: "'s resourceEndpoints \<Rightarrow> string \<Rightarrow> 's ApiRoute list \<Rightarrow> 's ApiRoute list" where
  "addFindEndpoint r pathPrefix ws =
     ws @ [\<lparr>route_Method = GET, route_Path = pathPrefix @ ''/{name}'', route_Handler = Reads (\<lambda>_. findResource r)\<rparr>]"

definition addListEndpoint :: "'s resourceEndpoints \<Rightarrow> string \<Rightarrow> 's ApiRoute list \<Rightarrow> 's ApiRoute list" where
  "addListEndpoint r pathPrefix ws =
     ws @ [\<lparr>route_Method = GET, route_Path = pathPrefix, route_Handler = Reads (\<lambda>print_url. listResources print_url r)\<rparr>]"

definition addCreateOrUpdateEndpoint :: "'s resourceEndpoints \<Rightarrow> string \<Rightarrow> 's ApiRoute list \<Rightarrow> 's ApiRoute list" where
  "addCreateOrUpdateEndpoint r pathPrefix ws =
     ws @ [\<lparr>route_Method = PUT, route_Path = pathPrefix @ ''/{name}'', route_Handler = Writes (createOrUpdateResource r)\<rparr>]"

definition addDeleteEndpoint :: "'s resourceEndpoints \<Rightarrow> string \<Rightarrow> 's ApiRoute list \<Rightarrow> 's ApiRoute list" where
  "addDeleteEndpoint r pathPrefix ws =
     ws @ [\<lparr>route_Method = DELETE, route_Path = pathPrefix @ ''/{name}'', route_Handler = Writes (deleteResource r)\<rparr>]"

definition addOverviewEndpoints :: "string \<Rightarrow> 's ResourceManager \<Rightarrow> 's ApiRoute list \<Rightarrow> 's ApiRoute list" where
  "addOverviewEndpoints publicURL resManager ws =
     ws @ [\<lparr>route_Method = GET, route_Path = ''/meshes/{mesh}/dataplanes+insights'',
            route_Handler = Reads (\<lambda>print_url. inspectDataplanes print_url publicURL resManager)\<rparr>,
           \<lparr>route_Method = GET, route_Path = ''/meshes/{mesh}/dataplanes+insights/{name}'',
            route_Handler = Reads (\<lambda>_. inspectDataplane resManager)\<rparr>,
           \<lparr>route_Method = GET, route_Path = ''/dataplanes+insights'',
            route_Handler = Reads (\<lambda>print_url. inspectDataplanes print_url publicURL resManager)\<rparr>]"

definition addDefinition :: "bool \<Rightarrow> string \<Rightarrow> 's ResourceManager \<Rightarrow> ResourceWsDefinition \<Rightarrow> 's ApiRoute list \<Rightarrow> 's ApiRoute list" where
  "addDefinition readOnly publicURL resManager definition ws =
     (let path = ''/meshes/{mesh}/'' @ ws_Path definition;
          endpoints = (\<lambda>param. \<lparr>ep_publicURL = publicURL, ep_resManager = resManager, ep_meshParam = param, ep_Type = ws_Type definition\<rparr>)
      in if ws_Type definition \<noteq> MeshType
         then (let r = endpoints ''mesh'';
                   ws = (if \<not> readOnly then addDeleteEndpoint r path (addCreateOrUpdateEndpoint r path ws) else ws);
                   ws = addFindEndpoint r path ws;
                   ws = addListEndpoint r path ws
               in addListEndpoint r (''/'' @ ws_Path definition) ws)
         else (let r = endpoints ''name'';
                   ws = (if \<not> readOnly then addDeleteEndpoint r ''/meshes'' (addCreateOrUpdateEndpoint r ''/meshes'' ws) else ws)
               in addListEndpoint r ''/meshes'' (addFindEndpoint r ''/meshes'' ws)))"

definition addResourcesEndpoints ::
  "bool \<Rightarrow> string \<Rightarrow> 's ResourceManager \<Rightarrow> ResourceWsDefinition list \<Rightarrow> 's ApiRoute list \<Rightarrow> 's ApiRoute list" where
  "addResourcesEndpoints readOnly publicURL resManager defs ws =
     fold (addDefinition readOnly publicURL resManager) defs (addOverviewEndpoints publicURL resManager ws)"

section \<open>Reading and writing a resource\<close>

text \<open>The specification stored under a type, a name and a mesh.\<close>

definition spec_view :: "codec \<Rightarrow> memoryStore \<Rightarrow> store_key \<Rightarrow> ResourceSpec option" where
  "spec_view cd s key = map_option (\<lambda>rec. Spec (decode cd rec)) (mem_abs s key)"

text \<open>The endpoints of a type of the memory store, behind the managers of the control plane.\<close>

definition memory_endpoints ::
  "nat \<Rightarrow> library \<Rightarrow> gotime \<Rightarrow> codec \<Rightarrow> memoryStore caManagers \<Rightarrow> typeRegistry \<Rightarrow> string \<Rightarrow> string \<Rightarrow>
   memoryStore resourceEndpoints" where
  "memory_endpoints fuel lib now cd cas registry publicURL typ =
     \<lparr>ep_publicURL = publicURL,
      ep_resManager = customizableManager (Suc fuel) lib now (memory_store cd) cas registry,
      ep_meshParam = ''mesh'', ep_Type = typ\<rparr>"

lemma new_resource_type: "typ \<in> spec_type ` set zero_specs \<Longrightarrow>
    GetType (new_resource typ) = typ \<and> Spec (new_resource typ) \<in> set zero_specs \<and> Meta (new_resource typ) = None"
proof -
  assume "typ \<in> spec_type ` set zero_specs"
  then obtain z where "typ = spec_type z" by blast
  then show ?thesis using zero_specs_complete [of z] by (simp add: new_resource_def GetType_def)
qed

lemma memory_manager_Get:
  assumes "typ \<noteq> MeshType" and "GetType r = typ"
  shows "rm_Get (ep_resManager (memory_endpoints fuel lib now cd cas registry url typ)) r fs s = mem_Get cd r fs s"
  using assms by (simp add: memory_endpoints_def customizableManager.simps customizableResourceManager_def
      customizable_resourceManager_def resourcesManager_def memory_store_def Let_def)

lemma memory_get:
  assumes inv: "mem_inv cd s" and kind: "typ \<in> spec_type ` set zero_specs" "typ \<noteq> MeshType"
  shows "mem_Get cd (new_resource typ) [GetByKey name mesh] s =
    (case mem_abs s (typ, name, mesh) of
       None \<Rightarrow> (Some (ErrorResourceNotFound typ name mesh), new_resource typ)
     | Some rec \<Rightarrow> (None, decode cd rec))"
proof (cases "mem_abs s (typ, name, mesh)")
  case None
  then have "findRecord s typ name mesh = None" by (simp add: findRecord_None)
  then show ?thesis
    using None kind(2) new_resource_type [OF kind(1)] by (simp add: mem_Get_def NewGetOptions_def GetByKey_def Let_def)
next
  case (Some rec)
  then obtain idx where f: "findRecord s typ name mesh = Some (idx, rec)"
    using findRecord_abs [of s "typ" name mesh] by (cases "findRecord s typ name mesh") auto
  have rec: "rec \<in> set s" "rec_ResourceType rec = typ" using mem_abs_key [OF Some] by (auto simp: rec_key_def)
  have "unmarshalRecord cd rec (new_resource typ) = (None, decode cd rec)"
    using unmarshal_decode(1) [of cd rec "new_resource typ"] inv rec new_resource_type [OF kind(1)] by (simp add: mem_inv_def)
  then show ?thesis
    using f Some kind(2) new_resource_type [OF kind(1)] by (simp add: mem_Get_def NewGetOptions_def GetByKey_def Let_def)
qed

lemma stored_meta:
  assumes "mem_inv cd s" and "mem_abs s (typ, name, mesh) = Some rec"
  shows "GetType (decode cd rec) = typ" and "\<exists>m. Meta (decode cd rec) = Some (MemoryMeta m) \<and> mm_Name m = name \<and> mm_Mesh m = mesh"
proof -
  have rec: "rec \<in> set s" "rec_ResourceType rec = typ" "rec_Name rec = name" "rec_Mesh rec = mesh"
    using mem_abs_key [OF assms(2)] by (auto simp: rec_key_def)
  obtain spec where spec: "ToJSON cd spec = Inr (rec_Spec rec)" "spec_type spec = rec_ResourceType rec"
    using assms(1) rec(1) by (auto simp: mem_inv_def record_ok_def)
  have d: "decode cd rec = \<lparr>Meta = Some (MemoryMeta (record_meta rec)), Spec = spec\<rparr>"
    using decode_eq [OF _ spec] assms(1) by (simp add: mem_inv_def)
  show "GetType (decode cd rec) = typ" using d spec(2) rec(2) by (simp add: GetType_def)
  show "\<exists>m. Meta (decode cd rec) = Some (MemoryMeta m) \<and> mm_Name m = name \<and> mm_Mesh m = mesh"
    using d rec(3,4) by (simp add: record_meta_def)
qed

text \<open>Reading: 200 with the stored specification, or 404.\<close>

lemma find_reads_stored:
  assumes inv: "mem_inv cd s" and kind: "typ \<in> spec_type ` set zero_specs" "typ \<noteq> MeshType"
    and req: "PathParameter ''name'' request = name" "PathParameter ''mesh'' request = mesh"
  shows "case spec_view cd s (typ, name, mesh) of
      None \<Rightarrow> \<exists>body. findResource (memory_endpoints fuel lib now cd cas registry url typ) request s = Inr \<lparr>rs_Status = 404, rs_Body = body\<rparr>
    | Some spec \<Rightarrow> \<exists>res. findResource (memory_endpoints fuel lib now cd cas registry url typ) request s =
        Inr \<lparr>rs_Status = 200, rs_Body = ResourceBody res\<rparr> \<and> rr_Spec res = spec \<and>
        rm_Type (rr_Meta res) = typ \<and> rm_Name (rr_Meta res) = name \<and> rm_Mesh (rr_Meta res) = mesh"
proof -
  let ?r = "memory_endpoints fuel lib now cd cas registry url typ"
  have ep: "ep_meshParam ?r = ''mesh''" "ep_Type ?r = typ" by (simp_all add: memory_endpoints_def)
  have get: "rm_Get (ep_resManager ?r) (new_resource (ep_Type ?r)) [GetByKey name mesh] s =
      mem_Get cd (new_resource typ) [GetByKey name mesh] s"
    using memory_manager_Get [OF kind(2), of "new_resource typ"] new_resource_type [OF kind(1)] ep by simp
  show ?thesis
  proof (cases "mem_abs s (typ, name, mesh)")
    case None
    then show ?thesis
      using get memory_get [OF inv kind, of name mesh] req ep
      by (simp add: findResource_def Let_def meshFromRequest_def spec_view_def answer_error_def HandleError_def handleNotFound_def writeError_def
          ErrorResourceNotFound_def resource_error_def IsResourceNotFound_def has_prefix_def)
  next
    case (Some rec)
    show ?thesis
      using get memory_get [OF inv kind, of name mesh] req ep stored_meta [OF inv Some] Some kind(2)
      by (auto simp: findResource_def Let_def meshFromRequest_def spec_view_def from_Resource_def answer_ok_def)
  qed
qed

text \<open>Writing: a request is rejected and changes nothing, or stores the specification of its body.\<close>

lemma HandleError_status: "rs_Status (HandleError err title) \<in> {400, 404, 412, 500}"
proof -
  have "rs_Status (writeError n t d c) = n" for n t d c by (simp add: writeError_def)
  then show ?thesis by (cases err) (simp_all add: HandleError_def error_handlers)
qed

definition request_rejected :: "api_answer \<Rightarrow> bool" where
  "request_rejected a = (case a of Inl _ \<Rightarrow> True | Inr response \<Rightarrow> rs_Status response \<in> {400, 404, 412, 500})"

lemma answer_error_rejected [simp]: "request_rejected (answer_error err title)"
  using HandleError_status [of err title] by (cases err) (simp_all add: request_rejected_def answer_error_def)

lemma spec_view_update:
  "spec_view cd s' = (spec_view cd s)(key \<mapsto> Spec (decode cd rec))" if "mem_abs s' = (mem_abs s)(key \<mapsto> rec)"
  using that by (auto simp: spec_view_def fun_eq_iff)

lemma create_upserts:
  assumes inv: "mem_inv cd s" and kind: "typ \<in> spec_type ` set zero_specs" "typ \<noteq> MeshType" and spec: "spec_type spec = typ"
    and create: "createResource (memory_endpoints fuel lib now cd cas registry url typ) name mesh spec s = (a, s')"
  shows "s' = s \<and> request_rejected a \<or>
    a = Inr \<lparr>rs_Status = 201, rs_Body = NoBody\<rparr> \<and> mem_inv cd s' \<and> mem_abs s (typ, name, mesh) = None \<and>
    spec_view cd s' = (spec_view cd s)((typ, name, mesh) \<mapsto> spec)"
proof -
  let ?r = "memory_endpoints fuel lib now cd cas registry url typ"
  let ?res = "\<lparr>Meta = None, Spec = spec\<rparr>"
  let ?fs = "[CreateByKey name mesh, CreatedAt now]"
  have res: "set_spec (new_resource typ) spec = ?res"
    using new_resource_type [OF kind(1)] spec by (simp add: set_spec_def with_spec_def)
  have "ep_Type ?r = typ" by (simp add: memory_endpoints_def)
  moreover have "rm_Create (ep_resManager ?r) ?res [CreateByKey name mesh] s = res_Create lib now (memory_store cd) ?res [CreateByKey name mesh] s"
    using kind(2) spec by (simp add: memory_endpoints_def rm_customizable GetType_def)
  ultimately have c: "createResource ?r name mesh spec s = (case res_Create lib now (memory_store cd) ?res [CreateByKey name mesh] s of
        (Some err, _, s') \<Rightarrow> (answer_error err ''Could not create a resource'', s')
      | (None, _, s') \<Rightarrow> (Inr \<lparr>rs_Status = 201, rs_Body = NoBody\<rparr>, s'))"
    by (simp add: createResource_def res Let_def)
  obtain e r' c' where m: "mem_Create cd ?res ?fs s = (e, r', c')" by (metis prod_cases3)
  have uk: "unique_keys s" and cd: "codec_ok cd" using inv by (simp_all add: mem_inv_def)
  have key: "create_key ?res (NewCreateOptions ?fs) = (typ, name, mesh)"
    using spec kind(2) by (simp add: create_key_def NewCreateOptions_def CreateByKey_def CreatedAt_def GetType_def)
  show ?thesis
  proof (cases "res_Create lib now (memory_store cd) ?res [CreateByKey name mesh] s = (None, r', c') \<and> e = None")
    case True
    then obtain content where content: "ToJSON cd spec = Inr content" "mem_abs s (typ, name, mesh) = None"
      "mem_abs c' = (mem_abs s)((typ, name, mesh) \<mapsto> created_record ?res (NewCreateOptions ?fs) content)"
      using mem_Create_abs(3) [OF uk m] key by auto
    have "Spec (decode cd (created_record ?res (NewCreateOptions ?fs) content)) = spec"
      using decode_created [OF cd, of ?res content "NewCreateOptions ?fs"] content(1) by simp
    then have "spec_view cd c' = (spec_view cd s)((typ, name, mesh) \<mapsto> spec)"
      using spec_view_update [OF content(3), of cd] by simp
    moreover have "mem_inv cd c'" using mem_Create_contents [OF inv m] by simp
    ultimately show ?thesis using True c create content(2) by auto
  next
    case False
    have "\<exists>err r''. res_Create lib now (memory_store cd) ?res [CreateByKey name mesh] s = (Some err, r'', s)"
    proof (cases "Validate lib ?res = None \<and> ensureMeshExists (memory_store cd) mesh s = None")
      case True
      then have "res_Create lib now (memory_store cd) ?res [CreateByKey name mesh] s = mem_Create cd ?res ?fs s"
        by (simp add: res_Create_def Let_def NewCreateOptions_def CreateByKey_def memory_store_def)
      then show ?thesis using False m mem_Create_abs(2) [OF uk m] by (cases e) auto
    next
      case invalid: False
      have "GetType ?res \<noteq> MeshType" using spec kind(2) by (simp add: GetType_def)
      then show ?thesis
        using invalid by (cases "Validate lib ?res") (auto simp: res_Create_def Let_def NewCreateOptions_def CreateByKey_def)
    qed
    then show ?thesis using c create by auto
  qed
qed

lemma update_upserts:
  assumes inv: "mem_inv cd s" and kind: "typ \<noteq> MeshType" and spec: "spec_type spec = typ"
    and rec: "mem_abs s (typ, name, mesh) = Some rec"
    and update: "updateResource (memory_endpoints fuel lib now cd cas registry url typ) (decode cd rec) spec s = (a, s')"
  shows "s' = s \<and> request_rejected a \<or>
    a = Inr \<lparr>rs_Status = 200, rs_Body = NoBody\<rparr> \<and> mem_inv cd s' \<and>
    spec_view cd s' = (spec_view cd s)((typ, name, mesh) \<mapsto> spec)"
proof -
  let ?r = "memory_endpoints fuel lib now cd cas registry url typ"
  let ?res = "with_spec (decode cd rec) spec"
  obtain m where m: "Meta (decode cd rec) = Some (MemoryMeta m)" "mm_Name m = name" "mm_Mesh m = mesh"
    using stored_meta(2) [OF inv rec] by blast
  have typ': "GetType ?res = typ" using spec by (simp add: GetType_def)
  have "set_spec (decode cd rec) spec = ?res" using spec stored_meta(1) [OF inv rec] by (simp add: set_spec_def)
  moreover have "rm_Update (ep_resManager ?r) ?res [] s = res_Update lib now (memory_store cd) ?res [] s"
    using kind typ' by (simp add: memory_endpoints_def rm_customizable)
  ultimately have u: "updateResource ?r (decode cd rec) spec s = (case res_Update lib now (memory_store cd) ?res [] s of
        (Some err, _, s') \<Rightarrow> (answer_error err ''Could not update a resource'', s')
      | (None, _, s') \<Rightarrow> (answer_ok NoBody, s'))"
    by (simp add: updateResource_def Let_def)
  obtain e c' where mu: "mem_Update cd ?res [ModifiedAt now] s = (e, c')" by (metis surj_pair)
  have uk: "unique_keys s" and cd: "codec_ok cd" using inv by (simp_all add: mem_inv_def)
  show ?thesis
  proof (cases "Validate lib ?res = None \<and> e = None")
    case True
    then obtain content t where content: "ToJSON cd spec = Inr content"
      "mem_abs c' = (mem_abs s)((typ, name, mesh) \<mapsto> updated_record ?res m t content)"
      using mem_Update_abs(3) [OF uk mu] m typ' by (auto simp: update_key_def)
    have "Spec (decode cd (updated_record ?res m t content)) = spec"
      using decode_updated [OF cd, of ?res content m] content(1) by simp
    then have "spec_view cd c' = (spec_view cd s)((typ, name, mesh) \<mapsto> spec)"
      using spec_view_update [OF content(2), of cd] by simp
    moreover have "mem_inv cd c'" using mem_Update_contents [OF inv mu] by simp
    ultimately show ?thesis using True u update mu by (auto simp: res_Update_def memory_store_def answer_ok_def)
  next
    case False
    then have "\<exists>err. res_Update lib now (memory_store cd) ?res [] s = (Some err, ?res, s)"
      using mu mem_Update_abs(2) [OF uk mu] by (auto simp: res_Update_def memory_store_def split: option.splits)
    then show ?thesis using u update by auto
  qed
qed

text \<open>What is accepted: a valid specification that can be written, in a mesh that exists.\<close>

lemma not_rejected_ok [simp]: "\<not> request_rejected (Inr \<lparr>rs_Status = 201, rs_Body = b\<rparr>)" "\<not> request_rejected (answer_ok b)"
  by (simp_all add: request_rejected_def answer_ok_def)

lemma create_accepts:
  assumes inv: "mem_inv cd s" "mesh_named s" "int (length s) < 2 ^ 63" and mesh: "mesh \<noteq> ''''"
    and kind: "typ \<in> spec_type ` set zero_specs" "typ \<noteq> MeshType" and spec: "spec_type spec = typ"
    and new: "mem_abs s (typ, name, mesh) = None"
    and create: "createResource (memory_endpoints fuel lib now cd cas registry url typ) name mesh spec s = (a, s')"
  shows "\<not> request_rejected a \<longleftrightarrow> Validate lib \<lparr>Meta = None, Spec = spec\<rparr> = None \<and> (\<exists>content. ToJSON cd spec = Inr content) \<and>
    mem_abs s (MeshType, mesh, mesh) \<noteq> None"
proof -
  let ?r = "memory_endpoints fuel lib now cd cas registry url typ"
  let ?res = "\<lparr>Meta = None, Spec = spec\<rparr>"
  have res: "set_spec (new_resource typ) spec = ?res" and ty: "GetType ?res \<noteq> MeshType" and ep: "ep_Type ?r = typ"
    using new_resource_type [OF kind(1)] spec kind(2) by (simp_all add: set_spec_def with_spec_def GetType_def memory_endpoints_def)
  have "rm_Create (ep_resManager ?r) ?res [CreateByKey name mesh] s = res_Create lib now (memory_store cd) ?res [CreateByKey name mesh] s"
    using kind(2) spec by (simp add: memory_endpoints_def rm_customizable GetType_def)
  then have c: "createResource ?r name mesh spec s = (case res_Create lib now (memory_store cd) ?res [CreateByKey name mesh] s of
        (Some err, _, s') \<Rightarrow> (answer_error err ''Could not create a resource'', s')
      | (None, _, s') \<Rightarrow> (Inr \<lparr>rs_Status = 201, rs_Body = NoBody\<rparr>, s'))"
    by (simp add: createResource_def res Let_def ep)
  have "findRecord s typ name mesh = None" using new by (simp add: findRecord_None)
  then have m: "fst (mem_Create cd ?res [CreateByKey name mesh, CreatedAt now] s) = None \<longleftrightarrow> (\<exists>content. ToJSON cd spec = Inr content)"
    using kind(2) spec by (cases "ToJSON cd spec") (simp_all add: mem_Create_def Let_def NewCreateOptions_def CreateByKey_def
        CreatedAt_def marshalRecord_def GetType_def)
  show ?thesis
  proof (cases "Validate lib ?res")
    case None
    show ?thesis
      using create m unfolding c create_requires_mesh [OF inv None ty mesh]
      by (auto simp: None split: option.splits prod.splits if_splits)
  next
    case (Some err)
    then show ?thesis using create unfolding c by (auto simp: res_Create_def)
  qed
qed

lemma update_accepts:
  assumes inv: "mem_inv cd s" and kind: "typ \<noteq> MeshType" and spec: "spec_type spec = typ"
    and rec: "mem_abs s (typ, name, mesh) = Some rec"
    and update: "updateResource (memory_endpoints fuel lib now cd cas registry url typ) (decode cd rec) spec s = (a, s')"
  shows "\<not> request_rejected a \<longleftrightarrow> Validate lib \<lparr>Meta = None, Spec = spec\<rparr> = None \<and> (\<exists>content. ToJSON cd spec = Inr content)"
proof -
  let ?r = "memory_endpoints fuel lib now cd cas registry url typ"
  let ?res = "with_spec (decode cd rec) spec"
  have rec': "rec \<in> set s" "rec_ResourceType rec = typ" "rec_Name rec = name" "rec_Mesh rec = mesh"
    using mem_abs_key [OF rec] by (auto simp: rec_key_def)
  obtain old where old: "ToJSON cd old = Inr (rec_Spec rec)" "spec_type old = rec_ResourceType rec"
    using inv rec'(1) by (auto simp: mem_inv_def record_ok_def)
  have "decode cd rec = \<lparr>Meta = Some (MemoryMeta (record_meta rec)), Spec = old\<rparr>"
    using decode_eq [OF _ old] inv by (simp add: mem_inv_def)
  then have res: "?res = \<lparr>Meta = Some (MemoryMeta (record_meta rec)), Spec = spec\<rparr>" "set_spec (decode cd rec) spec = ?res"
    using spec old(2) rec'(2) by (simp_all add: with_spec_def set_spec_def GetType_def)
  have "rm_Update (ep_resManager ?r) ?res [] s = res_Update lib now (memory_store cd) ?res [] s"
    using kind spec by (simp add: memory_endpoints_def rm_customizable GetType_def)
  then have u: "updateResource ?r (decode cd rec) spec s = (case res_Update lib now (memory_store cd) ?res [] s of
        (Some err, _, s') \<Rightarrow> (answer_error err ''Could not update a resource'', s')
      | (None, _, s') \<Rightarrow> (answer_ok NoBody, s'))"
    by (simp add: updateResource_def Let_def res(2))
  obtain idx where "findRecord s typ name mesh = Some (idx, rec)"
    using findRecord_abs [of s "typ" name mesh] rec by (cases "findRecord s typ name mesh") auto
  then have m: "fst (mem_Update cd ?res [ModifiedAt now] s) = None \<longleftrightarrow> (\<exists>content. ToJSON cd spec = Inr content)"
    using spec rec' by (cases "ToJSON cd spec") (simp_all add: res(1) mem_Update_def Let_def marshalRecord_def GetType_def record_meta_def)
  have v: "Validate lib ?res = Validate lib \<lparr>Meta = None, Spec = spec\<rparr>" by (rule Validate_spec) simp
  show ?thesis
    using update m unfolding u
    by (auto simp: res_Update_def memory_store_def v split: option.splits prod.splits)
qed

definition put_accepted :: "library \<Rightarrow> codec \<Rightarrow> memoryStore \<Rightarrow> string \<Rightarrow> ApiRequest \<Rightarrow> ResourceSpec rest_Resource \<Rightarrow> bool" where
  "put_accepted lib cd s typ request body \<longleftrightarrow>
     (let name = PathParameter ''name'' request; mesh = PathParameter ''mesh'' request in
      rm_Type (rr_Meta body) = typ \<and> rm_Name (rr_Meta body) = name \<and> rm_Mesh (rr_Meta body) = mesh \<and>
      nameMeshRegexp name \<and> nameMeshRegexp mesh \<and>
      Validate lib \<lparr>Meta = None, Spec = rr_Spec body\<rparr> = None \<and> (\<exists>content. ToJSON cd (rr_Spec body) = Inr content) \<and>
      (spec_view cd s (typ, name, mesh) = None \<longrightarrow> spec_view cd s (MeshType, mesh, mesh) \<noteq> None))"

lemma validated_request:
  assumes "typ \<in> spec_type ` set zero_specs" and "typ \<noteq> MeshType"
  shows "validateResourceRequest (memory_endpoints fuel lib now cd cas registry url typ) request body = None \<longleftrightarrow>
    rm_Type (rr_Meta body) = typ \<and> rm_Name (rr_Meta body) = PathParameter ''name'' request \<and>
    rm_Mesh (rr_Meta body) = PathParameter ''mesh'' request \<and>
    nameMeshRegexp (PathParameter ''name'' request) \<and> nameMeshRegexp (PathParameter ''mesh'' request)"
proof -
  have "ValidateMeta name mesh = [] \<longleftrightarrow> nameMeshRegexp name \<and> nameMeshRegexp mesh" for name mesh
    by (simp add: ValidateMeta_def Let_def)
  then show ?thesis
    using new_resource_type [OF assms(1)] assms(2)
    by (auto simp: validateResourceRequest_def memory_endpoints_def meshFromRequest_def Let_def)
qed

lemma put_accepts:
  assumes inv: "mem_inv cd s" "mesh_named s" "int (length s) < 2 ^ 63" and mesh: "PathParameter ''mesh'' request \<noteq> ''''"
    and kind: "typ \<in> spec_type ` set zero_specs" "typ \<noteq> MeshType"
    and body: "req_Entity request (zero_of typ) = Inr body" "spec_type (rr_Spec body) = typ"
    and put: "createOrUpdateResource (memory_endpoints fuel lib now cd cas registry url typ) request s = (a, s')"
  shows "\<not> request_rejected a \<longleftrightarrow> put_accepted lib cd s typ request body"
proof -
  let ?r = "memory_endpoints fuel lib now cd cas registry url typ"
  let ?name = "PathParameter ''name'' request" and ?mesh = "PathParameter ''mesh'' request"
  have ep: "ep_Type ?r = typ" "meshFromRequest ?r request = ?mesh" "Spec (new_resource typ) = zero_of typ"
    by (simp_all add: memory_endpoints_def meshFromRequest_def new_resource_def)
  have get: "rm_Get (ep_resManager ?r) (new_resource typ) [GetByKey ?name ?mesh] s = mem_Get cd (new_resource typ) [GetByKey ?name ?mesh] s"
    using memory_manager_Get [OF kind(2)] new_resource_type [OF kind(1)] by simp
  note unfold = createOrUpdateResource_def Let_def ep body get memory_get [OF inv(1) kind]
  show ?thesis
  proof (cases "validateResourceRequest ?r request body")
    case None
    note valid = None [unfolded validated_request [OF kind]]
    show ?thesis
    proof (cases "mem_abs s (typ, ?name, ?mesh)")
      case new: None
      have "createResource ?r ?name ?mesh (rr_Spec body) s = (a, s')" using put None new by (simp add: unfold)
      from create_accepts [OF inv mesh kind body(2) new this] show ?thesis
        using valid new by (auto simp: put_accepted_def spec_view_def Let_def)
    next
      case (Some rec)
      have "updateResource ?r (decode cd rec) (rr_Spec body) s = (a, s')" using put None Some by (simp add: unfold)
      from update_accepts [OF inv(1) kind(2) body(2) Some this] show ?thesis
        using valid Some by (auto simp: put_accepted_def spec_view_def Let_def)
    qed
  next
    case (Some err)
    have "request_rejected a" using put Some by (auto simp: unfold)
    moreover have "\<not> put_accepted lib cd s typ request body"
      using Some validated_request [OF kind, of fuel lib now cd cas registry url request body]
      by (auto simp: put_accepted_def Let_def)
    ultimately show ?thesis by simp
  qed
qed

lemma put_outcome:
  assumes "mem_inv cd s" and "typ \<in> spec_type ` set zero_specs" and "typ \<noteq> MeshType"
    and "\<forall>body. req_Entity request (zero_of typ) = Inr body \<longrightarrow> spec_type (rr_Spec body) = typ"
    and "key = (typ, PathParameter ''name'' request, PathParameter ''mesh'' request)"
    and "createOrUpdateResource (memory_endpoints fuel lib now cd cas registry url typ) request s = (a, s')"
  shows "s' = s \<and> request_rejected a \<or>
    (\<exists>body res. req_Entity request (zero_of typ) = Inr body \<and>
       a = Inr \<lparr>rs_Status = (if spec_view cd s key = None then 201 else 200), rs_Body = NoBody\<rparr> \<and>
       mem_inv cd s' \<and> spec_view cd s' = (spec_view cd s)(key \<mapsto> rr_Spec body) \<and>
       findResource (memory_endpoints fuel lib now cd cas registry url typ) request s' =
         Inr \<lparr>rs_Status = 200, rs_Body = ResourceBody res\<rparr> \<and> rr_Spec res = rr_Spec body)"
proof -
  let ?r = "memory_endpoints fuel lib now cd cas registry url typ"
  let ?name = "PathParameter ''name'' request" and ?mesh = "PathParameter ''mesh'' request"
  note kind = assms(2,3)
  have ep: "ep_Type ?r = typ" "meshFromRequest ?r request = ?mesh" "Spec (new_resource typ) = zero_of typ"
    by (simp_all add: memory_endpoints_def meshFromRequest_def new_resource_def)
  have get: "rm_Get (ep_resManager ?r) (new_resource typ) [GetByKey ?name ?mesh] s = mem_Get cd (new_resource typ) [GetByKey ?name ?mesh] s"
    using memory_manager_Get [OF kind(2)] new_resource_type [OF kind(1)] by simp
  consider (early) "s' = s" "request_rejected a"
    | (create) body where "req_Entity request (zero_of typ) = Inr body" "mem_abs s key = None"
        "createResource ?r ?name ?mesh (rr_Spec body) s = (a, s')"
    | (update) body rec where "req_Entity request (zero_of typ) = Inr body" "mem_abs s key = Some rec"
        "updateResource ?r (decode cd rec) (rr_Spec body) s = (a, s')"
    using assms(5,6) get memory_get [OF assms(1) kind, of ?name ?mesh]
    by (cases "req_Entity request (zero_of typ)"; cases "mem_abs s key")
      (auto simp: createOrUpdateResource_def Let_def ep split: option.splits if_splits)
  then consider (same) "s' = s" "request_rejected a"
    | (stored) body where "req_Entity request (zero_of typ) = Inr body" "mem_inv cd s'"
        "spec_view cd s' = (spec_view cd s)(key \<mapsto> rr_Spec body)"
        "a = Inr \<lparr>rs_Status = (if spec_view cd s key = None then 201 else 200), rs_Body = NoBody\<rparr>"
  proof cases
    case early
    then show ?thesis by (rule that(1))
  next
    case (create body)
    from create_upserts [OF assms(1) kind _ create(3)] assms(4,5) create(1,2) show ?thesis
      using that by (auto simp: spec_view_def)
  next
    case (update body rec)
    from update_upserts [OF assms(1) kind(2) _ _ update(3), of ?name ?mesh] assms(4,5) update(1,2) show ?thesis
      using that by (auto simp: spec_view_def)
  qed
  then show ?thesis
  proof cases
    case (stored body)
    have "spec_view cd s' (typ, ?name, ?mesh) = Some (rr_Spec body)" using stored(3) assms(5) by simp
    then show ?thesis
      using find_reads_stored [where request = request and fuel = fuel and lib = lib and now = now and cas = cas and
          registry = registry and url = url, OF stored(2) kind refl refl] stored by auto
  qed simp
qed

section \<open>Listing overviews\<close>

lemma memory_manager_List:
  assumes "GetItemType l \<noteq> MeshType"
  shows "rm_List (customizableManager (Suc fuel) lib now (memory_store cd) cas registry) l fs s = mem_List cd l fs s"
  using assms by (simp add: customizableManager.simps customizableResourceManager_def
      customizable_resourceManager_def resourcesManager_def memory_store_def Let_def)

text \<open>The dataplanes that a request asks for, and those of the first page.\<close>

definition asked_for :: "ApiRequest \<Rightarrow> Dataplane \<Rightarrow> bool" where
  "asked_for request d \<longleftrightarrow>
     (QueryParameter ''gateway'' request = ''true'' \<longrightarrow> is_gateway d) \<and>
     dataplane_MatchTags d (parseTags (QueryParameters ''tag'' request))"

definition first_dataplanes :: "codec \<Rightarrow> nat \<Rightarrow> string \<Rightarrow> memoryStore \<Rightarrow> DataplaneResource list" where
  "first_dataplanes cd n mesh s = typed as_Dataplane (map (decode cd) (take n (findRecords s ''Dataplane'' mesh)))"

lemma rest_list_of:
  assumes "\<forall>r \<in> set rs. Meta r \<noteq> None"
  shows "\<exists>l. from_ResourceList typ rs = Inr l \<and> map rr_Spec (rrl_Items l) = map Spec rs"
proof -
  have "\<exists>items. mapE (\<lambda>r. from_Resource (typ r) r) rs = Inr items \<and> map rr_Spec items = map Spec rs"
    using assms by (induction rs) (auto simp: from_Resource_def)
  then show ?thesis by (auto simp: from_ResourceList_def)
qed

lemma overviews_shown:
  assumes "\<forall>d \<in> set ds. Meta d \<noteq> None"
  shows "\<exists>l. from_ResourceList (\<lambda>_. DataplaneOverviewType)
      (dol_Items (RetainMatchingTags (parseTags (QueryParameters ''tag'' request))
        (if QueryParameter ''gateway'' request = ''true'' then RetainGatewayDataplanes (NewDataplaneOverviews ds offset is)
         else NewDataplaneOverviews ds offset is))) = Inr l \<and>
      map (fst \<circ> rr_Spec) (rrl_Items l) = filter (asked_for request) (map Spec ds)"
    (is "\<exists>l. from_ResourceList _ ?items = _ \<and> _")
proof -
  have meta: "\<forall>r \<in> set ?items. Meta r \<noteq> None"
    using assms by (auto simp: RetainMatchingTags_def RetainGatewayDataplanes_def NewDataplaneOverviews_def Let_def)
  have spec: "map (fst \<circ> Spec) ?items = filter (asked_for request) (map Spec ds)"
    by (auto simp: RetainMatchingTags_def RetainGatewayDataplanes_def NewDataplaneOverviews_def Let_def asked_for_def
        filter_map comp_def)
  obtain l where l: "from_ResourceList (\<lambda>_. DataplaneOverviewType) ?items = Inr l" "map rr_Spec (rrl_Items l) = map Spec ?items"
    using rest_list_of [OF meta] by blast
  have "map (fst \<circ> rr_Spec) (rrl_Items l) = map fst (map Spec ?items)" using l(2) by (simp flip: map_map)
  then show ?thesis using l(1) spec by (auto simp: comp_def)
qed

lemma first_dataplanes_meta:
  assumes "mem_inv cd s"
  shows "\<forall>d \<in> set (first_dataplanes cd n mesh s). Meta d \<noteq> None"
proof -
  have "Meta (decode cd rec) \<noteq> None" if rec: "rec \<in> set s" for rec
  proof -
    obtain spec where "ToJSON cd spec = Inr (rec_Spec rec)" "spec_type spec = rec_ResourceType rec"
      using assms rec by (auto simp: mem_inv_def record_ok_def)
    then show ?thesis using decode_eq [of cd spec rec] assms by (simp add: mem_inv_def)
  qed
  then show ?thesis
    by (auto simp: first_dataplanes_def typed_def List.map_filter_def findRecords_def dest!: in_set_takeD)
qed

lemma fetchOverviews_page:
  assumes inv: "mem_inv cd s" and bound: "int (length s) + 100 < 2 ^ 63"
  shows "\<exists>is. fetchOverviews (customizableManager (Suc fuel) lib now (memory_store cd) cas registry)
      \<lparr>page_size = defaultPageSize, page_offset = ''''\<rparr> mesh s =
    Inr (NewDataplaneOverviews (first_dataplanes cd 100 mesh s)
      (if 100 < length (findRecords s ''Dataplane'' mesh) then ''100'' else '''') is)"
proof -
  have z: "zero_of ''Dataplane'' \<in> set zero_specs" "spec_type (zero_of ''Dataplane'') = ''Dataplane''"
    "zero_of ''DataplaneInsight'' \<in> set zero_specs" "spec_type (zero_of ''DataplaneInsight'') = ''DataplaneInsight''"
    using zero_specs_complete [of "DataplaneSpec d" for d] zero_specs_complete [of "DataplaneInsightSpec d" for d] by simp_all
  have l: "GetItemType (new_list (zero_of ''Dataplane'')) \<noteq> MeshType" "GetItemType (new_list (zero_of ''DataplaneInsight'')) \<noteq> MeshType"
    using z by (simp_all add: GetItemType_def new_list_def MeshType_def)
  have hundred: "format_nat 100 = ''100''" by code_simp
  have "mem_List cd (new_list (zero_of ''Dataplane'')) [ListByMesh mesh, ListByPage 100 ''''] s =
    (None, \<lparr>rl_NewSpec = zero_of ''Dataplane'', rl_Items = map (decode cd) (take 100 (findRecords s ''Dataplane'' mesh)),
      rl_NextOffset = (if 100 < length (findRecords s ''Dataplane'' mesh) then ''100'' else '''')\<rparr>)"
    using page_of [OF inv z(1), of 100 0 "''''" mesh] by (simp add: z(2) hundred)
  moreover have "\<exists>is. mem_List cd (new_list (zero_of ''DataplaneInsight'')) [ListByMesh mesh] s = (None, is)"
    using mem_List_all [OF inv z(3), of mesh] bound by simp
  ultimately show ?thesis
    unfolding fetchOverviews_def memory_manager_List [OF l(1)] memory_manager_List [OF l(2)] defaultPageSize_def
    by (auto simp: first_dataplanes_def)
qed

section \<open>Properties\<close>

text \<open>
  C21. A \<open>PUT\<close> is an upsert.  For a resource that is not a mesh, the request is accepted exactly when its
  body can be read, names the resource of the path, has a valid specification that can be encoded, and
  the resource or its mesh is there already.  Then it is answered with 201 when the resource was new
  and 200 when it was not, the store changes exactly at the type, name and mesh of the request, and a
  \<open>GET\<close> of the same path returns the specification of the body.  Otherwise the answer is an error
  status (or a panic) and the store is unchanged.
\<close>

theorem put_is_upsert:
  assumes "mem_inv cd s" and "mesh_named s" and "int (length s) < 2 ^ 63"
    and "typ \<in> spec_type ` set zero_specs" and "typ \<noteq> MeshType" and "PathParameter ''mesh'' request \<noteq> ''''"
    and "\<forall>body. req_Entity request (zero_of typ) = Inr body \<longrightarrow> spec_type (rr_Spec body) = typ"
    and "key = (typ, PathParameter ''name'' request, PathParameter ''mesh'' request)"
    and "createOrUpdateResource (memory_endpoints fuel lib now cd cas registry url typ) request s = (a, s')"
  shows "case req_Entity request (zero_of typ) of
      Inl _ \<Rightarrow> s' = s \<and> request_rejected a
    | Inr body \<Rightarrow>
        if put_accepted lib cd s typ request body
        then a = Inr \<lparr>rs_Status = (if spec_view cd s key = None then 201 else 200), rs_Body = NoBody\<rparr> \<and>
          mem_inv cd s' \<and> spec_view cd s' = (spec_view cd s)(key \<mapsto> rr_Spec body) \<and>
          (\<exists>res. findResource (memory_endpoints fuel lib now cd cas registry url typ) request s' =
             Inr \<lparr>rs_Status = 200, rs_Body = ResourceBody res\<rparr> \<and> rr_Spec res = rr_Spec body)
        else s' = s \<and> request_rejected a"
proof (cases "req_Entity request (zero_of typ)")
  case (Inl err)
  then show ?thesis using put_outcome [OF assms(1,4,5,7,8,9)] by simp
next
  case (Inr body)
  have acc: "\<not> request_rejected a \<longleftrightarrow> put_accepted lib cd s typ request body"
    using put_accepts [OF assms(1,2,3,6,4,5) Inr _ assms(9)] assms(7) Inr by simp
  have "\<not> request_rejected (Inr \<lparr>rs_Status = (if b then 201 else 200), rs_Body = NoBody\<rparr>)" for b by (simp add: request_rejected_def)
  then show ?thesis using put_outcome [OF assms(1,4,5,7,8,9)] acc Inr by (auto split del: if_split)
qed

text \<open>The example permission is put into the default mesh.\<close>

definition example_body :: "ResourceSpec rest_Resource" where
  "example_body = \<lparr>rr_Meta = \<lparr>rm_Type = ''TrafficPermission'', rm_Mesh = ''default'', rm_Name = ''p'',
     rm_CreationTime = 0, rm_ModificationTime = 0\<rparr>, rr_Spec = TrafficPermissionSpec example_permission\<rparr>"

definition example_api_request :: ApiRequest where
  "example_api_request = \<lparr>req_Path = [(''mesh'', ''default''), (''name'', ''p'')], req_Query = [],
     req_URLPath = ''/meshes/default/traffic-permissions/p'', req_Entity = (\<lambda>_. Inr example_body)\<rparr>"

definition example_put :: "api_answer \<times> memoryStore" where
  "example_put = createOrUpdateResource (memory_endpoints 1 example_library 7 example_codec [] example_registry ''''
     ''TrafficPermission'') example_api_request [example_mesh_record]"

theorem put_is_upsert_witness:
  "fst example_put = Inr \<lparr>rs_Status = 201, rs_Body = NoBody\<rparr> \<and>
   spec_view example_codec (snd example_put) (''TrafficPermission'', ''p'', ''default'') =
     Some (TrafficPermissionSpec example_permission)"
proof -
  let ?t = "''TrafficPermission''"
  have p: "PathParameter ''name'' example_api_request = ''p''" "PathParameter ''mesh'' example_api_request = ''default''"
    by (simp_all add: PathParameter_def example_api_request_def gstr_def)
  have t: "?t \<in> spec_type ` set zero_specs" by (simp add: zero_specs_def)
  have fresh: "spec_view example_codec [example_mesh_record] (?t, ''p'', ''default'') = None"
    "spec_view example_codec [example_mesh_record] (MeshType, ''default'', ''default'') \<noteq> None"
    by (simp_all add: spec_view_def mem_abs_def rec_key_def example_mesh_record_def MeshType_def)
  have "ToJSON example_codec (TrafficPermissionSpec example_permission) = Inr ''permission''" by (simp add: example_codec_def)
  then have acc: "put_accepted example_library example_codec [example_mesh_record] ?t example_api_request example_body"
    using fresh example_resource_valid
    by (simp add: put_accepted_def p example_body_def nameMeshRegexp_def example_resource_def)
  have e: "req_Entity example_api_request (zero_of ?t) = Inr example_body" by (simp add: example_api_request_def)
  from put_is_upsert [OF example_mesh_store_ok _ t _ _ _ refl, where request = example_api_request and fuel = 1 and
      lib = example_library and now = 7 and cas = "[]" and registry = example_registry and url = "''''" and
      a = "fst example_put" and s' = "snd example_put"]
  show ?thesis
    using acc fresh(1) by (simp add: e p example_put_def MeshType_def) (simp add: example_body_def)
qed

lemma addDefinition_routes:
  "route \<in> set (addDefinition readOnly url m d ws) \<Longrightarrow>
     route \<in> set ws \<or> (\<exists>h. route_Handler route = Reads h \<and> route_Method route = GET) \<or>
     \<not> readOnly \<and> (\<exists>h. route_Handler route = Writes h \<and> route_Method route \<noteq> GET)"
  by (auto simp: addDefinition_def Let_def addFindEndpoint_def addListEndpoint_def addCreateOrUpdateEndpoint_def
      addDeleteEndpoint_def split: if_splits)

lemma resource_routes:
  assumes "route \<in> set (addResourcesEndpoints readOnly url m defs [])"
  shows "(\<exists>h. route_Handler route = Reads h \<and> route_Method route = GET) \<or>
    \<not> readOnly \<and> (\<exists>h. route_Handler route = Writes h \<and> route_Method route \<noteq> GET)"
proof -
  have general: "route \<in> set (fold (addDefinition readOnly url m) defs ws) \<Longrightarrow>
      route \<in> set ws \<or> (\<exists>h. route_Handler route = Reads h \<and> route_Method route = GET) \<or>
      \<not> readOnly \<and> (\<exists>h. route_Handler route = Writes h \<and> route_Method route \<noteq> GET)" for ws
  proof (induction defs arbitrary: ws)
    case (Cons d defs)
    then show ?case using Cons.IH [of "addDefinition readOnly url m d ws"] addDefinition_routes [of route readOnly url m d ws] by auto
  qed simp
  let ?overviews = "addOverviewEndpoints url m []"
  have "route \<in> set ?overviews \<Longrightarrow> \<exists>h. route_Handler route = Reads h \<and> route_Method route = GET"
    by (auto simp: addOverviewEndpoints_def)
  moreover have "route \<in> set (fold (addDefinition readOnly url m) defs ?overviews)"
    using assms by (simp add: addResourcesEndpoints_def)
  ultimately show ?thesis using general by blast
qed

text \<open>
  C22. A server that is configured to be read-only offers no endpoint that writes: whatever resources
  are defined, all its routes are \<open>GET\<close> routes to handlers that only read.
\<close>

theorem read_only_server_never_writes:
  assumes "route \<in> set (addResourcesEndpoints True url m defs [])"
  shows "route_Method route = GET \<and> (\<exists>h. route_Handler route = Reads h)"
  using resource_routes [OF assms] by auto

theorem read_only_server_never_writes_witness:
  "\<exists>route h. route \<in> set (addResourcesEndpoints True '''' (example_manager :: memoryStore ResourceManager) ws_All []) \<and>
     route_Path route = ''/meshes/{mesh}/dataplanes'' \<and> route_Method route = GET \<and> route_Handler route = Reads h"
proof -
  let ?m = "example_manager :: memoryStore ResourceManager"
  have "\<exists>route. route \<in> set (addResourcesEndpoints True '''' ?m ws_All []) \<and> route_Path route = ''/meshes/{mesh}/dataplanes''"
    by (intro exI conjI, rule nth_mem [of 6])
      (simp_all add: addResourcesEndpoints_def ws_All_def addDefinition_def Let_def addFindEndpoint_def addListEndpoint_def
        addOverviewEndpoints_def MeshType_def ws_definitions)
  then show ?thesis using read_only_server_never_writes [of _ "''''" ?m ws_All] by blast
qed

text \<open>
  C40. A filtered listing of overviews cannot go past the first page.  In a memory store with more than
  100 dataplanes in the mesh, a request that filters by tags or gateways and does not page is answered
  with the matching ones of the first 100 dataplanes and a link to the next page; the request that the
  link stands for is refused with status 400, since it pages and filters at once.
\<close>

theorem filtered_overviews_are_cut_off:
  assumes "mem_inv cd s" and "int (length s) + 100 < 2 ^ 63"
    and "QueryParameter ''size'' request = ''''" and "QueryParameter ''offset'' request = ''''"
    and "QueryParameter ''tag'' request \<noteq> '''' \<or> QueryParameter ''gateway'' request \<noteq> ''''"
    and "100 < length (findRecords s ''Dataplane'' (PathParameter ''mesh'' request))"
    and "m = customizableManager (Suc fuel) lib now (memory_store cd) cas registry"
    and "next_request = request\<lparr>req_Query := gput ''offset'' [''100''] (req_Query request)\<rparr>"
    and "print_url url (req_URLPath request) (req_Query next_request) = Inr link"
  shows "(\<exists>l. inspectDataplanes print_url url m request s = Inr \<lparr>rs_Status = 200, rs_Body = OverviewsBody l\<rparr> \<and>
      map (fst \<circ> rr_Spec) (rrl_Items l) =
        filter (asked_for request) (map Spec (first_dataplanes cd 100 (PathParameter ''mesh'' request) s)) \<and>
      rrl_Next l = Some link) \<and>
    (\<exists>body. inspectDataplanes print_url url m next_request s = Inr \<lparr>rs_Status = 400, rs_Body = body\<rparr>)"
proof
  let ?mesh = "PathParameter ''mesh'' request"
  have page: "pagination request = Inr \<lparr>page_size = defaultPageSize, page_offset = ''''\<rparr>"
    using assms(3,4) by (simp add: pagination_def)
  obtain is' where f: "fetchOverviews m \<lparr>page_size = defaultPageSize, page_offset = ''''\<rparr> ?mesh s =
      Inr (NewDataplaneOverviews (first_dataplanes cd 100 ?mesh s) ''100'' is')"
    using fetchOverviews_page [OF assms(1,2), of fuel lib now cas registry ?mesh] assms(6,7) by auto
  obtain l where l: "from_ResourceList (\<lambda>_. DataplaneOverviewType)
      (dol_Items (RetainMatchingTags (parseTags (QueryParameters ''tag'' request))
        (if QueryParameter ''gateway'' request = ''true''
         then RetainGatewayDataplanes (NewDataplaneOverviews (first_dataplanes cd 100 ?mesh s) ''100'' is')
         else NewDataplaneOverviews (first_dataplanes cd 100 ?mesh s) ''100'' is'))) = Inr l"
      "map (fst \<circ> rr_Spec) (rrl_Items l) = filter (asked_for request) (map Spec (first_dataplanes cd 100 ?mesh s))"
    using overviews_shown [OF first_dataplanes_meta [OF assms(1)]] by blast
  have next_link: "nextLink print_url url request ''100'' = Inr (Some link)"
    using assms(8,9) by (simp add: nextLink_def map_error_def)
  have offset: "dol_NextOffset (RetainMatchingTags tags (if b then RetainGatewayDataplanes o' else o')) = dol_NextOffset o'"
    for tags b o' by (simp add: RetainMatchingTags_def RetainGatewayDataplanes_def)
  have "dol_NextOffset (NewDataplaneOverviews ds ''100'' is') = ''100''" for ds by (simp add: NewDataplaneOverviews_def Let_def)
  then have "inspectDataplanes print_url url m request s = answer_ok (OverviewsBody (l\<lparr>rrl_Next := Some link\<rparr>))"
    using assms(3,4) unfolding inspectDataplanes_def Let_def page
    by (simp add: f l(1) offset next_link del: if_split)
  then show "\<exists>l. inspectDataplanes print_url url m request s = Inr \<lparr>rs_Status = 200, rs_Body = OverviewsBody l\<rparr> \<and>
      map (fst \<circ> rr_Spec) (rrl_Items l) = filter (asked_for request) (map Spec (first_dataplanes cd 100 ?mesh s)) \<and>
      rrl_Next l = Some link"
    using l(2) by (simp add: answer_ok_def)
next
  have query: "QueryParameters name next_request = (if name = ''offset'' then [''100''] else QueryParameters name request)" for name
    using assms(8) by (simp add: QueryParameters_def glist_gput)
  then have params: "QueryParameter ''size'' next_request = ''''" "QueryParameter ''offset'' next_request \<noteq> ''''"
    "QueryParameter ''tag'' next_request \<noteq> '''' \<or> QueryParameter ''gateway'' next_request \<noteq> ''''"
    using assms(3,5) by (simp_all add: QueryParameter_def)
  then have "inspectDataplanes print_url url m next_request s = answer_error PaginationNotSupported ''Could not retrieve dataplane overviews''"
    by (auto simp: inspectDataplanes_def Let_def pagination_def)
  also have "\<dots> = Inr (writeError 400 ''Could not retrieve dataplane overviews'' (error_text PaginationNotSupported) [])"
    by code_simp
  finally show "\<exists>body. inspectDataplanes print_url url m next_request s = Inr \<lparr>rs_Status = 400, rs_Body = body\<rparr>"
    by (simp add: writeError_def)
qed

text \<open>A mesh with 101 dataplanes.\<close>

definition crowded_store :: memoryStore where
  "crowded_store = map (\<lambda>i. \<lparr>rec_ResourceType = ''Dataplane'', rec_Name = format_nat i, rec_Mesh = ''default'', rec_Version = 1,
     rec_Spec = ''dataplane'', rec_CreationTime = 7, rec_ModificationTime = 7\<rparr>) [0..<101]"

definition filtered_request :: "(string, string list) gomap \<Rightarrow> ApiRequest" where
  "filtered_request query = \<lparr>req_Path = [(''mesh'', ''default'')], req_Query = query,
     req_URLPath = ''/meshes/default/dataplanes+insights'', req_Entity = (\<lambda>_. Inl (ErrString ''EOF''))\<rparr>"

theorem filtered_overviews_are_cut_off_witness:
  "\<exists>l body. inspectDataplanes (\<lambda>u p q. Inr (u @ p)) ''http://cp'' example_manager
       (filtered_request [(''tag'', [''service:mobile''])]) crowded_store = Inr \<lparr>rs_Status = 200, rs_Body = OverviewsBody l\<rparr> \<and>
     rrl_Next l = Some ''http://cp/meshes/default/dataplanes+insights'' \<and>
     inspectDataplanes (\<lambda>u p q. Inr (u @ p)) ''http://cp'' example_manager
       (filtered_request [(''tag'', [''service:mobile'']), (''offset'', [''100''])]) crowded_store =
       Inr \<lparr>rs_Status = 400, rs_Body = body\<rparr>"
proof -
  let ?r = "filtered_request [(''tag'', [''service:mobile''])]" and ?p = "\<lambda>u p q. Inr (u @ p)"
  have q: "QueryParameter ''size'' ?r = ''''" "QueryParameter ''offset'' ?r = ''''" "QueryParameter ''tag'' ?r \<noteq> ''''"
    by (simp_all add: QueryParameter_def QueryParameters_def filtered_request_def glist_def)
  have "ToJSON example_codec (DataplaneSpec example_dataplane) = Inr ''dataplane''" by (simp add: example_codec_def)
  then have "\<forall>rec \<in> set crowded_store. record_ok example_codec rec"
    by (auto simp: crowded_store_def record_ok_def intro!: exI [of _ "DataplaneSpec example_dataplane"])
  moreover have "unique_keys crowded_store"
    by (simp add: unique_keys_def crowded_store_def rec_key_def distinct_map inj_on_def comp_def)
  ultimately have inv: "mem_inv example_codec crowded_store" by (simp add: mem_inv_def example_codec_ok)
  have len: "length (findRecords crowded_store ''Dataplane'' (PathParameter ''mesh'' ?r)) = 101" "length crowded_store = 101"
    by (simp_all add: findRecords_def crowded_store_def filtered_request_def PathParameter_def gstr_def comp_def)
  have nx: "filtered_request [(''tag'', [''service:mobile'']), (''offset'', [''100''])] =
      ?r\<lparr>req_Query := gput ''offset'' [''100''] (req_Query ?r)\<rparr>"
    by (simp add: filtered_request_def)
  from filtered_overviews_are_cut_off [OF inv _ q(1,2) _ _ _ nx,
      where m = example_manager and fuel = 1 and lib = example_library and now = 7 and cas = "[]" and registry = example_registry and
      print_url = ?p and url = "''http://cp''" and link = "''http://cp/meshes/default/dataplanes+insights''"]
  show ?thesis using q(3) len by (auto simp: example_manager_def numeral_2_eq_2 filtered_request_def)
qed

end
