(* ===== verification/Spec2Isabelle.thy ===== *)
theory Spec2Isabelle
  imports Stream_Tracking Discovery_Server Monitoring Snapshot_Reconciler Rest_Api
begin

text \<open>
  Verification of the core of Kuma, the control plane of a service mesh (\<open>src/pkg\<close>, \<open>src/api\<close>).

  \<^bold>\<open>The program.\<close>  Operators describe meshes, dataplanes and policies as resources.  Managers validate
  the resources and keep them in a store.  For every Envoy proxy that is connected, the control plane
  looks on a timer at the stored resources, works out what concerns the proxy (routes, endpoints,
  permissions, logs, health checks, fault injections), generates the configuration of its Envoy from
  that and puts it into a snapshot cache.  A discovery server streams the snapshots to the proxies,
  and trackers of its streams record which proxy is connected and what it has acknowledged.  A second,
  smaller server tells Prometheus where the metrics of the dataplanes are.

  \<^bold>\<open>The theories\<close>, from the bottom up, with the files they model.

    \<^item> \<open>Go_Prelude\<close>, \<open>Go_Strings\<close>: Go's errors, maps and loops, and the functions of its library on
      strings, numbers and addresses that the code calls.
    \<^item> \<open>Tag_Selectors\<close> (\<open>api/mesh/v1alpha1/dataplane_helpers.go\<close>): tags, selectors and their ranks.
    \<^item> \<open>Resource_Model\<close>, \<open>Validation_Core\<close> (\<open>pkg/core/resources/model\<close>, \<open>pkg/core/validators\<close>,
      \<open>apis/mesh/validators.go\<close>): metadata, validation errors, shared validators.
    \<^item> \<open>Dataplane_Model\<close>, \<open>Mesh_Model\<close>, \<open>Resource_Validators\<close> (\<open>pkg/core/resources/apis/mesh\<close>): the
      resources, their helpers, defaults and validators.
    \<^item> \<open>Policy_Matching\<close> (\<open>pkg/core/policy\<close>): which policy applies to a dataplane, an inbound or a
      connection.  \<open>Validated_Resources\<close>: what validation guarantees to the matchers.
    \<^item> \<open>Access_Log_Format\<close>, \<open>Access_Log_Entry\<close> (\<open>pkg/envoy/accesslog\<close>): format strings, parsed, printed,
      interpolated and applied to log entries.
    \<^item> \<open>Resource_Specs\<close>, \<open>Resource_Store\<close>, \<open>Resource_Manager\<close>, \<open>Mesh_Manager\<close> (\<open>pkg/core/resources\<close>,
      \<open>pkg/plugins/resources/memory\<close>, \<open>pkg/core/managers\<close>, \<open>pkg/core/secrets\<close>): all resource types under one
      type, the in-memory store, the generic, cached, mesh and secret managers.
    \<^item> \<open>Xds_Types\<close>, \<open>Topology\<close>, \<open>Proxy_Sync\<close> (\<open>pkg/core/xds\<close>, \<open>pkg/xds/topology\<close>, \<open>pkg/core/permissions\<close>,
      \<open>logs\<close>, \<open>faultinjections\<close>, \<open>pkg/xds/server/components.go\<close>): from the store to the \<open>Proxy\<close> of a dataplane,
      and the tick that builds it.
    \<^item> \<open>Envoy_Config\<close>, \<open>Envoy_Listeners\<close>, \<open>Proxy_Generator\<close> (\<open>pkg/xds/envoy\<close>, \<open>pkg/xds/generator\<close>): from the
      \<open>Proxy\<close> to clusters, load assignments, routes and listeners.
    \<^item> \<open>Snapshot_Reconciler\<close> (\<open>pkg/xds/server/reconcile.go\<close>, \<open>proxy_template_resolver.go\<close>): from the
      configuration to the snapshot in the cache, and its versions.
    \<^item> \<open>Snapshot_Cache\<close>, \<open>Discovery_Server\<close>, \<open>Stream_Tracking\<close>, \<open>Dataplane_Insight\<close> (\<open>pkg/util/xds\<close>,
      \<open>pkg/xds/server\<close>, \<open>pkg/xds/sync\<close>, \<open>dataplane_insight_helpers.go\<close>): the snapshot cache with its watches, the
      loop of a stream, the callbacks and the status they write.
    \<^item> \<open>Monitoring\<close> (\<open>pkg/mads\<close>): monitoring assignments and their reconciler.
    \<^item> \<open>Rest_Api\<close> (\<open>pkg/api-server\<close>, \<open>pkg/core/rest\<close>, \<open>pkg/core/resources/model/rest\<close>): the handlers of the REST
      API, its error answers and pages, and its table of endpoints.

  \<^bold>\<open>State and operations.\<close>  A Go struct is a record or a datatype with the fields that the code reads or
  sets; a map is an association list (\<open>gomap\<close>) where the order of iteration or printing matters; a
  fallible function returns \<open>go_error + 'a\<close>, in which a panic is an error of its own, \<open>ErrPanic\<close>, that
  wrapping does not hide.  An operation that changes state takes the state and returns the new one.
  Machine integers are words.  Goroutines, streams and timers appear as the steps of \<open>inductive\<close>
  relations: \<open>managed\<close> (states of the store that the managers reach), the reachable caches, the
  interleavings of streams with other users of the cache, of status sinks with streams, and of ticks.

  \<^bold>\<open>What is shown.\<close>  The properties are numbered in order of importance.

    \<^item> End to end: a tick leaves Envoy with the old snapshot or with a closed one (\<open>Snapshot_Reconciler\<close>);
      the generated configuration is closed and well formed, guards inbound traffic with client
      certificates and exactly the matched permission, balances over exactly the matching endpoints, and
      is generated at all for validated resources (\<open>Proxy_Generator\<close>).  The pieces are joined by
      locales: \<open>valid_reads\<close> between the managers and the tick, \<open>snapshot_store\<close> between the reconciler and
      a snapshot cache, \<open>versioned_snapshots\<close> between the versioner and snapshots.
    \<^item> Selection: each matcher returns the policy that is best in a declarative order, whatever the
      order of the input (\<open>Policy_Matching\<close>); routes and endpoints are those the matched policies
      describe (\<open>Topology\<close>).
    \<^item> Storage: the memory store refines a map with versions, pagination ends and is complete, only
      valid resources of existing meshes are ever stored, deleting a mesh removes what belongs to it
      (\<open>Resource_Store\<close>, \<open>Resource_Manager\<close>, \<open>Mesh_Manager\<close>).  Over HTTP, a \<open>PUT\<close> is an upsert that is
      accepted exactly when it should be, and a read-only server never writes (\<open>Rest_Api\<close>).
    \<^item> Delivery: no open watch waits for a version that is already there, streams leave no watch
      behind, stale requests are ignored, versions change exactly with resources, every stream is
      tracked and its end is recorded (\<open>Snapshot_Cache\<close>, \<open>Discovery_Server\<close>, \<open>Stream_Tracking\<close>).
    \<^item> Texts: formats, interfaces and ids are read back from what is printed (\<open>Access_Log_Format\<close>,
      \<open>Dataplane_Model\<close>, \<open>Xds_Types\<close>).
    \<^item> Where the code does something else than it means to, the theorem states what it does:
      percentages of fault injections, accepted bandwidth limits, negative page offsets, empty
      selectors, the cache key of reads, the effect of a failed listing of templates, filtered listings
      of overviews.

  \<^bold>\<open>Bounds and fuel.\<close>  The customisable manager and the managers it delegates to call each other, with
  a fuel of two calls (\<open>Suc fuel\<close> for any \<open>fuel\<close> in the theorems), since a delegate never
  delegates again.  The theorems on lists assume fewer than \<open>2 ^ 63\<close> resources, those on nonces
  fewer than \<open>2 ^ 63\<close> responses per stream, those on watches that the watch counter has not wrapped.
  Draining a page by page listing uses as fuel the number of records, which is shown to suffice.

  \<^bold>\<open>Choices.\<close>  All reads of one tick see one state of the store.  A flush of a status sink is one step, as
  is an upsert.  Channels of capacity one are lists of at most one element; a send that would block is
  an error.  Callbacks that are \<open>nil\<close> do nothing.  Log output is left out.  Parameters stand for code that
  is not part of the repository: the packing of protobuf messages (with the law that unpacking gives
  back what was packed), \<open>proto.Merge\<close>, \<open>proto.Equal\<close>, the conversion of YAML and JSON, the conversion of
  floats that do not fit, URL parsing, certificate authorities, the snapshot cache of Envoy's library,
  UUIDs and clocks.

  \<^bold>\<open>Not modelled.\<close>  Command line tools, agents and the user interface; the listening of HTTP and gRPC
  servers, and the catalog, configuration and index pages of the REST API; the injector, controllers and webhooks for Kubernetes, whose code edits objects of Kubernetes'
  libraries; the Postgres, Kubernetes and remote stores, which are clients of other systems; X.509,
  tokens and secret discovery; the loading of settings; code generated from protobuf files.
\<close>

end
